(* ===== verification/Prelude.thy ===== *)
theory Prelude
  imports Main "HOL-Library.Sublist"
begin

text \<open>
  Shared foundations of the development.

  \<^item> JavaScript values: strings as lists of UTF-16 code units, numbers, arrays and objects
    as the constructors of \<open>jsval\<close>; character classes and the decimal notation of integers.
  \<^item> Transactions: \<open>'w \<Rightarrow> 'e + ('a \<times> 'w)\<close>, a state-passing computation that either throws
    (\<open>Inl\<close>, the database is rolled back by forgetting the intermediate states) or returns a
    value with the new state.
  \<^item> Tables: lists of rows, with the Prisma calls \<open>findUnique\<close>, \<open>create\<close>, \<open>update\<close>,
    \<open>updateMany\<close>, \<open>upsert\<close> and \<open>count\<close> over them.
  \<^item> The calculus \<open>steps R m\<close>: every committed run of \<open>m\<close> relates the state before to the
    state after by \<open>R\<close>; its rules are proved once in the locale \<open>step_preorder\<close> and carried by
    the collection \<open>steps_intro\<close>.
\<close>

named_theorems steps_intro \<open>structural rules for the steps calculus\<close>
named_theorems tx_simps \<open>equations that run a transaction symbolically\<close>

section \<open>JavaScript strings and values\<close>

type_synonym jsstring = "nat list"
type_synonym date = int

definition js :: "string \<Rightarrow> jsstring" where
  "js s = map of_char s"

lemma js_inject [simp]: "js s = js t \<longleftrightarrow> s = t"
  by (auto simp: js_def inj_map_eq_map [OF inj_of_char])

lemma js_Nil [simp]: "js [] = []"
  by (simp add: js_def)

lemma js_eq_Nil [simp]: "js s = [] \<longleftrightarrow> s = []"
  by (simp add: js_def)

lemma length_js [simp]: "length (js s) = length s"
  by (simp add: js_def)

text \<open>
  A value of static type \<open>unknown\<close>. \<open>JFloat t\<close> is a finite number that is not an integer, given
  by the text \<open>Number.prototype.toString\<close> prints for it; \<open>JNonFinite\<close> is NaN or an infinity;
  an object lists its own enumerable properties in insertion order.
\<close>

datatype jsval =
    JUndef
  | JNull
  | JBool bool
  | JInt int
  | JFloat jsstring
  | JNonFinite
  | JStr jsstring
  | JArr "jsval list"
  | JObj "(jsstring \<times> jsval) list"

definition obj :: "(string \<times> jsval) list \<Rightarrow> jsval" where
  "obj kvs = JObj (map (\<lambda>(k, v). (js k, v)) kvs)"

fun jsfield :: "jsval \<Rightarrow> string \<Rightarrow> jsval" where
  "jsfield (JObj kvs) k = (case map_of kvs (js k) of None \<Rightarrow> JUndef | Some v \<Rightarrow> v)"
| "jsfield v k = JUndef"

fun object_keys :: "jsval \<Rightarrow> jsstring list" where
  "object_keys (JObj kvs) = map fst kvs"
| "object_keys v = []"

definition opt_js :: "('a \<Rightarrow> jsval) \<Rightarrow> 'a option \<Rightarrow> jsval" where
  "opt_js f x = (case x of None \<Rightarrow> JNull | Some v \<Rightarrow> f v)"

definition MAX_SAFE_INTEGER :: int where
  "MAX_SAFE_INTEGER = 9007199254740991"

definition is_safe_integer :: "int \<Rightarrow> bool" where
  "is_safe_integer n \<longleftrightarrow> - MAX_SAFE_INTEGER \<le> n \<and> n \<le> MAX_SAFE_INTEGER"

text \<open>\<open>BigInt\<close> division truncates towards zero.\<close>

definition bigint_div :: "int \<Rightarrow> int \<Rightarrow> int" where
  "bigint_div a b = sgn a * sgn b * (\<bar>a\<bar> div \<bar>b\<bar>)"

definition bigint_mod :: "int \<Rightarrow> int \<Rightarrow> int" where
  "bigint_mod a b = a - b * bigint_div a b"

lemma bigint_div_nonneg [simp]: "0 \<le> a \<Longrightarrow> 0 < b \<Longrightarrow> bigint_div a b = a div b"
  by (cases "a = 0") (simp_all add: bigint_div_def)

lemma bigint_mod_nonneg [simp]: "0 \<le> a \<Longrightarrow> 0 < b \<Longrightarrow> bigint_mod a b = a mod b"
  by (simp add: bigint_mod_def minus_mult_div_eq_mod)

text \<open>Sequencing of computations that may throw and touch no state.\<close>

definition sbind :: "'e + 'a \<Rightarrow> ('a \<Rightarrow> 'e + 'b) \<Rightarrow> 'e + 'b" where
  "sbind r f = (case r of Inl e \<Rightarrow> Inl e | Inr x \<Rightarrow> f x)"

lemma sbind_simps [simp]: "sbind (Inl e) f = Inl e" "sbind (Inr x) f = f x"
  by (simp_all add: sbind_def)

text \<open>Simplification evaluates the first step before it looks at the rest.\<close>

lemma sbind_weak_cong [cong]: "r = r' \<Longrightarrow> sbind r f = sbind r' f"
  by simp

lemma sbind_Inr: "sbind r f = Inr y \<longleftrightarrow> (\<exists>x. r = Inr x \<and> f x = Inr y)"
  by (cases r) auto

text \<open>\<open>if (!b) throw e\<close>.\<close>

definition require :: "'e \<Rightarrow> bool \<Rightarrow> 'e + unit" where
  "require e b = (if b then Inr () else Inl e)"

lemma require_Inr [simp]: "require e b = Inr u \<longleftrightarrow> b"
  by (simp add: require_def)

lemma require_simps [simp]: "require e True = Inr ()" "require e False = Inl e"
  by (simp_all add: require_def)

lemma map_of_js_obj: "map_of (map (\<lambda>(k, v). (js k, v)) kvs) (js k) = map_of kvs k"
  by (induction kvs) auto

lemma jsfield_obj:
  "jsfield (obj kvs) k = (case map_of kvs k of None \<Rightarrow> JUndef | Some v \<Rightarrow> v)"
  by (simp add: obj_def map_of_js_obj)

lemma jsfield_obj_simps [simp]:
  "jsfield (obj []) k' = JUndef"
  "jsfield (obj ((k, v) # kvs)) k' = (if k' = k then v else jsfield (obj kvs) k')"
  by (simp_all add: jsfield_obj)

lemma obj_weak_cong [cong]: "obj kvs = obj kvs"
  by simp

lemma length_object_keys_obj [simp]: "length (object_keys (obj kvs)) = length kvs"
  by (simp add: obj_def)

section \<open>Character classes and regular expressions of fixed shape\<close>

definition is_digit :: "nat \<Rightarrow> bool" where
  "is_digit c \<longleftrightarrow> 48 \<le> c \<and> c \<le> 57"

definition is_lower_hex :: "nat \<Rightarrow> bool" where
  "is_lower_hex c \<longleftrightarrow> is_digit c \<or> 97 \<le> c \<and> c \<le> 102"

definition is_alnum :: "nat \<Rightarrow> bool" where
  "is_alnum c \<longleftrightarrow> is_digit c \<or> 65 \<le> c \<and> c \<le> 90 \<or> 97 \<le> c \<and> c \<le> 122"

text \<open>The class \<open>\s\<close> of a JavaScript regular expression.\<close>

definition is_space :: "nat \<Rightarrow> bool" where
  "is_space c \<longleftrightarrow> 9 \<le> c \<and> c \<le> 13 \<or> c = 32 \<or> c = 160 \<or> c = 5760 \<or> 8192 \<le> c \<and> c \<le> 8202
     \<or> c = 8232 \<or> c = 8233 \<or> c = 8239 \<or> c = 8287 \<or> c = 12288 \<or> c = 65279"

text \<open>A regular expression that is a sequence of character classes, anchored at both ends.\<close>

definition match_classes :: "(nat \<Rightarrow> bool) list \<Rightarrow> jsstring \<Rightarrow> bool" where
  "match_classes ps s \<longleftrightarrow> list_all2 (\<lambda>p c. p c) ps s"

lemma match_classes_length: "match_classes ps s \<Longrightarrow> length s = length ps"
  by (simp add: match_classes_def list_all2_lengthD)

section \<open>Decimal notation\<close>

fun dec :: "nat \<Rightarrow> jsstring" where
  "dec n = (if n < 10 then [48 + n] else dec (n div 10) @ [48 + n mod 10])"

declare dec.simps [simp del]

definition undec :: "jsstring \<Rightarrow> nat" where
  "undec s = foldl (\<lambda>a c. 10 * a + (c - 48)) 0 s"

definition dec_int :: "int \<Rightarrow> jsstring" where
  "dec_int n = (if n < 0 then 45 # dec (nat (- n)) else dec (nat n))"

lemma undec_snoc [simp]: "undec (s @ [c]) = 10 * undec s + (c - 48)"
  by (simp add: undec_def)

lemma undec_Nil [simp]: "undec [] = 0"
  by (simp add: undec_def)

lemma undec_dec [simp]: "undec (dec n) = n"
proof (induction n rule: dec.induct)
  case (1 n)
  show ?case
  proof (cases "n < 10")
    case True
    then show ?thesis
      by (simp add: dec.simps [of n] undec_def)
  next
    case False
    with 1 show ?thesis
      by (simp add: dec.simps [of n])
  qed
qed

lemma dec_inject [simp]: "dec m = dec n \<longleftrightarrow> m = n"
  by (metis undec_dec)

lemma dec_digits: "c \<in> set (dec n) \<Longrightarrow> is_digit c"
proof (induction n rule: dec.induct)
  case (1 n)
  then show ?case
    by (subst (asm) (2) dec.simps) (auto simp: is_digit_def split: if_splits)
qed

lemma dec_nonempty [simp]: "dec n \<noteq> []"
  by (subst dec.simps) simp

lemma dec_int_inject [simp]: "dec_int m = dec_int n \<longleftrightarrow> m = n"
proof
  have no_minus: "dec k = 45 # xs \<Longrightarrow> False" for k xs
    using dec_digits [of 45 k] by (simp add: is_digit_def)
  assume "dec_int m = dec_int n"
  then show "m = n"
    using no_minus no_minus [OF sym] by (auto simp: dec_int_def split: if_splits)
qed simp

lemma dec_lead: "0 < n \<Longrightarrow> hd (dec n) \<noteq> 48"
proof (induction n rule: dec.induct)
  case (1 n)
  then show ?case
    by (subst dec.simps) (auto simp: hd_append)
qed

section \<open>Transactions\<close>

type_synonym ('w, 'e, 'a) tx = "'w \<Rightarrow> 'e + 'a \<times> 'w"

definition ret :: "'a \<Rightarrow> ('w, 'e, 'a) tx" where
  "ret x w = Inr (x, w)"

definition throw :: "'e \<Rightarrow> ('w, 'e, 'a) tx" where
  "throw e w = Inl e"

definition bnd :: "('w, 'e, 'a) tx \<Rightarrow> ('a \<Rightarrow> ('w, 'e, 'b) tx) \<Rightarrow> ('w, 'e, 'b) tx" where
  "bnd m f w = (case m w of Inl e \<Rightarrow> Inl e | Inr (x, w') \<Rightarrow> f x w')"

definition thn :: "('w, 'e, 'a) tx \<Rightarrow> ('w, 'e, 'b) tx \<Rightarrow> ('w, 'e, 'b) tx" where
  "thn m k = bnd m (\<lambda>_. k)"

definition gets :: "('w \<Rightarrow> 'a) \<Rightarrow> ('w, 'e, 'a) tx" where
  "gets f w = Inr (f w, w)"

definition modify :: "('w \<Rightarrow> 'w) \<Rightarrow> ('w, 'e, unit) tx" where
  "modify f w = Inr ((), f w)"

definition check :: "'e \<Rightarrow> bool \<Rightarrow> ('w, 'e, unit) tx" where
  "check e b = (if b then ret () else throw e)"

definition lift_sum :: "'e + 'a \<Rightarrow> ('w, 'e, 'a) tx" where
  "lift_sum r = (case r of Inl e \<Rightarrow> throw e | Inr x \<Rightarrow> ret x)"

definition the_or :: "'e \<Rightarrow> 'a option \<Rightarrow> ('w, 'e, 'a) tx" where
  "the_or e x = (case x of None \<Rightarrow> throw e | Some v \<Rightarrow> ret v)"

fun for_each :: "('a \<Rightarrow> ('w, 'e, unit) tx) \<Rightarrow> 'a list \<Rightarrow> ('w, 'e, unit) tx" where
  "for_each f [] = ret ()"
| "for_each f (x # xs) = thn (f x) (for_each f xs)"

fun sum_each :: "('a \<Rightarrow> ('w, 'e, nat) tx) \<Rightarrow> 'a list \<Rightarrow> ('w, 'e, nat) tx" where
  "sum_each f [] = ret 0"
| "sum_each f (x # xs) = bnd (f x) (\<lambda>n. bnd (sum_each f xs) (\<lambda>k. ret (n + k)))"

lemma bnd_weak_cong [cong]: "m = m' \<Longrightarrow> bnd m f = bnd m' f"
  by simp

lemma thn_weak_cong [cong]: "m = m' \<Longrightarrow> thn m k = thn m' k"
  by simp

lemma ret_run [tx_simps]: "ret x w = Inr (x, w)"
  by (simp add: ret_def)

lemma throw_run [tx_simps]: "throw e w = Inl e"
  by (simp add: throw_def)

lemma gets_run [tx_simps]: "gets f w = Inr (f w, w)"
  by (simp add: gets_def)

lemma modify_run [tx_simps]: "modify f w = Inr ((), f w)"
  by (simp add: modify_def)

lemma check_run [tx_simps]: "check e b w = (if b then Inr ((), w) else Inl e)"
  by (simp add: check_def ret_def throw_def)

lemma the_or_run [tx_simps]:
  "the_or e x w = (case x of None \<Rightarrow> Inl e | Some v \<Rightarrow> Inr (v, w))"
  by (simp add: the_or_def ret_def throw_def split: option.split)

lemma lift_sum_run [tx_simps]:
  "lift_sum r w = (case r of Inl e \<Rightarrow> Inl e | Inr v \<Rightarrow> Inr (v, w))"
  by (simp add: lift_sum_def ret_def throw_def split: sum.split)

lemma bnd_run [tx_simps]:
  "bnd m f w = (case m w of Inl e \<Rightarrow> Inl e | Inr (x, w') \<Rightarrow> f x w')"
  by (simp add: bnd_def)

lemma thn_run [tx_simps]:
  "thn m k w = (case m w of Inl e \<Rightarrow> Inl e | Inr (x, w') \<Rightarrow> k w')"
  by (simp add: thn_def bnd_def)

text \<open>Inversion: what a committed run of each combinator went through.\<close>

lemma ret_Inr [simp]: "ret x w = Inr (y, w') \<longleftrightarrow> y = x \<and> w' = w"
  by (auto simp: ret_def)

lemma throw_Inr [simp]: "throw e w = Inr r \<longleftrightarrow> False"
  by (simp add: throw_def)

lemma gets_Inr [simp]: "gets f w = Inr (y, w') \<longleftrightarrow> y = f w \<and> w' = w"
  by (auto simp: gets_def)

lemma modify_Inr [simp]: "modify f w = Inr (y, w') \<longleftrightarrow> w' = f w"
  by (auto simp: modify_def)

lemma check_Inr [simp]: "check e b w = Inr (y, w') \<longleftrightarrow> b \<and> w' = w"
  by (auto simp: check_def)

lemma the_or_Inr [simp]: "the_or e x w = Inr (y, w') \<longleftrightarrow> x = Some y \<and> w' = w"
  by (auto simp: the_or_def split: option.split)

lemma lift_sum_Inr [simp]: "lift_sum r w = Inr (y, w') \<longleftrightarrow> r = Inr y \<and> w' = w"
  by (auto simp: lift_sum_def split: sum.split)

lemma bnd_Inr: "bnd m f w = Inr (y, w') \<longleftrightarrow> (\<exists>x w1. m w = Inr (x, w1) \<and> f x w1 = Inr (y, w'))"
  by (auto simp: bnd_def split: sum.split)

lemma thn_Inr: "thn m k w = Inr (y, w') \<longleftrightarrow> (\<exists>x w1. m w = Inr (x, w1) \<and> k w1 = Inr (y, w'))"
  by (auto simp: thn_def bnd_Inr)

lemmas run_Inr = bnd_Inr thn_Inr

lemma bnd_InrE [elim!]:
  assumes "bnd m f w = Inr (y, w')"
  obtains x w1 where "m w = Inr (x, w1)" and "f x w1 = Inr (y, w')"
  using assms by (auto simp: bnd_Inr)

lemma thn_InrE [elim!]:
  assumes "thn m k w = Inr (y, w')"
  obtains x w1 where "m w = Inr (x, w1)" and "k w1 = Inr (y, w')"
  using assms by (auto simp: thn_Inr)

section \<open>The steps calculus\<close>

definition steps :: "('w \<Rightarrow> 'w \<Rightarrow> bool) \<Rightarrow> ('w, 'e, 'a) tx \<Rightarrow> bool" where
  "steps R m \<longleftrightarrow> (\<forall>w x w'. m w = Inr (x, w') \<longrightarrow> R w w')"

lemma stepsI: "(\<And>w x w'. m w = Inr (x, w') \<Longrightarrow> R w w') \<Longrightarrow> steps R m"
  by (auto simp: steps_def)

lemma stepsD: "steps R m \<Longrightarrow> m w = Inr (x, w') \<Longrightarrow> R w w'"
  by (auto simp: steps_def)

text \<open>An invariant is kept by \<open>m\<close> when \<open>m\<close> steps along the preorder \<open>keeps I\<close>.\<close>

definition keeps :: "('w \<Rightarrow> bool) \<Rightarrow> 'w \<Rightarrow> 'w \<Rightarrow> bool" where
  "keeps I w w' \<longleftrightarrow> (I w \<longrightarrow> I w')"

lemma keepsI: "(I w \<Longrightarrow> I w') \<Longrightarrow> keeps I w w'"
  by (simp add: keeps_def)

locale step_preorder =
  fixes R :: "'w \<Rightarrow> 'w \<Rightarrow> bool"
  assumes step_refl: "R w w"
    and step_trans: "R a b \<Longrightarrow> R b c \<Longrightarrow> R a c"
begin

lemma steps_ret [steps_intro]: "steps R (ret x)"
  by (auto simp: steps_def step_refl)

lemma steps_throw [steps_intro]: "steps R (throw e)"
  by (auto simp: steps_def)

lemma steps_gets [steps_intro]: "steps R (gets f)"
  by (auto simp: steps_def step_refl)

lemma steps_check [steps_intro]: "steps R (check e b)"
  by (auto simp: steps_def step_refl)

lemma steps_the_or [steps_intro]: "steps R (the_or e x)"
  by (auto simp: steps_def step_refl)

lemma steps_lift_sum [steps_intro]: "steps R (lift_sum r)"
  by (auto simp: steps_def step_refl)

lemma steps_bnd [steps_intro]: "steps R m \<Longrightarrow> (\<And>x. steps R (f x)) \<Longrightarrow> steps R (bnd m f)"
  unfolding steps_def by (blast intro: step_trans)

lemma steps_thn [steps_intro]: "steps R m \<Longrightarrow> steps R k \<Longrightarrow> steps R (thn m k)"
  unfolding steps_def by (blast intro: step_trans)

lemma steps_if [steps_intro]: "steps R a \<Longrightarrow> steps R b \<Longrightarrow> steps R (if c then a else b)"
  by simp

lemma steps_option [steps_intro]:
  "steps R a \<Longrightarrow> (\<And>x. steps R (f x)) \<Longrightarrow> steps R (case v of None \<Rightarrow> a | Some x \<Rightarrow> f x)"
  by (cases v) auto

lemma steps_sum [steps_intro]:
  "(\<And>x. steps R (f x)) \<Longrightarrow> (\<And>x. steps R (g x)) \<Longrightarrow>
     steps R (case v of Inl x \<Rightarrow> f x | Inr x \<Rightarrow> g x)"
  by (cases v) auto

lemma steps_prod [steps_intro]:
  "(\<And>x y. steps R (f x y)) \<Longrightarrow> steps R (case v of (x, y) \<Rightarrow> f x y)"
  by (cases v) auto

lemma steps_let [steps_intro]: "(\<And>x. steps R (f x)) \<Longrightarrow> steps R (let x = v in f x)"
  by (simp add: Let_def)

lemma steps_for_each [steps_intro]: "(\<And>x. steps R (f x)) \<Longrightarrow> steps R (for_each f xs)"
  by (induction xs) (auto intro: steps_ret steps_thn)

lemma steps_sum_each [steps_intro]: "(\<And>x. steps R (f x)) \<Longrightarrow> steps R (sum_each f xs)"
  by (induction xs) (auto intro!: steps_ret steps_bnd)

lemma steps_modify: "(\<And>w. R w (f w)) \<Longrightarrow> steps R (modify f)"
  by (auto simp: steps_def)

end

lemma step_preorder_keeps: "step_preorder (keeps I)"
  by unfold_locales (auto simp: keeps_def)

section \<open>Tables\<close>

text \<open>
  A table is a list of rows in insertion order. \<open>upd_rows\<close> is the effect of an SQL UPDATE. The
  Prisma calls are parameterised by the table's projection \<open>get\<close> and record update \<open>upd\<close>.
\<close>

definition upd_rows :: "('r \<Rightarrow> bool) \<Rightarrow> ('r \<Rightarrow> 'r) \<Rightarrow> 'r list \<Rightarrow> 'r list" where
  "upd_rows P f rows = map (\<lambda>r. if P r then f r else r) rows"

definition count_rows :: "('r \<Rightarrow> bool) \<Rightarrow> 'r list \<Rightarrow> nat" where
  "count_rows P rows = length (filter P rows)"

text \<open>\<open>create\<close>: a row that repeats a unique key is refused (Prisma error P2002).\<close>

definition create_row ::
    "('w \<Rightarrow> 'r list) \<Rightarrow> (('r list \<Rightarrow> 'r list) \<Rightarrow> 'w \<Rightarrow> 'w) \<Rightarrow> ('r \<Rightarrow> 'r \<Rightarrow> bool) \<Rightarrow> 'e \<Rightarrow> 'r \<Rightarrow>
     ('w, 'e, 'r) tx" where
  "create_row get upd clash p2002 row w =
     (if \<exists>r \<in> set (get w). clash r row then Inl p2002
      else Inr (row, upd (\<lambda>rows. rows @ [row]) w))"

text \<open>\<open>update\<close>: no row to update is an error (Prisma error P2025); the first row is returned.\<close>

definition update_row ::
    "('w \<Rightarrow> 'r list) \<Rightarrow> (('r list \<Rightarrow> 'r list) \<Rightarrow> 'w \<Rightarrow> 'w) \<Rightarrow> 'e \<Rightarrow> ('r \<Rightarrow> bool) \<Rightarrow> ('r \<Rightarrow> 'r) \<Rightarrow>
     ('w, 'e, 'r) tx" where
  "update_row get upd p2025 P f w =
     (case find P (get w) of None \<Rightarrow> Inl p2025 | Some r \<Rightarrow> Inr (f r, upd (upd_rows P f) w))"

text \<open>\<open>updateMany\<close>: returns the number of rows changed.\<close>

definition update_many ::
    "('w \<Rightarrow> 'r list) \<Rightarrow> (('r list \<Rightarrow> 'r list) \<Rightarrow> 'w \<Rightarrow> 'w) \<Rightarrow> ('r \<Rightarrow> bool) \<Rightarrow> ('r \<Rightarrow> 'r) \<Rightarrow>
     ('w, 'e, nat) tx" where
  "update_many get upd P f w = Inr (count_rows P (get w), upd (upd_rows P f) w)"

text \<open>\<open>upsert\<close>: update the row that matches, or create one.\<close>

definition upsert_row ::
    "('w \<Rightarrow> 'r list) \<Rightarrow> (('r list \<Rightarrow> 'r list) \<Rightarrow> 'w \<Rightarrow> 'w) \<Rightarrow> ('r \<Rightarrow> bool) \<Rightarrow> 'r \<Rightarrow> ('r \<Rightarrow> 'r) \<Rightarrow>
     ('w, 'e, 'r) tx" where
  "upsert_row get upd P row f w =
     (case find P (get w) of
        None \<Rightarrow> Inr (row, upd (\<lambda>rows. rows @ [row]) w)
      | Some r \<Rightarrow> Inr (f r, upd (upd_rows P f) w))"

lemma set_upd_rows: "set (upd_rows P f rows) = (\<lambda>r. if P r then f r else r) ` set rows"
  by (simp add: upd_rows_def)

lemma upd_rows_empty [simp]: "upd_rows P f [] = []"
  by (simp add: upd_rows_def)

lemma map_upd_rows [simp]: "(\<And>r. P r \<Longrightarrow> g (f r) = g r) \<Longrightarrow> map g (upd_rows P f rows) = map g rows"
  by (simp add: upd_rows_def)

lemma find_Some_D: "find P xs = Some x \<Longrightarrow> x \<in> set xs \<and> P x"
  by (induction xs) (auto split: if_splits)

lemma find_key_unique:
  assumes "distinct (map k rows)" and "r \<in> set rows"
  shows "find (\<lambda>x. k x = k r) rows = Some r"
  using assms by (induction rows) (auto simp: image_iff)

lemma find_append: "find P (xs @ ys) = (case find P xs of None \<Rightarrow> find P ys | Some x \<Rightarrow> Some x)"
  by (induction xs) auto

lemma find_None_all: "find P xs = None \<longleftrightarrow> (\<forall>x\<in>set xs. \<not> P x)"
  by (auto simp: find_None_iff)

lemma find_upd_rows:
  assumes "\<And>r. P r \<Longrightarrow> Q (f r) = Q r"
  shows "find Q (upd_rows P f rows) = map_option (\<lambda>r. if P r then f r else r) (find Q rows)"
  using assms by (induction rows) (auto simp: upd_rows_def)

text \<open>
  The interface between the record that holds the database and one of its tables: \<open>get\<close> and
  \<open>upd\<close> form a lens. Every table of the model interprets it.
\<close>

locale table =
  fixes get :: "'w \<Rightarrow> 'r list"
    and upd :: "('r list \<Rightarrow> 'r list) \<Rightarrow> 'w \<Rightarrow> 'w"
  assumes get_upd: "get (upd f w) = f (get w)"
begin

lemma create_row_Inr:
  "create_row get upd clash err row w = Inr (r, w') \<longleftrightarrow>
     r = row \<and> (\<forall>x\<in>set (get w). \<not> clash x row) \<and> w' = upd (\<lambda>rows. rows @ [row]) w"
  by (auto simp: create_row_def)

lemma create_row_get:
  "create_row get upd clash err row w = Inr (r, w') \<Longrightarrow> get w' = get w @ [row]"
  by (simp add: create_row_Inr get_upd)

lemma create_row_distinct:
  assumes "create_row get upd clash err row w = Inr (r, w')"
    and "\<And>x. k x = k row \<Longrightarrow> clash x row"
    and "distinct (map k (get w))"
  shows "distinct (map k (get w'))"
proof -
  have "k row \<notin> k ` set (get w)"
    using assms(1,2) by (metis create_row_Inr image_iff)
  then show ?thesis
    using assms(3) create_row_get [OF assms(1)] by simp
qed

lemma update_row_Inr:
  "update_row get upd err P f w = Inr (r, w') \<longleftrightarrow>
     (\<exists>old. find P (get w) = Some old \<and> r = f old) \<and> w' = upd (upd_rows P f) w"
  by (auto simp: update_row_def split: option.split)

lemma update_row_get:
  "update_row get upd err P f w = Inr (r, w') \<Longrightarrow> get w' = upd_rows P f (get w)"
  by (simp add: update_row_Inr get_upd)

lemma update_many_Inr:
  "update_many get upd P f w = Inr (n, w') \<longleftrightarrow>
     n = count_rows P (get w) \<and> w' = upd (upd_rows P f) w"
  by (auto simp: update_many_def)

lemma upsert_row_get:
  "upsert_row get upd P row f w = Inr (r, w') \<Longrightarrow>
     get w' = (if \<exists>x\<in>set (get w). P x then upd_rows P f (get w) else get w @ [row])"
  by (auto simp: upsert_row_def get_upd find_None_all split: option.splits dest: find_Some_D)

end

text \<open>
  A relation that no write to a table disturbs lets every Prisma call on that table step along
  it. The premise is discharged by simplification with the definition of the relation.
\<close>

context step_preorder
begin

lemma steps_create: "(\<And>f w. R w (upd f w)) \<Longrightarrow> steps R (create_row get upd clash err row)"
  by (auto simp: steps_def create_row_def)

lemma steps_update: "(\<And>f w. R w (upd f w)) \<Longrightarrow> steps R (update_row get upd err P f)"
  by (auto simp: steps_def update_row_def split: option.splits)

lemma steps_update_many: "(\<And>f w. R w (upd f w)) \<Longrightarrow> steps R (update_many get upd P f)"
  by (auto simp: steps_def update_many_def)

lemma steps_upsert: "(\<And>f w. R w (upd f w)) \<Longrightarrow> steps R (upsert_row get upd P row f)"
  by (auto simp: steps_def upsert_row_def split: option.splits)

lemmas steps_frame = steps_create steps_update steps_update_many steps_upsert steps_modify

end

end
