(* ===== verification/Calendar.thy ===== *)
theory Calendar
  imports Prelude
begin

text \<open>
  The part of ECMAScript's \<open>Date\<close> the services use, on UTC time values in milliseconds: the
  proleptic Gregorian calendar, the getters and setters with their overflow rules, the range
  check of \<open>TimeClip\<close> (an out-of-range \<open>Date\<close> is the invalid date, here \<open>None\<close>) and
  \<open>toISOString\<close>. Months are counted from 0 as in JavaScript. The calendar lemmas show that the
  conversion between days and (year, month, day) is a bijection on valid dates, and bound the
  length of one calendar month.
\<close>

section \<open>Days and civil dates\<close>

definition leap :: "int \<Rightarrow> bool" where
  "leap y \<longleftrightarrow> 4 dvd y \<and> (\<not> 100 dvd y \<or> 400 dvd y)"

definition days_in_month :: "int \<Rightarrow> int \<Rightarrow> int" where
  "days_in_month y m =
     (if m = 1 then (if leap y then 29 else 28)
      else if m = 3 \<or> m = 5 \<or> m = 8 \<or> m = 10 then 30 else 31)"

definition valid_civil :: "int \<Rightarrow> int \<Rightarrow> int \<Rightarrow> bool" where
  "valid_civil y m d \<longleftrightarrow> 0 \<le> m \<and> m \<le> 11 \<and> 1 \<le> d \<and> d \<le> days_in_month y m"

text \<open>
  Years are counted from March, so that the leap day is the last day of its year. \<open>march_days y\<close>
  is the day number of March 1 of year \<open>y\<close>, counted from March 1 of year 0.
\<close>

definition march_days :: "int \<Rightarrow> int" where
  "march_days y = 365 * y + y div 4 - y div 100 + y div 400"

definition month_days :: "int \<Rightarrow> int" where
  "month_days mp = (153 * mp + 2) div 5"

definition day_of_civil :: "int \<Rightarrow> int \<Rightarrow> int \<Rightarrow> int" where
  "day_of_civil y m d =
     march_days (if m \<le> 1 then y - 1 else y) + month_days ((m + 10) mod 12) + (d - 1) - 719468"

definition march_year :: "int \<Rightarrow> int \<times> int" where
  "march_year z =
     (let era = z div 146097; doe = z mod 146097;
          c = min 3 (doe div 36524); r2 = doe - 36524 * c;
          q = r2 div 1461; r3 = r2 - 1461 * q;
          a = min 3 (r3 div 365)
      in (400 * era + 100 * c + 4 * q + a, r3 - 365 * a))"

definition civil_of_day :: "int \<Rightarrow> int \<times> int \<times> int" where
  "civil_of_day z =
     (let (y, doy) = march_year (z + 719468);
          mp = (5 * doy + 2) div 153;
          m = (mp + 2) mod 12
      in (if m \<le> 1 then y + 1 else y, m, doy - month_days mp + 1))"

lemma march_days_split:
  assumes "0 \<le> c" "c \<le> 3" "0 \<le> q" "q \<le> 24" "0 \<le> a" "a \<le> 3"
  shows "march_days (400 * e + 100 * c + 4 * q + a) = 146097 * e + 36524 * c + 1461 * q + 365 * a"
proof -
  have "(400 * e + 100 * c + 4 * q + a) div 4 = 100 * e + 25 * c + q"
    by (rule int_div_pos_eq [where r = a]) (use assms in auto)
  moreover have "(400 * e + 100 * c + 4 * q + a) div 100 = 4 * e + c"
    by (rule int_div_pos_eq [where r = "4 * q + a"]) (use assms in auto)
  moreover have "(400 * e + 100 * c + 4 * q + a) div 400 = e"
    by (rule int_div_pos_eq [where r = "100 * c + 4 * q + a"]) (use assms in auto)
  ultimately show ?thesis
    by (simp add: march_days_def)
qed

text \<open>Whether the March-based year starting at position \<open>(c, q, a)\<close> of its era has 366 days.\<close>

lemma leap_march:
  assumes "0 \<le> c" "c \<le> 3" "0 \<le> q" "q \<le> 24" "0 \<le> a" "a \<le> 3"
  shows "leap (400 * e + 100 * c + 4 * q + a + 1) \<longleftrightarrow> a = 3 \<and> (q < 24 \<or> c = 3)"
proof -
  have m4: "(400 * e + 100 * c + 4 * q + a + 1) mod 4 = (if a = 3 then 0 else a + 1)"
    by (rule int_mod_pos_eq [where q = "100 * e + 25 * c + q + (if a = 3 then 1 else 0)"])
      (use assms in auto)
  have m100: "(400 * e + 100 * c + 4 * q + a + 1) mod 100 = (if q = 24 then 0 else 4 * q + 4)"
    if "a = 3"
    by (rule int_mod_pos_eq [where q = "4 * e + c + (if q = 24 then 1 else 0)"])
      (use assms that in auto)
  have m400: "(400 * e + 100 * c + 4 * q + a + 1) mod 400 = (if c = 3 then 0 else 100 * c + 100)"
    if "a = 3" "q = 24"
    by (rule int_mod_pos_eq [where q = "e + (if c = 3 then 1 else 0)"])
      (use assms that in auto)
  show ?thesis
    unfolding leap_def dvd_eq_mod_eq_0 using m4 m100 m400 assms by (auto split: if_splits)
qed

lemma march_yearE:
  obtains e c q a doy where
    "march_year z = (400 * e + 100 * c + 4 * q + a, doy)"
    "0 \<le> c" "c \<le> 3" "0 \<le> q" "q \<le> 24" "0 \<le> a" "a \<le> 3" "0 \<le> doy" "doy \<le> 365"
    "doy = 365 \<longrightarrow> a = 3 \<and> (q < 24 \<or> c = 3)"
    "z = 146097 * e + 36524 * c + 1461 * q + 365 * a + doy"
proof -
  define e doe where "e = z div 146097" and "doe = z mod 146097"
  define c r2 where "c = min 3 (doe div 36524)" and "r2 = doe - 36524 * c"
  define q r3 where "q = r2 div 1461" and "r3 = r2 - 1461 * q"
  define a doy where "a = min 3 (r3 div 365)" and "doy = r3 - 365 * a"
  note defs = e_def doe_def c_def r2_def q_def r3_def a_def doy_def
  have doe: "0 \<le> doe" "doe \<le> 146096" "z = 146097 * e + doe"
    by (simp_all add: doe_def e_def)
  have c: "0 \<le> c" "c \<le> 3" and r2: "0 \<le> r2" "r2 \<le> 36524" "c \<noteq> 3 \<Longrightarrow> r2 \<le> 36523"
    unfolding c_def r2_def using doe by (auto simp: min_def)
  have q: "0 \<le> q" "q \<le> 24" and r3: "0 \<le> r3" "r3 \<le> 1460" "c = 3 \<or> q \<le> 23 \<or> r3 \<le> 1459"
    unfolding q_def r3_def using r2 by auto
  have a: "0 \<le> a" "a \<le> 3" and doy: "0 \<le> doy" "doy \<le> 365" "a \<noteq> 3 \<Longrightarrow> doy \<le> 364"
    unfolding a_def doy_def using r3 by (auto simp: min_def)
  have "march_year z = (400 * e + 100 * c + 4 * q + a, doy)"
    unfolding march_year_def Let_def defs ..
  moreover have "doy = 365 \<longrightarrow> a = 3 \<and> (q < 24 \<or> c = 3)"
    using doy r3 q a by (cases "a = 3") (auto simp: doy_def)
  moreover have "z = 146097 * e + 36524 * c + 1461 * q + 365 * a + doy"
    using doe(3) by (simp add: doy_def r3_def r2_def)
  ultimately show thesis
    using that c q a doy by blast
qed

lemma march_year_march_days:
  assumes "0 \<le> doy" "doy \<le> 365" "doy = 365 \<Longrightarrow> leap (y + 1)"
  shows "march_year (march_days y + doy) = (y, doy)"
proof -
  define e c q a where "e = y div 400" and "c = y mod 400 div 100" and "q = y mod 100 div 4"
    and "a = y mod 4"
  have y: "y = 400 * e + 100 * c + 4 * q + a"
  proof -
    have "y = 400 * e + y mod 400"
      by (simp add: e_def)
    moreover have "y mod 400 = 100 * c + y mod 100"
      using mult_div_mod_eq [of 100 "y mod 400"] by (simp add: c_def mod_mod_cancel)
    moreover have "y mod 100 = 4 * q + a"
      using mult_div_mod_eq [of 4 "y mod 100"] by (simp add: q_def a_def mod_mod_cancel)
    ultimately show ?thesis by simp
  qed
  have b: "0 \<le> c" "c \<le> 3" "0 \<le> q" "q \<le> 24" "0 \<le> a" "a \<le> 3"
    unfolding c_def q_def a_def by auto
  have doy: "doy = 365 \<Longrightarrow> a = 3 \<and> (q < 24 \<or> c = 3)"
    using assms(3) leap_march [OF b] y by auto
  define z R3 R2 D where "z = march_days y + doy" and "R3 = 365 * a + doy" and "R2 = 1461 * q + R3"
    and "D = 36524 * c + R2"
  have z: "z = 146097 * e + D"
    using march_days_split [OF b] y by (simp add: z_def D_def R2_def R3_def)
  have r3: "0 \<le> R3" "R3 \<le> 1460" "R3 \<le> 1459 \<or> q \<le> 23 \<or> c = 3"
    unfolding R3_def using assms b doy by (cases "doy = 365"; auto)+
  have r2: "0 \<le> R2" "R2 \<le> 36524" "c = 3 \<or> R2 \<le> 36523"
    unfolding R2_def using r3 b by linarith+
  have dd: "0 \<le> D" "D < 146097"
    unfolding D_def using r2 b by linarith+
  have 1: "z div 146097 = e" "z mod 146097 = D"
    using dd z by (auto intro: int_div_pos_eq int_mod_pos_eq)
  have "D div 36524 = c" if "c \<noteq> 3"
    using r2 that by (auto simp: D_def intro!: int_div_pos_eq [where r = R2])
  then have 2: "min 3 (D div 36524) = c" "D - 36524 * c = R2"
    using b r2 by (cases "c = 3"; simp add: D_def)+
  have 3: "R2 div 1461 = q" "R2 - 1461 * q = R3"
    using r3 by (auto simp: R2_def intro!: int_div_pos_eq [where r = R3])
  have "R3 div 365 = a" if "a \<noteq> 3"
  proof (rule int_div_pos_eq [where r = doy])
    show "doy < 365"
      using assms(2) doy that by (cases "doy = 365") auto
  qed (use assms in \<open>auto simp: R3_def\<close>)
  then have 4: "min 3 (R3 div 365) = a" "R3 - 365 * a = doy"
    using b assms by (cases "a = 3"; simp add: R3_def)+
  have "march_year z = (400 * e + 100 * c + 4 * q + a, doy)"
    unfolding march_year_def Let_def 1 2 3 4 ..
  then show ?thesis
    by (simp add: z_def y)
qed

lemma month_cases:
  assumes "(0::int) \<le> mp" "mp \<le> 11"
  shows "mp = 0 \<or> mp = 1 \<or> mp = 2 \<or> mp = 3 \<or> mp = 4 \<or> mp = 5 \<or> mp = 6 \<or> mp = 7 \<or> mp = 8
    \<or> mp = 9 \<or> mp = 10 \<or> mp = 11"
  using assms by presburger

lemma month_of_doy:
  assumes "0 \<le> doy" "doy \<le> 365"
  defines "mp \<equiv> (5 * doy + 2) div 153"
  shows "0 \<le> mp" "mp \<le> 11" "month_days mp \<le> doy"
    "mp = 11 \<Longrightarrow> doy \<le> 365" "mp < 11 \<Longrightarrow> doy < month_days (mp + 1)"
proof -
  show mp: "0 \<le> mp" "mp \<le> 11"
    using assms by auto
  have eq: "153 * mp \<le> 5 * doy + 2" "5 * doy + 2 < 153 * mp + 153"
    unfolding mp_def by auto
  show "month_days mp \<le> doy"
    using eq unfolding month_days_def by linarith
  show "mp < 11 \<Longrightarrow> doy < month_days (mp + 1)"
    using month_cases [OF mp] eq unfolding month_days_def by auto
qed (use assms in auto)

lemma doy_of_month:
  assumes "0 \<le> mp" "mp \<le> 11" "month_days mp \<le> doy" "doy \<le> 365" "mp < 11 \<Longrightarrow> doy < month_days (mp + 1)"
  shows "(5 * doy + 2) div 153 = mp"
proof (rule int_div_pos_eq [where r = "5 * doy + 2 - 153 * mp"])
  show "0 \<le> 5 * doy + 2 - 153 * mp" "5 * doy + 2 - 153 * mp < 153"
    using month_cases [OF assms(1,2)] assms unfolding month_days_def by auto
qed simp

lemma march_month:
  assumes "0 \<le> m" "m \<le> (11::int)"
  shows "0 \<le> (m + 10) mod 12" "(m + 10) mod 12 \<le> 11" "((m + 10) mod 12 + 2) mod 12 = m"
    "m \<le> 1 \<longleftrightarrow> 10 \<le> (m + 10) mod 12"
  using assms by presburger+

lemma civil_of_day_of_civil:
  assumes "valid_civil y m d"
  shows "civil_of_day (day_of_civil y m d) = (y, m, d)"
proof -
  define mp y' doy where "mp = (m + 10) mod 12" and "y' = (if m \<le> 1 then y - 1 else y)"
    and "doy = month_days mp + (d - 1)"
  have m: "0 \<le> m" "m \<le> 11" and d: "1 \<le> d" "d \<le> days_in_month y m"
    using assms by (auto simp: valid_civil_def)
  have mp: "0 \<le> mp" "mp \<le> 11" "(mp + 2) mod 12 = m" "m \<le> 1 \<longleftrightarrow> 10 \<le> mp"
    using march_month [OF m] by (simp_all add: mp_def)
  have doy: "month_days mp \<le> doy" "0 \<le> doy" "doy \<le> 365" "mp < 11 \<Longrightarrow> doy < month_days (mp + 1)"
    "doy = 365 \<Longrightarrow> leap (y' + 1)"
    using month_cases [OF mp(1,2)] mp(3) d
    by (auto simp: doy_def y'_def month_days_def days_in_month_def split: if_splits)
  have "day_of_civil y m d + 719468 = march_days y' + doy"
    by (simp add: day_of_civil_def y'_def mp_def doy_def)
  then have "march_year (day_of_civil y m d + 719468) = (y', doy)"
    using march_year_march_days doy by simp
  moreover have "(5 * doy + 2) div 153 = mp"
    using doy_of_month [OF mp(1,2) doy(1,3,4)] .
  ultimately show ?thesis
    using mp by (auto simp: civil_of_day_def Let_def doy_def y'_def)
qed

lemma day_of_civil_of_day:
  assumes "civil_of_day z = (y, m, d)"
  shows "day_of_civil y m d = z" and "valid_civil y m d"
proof -
  obtain e c q a doy where my: "march_year (z + 719468) = (400 * e + 100 * c + 4 * q + a, doy)"
    and b: "0 \<le> c" "c \<le> 3" "0 \<le> q" "q \<le> 24" "0 \<le> a" "a \<le> 3" and doy: "0 \<le> doy" "doy \<le> 365"
    and lp: "doy = 365 \<longrightarrow> a = 3 \<and> (q < 24 \<or> c = 3)"
    and z: "z + 719468 = 146097 * e + 36524 * c + 1461 * q + 365 * a + doy"
    by (rule march_yearE [of "z + 719468"])
  define Y mp where "Y = 400 * e + 100 * c + 4 * q + a" and "mp = (5 * doy + 2) div 153"
  note mp = month_of_doy [OF doy, folded mp_def]
  have res: "y = (if m \<le> 1 then Y + 1 else Y)" "m = (mp + 2) mod 12" "d = doy - month_days mp + 1"
    using assms my by (auto simp: civil_of_day_def Let_def mp_def Y_def split: if_splits)
  have m: "0 \<le> m" "m \<le> 11" "(m + 10) mod 12 = mp" "m \<le> 1 \<longleftrightarrow> 10 \<le> mp"
    using res(2) mp(1,2) by presburger+
  have "march_days Y = 146097 * e + 36524 * c + 1461 * q + 365 * a"
    unfolding Y_def using march_days_split [OF b] .
  then show "day_of_civil y m d = z"
    using res m z by (auto simp: day_of_civil_def)
  have "doy \<noteq> 365 \<or> leap (Y + 1)"
    using lp leap_march [OF b] by (auto simp: Y_def)
  then have len: "d \<le> days_in_month y m"
    using month_cases [OF mp(1,2)]
  proof (elim disjE)
  qed (use res mp(5) doy in \<open>simp_all add: days_in_month_def month_days_def\<close>)
  then show "valid_civil y m d"
    using m mp(3) res(3) by (simp add: valid_civil_def)
qed

lemma civil_of_day_inject: "civil_of_day a = civil_of_day b \<longleftrightarrow> a = b"
  by (metis day_of_civil_of_day(1) prod_cases3)

text \<open>The length of a month, as the distance between the first days of two months.\<close>

definition next_month :: "int \<Rightarrow> int \<Rightarrow> int \<times> int" where
  "next_month y m = (if m = 11 then (y + 1, 0) else (y, m + 1))"

lemma march_days_Suc: "march_days (y + 1) = march_days y + (if leap (y + 1) then 366 else 365)"
proof -
  have step: "(y + 1) div k = y div k + (if k dvd (y + 1) then 1 else 0)" if "0 < k" for k :: int
  proof (cases "y mod k = k - 1")
    case True
    then have "y + 1 = k * (y div k + 1)"
      using mult_div_mod_eq [of k y] unfolding distrib_left by linarith
    then show ?thesis
      using that by (metis dvd_triv_left nonzero_mult_div_cancel_left order_less_irrefl)
  next
    case False
    have r: "y + 1 = k * (y div k) + (y mod k + 1)"
      using mult_div_mod_eq [of k y] by simp
    moreover have b: "0 \<le> y mod k + 1" "y mod k + 1 < k"
      using False that pos_mod_bound [of k y] pos_mod_sign [of k y] by linarith+
    ultimately have "(y + 1) div k = y div k" "(y + 1) mod k = y mod k + 1"
      using int_div_pos_eq [OF r b] int_mod_pos_eq [OF r b] by simp_all
    moreover have "y mod k + 1 \<noteq> 0"
      using that pos_mod_sign [of k y] by linarith
    ultimately have "(y + 1) div k = y div k" "\<not> k dvd (y + 1)"
      unfolding dvd_eq_mod_eq_0 by simp_all
    then show ?thesis by simp
  qed
  have dvd: "400 dvd (y + 1) \<longrightarrow> 100 dvd (y + 1)" "100 dvd (y + 1) \<longrightarrow> 4 dvd (y + 1)"
    using dvd_trans [of 100 400 "y + 1"] dvd_trans [of 4 100 "y + 1"] by simp_all
  define d4 d100 d400 where "d4 \<longleftrightarrow> 4 dvd (y + 1)" and "d100 \<longleftrightarrow> 100 dvd (y + 1)"
    and "d400 \<longleftrightarrow> 400 dvd (y + 1)"
  show ?thesis
    using dvd unfolding march_days_def leap_def step [of 4, simplified] step [of 100, simplified]
      step [of 400, simplified] d4_def [symmetric] d100_def [symmetric] d400_def [symmetric]
    by (cases d4; cases d100; cases d400) simp_all
qed

text \<open>The first of the next month is \<open>days_in_month\<close> days after the first of a month.\<close>

lemma next_month_first:
  assumes "0 \<le> m" "m \<le> 11" "next_month y m = (y', m')"
  shows "day_of_civil y' m' 1 = day_of_civil y m 1 + days_in_month y m"
    and "0 \<le> m'" and "m' \<le> 11"
proof -
  have res: "y' = fst (next_month y m)" "m' = snd (next_month y m)"
    using assms(3) by simp_all
  show "day_of_civil y' m' 1 = day_of_civil y m 1 + days_in_month y m"
    unfolding res using month_cases [OF assms(1,2)]
  proof (elim disjE)
  qed (use march_days_Suc [of "y - 1"] in \<open>simp_all add: next_month_def day_of_civil_def
      month_days_def days_in_month_def\<close>)
qed (use assms in \<open>auto simp: next_month_def split: if_splits\<close>)

lemma days_in_month_bounds: "28 \<le> days_in_month y m" "days_in_month y m \<le> 31"
  by (auto simp: days_in_month_def)

lemma day_of_civil_day: "day_of_civil y m d = day_of_civil y m 1 + (d - 1)"
  by (simp add: day_of_civil_def)

lemma day_of_civil_year:
  assumes "0 \<le> m" "m \<le> 11"
  shows "day_of_civil (y + 1) m 1 - day_of_civil y m 1 \<in> {365, 366}"
    and "m = 1 \<Longrightarrow> leap y \<Longrightarrow> day_of_civil (y + 1) m 1 - day_of_civil y m 1 = 366"
proof -
  have "march_days (if m \<le> 1 then y + 1 - 1 else y + 1) - march_days (if m \<le> 1 then y - 1 else y)
      = (if leap (if m \<le> 1 then y else y + 1) then 366 else 365)"
    using march_days_Suc [of "y - 1"] march_days_Suc [of y] by auto
  then show "day_of_civil (y + 1) m 1 - day_of_civil y m 1 \<in> {365, 366}"
    and "m = 1 \<Longrightarrow> leap y \<Longrightarrow> day_of_civil (y + 1) m 1 - day_of_civil y m 1 = 366"
    by (auto simp: day_of_civil_def split: if_splits)
qed

section \<open>Date objects\<close>

type_synonym js_date = "int option"

definition MS_PER_DAY :: int where
  "MS_PER_DAY = 86400000"

definition MAX_DATE_MS :: int where
  "MAX_DATE_MS = 8640000000000000"

definition timeClip :: "int \<Rightarrow> js_date" where
  "timeClip t = (if - MAX_DATE_MS \<le> t \<and> t \<le> MAX_DATE_MS then Some t else None)"

definition getUTCFullYear :: "date \<Rightarrow> int" where
  "getUTCFullYear t = fst (civil_of_day (t div MS_PER_DAY))"

definition getUTCMonth :: "date \<Rightarrow> int" where
  "getUTCMonth t = fst (snd (civil_of_day (t div MS_PER_DAY)))"

definition getUTCDate :: "date \<Rightarrow> int" where
  "getUTCDate t = snd (snd (civil_of_day (t div MS_PER_DAY)))"

definition time_within_day :: "date \<Rightarrow> int" where
  "time_within_day t = t mod MS_PER_DAY"

text \<open>\<open>MakeDay\<close>: the month argument may lie outside 0..11 and carries into the year.\<close>

definition make_day :: "int \<Rightarrow> int \<Rightarrow> int \<Rightarrow> int" where
  "make_day y m d = day_of_civil (y + m div 12) (m mod 12) 1 + (d - 1)"

definition setUTCDate :: "date \<Rightarrow> int \<Rightarrow> js_date" where
  "setUTCDate t d =
     timeClip (make_day (getUTCFullYear t) (getUTCMonth t) d * MS_PER_DAY + time_within_day t)"

definition setUTCMonth :: "date \<Rightarrow> int \<Rightarrow> js_date" where
  "setUTCMonth t m =
     timeClip (make_day (getUTCFullYear t) m (getUTCDate t) * MS_PER_DAY + time_within_day t)"

definition setUTCMonth_date :: "date \<Rightarrow> int \<Rightarrow> int \<Rightarrow> js_date" where
  "setUTCMonth_date t m d =
     timeClip (make_day (getUTCFullYear t) m d * MS_PER_DAY + time_within_day t)"

text \<open>A time value from its civil date and the time within the day.\<close>

definition at_civil :: "int \<Rightarrow> int \<Rightarrow> int \<Rightarrow> int \<Rightarrow> date" where
  "at_civil y m d ms = day_of_civil y m d * MS_PER_DAY + ms"

definition ms_ok :: "int \<Rightarrow> bool" where
  "ms_ok ms \<longleftrightarrow> 0 \<le> ms \<and> ms < MS_PER_DAY"

lemma at_civil_div: "ms_ok ms \<Longrightarrow> at_civil y m d ms div MS_PER_DAY = day_of_civil y m d"
  by (rule int_div_pos_eq [where r = ms]) (auto simp: at_civil_def ms_ok_def)

lemma at_civil_mod: "ms_ok ms \<Longrightarrow> time_within_day (at_civil y m d ms) = ms"
  unfolding time_within_day_def
  by (rule int_mod_pos_eq [where q = "day_of_civil y m d"]) (auto simp: at_civil_def ms_ok_def)

lemma at_civil_getters:
  assumes "ms_ok ms" "valid_civil y m d"
  shows "getUTCFullYear (at_civil y m d ms) = y" "getUTCMonth (at_civil y m d ms) = m"
    "getUTCDate (at_civil y m d ms) = d"
  using assms
  by (simp_all add: getUTCFullYear_def getUTCMonth_def getUTCDate_def at_civil_div
      civil_of_day_of_civil)

lemma date_civil:
  obtains y m d ms where "t = at_civil y m d ms" "valid_civil y m d" "ms_ok ms"
proof -
  obtain y m d where c: "civil_of_day (t div MS_PER_DAY) = (y, m, d)"
    using prod_cases3 by blast
  have "t = at_civil y m d (t mod MS_PER_DAY)"
    using day_of_civil_of_day(1) [OF c] by (simp add: at_civil_def)
  moreover have "ms_ok (t mod MS_PER_DAY)"
    by (simp add: ms_ok_def MS_PER_DAY_def)
  ultimately show thesis
    using that day_of_civil_of_day(2) [OF c] by blast
qed

lemma timeClip_Some [simp]: "timeClip t = Some u \<longleftrightarrow> u = t \<and> \<bar>t\<bar> \<le> MAX_DATE_MS"
  by (auto simp: timeClip_def)

lemma setUTCDate_at_civil:
  assumes "valid_civil y m d" "ms_ok ms"
  shows "setUTCDate (at_civil y m d ms) d' = timeClip (at_civil y m d' ms)"
proof -
  have "m div 12 = 0" "m mod 12 = m"
    using assms(1) by (simp_all add: valid_civil_def)
  then show ?thesis
    unfolding setUTCDate_def at_civil_getters [OF assms(2,1)] at_civil_mod [OF assms(2)] make_day_def
    by (simp add: at_civil_def day_of_civil_day [of y m d'])
qed

lemma setUTCMonth_at_civil:
  assumes "valid_civil y m 1" "ms_ok ms"
  shows "setUTCMonth (at_civil y m 1 ms) k = timeClip (at_civil (y + k div 12) (k mod 12) 1 ms)"
  unfolding setUTCMonth_def at_civil_getters [OF assms(2,1)] at_civil_mod [OF assms(2)] make_day_def
  by (simp add: at_civil_def)

lemma valid_civil_first: "valid_civil y m d \<Longrightarrow> valid_civil y m 1"
  using days_in_month_bounds [of y m] by (auto simp: valid_civil_def)

lemma last_of_month:
  assumes "valid_civil y m d" "ms_ok ms"
  shows "setUTCMonth_date (at_civil y m d ms) (m + 1) 0
    = timeClip (at_civil y m (days_in_month y m) ms)"
proof -
  obtain y' m' where n: "next_month y m = (y', m')"
    by fastforce
  have m: "0 \<le> m" "m \<le> 11"
    using assms by (auto simp: valid_civil_def)
  have "y + (m + 1) div 12 = y'" "(m + 1) mod 12 = m'"
    using n m by (auto simp: next_month_def split: if_splits)
  then have "make_day y (m + 1) 0 = day_of_civil y m (days_in_month y m)"
    using next_month_first(1) [OF m n] day_of_civil_day [of y m "days_in_month y m"]
    by (simp add: make_day_def)
  then show ?thesis
    unfolding setUTCMonth_date_def at_civil_getters [OF assms(2,1)] at_civil_mod [OF assms(2)]
    by (simp add: at_civil_def)
qed

text \<open>One calendar month later, with the day clamped to the target month: 28 to 31 days later.\<close>

lemma month_later_bounds:
  assumes "valid_civil y m d" "next_month y m = (y', m')"
  defines "d' \<equiv> min d (days_in_month y' m')"
  shows "28 \<le> day_of_civil y' m' d' - day_of_civil y m d"
    and "day_of_civil y' m' d' - day_of_civil y m d \<le> 31"
    and "valid_civil y' m' d'"
proof -
  have m: "0 \<le> m" "m \<le> 11" "1 \<le> d" "d \<le> days_in_month y m"
    using assms by (auto simp: valid_civil_def)
  have "day_of_civil y' m' d' - day_of_civil y m d = days_in_month y m + d' - d"
    using next_month_first(1) [OF m(1,2) assms(2)] day_of_civil_day [of y' m' d']
      day_of_civil_day [of y m d] by simp
  then show "28 \<le> day_of_civil y' m' d' - day_of_civil y m d"
    and "day_of_civil y' m' d' - day_of_civil y m d \<le> 31"
    using m days_in_month_bounds [of y m] days_in_month_bounds [of y' m']
    by (auto simp: d'_def)
  show "valid_civil y' m' d'"
    using m next_month_first(2,3) [OF m(1,2) assms(2)] days_in_month_bounds [of y' m']
    by (auto simp: valid_civil_def d'_def)
qed

text \<open>One calendar year later, clamped: 365 or 366 days later.\<close>

lemma year_later_bounds:
  assumes "valid_civil y m d"
  defines "d' \<equiv> min d (days_in_month (y + 1) m)"
  shows "365 \<le> day_of_civil (y + 1) m d' - day_of_civil y m d"
    and "day_of_civil (y + 1) m d' - day_of_civil y m d \<le> 366"
    and "valid_civil (y + 1) m d'"
proof -
  have m: "0 \<le> m" "m \<le> 11" "1 \<le> d" "d \<le> days_in_month y m"
    using assms by (auto simp: valid_civil_def)
  have "day_of_civil (y + 1) m d' - day_of_civil y m d
      = (day_of_civil (y + 1) m 1 - day_of_civil y m 1) + (d' - d)"
    using day_of_civil_day [of "y + 1" m d'] day_of_civil_day [of y m d] by simp
  moreover have "d' = d \<or> d' = d - 1 \<and> m = 1 \<and> leap y"
    using m by (auto simp: d'_def days_in_month_def min_def split: if_splits)
  ultimately show "365 \<le> day_of_civil (y + 1) m d' - day_of_civil y m d"
    and "day_of_civil (y + 1) m d' - day_of_civil y m d \<le> 366"
    using day_of_civil_year [OF m(1,2), of y] by auto
  show "valid_civil (y + 1) m d'"
    using m days_in_month_bounds [of "y + 1" m] by (auto simp: valid_civil_def d'_def)
qed

section \<open>ISO 8601 text\<close>

definition digits2 :: "int \<Rightarrow> jsstring" where
  "digits2 n = [nat (48 + n div 10), nat (48 + n mod 10)]"

definition digits3 :: "int \<Rightarrow> jsstring" where
  "digits3 n = nat (48 + n div 100) # digits2 (n mod 100)"

definition digits4 :: "int \<Rightarrow> jsstring" where
  "digits4 n = digits2 (n div 100) @ digits2 (n mod 100)"

definition digits6 :: "int \<Rightarrow> jsstring" where
  "digits6 n = digits2 (n div 10000) @ digits4 (n mod 10000)"

definition iso_year :: "int \<Rightarrow> jsstring" where
  "iso_year y = (if 0 \<le> y \<and> y \<le> 9999 then digits4 y
     else if y < 0 then 45 # digits6 (- y) else 43 # digits6 y)"

definition toISOString :: "date \<Rightarrow> jsstring" where
  "toISOString t =
     (let ms = time_within_day t
      in iso_year (getUTCFullYear t) @ [45] @ digits2 (getUTCMonth t + 1) @ [45]
         @ digits2 (getUTCDate t) @ [84] @ digits2 (ms div 3600000) @ [58]
         @ digits2 (ms div 60000 mod 60) @ [58] @ digits2 (ms div 1000 mod 60) @ [46]
         @ digits3 (ms mod 1000) @ [90])"

definition four_digit_year :: "date \<Rightarrow> bool" where
  "four_digit_year t \<longleftrightarrow> 0 \<le> getUTCFullYear t \<and> getUTCFullYear t \<le> 9999"

lemma digits2_inject: "0 \<le> a \<Longrightarrow> 0 \<le> b \<Longrightarrow> digits2 a = digits2 b \<longleftrightarrow> a = b"
proof
  assume "0 \<le> a" "0 \<le> b" and "digits2 a = digits2 b"
  then have "a div 10 = b div 10" "a mod 10 = b mod 10"
    by (simp_all add: digits2_def pos_imp_zdiv_nonneg_iff eq_nat_nat_iff)
  then show "a = b"
    by (metis mult_div_mod_eq)
qed simp

lemma digits2_append [simp]: "digits2 a @ s = digits2 b @ t \<longleftrightarrow> digits2 a = digits2 b \<and> s = t"
  by (auto simp: digits2_def)

lemma digits3_inject: "0 \<le> a \<Longrightarrow> 0 \<le> b \<Longrightarrow> digits3 a = digits3 b \<longleftrightarrow> a = b"
proof
  assume "0 \<le> a" "0 \<le> b" and "digits3 a = digits3 b"
  then have "a div 100 = b div 100" "a mod 100 = b mod 100"
    by (simp_all add: digits3_def digits2_inject pos_imp_zdiv_nonneg_iff eq_nat_nat_iff)
  then show "a = b"
    by (metis mult_div_mod_eq)
qed simp

lemma digits4_inject: "0 \<le> a \<Longrightarrow> 0 \<le> b \<Longrightarrow> digits4 a = digits4 b \<longleftrightarrow> a = b"
proof
  assume "0 \<le> a" "0 \<le> b" and "digits4 a = digits4 b"
  then have "a div 100 = b div 100" "a mod 100 = b mod 100"
    by (simp_all add: digits4_def digits2_inject pos_imp_zdiv_nonneg_iff)
  then show "a = b"
    by (metis mult_div_mod_eq)
qed simp

lemma iso_year_four: "0 \<le> y \<Longrightarrow> y \<le> 9999 \<Longrightarrow> iso_year y = digits4 y"
  by (simp add: iso_year_def)

lemma digits4_append [simp]: "digits4 a @ s = digits4 b @ t \<longleftrightarrow> digits4 a = digits4 b \<and> s = t"
  by (auto simp: digits4_def)

lemma digits3_append [simp]: "digits3 a @ s = digits3 b @ t \<longleftrightarrow> digits3 a = digits3 b \<and> s = t"
  by (auto simp: digits3_def)

text \<open>Time of day from its printed parts.\<close>

lemma ms_parts:
  assumes "(a::int) div 3600000 = b div 3600000" "a div 60000 mod 60 = b div 60000 mod 60"
    "a div 1000 mod 60 = b div 1000 mod 60" "a mod 1000 = b mod 1000"
  shows "a = b"
proof -
  have "a div 60000 div 60 = b div 60000 div 60"
    using assms(1) by (simp add: zdiv_zmult2_eq [symmetric])
  then have m: "a div 60000 = b div 60000"
    using assms(2) by (metis mult_div_mod_eq)
  then have "a div 1000 div 60 = b div 1000 div 60"
    by (simp add: zdiv_zmult2_eq [symmetric])
  then have "a div 1000 = b div 1000"
    using assms(3) by (metis mult_div_mod_eq)
  then show ?thesis
    using assms(4) by (metis mult_div_mod_eq)
qed

lemma toISOString_inject:
  assumes "four_digit_year a" "four_digit_year b"
  shows "toISOString a = toISOString b \<longleftrightarrow> a = b"
proof
  obtain ya ma da msa where a: "a = at_civil ya ma da msa" "valid_civil ya ma da" "ms_ok msa"
    by (rule date_civil)
  obtain yb mb db msb where b: "b = at_civil yb mb db msb" "valid_civil yb mb db" "ms_ok msb"
    by (rule date_civil)
  note ga = at_civil_getters [OF a(3,2), folded a(1)] at_civil_mod [OF a(3), of ya ma da, folded a(1)]
  note gb = at_civil_getters [OF b(3,2), folded b(1)] at_civil_mod [OF b(3), of yb mb db, folded b(1)]
  have y: "0 \<le> ya" "ya \<le> 9999" "0 \<le> yb" "yb \<le> 9999"
    using assms by (simp_all add: four_digit_year_def ga gb)
  have nn: "0 \<le> ma + 1" "0 \<le> mb + 1" "0 \<le> da" "0 \<le> db" "0 \<le> msa" "0 \<le> msb"
    using a b by (auto simp: valid_civil_def ms_ok_def)
  assume "toISOString a = toISOString b"
  then have "ya = yb \<and> ma = mb \<and> da = db \<and> msa div 3600000 = msb div 3600000
      \<and> msa div 60000 mod 60 = msb div 60000 mod 60 \<and> msa div 1000 mod 60 = msb div 1000 mod 60
      \<and> msa mod 1000 = msb mod 1000"
    using nn y
    by (simp add: toISOString_def Let_def ga gb iso_year_four digits2_inject digits3_inject
        digits4_inject pos_imp_zdiv_nonneg_iff)
  then show "a = b"
    using ms_parts [of msa msb] a(1) b(1) by simp
qed simp

text \<open>
  \<open>Date.parse\<close> on the texts that \<open>toISOString\<close> prints: the fields are read by their positions. The
  result is \<open>None\<close> for every other text.
\<close>

definition iso_read :: "jsstring \<Rightarrow> date" where
  "iso_read s =
     (let (y, r) = (if take 1 s = [45] then (- int (undec (take 6 (drop 1 s))), drop 7 s)
            else if take 1 s = [43] then (int (undec (take 6 (drop 1 s))), drop 7 s)
            else (int (undec (take 4 s)), drop 4 s));
          n = (\<lambda>i k. int (undec (take k (drop i r))))
      in at_civil y (n 1 2 - 1) (n 4 2) (n 7 2 * 3600000 + n 10 2 * 60000 + n 13 2 * 1000 + n 16 3))"

definition parse_iso :: "jsstring \<Rightarrow> js_date option" where
  "parse_iso s = (let t = iso_read s in if toISOString t = s then Some (timeClip t) else None)"

lemma undec_append: "undec (a @ b) = undec a * 10 ^ length b + undec b"
proof (induction b rule: rev_induct)
  case (snoc c b)
  have "undec (a @ b @ [c]) = 10 * undec (a @ b) + (c - 48)"
    by (metis append_assoc undec_snoc)
  then show ?case
    using snoc by (simp add: algebra_simps)
qed simp

lemma undec_digits2: "0 \<le> n \<Longrightarrow> int (undec (digits2 n)) = n"
  by (simp add: undec_def digits2_def pos_imp_zdiv_nonneg_iff nat_add_distrib)

lemma undec_digits3: "0 \<le> n \<Longrightarrow> int (undec (digits3 n)) = n"
  by (simp add: undec_def digits2_def digits3_def pos_imp_zdiv_nonneg_iff nat_add_distrib)

lemma length_digits [simp]:
  "length (digits2 n) = 2" "length (digits3 n) = 3" "length (digits4 n) = 4" "length (digits6 n) = 6"
  by (simp_all add: digits2_def digits3_def digits4_def digits6_def)

lemma undec_digits4: "0 \<le> n \<Longrightarrow> int (undec (digits4 n)) = n"
  by (simp add: digits4_def undec_append undec_digits2 pos_imp_zdiv_nonneg_iff)

lemma undec_digits6: "0 \<le> n \<Longrightarrow> int (undec (digits6 n)) = n"
  by (simp add: digits6_def undec_append undec_digits2 undec_digits4 pos_imp_zdiv_nonneg_iff)

lemma digits4_head: "0 \<le> n \<Longrightarrow> take 1 (digits4 n @ s) \<noteq> [45] \<and> take 1 (digits4 n @ s) \<noteq> [43]"
proof -
  assume "0 \<le> n"
  then have "0 \<le> n div 100 div 10"
    by (simp add: pos_imp_zdiv_nonneg_iff)
  then show ?thesis
    by (simp add: digits4_def digits2_def nat_add_distrib)
qed

text \<open>The text after the year, and the instant it is read as.\<close>

lemma iso_read_parts:
  assumes "0 \<le> m" "0 \<le> d" "0 \<le> h" "0 \<le> mi" "0 \<le> sec" "0 \<le> ms"
  shows "iso_read (iso_year y @ [45] @ digits2 (m + 1) @ [45] @ digits2 d @ [84] @ digits2 h @ [58]
      @ digits2 mi @ [58] @ digits2 sec @ [46] @ digits3 ms @ [90])
    = at_civil y m d (h * 3600000 + mi * 60000 + sec * 1000 + ms)"
  (is "iso_read (iso_year y @ ?r) = _")
proof -
  have fields: "int (undec (take 2 (drop 1 ?r))) = m + 1" "int (undec (take 2 (drop 4 ?r))) = d"
    "int (undec (take 2 (drop 7 ?r))) = h" "int (undec (take 2 (drop 10 ?r))) = mi"
    "int (undec (take 2 (drop 13 ?r))) = sec" "int (undec (take 3 (drop 16 ?r))) = ms"
    using assms by (simp_all add: undec_digits2 undec_digits3)
  consider "0 \<le> y" "y \<le> 9999" | "y < 0" | "9999 < y"
    by linarith
  then show ?thesis
  proof cases
    case 1
    then have "iso_read (iso_year y @ ?r) = at_civil (int (undec (digits4 y))) (m + 1 - 1) d
        (h * 3600000 + mi * 60000 + sec * 1000 + ms)"
      using fields digits4_head [of y ?r] by (simp add: iso_read_def iso_year_def)
    with 1 show ?thesis
      by (simp add: undec_digits4)
  next
    case 2
    then have "iso_read (iso_year y @ ?r) = at_civil (- int (undec (digits6 (- y)))) (m + 1 - 1) d
        (h * 3600000 + mi * 60000 + sec * 1000 + ms)"
      using fields by (simp add: iso_read_def iso_year_def)
    with 2 show ?thesis
      by (simp add: undec_digits6)
  next
    case 3
    then have "iso_read (iso_year y @ ?r) = at_civil (int (undec (digits6 y))) (m + 1 - 1) d
        (h * 3600000 + mi * 60000 + sec * 1000 + ms)"
      using fields by (simp add: iso_read_def iso_year_def)
    with 3 show ?thesis
      by (simp add: undec_digits6)
  qed
qed

lemma time_of_day_parts:
  "(n::int) div 3600000 * 3600000 + n div 60000 mod 60 * 60000 + n div 1000 mod 60 * 1000 + n mod 1000 = n"
proof -
  have "n div 60000 = n div 3600000 * 60 + n div 60000 mod 60"
    using div_mult_mod_eq [of "n div 60000" 60] by (simp add: zdiv_zmult2_eq [symmetric])
  moreover have "n div 1000 = n div 60000 * 60 + n div 1000 mod 60"
    using div_mult_mod_eq [of "n div 1000" 60] by (simp add: zdiv_zmult2_eq [symmetric])
  ultimately show ?thesis
    using div_mult_mod_eq [of n 1000] by linarith
qed

lemma iso_read_toISOString: "iso_read (toISOString t) = t"
proof -
  obtain y m d ms where t: "t = at_civil y m d ms" "valid_civil y m d" "ms_ok ms"
    by (rule date_civil)
  note g = at_civil_getters [OF t(3,2), folded t(1)] at_civil_mod [OF t(3), of y m d, folded t(1)]
  have "0 \<le> m" "0 \<le> d" "0 \<le> ms"
    using t(2,3) by (auto simp: valid_civil_def ms_ok_def)
  then have "iso_read (toISOString t) = at_civil y m d
      (ms div 3600000 * 3600000 + ms div 60000 mod 60 * 60000 + ms div 1000 mod 60 * 1000 + ms mod 1000)"
    using iso_read_parts [of m d "ms div 3600000" "ms div 60000 mod 60" "ms div 1000 mod 60" "ms mod 1000" y]
    by (simp add: toISOString_def g pos_imp_zdiv_nonneg_iff)
  then show ?thesis
    by (simp add: time_of_day_parts t(1))
qed

lemma parse_iso_toISOString [simp]: "parse_iso (toISOString t) = Some (timeClip t)"
  by (simp add: parse_iso_def iso_read_toISOString)

end
