(* ===== verification/Seat_Duration.thy ===== *)
theory Seat_Duration
  imports Calendar
begin

text \<open>
  \<open>apps/billing/src/domain/wincrm-seat-duration.ts\<close>: conversion of the rest of a paid WinCRM
  period into an equivalent duration for another number of seats. The argument is a raw JavaScript
  value, as every field is validated at run time. The lemmas show that the conversion never
  creates value, loses less than one millisecond at the new price, is the identity for an
  unchanged number of seats, is antitone in the number of seats, and that converting forth and
  back never gains time. The locale \<open>seat_price\<close> states what those facts need of a price list.
\<close>

section \<open>The function\<close>

datatype seat_error =
    INVALID_INPUT
  | INVALID_PAID_PERIOD
  | INVALID_TIMESTAMP
  | INVALID_SEAT_COUNT
  | INVALID_PRICE_SNAPSHOT
  | DURATION_OUT_OF_RANGE
  | EXPIRY_OUT_OF_RANGE
  | ZERO_REMAINING_DURATION

record seat_result =
  sd_cycle :: jsval
  sd_oldTotalSeats :: int
  sd_newTotalSeats :: int
  sd_oldPeriodPriceMinor :: int
  sd_newPeriodPriceMinor :: int
  sd_oldRemainingMs :: int
  sd_newRemainingMs :: int
  sd_expiresAtMs :: int

fun sd_object :: "jsval \<Rightarrow> bool" where
  "sd_object (JObj kvs) = True"
| "sd_object v = False"

fun sd_integer :: "jsval \<Rightarrow> int \<Rightarrow> bool" where
  "sd_integer (JInt n) minimum = (is_safe_integer n \<and> minimum \<le> n)"
| "sd_integer v minimum = False"

fun sd_timestamp :: "jsval \<Rightarrow> seat_error + int" where
  "sd_timestamp (JInt n) =
     (if \<not> is_safe_integer n then Inl INVALID_TIMESTAMP
      else if n < - MAX_DATE_MS \<or> MAX_DATE_MS < n then Inl INVALID_TIMESTAMP
      else Inr n)"
| "sd_timestamp v = Inl INVALID_TIMESTAMP"

fun as_int :: "jsval \<Rightarrow> int" where
  "as_int (JInt n) = n"
| "as_int v = 0"

definition sd_price :: "int \<Rightarrow> int \<Rightarrow> int \<Rightarrow> int \<Rightarrow> int" where
  "sd_price basePrice additionalSeatPrice includedSeats seats =
     basePrice + (seats - includedSeats) * additionalSeatPrice"

definition calculateWincrmSeatDuration :: "jsval \<Rightarrow> seat_error + seat_result" where
  "calculateWincrmSeatDuration input =
     (let period = jsfield input ''period''; snapshot = jsfield period ''priceSnapshot'' in
      sbind (require INVALID_INPUT (sd_object input \<and> sd_object period)) (\<lambda>_.
      sbind (require INVALID_PAID_PERIOD
        (jsfield period ''kind'' = JStr (js ''PAID'') \<and> jsfield period ''status'' = JStr (js ''ACTIVE''))) (\<lambda>_.
      sbind (require INVALID_INPUT
        (jsfield period ''cycle'' = JStr (js ''MONTHLY'') \<or> jsfield period ''cycle'' = JStr (js ''YEARLY''))) (\<lambda>_.
      sbind (sd_timestamp (jsfield input ''nowMs'')) (\<lambda>now.
      sbind (sd_timestamp (jsfield period ''startsAtMs'')) (\<lambda>startsAt.
      sbind (sd_timestamp (jsfield period ''expiresAtMs'')) (\<lambda>expiresAt.
      sbind (require INVALID_PAID_PERIOD (\<not> (startsAt > now \<or> expiresAt \<le> now))) (\<lambda>_.
      sbind (require INVALID_PRICE_SNAPSHOT
        (sd_object snapshot
         \<and> sd_integer (jsfield snapshot ''includedSeats'') 2
         \<and> sd_integer (jsfield snapshot ''monthlyPriceMinor'') 1
         \<and> sd_integer (jsfield snapshot ''yearlyPriceMinor'') 1
         \<and> sd_integer (jsfield snapshot ''additionalSeatMonthlyPriceMinor'') 0
         \<and> sd_integer (jsfield snapshot ''additionalSeatYearlyPriceMinor'') 0)) (\<lambda>_.
      let includedSeats = as_int (jsfield snapshot ''includedSeats'') in
      sbind (require INVALID_SEAT_COUNT
        (sd_integer (jsfield period ''totalSeats'') includedSeats
         \<and> sd_integer (jsfield input ''newTotalSeats'') includedSeats)) (\<lambda>_.
      let monthly = (jsfield period ''cycle'' = JStr (js ''MONTHLY''));
          basePrice = as_int (jsfield snapshot
            (if monthly then ''monthlyPriceMinor'' else ''yearlyPriceMinor''));
          additionalSeatPrice = as_int (jsfield snapshot
            (if monthly then ''additionalSeatMonthlyPriceMinor''
             else ''additionalSeatYearlyPriceMinor''));
          price = sd_price basePrice additionalSeatPrice includedSeats;
          oldTotalSeats = as_int (jsfield period ''totalSeats'');
          newTotalSeats = as_int (jsfield input ''newTotalSeats'');
          oldPeriodPriceMinor = price oldTotalSeats;
          newPeriodPriceMinor = price newTotalSeats;
          oldRemaining = expiresAt - now;
          newRemaining = bigint_div (oldRemaining * oldPeriodPriceMinor) newPeriodPriceMinor;
          newExpiresAt = now + newRemaining in
      sbind (require ZERO_REMAINING_DURATION (newRemaining \<noteq> 0)) (\<lambda>_.
      sbind (require DURATION_OUT_OF_RANGE
        (\<not> (oldRemaining > MAX_SAFE_INTEGER \<or> newRemaining > MAX_SAFE_INTEGER))) (\<lambda>_.
      sbind (require EXPIRY_OUT_OF_RANGE
        (\<not> (newExpiresAt < - MAX_DATE_MS \<or> newExpiresAt > MAX_DATE_MS))) (\<lambda>_.
      Inr \<lparr>sd_cycle = jsfield period ''cycle'', sd_oldTotalSeats = oldTotalSeats,
           sd_newTotalSeats = newTotalSeats, sd_oldPeriodPriceMinor = oldPeriodPriceMinor,
           sd_newPeriodPriceMinor = newPeriodPriceMinor, sd_oldRemainingMs = oldRemaining,
           sd_newRemainingMs = newRemaining, sd_expiresAtMs = newExpiresAt\<rparr>)))))))))))))"

text \<open>The argument as the interface \<open>WincrmSeatDurationInput\<close> declares it.\<close>

definition seat_input ::
    "int \<Rightarrow> int \<Rightarrow> jsval \<Rightarrow> jsval \<Rightarrow> jsval \<Rightarrow> int \<Rightarrow> int \<Rightarrow> int \<Rightarrow> jsval \<Rightarrow> jsval" where
  "seat_input nowMs newTotalSeats kind status cycle startsAtMs expiresAtMs totalSeats priceSnapshot =
     obj [(''nowMs'', JInt nowMs), (''newTotalSeats'', JInt newTotalSeats),
          (''period'', obj [(''kind'', kind), (''status'', status), (''cycle'', cycle),
             (''startsAtMs'', JInt startsAtMs), (''expiresAtMs'', JInt expiresAtMs),
             (''totalSeats'', JInt totalSeats), (''priceSnapshot'', priceSnapshot)])]"

section \<open>What a price list promises\<close>

text \<open>
  The conversion relies on two laws of the price of a period: it is positive and it does not fall
  with the number of seats.
\<close>

locale seat_price =
  fixes price :: "int \<Rightarrow> int" and lowest :: int
  assumes price_pos: "lowest \<le> s \<Longrightarrow> 0 < price s"
    and price_mono: "lowest \<le> s \<Longrightarrow> s \<le> t \<Longrightarrow> price s \<le> price t"
begin

text \<open>The remaining time for \<open>t\<close> seats bought with \<open>rem\<close> milliseconds for \<open>s\<close> seats.\<close>

lemma convert_no_gain: "lowest \<le> t \<Longrightarrow> rem * price s div price t * price t \<le> rem * price s"
  using price_pos [of t] by (metis div_mult_mod_eq pos_mod_sign le_add_same_cancel1)

lemma convert_loss_small:
  "lowest \<le> t \<Longrightarrow> rem * price s < (rem * price s div price t + 1) * price t"
  using price_pos [of t] by (metis add.commute div_mult_mod_eq distrib_right mult_1
      pos_mod_bound add_less_cancel_left)

lemma convert_same: "lowest \<le> s \<Longrightarrow> rem * price s div price s = rem"
  using price_pos [of s] by simp

lemma convert_antitone:
  assumes "lowest \<le> t" "t \<le> u" "0 \<le> rem" "lowest \<le> s"
  shows "rem * price s div price u \<le> rem * price s div price t"
  using assms price_pos [of t] price_pos [of s] price_mono [of t u] by (intro zdiv_mono2) auto

lemma convert_back_no_gain:
  assumes "lowest \<le> s" "lowest \<le> t" "0 \<le> rem"
  shows "(rem * price s div price t) * price t div price s \<le> rem"
proof -
  have "(rem * price s div price t) * price t \<le> rem * price s"
    using assms convert_no_gain by simp
  then have "(rem * price s div price t) * price t div price s \<le> rem * price s div price s"
    using assms price_pos [of s] by (intro zdiv_mono1) auto
  then show ?thesis
    using assms convert_same by simp
qed

end

text \<open>
  The price list of the source, completed to a positive constant where the snapshot would have
  been refused: it satisfies the laws for every snapshot.
\<close>

definition checked_price :: "int \<Rightarrow> int \<Rightarrow> int \<Rightarrow> int \<Rightarrow> int" where
  "checked_price base extra included seats =
     (if 0 < base \<and> 0 \<le> extra then sd_price base extra included seats else 1)"

interpretation sd: seat_price "checked_price base extra included" included
  for base extra included
  by unfold_locales (auto simp: checked_price_def sd_price_def add_pos_nonneg mult_right_mono)

lemma checked_price_eq:
  "0 < base \<Longrightarrow> 0 \<le> extra \<Longrightarrow> checked_price base extra included = sd_price base extra included"
  by (simp add: checked_price_def fun_eq_iff)

text \<open>
  The price of a number of seats is fixed by the billing cycle and the price snapshot alone.
\<close>

definition snapshot_price :: "jsval \<Rightarrow> jsval \<Rightarrow> int \<Rightarrow> int" where
  "snapshot_price cycle snap seats =
     checked_price
       (as_int (jsfield snap (if cycle = JStr (js ''MONTHLY'') then ''monthlyPriceMinor'' else ''yearlyPriceMinor'')))
       (as_int (jsfield snap (if cycle = JStr (js ''MONTHLY'') then ''additionalSeatMonthlyPriceMinor''
          else ''additionalSeatYearlyPriceMinor'')))
       (as_int (jsfield snap ''includedSeats'')) seats"

interpretation sn: seat_price "snapshot_price cycle snap" "as_int (jsfield snap ''includedSeats'')"
  for cycle snap
  unfolding snapshot_price_def by (rule sd.seat_price_axioms)

section \<open>Inversion\<close>

lemma sd_object_obj [simp]: "sd_object (obj kvs)"
  by (simp add: obj_def)

lemma sd_integer_iff: "sd_integer v k \<longleftrightarrow> (\<exists>n. v = JInt n \<and> is_safe_integer n \<and> k \<le> n)"
  by (cases v) auto

lemma sd_timestamp_Inr: "sd_timestamp v = Inr n \<longleftrightarrow> v = JInt n \<and> is_safe_integer n \<and> \<bar>n\<bar> \<le> MAX_DATE_MS"
  by (cases v) auto

text \<open>
  Everything a successful conversion checked, with the price list as an instance of the
  interface.
\<close>

lemma seat_duration_InrE:
  assumes "calculateWincrmSeatDuration input = Inr r"
  obtains now starts expires old new price included where
    "jsfield input ''nowMs'' = JInt now"
    "jsfield (jsfield input ''period'') ''startsAtMs'' = JInt starts" "starts \<le> now"
    "jsfield (jsfield input ''period'') ''expiresAtMs'' = JInt expires"
    "jsfield (jsfield input ''period'') ''totalSeats'' = JInt old"
    "jsfield input ''newTotalSeats'' = JInt new"
    "price = snapshot_price (jsfield (jsfield input ''period'') ''cycle'')
       (jsfield (jsfield input ''period'') ''priceSnapshot'')"
    "included = as_int (jsfield (jsfield (jsfield input ''period'') ''priceSnapshot'') ''includedSeats'')"
    "2 \<le> included" "included \<le> old" "included \<le> new" "now < expires"
    "sd_oldTotalSeats r = old" "sd_newTotalSeats r = new"
    "sd_oldPeriodPriceMinor r = price old" "sd_newPeriodPriceMinor r = price new"
    "sd_oldRemainingMs r = expires - now"
    "sd_newRemainingMs r = (expires - now) * price old div price new"
    "sd_newRemainingMs r \<noteq> 0" "sd_expiresAtMs r = now + sd_newRemainingMs r"
    "\<bar>sd_expiresAtMs r\<bar> \<le> MAX_DATE_MS"
proof -
  define period where "period = jsfield input ''period''"
  define snap where "snap = jsfield period ''priceSnapshot''"
  define base where "base = as_int (jsfield snap (if jsfield period ''cycle'' = JStr (js ''MONTHLY'')
    then ''monthlyPriceMinor'' else ''yearlyPriceMinor''))"
  define extra where "extra = as_int (jsfield snap (if jsfield period ''cycle'' = JStr (js ''MONTHLY'')
    then ''additionalSeatMonthlyPriceMinor'' else ''additionalSeatYearlyPriceMinor''))"
  define included where "included = as_int (jsfield snap ''includedSeats'')"
  define old new where "old = as_int (jsfield period ''totalSeats'')"
    and "new = as_int (jsfield input ''newTotalSeats'')"
  from assms obtain now starts expires where
    t: "jsfield input ''nowMs'' = JInt now" "jsfield period ''expiresAtMs'' = JInt expires" "now < expires"
      "jsfield period ''startsAtMs'' = JInt starts" "starts \<le> now"
    and sn: "sd_integer (jsfield snap ''includedSeats'') 2" "sd_integer (jsfield snap ''monthlyPriceMinor'') 1"
      "sd_integer (jsfield snap ''yearlyPriceMinor'') 1"
      "sd_integer (jsfield snap ''additionalSeatMonthlyPriceMinor'') 0"
      "sd_integer (jsfield snap ''additionalSeatYearlyPriceMinor'') 0"
    and seats: "sd_integer (jsfield period ''totalSeats'') included"
      "sd_integer (jsfield input ''newTotalSeats'') included"
    and nz: "bigint_div ((expires - now) * sd_price base extra included old) (sd_price base extra included new) \<noteq> 0"
    and range: "\<bar>now + bigint_div ((expires - now) * sd_price base extra included old)
      (sd_price base extra included new)\<bar> \<le> MAX_DATE_MS"
    and r: "r = \<lparr>sd_cycle = jsfield period ''cycle'', sd_oldTotalSeats = old, sd_newTotalSeats = new,
      sd_oldPeriodPriceMinor = sd_price base extra included old,
      sd_newPeriodPriceMinor = sd_price base extra included new,
      sd_oldRemainingMs = expires - now,
      sd_newRemainingMs = bigint_div ((expires - now) * sd_price base extra included old) (sd_price base extra included new),
      sd_expiresAtMs = now + bigint_div ((expires - now) * sd_price base extra included old)
        (sd_price base extra included new)\<rparr>"
    unfolding calculateWincrmSeatDuration_def Let_def period_def [symmetric] snap_def [symmetric]
      base_def [symmetric] extra_def [symmetric] included_def [symmetric] old_def [symmetric]
      new_def [symmetric]
    by (auto simp: sbind_Inr sd_timestamp_Inr abs_le_iff)
  have pos: "0 < base" "0 \<le> extra"
    using sn by (auto simp: base_def extra_def sd_integer_iff)
  have inc: "2 \<le> included" "included \<le> old" "included \<le> new"
    "jsfield period ''totalSeats'' = JInt old" "jsfield input ''newTotalSeats'' = JInt new"
    using sn(1) seats by (auto simp: included_def old_def new_def sd_integer_iff)
  have div: "bigint_div ((expires - now) * sd_price base extra included old) (sd_price base extra included new)
      = (expires - now) * checked_price base extra included old div checked_price base extra included new"
    using t(3) sd.price_pos [of included old base extra] sd.price_pos [of included new base extra] inc
    by (simp add: checked_price_eq pos)
  have price: "snapshot_price (jsfield period ''cycle'') snap = checked_price base extra included"
    by (simp add: fun_eq_iff snapshot_price_def base_def extra_def included_def)
  show thesis
    by (rule that [of now starts expires old new "checked_price base extra included" included])
      (use t pos inc nz range div r price in
        \<open>simp_all add: checked_price_eq included_def period_def [symmetric] snap_def [symmetric]\<close>)
qed

lemma seat_price_pos:
  assumes "0 < base" "0 \<le> extra" "included \<le> seats"
  shows "0 < sd_price base extra included seats"
  using sd.price_pos [of included seats base extra] assms by (simp add: checked_price_eq)

lemma seat_input_InrD:
  assumes "calculateWincrmSeatDuration (seat_input now new kind status cycle starts expires old snap) = Inr r"
  defines "price \<equiv> snapshot_price cycle snap"
  shows "sd_expiresAtMs r = now + (expires - now) * price old div price new"
    and "as_int (jsfield snap ''includedSeats'') \<le> old" and "as_int (jsfield snap ''includedSeats'') \<le> new"
    and "now < expires" and "now < sd_expiresAtMs r" and "\<bar>sd_expiresAtMs r\<bar> \<le> MAX_DATE_MS"
    and "starts \<le> now"
proof -
  have "sd_expiresAtMs r = now + (expires - now) * price old div price new
    \<and> as_int (jsfield snap ''includedSeats'') \<le> old \<and> as_int (jsfield snap ''includedSeats'') \<le> new
    \<and> now < expires \<and> (expires - now) * price old div price new \<noteq> 0 \<and> \<bar>sd_expiresAtMs r\<bar> \<le> MAX_DATE_MS
    \<and> starts \<le> now"
    using assms(1) by (rule seat_duration_InrE) (simp add: seat_input_def price_def)
  then show g: "sd_expiresAtMs r = now + (expires - now) * price old div price new"
    "as_int (jsfield snap ''includedSeats'') \<le> old" "as_int (jsfield snap ''includedSeats'') \<le> new"
    "now < expires" "\<bar>sd_expiresAtMs r\<bar> \<le> MAX_DATE_MS" "starts \<le> now"
    and "now < sd_expiresAtMs r"
  proof -
    assume f: ?this
    then have "0 < price old" "0 < price new"
      by (simp_all add: sn.price_pos price_def)
    then have "0 \<le> (expires - now) * price old div price new"
      using f by (simp add: pos_imp_zdiv_nonneg_iff)
    then show "now < sd_expiresAtMs r"
      using f by linarith
  qed blast+
qed

section \<open>Properties\<close>

text \<open>A price list for the witnesses, and the conversion evaluated on it.\<close>

definition sample_prices :: jsval where
  "sample_prices = obj [(''includedSeats'', JInt 2), (''monthlyPriceMinor'', JInt 300),
     (''yearlyPriceMinor'', JInt 3000), (''additionalSeatMonthlyPriceMinor'', JInt 50),
     (''additionalSeatYearlyPriceMinor'', JInt 500)]"

definition sample_input :: "int \<Rightarrow> int \<Rightarrow> int \<Rightarrow> jsval" where
  "sample_input newSeats expires oldSeats =
     seat_input 1000 newSeats (JStr (js ''PAID'')) (JStr (js ''ACTIVE'')) (JStr (js ''MONTHLY'')) 0
       expires oldSeats sample_prices"

lemma sample_prices_fields [simp]:
  "jsfield sample_prices ''includedSeats'' = JInt 2" "jsfield sample_prices ''monthlyPriceMinor'' = JInt 300"
  "jsfield sample_prices ''yearlyPriceMinor'' = JInt 3000"
  "jsfield sample_prices ''additionalSeatMonthlyPriceMinor'' = JInt 50"
  "jsfield sample_prices ''additionalSeatYearlyPriceMinor'' = JInt 500" "sd_object sample_prices"
  by (simp_all add: sample_prices_def)

lemma sample_conversion:
  assumes "2 \<le> a" "a \<le> 10" "2 \<le> b" "b \<le> 10" "1000 < x" "x \<le> 10000"
  shows "calculateWincrmSeatDuration (sample_input a x b) =
     (if (x - 1000) * (300 + (b - 2) * 50) div (300 + (a - 2) * 50) = 0 then Inl ZERO_REMAINING_DURATION
      else Inr \<lparr>sd_cycle = JStr (js ''MONTHLY''), sd_oldTotalSeats = b, sd_newTotalSeats = a,
        sd_oldPeriodPriceMinor = 300 + (b - 2) * 50, sd_newPeriodPriceMinor = 300 + (a - 2) * 50,
        sd_oldRemainingMs = x - 1000,
        sd_newRemainingMs = (x - 1000) * (300 + (b - 2) * 50) div (300 + (a - 2) * 50),
        sd_expiresAtMs = 1000 + (x - 1000) * (300 + (b - 2) * 50) div (300 + (a - 2) * 50)\<rparr>)"
proof -
  define q where "q = (x - 1000) * (300 + (b - 2) * 50) div (300 + (a - 2) * 50)"
  have "0 \<le> q" "q \<le> (x - 1000) * (300 + (b - 2) * 50)"
    unfolding q_def using assms zdiv_mono2 [of "(x - 1000) * (300 + (b - 2) * 50)" 1 "300 + (a - 2) * 50"]
    by (simp_all add: pos_imp_zdiv_nonneg_iff)
  moreover have "(x - 1000) * (300 + (b - 2) * 50) \<le> 9000 * 700"
    using assms by (intro mult_mono) simp_all
  moreover have "bigint_div ((x - 1000) * (300 + (b - 2) * 50)) (300 + (a - 2) * 50) = q"
    unfolding q_def using assms by simp
  ultimately show ?thesis
    using assms
    by (simp add: calculateWincrmSeatDuration_def sample_input_def seat_input_def Let_def sd_price_def
        MAX_DATE_MS_def MAX_SAFE_INTEGER_def is_safe_integer_def q_def [symmetric])
qed


text \<open>
  C35. A successful conversion never creates paid value and loses less than one millisecond of the
  new price: the new duration is positive, its cost is at most the cost of what was left, one
  millisecond more would cost more, and the new expiry is the present time plus that duration.
\<close>

theorem seat_duration_conserves_value:
  assumes "calculateWincrmSeatDuration input = Inr r"
  shows "0 < sd_newRemainingMs r
    \<and> sd_newRemainingMs r * sd_newPeriodPriceMinor r \<le> sd_oldRemainingMs r * sd_oldPeriodPriceMinor r
    \<and> sd_oldRemainingMs r * sd_oldPeriodPriceMinor r
        < (sd_newRemainingMs r + 1) * sd_newPeriodPriceMinor r
    \<and> jsfield input ''nowMs'' = JInt (sd_expiresAtMs r - sd_newRemainingMs r)"
  using assms
proof (rule seat_duration_InrE)
  fix now expires old new price included
  assume f: "price = snapshot_price (jsfield (jsfield input ''period'') ''cycle'')
       (jsfield (jsfield input ''period'') ''priceSnapshot'')"
    "included = as_int (jsfield (jsfield (jsfield input ''period'') ''priceSnapshot'') ''includedSeats'')"
    "included \<le> old" "included \<le> new" "now < expires"
    "sd_newRemainingMs r = (expires - now) * price old div price new" "sd_newRemainingMs r \<noteq> 0"
    and r: "sd_oldPeriodPriceMinor r = price old" "sd_newPeriodPriceMinor r = price new"
    "sd_oldRemainingMs r = expires - now" "sd_expiresAtMs r = now + sd_newRemainingMs r"
    and n: "jsfield input ''nowMs'' = JInt now"
  have "0 < price new" "0 < price old"
    using f sn.price_pos by auto
  then have "0 \<le> sd_newRemainingMs r"
    using f(5) unfolding f(6) by (simp add: pos_imp_zdiv_nonneg_iff)
  moreover have "sd_newRemainingMs r * price new \<le> (expires - now) * price old"
    unfolding f(6) f(1) using f(2,4) by (intro sn.convert_no_gain) simp
  moreover have "(expires - now) * price old < (sd_newRemainingMs r + 1) * price new"
    unfolding f(6) f(1) using f(2,4) by (intro sn.convert_loss_small) simp
  ultimately show ?thesis
    using f(7) r n by simp
qed

theorem seat_duration_conserves_value_witness:
  "\<exists>r. calculateWincrmSeatDuration (sample_input 3 5000 2) = Inr r
     \<and> sd_newRemainingMs r = 3428 \<and> sd_newRemainingMs r * 350 \<le> 4000 * 300"
  using seat_duration_conserves_value [of "sample_input 3 5000 2"] by (simp add: sample_conversion)

text \<open>
  C36. Changing the number of seats and changing it back at the same instant never gains time: the
  final expiry is not later than the original one.
\<close>

theorem seat_duration_back_no_gain:
  assumes "calculateWincrmSeatDuration (seat_input now new kind status cycle starts expires old snap) = Inr r"
    and "calculateWincrmSeatDuration (seat_input now old kind status cycle starts (sd_expiresAtMs r) new snap) = Inr r'"
  shows "sd_expiresAtMs r' \<le> expires"
proof -
  note f = seat_input_InrD [OF assms(1)] and g = seat_input_InrD [OF assms(2)]
  have "(sd_expiresAtMs r - now) * snapshot_price cycle snap new div snapshot_price cycle snap old
      \<le> expires - now"
    unfolding f(1) using sn.convert_back_no_gain [of snap old new "expires - now" cycle] f by simp
  then show ?thesis
    unfolding g(1) by simp
qed

theorem seat_duration_back_no_gain_witness:
  "\<exists>r r'. calculateWincrmSeatDuration (sample_input 3 5000 2) = Inr r
     \<and> calculateWincrmSeatDuration (sample_input 2 (sd_expiresAtMs r) 3) = Inr r'
     \<and> sd_expiresAtMs r' = 4999 \<and> sd_expiresAtMs r' \<le> 5000"
  using seat_duration_back_no_gain [of 1000 3 "JStr (js ''PAID'')" "JStr (js ''ACTIVE'')"
      "JStr (js ''MONTHLY'')" 0 5000 2 sample_prices, folded sample_input_def]
  by (simp add: sample_conversion)

text \<open>
  More seats never last longer: of two conversions of the same period, the one to more seats
  expires no later, and the conversion to the present number of seats leaves the expiry unchanged.
\<close>

theorem seat_duration_antitone:
  assumes "calculateWincrmSeatDuration (seat_input now a kind status cycle starts expires old snap) = Inr r"
    and "calculateWincrmSeatDuration (seat_input now b kind status cycle starts expires old snap) = Inr r'"
    and "a \<le> b"
  shows "sd_expiresAtMs r' \<le> sd_expiresAtMs r \<and> (a = old \<longrightarrow> sd_expiresAtMs r = expires)"
proof -
  note f = seat_input_InrD [OF assms(1)] and g = seat_input_InrD [OF assms(2)]
  have "(expires - now) * snapshot_price cycle snap old div snapshot_price cycle snap b
      \<le> (expires - now) * snapshot_price cycle snap old div snapshot_price cycle snap a"
    using f assms(3) by (intro sn.convert_antitone) simp_all
  then show ?thesis
    unfolding f(1) g(1) using sn.convert_same [OF f(2)] by simp
qed

theorem seat_duration_antitone_witness:
  "\<exists>r r'. calculateWincrmSeatDuration (sample_input 2 5000 2) = Inr r
     \<and> calculateWincrmSeatDuration (sample_input 4 5000 2) = Inr r'
     \<and> sd_expiresAtMs r = 5000 \<and> sd_expiresAtMs r' \<le> 5000"
  using seat_duration_antitone [of 1000 2 "JStr (js ''PAID'')" "JStr (js ''ACTIVE'')"
      "JStr (js ''MONTHLY'')" 0 5000 2 sample_prices _ 4, folded sample_input_def]
  by (simp add: sample_conversion)

end
