(* ===== verification/Commerce_Data.thy ===== *)
theory Commerce_Data
  imports Command_Idempotency
begin

text \<open>
  The database of the Billing service as far as WinCRM commerce uses it: one record per Prisma
  model of \<open>apps/billing/prisma/schema.prisma\<close>, the record \<open>db\<close> of all tables, the environment
  (clock, random identifiers, hash, cipher, configuration), and the Prisma calls on each table
  with its unique keys. Columns that hold a fixed set of words are datatypes, JSON columns are
  values of type \<open>jsval\<close>. Every table interprets the interface \<open>table\<close>.
\<close>

section \<open>Enumerations\<close>

datatype cycle = MONTHLY | YEARLY
datatype order_kind = ONE_TIME | RECURRING
datatype order_status = O_PENDING | O_SUCCEEDED | O_CANCELLED | O_UNKNOWN
datatype command_status = C_PENDING | C_COMMITTED | C_CANCELLED
datatype renewal_status = R_ACTIVE | R_USER_DISABLED | R_TECHNICAL_PAUSE | R_PRICE_CONFIRMATION_REQUIRED | R_REVOKED
datatype operation_kind = CREATE | VERIFY | SYNC_RECEIPT
datatype operation_status = P_PENDING | P_PROCESSING | P_SUCCEEDED | P_FAILED | P_UNKNOWN
datatype delivery_status = D_PROCESSING | D_DELIVERED | D_RETRY_SCHEDULED | D_DEAD_LETTERED
datatype entitlement_status = E_ACTIVE | E_GRACE | E_READ_ONLY | E_SUSPENDED | E_EXPIRED | E_CANCELLED

section \<open>Rows\<close>

text \<open>\<open>CrmCommercialPolicy\<close>\<close>

record policy_row =
  pol_version :: int
  pol_monthlyPriceMinor :: int
  pol_yearlyPriceMinor :: int
  pol_additionalSeatMonthlyPriceMinor :: int
  pol_additionalSeatYearlyPriceMinor :: int
  pol_includedSeats :: int
  pol_trialSeatLimit :: int
  pol_trialDays :: int
  pol_graceDays :: int
  pol_createdByUserId :: "jsstring option"
  pol_createdAt :: date

text \<open>\<open>CrmEntitlement\<close>\<close>

record entitlement_row =
  e_id :: jsstring
  e_workspaceId :: jsstring
  e_planCode :: string
  e_status :: entitlement_status
  e_seatLimit :: "int option"
  e_policyVersion :: "int option"
  e_graceUntil :: "date option"
  e_trialStartedAt :: "date option"
  e_effectiveFrom :: date
  e_effectiveUntil :: date
  e_provisioningCommandId :: jsstring
  e_provisioningCommandType :: string
  e_activatedByUserId :: jsstring
  e_aggregateVersion :: int
  e_sourceSequence :: int
  e_updatedAt :: date

text \<open>\<open>CrmCommerceAccount\<close>\<close>

record account_row =
  a_workspaceId :: jsstring
  a_ownerSubject :: jsstring
  a_version :: int
  a_capacityCommandId :: "jsstring option"
  a_capacityFence :: "jsval option"

text \<open>\<open>CrmCommerceCommand\<close>\<close>

record command_row =
  c_commandId :: jsstring
  c_workspaceId :: jsstring
  c_actorSubject :: jsstring
  c_commandType :: string
  c_requestHash :: jsstring
  c_expectedVersion :: int
  c_capacityFence :: "jsval option"
  c_status :: command_status
  c_orderId :: "jsstring option"
  c_periodId :: "jsstring option"
  c_resultVersion :: "int option"

text \<open>\<open>CrmOrder\<close>\<close>

record order_row =
  o_id :: jsstring
  o_workspaceId :: jsstring
  o_ownerSubject :: jsstring
  o_commandId :: jsstring
  o_capacityCommandId :: jsstring
  o_capacityFence :: jsval
  o_version :: int
  o_kind :: order_kind
  o_status :: order_status
  o_cycle :: cycle
  o_totalSeats :: int
  o_amountMinor :: int
  o_policyVersion :: int
  o_priceSnapshot :: jsval
  o_autoRenew :: bool
  o_consentVersion :: "jsstring option"
  o_consentText :: "jsstring option"
  o_consentedAt :: "date option"
  o_customerEmail :: "jsstring option"
  o_customerPhone :: "jsstring option"
  o_providerPaymentId :: "jsstring option"
  o_providerIdempotencyKey :: jsstring
  o_providerStatus :: "jsstring option"
  o_confirmationUrl :: "jsstring option"
  o_checkoutExpiresAt :: date
  o_succeededAt :: "date option"
  o_cancellationReason :: "jsstring option"
  o_recurringCycleKey :: "jsstring option"
  o_recurringAttempt :: int
  o_expectedRenewalVersion :: "int option"
  o_createdAt :: date

text \<open>\<open>CrmPaidPeriod\<close>\<close>

record period_row =
  p_id :: jsstring
  p_workspaceId :: jsstring
  p_orderId :: jsstring
  p_version :: int
  p_cycle :: cycle
  p_totalSeats :: int
  p_originalSeats :: int
  p_priceSnapshot :: jsval
  p_startsAt :: date
  p_expiresAt :: date
  p_originalExpiresAt :: date
  p_graceUntil :: date
  p_activationNotifiedAt :: "date option"

text \<open>\<open>CrmAutoRenewal\<close>\<close>

record renewal_row =
  r_workspaceId :: jsstring
  r_id :: jsstring
  r_ownerSubject :: jsstring
  r_version :: int
  r_status :: renewal_status
  r_cycle :: cycle
  r_totalSeats :: int
  r_amountMinor :: int
  r_priceSnapshot :: jsval
  r_paymentMethodCiphertext :: jsstring
  r_paymentMethodTitle :: "jsstring option"
  r_paymentMethodLast4 :: "jsstring option"
  r_consentVersion :: jsstring
  r_consentText :: jsstring
  r_consentedAt :: date
  r_nextChargeAt :: date
  r_retryStartedAt :: "date option"
  r_retryAttempt :: int
  r_nextRetryAt :: "date option"
  r_dispatchPending :: bool
  r_disabledAt :: "date option"
  r_lastErrorCode :: "jsstring option"

text \<open>\<open>CrmAutoRenewalConsent\<close>\<close>

record consent_row =
  n_id :: jsstring
  n_workspaceId :: jsstring
  n_actorSubject :: jsstring
  n_eventType :: string
  n_commandId :: jsstring
  n_renewalVersion :: int
  n_evidence :: jsval

text \<open>\<open>CrmProviderOperation\<close>\<close>

record operation_row =
  op_id :: jsstring
  op_workspaceId :: jsstring
  op_orderId :: jsstring
  op_kind :: operation_kind
  op_status :: operation_status
  op_version :: int
  op_idempotencyKey :: jsstring
  op_providerPaymentId :: "jsstring option"
  op_firstDispatchAt :: "date option"
  op_dispatchAttempt :: int
  op_retryAttempt :: int
  op_availableAt :: date
  op_leaseToken :: "jsstring option"
  op_leaseUntil :: "date option"
  op_pendingEventId :: jsstring
  op_outboxId :: jsstring
  op_requestSnapshot :: jsval
  op_lastErrorCode :: "jsstring option"

text \<open>\<open>CrmProviderDelivery\<close>\<close>

record delivery_row =
  d_id :: jsstring
  d_eventId :: jsstring
  d_consumer :: string
  d_operationId :: "jsstring option"
  d_payloadHash :: jsstring
  d_status :: delivery_status
  d_version :: int
  d_leaseToken :: "jsstring option"
  d_leaseUntil :: "date option"
  d_lastErrorCode :: "jsstring option"

text \<open>\<open>CrmPaymentReceipt\<close>\<close>

record fiscal_row =
  f_id :: jsstring
  f_workspaceId :: jsstring
  f_orderId :: jsstring
  f_providerReceiptId :: jsstring
  f_status :: jsval
  f_type :: "jsstring option"
  f_fiscalDocumentNumber :: "jsstring option"
  f_fiscalStorageNumber :: "jsstring option"
  f_fiscalAttribute :: "jsstring option"
  f_registeredAt :: "date option"

text \<open>\<open>OutboxEvent\<close>: the columns the writers set.\<close>

record outbox_row =
  x_id :: jsstring
  x_eventId :: jsstring
  x_deduplicationKey :: "jsstring option"
  x_eventType :: string
  x_aggregateType :: string
  x_aggregateId :: jsstring
  x_aggregateVersion :: "int option"
  x_sourceSequence :: "int option"
  x_exchange :: string
  x_routingKey :: string
  x_availableAt :: date
  x_payload :: jsval

text \<open>\<open>IdentityContactProjection\<close>\<close>

record contact_row =
  i_userId :: jsstring
  i_email :: "jsstring option"
  i_phone :: "jsstring option"
  i_status :: string
  i_deletedAt :: "date option"
  i_tombstone :: bool

text \<open>\<open>CrmAdminDayGrant\<close>\<close>

record grant_row =
  g_commandId :: jsstring
  g_workspaceId :: jsstring
  g_actorSubject :: jsstring
  g_actorRole :: string
  g_days :: int
  g_reason :: jsstring
  g_target :: string
  g_periodId :: "jsstring option"
  g_oldExpiresAt :: date
  g_newExpiresAt :: date
  g_createdAt :: date

section \<open>The database and the environment\<close>

text \<open>
  \<open>sourceSequence\<close> is the row \<open>billing\<close> of \<open>BillingSourceSequence\<close>. \<open>tick\<close> and \<open>fresh\<close> count
  the clock readings and random identifiers used so far.
\<close>

record db =
  policies :: "policy_row list"
  entitlements :: "entitlement_row list"
  accounts :: "account_row list"
  commands :: "command_row list"
  orders :: "order_row list"
  periods :: "period_row list"
  renewals :: "renewal_row list"
  consents :: "consent_row list"
  operations :: "operation_row list"
  deliveries :: "delivery_row list"
  fiscals :: "fiscal_row list"
  receipts :: "command_receipt list"
  outbox :: "outbox_row list"
  contacts :: "contact_row list"
  grants :: "grant_row list"
  sourceSequence :: "int option"
  tick :: nat
  fresh :: nat

text \<open>A parsed URL: the properties of the standard \<open>URL\<close> object that the code reads.\<close>

record url =
  u_protocol :: string
  u_hostname :: string
  u_port :: string
  u_username :: string
  u_password :: string
  u_hash :: string
  u_search :: string
  u_pathname :: string
  u_origin :: jsstring
  u_searchParams :: "(jsstring \<times> jsstring) list"

text \<open>
  What the program takes from outside: the successive readings of \<open>Date.now()\<close>, the results of
  \<open>randomUUID\<close>, SHA-256 in hexadecimal, the cipher for payment methods (the index makes it
  depend on its random nonce), the configuration from \<open>process.env\<close>, the WHATWG URL parser and
  printer, \<open>Date.parse\<close> on texts outside the standard format, the correlation id of the request, and at which attempts of which transaction the database reports a
  serialization failure.
\<close>

record env =
  clock :: "nat \<Rightarrow> date"
  uuid :: "nat \<Rightarrow> jsstring"
  sha256 :: "jsstring \<Rightarrow> jsstring"
  encrypt :: "nat \<Rightarrow> jsstring \<Rightarrow> jsstring"
  paymentsEnabled :: bool
  frontendOrigin :: "jsstring option"
  parse_url :: "jsstring \<Rightarrow> url option"
  print_url :: "url \<Rightarrow> jsstring"
  parse_date :: "jsstring \<Rightarrow> js_date"
  correlationId :: jsstring
  conflicts :: "nat \<Rightarrow> nat \<Rightarrow> bool"

type_synonym 'a op = "(db, err, 'a) tx"

text \<open>
  \<open>new Date(text)\<close>: a text that \<open>toISOString\<close> prints names its instant; what other texts mean is
  left to the JavaScript engine.
\<close>

definition Date_parse :: "env \<Rightarrow> jsstring \<Rightarrow> js_date" where
  "Date_parse e s = (case parse_iso s of Some r \<Rightarrow> r | None \<Rightarrow> parse_date e s)"

lemma Date_parse_iso [simp]: "Date_parse e (toISOString t) = timeClip t"
  by (simp add: Date_parse_def)

text \<open>\<open>new Date()\<close> and \<open>randomUUID()\<close>.\<close>

definition new_date :: "env \<Rightarrow> date op" where
  "new_date e w = Inr (clock e (tick w), w\<lparr>tick := tick w + 1\<rparr>)"

definition randomUUID :: "env \<Rightarrow> jsstring op" where
  "randomUUID e w = Inr (uuid e (fresh w), w\<lparr>fresh := fresh w + 1\<rparr>)"

definition encrypt_op :: "env \<Rightarrow> jsstring \<Rightarrow> jsstring op" where
  "encrypt_op e s w = Inr (encrypt e (fresh w) s, w\<lparr>fresh := fresh w + 1\<rparr>)"

text \<open>
  The retry loop around a serializable transaction: at most three attempts, each of them aborted
  by a serialization failure where the environment says so. An aborted attempt leaves the database
  as it was and has used a clock reading and an identifier. (The advisory locks and time limits
  that open the transaction decide which transactions run, not what they do.)
\<close>

fun attempts :: "env \<Rightarrow> nat \<Rightarrow> nat \<Rightarrow> 'a op \<Rightarrow> 'a op" where
  "attempts e n 0 work w = (if conflicts e (tick w) n then Inl P2034 else work w)"
| "attempts e n (Suc k) work w =
     (if conflicts e (tick w) n
      then attempts e (n + 1) k work (w\<lparr>tick := tick w + 1, fresh := fresh w + 1\<rparr>)
      else work w)"

definition transaction :: "env \<Rightarrow> 'a op \<Rightarrow> 'a op" where
  "transaction e work = attempts e 0 2 work"

text \<open>A committed transaction is a run of its body at a possibly later time.\<close>

lemma attempts_Inr:
  "attempts e n k work w = Inr (x, w') \<Longrightarrow>
     \<exists>i j. tick w \<le> i \<and> fresh w \<le> j \<and> work (w\<lparr>tick := i, fresh := j\<rparr>) = Inr (x, w')"
proof (induction k arbitrary: n w)
  case 0
  then have "work (w\<lparr>tick := tick w, fresh := fresh w\<rparr>) = Inr (x, w')"
    by (simp split: if_splits)
  then show ?case
    by blast
next
  case (Suc k)
  show ?case
  proof (cases "conflicts e (tick w) n")
    case True
    then have "attempts e (n + 1) k work (w\<lparr>tick := tick w + 1, fresh := fresh w + 1\<rparr>) = Inr (x, w')"
      using Suc.prems by simp
    from Suc.IH [OF this] show ?thesis
      by (auto intro: Suc_leD)
  next
    case False
    then have "work (w\<lparr>tick := tick w, fresh := fresh w\<rparr>) = Inr (x, w')"
      using Suc.prems by simp
    then show ?thesis
      by blast
  qed
qed

lemma transaction_InrE [elim!]:
  assumes "transaction e work w = Inr (x, w')"
  obtains i j where "work (w\<lparr>tick := i, fresh := j\<rparr>) = Inr (x, w')"
  using attempts_Inr [OF assms [unfolded transaction_def]] that by auto

lemma transaction_laterE:
  assumes "transaction e work w = Inr (x, w')"
  obtains i j where "tick w \<le> i" "work (w\<lparr>tick := i, fresh := j\<rparr>) = Inr (x, w')"
  using attempts_Inr [OF assms [unfolded transaction_def]] that by auto

lemma transaction_no_conflict: "(\<And>t n. \<not> conflicts e t n) \<Longrightarrow> transaction e work = work"
  by (simp add: transaction_def fun_eq_iff numeral_2_eq_2)

section \<open>Prisma calls\<close>

text \<open>Two optional values that are both present and equal violate a unique key.\<close>

definition same_some :: "'a option \<Rightarrow> 'a option \<Rightarrow> bool" where
  "same_some x y \<longleftrightarrow> x \<noteq> None \<and> x = y"

definition create_policy :: "policy_row \<Rightarrow> policy_row op" where
  "create_policy = create_row policies policies_update (\<lambda>a b. pol_version a = pol_version b) P2002"

definition create_entitlement :: "entitlement_row \<Rightarrow> entitlement_row op" where
  "create_entitlement = create_row entitlements entitlements_update
     (\<lambda>a b. e_id a = e_id b \<or> e_workspaceId a = e_workspaceId b
        \<or> e_provisioningCommandId a = e_provisioningCommandId b) P2002"

definition update_entitlement ::
    "(entitlement_row \<Rightarrow> bool) \<Rightarrow> (entitlement_row \<Rightarrow> entitlement_row) \<Rightarrow> entitlement_row op" where
  "update_entitlement = update_row entitlements entitlements_update P2025"

definition create_account :: "account_row \<Rightarrow> account_row op" where
  "create_account = create_row accounts accounts_update (\<lambda>a b. a_workspaceId a = a_workspaceId b) P2002"

definition update_account :: "jsstring \<Rightarrow> (account_row \<Rightarrow> account_row) \<Rightarrow> account_row op" where
  "update_account ws = update_row accounts accounts_update P2025 (\<lambda>a. a_workspaceId a = ws)"

definition create_command :: "command_row \<Rightarrow> command_row op" where
  "create_command = create_row commands commands_update (\<lambda>a b. c_commandId a = c_commandId b) P2002"

definition update_command :: "jsstring \<Rightarrow> (command_row \<Rightarrow> command_row) \<Rightarrow> command_row op" where
  "update_command cid = update_row commands commands_update P2025 (\<lambda>c. c_commandId c = cid)"

definition updateMany_command :: "(command_row \<Rightarrow> bool) \<Rightarrow> (command_row \<Rightarrow> command_row) \<Rightarrow> nat op" where
  "updateMany_command = update_many commands commands_update"

definition create_order :: "order_row \<Rightarrow> order_row op" where
  "create_order = create_row orders orders_update
     (\<lambda>a b. o_id a = o_id b \<or> o_commandId a = o_commandId b
        \<or> o_providerIdempotencyKey a = o_providerIdempotencyKey b
        \<or> same_some (o_providerPaymentId a) (o_providerPaymentId b)
        \<or> same_some (o_recurringCycleKey a) (o_recurringCycleKey b)) P2002"

text \<open>The provider's payment id is the one unique column that updates change.\<close>

definition update_order :: "jsstring \<Rightarrow> (order_row \<Rightarrow> order_row) \<Rightarrow> order_row op" where
  "update_order oid f w =
     (case find (\<lambda>x. o_id x = oid) (orders w) of
        None \<Rightarrow> Inl P2025
      | Some old \<Rightarrow>
          if \<exists>x\<in>set (orders w). o_id x \<noteq> oid \<and> same_some (o_providerPaymentId x) (o_providerPaymentId (f old))
          then Inl P2002
          else update_row orders orders_update P2025 (\<lambda>x. o_id x = oid) f w)"

definition updateMany_order :: "(order_row \<Rightarrow> bool) \<Rightarrow> (order_row \<Rightarrow> order_row) \<Rightarrow> nat op" where
  "updateMany_order = update_many orders orders_update"

definition create_period :: "period_row \<Rightarrow> period_row op" where
  "create_period = create_row periods periods_update
     (\<lambda>a b. p_id a = p_id b \<or> p_orderId a = p_orderId b) P2002"

definition update_period :: "(period_row \<Rightarrow> bool) \<Rightarrow> (period_row \<Rightarrow> period_row) \<Rightarrow> period_row op" where
  "update_period = update_row periods periods_update P2025"

definition update_renewal :: "jsstring \<Rightarrow> (renewal_row \<Rightarrow> renewal_row) \<Rightarrow> renewal_row op" where
  "update_renewal ws = update_row renewals renewals_update P2025 (\<lambda>r. r_workspaceId r = ws)"

definition upsert_renewal :: "jsstring \<Rightarrow> renewal_row \<Rightarrow> (renewal_row \<Rightarrow> renewal_row) \<Rightarrow> renewal_row op" where
  "upsert_renewal ws = upsert_row renewals renewals_update (\<lambda>r. r_workspaceId r = ws)"

definition create_consent :: "consent_row \<Rightarrow> consent_row op" where
  "create_consent = create_row consents consents_update (\<lambda>a b. n_id a = n_id b) P2002"

definition create_operation :: "operation_row \<Rightarrow> operation_row op" where
  "create_operation = create_row operations operations_update
     (\<lambda>a b. op_id a = op_id b \<or> op_idempotencyKey a = op_idempotencyKey b) P2002"

definition update_operation ::
    "(operation_row \<Rightarrow> bool) \<Rightarrow> (operation_row \<Rightarrow> operation_row) \<Rightarrow> operation_row op" where
  "update_operation = update_row operations operations_update P2025"

definition updateMany_operation ::
    "(operation_row \<Rightarrow> bool) \<Rightarrow> (operation_row \<Rightarrow> operation_row) \<Rightarrow> nat op" where
  "updateMany_operation = update_many operations operations_update"

definition update_delivery :: "(delivery_row \<Rightarrow> bool) \<Rightarrow> (delivery_row \<Rightarrow> delivery_row) \<Rightarrow> delivery_row op" where
  "update_delivery = update_row deliveries deliveries_update P2025"

definition upsert_delivery ::
    "(delivery_row \<Rightarrow> bool) \<Rightarrow> delivery_row \<Rightarrow> (delivery_row \<Rightarrow> delivery_row) \<Rightarrow> delivery_row op" where
  "upsert_delivery = upsert_row deliveries deliveries_update"

definition upsert_fiscal :: "jsstring \<Rightarrow> fiscal_row \<Rightarrow> (fiscal_row \<Rightarrow> fiscal_row) \<Rightarrow> fiscal_row op" where
  "upsert_fiscal pid = upsert_row fiscals fiscals_update (\<lambda>f. f_providerReceiptId f = pid)"

definition create_receipt :: "command_receipt \<Rightarrow> command_receipt op" where
  "create_receipt = create_row receipts receipts_update (\<lambda>a b. rc_commandId a = rc_commandId b) P2002"

definition create_outbox :: "outbox_row \<Rightarrow> outbox_row op" where
  "create_outbox = create_row outbox outbox_update
     (\<lambda>a b. x_id a = x_id b \<or> x_eventId a = x_eventId b
        \<or> same_some (x_deduplicationKey a) (x_deduplicationKey b)) P2002"

definition create_grant :: "grant_row \<Rightarrow> grant_row op" where
  "create_grant = create_row grants grants_update (\<lambda>a b. g_commandId a = g_commandId b) P2002"

text \<open>\<open>upsert\<close> of the row \<open>billing\<close> of \<open>BillingSourceSequence\<close>; the new \<open>nextValue\<close> is returned.\<close>

definition upsert_sequence :: "int op" where
  "upsert_sequence w =
     (let nextValue = (case sourceSequence w of None \<Rightarrow> 2 | Some n \<Rightarrow> n + 1)
      in Inr (nextValue, w\<lparr>sourceSequence := Some nextValue\<rparr>))"

section \<open>Queries\<close>

definition find_account :: "jsstring \<Rightarrow> db \<Rightarrow> account_row option" where
  "find_account ws w = find (\<lambda>a. a_workspaceId a = ws) (accounts w)"

definition find_entitlement :: "jsstring \<Rightarrow> db \<Rightarrow> entitlement_row option" where
  "find_entitlement ws w = find (\<lambda>x. e_workspaceId x = ws) (entitlements w)"

definition find_command :: "jsstring \<Rightarrow> db \<Rightarrow> command_row option" where
  "find_command cid w = find (\<lambda>c. c_commandId c = cid) (commands w)"

definition find_receipt :: "jsstring \<Rightarrow> db \<Rightarrow> command_receipt option" where
  "find_receipt cid w = find (\<lambda>c. rc_commandId c = cid) (receipts w)"

definition find_order :: "jsstring \<Rightarrow> db \<Rightarrow> order_row option" where
  "find_order oid w = find (\<lambda>x. o_id x = oid) (orders w)"

definition find_period :: "jsstring \<Rightarrow> db \<Rightarrow> period_row option" where
  "find_period pid w = find (\<lambda>x. p_id x = pid) (periods w)"

definition period_of_order :: "jsstring \<Rightarrow> db \<Rightarrow> period_row option" where
  "period_of_order oid w = find (\<lambda>x. p_orderId x = oid) (periods w)"

definition find_renewal :: "jsstring \<Rightarrow> db \<Rightarrow> renewal_row option" where
  "find_renewal ws w = find (\<lambda>x. r_workspaceId x = ws) (renewals w)"

definition find_operation :: "jsstring \<Rightarrow> db \<Rightarrow> operation_row option" where
  "find_operation oid w = find (\<lambda>x. op_id x = oid) (operations w)"

definition find_delivery :: "jsstring \<Rightarrow> string \<Rightarrow> db \<Rightarrow> delivery_row option" where
  "find_delivery eid consumer w = find (\<lambda>x. d_eventId x = eid \<and> d_consumer x = consumer) (deliveries w)"

definition find_contact :: "jsstring \<Rightarrow> db \<Rightarrow> contact_row option" where
  "find_contact uid w = find (\<lambda>x. i_userId x = uid) (contacts w)"

text \<open>No query sees the counters.\<close>

lemma queries_timeless [simp]:
  "find_account k (w\<lparr>tick := i\<rparr>) = find_account k w" "find_account k (w\<lparr>fresh := i\<rparr>) = find_account k w"
  "find_entitlement k (w\<lparr>tick := i\<rparr>) = find_entitlement k w" "find_entitlement k (w\<lparr>fresh := i\<rparr>) = find_entitlement k w"
  "find_command k (w\<lparr>tick := i\<rparr>) = find_command k w" "find_command k (w\<lparr>fresh := i\<rparr>) = find_command k w"
  "find_receipt k (w\<lparr>tick := i\<rparr>) = find_receipt k w" "find_receipt k (w\<lparr>fresh := i\<rparr>) = find_receipt k w"
  "find_order k (w\<lparr>tick := i\<rparr>) = find_order k w" "find_order k (w\<lparr>fresh := i\<rparr>) = find_order k w"
  "find_period k (w\<lparr>tick := i\<rparr>) = find_period k w" "find_period k (w\<lparr>fresh := i\<rparr>) = find_period k w"
  "period_of_order k (w\<lparr>tick := i\<rparr>) = period_of_order k w" "period_of_order k (w\<lparr>fresh := i\<rparr>) = period_of_order k w"
  "find_renewal k (w\<lparr>tick := i\<rparr>) = find_renewal k w" "find_renewal k (w\<lparr>fresh := i\<rparr>) = find_renewal k w"
  "find_operation k (w\<lparr>tick := i\<rparr>) = find_operation k w" "find_operation k (w\<lparr>fresh := i\<rparr>) = find_operation k w"
  "find_delivery k c (w\<lparr>tick := i\<rparr>) = find_delivery k c w" "find_delivery k c (w\<lparr>fresh := i\<rparr>) = find_delivery k c w"
  "find_contact k (w\<lparr>tick := i\<rparr>) = find_contact k w" "find_contact k (w\<lparr>fresh := i\<rparr>) = find_contact k w"
  by (simp_all add: find_account_def find_entitlement_def find_command_def find_receipt_def find_order_def find_period_def period_of_order_def find_renewal_def find_operation_def find_delivery_def find_contact_def)

text \<open>\<open>findFirst\<close> with \<open>orderBy\<close>: the first row in the given order.\<close>

fun first_by :: "('r \<Rightarrow> 'r \<Rightarrow> bool) \<Rightarrow> 'r list \<Rightarrow> 'r option" where
  "first_by precedes [] = None"
| "first_by precedes (x # xs) =
     (case first_by precedes xs of
        None \<Rightarrow> Some x
      | Some y \<Rightarrow> if precedes y x then Some y else Some x)"

lemma first_by_in: "first_by precedes xs = Some x \<Longrightarrow> x \<in> set xs"
  by (induction xs arbitrary: x) (auto split: option.splits if_splits)

lemma first_by_None [simp]: "first_by precedes xs = None \<longleftrightarrow> xs = []"
  by (cases xs) (auto split: option.split)

lemma first_by_first:
  assumes "\<And>a b c. \<not> precedes a b \<Longrightarrow> \<not> precedes b c \<Longrightarrow> \<not> precedes a c"
    and "\<And>a b. precedes a b \<Longrightarrow> \<not> precedes b a"
  shows "first_by precedes xs = Some x \<Longrightarrow> y \<in> set xs \<Longrightarrow> \<not> precedes y x"
proof (induction xs arbitrary: x y)
  case (Cons z xs)
  have irrefl: "\<not> precedes a a" for a
    using assms(2) by blast
  show ?case
  proof (cases "first_by precedes xs")
    case None
    then show ?thesis
      using Cons.prems irrefl by simp
  next
    case (Some u)
    have rest: "v \<in> set xs \<Longrightarrow> \<not> precedes v u" for v
      using Cons.IH [OF Some] by blast
    show ?thesis
    proof (cases "precedes u z")
      case True
      then have "x = u"
        using Cons.prems(1) Some by simp
      then show ?thesis
        using Cons.prems(2) rest assms(2) [OF True] by auto
    next
      case False
      then have "x = z"
        using Cons.prems(1) Some by simp
      then show ?thesis
        using Cons.prems(2) rest assms(1) [OF _ False] irrefl by auto
    qed
  qed
qed simp

text \<open>\<open>findMany\<close> with \<open>orderBy\<close>: a stable insertion sort.\<close>

fun insert_by :: "('r \<Rightarrow> 'r \<Rightarrow> bool) \<Rightarrow> 'r \<Rightarrow> 'r list \<Rightarrow> 'r list" where
  "insert_by precedes x [] = [x]"
| "insert_by precedes x (y # ys) = (if precedes y x then y # insert_by precedes x ys else x # y # ys)"

fun order_by :: "('r \<Rightarrow> 'r \<Rightarrow> bool) \<Rightarrow> 'r list \<Rightarrow> 'r list" where
  "order_by precedes [] = []"
| "order_by precedes (x # xs) = insert_by precedes x (order_by precedes xs)"

text \<open>\<open>orderBy: [{ startsAt: 'desc' }, { id: 'desc' }]\<close>\<close>

definition starts_later :: "period_row \<Rightarrow> period_row \<Rightarrow> bool" where
  "starts_later a b \<longleftrightarrow> p_startsAt b < p_startsAt a \<or> p_startsAt a = p_startsAt b \<and> p_id b < p_id a"

definition open_order :: "order_row \<Rightarrow> bool" where
  "open_order x \<longleftrightarrow> o_status x = O_PENDING \<or> o_status x = O_UNKNOWN"

section \<open>Relations between states\<close>

text \<open>
  A relation between the states before and after that time and fresh identifiers do not disturb.
  Each Prisma call steps along every such relation that writes to its table do not disturb; the
  lemmas about the operations of the components are proved once in this locale and used for every
  relation that interprets it.
\<close>

definition frame :: "(db \<Rightarrow> db \<Rightarrow> bool) \<Rightarrow> (('r \<Rightarrow> 'r) \<Rightarrow> db \<Rightarrow> db) \<Rightarrow> bool" where
  "frame R upd \<longleftrightarrow> (\<forall>g w. R w (upd g w))"

lemma frameD: "frame R upd \<Longrightarrow> R w (upd g w)"
  by (simp add: frame_def)

locale db_relation = step_preorder R
  for R :: "db \<Rightarrow> db \<Rightarrow> bool" +
  assumes step_tick: "frame R tick_update"
    and step_fresh: "frame R fresh_update"
begin

lemma steps_new_date [steps_intro]: "steps R (new_date e)"
  using frameD [OF step_tick] by (auto simp: steps_def new_date_def)

lemma steps_randomUUID [steps_intro]: "steps R (randomUUID e)"
  using frameD [OF step_fresh] by (auto simp: steps_def randomUUID_def)

lemma steps_encrypt_op [steps_intro]: "steps R (encrypt_op e s)"
  using frameD [OF step_fresh] by (auto simp: steps_def encrypt_op_def)

lemma steps_attempts: "steps R work \<Longrightarrow> steps R (attempts e n k work)"
proof (induction k arbitrary: n)
  case 0
  then show ?case
    by (auto simp: steps_def split: if_splits)
next
  case (Suc k)
  show ?case
  proof (rule stepsI)
    fix w x w'
    assume run: "attempts e n (Suc k) work w = Inr (x, w')"
    show "R w w'"
    proof (cases "conflicts e (tick w) n")
      case True
      define w1 where "w1 = w\<lparr>tick := tick w + 1, fresh := fresh w + 1\<rparr>"
      have "R w (w\<lparr>tick := tick w + 1\<rparr>)"
        using frameD [OF step_tick, of w "\<lambda>_. tick w + 1"] by simp
      moreover have "R (w\<lparr>tick := tick w + 1\<rparr>) w1"
        using frameD [OF step_fresh, of "w\<lparr>tick := tick w + 1\<rparr>" "\<lambda>_. fresh w + 1"] by (simp add: w1_def)
      moreover have "R w1 w'"
        using stepsD [OF Suc.IH [OF Suc.prems], of "n + 1" w1 x w'] run True by (simp add: w1_def)
      ultimately show ?thesis
        using step_trans by blast
    next
      case False
      then show ?thesis
        using run Suc.prems by (simp add: stepsD)
    qed
  qed
qed

lemma steps_transaction [steps_intro]: "steps R work \<Longrightarrow> steps R (transaction e work)"
  by (simp add: transaction_def steps_attempts)

lemma steps_update_order [steps_intro]: "frame R orders_update \<Longrightarrow> steps R (update_order oid f)"
  by (auto simp: steps_def update_order_def update_row_def frame_def split: option.splits if_splits)

lemma steps_upsert_sequence [steps_intro]: "frame R sourceSequence_update \<Longrightarrow> steps R upsert_sequence"
  by (auto simp: steps_def upsert_sequence_def frame_def Let_def)

lemma steps_create_policy [steps_intro]: "frame R policies_update \<Longrightarrow> steps R (create_policy row)"
  unfolding create_policy_def by (rule steps_create) (rule frameD)

lemma steps_create_entitlement [steps_intro]: "frame R entitlements_update \<Longrightarrow> steps R (create_entitlement row)"
  unfolding create_entitlement_def by (rule steps_create) (rule frameD)

lemma steps_update_entitlement [steps_intro]: "frame R entitlements_update \<Longrightarrow> steps R (update_entitlement P f)"
  unfolding update_entitlement_def by (rule steps_update) (rule frameD)

lemma steps_create_account [steps_intro]: "frame R accounts_update \<Longrightarrow> steps R (create_account row)"
  unfolding create_account_def by (rule steps_create) (rule frameD)

lemma steps_update_account [steps_intro]: "frame R accounts_update \<Longrightarrow> steps R (update_account k f)"
  unfolding update_account_def by (rule steps_update) (rule frameD)

lemma steps_create_command [steps_intro]: "frame R commands_update \<Longrightarrow> steps R (create_command row)"
  unfolding create_command_def by (rule steps_create) (rule frameD)

lemma steps_update_command [steps_intro]: "frame R commands_update \<Longrightarrow> steps R (update_command k f)"
  unfolding update_command_def by (rule steps_update) (rule frameD)

lemma steps_updateMany_command [steps_intro]: "frame R commands_update \<Longrightarrow> steps R (updateMany_command P f)"
  unfolding updateMany_command_def by (rule steps_update_many) (rule frameD)

lemma steps_create_order [steps_intro]: "frame R orders_update \<Longrightarrow> steps R (create_order row)"
  unfolding create_order_def by (rule steps_create) (rule frameD)

lemma steps_updateMany_order [steps_intro]: "frame R orders_update \<Longrightarrow> steps R (updateMany_order P f)"
  unfolding updateMany_order_def by (rule steps_update_many) (rule frameD)

lemma steps_create_period [steps_intro]: "frame R periods_update \<Longrightarrow> steps R (create_period row)"
  unfolding create_period_def by (rule steps_create) (rule frameD)

lemma steps_update_period [steps_intro]: "frame R periods_update \<Longrightarrow> steps R (update_period P f)"
  unfolding update_period_def by (rule steps_update) (rule frameD)

lemma steps_update_renewal [steps_intro]: "frame R renewals_update \<Longrightarrow> steps R (update_renewal k f)"
  unfolding update_renewal_def by (rule steps_update) (rule frameD)

lemma steps_upsert_renewal [steps_intro]: "frame R renewals_update \<Longrightarrow> steps R (upsert_renewal k row f)"
  unfolding upsert_renewal_def by (rule steps_upsert) (rule frameD)

lemma steps_create_consent [steps_intro]: "frame R consents_update \<Longrightarrow> steps R (create_consent row)"
  unfolding create_consent_def by (rule steps_create) (rule frameD)

lemma steps_create_operation [steps_intro]: "frame R operations_update \<Longrightarrow> steps R (create_operation row)"
  unfolding create_operation_def by (rule steps_create) (rule frameD)

lemma steps_update_operation [steps_intro]: "frame R operations_update \<Longrightarrow> steps R (update_operation P f)"
  unfolding update_operation_def by (rule steps_update) (rule frameD)

lemma steps_updateMany_operation [steps_intro]: "frame R operations_update \<Longrightarrow> steps R (updateMany_operation P f)"
  unfolding updateMany_operation_def by (rule steps_update_many) (rule frameD)

lemma steps_update_delivery [steps_intro]: "frame R deliveries_update \<Longrightarrow> steps R (update_delivery P f)"
  unfolding update_delivery_def by (rule steps_update) (rule frameD)

lemma steps_upsert_delivery [steps_intro]: "frame R deliveries_update \<Longrightarrow> steps R (upsert_delivery P row f)"
  unfolding upsert_delivery_def by (rule steps_upsert) (rule frameD)

lemma steps_upsert_fiscal [steps_intro]: "frame R fiscals_update \<Longrightarrow> steps R (upsert_fiscal k row f)"
  unfolding upsert_fiscal_def by (rule steps_upsert) (rule frameD)

lemma steps_create_receipt [steps_intro]: "frame R receipts_update \<Longrightarrow> steps R (create_receipt row)"
  unfolding create_receipt_def by (rule steps_create) (rule frameD)

lemma steps_create_outbox [steps_intro]: "frame R outbox_update \<Longrightarrow> steps R (create_outbox row)"
  unfolding create_outbox_def by (rule steps_create) (rule frameD)

lemma steps_create_grant [steps_intro]: "frame R grants_update \<Longrightarrow> steps R (create_grant row)"
  unfolding create_grant_def by (rule steps_create) (rule frameD)

end

text \<open>The projection \<open>f\<close> of the state is left alone.\<close>

definition same :: "(db \<Rightarrow> 'a) \<Rightarrow> db \<Rightarrow> db \<Rightarrow> bool" where
  "same f w w' \<longleftrightarrow> f w' = f w"

lemma frame_same [simp]: "frame (same f) upd \<longleftrightarrow> (\<forall>g w. f (upd g w) = f w)"
  by (simp add: frame_def same_def)

lemma sameD: "same f w w' \<Longrightarrow> f w' = f w"
  by (simp add: same_def)

interpretation same_policies: db_relation "same policies"
  by unfold_locales (simp_all add: same_def frame_def)

interpretation same_entitlements: db_relation "same entitlements"
  by unfold_locales (simp_all add: same_def frame_def)

interpretation same_accounts: db_relation "same accounts"
  by unfold_locales (simp_all add: same_def frame_def)

interpretation same_commands: db_relation "same commands"
  by unfold_locales (simp_all add: same_def frame_def)

interpretation same_orders: db_relation "same orders"
  by unfold_locales (simp_all add: same_def frame_def)

interpretation same_periods: db_relation "same periods"
  by unfold_locales (simp_all add: same_def frame_def)

interpretation same_renewals: db_relation "same renewals"
  by unfold_locales (simp_all add: same_def frame_def)

interpretation same_operations: db_relation "same operations"
  by unfold_locales (simp_all add: same_def frame_def)

interpretation same_deliveries: db_relation "same deliveries"
  by unfold_locales (simp_all add: same_def frame_def)

interpretation same_receipts: db_relation "same receipts"
  by unfold_locales (simp_all add: same_def frame_def)

interpretation same_outbox: db_relation "same outbox"
  by unfold_locales (simp_all add: same_def frame_def)

section \<open>The interface of a table, table by table\<close>

interpretation tb_policies: table policies policies_update by unfold_locales simp
interpretation tb_entitlements: table entitlements entitlements_update by unfold_locales simp
interpretation tb_accounts: table accounts accounts_update by unfold_locales simp
interpretation tb_commands: table commands commands_update by unfold_locales simp
interpretation tb_orders: table orders orders_update by unfold_locales simp
interpretation tb_periods: table periods periods_update by unfold_locales simp
interpretation tb_renewals: table renewals renewals_update by unfold_locales simp
interpretation tb_consents: table consents consents_update by unfold_locales simp
interpretation tb_operations: table operations operations_update by unfold_locales simp
interpretation tb_deliveries: table deliveries deliveries_update by unfold_locales simp
interpretation tb_fiscals: table fiscals fiscals_update by unfold_locales simp
interpretation tb_receipts: table receipts receipts_update by unfold_locales simp
interpretation tb_outbox: table outbox outbox_update by unfold_locales simp
interpretation tb_grants: table grants grants_update by unfold_locales simp


section \<open>A concrete environment\<close>

text \<open>
  For the witnesses: a clock that advances by one second per reading, distinct identifiers of the
  shape of a UUID, a constant hash, an identity cipher, payments enabled, no serialization failure.
\<close>

definition sample_uuid :: "nat \<Rightarrow> jsstring" where
  "sample_uuid n = js ''00000000-0000-4000-8000-'' @ replicate (12 - length (dec n)) 48 @ dec n"

definition sample_url :: url where
  "sample_url = \<lparr>u_protocol = ''https:'', u_hostname = ''crm.winwidget.ru'', u_port = [], u_username = [],
     u_password = [], u_hash = [], u_search = [], u_pathname = ''/'',
     u_origin = js ''https://crm.winwidget.ru'', u_searchParams = []\<rparr>"

definition sample_page :: jsstring where
  "sample_page = js ''https://yoomoney.ru/checkout/payments/v2/contract?orderId=pay-1''"

definition sample_page_url :: url where
  "sample_page_url = \<lparr>u_protocol = ''https:'', u_hostname = ''yoomoney.ru'', u_port = [], u_username = [],
     u_password = [], u_hash = [], u_search = ''?orderId=pay-1'', u_pathname = ''/checkout/payments/v2/contract'',
     u_origin = js ''https://yoomoney.ru'', u_searchParams = [(js ''orderId'', js ''pay-1'')]\<rparr>"

definition sample_env :: env where
  "sample_env = \<lparr>clock = (\<lambda>n. 1700000000000 + 1000 * int n), uuid = sample_uuid,
     sha256 = (\<lambda>s. replicate 64 48), encrypt = (\<lambda>n s. s), paymentsEnabled = True, frontendOrigin = None,
     parse_url = (\<lambda>s. Some (if s = sample_page then sample_page_url else sample_url)),
     print_url = (\<lambda>u. js ''https://crm.winwidget.ru/billing/return''),
     parse_date = (\<lambda>s. None), correlationId = sample_uuid 0, conflicts = (\<lambda>t n. False)\<rparr>"

definition empty_db :: db where
  "empty_db = \<lparr>policies = [], entitlements = [], accounts = [], commands = [], orders = [], periods = [],
     renewals = [], consents = [], operations = [], deliveries = [], fiscals = [], receipts = [],
     outbox = [], contacts = [], grants = [], sourceSequence = None, tick = 0, fresh = 0\<rparr>"

lemma undec_zeros: "undec (replicate k 48 @ s) = undec s"
  by (induction k) (simp_all add: undec_def)

lemma sample_uuid_inject [simp]: "sample_uuid m = sample_uuid n \<longleftrightarrow> m = n"
proof
  assume "sample_uuid m = sample_uuid n"
  then have "replicate (12 - length (dec m)) 48 @ dec m = replicate (12 - length (dec n)) 48 @ dec n"
    by (simp add: sample_uuid_def)
  then have "undec (replicate (12 - length (dec m)) 48 @ dec m) = undec (replicate (12 - length (dec n)) 48 @ dec n)"
    by simp
  then show "m = n"
    by (simp add: undec_zeros)
qed simp

lemma sample_env_simps [simp]:
  "clock sample_env n = 1700000000000 + 1000 * int n" "uuid sample_env = sample_uuid"
  "sha256 sample_env s = replicate 64 48" "encrypt sample_env n s = s" "paymentsEnabled sample_env"
  "\<not> conflicts sample_env t n" "frontendOrigin sample_env = None"
  "parse_url sample_env s = Some (if s = sample_page then sample_page_url else sample_url)"
  by (simp_all add: sample_env_def)

lemma transaction_sample [simp]: "transaction sample_env work = work"
  by (rule transaction_no_conflict) simp

end
