(* ===== verification/Commerce_Helpers.thy ===== *)
theory Commerce_Helpers
  imports Commerce_Data
begin

text \<open>
  \<open>apps/billing/src/domain/wincrm-commerce.helpers.ts\<close> and the views of
  \<open>wincrm-commerce.contract.ts\<close>: validation of untyped values, the price snapshot, the price of a
  number of seats, the decimal text of an amount, the end of a billing period, and the views of
  orders, periods and renewals. The lemmas give the round trips of the snapshot and of the decimal
  text, the bounds of a price and its agreement with the price used by the seat conversion, and the
  calendar behaviour of the end of a period.
\<close>

section \<open>Constants\<close>

definition WINCRM_CONSENT_VERSION :: jsstring where
  "WINCRM_CONSENT_VERSION = js ''wincrm-auto-renewal-v1''"

text \<open>The consent text as its UTF-16 code units.\<close>

definition WINCRM_CONSENT_TEXT :: jsstring where
  "WINCRM_CONSENT_TEXT =
     [1071, 32, 1089, 1086, 1075, 1083, 1072, 1096, 1072, 1102, 1089, 1100, 32, 1089, 1086, 1093,
      1088, 1072, 1085, 1080, 1090, 1100, 32, 1089, 1087, 1086, 1089, 1086, 1073, 32, 1086, 1087,
      1083, 1072, 1090, 1099, 32, 1074, 32, 1070, 75, 97, 115, 115, 97, 32, 1080, 32, 1072, 1074,
      1090, 1086, 1084, 1072, 1090, 1080, 1095, 1077, 1089, 1082, 1080, 32, 1087, 1088, 1086,
      1076, 1083, 1077, 1074, 1072, 1090, 1100, 32, 1087, 1086, 1076, 1087, 1080, 1089, 1082,
      1091, 32, 87, 105, 110, 67, 82, 77, 32, 1089, 32, 1091, 1082, 1072, 1079, 1072, 1085, 1085,
      1099, 1084, 32, 1082, 1086, 1083, 1080, 1095, 1077, 1089, 1090, 1074, 1086, 1084, 32, 1084,
      1077, 1089, 1090, 32, 1080, 32, 1087, 1077, 1088, 1080, 1086, 1076, 1080, 1095, 1085, 1086,
      1089, 1090, 1100, 1102, 32, 1087, 1086, 32, 1087, 1086, 1076, 1090, 1074, 1077, 1088, 1078,
      1076, 1105, 1085, 1085, 1086, 1081, 32, 1089, 1090, 1086, 1080, 1084, 1086, 1089, 1090,
      1080, 46, 32, 1055, 1088, 1080, 32, 1085, 1077, 1076, 1086, 1089, 1090, 1072, 1090, 1082,
      1077, 32, 1089, 1088, 1077, 1076, 1089, 1090, 1074, 32, 1080, 1083, 1080, 32, 1074, 1088,
      1077, 1084, 1077, 1085, 1085, 1086, 1081, 32, 1085, 1077, 1076, 1086, 1089, 1090, 1091,
      1087, 1085, 1086, 1089, 1090, 1080, 32, 1073, 1072, 1085, 1082, 1072, 32, 1076, 1086, 1087,
      1091, 1089, 1090, 1080, 1084, 1099, 32, 1085, 1077, 32, 1073, 1086, 1083, 1077, 1077, 32,
      1076, 1074, 1091, 1093, 32, 1087, 1086, 1074, 1090, 1086, 1088, 1085, 1099, 1093, 32, 1087,
      1086, 1087, 1099, 1090, 1086, 1082, 32, 1087, 1088, 1080, 1084, 1077, 1088, 1085, 1086, 32,
      1095, 1077, 1088, 1077, 1079, 32, 50, 52, 32, 1080, 32, 55, 50, 32, 1095, 1072, 1089, 1072,
      32, 1087, 1086, 1089, 1083, 1077, 32, 1087, 1077, 1088, 1074, 1086, 1075, 1086, 32, 1086,
      1090, 1082, 1072, 1079, 1072, 44, 32, 1074, 32, 1087, 1088, 1077, 1076, 1077, 1083, 1072,
      1093, 32, 1086, 1076, 1085, 1086, 1075, 1086, 32, 1095, 1072, 1089, 1072, 32, 1086, 1090,
      32, 1074, 1088, 1077, 1084, 1077, 1085, 1080, 32, 1082, 1072, 1078, 1076, 1086, 1081, 32,
      1087, 1086, 1087, 1099, 1090, 1082, 1080, 46, 32, 1053, 1086, 1074, 1072, 1103, 32, 1089,
      1090, 1086, 1080, 1084, 1086, 1089, 1090, 1100, 32, 1090, 1088, 1077, 1073, 1091, 1077,
      1090, 32, 1086, 1090, 1076, 1077, 1083, 1100, 1085, 1086, 1075, 1086, 32, 1087, 1086, 1076,
      1090, 1074, 1077, 1088, 1078, 1076, 1077, 1085, 1080, 1103, 46, 32, 1040, 1074, 1090, 1086,
      1087, 1088, 1086, 1076, 1083, 1077, 1085, 1080, 1077, 32, 1084, 1086, 1078, 1085, 1086, 32,
      1086, 1090, 1082, 1083, 1102, 1095, 1080, 1090, 1100, 32, 1076, 1086, 32, 1085, 1072, 1095,
      1072, 1083, 1072, 32, 1086, 1090, 1087, 1088, 1072, 1074, 1082, 1080, 32, 1086, 1095, 1077,
      1088, 1077, 1076, 1085, 1086, 1075, 1086, 32, 1079, 1072, 1087, 1088, 1086, 1089, 1072, 32,
      1085, 1072, 32, 1089, 1087, 1080, 1089, 1072, 1085, 1080, 1077, 59, 32, 1091, 1078, 1077,
      32, 1086, 1090, 1087, 1088, 1072, 1074, 1083, 1077, 1085, 1085, 1099, 1081, 32, 1079, 1072,
      1087, 1088, 1086, 1089, 32, 1089, 1074, 1077, 1088, 1103, 1077, 1090, 1089, 1103, 32, 1086,
      1090, 1076, 1077, 1083, 1100, 1085, 1086, 46, 32, 1054, 1090, 1082, 1083, 1102, 1095, 1077,
      1085, 1080, 1077, 32, 1089, 1086, 1093, 1088, 1072, 1085, 1103, 1077, 1090, 32, 1086, 1087,
      1083, 1072, 1095, 1077, 1085, 1085, 1099, 1081, 32, 1087, 1077, 1088, 1080, 1086, 1076, 32,
      1080, 32, 1085, 1077, 32, 1084, 1077, 1085, 1103, 1077, 1090, 32, 1087, 1086, 1076, 1087,
      1080, 1089, 1082, 1091, 32, 1085, 1072, 32, 1074, 1080, 1076, 1078, 1077, 1090, 1099, 32,
      87, 105, 110, 87, 105, 100, 103, 101, 116, 46]"

definition WINCRM_DAY_MS :: int where
  "WINCRM_DAY_MS = 86400000"

definition WINCRM_MAX_AMOUNT :: int where
  "WINCRM_MAX_AMOUNT = 1000000000000"

definition WINCRM_PROVIDER_EVENT_TYPE :: string where
  "WINCRM_PROVIDER_EVENT_TYPE = ''billing.wincrm.provider-operation.requested.v1''"

definition WINCRM_PROVIDER_CONSUMER :: string where
  "WINCRM_PROVIDER_CONSUMER = ''billing.wincrm-provider.v1''"

section \<open>Validation of untyped values\<close>

fun as_str :: "jsval \<Rightarrow> jsstring" where
  "as_str (JStr s) = s"
| "as_str v = []"

fun is_str :: "jsval \<Rightarrow> bool" where
  "is_str (JStr s) = True"
| "is_str v = False"

definition commerceRecord :: "jsval \<Rightarrow> bool" where
  "commerceRecord value = (case value of JObj kvs \<Rightarrow> True | _ \<Rightarrow> False)"

definition control_or_replacement :: "nat \<Rightarrow> bool" where
  "control_or_replacement c \<longleftrightarrow> c \<le> 31 \<or> c = 127 \<or> c = 65533"

fun lone_surrogate :: "jsstring \<Rightarrow> bool" where
  "lone_surrogate [] = False"
| "lone_surrogate [c] = (high_surrogate c \<or> low_surrogate c)"
| "lone_surrogate (c # d # s) =
     (if high_surrogate c \<and> low_surrogate d then lone_surrogate s
      else high_surrogate c \<or> low_surrogate c \<or> lone_surrogate (d # s))"

definition commerceText :: "jsval \<Rightarrow> nat \<Rightarrow> bool" where
  "commerceText value maximum =
     (case value of
        JStr s \<Rightarrow> 0 < length s \<and> length s \<le> maximum
          \<and> \<not> list_ex control_or_replacement s \<and> \<not> lone_surrogate s
      | _ \<Rightarrow> False)"

definition WINCRM_UUID :: "(nat \<Rightarrow> bool) list" where
  "WINCRM_UUID =
     replicate 8 is_lower_hex @ [\<lambda>c. c = 45] @ replicate 4 is_lower_hex @ [\<lambda>c. c = 45]
     @ [\<lambda>c. c = 52] @ replicate 3 is_lower_hex @ [\<lambda>c. c = 45]
     @ [\<lambda>c. c = 56 \<or> c = 57 \<or> c = 97 \<or> c = 98] @ replicate 3 is_lower_hex @ [\<lambda>c. c = 45]
     @ replicate 12 is_lower_hex"

definition commerceUuid :: "jsval \<Rightarrow> bool" where
  "commerceUuid value = (case value of JStr s \<Rightarrow> match_classes WINCRM_UUID s | _ \<Rightarrow> False)"

definition WINCRM_HASH :: "(nat \<Rightarrow> bool) list" where
  "WINCRM_HASH = replicate 64 is_lower_hex"

definition commerceVersion :: "jsval \<Rightarrow> bool" where
  "commerceVersion value =
     (case value of
        JStr s \<Rightarrow> (s = [48] \<or> (s \<noteq> [] \<and> hd s \<noteq> 48 \<and> length s \<le> 19 \<and> list_all is_digit s))
          \<and> undec s \<le> 9223372036854775807
      | _ \<Rightarrow> False)"

definition commerceInt :: "jsval \<Rightarrow> int \<Rightarrow> int \<Rightarrow> bool" where
  "commerceInt value minimum maximum =
     (case value of JInt n \<Rightarrow> is_safe_integer n \<and> minimum \<le> n \<and> n \<le> maximum | _ \<Rightarrow> False)"

definition commerceCycle :: "jsval \<Rightarrow> bool" where
  "commerceCycle value \<longleftrightarrow> value = JStr (js ''MONTHLY'') \<or> value = JStr (js ''YEARLY'')"

definition as_cycle :: "jsval \<Rightarrow> cycle" where
  "as_cycle v = (if v = JStr (js ''MONTHLY'') then MONTHLY else YEARLY)"

definition cycle_js :: "cycle \<Rightarrow> jsval" where
  "cycle_js c = (if c = MONTHLY then JStr (js ''MONTHLY'') else JStr (js ''YEARLY''))"

definition kind_js :: "order_kind \<Rightarrow> jsval" where
  "kind_js k = (if k = ONE_TIME then JStr (js ''ONE_TIME'') else JStr (js ''RECURRING''))"

section \<open>Hashes and keys\<close>

fun without :: "jsval \<Rightarrow> string \<Rightarrow> jsval" where
  "without (JObj kvs) k = JObj (filter (\<lambda>(k', v). k' \<noteq> js k) kvs)"
| "without v k = v"

definition wincrmCommerceRequestHash :: "env \<Rightarrow> string \<Rightarrow> jsval \<Rightarrow> err + jsstring" where
  "wincrmCommerceRequestHash e commandType command =
     billingCommandRequestHash (sha256 e) commandType (without command ''capacityFence'')"

text \<open>\<open>JSON.stringify\<close> of an array of strings, hashed.\<close>

definition wincrmProviderKey :: "env \<Rightarrow> jsstring list \<Rightarrow> jsstring" where
  "wincrmProviderKey e parts =
     sha256 e ([91] @ join_comma (map json_string (js ''WINCRM'' # parts)) @ [93])"

section \<open>Prices\<close>

record price_snapshot =
  ps_policyVersion :: int
  ps_monthlyPriceMinor :: int
  ps_yearlyPriceMinor :: int
  ps_additionalSeatMonthlyPriceMinor :: int
  ps_additionalSeatYearlyPriceMinor :: int
  ps_includedSeats :: int
  ps_graceDays :: int

definition wincrmPriceSnapshot :: "policy_row \<Rightarrow> price_snapshot" where
  "wincrmPriceSnapshot policy =
     \<lparr>ps_policyVersion = pol_version policy,
      ps_monthlyPriceMinor = pol_monthlyPriceMinor policy,
      ps_yearlyPriceMinor = pol_yearlyPriceMinor policy,
      ps_additionalSeatMonthlyPriceMinor = pol_additionalSeatMonthlyPriceMinor policy,
      ps_additionalSeatYearlyPriceMinor = pol_additionalSeatYearlyPriceMinor policy,
      ps_includedSeats = pol_includedSeats policy,
      ps_graceDays = pol_graceDays policy\<rparr>"

text \<open>The object as the JSON column holds it.\<close>

definition snapshot_json :: "price_snapshot \<Rightarrow> jsval" where
  "snapshot_json s = obj
     [(''policyVersion'', JInt (ps_policyVersion s)),
      (''monthlyPriceMinor'', JInt (ps_monthlyPriceMinor s)),
      (''yearlyPriceMinor'', JInt (ps_yearlyPriceMinor s)),
      (''additionalSeatMonthlyPriceMinor'', JInt (ps_additionalSeatMonthlyPriceMinor s)),
      (''additionalSeatYearlyPriceMinor'', JInt (ps_additionalSeatYearlyPriceMinor s)),
      (''includedSeats'', JInt (ps_includedSeats s)),
      (''graceDays'', JInt (ps_graceDays s))]"

definition readWincrmPriceSnapshot :: "jsval \<Rightarrow> err + price_snapshot" where
  "readWincrmPriceSnapshot value =
     (if \<not> commerceRecord value
         \<or> length (object_keys value) \<noteq> 7
         \<or> \<not> commerceInt (jsfield value ''policyVersion'') 1 2147483646
         \<or> \<not> commerceInt (jsfield value ''monthlyPriceMinor'') 1 100000000
         \<or> \<not> commerceInt (jsfield value ''yearlyPriceMinor'') 1 100000000
         \<or> \<not> commerceInt (jsfield value ''additionalSeatMonthlyPriceMinor'') 0 100000000
         \<or> \<not> commerceInt (jsfield value ''additionalSeatYearlyPriceMinor'') 0 100000000
         \<or> \<not> commerceInt (jsfield value ''includedSeats'') 2 10000
         \<or> jsfield value ''graceDays'' \<noteq> JInt 3
      then Inl (Fault ''WinCRM price snapshot is invalid'')
      else Inr \<lparr>ps_policyVersion = as_int (jsfield value ''policyVersion''),
        ps_monthlyPriceMinor = as_int (jsfield value ''monthlyPriceMinor''),
        ps_yearlyPriceMinor = as_int (jsfield value ''yearlyPriceMinor''),
        ps_additionalSeatMonthlyPriceMinor = as_int (jsfield value ''additionalSeatMonthlyPriceMinor''),
        ps_additionalSeatYearlyPriceMinor = as_int (jsfield value ''additionalSeatYearlyPriceMinor''),
        ps_includedSeats = as_int (jsfield value ''includedSeats''),
        ps_graceDays = as_int (jsfield value ''graceDays'')\<rparr>)"

definition wincrmPrice :: "price_snapshot \<Rightarrow> cycle \<Rightarrow> int \<Rightarrow> err + int" where
  "wincrmPrice snapshot c seats =
     sbind (readWincrmPriceSnapshot (snapshot_json snapshot)) (\<lambda>_.
     sbind (require Invalid (commerceInt (JInt seats) (ps_includedSeats snapshot) 10000)) (\<lambda>_.
     let result = (if c = MONTHLY then ps_monthlyPriceMinor snapshot else ps_yearlyPriceMinor snapshot)
           + (seats - ps_includedSeats snapshot)
             * (if c = MONTHLY then ps_additionalSeatMonthlyPriceMinor snapshot
                else ps_additionalSeatYearlyPriceMinor snapshot)
     in if result < 1 \<or> result > WINCRM_MAX_AMOUNT then Inl Invalid else Inr result))"

definition padStart2 :: "jsstring \<Rightarrow> jsstring" where
  "padStart2 s = replicate (2 - length s) 48 @ s"

definition wincrmDecimal :: "int \<Rightarrow> err + jsstring" where
  "wincrmDecimal minor =
     (if minor < 1 \<or> minor > WINCRM_MAX_AMOUNT then Inl (Fault ''WinCRM amount is invalid'')
      else Inr (dec_int (bigint_div minor 100) @ [46] @ padStart2 (dec_int (bigint_mod minor 100))))"

section \<open>The end of a billing period\<close>

text \<open>An invalid date stays invalid through every setter; \<open>Math.min\<close> with NaN is NaN.\<close>

definition wincrmPeriodEnd :: "js_date \<Rightarrow> cycle \<Rightarrow> err + date" where
  "wincrmPeriodEnd start c =
     (case start of
        None \<Rightarrow> Inl Invalid
      | Some t \<Rightarrow>
          (let day = getUTCDate t;
               e1 = setUTCDate t 1;
               e2 = Option.bind e1 (\<lambda>x. setUTCMonth x (getUTCMonth x + (if c = MONTHLY then 1 else 12)));
               last = Option.bind e2 (\<lambda>x. setUTCMonth_date x (getUTCMonth x + 1) 0);
               e3 = Option.bind e2 (\<lambda>x. Option.bind last (\<lambda>l. setUTCDate x (min day (getUTCDate l))))
           in case e3 of
                None \<Rightarrow> Inl Invalid
              | Some x \<Rightarrow> if x \<le> t then Inl Invalid else Inr x))"

section \<open>Views\<close>

datatype period_state = SCHEDULED | ACTIVE | GRACE | EXPIRED
datatype fulfillment = F_NONE | F_SCHEDULED | F_ACTIVE | F_EXPIRED

record period_view =
  pv_id :: jsstring
  pv_orderId :: jsstring
  pv_version :: int
  pv_cycle :: cycle
  pv_totalSeats :: int
  pv_priceSnapshot :: price_snapshot
  pv_startsAt :: jsstring
  pv_expiresAt :: jsstring
  pv_graceUntil :: jsstring
  pv_state :: period_state

definition wincrmPeriodView :: "period_row \<Rightarrow> date \<Rightarrow> err + period_view" where
  "wincrmPeriodView period now =
     sbind (readWincrmPriceSnapshot (p_priceSnapshot period)) (\<lambda>snapshot.
     Inr \<lparr>pv_id = p_id period, pv_orderId = p_orderId period, pv_version = p_version period,
       pv_cycle = p_cycle period, pv_totalSeats = p_totalSeats period, pv_priceSnapshot = snapshot,
       pv_startsAt = toISOString (p_startsAt period), pv_expiresAt = toISOString (p_expiresAt period),
       pv_graceUntil = toISOString (p_graceUntil period),
       pv_state = (if now < p_startsAt period then SCHEDULED
         else if now < p_expiresAt period then ACTIVE
         else if now < p_graceUntil period then GRACE else EXPIRED)\<rparr>)"

record order_view =
  ov_id :: jsstring
  ov_workspaceId :: jsstring
  ov_version :: int
  ov_kind :: order_kind
  ov_state :: order_status
  ov_cycle :: cycle
  ov_totalSeats :: int
  ov_amountMinor :: jsstring
  ov_policyVersion :: int
  ov_confirmationUrl :: "jsstring option"
  ov_canVerify :: bool
  ov_checkoutExpiresAt :: jsstring
  ov_createdAt :: jsstring
  ov_succeededAt :: "jsstring option"
  ov_fulfillment :: fulfillment
  ov_periodId :: "jsstring option"
  ov_startsAt :: "jsstring option"
  ov_expiresAt :: "jsstring option"

definition wincrmOrderView :: "order_row \<Rightarrow> period_row option \<Rightarrow> date \<Rightarrow> order_view" where
  "wincrmOrderView x period now =
     \<lparr>ov_id = o_id x, ov_workspaceId = o_workspaceId x, ov_version = o_version x, ov_kind = o_kind x,
      ov_state = o_status x, ov_cycle = o_cycle x, ov_totalSeats = o_totalSeats x,
      ov_amountMinor = dec_int (o_amountMinor x), ov_policyVersion = o_policyVersion x,
      ov_confirmationUrl = (if o_status x = O_PENDING then o_confirmationUrl x else None),
      ov_canVerify = (open_order x \<and> o_providerPaymentId x \<noteq> None \<and> o_providerPaymentId x \<noteq> Some []),
      ov_checkoutExpiresAt = toISOString (o_checkoutExpiresAt x),
      ov_createdAt = toISOString (o_createdAt x),
      ov_succeededAt = map_option toISOString (o_succeededAt x),
      ov_fulfillment = (case period of None \<Rightarrow> F_NONE
        | Some p \<Rightarrow> if now < p_startsAt p then F_SCHEDULED
            else if now < p_expiresAt p then F_ACTIVE else F_EXPIRED),
      ov_periodId = map_option p_id period,
      ov_startsAt = map_option (\<lambda>p. toISOString (p_startsAt p)) period,
      ov_expiresAt = map_option (\<lambda>p. toISOString (p_expiresAt p)) period\<rparr>"

record renewal_view =
  rv_version :: int
  rv_state :: "renewal_status option"
  rv_canDisable :: bool
  rv_dispatchPending :: bool
  rv_nextChargeAt :: "jsstring option"
  rv_nextRetryAt :: "jsstring option"
  rv_retryAttempt :: int
  rv_methodLast4 :: "jsstring option"
  rv_methodTitle :: "jsstring option"

text \<open>The state \<open>NONE\<close> of the view is \<open>None\<close>.\<close>

definition wincrmRenewalView :: "renewal_row option \<Rightarrow> renewal_view" where
  "wincrmRenewalView renewal =
     \<lparr>rv_version = (case renewal of None \<Rightarrow> 0 | Some r \<Rightarrow> r_version r),
      rv_state = map_option r_status renewal,
      rv_canDisable = (case renewal of None \<Rightarrow> False
        | Some r \<Rightarrow> r_status r \<noteq> R_USER_DISABLED \<and> r_status r \<noteq> R_REVOKED),
      rv_dispatchPending = (case renewal of None \<Rightarrow> False | Some r \<Rightarrow> r_dispatchPending r),
      rv_nextChargeAt = map_option (\<lambda>r. toISOString (r_nextChargeAt r)) renewal,
      rv_nextRetryAt = Option.bind renewal (\<lambda>r. map_option toISOString (r_nextRetryAt r)),
      rv_retryAttempt = (case renewal of None \<Rightarrow> 0 | Some r \<Rightarrow> r_retryAttempt r),
      rv_methodLast4 = Option.bind renewal r_paymentMethodLast4,
      rv_methodTitle = Option.bind renewal r_paymentMethodTitle\<rparr>"

section \<open>Lemmas\<close>

lemma commerceInt_JInt [simp]:
  "commerceInt (JInt n) a b \<longleftrightarrow> is_safe_integer n \<and> a \<le> n \<and> n \<le> b"
  by (simp add: commerceInt_def)

lemma commerceInt_iff:
  "commerceInt v a b \<longleftrightarrow> (\<exists>n. v = JInt n \<and> is_safe_integer n \<and> a \<le> n \<and> n \<le> b)"
  by (cases v) (auto simp: commerceInt_def)

lemma commerceRecord_obj [simp]: "commerceRecord (obj kvs)"
  by (simp add: commerceRecord_def obj_def)

lemma commerceUuid_iff: "commerceUuid v \<longleftrightarrow> (\<exists>s. v = JStr s \<and> match_classes WINCRM_UUID s)"
  by (cases v) (auto simp: commerceUuid_def)

lemma commerceText_iff:
  "commerceText v n \<longleftrightarrow> (\<exists>s. v = JStr s \<and> s \<noteq> [] \<and> length s \<le> n
     \<and> \<not> list_ex control_or_replacement s \<and> \<not> lone_surrogate s)"
  by (cases v) (auto simp: commerceText_def)

lemma as_cycle_cycle_js [simp]: "as_cycle (cycle_js c) = c"
  by (cases c) (simp_all add: as_cycle_def cycle_js_def)

lemma cycle_js_as_cycle: "commerceCycle v \<Longrightarrow> cycle_js (as_cycle v) = v"
  by (auto simp: as_cycle_def cycle_js_def commerceCycle_def)

text \<open>The snapshots that the reader accepts.\<close>

definition snapshot_ok :: "price_snapshot \<Rightarrow> bool" where
  "snapshot_ok s \<longleftrightarrow>
     1 \<le> ps_policyVersion s \<and> ps_policyVersion s \<le> 2147483646
     \<and> 1 \<le> ps_monthlyPriceMinor s \<and> ps_monthlyPriceMinor s \<le> 100000000
     \<and> 1 \<le> ps_yearlyPriceMinor s \<and> ps_yearlyPriceMinor s \<le> 100000000
     \<and> 0 \<le> ps_additionalSeatMonthlyPriceMinor s \<and> ps_additionalSeatMonthlyPriceMinor s \<le> 100000000
     \<and> 0 \<le> ps_additionalSeatYearlyPriceMinor s \<and> ps_additionalSeatYearlyPriceMinor s \<le> 100000000
     \<and> 2 \<le> ps_includedSeats s \<and> ps_includedSeats s \<le> 10000 \<and> ps_graceDays s = 3"

lemma safe_small: "\<bar>n\<bar> \<le> 2147483646 \<Longrightarrow> is_safe_integer n"
  by (auto simp: is_safe_integer_def MAX_SAFE_INTEGER_def)

lemma read_snapshot_json:
  "readWincrmPriceSnapshot (snapshot_json s) =
     (if snapshot_ok s then Inr s else Inl (Fault ''WinCRM price snapshot is invalid''))"
proof (cases "snapshot_ok s")
  case True
  then show ?thesis
    by (auto simp: readWincrmPriceSnapshot_def snapshot_json_def snapshot_ok_def safe_small)
next
  case False
  then show ?thesis
    by (auto simp: readWincrmPriceSnapshot_def snapshot_json_def snapshot_ok_def safe_small)
qed

lemma read_snapshot_ok:
  assumes "readWincrmPriceSnapshot v = Inr s"
  shows "snapshot_ok s"
proof -
  have "commerceInt (jsfield v ''policyVersion'') 1 2147483646 \<and> commerceInt (jsfield v ''monthlyPriceMinor'') 1 100000000
      \<and> commerceInt (jsfield v ''yearlyPriceMinor'') 1 100000000
      \<and> commerceInt (jsfield v ''additionalSeatMonthlyPriceMinor'') 0 100000000
      \<and> commerceInt (jsfield v ''additionalSeatYearlyPriceMinor'') 0 100000000
      \<and> commerceInt (jsfield v ''includedSeats'') 2 10000 \<and> jsfield v ''graceDays'' = JInt 3
      \<and> s = \<lparr>ps_policyVersion = as_int (jsfield v ''policyVersion''),
        ps_monthlyPriceMinor = as_int (jsfield v ''monthlyPriceMinor''),
        ps_yearlyPriceMinor = as_int (jsfield v ''yearlyPriceMinor''),
        ps_additionalSeatMonthlyPriceMinor = as_int (jsfield v ''additionalSeatMonthlyPriceMinor''),
        ps_additionalSeatYearlyPriceMinor = as_int (jsfield v ''additionalSeatYearlyPriceMinor''),
        ps_includedSeats = as_int (jsfield v ''includedSeats''),
        ps_graceDays = as_int (jsfield v ''graceDays'')\<rparr>"
    using assms unfolding readWincrmPriceSnapshot_def by (simp split: if_splits)
  then show ?thesis
    unfolding snapshot_ok_def commerceInt_iff by auto
qed

lemma wincrmPrice_eq:
  assumes "wincrmPrice s c n = Inr p"
  shows "snapshot_ok s" "ps_includedSeats s \<le> n" "n \<le> 10000" "1 \<le> p" "p \<le> WINCRM_MAX_AMOUNT"
    "p = snapshot_price (cycle_js c) (snapshot_json s) n"
proof -
  have ok: "snapshot_ok s"
    using assms by (auto simp: wincrmPrice_def read_snapshot_json sbind_Inr split: if_splits)
  then have "0 < ps_monthlyPriceMinor s" "0 \<le> ps_additionalSeatMonthlyPriceMinor s"
    "0 < ps_yearlyPriceMinor s" "0 \<le> ps_additionalSeatYearlyPriceMinor s"
    by (auto simp: snapshot_ok_def)
  then have "snapshot_price (cycle_js c) (snapshot_json s) n
      = (if c = MONTHLY then ps_monthlyPriceMinor s else ps_yearlyPriceMinor s)
        + (n - ps_includedSeats s) * (if c = MONTHLY then ps_additionalSeatMonthlyPriceMinor s
            else ps_additionalSeatYearlyPriceMinor s)"
    by (cases c) (simp_all add: snapshot_price_def snapshot_json_def cycle_js_def checked_price_def sd_price_def)
  then show "snapshot_ok s" "ps_includedSeats s \<le> n" "n \<le> 10000" "1 \<le> p" "p \<le> WINCRM_MAX_AMOUNT"
    "p = snapshot_price (cycle_js c) (snapshot_json s) n"
    using assms ok
    by (auto simp: wincrmPrice_def read_snapshot_json sbind_Inr Let_def split: if_splits)
qed

lemma snapshot_json_included: "as_int (jsfield (snapshot_json s) ''includedSeats'') = ps_includedSeats s"
  by (simp add: snapshot_json_def)

lemma dec_small: "n < 10 \<Longrightarrow> dec n = [48 + n]"
  by (subst dec.simps) simp

lemma dec_two: "10 \<le> n \<Longrightarrow> n < 100 \<Longrightarrow> dec n = [48 + n div 10, 48 + n mod 10]"
  by (subst dec.simps) (simp add: dec_small less_mult_imp_div_less)

lemma padStart2_dec: "n < 100 \<Longrightarrow> padStart2 (dec n) = [48 + n div 10, 48 + n mod 10]"
  by (cases "n < 10") (simp_all add: padStart2_def dec_small dec_two)

lemma wincrmDecimal_eq:
  assumes "1 \<le> m" "m \<le> WINCRM_MAX_AMOUNT"
  shows "wincrmDecimal m = Inr (dec (nat m div 100) @ [46, 48 + nat m mod 100 div 10, 48 + nat m mod 100 mod 10])"
proof -
  have "nat (m mod 100) = nat m mod 100" "nat (m div 100) = nat m div 100"
    using assms by (simp_all add: nat_mod_distrib nat_div_distrib)
  moreover have "\<not> m mod 100 < 0" "\<not> m div 100 < 0"
    using assms by (simp_all add: not_less pos_imp_zdiv_nonneg_iff)
  ultimately show ?thesis
    using assms padStart2_dec [of "nat m mod 100"] by (simp add: wincrmDecimal_def dec_int_def)
qed

lemma bigint_text_inj:
  assumes "wincrmDecimal m = Inr t" "wincrmDecimal n = Inr t"
  shows "m = n"
proof -
  have r: "1 \<le> m" "m \<le> WINCRM_MAX_AMOUNT" "1 \<le> n" "n \<le> WINCRM_MAX_AMOUNT"
    using assms by (auto simp: wincrmDecimal_def split: if_splits)
  then have "nat m div 100 = nat n div 100" "nat m mod 100 div 10 = nat n mod 100 div 10"
    "nat m mod 100 mod 10 = nat n mod 100 mod 10"
    using assms unfolding wincrmDecimal_eq [OF r(1,2)] wincrmDecimal_eq [OF r(3,4)] by auto
  then have "nat m = nat n"
    by (metis mult_div_mod_eq)
  then show ?thesis
    using r by simp
qed

text \<open>The end of a period that starts at a civil date.\<close>

definition period_target :: "cycle \<Rightarrow> int \<Rightarrow> int \<Rightarrow> int \<times> int" where
  "period_target c y m = (if c = MONTHLY then next_month y m else (y + 1, m))"

lemma period_target_carry:
  assumes "0 \<le> m" "m \<le> 11" "period_target c y m = (y', m')"
  shows "y + (m + (if c = MONTHLY then 1 else 12)) div 12 = y'"
    and "(m + (if c = MONTHLY then 1 else 12)) mod 12 = m'" and "0 \<le> m'" and "m' \<le> 11"
  using assms by (auto simp: period_target_def next_month_def split: if_splits)

definition date_margin :: "date \<Rightarrow> bool" where
  "date_margin t \<longleftrightarrow> \<bar>t\<bar> \<le> MAX_DATE_MS - 400 * MS_PER_DAY"

lemma period_later_bounds:
  assumes "valid_civil y m d" "period_target c y m = (y', m')"
  defines "d' \<equiv> min d (days_in_month y' m')"
  shows "(if c = MONTHLY then 28 else 365) \<le> day_of_civil y' m' d' - day_of_civil y m d"
    and "day_of_civil y' m' d' - day_of_civil y m d \<le> (if c = MONTHLY then 31 else 366)"
    and "valid_civil y' m' d'"
  using month_later_bounds [of y m d y' m'] year_later_bounds [of y m d] assms
  by (auto simp: period_target_def split: if_splits)

lemma at_civil_day: "at_civil y m d ms = at_civil y m 1 ms + (d - 1) * MS_PER_DAY"
  by (simp add: at_civil_def day_of_civil_day [of y m d] algebra_simps)

lemma at_civil_diff:
  "at_civil y' m' d' ms - at_civil y m d ms = (day_of_civil y' m' d' - day_of_civil y m d) * MS_PER_DAY"
  by (simp add: at_civil_def algebra_simps)

lemma clip_near:
  assumes "date_margin t" "\<bar>u - t\<bar> \<le> 400 * MS_PER_DAY"
  shows "timeClip u = Some u"
  using assms by (simp add: date_margin_def)

lemma wincrmPeriodEnd_at_civil:
  assumes v: "valid_civil y m d" and ms: "ms_ok ms" and t: "t = at_civil y m d ms"
    and margin: "date_margin t" and tgt: "period_target c y m = (y', m')"
  shows "wincrmPeriodEnd (Some t) c = Inr (at_civil y' m' (min d (days_in_month y' m')) ms)"
proof -
  define d' where "d' = min d (days_in_month y' m')"
  note bounds = period_later_bounds [OF v tgt, folded d'_def]
  have m: "0 \<le> m" "m \<le> 11" "1 \<le> d" "d \<le> days_in_month y m"
    using v by (auto simp: valid_civil_def)
  note carry = period_target_carry [OF m(1,2) tgt]
  have v1: "valid_civil y m 1" and v1': "valid_civil y' m' 1"
    using valid_civil_first v bounds(3) by blast+
  have len: "28 \<le> days_in_month y' m'" "days_in_month y' m' \<le> 31" "days_in_month y m \<le> 31"
    using days_in_month_bounds by auto
  have day: "0 < MS_PER_DAY"
    by (simp add: MS_PER_DAY_def)
  have d': "1 \<le> d'" "d' \<le> 31"
    using m len by (auto simp: d'_def)
  have near: "\<bar>at_civil y' m' k ms - t\<bar> \<le> 400 * MS_PER_DAY" if "1 \<le> k" "k \<le> 31" for k
  proof -
    have "\<bar>day_of_civil y' m' k - day_of_civil y m d\<bar> \<le> 400"
      using bounds(1,2) d' that day_of_civil_day [of y' m' k] day_of_civil_day [of y' m' d'] by (auto split: if_splits)
    then have "\<bar>day_of_civil y' m' k - day_of_civil y m d\<bar> * MS_PER_DAY \<le> 400 * MS_PER_DAY"
      using day by simp
    then show ?thesis
      using day by (simp add: t at_civil_diff abs_mult)
  qed
  have e1: "timeClip (at_civil y m 1 ms) = Some (at_civil y m 1 ms)"
    using clip_near [OF margin, of "at_civil y m 1 ms"] at_civil_day [of y m d ms] m len day t
    by (simp add: abs_le_iff mult_le_cancel_right MS_PER_DAY_def)
  have e2: "timeClip (at_civil y' m' 1 ms) = Some (at_civil y' m' 1 ms)"
    using clip_near [OF margin near [of 1]] by simp
  have last: "timeClip (at_civil y' m' (days_in_month y' m') ms) = Some (at_civil y' m' (days_in_month y' m') ms)"
    using clip_near [OF margin near [of "days_in_month y' m'"]] len by simp
  have e3: "timeClip (at_civil y' m' d' ms) = Some (at_civil y' m' d' ms)"
    using clip_near [OF margin near [of d']] d' by simp
  have vl: "valid_civil y' m' (days_in_month y' m')"
    using v1' len by (simp add: valid_civil_def)
  have "0 < day_of_civil y' m' d' - day_of_civil y m d"
    using bounds(1) by (simp split: if_splits)
  then have "0 < at_civil y' m' d' ms - t"
    unfolding t at_civil_diff using day by simp
  then have later: "t < at_civil y' m' d' ms"
    by simp
  have s1: "setUTCDate t 1 = Some (at_civil y m 1 ms)"
    unfolding t setUTCDate_at_civil [OF v ms] by (rule e1)
  have s2: "setUTCMonth (at_civil y m 1 ms) (getUTCMonth (at_civil y m 1 ms) + (if c = MONTHLY then 1 else 12))
      = Some (at_civil y' m' 1 ms)"
    unfolding at_civil_getters [OF ms v1] setUTCMonth_at_civil [OF v1 ms] carry by (rule e2)
  have s3: "setUTCMonth_date (at_civil y' m' 1 ms) (getUTCMonth (at_civil y' m' 1 ms) + 1) 0
      = Some (at_civil y' m' (days_in_month y' m') ms)"
    unfolding at_civil_getters [OF ms v1'] last_of_month [OF v1' ms] by (rule last)
  have s4: "setUTCDate (at_civil y' m' 1 ms) d' = Some (at_civil y' m' d' ms)"
    unfolding setUTCDate_at_civil [OF v1' ms] by (rule e3)
  have g: "min (getUTCDate t) (getUTCDate (at_civil y' m' (days_in_month y' m') ms)) = d'"
    unfolding t at_civil_getters [OF ms v] at_civil_getters [OF ms vl] d'_def ..
  show ?thesis
    unfolding wincrmPeriodEnd_def Let_def option.case s1 bind.bind_lunit s2 s3 g s4
    using later by (simp add: d'_def)
qed

lemma wincrmPeriodEnd_exists:
  assumes "date_margin t"
  obtains x where "wincrmPeriodEnd (Some t) c = Inr x"
proof -
  obtain y m d ms where t: "t = at_civil y m d ms" "valid_civil y m d" "ms_ok ms"
    by (rule date_civil)
  obtain y' m' where tgt: "period_target c y m = (y', m')"
    by fastforce
  show ?thesis
    using that wincrmPeriodEnd_at_civil [OF t(2,3,1) assms tgt] by blast
qed

section \<open>Properties\<close>

text \<open>
  C37. The end of a period starting at any date that is not within 400 days of the limits of the
  JavaScript calendar: one calendar month or year later, at the same time of day, on the same day of
  the month or, when the target month is shorter, on its last day; 28 to 31 days later for a monthly
  and 365 or 366 days later for a yearly cycle.
\<close>

theorem wincrmPeriodEnd_calendar:
  assumes "date_margin t"
  shows "\<exists>x. wincrmPeriodEnd (Some t) c = Inr x
    \<and> time_within_day x = time_within_day t
    \<and> (getUTCFullYear x, getUTCMonth x) = period_target c (getUTCFullYear t) (getUTCMonth t)
    \<and> getUTCDate x = min (getUTCDate t) (days_in_month (getUTCFullYear x) (getUTCMonth x))
    \<and> (if c = MONTHLY then 28 else 365) * MS_PER_DAY \<le> x - t
    \<and> x - t \<le> (if c = MONTHLY then 31 else 366) * MS_PER_DAY"
proof -
  obtain y m d ms where t: "t = at_civil y m d ms" "valid_civil y m d" "ms_ok ms"
    by (rule date_civil)
  obtain y' m' where tgt: "period_target c y m = (y', m')"
    by fastforce
  define d' where "d' = min d (days_in_month y' m')"
  note b = period_later_bounds [OF t(2) tgt, folded d'_def]
  have "wincrmPeriodEnd (Some t) c = Inr (at_civil y' m' d' ms)"
    unfolding d'_def by (rule wincrmPeriodEnd_at_civil [OF t(2,3,1) assms tgt])
  moreover have "at_civil y' m' d' ms - t = (day_of_civil y' m' d' - day_of_civil y m d) * MS_PER_DAY"
    unfolding t(1) by (rule at_civil_diff)
  moreover have "(if c = MONTHLY then 28 else 365) * MS_PER_DAY \<le> (day_of_civil y' m' d' - day_of_civil y m d) * MS_PER_DAY"
    "(day_of_civil y' m' d' - day_of_civil y m d) * MS_PER_DAY \<le> (if c = MONTHLY then 31 else 366) * MS_PER_DAY"
    using b(1,2) by (auto simp: MS_PER_DAY_def split: if_splits)
  moreover have "getUTCFullYear t = y" "getUTCMonth t = m" "getUTCDate t = d" "time_within_day t = ms"
    using at_civil_getters [OF t(3,2)] at_civil_mod [OF t(3)] by (simp_all add: t(1))
  ultimately show ?thesis
    using at_civil_getters [OF t(3) b(3)] at_civil_mod [OF t(3)] tgt by (simp add: d'_def)
qed

theorem wincrmPeriodEnd_calendar_witness:
  "\<exists>x. wincrmPeriodEnd (Some 1706659200000) MONTHLY = Inr x \<and> 28 * MS_PER_DAY \<le> x - 1706659200000"
  using wincrmPeriodEnd_calendar [of 1706659200000 MONTHLY]
  by (auto simp: date_margin_def MAX_DATE_MS_def MS_PER_DAY_def)

text \<open>
  C38. The price of an order is defined exactly for a valid snapshot and a number of seats between the
  included seats and 10000, is the price that the seat conversion uses for the same snapshot, lies
  between one kopeck and the maximum amount, and does not fall with the number of seats.
\<close>

theorem wincrmPrice_exact:
  "(wincrmPrice s c n = Inr p \<longleftrightarrow>
      snapshot_ok s \<and> ps_includedSeats s \<le> n \<and> n \<le> 10000
      \<and> p = snapshot_price (cycle_js c) (snapshot_json s) n \<and> p \<le> WINCRM_MAX_AMOUNT)
   \<and> (wincrmPrice s c n = Inr p \<and> wincrmPrice s c n' = Inr p' \<and> n \<le> n' \<longrightarrow> 1 \<le> p \<and> p \<le> p')"
proof -
  have fwd: "snapshot_ok s \<and> ps_includedSeats s \<le> n \<and> n \<le> 10000
      \<and> p = snapshot_price (cycle_js c) (snapshot_json s) n \<and> p \<le> WINCRM_MAX_AMOUNT"
    if "wincrmPrice s c n = Inr p"
    using wincrmPrice_eq [OF that] by simp
  have bwd: "wincrmPrice s c n = Inr p"
    if a: "snapshot_ok s \<and> ps_includedSeats s \<le> n \<and> n \<le> 10000
      \<and> p = snapshot_price (cycle_js c) (snapshot_json s) n \<and> p \<le> WINCRM_MAX_AMOUNT"
  proof -
    have "0 < p"
      using a sn.price_pos [of "snapshot_json s" n "cycle_js c"] by (simp add: snapshot_json_included)
    moreover have "is_safe_integer n"
      using a by (intro safe_small) (simp add: snapshot_ok_def)
    moreover have "p = (if c = MONTHLY then ps_monthlyPriceMinor s else ps_yearlyPriceMinor s)
          + (n - ps_includedSeats s) * (if c = MONTHLY then ps_additionalSeatMonthlyPriceMinor s
              else ps_additionalSeatYearlyPriceMinor s)"
      using a by (cases c) (simp_all add: snapshot_ok_def snapshot_price_def snapshot_json_def cycle_js_def
          checked_price_def sd_price_def)
    ultimately show ?thesis
      using a by (simp add: wincrmPrice_def read_snapshot_json Let_def)
  qed
  have "1 \<le> p \<and> p \<le> p'"
    if e: "wincrmPrice s c n = Inr p" "wincrmPrice s c n' = Inr p'" and le: "n \<le> n'"
  proof -
    note f = wincrmPrice_eq [OF e(1)] and g = wincrmPrice_eq [OF e(2)]
    have "snapshot_price (cycle_js c) (snapshot_json s) n \<le> snapshot_price (cycle_js c) (snapshot_json s) n'"
      using le f(2) by (intro sn.price_mono) (simp_all add: snapshot_json_included)
    then show ?thesis
      using f(4,6) g(6) by simp
  qed
  with fwd bwd show ?thesis
    by blast
qed

definition sample_snapshot :: price_snapshot where
  "sample_snapshot = \<lparr>ps_policyVersion = 1, ps_monthlyPriceMinor = 300, ps_yearlyPriceMinor = 3000,
     ps_additionalSeatMonthlyPriceMinor = 50, ps_additionalSeatYearlyPriceMinor = 500,
     ps_includedSeats = 2, ps_graceDays = 3\<rparr>"

theorem wincrmPrice_exact_witness:
  "wincrmPrice sample_snapshot MONTHLY 3 = Inr 350 \<and> wincrmPrice sample_snapshot MONTHLY 4 = Inr 400 \<and> (350::int) \<le> 400"
proof -
  have "wincrmPrice sample_snapshot MONTHLY 3 = Inr 350" "wincrmPrice sample_snapshot MONTHLY 4 = Inr 400"
    by (simp_all add: wincrmPrice_def read_snapshot_json snapshot_ok_def sample_snapshot_def
        is_safe_integer_def MAX_SAFE_INTEGER_def WINCRM_MAX_AMOUNT_def)
  then show ?thesis
    using wincrmPrice_exact [of sample_snapshot MONTHLY 3 350 4 400] by simp
qed

text \<open>
  The decimal text of an amount sent to the provider has exactly two digits after the point and
  reads back as the amount; amounts outside one kopeck to the maximum are refused.
\<close>

theorem wincrmDecimal_roundtrip:
  "(case wincrmDecimal m of
      Inl x \<Rightarrow> m < 1 \<or> m > WINCRM_MAX_AMOUNT
    | Inr t \<Rightarrow> 1 \<le> m \<and> m \<le> WINCRM_MAX_AMOUNT \<and> 4 \<le> length t \<and> t ! (length t - 3) = 46
        \<and> int (undec (filter (\<lambda>c. c \<noteq> 46) t)) = m)"
proof (cases "1 \<le> m \<and> m \<le> WINCRM_MAX_AMOUNT")
  case True
  have nodot: "filter (\<lambda>c. c \<noteq> 46) (dec k) = dec k" for k
    using dec_digits [of 46 k] by (auto simp: filter_id_conv is_digit_def)
  have "undec (dec (nat m div 100) @ [48 + nat m mod 100 div 10, 48 + nat m mod 100 mod 10]) = nat m"
    using undec_snoc [of "dec (nat m div 100) @ [48 + nat m mod 100 div 10]" "48 + nat m mod 100 mod 10"]
    by simp
  then have "undec (filter (\<lambda>c. c \<noteq> 46) (dec (nat m div 100) @ [46, 48 + nat m mod 100 div 10, 48 + nat m mod 100 mod 10])) = nat m"
    by (simp add: nodot)
  then show ?thesis
    using True by (simp add: wincrmDecimal_eq nth_append Suc_le_eq)
next
  case False
  then show ?thesis
    by (auto simp: wincrmDecimal_def)
qed

end
