(* ===== verification/Admin_Audit.thy ===== *)
theory Admin_Audit
  imports Commerce_Helpers
begin

text \<open>
  \<open>apps/billing/src/domain/billing-admin-audit.ts\<close>: the audit event that administrative commands
  put into the outbox in their own transaction.
\<close>

record admin_actor =
  act_id :: jsstring
  act_role :: string
  act_ip :: "jsstring option"
  act_userAgent :: "jsstring option"

record audit_input =
  au_actor :: admin_actor
  au_section :: string
  au_action :: string
  au_description :: jsstring
  au_entityType :: string
  au_entityId :: jsstring
  au_entityLabel :: "string option"
  au_targetUserId :: "jsstring option"
  au_metadata :: "(string \<times> jsval) list"

definition js_trim :: "jsstring \<Rightarrow> jsstring" where
  "js_trim s = rev (dropWhile is_space (rev (dropWhile is_space s)))"

definition boundedContext :: "jsstring option \<Rightarrow> nat \<Rightarrow> jsstring option" where
  "boundedContext value maxLength =
     (case value of
        None \<Rightarrow> None
      | Some s \<Rightarrow> (let normalized = js_trim s
          in if normalized \<noteq> [] then Some (take maxLength normalized) else None))"

text \<open>
  The spread of the metadata is followed by the actor's role and request data, which replace
  properties of the same name.
\<close>

definition enqueueBillingAdminAudit :: "env \<Rightarrow> audit_input \<Rightarrow> unit op" where
  "enqueueBillingAdminAudit e input =
     bnd (randomUUID e) (\<lambda>eventId.
     bnd (new_date e) (\<lambda>occurred.
     bnd (randomUUID e) (\<lambda>rowId.
     bnd (new_date e) (\<lambda>availableAt.
     thn (create_outbox
       \<lparr>x_id = rowId, x_eventId = eventId, x_deduplicationKey = None,
        x_eventType = ''admin.audit.event.v1'', x_aggregateType = ''billing.admin-audit'',
        x_aggregateId = au_entityId input, x_aggregateVersion = None, x_sourceSequence = None,
        x_exchange = ''winwidget.events'', x_routingKey = ''admin.audit.billing.v1'',
        x_availableAt = availableAt,
        x_payload = obj
          [(''schemaVersion'', JInt 1),
           (''eventType'', JStr (js ''admin.audit.event.v1'')),
           (''eventId'', JStr eventId),
           (''occurredAt'', JStr (toISOString occurred)),
           (''correlationId'', JStr (correlationId e)),
           (''actorId'', JStr (act_id (au_actor input))),
           (''section'', JStr (js (au_section input))),
           (''action'', JStr (js (au_action input))),
           (''description'', JStr (au_description input)),
           (''entity'', obj [(''type'', JStr (js (au_entityType input))), (''id'', JStr (au_entityId input)),
              (''label'', opt_js (\<lambda>l. JStr (js l)) (au_entityLabel input)), (''targetUserId'', opt_js JStr (au_targetUserId input))]),
           (''metadata'', obj (filter (\<lambda>(k, v). k \<notin> {''actorRole'', ''requestIp'', ''requestUserAgent''})
                (au_metadata input) @
              [(''actorRole'', JStr (js (act_role (au_actor input)))),
               (''requestIp'', opt_js JStr (boundedContext (act_ip (au_actor input)) 128)),
               (''requestUserAgent'', opt_js JStr (boundedContext (act_userAgent (au_actor input)) 500))]))]\<rparr>)
     (ret ())))))"

text \<open>An audit event touches nothing but the outbox.\<close>

context db_relation
begin

lemma steps_audit [steps_intro]: "frame R outbox_update \<Longrightarrow> steps R (enqueueBillingAdminAudit e input)"
  unfolding enqueueBillingAdminAudit_def by (intro steps_intro)

end

end
