(* ===== verification/Commercial_Policy.thy ===== *)
theory Commercial_Policy
  imports Admin_Audit
begin

text \<open>
  \<open>apps/billing/src/domain/crm-commercial-policy.service.ts\<close>: the versioned price list of WinCRM.
  Policies are never changed or deleted; an update appends the next version. The lemmas show the
  effect of an update, that the latest policy is the one with the greatest version, and that a
  repeated command returns the recorded result without a second effect.
\<close>

section \<open>Operations\<close>

text \<open>\<open>UpdateCrmCommercialPolicyDto\<close> with the checks of its decorators.\<close>

record policy_dto =
  pd_schemaVersion :: int
  pd_commandId :: jsstring
  pd_expectedVersion :: int
  pd_monthlyPriceMinor :: int
  pd_yearlyPriceMinor :: int
  pd_additionalSeatMonthlyPriceMinor :: int
  pd_additionalSeatYearlyPriceMinor :: int
  pd_includedSeats :: int
  pd_trialSeatLimit :: int

definition policy_dto_ok :: "policy_dto \<Rightarrow> bool" where
  "policy_dto_ok d \<longleftrightarrow>
     pd_schemaVersion d = 1
     \<and> 1 \<le> pd_expectedVersion d \<and> pd_expectedVersion d \<le> 2147483647
     \<and> 1 \<le> pd_monthlyPriceMinor d \<and> pd_monthlyPriceMinor d \<le> 100000000
     \<and> 1 \<le> pd_yearlyPriceMinor d \<and> pd_yearlyPriceMinor d \<le> 100000000
     \<and> 1 \<le> pd_additionalSeatMonthlyPriceMinor d \<and> pd_additionalSeatMonthlyPriceMinor d \<le> 100000000
     \<and> 1 \<le> pd_additionalSeatYearlyPriceMinor d \<and> pd_additionalSeatYearlyPriceMinor d \<le> 100000000
     \<and> 2 \<le> pd_includedSeats d \<and> pd_includedSeats d \<le> 10000
     \<and> 2 \<le> pd_trialSeatLimit d \<and> pd_trialSeatLimit d \<le> 10000"

definition policy_dto_fields :: "policy_dto \<Rightarrow> (string \<times> jsval) list" where
  "policy_dto_fields d =
     [(''schemaVersion'', JInt (pd_schemaVersion d)),
      (''commandId'', JStr (pd_commandId d)),
      (''expectedVersion'', JInt (pd_expectedVersion d)),
      (''monthlyPriceMinor'', JInt (pd_monthlyPriceMinor d)),
      (''yearlyPriceMinor'', JInt (pd_yearlyPriceMinor d)),
      (''additionalSeatMonthlyPriceMinor'', JInt (pd_additionalSeatMonthlyPriceMinor d)),
      (''additionalSeatYearlyPriceMinor'', JInt (pd_additionalSeatYearlyPriceMinor d)),
      (''includedSeats'', JInt (pd_includedSeats d)),
      (''trialSeatLimit'', JInt (pd_trialSeatLimit d))]"

text \<open>The acting user with the data of the request.\<close>

record policy_context =
  pc_subject :: jsstring
  pc_roles :: "string list"
  pc_ip :: "jsstring option"
  pc_userAgent :: "jsstring option"

definition POLICY_COMMAND_TYPE :: string where
  "POLICY_COMMAND_TYPE = ''UPDATE_WINCRM_COMMERCIAL_POLICY''"

definition policy_audit_description :: jsstring where
  "policy_audit_description =
     [1054, 1073, 1085, 1086, 1074, 1083, 1077, 1085, 1099, 32, 1094, 1077, 1085, 1099, 32, 1080,
      32, 1083, 1080, 1084, 1080, 1090, 1099, 32, 1089, 1086, 1090, 1088, 1091, 1076, 1085, 1080,
      1082, 1086, 1074, 32, 87, 105, 110, 67, 82, 77]"

definition serializeCrmCommercialPolicy :: "policy_row \<Rightarrow> jsval" where
  "serializeCrmCommercialPolicy policy = obj
     [(''schemaVersion'', JInt 1),
      (''productCode'', JStr (js ''WINCRM'')),
      (''version'', JInt (pol_version policy)),
      (''currency'', JStr (js ''RUB'')),
      (''monthlyPriceMinor'', JInt (pol_monthlyPriceMinor policy)),
      (''yearlyPriceMinor'', JInt (pol_yearlyPriceMinor policy)),
      (''additionalSeatMonthlyPriceMinor'', JInt (pol_additionalSeatMonthlyPriceMinor policy)),
      (''additionalSeatYearlyPriceMinor'', JInt (pol_additionalSeatYearlyPriceMinor policy)),
      (''includedSeats'', JInt (pol_includedSeats policy)),
      (''trialSeatLimit'', JInt (pol_trialSeatLimit policy)),
      (''trialDays'', JInt (pol_trialDays policy)),
      (''graceDays'', JInt (pol_graceDays policy)),
      (''createdAt'', JStr (toISOString (pol_createdAt policy)))]"

definition latest_policy :: "db \<Rightarrow> policy_row option" where
  "latest_policy w = first_by (\<lambda>a b. pol_version b < pol_version a) (policies w)"

definition requireCrmCommercialPolicy :: "policy_row op" where
  "requireCrmCommercialPolicy =
     bnd (gets latest_policy) (the_or (Unavailable ''crm_commercial_policy_unavailable''))"

definition getPolicy :: "jsval op" where
  "getPolicy = bnd requireCrmCommercialPolicy (\<lambda>policy. ret (serializeCrmCommercialPolicy policy))"

definition policy_actor_role :: "string list \<Rightarrow> string option" where
  "policy_actor_role roles =
     (if ''DEV'' \<in> set roles then Some ''DEV'' else if ''ADMIN'' \<in> set roles then Some ''ADMIN'' else None)"

definition next_policy :: "policy_dto \<Rightarrow> policy_context \<Rightarrow> policy_row \<Rightarrow> date \<Rightarrow> policy_row" where
  "next_policy dto ctx current createdAt =
     \<lparr>pol_version = pol_version current + 1,
      pol_monthlyPriceMinor = pd_monthlyPriceMinor dto,
      pol_yearlyPriceMinor = pd_yearlyPriceMinor dto,
      pol_additionalSeatMonthlyPriceMinor = pd_additionalSeatMonthlyPriceMinor dto,
      pol_additionalSeatYearlyPriceMinor = pd_additionalSeatYearlyPriceMinor dto,
      pol_includedSeats = pd_includedSeats dto,
      pol_trialSeatLimit = pd_trialSeatLimit dto,
      pol_trialDays = 5,
      pol_graceDays = 3,
      pol_createdByUserId = Some (pc_subject ctx),
      pol_createdAt = createdAt\<rparr>"

definition updatePolicy_tx :: "env \<Rightarrow> policy_dto \<Rightarrow> policy_context \<Rightarrow> string \<Rightarrow> jsstring \<Rightarrow> jsval op" where
  "updatePolicy_tx e dto ctx actorRole requestHash =
     bnd (gets (find_receipt (pd_commandId dto))) (\<lambda>prior.
     case prior of
       Some receipt \<Rightarrow> lift_sum (assertBillingCommandReceipt receipt POLICY_COMMAND_TYPE requestHash)
     | None \<Rightarrow>
     bnd requireCrmCommercialPolicy (\<lambda>current.
     thn (check (Conflict ''crm_commercial_policy_version_conflict'')
       (pol_version current = pd_expectedVersion dto))
     (thn (check (Unavailable ''WinCRM policy version limit reached'') (pol_version current < 2147483647))
     (bnd (new_date e) (\<lambda>createdAt.
     bnd (create_policy (next_policy dto ctx current createdAt)) (\<lambda>updated.
     let result = serializeCrmCommercialPolicy updated in
     thn (enqueueBillingAdminAudit e
       \<lparr>au_actor = \<lparr>act_id = pc_subject ctx, act_role = actorRole, act_ip = pc_ip ctx,
          act_userAgent = pc_userAgent ctx\<rparr>,
        au_section = ''SITE_SETTINGS'', au_action = ''SITE_SETTINGS_UPDATE'',
        au_description = policy_audit_description,
        au_entityType = ''crm_commercial_policy'', au_entityId = dec_int (pol_version updated),
        au_entityLabel = Some ''WinCRM'', au_targetUserId = None,
        au_metadata = [(''commandId'', JStr (pd_commandId dto)),
          (''before'', serializeCrmCommercialPolicy current), (''after'', result)]\<rparr>)
     (thn (create_receipt
       \<lparr>rc_commandId = pd_commandId dto, rc_commandType = POLICY_COMMAND_TYPE,
        rc_requestHash = requestHash, rc_requestHashVersion = 1, rc_result = result\<rparr>)
     (ret result))))))))"

definition updatePolicy :: "env \<Rightarrow> policy_dto \<Rightarrow> policy_context \<Rightarrow> jsval op" where
  "updatePolicy e dto ctx =
     bnd (the_or (Forbidden ''ADMIN or DEV required'') (policy_actor_role (pc_roles ctx))) (\<lambda>actorRole.
     bnd (lift_sum (billingCommandRequestHash (sha256 e) POLICY_COMMAND_TYPE
       (obj (policy_dto_fields dto @ [(''actorId'', JStr (pc_subject ctx))])))) (\<lambda>requestHash.
     transaction e (updatePolicy_tx e dto ctx actorRole requestHash)))"

section \<open>Lemmas\<close>

context db_relation
begin

lemma steps_requirePolicy [steps_intro]: "steps R requireCrmCommercialPolicy"
  unfolding requireCrmCommercialPolicy_def by (intro steps_intro)

lemma steps_updatePolicy [steps_intro]:
  assumes "frame R policies_update" "frame R outbox_update" "frame R receipts_update"
  shows "steps R (updatePolicy e dto ctx)"
  unfolding updatePolicy_def updatePolicy_tx_def by (intro steps_intro assms)

end

lemma latest_policy_greatest:
  assumes "latest_policy w = Some p"
  shows "p \<in> set (policies w)" and "q \<in> set (policies w) \<Longrightarrow> pol_version q \<le> pol_version p"
proof -
  show "p \<in> set (policies w)"
    using assms by (simp add: latest_policy_def first_by_in)
  show "q \<in> set (policies w) \<Longrightarrow> pol_version q \<le> pol_version p"
    using first_by_first [of "\<lambda>a b. pol_version b < pol_version a" "policies w" p q] assms
    by (auto simp: latest_policy_def)
qed

lemma latest_policy_append:
  assumes "policies w' = policies w @ [row]" "\<And>q. q \<in> set (policies w) \<Longrightarrow> pol_version q < pol_version row"
  shows "latest_policy w' = Some row"
proof -
  have "first_by (\<lambda>a b. pol_version b < pol_version a) (qs @ [row]) = Some row"
    if "\<And>q. q \<in> set qs \<Longrightarrow> pol_version q < pol_version row" for qs
    using that by (induction qs) auto
  then show ?thesis
    using assms by (simp add: latest_policy_def)
qed

lemma latest_policy_cong: "policies w' = policies w \<Longrightarrow> latest_policy w' = latest_policy w"
  by (simp add: latest_policy_def)

lemma find_receipt_cong: "receipts w' = receipts w \<Longrightarrow> find_receipt c w' = find_receipt c w"
  by (simp add: find_receipt_def)

lemma audit_frame:
  assumes "enqueueBillingAdminAudit e input w = Inr (u, w')"
  shows "policies w' = policies w \<and> receipts w' = receipts w"
  using stepsD [OF same_policies.steps_audit assms] stepsD [OF same_receipts.steps_audit assms]
  by (simp add: same_def)

text \<open>A fresh update ran every step once.\<close>

lemma updatePolicy_tx_fresh:
  assumes run: "updatePolicy_tx e dto ctx role hash w = Inr (r, w')"
    and no: "find_receipt (pd_commandId dto) w = None"
  shows "\<exists>cur. latest_policy w = Some cur \<and> pol_version cur = pd_expectedVersion dto
    \<and> pd_expectedVersion dto < 2147483647
    \<and> policies w' = policies w @ [next_policy dto ctx cur (clock e (tick w))]
    \<and> r = serializeCrmCommercialPolicy (next_policy dto ctx cur (clock e (tick w)))
    \<and> receipts w' = receipts w @ [\<lparr>rc_commandId = pd_commandId dto, rc_commandType = POLICY_COMMAND_TYPE,
         rc_requestHash = hash, rc_requestHashVersion = 1, rc_result = r\<rparr>]"
  using run no
  by (auto simp: updatePolicy_tx_def requireCrmCommercialPolicy_def Let_def new_date_def create_policy_def
      create_receipt_def tb_policies.create_row_Inr tb_receipts.create_row_Inr dest!: audit_frame)

lemma latest_policy_timeless [simp]:
  "latest_policy (w\<lparr>tick := i\<rparr>) = latest_policy w" "latest_policy (w\<lparr>fresh := i\<rparr>) = latest_policy w"
  by (simp_all add: latest_policy_def)

lemma updatePolicy_tx_replay:
  assumes "updatePolicy_tx e dto ctx role hash w = Inr (r, w')" "find_receipt (pd_commandId dto) w = Some receipt"
  shows "w' = w \<and> r = rc_result receipt \<and> rc_commandType receipt = POLICY_COMMAND_TYPE
    \<and> rc_requestHash receipt = hash \<and> rc_requestHashVersion receipt = 1"
  using assms by (auto simp: updatePolicy_tx_def assertBillingCommandReceipt_def sbind_Inr)

text \<open>What was committed is replayed from its receipt.\<close>

lemma updatePolicy_tx_receipt:
  assumes "updatePolicy_tx e dto ctx role hash w = Inr (r, w')"
  shows "\<exists>receipt. find_receipt (pd_commandId dto) w' = Some receipt
    \<and> rc_commandType receipt = POLICY_COMMAND_TYPE \<and> rc_requestHash receipt = hash
    \<and> rc_requestHashVersion receipt = 1 \<and> rc_result receipt = r"
proof (cases "find_receipt (pd_commandId dto) w")
  case None
  from updatePolicy_tx_fresh [OF assms None] show ?thesis
    using None by (auto simp: find_receipt_def find_append)
next
  case (Some receipt)
  then show ?thesis
    using updatePolicy_tx_replay [OF assms Some] by simp
qed

section \<open>Properties\<close>

text \<open>
  C39. A committed update either replays a recorded result and changes no policy, or appends exactly
  one policy: the one that was latest had the expected version, the new one has the next version,
  carries the submitted prices and is the latest afterwards. Existing policies are never changed.
\<close>

theorem policy_update_effect:
  assumes "updatePolicy e dto ctx w = Inr (r, w')"
  shows "(\<exists>receipt. find_receipt (pd_commandId dto) w = Some receipt \<and> r = rc_result receipt
        \<and> policies w' = policies w)
    \<or> (\<exists>cur row. latest_policy w = Some cur \<and> pol_version cur = pd_expectedVersion dto
        \<and> policies w' = policies w @ [row] \<and> latest_policy w' = Some row
        \<and> pol_version row = pd_expectedVersion dto + 1 \<and> r = serializeCrmCommercialPolicy row
        \<and> pol_monthlyPriceMinor row = pd_monthlyPriceMinor dto
        \<and> pol_yearlyPriceMinor row = pd_yearlyPriceMinor dto
        \<and> pol_additionalSeatMonthlyPriceMinor row = pd_additionalSeatMonthlyPriceMinor dto
        \<and> pol_additionalSeatYearlyPriceMinor row = pd_additionalSeatYearlyPriceMinor dto
        \<and> pol_includedSeats row = pd_includedSeats dto)"
proof -
  obtain role hash i j where run: "updatePolicy_tx e dto ctx role hash (w\<lparr>tick := i, fresh := j\<rparr>) = Inr (r, w')"
    using assms by (auto simp: updatePolicy_def)
  define w1 where "w1 = w\<lparr>tick := i, fresh := j\<rparr>"
  have eq: "policies w1 = policies w" "latest_policy w1 = latest_policy w"
    "find_receipt (pd_commandId dto) w1 = find_receipt (pd_commandId dto) w"
    by (simp_all add: w1_def latest_policy_def find_receipt_def)
  show ?thesis
  proof (cases "find_receipt (pd_commandId dto) w1")
    case None
    from updatePolicy_tx_fresh [OF run [folded w1_def] None] obtain cur t where
      f: "latest_policy w1 = Some cur" "pol_version cur = pd_expectedVersion dto"
      "policies w' = policies w1 @ [next_policy dto ctx cur t]"
      "r = serializeCrmCommercialPolicy (next_policy dto ctx cur t)"
      by blast
    moreover have "latest_policy w' = Some (next_policy dto ctx cur t)"
      using latest_policy_append [OF f(3)] latest_policy_greatest(2) [OF f(1)] by (force simp: next_policy_def)
    ultimately show ?thesis
      using eq by (auto simp: next_policy_def)
  next
    case (Some receipt)
    then show ?thesis
      using updatePolicy_tx_replay [OF run [folded w1_def] Some] eq by simp
  qed
qed

definition sample_policy :: policy_row where
  "sample_policy = \<lparr>pol_version = 1, pol_monthlyPriceMinor = 300, pol_yearlyPriceMinor = 3000,
     pol_additionalSeatMonthlyPriceMinor = 50, pol_additionalSeatYearlyPriceMinor = 500,
     pol_includedSeats = 2, pol_trialSeatLimit = 2, pol_trialDays = 5, pol_graceDays = 3,
     pol_createdByUserId = None, pol_createdAt = 0\<rparr>"

definition sample_policy_db :: db where
  "sample_policy_db = empty_db\<lparr>policies := [sample_policy]\<rparr>"

definition sample_policy_dto :: policy_dto where
  "sample_policy_dto = \<lparr>pd_schemaVersion = 1, pd_commandId = sample_uuid 7, pd_expectedVersion = 1,
     pd_monthlyPriceMinor = 400, pd_yearlyPriceMinor = 4000, pd_additionalSeatMonthlyPriceMinor = 60,
     pd_additionalSeatYearlyPriceMinor = 600, pd_includedSeats = 3, pd_trialSeatLimit = 2\<rparr>"

definition sample_admin :: policy_context where
  "sample_admin = \<lparr>pc_subject = js ''admin'', pc_roles = [''ADMIN''], pc_ip = None, pc_userAgent = None\<rparr>"

lemma sample_policy_run:
  "\<exists>r w'. updatePolicy sample_env sample_policy_dto sample_admin sample_policy_db = Inr (r, w')"
proof -
  have "json_ok (obj (policy_dto_fields sample_policy_dto @ [(''actorId'', JStr (pc_subject sample_admin))]))"
    by (simp add: policy_dto_fields_def json_ok_obj)
  from request_hash_total [OF this] obtain t where
    h: "billingCommandRequestHash (sha256 sample_env) POLICY_COMMAND_TYPE
      (obj (policy_dto_fields sample_policy_dto @ [(''actorId'', JStr (pc_subject sample_admin))]))
      = Inr (sha256 sample_env t)"
    by blast
  have r: "policy_actor_role (pc_roles sample_admin) = Some ''ADMIN''"
    by (simp add: sample_admin_def policy_actor_role_def)
  have eq: "updatePolicy sample_env sample_policy_dto sample_admin sample_policy_db
      = updatePolicy_tx sample_env sample_policy_dto sample_admin ''ADMIN'' (sha256 sample_env t) sample_policy_db"
    by (simp add: updatePolicy_def h r tx_simps del: sample_env_simps)
  show ?thesis
    unfolding eq
    by (simp add: tx_simps updatePolicy_tx_def Let_def find_receipt_def
        requireCrmCommercialPolicy_def latest_policy_def sample_policy_db_def empty_db_def
        sample_policy_def sample_policy_dto_def new_date_def create_policy_def create_row_def next_policy_def
        enqueueBillingAdminAudit_def randomUUID_def create_outbox_def create_receipt_def)
qed

theorem policy_update_effect_witness:
  "\<exists>r w' row. updatePolicy sample_env sample_policy_dto sample_admin sample_policy_db = Inr (r, w')
     \<and> policies w' = [sample_policy, row] \<and> pol_version row = 2 \<and> latest_policy w' = Some row"
proof -
  obtain r w' where run: "updatePolicy sample_env sample_policy_dto sample_admin sample_policy_db = Inr (r, w')"
    using sample_policy_run by blast
  show ?thesis
    using policy_update_effect [OF run] run
    by (auto simp: sample_policy_db_def empty_db_def find_receipt_def sample_policy_dto_def)
qed

text \<open>
  Repeating a committed policy update returns the same result and leaves the whole database as
  it is, when no serialization failure interferes.
\<close>

theorem policy_update_idempotent:
  assumes "updatePolicy e dto ctx w = Inr (r, w')" and "\<And>t n. \<not> conflicts e t n"
  shows "updatePolicy e dto ctx w' = Inr (r, w')"
proof -
  obtain role hash i j where
    h: "policy_actor_role (pc_roles ctx) = Some role"
      "billingCommandRequestHash (sha256 e) POLICY_COMMAND_TYPE
         (obj (policy_dto_fields dto @ [(''actorId'', JStr (pc_subject ctx))])) = Inr hash"
    and run: "updatePolicy_tx e dto ctx role hash (w\<lparr>tick := i, fresh := j\<rparr>) = Inr (r, w')"
    using assms(1) by (auto simp: updatePolicy_def)
  from updatePolicy_tx_receipt [OF run] obtain receipt where
    rc: "find_receipt (pd_commandId dto) w' = Some receipt" "rc_commandType receipt = POLICY_COMMAND_TYPE"
      "rc_requestHash receipt = hash" "rc_requestHashVersion receipt = 1" "rc_result receipt = r"
    by blast
  then show ?thesis
    by (simp add: updatePolicy_def h transaction_no_conflict [OF assms(2)] updatePolicy_tx_def
        assertBillingCommandReceipt_def tx_simps)
qed

theorem policy_update_idempotent_witness:
  "\<exists>r w'. updatePolicy sample_env sample_policy_dto sample_admin sample_policy_db = Inr (r, w')
     \<and> updatePolicy sample_env sample_policy_dto sample_admin w' = Inr (r, w')"
proof -
  obtain r w' where run: "updatePolicy sample_env sample_policy_dto sample_admin sample_policy_db = Inr (r, w')"
    using sample_policy_run by blast
  have "updatePolicy sample_env sample_policy_dto sample_admin w' = Inr (r, w')"
    by (rule policy_update_idempotent [OF run]) simp
  with run show ?thesis
    by blast
qed

end
