(* ===== verification/Entitlement.thy ===== *)
theory Entitlement
  imports Commercial_Policy
begin

text \<open>
  \<open>apps/billing/src/domain/crm-entitlement.service.ts\<close> and \<open>crm-entitlement-outbox.ts\<close>: the
  entitlement of a workspace, the one trial it can have, its effective status in time, and the
  versioned event that tells CRM Access about a change. The lemmas show that a workspace gets at most
  one entitlement and never a second trial, that the effective status only moves from active through
  grace to read-only, and that every wake-up event carries a strictly greater aggregate version.
\<close>

section \<open>The service\<close>

definition CRM_TRIAL_PROVISIONING_COMMAND_TYPE :: string where
  "CRM_TRIAL_PROVISIONING_COMMAND_TYPE = ''ACTIVATE_WINCRM_TRIAL''"

definition DAY_MS :: int where
  "DAY_MS = 24 * 60 * 60 * 1000"

definition ent_status_js :: "entitlement_status \<Rightarrow> jsval" where
  "ent_status_js s = JStr (js (case s of E_ACTIVE \<Rightarrow> ''ACTIVE'' | E_GRACE \<Rightarrow> ''GRACE''
     | E_READ_ONLY \<Rightarrow> ''READ_ONLY'' | E_SUSPENDED \<Rightarrow> ''SUSPENDED'' | E_EXPIRED \<Rightarrow> ''EXPIRED''
     | E_CANCELLED \<Rightarrow> ''CANCELLED''))"

definition effective_status :: "entitlement_row \<Rightarrow> date \<Rightarrow> entitlement_status" where
  "effective_status ent now =
     (if e_status ent = E_ACTIVE \<and> e_effectiveUntil ent \<le> now
      then (case e_graceUntil ent of
              Some g \<Rightarrow> if now < g then E_GRACE else E_READ_ONLY
            | None \<Rightarrow> E_EXPIRED)
      else e_status ent)"

definition iso_js :: "date \<Rightarrow> jsval" where
  "iso_js t = JStr (toISOString t)"

definition response :: "entitlement_row option \<Rightarrow> date \<Rightarrow> (string \<times> jsval) list" where
  "response entitlement now =
     (case entitlement of
        None \<Rightarrow> [(''schemaVersion'', JInt 1), (''productCode'', JStr (js ''WINCRM'')),
          (''status'', JStr (js ''NOT_ACTIVATED'')), (''entitlement'', JNull)]
      | Some ent \<Rightarrow> [(''schemaVersion'', JInt 1), (''productCode'', JStr (js ''WINCRM'')),
          (''status'', ent_status_js (effective_status ent now)),
          (''entitlement'', obj
             [(''id'', JStr (e_id ent)),
              (''workspaceId'', JStr (e_workspaceId ent)),
              (''planCode'', JStr (js (e_planCode ent))),
              (''seatLimit'', opt_js JInt (e_seatLimit ent)),
              (''policyVersion'', opt_js JInt (e_policyVersion ent)),
              (''graceUntil'', opt_js iso_js (e_graceUntil ent)),
              (''trialStartedAt'', opt_js iso_js (e_trialStartedAt ent)),
              (''effectiveFrom'', iso_js (e_effectiveFrom ent)),
              (''effectiveUntil'', iso_js (e_effectiveUntil ent)),
              (''provisioningCommandId'', JStr (e_provisioningCommandId ent)),
              (''provisioningCommandType'', JStr (js (e_provisioningCommandType ent))),
              (''activatedByUserId'', JStr (e_activatedByUserId ent)),
              (''aggregateVersion'', JStr (dec_int (e_aggregateVersion ent))),
              (''sourceSequence'', JStr (dec_int (e_sourceSequence ent)))])])"

text \<open>The paid period that has started last, \<open>orderBy: [{ startsAt: 'desc' }, { id: 'desc' }]\<close>.\<close>

definition started_period :: "jsstring \<Rightarrow> date \<Rightarrow> db \<Rightarrow> period_row option" where
  "started_period ws now w =
     first_by starts_later (filter (\<lambda>p. p_workspaceId p = ws \<and> p_startsAt p \<le> now) (periods w))"

definition paid_entitlement :: "entitlement_row \<Rightarrow> period_row \<Rightarrow> price_snapshot \<Rightarrow> entitlement_row" where
  "paid_entitlement ent paid snapshot =
     ent\<lparr>e_planCode := ''PAID'', e_status := E_ACTIVE, e_seatLimit := Some (p_totalSeats paid),
         e_policyVersion := Some (ps_policyVersion snapshot), e_effectiveFrom := p_startsAt paid,
         e_effectiveUntil := p_expiresAt paid, e_graceUntil := Some (p_graceUntil paid)\<rparr>"

definition getEntitlement :: "env \<Rightarrow> jsstring \<Rightarrow> jsval op" where
  "getEntitlement e workspaceId =
     bnd (gets (find_entitlement workspaceId)) (\<lambda>entitlement.
     bnd (new_date e) (\<lambda>now.
     case entitlement of
       None \<Rightarrow> ret (obj (response entitlement now))
     | Some ent \<Rightarrow>
         if e_status ent = E_SUSPENDED \<or> e_status ent = E_CANCELLED
         then ret (obj (response entitlement now))
         else bnd (gets (started_period workspaceId now)) (\<lambda>paid.
           case paid of
             None \<Rightarrow> ret (obj (response entitlement now))
           | Some p \<Rightarrow>
               bnd (lift_sum (readWincrmPriceSnapshot (p_priceSnapshot p))) (\<lambda>snapshot.
               ret (obj (response (Some (paid_entitlement ent p snapshot)) now))))))"

definition nextSequence :: "int op" where
  "nextSequence = bnd upsert_sequence (\<lambda>nextValue. ret (nextValue - 1))"

definition entitlement_event ::
    "jsstring \<Rightarrow> jsstring \<Rightarrow> int \<Rightarrow> int \<Rightarrow> date \<Rightarrow> (string \<times> jsval) list \<Rightarrow> jsstring \<Rightarrow> date \<Rightarrow> outbox_row" where
  "entitlement_event eventId entId version sequence occurred state rowId availableAt =
     \<lparr>x_id = rowId, x_eventId = eventId, x_deduplicationKey = None,
      x_eventType = ''billing.crm-entitlement.changed.v1'',
      x_aggregateType = ''billing.crm-entitlement'', x_aggregateId = entId,
      x_aggregateVersion = Some version, x_sourceSequence = Some sequence,
      x_exchange = ''winwidget.events'', x_routingKey = ''billing.crm-entitlement.changed.v1'',
      x_availableAt = availableAt,
      x_payload = obj
        [(''schemaVersion'', JInt 1),
         (''eventType'', JStr (js ''billing.crm-entitlement.changed.v1'')),
         (''eventId'', JStr eventId),
         (''aggregateId'', JStr entId),
         (''aggregateVersion'', JStr (dec_int version)),
         (''sourceSequence'', JStr (dec_int sequence)),
         (''occurredAt'', iso_js occurred),
         (''tombstone'', JBool False),
         (''state'', obj state)]\<rparr>"

definition emitChanged :: "env \<Rightarrow> entitlement_row \<Rightarrow> unit op" where
  "emitChanged e ent =
     bnd (randomUUID e) (\<lambda>eventId.
     bnd (randomUUID e) (\<lambda>rowId.
     bnd (new_date e) (\<lambda>availableAt.
     thn (create_outbox (entitlement_event eventId (e_id ent) (e_aggregateVersion ent)
       (e_sourceSequence ent) (e_updatedAt ent)
       [(''workspaceId'', JStr (e_workspaceId ent)), (''productCode'', JStr (js ''WINCRM'')),
        (''planCode'', JStr (js (e_planCode ent))), (''status'', ent_status_js (e_status ent)),
        (''seatLimit'', opt_js JInt (e_seatLimit ent)), (''effectiveFrom'', iso_js (e_effectiveFrom ent)),
        (''effectiveUntil'', iso_js (e_effectiveUntil ent))] rowId availableAt))
     (ret ()))))"

text \<open>\<open>ActivateCrmTrialCommandDto\<close>\<close>

record trial_dto =
  td_schemaVersion :: int
  td_commandId :: jsstring
  td_workspaceId :: jsstring
  td_activatedByUserId :: jsstring

text \<open>\<open>toLowerCase\<close> on the ASCII letters that a UUID has.\<close>

definition ascii_lower :: "jsstring \<Rightarrow> jsstring" where
  "ascii_lower s = map (\<lambda>c. if 65 \<le> c \<and> c \<le> 90 then c + 32 else c) s"

definition assertAcceptedProvisioningProvenance ::
    "jsval \<Rightarrow> entitlement_row \<Rightarrow> trial_dto \<Rightarrow> string \<Rightarrow> err + unit" where
  "assertAcceptedProvisioningProvenance result ent dto commandType =
     (case jsfield result ''activated'' of
        JBool activated \<Rightarrow>
          if \<not> commerceRecord result then Inl (Fault ''WinCRM activation receipt has an invalid result'')
          else if \<not> activated then Inr ()
          else require (Fault ''WinCRM entitlement provenance does not match its accepted activation receipt'')
            (ascii_lower (e_provisioningCommandId ent) = ascii_lower (td_commandId dto)
             \<and> e_provisioningCommandType ent = commandType
             \<and> e_activatedByUserId ent = td_activatedByUserId dto)
      | _ \<Rightarrow> Inl (Fault ''WinCRM activation receipt has an invalid result''))"

definition trial_entitlement ::
    "trial_dto \<Rightarrow> policy_row \<Rightarrow> date \<Rightarrow> int \<Rightarrow> jsstring \<Rightarrow> date \<Rightarrow> entitlement_row" where
  "trial_entitlement dto policy now sequence newId updatedAt =
     \<lparr>e_id = newId, e_workspaceId = td_workspaceId dto, e_planCode = ''TRIAL'', e_status = E_ACTIVE,
      e_seatLimit = Some (pol_trialSeatLimit policy), e_policyVersion = Some (pol_version policy),
      e_graceUntil = Some (now + (pol_trialDays policy + pol_graceDays policy) * DAY_MS),
      e_trialStartedAt = Some now, e_effectiveFrom = now,
      e_effectiveUntil = now + pol_trialDays policy * DAY_MS,
      e_provisioningCommandId = td_commandId dto,
      e_provisioningCommandType = CRM_TRIAL_PROVISIONING_COMMAND_TYPE,
      e_activatedByUserId = td_activatedByUserId dto, e_aggregateVersion = 1,
      e_sourceSequence = sequence, e_updatedAt = updatedAt\<rparr>"

definition activated_result :: "entitlement_row \<Rightarrow> date \<Rightarrow> bool \<Rightarrow> jsval" where
  "activated_result ent now activated =
     obj (response (Some ent) now @ [(''activated'', JBool activated)])"

definition activateTrial_tx :: "env \<Rightarrow> trial_dto \<Rightarrow> jsstring \<Rightarrow> jsval op" where
  "activateTrial_tx e dto requestHash =
     bnd (gets (find_receipt (td_commandId dto))) (\<lambda>prior.
     case prior of
       Some receipt \<Rightarrow>
         bnd (lift_sum (assertBillingCommandReceipt receipt CRM_TRIAL_PROVISIONING_COMMAND_TYPE requestHash)) (\<lambda>priorResult.
         bnd (gets (find_entitlement (td_workspaceId dto))) (\<lambda>found.
         bnd (the_or (Fault ''WinCRM entitlement is missing for an accepted activation receipt'') found) (\<lambda>current.
         thn (lift_sum (assertAcceptedProvisioningProvenance priorResult current dto
           CRM_TRIAL_PROVISIONING_COMMAND_TYPE))
         (bnd (new_date e) (\<lambda>now. ret (activated_result current now False))))))
     | None \<Rightarrow>
         bnd (gets (find_entitlement (td_workspaceId dto))) (\<lambda>existing.
         bnd (new_date e) (\<lambda>now.
         bnd (case existing of
           Some ent \<Rightarrow> ret (activated_result ent now False)
         | None \<Rightarrow>
             bnd requireCrmCommercialPolicy (\<lambda>policy.
             bnd nextSequence (\<lambda>sequence.
             bnd (randomUUID e) (\<lambda>newId.
             bnd (new_date e) (\<lambda>updatedAt.
             bnd (create_entitlement (trial_entitlement dto policy now sequence newId updatedAt)) (\<lambda>ent.
             thn (emitChanged e ent)
             (ret (activated_result ent now True)))))))) (\<lambda>result.
         thn (create_receipt
           \<lparr>rc_commandId = td_commandId dto, rc_commandType = CRM_TRIAL_PROVISIONING_COMMAND_TYPE,
            rc_requestHash = requestHash, rc_requestHashVersion = 1, rc_result = result\<rparr>)
         (ret result)))))"

definition activateTrial :: "env \<Rightarrow> trial_dto \<Rightarrow> jsval op" where
  "activateTrial e dto =
     bnd (lift_sum (billingCommandRequestHash (sha256 e) CRM_TRIAL_PROVISIONING_COMMAND_TYPE
       (obj [(''schemaVersion'', JInt (td_schemaVersion dto)), (''commandId'', JStr (td_commandId dto)),
             (''workspaceId'', JStr (td_workspaceId dto)),
             (''activatedByUserId'', JStr (td_activatedByUserId dto))]))) (\<lambda>requestHash.
     transaction e (activateTrial_tx e dto requestHash))"

section \<open>The wake-up event\<close>

definition notify_activation :: "period_row option \<Rightarrow> date \<Rightarrow> unit op" where
  "notify_activation period now =
     (case period of
        Some p \<Rightarrow>
          if p_activationNotifiedAt p = None
          then thn (update_period (\<lambda>x. p_id x = p_id p) (\<lambda>x. x\<lparr>p_activationNotifiedAt := Some now\<rparr>)) (ret ())
          else ret ()
      | None \<Rightarrow> ret ())"

definition wake_version :: "account_row option \<Rightarrow> entitlement_row \<Rightarrow> int" where
  "wake_version account base =
     (let accountVersion = (case account of None \<Rightarrow> 0 | Some a \<Rightarrow> a_version a)
      in if accountVersion > e_aggregateVersion base then accountVersion else e_aggregateVersion base + 1)"

definition enqueueCrmEntitlementChanged :: "env \<Rightarrow> jsstring \<Rightarrow> unit op" where
  "enqueueCrmEntitlementChanged e workspaceId =
     bnd (gets (find_entitlement workspaceId)) (\<lambda>found.
     case found of
       None \<Rightarrow> ret ()
     | Some base \<Rightarrow>
         bnd (new_date e) (\<lambda>now.
         bnd (gets (started_period workspaceId now)) (\<lambda>period.
         bnd (gets (find_account workspaceId)) (\<lambda>account.
         bnd upsert_sequence (\<lambda>nextValue.
         let sequence = nextValue - 1; version = wake_version account base in
         bnd (new_date e) (\<lambda>updatedAt.
         thn (update_entitlement (\<lambda>x. e_workspaceId x = workspaceId)
           (\<lambda>x. x\<lparr>e_sourceSequence := sequence, e_aggregateVersion := version, e_updatedAt := updatedAt\<rparr>))
         (thn (notify_activation period now)
         (bnd (randomUUID e) (\<lambda>eventId.
         bnd (randomUUID e) (\<lambda>rowId.
         bnd (new_date e) (\<lambda>availableAt.
         thn (create_outbox (entitlement_event eventId (e_id base) version sequence now
           [(''workspaceId'', JStr workspaceId), (''productCode'', JStr (js ''WINCRM'')),
            (''planCode'', JStr (js (if period \<noteq> None then ''PAID'' else e_planCode base))),
            (''status'', ent_status_js (e_status base)),
            (''seatLimit'', (case period of Some p \<Rightarrow> JInt (p_totalSeats p) | None \<Rightarrow> opt_js JInt (e_seatLimit base))),
            (''effectiveFrom'', iso_js (case period of Some p \<Rightarrow> p_startsAt p | None \<Rightarrow> e_effectiveFrom base)),
            (''effectiveUntil'', iso_js (case period of Some p \<Rightarrow> p_expiresAt p | None \<Rightarrow> e_effectiveUntil base))]
           rowId availableAt))
         (ret ()))))))))))))"

section \<open>Frames\<close>

context db_relation
begin

lemma steps_nextSequence [steps_intro]: "frame R sourceSequence_update \<Longrightarrow> steps R nextSequence"
  unfolding nextSequence_def by (intro steps_intro)

lemma steps_emitChanged [steps_intro]: "frame R outbox_update \<Longrightarrow> steps R (emitChanged e ent)"
  unfolding emitChanged_def by (intro steps_intro)

lemma steps_getEntitlement [steps_intro]: "steps R (getEntitlement e ws)"
  unfolding getEntitlement_def by (intro steps_intro)

lemma steps_activateTrial [steps_intro]:
  assumes "frame R entitlements_update" "frame R outbox_update" "frame R receipts_update"
    "frame R sourceSequence_update"
  shows "steps R (activateTrial e dto)"
  unfolding activateTrial_def activateTrial_tx_def by (intro steps_intro assms)

lemma steps_wake [steps_intro]:
  assumes "frame R entitlements_update" "frame R outbox_update" "frame R sourceSequence_update"
    "\<And>p now. steps R (update_period (\<lambda>x. p_id x = p) (\<lambda>x. x\<lparr>p_activationNotifiedAt := Some now\<rparr>))"
  shows "steps R (enqueueCrmEntitlementChanged e ws)"
  unfolding enqueueCrmEntitlementChanged_def notify_activation_def by (intro steps_intro assms)

end

section \<open>Lemmas\<close>

lemma emitChanged_frame:
  "emitChanged e ent w = Inr (u, w') \<Longrightarrow> entitlements w' = entitlements w"
  using stepsD [OF same_entitlements.steps_emitChanged] by (fastforce simp: same_def)

lemma notify_activation_frame:
  assumes "notify_activation p now w = Inr (u, w')"
  shows "entitlements w' = entitlements w \<and> outbox w' = outbox w \<and> sourceSequence w' = sourceSequence w"
  using assms by (auto simp: notify_activation_def update_period_def tb_periods.update_row_Inr
      split: option.splits if_splits)

lemma activated_result_field [simp]: "jsfield (activated_result ent now b) ''activated'' = JBool b"
  unfolding activated_result_def response_def option.case append.simps by simp

lemma find_entitlement_update:
  assumes "find_entitlement ws w = Some base" "\<And>x. e_workspaceId (f x) = e_workspaceId x"
    "entitlements w' = upd_rows (\<lambda>x. e_workspaceId x = ws) f (entitlements w)"
  shows "find_entitlement ws w' = Some (f base)"
  using assms find_Some_D [OF assms(1) [unfolded find_entitlement_def]]
  by (simp add: find_entitlement_def find_upd_rows)

lemma started_period_in:
  "started_period ws now w = Some p \<Longrightarrow> p \<in> set (periods w) \<and> p_workspaceId p = ws \<and> p_startsAt p \<le> now"
  by (auto simp: started_period_def dest!: first_by_in)

definition status_rank :: "entitlement_status \<Rightarrow> nat" where
  "status_rank s = (case s of E_ACTIVE \<Rightarrow> 0 | E_GRACE \<Rightarrow> 1 | E_READ_ONLY \<Rightarrow> 2 | _ \<Rightarrow> 3)"

section \<open>Properties\<close>

text \<open>
  C40. A workspace gets at most one trial: activating a trial for a workspace that has an entitlement
  changes no entitlement and reports \<open>activated: false\<close>; for a workspace without one, a committed
  activation adds exactly one active trial entitlement with the length, the seats and the version of
  the latest policy.
\<close>

theorem trial_at_most_once:
  assumes "activateTrial e dto w = Inr (r, w')"
  shows "case find_entitlement (td_workspaceId dto) w of
      Some ent \<Rightarrow> entitlements w' = entitlements w \<and> jsfield r ''activated'' = JBool False
    | None \<Rightarrow> \<exists>ent policy. entitlements w' = entitlements w @ [ent] \<and> latest_policy w = Some policy
        \<and> e_workspaceId ent = td_workspaceId dto \<and> e_planCode ent = ''TRIAL'' \<and> e_status ent = E_ACTIVE
        \<and> e_effectiveUntil ent = e_effectiveFrom ent + pol_trialDays policy * DAY_MS
        \<and> e_seatLimit ent = Some (pol_trialSeatLimit policy) \<and> e_policyVersion ent = Some (pol_version policy)"
proof -
  obtain h i j where run: "activateTrial_tx e dto h (w\<lparr>tick := i, fresh := j\<rparr>) = Inr (r, w')"
    using assms by (auto simp: activateTrial_def)
  show ?thesis
  proof (cases "find_entitlement (td_workspaceId dto) w")
    case (Some ent)
    then show ?thesis
      using run
      by (auto simp: activateTrial_tx_def new_date_def create_receipt_def
          tb_receipts.create_row_Inr split: option.splits)
  next
    case None
    have "\<exists>policy now s n u. latest_policy w = Some policy
        \<and> entitlements w' = entitlements w @ [trial_entitlement dto policy now s n u]"
      using run None
      by ((auto simp: activateTrial_tx_def requireCrmCommercialPolicy_def nextSequence_def upsert_sequence_def
          new_date_def randomUUID_def create_receipt_def create_entitlement_def Let_def
          tb_receipts.create_row_Inr tb_entitlements.create_row_Inr split: option.splits dest!: emitChanged_frame); blast)
    then obtain policy now s n u where "latest_policy w = Some policy"
      "entitlements w' = entitlements w @ [trial_entitlement dto policy now s n u]"
      by blast
    then show ?thesis
      using None by (auto simp: trial_entitlement_def)
  qed
qed

text \<open>
  The effective status of an active entitlement with a grace period only moves forward in time,
  from active to grace to read-only; it is active exactly before the end and read-only exactly from
  the end of the grace period on.
\<close>

theorem effective_status_forward:
  assumes "e_status ent = E_ACTIVE" "e_graceUntil ent = Some g" "e_effectiveUntil ent \<le> g" "t \<le> t'"
  shows "status_rank (effective_status ent t) \<le> status_rank (effective_status ent t')
    \<and> (effective_status ent t = E_ACTIVE \<longleftrightarrow> t < e_effectiveUntil ent)
    \<and> (effective_status ent t = E_GRACE \<longleftrightarrow> e_effectiveUntil ent \<le> t \<and> t < g)
    \<and> (effective_status ent t = E_READ_ONLY \<longleftrightarrow> g \<le> t)"
  using assms by (auto simp: effective_status_def status_rank_def)

text \<open>
  Every wake-up of CRM Access publishes exactly one event, whose aggregate version is strictly
  greater than the version before and at least the version of the commerce account, and whose source
  sequence number is the next one of the counter; the entitlement keeps both numbers.
\<close>

theorem wake_versions_increase:
  assumes "enqueueCrmEntitlementChanged e ws w = Inr (u, w')" "find_entitlement ws w = Some base"
  shows "\<exists>ent ev. find_entitlement ws w' = Some ent \<and> outbox w' = outbox w @ [ev]
    \<and> e_aggregateVersion base < e_aggregateVersion ent
    \<and> (\<forall>a. find_account ws w = Some a \<longrightarrow> a_version a \<le> e_aggregateVersion ent)
    \<and> x_aggregateVersion ev = Some (e_aggregateVersion ent)
    \<and> x_sourceSequence ev = Some (e_sourceSequence ent)
    \<and> e_sourceSequence ent = (case sourceSequence w of None \<Rightarrow> 1 | Some n \<Rightarrow> n)
    \<and> sourceSequence w' = Some (e_sourceSequence ent + 1)"
proof -
  define v where "v = wake_version (find_account ws w) base"
  define s where "s = (case sourceSequence w of None \<Rightarrow> 1 | Some n \<Rightarrow> n)"
  have seq: "(case sourceSequence w of None \<Rightarrow> 2 | Some n \<Rightarrow> n + 1) = s + 1"
    by (simp add: s_def split: option.split)
  define t where "t = clock e (Suc (tick w))"
  have "\<exists>ev. entitlements w' = upd_rows (\<lambda>x. e_workspaceId x = ws)
        (\<lambda>x. x\<lparr>e_sourceSequence := s, e_aggregateVersion := v, e_updatedAt := t\<rparr>) (entitlements w)
      \<and> outbox w' = outbox w @ [ev] \<and> x_aggregateVersion ev = Some v \<and> x_sourceSequence ev = Some s
      \<and> sourceSequence w' = Some (s + 1)"
    using assms
    by (auto simp: enqueueCrmEntitlementChanged_def new_date_def upsert_sequence_def randomUUID_def Let_def
        update_entitlement_def create_outbox_def tb_entitlements.update_row_Inr
        tb_outbox.create_row_Inr entitlement_event_def v_def t_def seq dest!: notify_activation_frame)
  then obtain ev where f: "entitlements w' = upd_rows (\<lambda>x. e_workspaceId x = ws)
        (\<lambda>x. x\<lparr>e_sourceSequence := s, e_aggregateVersion := v, e_updatedAt := t\<rparr>) (entitlements w)"
      "outbox w' = outbox w @ [ev]" "x_aggregateVersion ev = Some v" "x_sourceSequence ev = Some s"
      "sourceSequence w' = Some (s + 1)"
    by blast
  have "find_entitlement ws w' = Some (base\<lparr>e_sourceSequence := s, e_aggregateVersion := v, e_updatedAt := t\<rparr>)"
    by (rule find_entitlement_update [OF assms(2) _ f(1)]) simp
  moreover have "e_aggregateVersion base < v" "\<And>a. find_account ws w = Some a \<Longrightarrow> a_version a \<le> v"
    by (auto simp: v_def wake_version_def Let_def split: if_splits)
  ultimately show ?thesis
    using f by (auto simp: s_def)
qed

section \<open>Witnesses\<close>

definition sample_trial_dto :: trial_dto where
  "sample_trial_dto = \<lparr>td_schemaVersion = 1, td_commandId = sample_uuid 1, td_workspaceId = sample_uuid 2,
     td_activatedByUserId = js ''user''\<rparr>"

lemma sample_trial_run: "\<exists>r w'. activateTrial sample_env sample_trial_dto sample_policy_db = Inr (r, w')"
proof -
  have "json_ok (obj [(''schemaVersion'', JInt (td_schemaVersion sample_trial_dto)),
      (''commandId'', JStr (td_commandId sample_trial_dto)),
      (''workspaceId'', JStr (td_workspaceId sample_trial_dto)),
      (''activatedByUserId'', JStr (td_activatedByUserId sample_trial_dto))])"
    by (simp add: json_ok_obj)
  from request_hash_total [OF this] obtain t where
    h: "billingCommandRequestHash (sha256 sample_env) CRM_TRIAL_PROVISIONING_COMMAND_TYPE
      (obj [(''schemaVersion'', JInt (td_schemaVersion sample_trial_dto)),
      (''commandId'', JStr (td_commandId sample_trial_dto)),
      (''workspaceId'', JStr (td_workspaceId sample_trial_dto)),
      (''activatedByUserId'', JStr (td_activatedByUserId sample_trial_dto))]) = Inr (sha256 sample_env t)"
    by blast
  have eq: "activateTrial sample_env sample_trial_dto sample_policy_db
      = activateTrial_tx sample_env sample_trial_dto (sha256 sample_env t) sample_policy_db"
    by (simp add: activateTrial_def h tx_simps del: sample_env_simps)
  show ?thesis
    unfolding eq
    by (simp add: tx_simps activateTrial_tx_def find_receipt_def find_entitlement_def
        requireCrmCommercialPolicy_def latest_policy_def sample_policy_db_def empty_db_def
        nextSequence_def upsert_sequence_def new_date_def randomUUID_def create_entitlement_def create_row_def
        emitChanged_def create_outbox_def create_receipt_def)
qed

theorem trial_at_most_once_witness:
  "\<exists>r w' ent. activateTrial sample_env sample_trial_dto sample_policy_db = Inr (r, w')
     \<and> entitlements w' = [ent] \<and> e_planCode ent = ''TRIAL''"
proof -
  obtain r w' where run: "activateTrial sample_env sample_trial_dto sample_policy_db = Inr (r, w')"
    using sample_trial_run by blast
  show ?thesis
    using trial_at_most_once [OF run] run
    by (auto simp: sample_policy_db_def empty_db_def find_entitlement_def)
qed

definition sample_entitlement :: entitlement_row where
  "sample_entitlement = trial_entitlement sample_trial_dto sample_policy 0 1 (sample_uuid 3) 0"

theorem effective_status_forward_witness:
  "status_rank (effective_status sample_entitlement 5) \<le> status_rank (effective_status sample_entitlement 500000000)
   \<and> effective_status sample_entitlement 500000000 = E_GRACE"
  using effective_status_forward [of sample_entitlement "8 * DAY_MS" 5 500000000]
    effective_status_forward [of sample_entitlement "8 * DAY_MS" 500000000 500000000]
  by (simp add: sample_entitlement_def trial_entitlement_def sample_policy_def DAY_MS_def status_rank_def)

theorem wake_versions_increase_witness:
  "\<exists>w' ent ev. enqueueCrmEntitlementChanged sample_env (sample_uuid 2)
       (sample_policy_db\<lparr>entitlements := [sample_entitlement]\<rparr>) = Inr ((), w')
     \<and> find_entitlement (sample_uuid 2) w' = Some ent \<and> 1 < e_aggregateVersion ent \<and> outbox w' = [ev]"
proof -
  let ?w = "sample_policy_db\<lparr>entitlements := [sample_entitlement]\<rparr>"
  have found: "find_entitlement (sample_uuid 2) ?w = Some sample_entitlement"
    by (simp add: find_entitlement_def sample_entitlement_def trial_entitlement_def sample_trial_dto_def)
  have "\<exists>w'. enqueueCrmEntitlementChanged sample_env (sample_uuid 2) ?w = Inr ((), w')"
    unfolding enqueueCrmEntitlementChanged_def
    by (simp add: tx_simps find_entitlement_def Let_def new_date_def started_period_def notify_activation_def
        find_account_def upsert_sequence_def update_entitlement_def update_row_def randomUUID_def
        create_outbox_def create_row_def sample_policy_db_def empty_db_def sample_entitlement_def
        trial_entitlement_def sample_trial_dto_def)
  then obtain w' where run: "enqueueCrmEntitlementChanged sample_env (sample_uuid 2) ?w = Inr ((), w')"
    by blast
  show ?thesis
    using wake_versions_increase [OF run found] run
    by (auto simp: sample_policy_db_def empty_db_def sample_entitlement_def trial_entitlement_def)
qed

end
