(* ===== verification/Commerce_Core.thy ===== *)
theory Commerce_Core
  imports Entitlement
begin

text \<open>
  The private helpers that the operations of \<open>apps/billing/src/domain/wincrm-commerce.service.ts\<close>
  share: validation of the request, the account of a workspace, the latest paid period, the stored
  command and its proof, consents, and the queue of provider operations with its outbox events.
  Requests are values of type \<open>jsval\<close>, since the code validates each field at run time.
\<close>

section \<open>Requests\<close>

abbreviation ws_of :: "jsval \<Rightarrow> jsstring" where
  "ws_of dto \<equiv> as_str (jsfield dto ''workspaceId'')"

abbreviation actor_of :: "jsval \<Rightarrow> jsstring" where
  "actor_of dto \<equiv> as_str (jsfield dto ''actorSubject'')"

abbreviation cmd_of :: "jsval \<Rightarrow> jsstring" where
  "cmd_of dto \<equiv> as_str (jsfield dto ''commandId'')"

definition expected_version :: "jsval \<Rightarrow> int" where
  "expected_version dto = int (undec (as_str (jsfield dto ''expectedBillingVersion'')))"

definition context_ok :: "jsval \<Rightarrow> bool" where
  "context_ok dto \<longleftrightarrow>
     jsfield dto ''schemaVersion'' = JInt 1
     \<and> commerceUuid (jsfield dto ''workspaceId'')
     \<and> commerceText (jsfield dto ''actorSubject'') 256
     \<and> \<not> list_ex is_space (actor_of dto)"

definition context_check :: "jsval \<Rightarrow> unit op" where
  "context_check dto = check Invalid (context_ok dto)"

definition command_ok :: "jsval \<Rightarrow> bool" where
  "command_ok dto \<longleftrightarrow>
     commerceUuid (jsfield dto ''commandId'') \<and> commerceVersion (jsfield dto ''expectedBillingVersion'')"

definition command_check :: "jsval \<Rightarrow> unit op" where
  "command_check dto = thn (context_check dto) (check Invalid (command_ok dto))"

definition fence_ok :: "jsval \<Rightarrow> jsstring \<Rightarrow> jsstring \<Rightarrow> jsval \<Rightarrow> bool" where
  "fence_ok value commandId hash seats \<longleftrightarrow>
     commerceRecord value
     \<and> length (object_keys value) = 4
     \<and> jsfield value ''operationId'' = JStr commandId
     \<and> jsfield value ''requestHash'' = JStr hash
     \<and> commerceInt (jsfield value ''fenceRevision'') 1 2147483646
     \<and> jsfield value ''targetSeats'' = seats
     \<and> commerceInt seats 2 10000"

definition fence :: "jsval \<Rightarrow> jsstring \<Rightarrow> jsstring \<Rightarrow> jsval \<Rightarrow> unit op" where
  "fence value commandId hash seats = check Invalid (fence_ok value commandId hash seats)"

definition owner :: "account_row option \<Rightarrow> jsval \<Rightarrow> unit op" where
  "owner account dto = check (Conflict ''wincrm_owner_binding_conflict'')
     (case account of None \<Rightarrow> True | Some a \<Rightarrow> a_ownerSubject a = actor_of dto)"

definition requireEnabled :: "env \<Rightarrow> unit op" where
  "requireEnabled e = check (Unavailable ''wincrm_payments_disabled'') (paymentsEnabled e)"

text \<open>Truth in a condition: of a string that may be absent, and of a JSON value.\<close>

definition truthy :: "jsstring option \<Rightarrow> bool" where
  "truthy s \<longleftrightarrow> s \<noteq> None \<and> s \<noteq> Some []"

definition json_truthy :: "jsval option \<Rightarrow> bool" where
  "json_truthy v = (case v of None \<Rightarrow> False | Some x \<Rightarrow> x \<notin> {JUndef, JNull, JBool False, JInt 0, JStr []})"

section \<open>Accounts, periods and commands\<close>

definition accountForCommand :: "jsval \<Rightarrow> account_row op" where
  "accountForCommand dto =
     bnd (gets (find_account (ws_of dto))) (\<lambda>current.
     thn (owner current dto)
     (thn (check (Conflict ''wincrm_billing_version_conflict'')
        ((case current of None \<Rightarrow> 0 | Some a \<Rightarrow> a_version a) = expected_version dto))
     (case current of
        Some a \<Rightarrow> ret a
      | None \<Rightarrow> create_account \<lparr>a_workspaceId = ws_of dto, a_ownerSubject = actor_of dto, a_version = 1,
          a_capacityCommandId = None, a_capacityFence = None\<rparr>)))"

definition latestPeriod :: "jsstring \<Rightarrow> db \<Rightarrow> period_row option" where
  "latestPeriod ws w = first_by starts_later (filter (\<lambda>p. p_workspaceId p = ws) (periods w))"

definition convert :: "period_row \<Rightarrow> int \<Rightarrow> date \<Rightarrow> err + seat_result" where
  "convert period newTotalSeats now =
     sbind (readWincrmPriceSnapshot (p_priceSnapshot period)) (\<lambda>snapshot.
     case calculateWincrmSeatDuration
       (seat_input now newTotalSeats (JStr (js ''PAID'')) (JStr (js ''ACTIVE'')) (cycle_js (p_cycle period))
          (p_startsAt period) (p_expiresAt period) (p_totalSeats period) (snapshot_json snapshot)) of
       Inl x \<Rightarrow> Inl (SeatDuration x)
     | Inr r \<Rightarrow> Inr r)"

definition matchCommand :: "command_row \<Rightarrow> jsstring \<Rightarrow> jsstring \<Rightarrow> jsstring \<Rightarrow> unit op" where
  "matchCommand row workspaceId actor hash = check (Conflict ''wincrm_command_conflict'')
     (c_workspaceId row = workspaceId \<and> c_actorSubject row = actor \<and> c_requestHash row = hash)"

record command_proof =
  cp_workspaceId :: jsstring
  cp_commandId :: jsstring
  cp_requestHash :: jsstring
  cp_status :: command_status
  cp_billingVersion :: jsstring
  cp_releaseFence :: bool
  cp_holdUntil :: "jsstring option"
  cp_order :: "order_view option"
  cp_period :: "period_view option"

definition proof_of :: "env \<Rightarrow> jsstring \<Rightarrow> jsstring \<Rightarrow> jsstring \<Rightarrow> jsstring \<Rightarrow> command_proof op" where
  "proof_of e workspaceId commandId hash actor =
     bnd (gets (find_command commandId)) (\<lambda>found.
     bnd (the_or (NotFound ''WinCRM command not found'') found) (\<lambda>row.
     thn (matchCommand row workspaceId actor hash)
     (bnd (gets (find_account workspaceId)) (\<lambda>account.
     bnd (gets (\<lambda>w. Option.bind (c_orderId row) (\<lambda>i. find_order i w))) (\<lambda>order.
     bnd (gets (\<lambda>w. Option.bind (c_periodId row) (\<lambda>i. find_period i w))) (\<lambda>period.
     bnd (new_date e) (\<lambda>now.
     let scheduled = (c_status row = C_COMMITTED
           \<and> (case period of None \<Rightarrow> False | Some p \<Rightarrow> p_startsAt p > now)) in
     bnd (case period of
            None \<Rightarrow> ret None
          | Some p \<Rightarrow> bnd (lift_sum (wincrmPeriodView p now)) (\<lambda>v. ret (Some v))) (\<lambda>view.
     ret \<lparr>cp_workspaceId = workspaceId, cp_commandId = commandId, cp_requestHash = hash,
          cp_status = c_status row,
          cp_billingVersion = dec_int (case account of None \<Rightarrow> 0 | Some a \<Rightarrow> a_version a),
          cp_releaseFence = (c_status row \<noteq> C_PENDING \<and> \<not> scheduled),
          cp_holdUntil = (if scheduled then map_option (\<lambda>p. toISOString (p_startsAt p)) period else None),
          cp_order = map_option (\<lambda>x. wincrmOrderView x period now) order,
          cp_period = view\<rparr>))))))))"

definition replay :: "env \<Rightarrow> jsval \<Rightarrow> string \<Rightarrow> jsstring \<Rightarrow> command_proof option op" where
  "replay e dto type hash =
     bnd (gets (find_command (cmd_of dto))) (\<lambda>found.
     case found of
       None \<Rightarrow>
         bnd (gets (find_receipt (cmd_of dto))) (\<lambda>receipt.
         thn (check (Conflict ''wincrm_command_conflict'') (receipt = None)) (ret None))
     | Some row \<Rightarrow>
         thn (matchCommand row (ws_of dto) (actor_of dto) hash)
         (thn (check (Conflict ''wincrm_command_conflict'')
            (c_commandType row = type \<and> c_status row \<noteq> C_CANCELLED))
         (bnd (proof_of e (ws_of dto) (cmd_of dto) hash (actor_of dto)) (\<lambda>p. ret (Some p)))))"

definition commitCommand ::
    "jsval \<Rightarrow> string \<Rightarrow> jsstring \<Rightarrow> int \<Rightarrow> jsstring option \<Rightarrow> jsval option \<Rightarrow> jsstring option \<Rightarrow> unit op" where
  "commitCommand dto type hash version periodId capacityFence orderId =
     thn (create_command
       \<lparr>c_commandId = cmd_of dto, c_workspaceId = ws_of dto, c_actorSubject = actor_of dto,
        c_commandType = type, c_requestHash = hash, c_expectedVersion = expected_version dto,
        c_capacityFence = capacityFence, c_status = C_COMMITTED, c_orderId = orderId,
        c_periodId = periodId, c_resultVersion = Some version\<rparr>)
     (thn (create_receipt
       \<lparr>rc_commandId = cmd_of dto, rc_commandType = type, rc_requestHash = hash,
        rc_requestHashVersion = 1,
        rc_result = obj [(''workspaceId'', JStr (ws_of dto)), (''status'', JStr (js ''COMMITTED'')),
          (''billingVersion'', JStr (dec_int version)), (''periodId'', opt_js JStr periodId)]\<rparr>)
     (ret ()))"

definition consent :: "env \<Rightarrow> renewal_row \<Rightarrow> jsstring \<Rightarrow> jsstring \<Rightarrow> string \<Rightarrow> jsval \<Rightarrow> unit op" where
  "consent e renewal actor commandId eventType evidence =
     bnd (randomUUID e) (\<lambda>rowId.
     thn (create_consent
       \<lparr>n_id = rowId, n_workspaceId = r_workspaceId renewal, n_actorSubject = actor,
        n_eventType = eventType, n_commandId = commandId, n_renewalVersion = r_version renewal,
        n_evidence = evidence\<rparr>)
     (ret ()))"

section \<open>The queue of provider operations\<close>

text \<open>\<open>URLSearchParams.set\<close> replaces the first pair of the name and drops the others.\<close>

definition set_param :: "jsstring \<Rightarrow> jsstring \<Rightarrow> (jsstring \<times> jsstring) list \<Rightarrow> (jsstring \<times> jsstring) list" where
  "set_param k v ps =
     (if k \<in> fst ` set ps
      then takeWhile (\<lambda>p. fst p \<noteq> k) ps @ [(k, v)] @ filter (\<lambda>p. fst p \<noteq> k) (dropWhile (\<lambda>p. fst p \<noteq> k) ps)
      else ps @ [(k, v)])"

definition returnUrl :: "env \<Rightarrow> order_row \<Rightarrow> err + jsstring" where
  "returnUrl e order =
     (let raw = (case frontendOrigin e of None \<Rightarrow> js ''https://crm.winwidget.ru'' | Some s \<Rightarrow> s) in
      case parse_url e raw of
        None \<Rightarrow> Inl (Fault ''WINCRM_FRONTEND_ORIGIN_INVALID'')
      | Some url \<Rightarrow>
          if \<not> commerceText (JStr raw) 2048
             \<or> list_ex (\<lambda>c. is_space c \<or> c = 92) raw
             \<or> raw \<noteq> u_origin url
             \<or> u_username url \<noteq> [] \<or> u_password url \<noteq> [] \<or> u_hash url \<noteq> [] \<or> u_search url \<noteq> []
             \<or> u_pathname url \<noteq> ''/''
             \<or> \<not> (u_protocol url = ''https:''
                  \<or> u_protocol url = ''http:'' \<and> u_hostname url \<in> {''localhost'', ''127.0.0.1'', ''[::1]''})
          then Inl (Fault ''WINCRM_FRONTEND_ORIGIN_INVALID'')
          else Inr (print_url e (url\<lparr>u_pathname := ''/billing/return'',
            u_searchParams := set_param (js ''orderId'') (o_id order)
              (set_param (js ''workspaceId'') (o_workspaceId order) (u_searchParams url))\<rparr>)))"

definition providerOutbox ::
    "env \<Rightarrow> jsstring \<Rightarrow> jsstring \<Rightarrow> jsstring \<Rightarrow> date \<Rightarrow> bool \<Rightarrow> unit op" where
  "providerOutbox e operationId eventId outboxId availableAt deadLetter =
     thn (create_outbox
       \<lparr>x_id = outboxId, x_eventId = eventId,
        x_deduplicationKey = Some (js ''wincrm-provider:'' @ operationId @ [58] @ eventId),
        x_eventType = WINCRM_PROVIDER_EVENT_TYPE,
        x_aggregateType = ''billing.wincrm-provider-operation'', x_aggregateId = operationId,
        x_aggregateVersion = None, x_sourceSequence = None,
        x_exchange = (if deadLetter then ''winwidget.billing.wincrm-provider.dead-letter''
          else ''winwidget.events''),
        x_routingKey = WINCRM_PROVIDER_EVENT_TYPE, x_availableAt = availableAt,
        x_payload = obj [(''schemaVersion'', JInt 1),
          (''eventType'', JStr (js WINCRM_PROVIDER_EVENT_TYPE)),
          (''eventId'', JStr eventId), (''operationId'', JStr operationId)]\<rparr>)
     (ret ())"

definition op_kind_js :: "operation_kind \<Rightarrow> jsval" where
  "op_kind_js k = JStr (js (if k = CREATE then ''CREATE'' else if k = VERIFY then ''VERIFY'' else ''SYNC_RECEIPT''))"

definition request_snapshot ::
    "order_row \<Rightarrow> operation_kind \<Rightarrow> jsstring option \<Rightarrow> jsstring option \<Rightarrow> jsval" where
  "request_snapshot order kind url ciphertext = obj
     [(''orderId'', JStr (o_id order)),
      (''workspaceId'', JStr (o_workspaceId order)),
      (''kind'', op_kind_js kind),
      (''amountMinor'', JStr (dec_int (o_amountMinor order))),
      (''currency'', JStr (js ''RUB'')),
      (''providerKey'', JStr (o_providerIdempotencyKey order)),
      (''returnUrl'', opt_js JStr url),
      (''paymentMethodCiphertext'', opt_js JStr ciphertext)]"

definition new_operation ::
    "order_row \<Rightarrow> operation_kind \<Rightarrow> jsstring \<Rightarrow> jsstring option \<Rightarrow> jsstring \<Rightarrow> jsstring \<Rightarrow> jsstring \<Rightarrow> date \<Rightarrow>
     jsval \<Rightarrow> operation_row" where
  "new_operation order kind key providerPaymentId newId eventId outboxId availableAt snapshot =
     \<lparr>op_id = newId, op_workspaceId = o_workspaceId order, op_orderId = o_id order, op_kind = kind,
      op_status = P_PENDING, op_version = 1, op_idempotencyKey = key,
      op_providerPaymentId = providerPaymentId, op_firstDispatchAt = None, op_dispatchAttempt = 0,
      op_retryAttempt = 0, op_availableAt = availableAt, op_leaseToken = None, op_leaseUntil = None,
      op_pendingEventId = eventId, op_outboxId = outboxId, op_requestSnapshot = snapshot,
      op_lastErrorCode = None\<rparr>"

text \<open>The default value of \<open>availableAt\<close> is the time of the call.\<close>

definition enqueue ::
    "env \<Rightarrow> order_row \<Rightarrow> operation_kind \<Rightarrow> jsstring \<Rightarrow> jsstring option \<Rightarrow> date option \<Rightarrow> operation_row op" where
  "enqueue e order kind key providerPaymentId at =
     bnd (case at of Some t \<Rightarrow> ret t | None \<Rightarrow> new_date e) (\<lambda>availableAt.
     bnd (gets (\<lambda>w. find (\<lambda>x. op_idempotencyKey x = key) (operations w))) (\<lambda>existing.
     case existing of
       Some operation \<Rightarrow> ret operation
     | None \<Rightarrow>
         bnd (if kind = CREATE \<and> o_kind order = RECURRING
              then bnd (gets (find_renewal (o_workspaceId order))) (\<lambda>found.
                bnd (the_or P2025 found) (\<lambda>r. ret (Some (r_paymentMethodCiphertext r))))
              else ret None) (\<lambda>ciphertext.
         bnd (randomUUID e) (\<lambda>newId.
         bnd (randomUUID e) (\<lambda>eventId.
         bnd (randomUUID e) (\<lambda>outboxId.
         bnd (if kind = CREATE \<and> o_kind order = ONE_TIME
              then bnd (lift_sum (returnUrl e order)) (\<lambda>u. ret (Some u))
              else ret None) (\<lambda>url.
         bnd (create_operation (new_operation order kind key providerPaymentId newId eventId outboxId
           availableAt (request_snapshot order kind url ciphertext))) (\<lambda>operation.
         thn (providerOutbox e newId eventId outboxId availableAt False)
         (ret operation)))))))))"

section \<open>The latest period\<close>

lemma latestPeriod_last:
  assumes "latestPeriod ws w = Some p"
  shows "p \<in> set (periods w)" "p_workspaceId p = ws"
    "q \<in> set (periods w) \<Longrightarrow> p_workspaceId q = ws \<Longrightarrow> p_startsAt q \<le> p_startsAt p"
proof -
  let ?rows = "filter (\<lambda>p. p_workspaceId p = ws) (periods w)"
  have f: "first_by starts_later ?rows = Some p"
    using assms by (simp add: latestPeriod_def)
  then show "p \<in> set (periods w)" "p_workspaceId p = ws"
    by (auto dest!: first_by_in)
  assume "q \<in> set (periods w)" "p_workspaceId q = ws"
  then have "\<not> starts_later q p"
    by (intro first_by_first [OF _ _ f]) (auto simp: starts_later_def)
  then show "p_startsAt q \<le> p_startsAt p"
    by (auto simp: starts_later_def)
qed

lemma latestPeriod_None: "latestPeriod ws w = None \<Longrightarrow> p \<in> set (periods w) \<Longrightarrow> p_workspaceId p \<noteq> ws"
  by (auto simp: latestPeriod_def filter_empty_conv)

lemma latestPeriod_timeless [simp]:
  "latestPeriod ws (w\<lparr>tick := i\<rparr>) = latestPeriod ws w" "latestPeriod ws (w\<lparr>fresh := j\<rparr>) = latestPeriod ws w"
  by (simp_all add: latestPeriod_def)

section \<open>Frames\<close>

context db_relation
begin

lemma steps_checks [steps_intro]:
  "steps R (context_check dto)" "steps R (command_check dto)" "steps R (fence v c h s)"
  "steps R (owner a dto)" "steps R (requireEnabled e)" "steps R (matchCommand row ws ac h)"
  unfolding context_check_def command_check_def fence_def owner_def requireEnabled_def matchCommand_def
  by (intro steps_intro)+

lemma steps_accountForCommand [steps_intro]: "frame R accounts_update \<Longrightarrow> steps R (accountForCommand dto)"
  unfolding accountForCommand_def by (intro steps_intro)

lemma steps_proof_of [steps_intro]: "steps R (proof_of e ws c h ac)"
  unfolding proof_of_def by (intro steps_intro)

lemma steps_replay [steps_intro]: "steps R (replay e dto type hash)"
  unfolding replay_def by (intro steps_intro)

lemma steps_commitCommand [steps_intro]:
  "frame R commands_update \<Longrightarrow> frame R receipts_update \<Longrightarrow> steps R (commitCommand dto type hash v p f oid)"
  unfolding commitCommand_def by (intro steps_intro)

lemma steps_consent [steps_intro]: "frame R consents_update \<Longrightarrow> steps R (consent e r ac c t v)"
  unfolding consent_def by (intro steps_intro)

lemma steps_providerOutbox [steps_intro]: "frame R outbox_update \<Longrightarrow> steps R (providerOutbox e i v x t d)"
  unfolding providerOutbox_def by (intro steps_intro)

lemma steps_enqueue [steps_intro]:
  "frame R operations_update \<Longrightarrow> frame R outbox_update \<Longrightarrow> steps R (enqueue e order kind key pid at)"
  unfolding enqueue_def by (intro steps_intro)

end

end
