(* ===== verification/Provider_Ops.thy ===== *)
theory Provider_Ops
  imports Commerce_Core
begin

text \<open>
  The provider side of \<open>apps/billing/src/domain/wincrm-commerce.service.ts\<close>: a worker claims a queued
  operation for one minute, prepares the request, marks the dispatch, and settles the provider's
  answer or records a failure. \<open>fulfill\<close> turns a captured payment into a paid period and
  \<open>cancelOrder\<close> ends an order; \<open>enqueueProviderVerification\<close> serves the provider's webhook and
  \<open>retryProviderOperation\<close> the developers' retry.
\<close>

section \<open>Claims\<close>

definition LEASE_MS :: int where
  "LEASE_MS = 60000"

definition PROVIDER_WINDOW_MS :: int where
  "PROVIDER_WINDOW_MS = 23 * 60 * 60 * 1000"

record claim =
  cl_operationId :: jsstring
  cl_eventId :: jsstring
  cl_leaseToken :: jsstring
  cl_version :: int

datatype claim_result = DONE | BUSY | CLAIMED claim

definition provider_event_ok :: "jsval \<Rightarrow> bool" where
  "provider_event_ok event \<longleftrightarrow>
     commerceRecord event
     \<and> length (object_keys event) = 4
     \<and> jsfield event ''schemaVersion'' = JInt 1
     \<and> jsfield event ''eventType'' = JStr (js WINCRM_PROVIDER_EVENT_TYPE)
     \<and> commerceUuid (jsfield event ''eventId'')
     \<and> commerceUuid (jsfield event ''operationId'')"

definition new_delivery ::
    "jsstring \<Rightarrow> jsstring \<Rightarrow> jsstring \<Rightarrow> jsstring \<Rightarrow> delivery_status \<Rightarrow> jsstring option \<Rightarrow> date option \<Rightarrow> delivery_row" where
  "new_delivery rowId eventId operationId hash status token until =
     \<lparr>d_id = rowId, d_eventId = eventId, d_consumer = WINCRM_PROVIDER_CONSUMER,
      d_operationId = Some operationId, d_payloadHash = hash, d_status = status, d_version = 1,
      d_leaseToken = token, d_leaseUntil = until, d_lastErrorCode = None\<rparr>"

definition is_delivery :: "jsstring \<Rightarrow> delivery_row \<Rightarrow> bool" where
  "is_delivery eventId d \<longleftrightarrow> d_eventId d = eventId \<and> d_consumer d = WINCRM_PROVIDER_CONSUMER"

definition finished :: "operation_row \<Rightarrow> bool" where
  "finished x \<longleftrightarrow> op_status x = P_SUCCEEDED \<or> op_status x = P_FAILED \<or> op_status x = P_UNKNOWN"

definition lease_operation :: "jsstring \<Rightarrow> date \<Rightarrow> operation_row \<Rightarrow> operation_row" where
  "lease_operation token until x =
     x\<lparr>op_status := P_PROCESSING, op_leaseToken := Some token, op_leaseUntil := Some until,
       op_version := op_version x + 1\<rparr>"

definition claim_tx :: "env \<Rightarrow> jsstring \<Rightarrow> jsstring \<Rightarrow> jsstring \<Rightarrow> claim_result op" where
  "claim_tx e operationId eventId hash =
     bnd (gets (find_operation operationId)) (\<lambda>found.
     bnd (the_or P2025 found) (\<lambda>current.
     bnd (gets (find_delivery eventId WINCRM_PROVIDER_CONSUMER)) (\<lambda>receipt.
     thn (check (Fault ''WINCRM_PROVIDER_EVENT_BINDING_CONFLICT'')
        (case receipt of None \<Rightarrow> True
         | Some d \<Rightarrow> d_payloadHash d = hash \<and> d_operationId d = Some (op_id current)))
     (if (case receipt of None \<Rightarrow> False | Some d \<Rightarrow> d_status d \<noteq> D_PROCESSING) then ret DONE
      else
        bnd (new_date e) (\<lambda>now.
        if op_pendingEventId current \<noteq> eventId \<or> finished current
        then
          bnd (randomUUID e) (\<lambda>rowId.
          thn (upsert_delivery (is_delivery eventId)
            (new_delivery rowId eventId (op_id current) hash D_DELIVERED None None)
            (\<lambda>d. d\<lparr>d_status := D_DELIVERED, d_leaseToken := None, d_leaseUntil := None,
               d_version := d_version d + 1\<rparr>))
          (ret DONE))
        else if op_availableAt current > now
          \<or> (op_status current = P_PROCESSING
             \<and> (case op_leaseUntil current of None \<Rightarrow> False | Some u \<Rightarrow> u > now))
        then ret BUSY
        else
          bnd (randomUUID e) (\<lambda>token.
          let until = now + LEASE_MS in
          bnd (update_operation (\<lambda>x. op_id x = op_id current \<and> op_version x = op_version current)
            (lease_operation token until)) (\<lambda>claimed.
          bnd (randomUUID e) (\<lambda>rowId.
          thn (upsert_delivery (is_delivery eventId)
            (new_delivery rowId eventId (op_id current) hash D_PROCESSING (Some token) (Some until))
            (\<lambda>d. d\<lparr>d_status := D_PROCESSING, d_leaseToken := Some token, d_leaseUntil := Some until,
               d_version := d_version d + 1\<rparr>))
          (ret (CLAIMED \<lparr>cl_operationId = op_id claimed, cl_eventId = eventId, cl_leaseToken = token,
             cl_version = op_version claimed\<rparr>))))))))))"

definition claimProviderOperation :: "env \<Rightarrow> jsval \<Rightarrow> claim_result op" where
  "claimProviderOperation e event =
     thn (check (Fault ''INVALID_WINCRM_PROVIDER_EVENT'') (provider_event_ok event))
     (bnd (gets (find_operation (as_str (jsfield event ''operationId'')))) (\<lambda>found.
     bnd (the_or (Fault ''WINCRM_PROVIDER_OPERATION_NOT_FOUND'') found) (\<lambda>operation.
     bnd (lift_sum (billingCommandRequestHash (sha256 e) ''WINCRM_PROVIDER_EVENT'' event)) (\<lambda>hash.
     transaction e (claim_tx e (op_id operation) (as_str (jsfield event ''eventId'')) hash)))))"

definition ownsLease :: "env \<Rightarrow> operation_row \<Rightarrow> claim \<Rightarrow> bool op" where
  "ownsLease e operation claim =
     (if op_status operation = P_PROCESSING
         \<and> op_version operation = cl_version claim
         \<and> op_leaseToken operation = Some (cl_leaseToken claim)
         \<and> op_pendingEventId operation = cl_eventId claim
      then (case op_leaseUntil operation of
              None \<Rightarrow> ret False
            | Some until \<Rightarrow> bnd (new_date e) (\<lambda>now. ret (until > now)))
      else ret False)"

text \<open>\<open>findUniqueOrThrow\<close> with \<open>include: { order: true }\<close>.\<close>

definition load_operation :: "jsstring \<Rightarrow> (operation_row \<times> order_row) op" where
  "load_operation operationId =
     bnd (gets (find_operation operationId)) (\<lambda>found.
     bnd (the_or P2025 found) (\<lambda>operation.
     bnd (gets (find_order (op_orderId operation))) (\<lambda>foundOrder.
     bnd (the_or P2025 foundOrder) (\<lambda>ord.
     ret (operation, ord)))))"

definition owned_operation :: "env \<Rightarrow> claim \<Rightarrow> (operation_row \<times> order_row) op" where
  "owned_operation e claim =
     bnd (load_operation (cl_operationId claim)) (\<lambda>(operation, ord).
     bnd (ownsLease e operation claim) (\<lambda>owns.
     thn (check (Fault ''WINCRM_PROVIDER_LEASE_LOST'') owns)
     (ret (operation, ord))))"

section \<open>Preparation\<close>

record create_request =
  rq_paymentId :: jsstring
  rq_billingPeriod :: cycle
  rq_kind :: order_kind
  rq_amount :: jsstring
  rq_autoRenew :: bool
  rq_customerEmail :: "jsstring option"
  rq_customerPhone :: "jsstring option"
  rq_returnUrl :: jsval
  rq_paymentMethodCiphertext :: jsval

record prepared_op =
  pr_action :: operation_kind
  pr_orderId :: jsstring
  pr_workspaceId :: jsstring
  pr_ownerSubject :: jsstring
  pr_commandId :: jsstring
  pr_capacityFence :: jsval
  pr_providerPaymentId :: "jsstring option"
  pr_idempotencyKey :: jsstring
  pr_request :: "create_request option"
  pr_firstDispatchAt :: "jsstring option"

datatype prepared = SKIP | PREPARED prepared_op

definition snapshot_bound :: "operation_row \<Rightarrow> order_row \<Rightarrow> bool" where
  "snapshot_bound operation ord \<longleftrightarrow>
     (let snapshot = op_requestSnapshot operation in
      commerceRecord snapshot
      \<and> jsfield snapshot ''orderId'' = JStr (o_id ord)
      \<and> jsfield snapshot ''workspaceId'' = JStr (o_workspaceId ord)
      \<and> jsfield snapshot ''amountMinor'' = JStr (dec_int (o_amountMinor ord))
      \<and> jsfield snapshot ''currency'' = JStr (js ''RUB'')
      \<and> jsfield snapshot ''providerKey'' = JStr (o_providerIdempotencyKey ord)
      \<and> jsfield snapshot ''kind'' = op_kind_js (op_kind operation))"

definition payment_id_of :: "operation_row \<Rightarrow> order_row \<Rightarrow> jsstring option" where
  "payment_id_of operation ord =
     (case o_providerPaymentId ord of Some p \<Rightarrow> Some p | None \<Rightarrow> op_providerPaymentId operation)"

definition prepared_action :: "operation_row \<Rightarrow> order_row \<Rightarrow> operation_kind option" where
  "prepared_action operation ord =
     (if op_kind operation = SYNC_RECEIPT then Some SYNC_RECEIPT
      else if truthy (payment_id_of operation ord) then Some VERIFY
      else if op_kind operation = CREATE then Some CREATE else None)"

definition create_request_of :: "operation_row \<Rightarrow> order_row \<Rightarrow> err + create_request" where
  "create_request_of operation ord =
     (let snapshot = op_requestSnapshot operation;
          url = jsfield snapshot ''returnUrl'';
          ciphertext = jsfield snapshot ''paymentMethodCiphertext'' in
      sbind (require (Fault ''WINCRM_PROVIDER_REQUEST_BINDING_INVALID'')
        (if o_kind ord = ONE_TIME then commerceText url 2048 \<and> ciphertext = JNull
         else url = JNull \<and> commerceText ciphertext 10000)) (\<lambda>_.
      sbind (wincrmDecimal (o_amountMinor ord)) (\<lambda>amount.
      Inr \<lparr>rq_paymentId = o_id ord, rq_billingPeriod = o_cycle ord, rq_kind = o_kind ord,
           rq_amount = amount, rq_autoRenew = o_autoRenew ord, rq_customerEmail = o_customerEmail ord,
           rq_customerPhone = o_customerPhone ord, rq_returnUrl = url,
           rq_paymentMethodCiphertext = ciphertext\<rparr>)))"

definition prepared_of :: "operation_row \<Rightarrow> order_row \<Rightarrow> err + prepared_op" where
  "prepared_of operation ord =
     sbind (require (Fault ''WINCRM_PROVIDER_REQUEST_BINDING_INVALID'') (snapshot_bound operation ord)) (\<lambda>_.
     case prepared_action operation ord of
       None \<Rightarrow> Inl (Fault ''WINCRM_PROVIDER_ID_REQUIRED'')
     | Some action \<Rightarrow>
         sbind (if action = CREATE
           then sbind (create_request_of operation ord) (\<lambda>r. Inr (Some r)) else Inr None) (\<lambda>request.
         Inr \<lparr>pr_action = action, pr_orderId = o_id ord, pr_workspaceId = o_workspaceId ord,
              pr_ownerSubject = o_ownerSubject ord, pr_commandId = o_capacityCommandId ord,
              pr_capacityFence = o_capacityFence ord,
              pr_providerPaymentId = payment_id_of operation ord,
              pr_idempotencyKey = o_providerIdempotencyKey ord, pr_request = request,
              pr_firstDispatchAt = map_option toISOString (op_firstDispatchAt operation)\<rparr>))"

definition prepareProviderOperation :: "env \<Rightarrow> claim \<Rightarrow> prepared op" where
  "prepareProviderOperation e claim =
     bnd (gets (find_operation (cl_operationId claim))) (\<lambda>found.
     bnd (the_or (Fault ''WINCRM_PROVIDER_LEASE_LOST'') found) (\<lambda>operation.
     bnd (gets (find_order (op_orderId operation))) (\<lambda>foundOrder.
     bnd (the_or P2025 foundOrder) (\<lambda>ord.
     bnd (ownsLease e operation claim) (\<lambda>owns.
     thn (check (Fault ''WINCRM_PROVIDER_LEASE_LOST'') owns)
     (bnd (lift_sum (prepared_of operation ord)) (\<lambda>p. ret (PREPARED p))))))))"

section \<open>Finishing an operation, cancelling an order\<close>

definition finish_operation :: "operation_status \<Rightarrow> jsstring option \<Rightarrow> operation_row \<Rightarrow> operation_row" where
  "finish_operation status error x =
     x\<lparr>op_status := status, op_leaseToken := None, op_leaseUntil := None,
       op_version := op_version x + 1, op_lastErrorCode := error\<rparr>"

definition release_delivery :: "delivery_status \<Rightarrow> jsstring option \<Rightarrow> delivery_row \<Rightarrow> delivery_row" where
  "release_delivery status error d =
     d\<lparr>d_status := status, d_leaseToken := None, d_leaseUntil := None, d_version := d_version d + 1,
       d_lastErrorCode := error\<rparr>"

definition finish :: "env \<Rightarrow> jsstring \<Rightarrow> claim \<Rightarrow> operation_status \<Rightarrow> jsstring option \<Rightarrow> unit op" where
  "finish e operationId claim status error =
     bnd (updateMany_operation
       (\<lambda>x. op_id x = operationId \<and> op_status x = P_PROCESSING \<and> op_version x = cl_version claim
          \<and> op_leaseToken x = Some (cl_leaseToken claim))
       (finish_operation status error)) (\<lambda>changed.
     thn (check (Fault ''WINCRM_PROVIDER_LEASE_LOST'') (changed = 1))
     (thn (update_delivery (is_delivery (cl_eventId claim))
        (release_delivery (if status = P_SUCCEEDED then D_DELIVERED else D_DEAD_LETTERED) error))
     (if status \<noteq> P_SUCCEEDED
      then bnd (randomUUID e) (\<lambda>eventId. bnd (randomUUID e) (\<lambda>outboxId. bnd (new_date e) (\<lambda>now.
        providerOutbox e operationId eventId outboxId now True)))
      else ret ())))"

definition cancelled_order :: "jsstring \<Rightarrow> order_row \<Rightarrow> order_row" where
  "cancelled_order reason x =
     x\<lparr>o_status := O_CANCELLED, o_confirmationUrl := None, o_cancellationReason := Some reason,
       o_version := o_version x + 1\<rparr>"

definition retryable_reason :: "renewal_row \<Rightarrow> jsstring \<Rightarrow> bool" where
  "retryable_reason renewal reason \<longleftrightarrow>
     reason \<in> {js ''insufficient_funds'', js ''issuer_unavailable''}
     \<and> r_status renewal = R_ACTIVE \<and> r_retryAttempt renewal < 2"

definition charge_failed :: "renewal_row \<Rightarrow> date \<Rightarrow> jsstring \<Rightarrow> renewal_row \<Rightarrow> renewal_row" where
  "charge_failed renewal retryStartedAt reason r =
     (let retryable = retryable_reason renewal reason in
      r\<lparr>r_dispatchPending := False,
        r_status := (if r_status renewal \<noteq> R_ACTIVE then r_status renewal
          else if retryable then R_ACTIVE else R_TECHNICAL_PAUSE),
        r_retryStartedAt := (if retryable then Some retryStartedAt else r_retryStartedAt renewal),
        r_retryAttempt := (if retryable then r_retryAttempt renewal + 1 else r_retryAttempt renewal),
        r_nextRetryAt := (if retryable
          then Some (retryStartedAt + (if r_retryAttempt renewal = 0 then 24 else 72) * 3600000) else None),
        r_lastErrorCode := Some reason,
        r_version := r_version r + 1\<rparr>)"

text \<open>The part of \<open>cancelOrder\<close> that schedules the next attempt of a recurring charge.\<close>

definition cancel_recurring :: "env \<Rightarrow> order_row \<Rightarrow> jsstring \<Rightarrow> unit op" where
  "cancel_recurring e ord reason =
     bnd (gets (find_renewal (o_workspaceId ord))) (\<lambda>found.
     case found of
       None \<Rightarrow> ret ()
     | Some renewal \<Rightarrow>
         bnd (case r_retryStartedAt renewal of Some t \<Rightarrow> ret t | None \<Rightarrow> new_date e) (\<lambda>retryStartedAt.
         thn (update_renewal (o_workspaceId ord) (charge_failed renewal retryStartedAt reason))
         (ret ())))"

definition cancelOrder :: "env \<Rightarrow> order_row \<Rightarrow> jsstring \<Rightarrow> unit op" where
  "cancelOrder e ord reason =
     (if o_status ord = O_SUCCEEDED then ret ()
      else
        thn (update_order (o_id ord) (cancelled_order reason))
        (thn (updateMany_command (\<lambda>c. c_commandId c = o_commandId ord \<and> c_status c = C_PENDING)
           (\<lambda>c. c\<lparr>c_status := C_CANCELLED\<rparr>))
        (if o_kind ord \<noteq> RECURRING then ret () else cancel_recurring e ord reason)))"

section \<open>Dispatch\<close>

definition capacity_matches :: "account_row option \<Rightarrow> command_row option \<Rightarrow> order_row \<Rightarrow> bool" where
  "capacity_matches account command ord =
     (case command of
        None \<Rightarrow> False
      | Some c \<Rightarrow>
          c_status c \<noteq> C_CANCELLED
          \<and> c_workspaceId c = o_workspaceId ord
          \<and> c_actorSubject c = o_ownerSubject ord
          \<and> opt_js (\<lambda>v. v) (c_capacityFence c) = o_capacityFence ord
          \<and> (c_status c = C_PENDING
             \<or> (case account of None \<Rightarrow> False
                | Some a \<Rightarrow> a_capacityCommandId a = Some (o_capacityCommandId ord))))"

definition renewal_matches :: "renewal_row option \<Rightarrow> order_row \<Rightarrow> bool" where
  "renewal_matches renewal ord \<longleftrightarrow>
     o_kind ord \<noteq> RECURRING
     \<or> (case renewal of
          None \<Rightarrow> False
        | Some r \<Rightarrow>
            r_status r = R_ACTIVE
            \<and> r_dispatchPending r
            \<and> o_expectedRenewalVersion ord = Some (r_version r)
            \<and> r_ownerSubject r = o_ownerSubject ord
            \<and> r_totalSeats r = o_totalSeats ord
            \<and> r_amountMinor r = o_amountMinor ord)"

definition unknown_order :: "order_row \<Rightarrow> order_row" where
  "unknown_order x = x\<lparr>o_status := O_UNKNOWN, o_version := o_version x + 1\<rparr>"

definition dispatch_refused :: "env \<Rightarrow> operation_row \<Rightarrow> order_row \<Rightarrow> claim \<Rightarrow> prepared op" where
  "dispatch_refused e operation ord claim =
     (if op_firstDispatchAt operation \<noteq> None
      then
        thn (updateMany_order (\<lambda>x. o_id x = o_id ord \<and> o_status x = O_PENDING) unknown_order)
        (thn (finish e (op_id operation) claim P_UNKNOWN (Some (js ''AUTHORIZATION_REVOKED'')))
        (ret SKIP))
      else
        thn (cancelOrder e ord (js ''DISPATCH_FENCED''))
        (thn (finish e (op_id operation) claim P_FAILED (Some (js ''AUTHORIZATION_REVOKED'')))
        (ret SKIP)))"

definition dispatch_operation :: "date \<Rightarrow> operation_row \<Rightarrow> operation_row" where
  "dispatch_operation first x =
     x\<lparr>op_firstDispatchAt := Some first, op_dispatchAttempt := op_dispatchAttempt x + 1\<rparr>"

definition dispatch_create :: "env \<Rightarrow> operation_row \<Rightarrow> order_row \<Rightarrow> claim \<Rightarrow> prepared op" where
  "dispatch_create e operation ord claim =
     bnd (new_date e) (\<lambda>now.
     bnd (gets (find_account (o_workspaceId ord))) (\<lambda>account.
     bnd (gets (find_command (o_capacityCommandId ord))) (\<lambda>command.
     bnd (gets (find_renewal (o_workspaceId ord))) (\<lambda>renewal.
     if \<not> paymentsEnabled e \<or> \<not> capacity_matches account command ord \<or> \<not> renewal_matches renewal ord
        \<or> o_status ord \<noteq> O_PENDING \<or> o_checkoutExpiresAt ord \<le> now
     then dispatch_refused e operation ord claim
     else if (case op_firstDispatchAt operation of None \<Rightarrow> False | Some f \<Rightarrow> now - f \<ge> PROVIDER_WINDOW_MS)
     then
       thn (update_order (o_id ord) unknown_order)
       (thn (finish e (op_id operation) claim P_UNKNOWN (Some (js ''IDEMPOTENCY_WINDOW_EXPIRED'')))
       (ret SKIP))
     else
       bnd (update_operation (\<lambda>x. op_id x = op_id operation \<and> op_version x = cl_version claim
           \<and> op_leaseToken x = Some (cl_leaseToken claim))
         (dispatch_operation (case op_firstDispatchAt operation of None \<Rightarrow> now | Some f \<Rightarrow> f))) (\<lambda>changed.
       bnd (gets (find_order (op_orderId changed))) (\<lambda>foundOrder.
       bnd (the_or P2025 foundOrder) (\<lambda>current.
       bnd (lift_sum (prepared_of changed current)) (\<lambda>p. ret (PREPARED p)))))))))"

definition dispatch_tx :: "env \<Rightarrow> claim \<Rightarrow> prepared op" where
  "dispatch_tx e claim =
     bnd (owned_operation e claim) (\<lambda>(operation, ord).
     bnd (lift_sum (prepared_of operation ord)) (\<lambda>p.
     if pr_action p \<noteq> CREATE then ret (PREPARED p) else dispatch_create e operation ord claim))"

definition beginProviderDispatch :: "env \<Rightarrow> claim \<Rightarrow> prepared op" where
  "beginProviderDispatch e claim =
     bnd (gets (find_operation (cl_operationId claim))) (\<lambda>initial.
     thn (the_or P2025 initial) (transaction e (dispatch_tx e claim)))"

section \<open>Fulfilment\<close>

definition provider_id_char :: "nat \<Rightarrow> bool" where
  "provider_id_char c \<longleftrightarrow> is_alnum c \<or> c = 46 \<or> c = 95 \<or> c = 58 \<or> c = 45"

definition providerId :: "jsval \<Rightarrow> bool" where
  "providerId value =
     (case value of
        JStr s \<Rightarrow> s \<noteq> [] \<and> is_alnum (hd s) \<and> length s \<le> 128 \<and> list_all provider_id_char s
      | _ \<Rightarrow> False)"

definition succeeded_order :: "jsstring \<Rightarrow> date \<Rightarrow> order_row \<Rightarrow> order_row" where
  "succeeded_order paymentId paidAt x =
     x\<lparr>o_status := O_SUCCEEDED, o_providerStatus := Some (js ''succeeded''),
       o_providerPaymentId := Some paymentId, o_confirmationUrl := None, o_succeededAt := Some paidAt,
       o_cancellationReason := None, o_version := o_version x + 1\<rparr>"

definition paid_period :: "order_row \<Rightarrow> price_snapshot \<Rightarrow> date \<Rightarrow> date \<Rightarrow> jsstring \<Rightarrow> period_row" where
  "paid_period ord snapshot startsAt expiresAt newId =
     \<lparr>p_id = newId, p_workspaceId = o_workspaceId ord, p_orderId = o_id ord, p_version = 1,
      p_cycle = o_cycle ord, p_totalSeats = o_totalSeats ord, p_originalSeats = o_totalSeats ord,
      p_priceSnapshot = o_priceSnapshot ord, p_startsAt = startsAt, p_expiresAt = expiresAt,
      p_originalExpiresAt = expiresAt, p_graceUntil = expiresAt + ps_graceDays snapshot * WINCRM_DAY_MS,
      p_activationNotifiedAt = None\<rparr>"

definition first_paid_entitlement ::
    "order_row \<Rightarrow> period_row \<Rightarrow> int \<Rightarrow> jsstring \<Rightarrow> date \<Rightarrow> entitlement_row" where
  "first_paid_entitlement ord period sequence newId updatedAt =
     \<lparr>e_id = newId, e_workspaceId = o_workspaceId ord, e_planCode = ''PAID'', e_status = E_ACTIVE,
      e_seatLimit = Some (o_totalSeats ord), e_policyVersion = Some (o_policyVersion ord),
      e_graceUntil = Some (p_graceUntil period), e_trialStartedAt = None,
      e_effectiveFrom = p_startsAt period, e_effectiveUntil = p_expiresAt period,
      e_provisioningCommandId = o_commandId ord, e_provisioningCommandType = ''ACTIVATE_WINCRM_PAID'',
      e_activatedByUserId = o_ownerSubject ord, e_aggregateVersion = 1, e_sourceSequence = sequence,
      e_updatedAt = updatedAt\<rparr>"

definition fulfill_entitlement :: "env \<Rightarrow> order_row \<Rightarrow> period_row \<Rightarrow> entitlement_row option \<Rightarrow> unit op" where
  "fulfill_entitlement e ord period entitlement =
     (if entitlement \<noteq> None then ret ()
      else bnd nextSequence (\<lambda>sequence.
        bnd (randomUUID e) (\<lambda>newId.
        bnd (new_date e) (\<lambda>updatedAt.
        thn (create_entitlement (first_paid_entitlement ord period sequence newId updatedAt)) (ret ())))))"

definition fulfill_command :: "order_row \<Rightarrow> period_row \<Rightarrow> int \<Rightarrow> unit op" where
  "fulfill_command ord period version =
     (if o_kind ord \<noteq> ONE_TIME then ret ()
      else
        bnd (gets (find_command (o_commandId ord))) (\<lambda>found.
        bnd (the_or P2025 found) (\<lambda>command.
        thn (update_command (o_commandId ord)
          (\<lambda>c. c\<lparr>c_status := C_COMMITTED, c_periodId := Some (p_id period), c_resultVersion := Some version\<rparr>))
        (thn (create_receipt
          \<lparr>rc_commandId = c_commandId command, rc_commandType = c_commandType command,
           rc_requestHash = c_requestHash command, rc_requestHashVersion = 1,
           rc_result = obj [(''workspaceId'', JStr (o_workspaceId ord)), (''status'', JStr (js ''COMMITTED'')),
             (''orderId'', JStr (o_id ord)), (''periodId'', JStr (p_id period)),
             (''billingVersion'', JStr (dec_int version))]\<rparr>)
        (ret ())))))"

definition renewed :: "date \<Rightarrow> renewal_row \<Rightarrow> renewal_row" where
  "renewed expiresAt r =
     r\<lparr>r_nextChargeAt := expiresAt, r_nextRetryAt := None, r_retryStartedAt := None, r_retryAttempt := 0,
       r_dispatchPending := False, r_lastErrorCode := None, r_version := r_version r + 1\<rparr>"

text \<open>The object \<open>data\<close> that both branches of the upsert use.\<close>

definition enabled_renewal ::
    "order_row \<Rightarrow> date \<Rightarrow> jsstring \<Rightarrow> jsstring option \<Rightarrow> jsstring option \<Rightarrow> renewal_row \<Rightarrow> renewal_row" where
  "enabled_renewal ord expiresAt ciphertext title last4 r =
     r\<lparr>r_ownerSubject := o_ownerSubject ord, r_status := R_ACTIVE, r_cycle := o_cycle ord,
       r_totalSeats := o_totalSeats ord, r_amountMinor := o_amountMinor ord,
       r_priceSnapshot := o_priceSnapshot ord, r_paymentMethodCiphertext := ciphertext,
       r_paymentMethodTitle := title, r_paymentMethodLast4 := last4,
       r_consentVersion := the (o_consentVersion ord), r_consentText := the (o_consentText ord),
       r_consentedAt := the (o_consentedAt ord), r_nextChargeAt := expiresAt, r_nextRetryAt := None,
       r_retryStartedAt := None, r_retryAttempt := 0, r_dispatchPending := False, r_disabledAt := None,
       r_lastErrorCode := None\<rparr>"

definition blank_renewal :: "jsstring \<Rightarrow> jsstring \<Rightarrow> renewal_row" where
  "blank_renewal ws newId =
     \<lparr>r_workspaceId = ws, r_id = newId, r_ownerSubject = [], r_version = 1, r_status = R_ACTIVE,
      r_cycle = MONTHLY, r_totalSeats = 0, r_amountMinor = 0, r_priceSnapshot = JNull,
      r_paymentMethodCiphertext = [], r_paymentMethodTitle = None, r_paymentMethodLast4 = None,
      r_consentVersion = [], r_consentText = [], r_consentedAt = 0, r_nextChargeAt = 0,
      r_retryStartedAt = None, r_retryAttempt = 0, r_nextRetryAt = None, r_dispatchPending = False,
      r_disabledAt = None, r_lastErrorCode = None\<rparr>"

definition consent_stands :: "order_row \<Rightarrow> renewal_row option \<Rightarrow> bool" where
  "consent_stands ord renewal \<longleftrightarrow>
     o_autoRenew ord \<and> truthy (o_consentVersion ord) \<and> truthy (o_consentText ord) \<and> o_consentedAt ord \<noteq> None
     \<and> \<not> (case Option.bind renewal r_disabledAt of None \<Rightarrow> False | Some d \<Rightarrow> d > the (o_consentedAt ord))"

definition fulfill_renewal :: "env \<Rightarrow> order_row \<Rightarrow> jsval \<Rightarrow> date \<Rightarrow> unit op" where
  "fulfill_renewal e ord provider expiresAt =
     bnd (gets (find_renewal (o_workspaceId ord))) (\<lambda>renewal.
     if o_kind ord = RECURRING \<and> renewal \<noteq> None
     then thn (update_renewal (o_workspaceId ord) (renewed expiresAt)) (ret ())
     else if consent_stands ord renewal
     then
       let payMethod = jsfield provider ''payment_method''; card = jsfield payMethod ''card'' in
       if jsfield payMethod ''saved'' = JBool True \<and> providerId (jsfield payMethod ''id'')
       then
         bnd (encrypt_op e (as_str (jsfield payMethod ''id''))) (\<lambda>ciphertext.
         let title = (if commerceText (jsfield payMethod ''title'') 256
               then Some (as_str (jsfield payMethod ''title'')) else None);
             last4 = (case jsfield card ''last4'' of
               JStr s \<Rightarrow> if length s = 4 \<and> list_all is_digit s then Some s else None | _ \<Rightarrow> None);
             data = enabled_renewal ord expiresAt ciphertext title last4 in
         bnd (randomUUID e) (\<lambda>newId.
         bnd (upsert_renewal (o_workspaceId ord) (data (blank_renewal (o_workspaceId ord) newId))
           (\<lambda>r. (data r)\<lparr>r_version := r_version r + 1\<rparr>)) (\<lambda>updated.
         consent e updated (o_ownerSubject ord) (o_commandId ord) ''ENABLED''
           (obj [(''orderId'', JStr (o_id ord)), (''consentVersion'', opt_js JStr (o_consentVersion ord)),
             (''consentText'', opt_js JStr (o_consentText ord)),
             (''consentedAt'', opt_js iso_js (o_consentedAt ord)),
             (''amountMinor'', JStr (dec_int (o_amountMinor ord))),
             (''cycle'', cycle_js (o_cycle ord)), (''totalSeats'', JInt (o_totalSeats ord))]))))
       else ret ()
     else ret ())"

definition paid_at :: "env \<Rightarrow> jsval \<Rightarrow> date \<Rightarrow> err + date" where
  "paid_at e provider now =
     (let t = (case jsfield provider ''captured_at'' of JStr s \<Rightarrow> Date_parse e s | _ \<Rightarrow> Some now) in
      case t of
        None \<Rightarrow> Inl (ProviderResponse ''PROVIDER_INVALID_RESPONSE'')
      | Some x \<Rightarrow> if x > now + 60000 then Inl (ProviderResponse ''PROVIDER_INVALID_RESPONSE'') else Inr x)"

definition period_start :: "entitlement_row option \<Rightarrow> date \<Rightarrow> date" where
  "period_start entitlement now =
     max now (case entitlement of None \<Rightarrow> 0
       | Some ent \<Rightarrow> if e_planCode ent = ''TRIAL'' then e_effectiveUntil ent else 0)"

definition fulfill :: "env \<Rightarrow> order_row \<Rightarrow> jsval \<Rightarrow> unit op" where
  "fulfill e ord provider =
     (if o_status ord = O_SUCCEEDED then ret ()
      else
        bnd (new_date e) (\<lambda>now.
        bnd (gets (find_account (o_workspaceId ord))) (\<lambda>foundAccount.
        bnd (the_or P2025 foundAccount) (\<lambda>account.
        bnd (gets (find_entitlement (o_workspaceId ord))) (\<lambda>entitlement.
        bnd (gets (latestPeriod (o_workspaceId ord))) (\<lambda>previousPeriod.
        thn (check (Fault ''WINCRM_PAID_PERIOD_OVERLAP_REQUIRES_RECONCILIATION'')
          (case previousPeriod of None \<Rightarrow> True | Some p \<Rightarrow> p_expiresAt p \<le> now))
        (bnd (lift_sum (readWincrmPriceSnapshot (o_priceSnapshot ord))) (\<lambda>snapshot.
        let startsAt = period_start entitlement now in
        bnd (lift_sum (wincrmPeriodEnd (timeClip startsAt) (o_cycle ord))) (\<lambda>expiresAt.
        bnd (lift_sum (paid_at e provider now)) (\<lambda>paidAt.
        thn (update_order (o_id ord) (succeeded_order (as_str (jsfield provider ''id'')) paidAt))
        (bnd (randomUUID e) (\<lambda>newId.
        bnd (create_period (paid_period ord snapshot startsAt expiresAt newId)) (\<lambda>period.
        thn (fulfill_entitlement e ord period entitlement)
        (thn (update_account (o_workspaceId ord) (\<lambda>a. a\<lparr>a_version := a_version account + 1,
           a_capacityCommandId := Some (o_capacityCommandId ord),
           a_capacityFence := Some (o_capacityFence ord)\<rparr>))
        (thn (fulfill_command ord period (a_version account + 1))
        (thn (fulfill_renewal e ord provider expiresAt)
        (enqueueCrmEntitlementChanged e (o_workspaceId ord))))))))))))))))))"

section \<open>Settlement\<close>

definition hex_unit :: "nat \<Rightarrow> bool" where
  "hex_unit c \<longleftrightarrow> is_digit c \<or> 65 \<le> c \<and> c \<le> 70 \<or> 97 \<le> c \<and> c \<le> 102"

fun control_escape :: "jsstring \<Rightarrow> bool" where
  "control_escape (p # a # b # s) =
     (p = 37 \<and> ((a = 48 \<or> a = 49) \<and> hex_unit b \<or> a = 55 \<and> (b = 70 \<or> b = 102)) \<or> control_escape (a # b # s))"
| "control_escape s = False"

definition confirmationUrl :: "env \<Rightarrow> jsval \<Rightarrow> jsstring \<Rightarrow> err + jsstring option" where
  "confirmationUrl e value paymentId =
     (if value = JUndef \<or> value = JNull then Inr None
      else if \<not> commerceText value 2048
        \<or> list_ex (\<lambda>c. is_space c \<or> c = 92) (as_str value) \<or> control_escape (as_str value)
      then Inl (ProviderResponse ''PROVIDER_INVALID_RESPONSE'')
      else case parse_url e (as_str value) of
        None \<Rightarrow> Inl (ProviderResponse ''PROVIDER_INVALID_RESPONSE'')
      | Some url \<Rightarrow>
          if u_protocol url \<noteq> ''https:'' \<or> u_hostname url \<noteq> ''yoomoney.ru'' \<or> u_port url \<noteq> []
             \<or> u_username url \<noteq> [] \<or> u_password url \<noteq> [] \<or> u_hash url \<noteq> []
             \<or> u_pathname url \<notin> {''/checkout/payments/v2/contract'', ''/api-pages/v2/payment-confirm/epl''}
             \<or> length (filter (\<lambda>p. fst p = js ''orderId'') (u_searchParams url)) \<noteq> 1
             \<or> map_of (u_searchParams url) (js ''orderId'') \<noteq> Some paymentId
             \<or> list_ex (\<lambda>p. fst p \<noteq> js ''orderId'') (u_searchParams url)
          then Inl (ProviderResponse ''PROVIDER_INVALID_RESPONSE'')
          else Inr (Some (as_str value)))"

definition reported_order :: "jsstring \<Rightarrow> jsstring \<Rightarrow> order_row \<Rightarrow> order_row" where
  "reported_order paymentId status x =
     x\<lparr>o_providerPaymentId := Some paymentId, o_providerStatus := Some status, o_version := o_version x + 1\<rparr>"

definition pending_again :: "jsstring \<Rightarrow> jsstring \<Rightarrow> jsstring option \<Rightarrow> order_row \<Rightarrow> order_row" where
  "pending_again paymentId status url x =
     x\<lparr>o_providerPaymentId := Some paymentId, o_providerStatus := Some status, o_confirmationUrl := url,
       o_status := O_PENDING, o_version := o_version x + 1\<rparr>"

definition response_bound :: "operation_row \<Rightarrow> order_row \<Rightarrow> jsval \<Rightarrow> jsstring \<Rightarrow> bool" where
  "response_bound operation ord value amount \<longleftrightarrow>
     jsfield (jsfield value ''amount'') ''value'' = JStr amount
     \<and> (truthy (o_providerPaymentId ord) \<longrightarrow> jsfield value ''id'' = opt_js JStr (o_providerPaymentId ord))
     \<and> (truthy (op_providerPaymentId operation) \<longrightarrow> jsfield value ''id'' = opt_js JStr (op_providerPaymentId operation))
     \<and> jsfield value ''status'' \<in> {JStr (js ''pending''), JStr (js ''waiting_for_capture''),
          JStr (js ''succeeded''), JStr (js ''canceled'')}"

definition response_shape :: "order_row \<Rightarrow> jsval \<Rightarrow> bool" where
  "response_shape ord value \<longleftrightarrow>
     commerceRecord value
     \<and> providerId (jsfield value ''id'')
     \<and> commerceRecord (jsfield value ''metadata'')
     \<and> jsfield (jsfield value ''metadata'') ''productCode'' = JStr (js ''WINCRM'')
     \<and> jsfield (jsfield value ''metadata'') ''paymentId'' = JStr (o_id ord)
     \<and> jsfield (jsfield value ''metadata'') ''plan'' = JStr (js ''WINCRM'')
     \<and> jsfield (jsfield value ''metadata'') ''billingPeriod'' = cycle_js (o_cycle ord)
     \<and> jsfield (jsfield value ''metadata'') ''kind'' = kind_js (o_kind ord)
     \<and> commerceRecord (jsfield value ''amount'')
     \<and> jsfield (jsfield value ''amount'') ''currency'' = JStr (js ''RUB'')"

definition settle_succeeded :: "env \<Rightarrow> operation_row \<Rightarrow> order_row \<Rightarrow> claim \<Rightarrow> jsval \<Rightarrow> unit op" where
  "settle_succeeded e operation ord claim value =
     thn (check (ProviderResponse ''PROVIDER_INVALID_RESPONSE'') (jsfield value ''paid'' = JBool True))
     (thn (fulfill e ord value)
     (thn (finish e (op_id operation) claim P_SUCCEEDED None)
     (thn (enqueue e ord SYNC_RECEIPT
        (wincrmProviderKey e [js ''receipt'', o_id ord, as_str (jsfield value ''id'')])
        (Some (as_str (jsfield value ''id''))) None)
     (ret ()))))"

definition cancel_reason :: "jsval \<Rightarrow> jsstring" where
  "cancel_reason value =
     (let reason = jsfield (jsfield value ''cancellation_details'') ''reason'' in
      if commerceText reason 128 then as_str reason else js ''PROVIDER_CANCELLED'')"

definition settle_canceled :: "env \<Rightarrow> operation_row \<Rightarrow> order_row \<Rightarrow> claim \<Rightarrow> jsval \<Rightarrow> unit op" where
  "settle_canceled e operation ord claim value =
     thn (if o_status ord = O_SUCCEEDED then ret ()
          else thn (update_order (o_id ord) (reported_order (as_str (jsfield value ''id'')) (js ''canceled'')))
            (cancelOrder e ord (cancel_reason value)))
     (finish e (op_id operation) claim P_SUCCEEDED None)"

definition settle_pending :: "env \<Rightarrow> operation_row \<Rightarrow> order_row \<Rightarrow> claim \<Rightarrow> jsval \<Rightarrow> unit op" where
  "settle_pending e operation ord claim value =
     thn (if o_status ord = O_SUCCEEDED then ret ()
          else
            bnd (lift_sum (confirmationUrl e (jsfield (jsfield value ''confirmation'') ''confirmation_url'')
              (as_str (jsfield value ''id'')))) (\<lambda>url.
            thn (update_order (o_id ord)
              (pending_again (as_str (jsfield value ''id'')) (as_str (jsfield value ''status'')) url)) (ret ())))
     (thn (finish e (op_id operation) claim P_SUCCEEDED None)
     (bnd (new_date e) (\<lambda>now.
     thn (enqueue e ord VERIFY
        (wincrmProviderKey e [js ''poll'', op_id operation, as_str (jsfield value ''id'')])
        (Some (as_str (jsfield value ''id''))) (Some (now + 30000)))
     (ret ()))))"

datatype receipts_state = RS_PENDING | RS_FAILED | RS_SUCCEEDED

definition receipt_text :: "jsval \<Rightarrow> string \<Rightarrow> nat \<Rightarrow> jsstring option" where
  "receipt_text item key maximum =
     (if commerceText (jsfield item key) maximum then Some (as_str (jsfield item key)) else None)"

definition receipt_data :: "jsval \<Rightarrow> date option \<Rightarrow> fiscal_row \<Rightarrow> fiscal_row" where
  "receipt_data item registeredAt f =
     f\<lparr>f_status := jsfield item ''status'', f_type := receipt_text item ''type'' 32,
       f_fiscalDocumentNumber := receipt_text item ''fiscal_document_number'' 128,
       f_fiscalStorageNumber := receipt_text item ''fiscal_storage_number'' 128,
       f_fiscalAttribute := receipt_text item ''fiscal_attribute'' 128,
       f_registeredAt := registeredAt\<rparr>"

definition settleReceipt :: "env \<Rightarrow> order_row \<Rightarrow> jsval \<Rightarrow> unit op" where
  "settleReceipt e ord item =
     thn (check (ProviderResponse ''PROVIDER_BINDING_MISMATCH'')
       (commerceRecord item \<and> providerId (jsfield item ''id'')
        \<and> jsfield item ''payment_id'' = opt_js JStr (o_providerPaymentId ord)
        \<and> jsfield item ''status'' \<in> {JStr (js ''pending''), JStr (js ''succeeded''), JStr (js ''canceled'')}))
     (bnd (case jsfield item ''registered_at'' of
         JStr s \<Rightarrow> (case Date_parse e s of
             None \<Rightarrow> throw (ProviderResponse ''PROVIDER_INVALID_RESPONSE'')
           | Some t \<Rightarrow> ret (Some t))
       | _ \<Rightarrow> ret None) (\<lambda>registeredAt.
     bnd (gets (\<lambda>w. find (\<lambda>f. f_providerReceiptId f = as_str (jsfield item ''id'')) (fiscals w))) (\<lambda>prior.
     thn (check (ProviderResponse ''PROVIDER_BINDING_MISMATCH'')
       (case prior of None \<Rightarrow> True
        | Some f \<Rightarrow> f_orderId f = o_id ord \<and> f_workspaceId f = o_workspaceId ord))
     (bnd (randomUUID e) (\<lambda>newId.
     thn (upsert_fiscal (as_str (jsfield item ''id''))
       (receipt_data item registeredAt
          \<lparr>f_id = newId, f_workspaceId = o_workspaceId ord, f_orderId = o_id ord,
           f_providerReceiptId = as_str (jsfield item ''id''), f_status = JNull, f_type = None,
           f_fiscalDocumentNumber = None, f_fiscalStorageNumber = None, f_fiscalAttribute = None,
           f_registeredAt = None\<rparr>)
       (receipt_data item registeredAt))
     (ret ()))))))"

definition settleReceipts :: "env \<Rightarrow> order_row \<Rightarrow> jsval \<Rightarrow> receipts_state op" where
  "settleReceipts e ord value =
     (case jsfield value ''items'' of
        JArr items \<Rightarrow>
          if length items > 1000 then throw (ProviderResponse ''PROVIDER_INVALID_RESPONSE'')
          else
            thn (for_each (settleReceipt e ord) items)
            (ret (if items = [] \<or> list_ex (\<lambda>i. jsfield i ''status'' = JStr (js ''pending'')) items then RS_PENDING
              else if list_ex (\<lambda>i. jsfield i ''status'' = JStr (js ''canceled'')) items then RS_FAILED
              else RS_SUCCEEDED))
      | _ \<Rightarrow> throw (ProviderResponse ''PROVIDER_INVALID_RESPONSE''))"

definition requeue_operation ::
    "jsstring \<Rightarrow> jsstring \<Rightarrow> date \<Rightarrow> jsstring option \<Rightarrow> operation_row \<Rightarrow> operation_row" where
  "requeue_operation eventId outboxId availableAt error x =
     x\<lparr>op_status := P_PENDING, op_leaseToken := None, op_leaseUntil := None, op_version := op_version x + 1,
       op_retryAttempt := op_retryAttempt x + 1, op_availableAt := availableAt,
       op_pendingEventId := eventId, op_outboxId := outboxId, op_lastErrorCode := error\<rparr>"

definition rescheduleReceipt :: "env \<Rightarrow> jsstring \<Rightarrow> claim \<Rightarrow> unit op" where
  "rescheduleReceipt e operationId claim =
     bnd (randomUUID e) (\<lambda>eventId.
     bnd (randomUUID e) (\<lambda>outboxId.
     bnd (new_date e) (\<lambda>now.
     let availableAt = now + 60000 in
     thn (update_operation (\<lambda>x. op_id x = operationId \<and> op_version x = cl_version claim
         \<and> op_leaseToken x = Some (cl_leaseToken claim))
       (requeue_operation eventId outboxId availableAt (Some (js ''PROVIDER_RETRYABLE''))))
     (thn (update_delivery (is_delivery (cl_eventId claim))
       (release_delivery D_RETRY_SCHEDULED (Some (js ''PROVIDER_RETRYABLE''))))
     (providerOutbox e operationId eventId outboxId availableAt False)))))"

definition settle_sync :: "env \<Rightarrow> operation_row \<Rightarrow> order_row \<Rightarrow> claim \<Rightarrow> jsval \<Rightarrow> unit op" where
  "settle_sync e operation ord claim value =
     bnd (settleReceipts e ord value) (\<lambda>state.
     if state = RS_PENDING then rescheduleReceipt e (op_id operation) claim
     else finish e (op_id operation) claim (if state = RS_SUCCEEDED then P_SUCCEEDED else P_FAILED)
       (if state = RS_FAILED then Some (js ''PROVIDER_REJECTED'') else None))"

definition settle_tx :: "env \<Rightarrow> claim \<Rightarrow> jsval \<Rightarrow> unit op" where
  "settle_tx e claim value =
     bnd (owned_operation e claim) (\<lambda>(operation, ord).
     if op_kind operation = SYNC_RECEIPT then settle_sync e operation ord claim value
     else
       thn (check (ProviderResponse ''PROVIDER_BINDING_MISMATCH'') (response_shape ord value))
       (bnd (lift_sum (wincrmDecimal (o_amountMinor ord))) (\<lambda>amount.
       thn (check (ProviderResponse ''PROVIDER_BINDING_MISMATCH'') (response_bound operation ord value amount))
       (thn (update_operation (\<lambda>x. op_id x = op_id operation)
          (\<lambda>x. x\<lparr>op_providerPaymentId := Some (as_str (jsfield value ''id''))\<rparr>))
       (if jsfield value ''status'' = JStr (js ''succeeded'') then settle_succeeded e operation ord claim value
        else if jsfield value ''status'' = JStr (js ''canceled'') then settle_canceled e operation ord claim value
        else settle_pending e operation ord claim value)))))"

definition settleProviderOperation :: "env \<Rightarrow> claim \<Rightarrow> jsval \<Rightarrow> unit op" where
  "settleProviderOperation e claim value =
     bnd (gets (find_operation (cl_operationId claim))) (\<lambda>initial.
     thn (the_or P2025 initial) (transaction e (settle_tx e claim value)))"

section \<open>Failures\<close>

record failure =
  fl_code :: string
  fl_ambiguous :: bool
  fl_retryable :: bool
  fl_providerPaymentId :: jsval

definition backoff :: "int \<Rightarrow> int" where
  "backoff retryAttempt = min 300000 (5000 * 2 ^ nat (min retryAttempt 6))"

definition fail_retry :: "env \<Rightarrow> operation_row \<Rightarrow> claim \<Rightarrow> jsstring option \<Rightarrow> string \<Rightarrow> unit op" where
  "fail_retry e operation claim paymentId code =
     bnd (randomUUID e) (\<lambda>eventId.
     bnd (randomUUID e) (\<lambda>outboxId.
     bnd (new_date e) (\<lambda>now.
     let availableAt = now + backoff (op_retryAttempt operation) in
     thn (update_operation (\<lambda>x. op_id x = op_id operation \<and> op_leaseToken x = Some (cl_leaseToken claim))
       (\<lambda>x. (requeue_operation eventId outboxId availableAt (Some (js code)) x)\<lparr>op_providerPaymentId := paymentId\<rparr>))
     (thn (update_delivery (is_delivery (cl_eventId claim))
       (release_delivery D_RETRY_SCHEDULED (Some (js code))))
     (providerOutbox e (op_id operation) eventId outboxId availableAt False)))))"

definition fail_final ::
    "env \<Rightarrow> operation_row \<Rightarrow> order_row \<Rightarrow> claim \<Rightarrow> jsstring option \<Rightarrow> bool \<Rightarrow> string \<Rightarrow> unit op" where
  "fail_final e operation ord claim paymentId ambiguous code =
     thn (if truthy paymentId \<and> \<not> truthy (op_providerPaymentId operation)
          then thn (update_operation (\<lambda>x. op_id x = op_id operation \<and> op_leaseToken x = Some (cl_leaseToken claim))
            (\<lambda>x. x\<lparr>op_providerPaymentId := paymentId\<rparr>)) (ret ())
          else ret ())
     (thn (if op_kind operation = CREATE \<and> o_status ord \<noteq> O_SUCCEEDED
           then if ambiguous \<or> truthy paymentId
             then thn (update_order (op_orderId operation) unknown_order) (ret ())
             else cancelOrder e ord (js code)
           else ret ())
     (finish e (op_id operation) claim (if ambiguous then P_UNKNOWN else P_FAILED) (Some (js code))))"

definition fail_tx :: "env \<Rightarrow> claim \<Rightarrow> failure \<Rightarrow> unit op" where
  "fail_tx e claim failed =
     bnd (owned_operation e claim) (\<lambda>(operation, ord).
     let paymentId = (if providerId (fl_providerPaymentId failed)
           then Some (as_str (fl_providerPaymentId failed))
           else case op_providerPaymentId operation of Some p \<Rightarrow> Some p | None \<Rightarrow> o_providerPaymentId ord) in
     thn (check (Fault ''WINCRM_PROVIDER_BINDING_MISMATCH'')
       (\<not> (truthy paymentId \<and> truthy (o_providerPaymentId ord) \<and> paymentId \<noteq> o_providerPaymentId ord)))
     (let ambiguous = (fl_ambiguous failed \<or> op_firstDispatchAt operation \<noteq> None) in
     bnd (case op_firstDispatchAt operation of
         None \<Rightarrow> ret False
       | Some f \<Rightarrow> bnd (new_date e) (\<lambda>now. ret (now - f \<ge> PROVIDER_WINDOW_MS))) (\<lambda>expired.
     if fl_retryable failed \<and> (truthy paymentId \<or> op_kind operation \<noteq> CREATE \<or> \<not> expired)
     then fail_retry e operation claim paymentId (fl_code failed)
     else fail_final e operation ord claim paymentId ambiguous (fl_code failed))))"

definition failProviderOperation :: "env \<Rightarrow> claim \<Rightarrow> failure \<Rightarrow> unit op" where
  "failProviderOperation e claim failed =
     bnd (gets (find_operation (cl_operationId claim))) (\<lambda>initial.
     thn (the_or P2025 initial) (transaction e (fail_tx e claim failed)))"

section \<open>Webhook and retry\<close>

definition webhook_ok :: "jsval \<Rightarrow> bool" where
  "webhook_ok value \<longleftrightarrow>
     commerceRecord value
     \<and> jsfield value ''event'' \<in> {JStr (js ''payment.succeeded''), JStr (js ''payment.canceled''),
         JStr (js ''payment.waiting_for_capture'')}
     \<and> commerceRecord (jsfield value ''object'')
     \<and> providerId (jsfield (jsfield value ''object'') ''id'')"

definition webhook_candidate :: "jsval \<Rightarrow> db \<Rightarrow> order_row option" where
  "webhook_candidate value w =
     (let paymentId = as_str (jsfield (jsfield value ''object'') ''id'');
          metadata = jsfield (jsfield value ''object'') ''metadata'' in
      find (\<lambda>x. o_providerPaymentId x = Some paymentId
          \<or> (jsfield metadata ''productCode'' = JStr (js ''WINCRM'') \<and> commerceUuid (jsfield metadata ''paymentId'')
             \<and> o_id x = as_str (jsfield metadata ''paymentId'') \<and> o_providerPaymentId x = None)) (orders w))"

definition verification_tx :: "env \<Rightarrow> jsstring \<Rightarrow> jsstring \<Rightarrow> jsstring \<Rightarrow> unit op" where
  "verification_tx e orderId paymentId event =
     bnd (gets (find_order orderId)) (\<lambda>found.
     bnd (the_or P2025 found) (\<lambda>current.
     thn (check (Fault ''WINCRM_PROVIDER_BINDING_MISMATCH'')
       (\<not> (truthy (o_providerPaymentId current) \<and> o_providerPaymentId current \<noteq> Some paymentId)))
     (thn (enqueue e current VERIFY (wincrmProviderKey e [js ''webhook'', o_id current, paymentId, event])
        (Some paymentId) None)
     (ret ()))))"

definition enqueueProviderVerification :: "env \<Rightarrow> jsval \<Rightarrow> bool op" where
  "enqueueProviderVerification e value =
     (if \<not> webhook_ok value then ret False
      else bnd (gets (webhook_candidate value)) (\<lambda>candidate.
        case candidate of
          None \<Rightarrow> ret False
        | Some c \<Rightarrow>
            thn (transaction e (verification_tx e (o_id c)
              (as_str (jsfield (jsfield value ''object'') ''id'')) (as_str (jsfield value ''event''))))
            (ret True)))"

text \<open>\<open>{ ...dto, k: v }\<close>\<close>

fun spread :: "jsval \<Rightarrow> (string \<times> jsval) list \<Rightarrow> jsval" where
  "spread (JObj kvs) new =
     JObj (filter (\<lambda>(k, v). k \<notin> js ` fst ` set new) kvs @ map (\<lambda>(k, v). (js k, v)) new)"
| "spread v new = obj new"

definition retry_audit_description :: jsstring where
  "retry_audit_description =
     [1055, 1086, 1074, 1090, 1086, 1088, 1085, 1072, 1103, 32, 1087, 1088, 1086, 1074, 1077,
      1088, 1082, 1072, 32, 1086, 1087, 1077, 1088, 1072, 1094, 1080, 1080, 32, 1087, 1088, 1086,
      1074, 1072, 1081, 1076, 1077, 1088, 1072, 32, 87, 105, 110, 67, 82, 77]"

definition retry_tx :: "env \<Rightarrow> jsstring \<Rightarrow> jsval \<Rightarrow> admin_actor \<Rightarrow> jsstring \<Rightarrow> jsval op" where
  "retry_tx e operationId dto actor hash =
     bnd (gets (find_receipt (cmd_of dto))) (\<lambda>prior.
     case prior of
       Some receipt \<Rightarrow> lift_sum (assertBillingCommandReceipt receipt ''WINCRM_RETRY_PROVIDER'' hash)
     | None \<Rightarrow>
     bnd (gets (find_command (cmd_of dto))) (\<lambda>command.
     thn (check (Conflict ''wincrm_command_conflict'') (command = None))
     (bnd (load_operation operationId) (\<lambda>(operation, ord).
     thn (check (Conflict ''wincrm_provider_version_conflict'')
       (JInt (op_version operation) = jsfield dto ''expectedVersion''))
     (thn (check (Conflict ''wincrm_provider_retry_unavailable'')
       (op_status operation = P_FAILED \<or> op_status operation = P_UNKNOWN))
     (let paymentId = payment_id_of operation ord in
     thn (check (Conflict ''wincrm_provider_evidence_required'') (truthy paymentId))
     (thn (update_operation (\<lambda>x. op_id x = operationId \<and> JInt (op_version x) = jsfield dto ''expectedVersion'')
       (\<lambda>x. x\<lparr>op_version := op_version x + 1\<rparr>))
     (bnd (enqueue e ord (if op_kind operation = SYNC_RECEIPT then SYNC_RECEIPT else VERIFY)
        (wincrmProviderKey e [js ''dev-retry'', cmd_of dto]) paymentId None) (\<lambda>again.
     let result = obj [(''schemaVersion'', JInt 1), (''operationId'', JStr operationId),
           (''retryOperationId'', JStr (op_id again)), (''eventId'', JStr (op_pendingEventId again)),
           (''state'', JStr (js ''QUEUED''))] in
     thn (create_receipt
       \<lparr>rc_commandId = cmd_of dto, rc_commandType = ''WINCRM_RETRY_PROVIDER'', rc_requestHash = hash,
        rc_requestHashVersion = 1, rc_result = result\<rparr>)
     (thn (enqueueBillingAdminAudit e
       \<lparr>au_actor = actor, au_section = ''MESSAGING'', au_action = ''BILLING_DELIVERY_RETRY'',
        au_description = retry_audit_description, au_entityType = ''crm_provider_operation'',
        au_entityId = operationId, au_entityLabel = None, au_targetUserId = None,
        au_metadata = [(''retryOperationId'', JStr (op_id again)),
          (''previousState'', JStr (js (if op_status operation = P_FAILED then ''FAILED'' else ''UNKNOWN''))),
          (''action'', op_kind_js (op_kind again))]\<rparr>)
     (ret result)))))))))))"

definition retryProviderOperation :: "env \<Rightarrow> jsstring \<Rightarrow> jsval \<Rightarrow> admin_actor \<Rightarrow> jsval op" where
  "retryProviderOperation e operationId dto actor =
     thn (check (Forbidden ''WinCRM provider retry requires DEV'') (act_role actor = ''DEV''))
     (thn (check Invalid
       (jsfield dto ''schemaVersion'' = JInt 1 \<and> commerceUuid (JStr operationId)
        \<and> commerceUuid (jsfield dto ''commandId'')
        \<and> commerceInt (jsfield dto ''expectedVersion'') 1 2147483646
        \<and> commerceText (JStr (act_id actor)) 256))
     (bnd (gets (find_operation operationId)) (\<lambda>initial.
     thn (the_or (NotFound ''WinCRM provider operation not found'') initial)
     (bnd (lift_sum (billingCommandRequestHash (sha256 e) ''WINCRM_RETRY_PROVIDER''
        (spread dto [(''operationId'', JStr operationId), (''actorId'', JStr (act_id actor))]))) (\<lambda>hash.
     transaction e (retry_tx e operationId dto actor hash))))))"

end
