(* ===== verification/Computation.thy ===== *)
theory Computation
  imports Prelude
begin

text \<open>
  Computations of the code around the transactions (workers, clients, request handlers): they keep what
  they have done when they fail, so they return the state in both cases. \<open>wsteps R m\<close> states that every
  run of \<open>m\<close> relates the state before to the state after by \<open>R\<close>; its rules are proved in the locale
  \<open>comp_relation\<close> and carried by the collection \<open>wsteps_intro\<close>.
\<close>

type_synonym ('s, 'e, 'a) comp = "'s \<Rightarrow> ('e + 'a) \<times> 's"

definition wret :: "'a \<Rightarrow> ('s, 'e, 'a) comp" where
  "wret x s = (Inr x, s)"

definition wthrow :: "'e \<Rightarrow> ('s, 'e, 'a) comp" where
  "wthrow err s = (Inl err, s)"

definition wbind :: "('s, 'e, 'a) comp \<Rightarrow> ('a \<Rightarrow> ('s, 'e, 'b) comp) \<Rightarrow> ('s, 'e, 'b) comp" where
  "wbind m f s = (case m s of (Inl err, s') \<Rightarrow> (Inl err, s') | (Inr x, s') \<Rightarrow> f x s')"

definition wthen :: "('s, 'e, 'a) comp \<Rightarrow> ('s, 'e, 'b) comp \<Rightarrow> ('s, 'e, 'b) comp" where
  "wthen m k = wbind m (\<lambda>_. k)"

definition wcatch :: "('s, 'e, 'a) comp \<Rightarrow> ('e \<Rightarrow> ('s, 'e, 'a) comp) \<Rightarrow> ('s, 'e, 'a) comp" where
  "wcatch m h s = (case m s of (Inl err, s') \<Rightarrow> h err s' | (Inr x, s') \<Rightarrow> (Inr x, s'))"

definition wset :: "('s \<Rightarrow> 's) \<Rightarrow> ('s, 'e, unit) comp" where
  "wset f s = (Inr (), f s)"

definition wget :: "('s \<Rightarrow> 'a) \<Rightarrow> ('s, 'e, 'a) comp" where
  "wget f s = (Inr (f s), s)"

definition wlift :: "'e + 'a \<Rightarrow> ('s, 'e, 'a) comp" where
  "wlift r s = (r, s)"

lemma wbind_weak_cong [cong]: "m = m' \<Longrightarrow> wbind m f = wbind m' f"
  by simp

lemma wthen_weak_cong [cong]: "m = m' \<Longrightarrow> wthen m k = wthen m' k"
  by simp

section \<open>Running a computation\<close>

lemma wret_run [simp]: "wret x s = (Inr x, s)"
  by (simp add: wret_def)

lemma wthrow_run [simp]: "wthrow err s = (Inl err, s)"
  by (simp add: wthrow_def)

lemma wset_run [simp]: "wset f s = (Inr (), f s)"
  by (simp add: wset_def)

lemma wget_run [simp]: "wget f s = (Inr (f s), s)"
  by (simp add: wget_def)

lemma wlift_run [simp]: "wlift r s = (r, s)"
  by (simp add: wlift_def)

lemma wthen_simps [simp]: "wthen (wset f) k s = k (f s)" "wthen (wret x) k s = k s"
  by (simp_all add: wthen_def wbind_def wset_def wret_def)

lemma wbind_run: "wbind m f s = (case m s of (Inl err, s') \<Rightarrow> (Inl err, s') | (Inr x, s') \<Rightarrow> f x s')"
  by (simp add: wbind_def)

lemma wbind_cases:
  assumes "wbind m f s = (r, s')"
  obtains err where "m s = (Inl err, s')" "r = Inl err"
    | x s1 where "m s = (Inr x, s1)" "f x s1 = (r, s')"
  using assms by (auto simp: wbind_def split: prod.splits sum.splits)

section \<open>Relations across a run\<close>

definition wsteps :: "('s \<Rightarrow> 's \<Rightarrow> bool) \<Rightarrow> ('s, 'e, 'a) comp \<Rightarrow> bool" where
  "wsteps R m \<longleftrightarrow> (\<forall>s. R s (snd (m s)))"

lemma wstepsI: "(\<And>s. R s (snd (m s))) \<Longrightarrow> wsteps R m"
  by (simp add: wsteps_def)

lemma wstepsD: "wsteps R m \<Longrightarrow> m s = (r, s') \<Longrightarrow> R s s'"
  unfolding wsteps_def by (metis snd_conv)

named_theorems wsteps_intro \<open>structural rules for computations\<close>

locale comp_relation =
  fixes R :: "'s \<Rightarrow> 's \<Rightarrow> bool"
  assumes comp_refl: "R s s"
    and comp_trans: "R a b \<Longrightarrow> R b c \<Longrightarrow> R a c"
begin

lemma wsteps_basic [wsteps_intro]:
  "wsteps R (wret x)" "wsteps R (wthrow err)" "wsteps R (wget f)" "wsteps R (wlift r)"
  by (simp_all add: wsteps_def comp_refl)

lemma wsteps_bind [wsteps_intro]: "wsteps R m \<Longrightarrow> (\<And>x. wsteps R (f x)) \<Longrightarrow> wsteps R (wbind m f)"
  unfolding wsteps_def wbind_def by (auto split: prod.split sum.split) (metis snd_conv comp_trans)+

lemma wsteps_then [wsteps_intro]: "wsteps R m \<Longrightarrow> wsteps R k \<Longrightarrow> wsteps R (wthen m k)"
  unfolding wthen_def by (intro wsteps_bind)

lemma wsteps_catch [wsteps_intro]: "wsteps R m \<Longrightarrow> (\<And>x. wsteps R (h x)) \<Longrightarrow> wsteps R (wcatch m h)"
  unfolding wsteps_def wcatch_def by (auto split: prod.split sum.split) (metis snd_conv comp_trans)+

lemma wsteps_cases [wsteps_intro]:
  "wsteps R a \<Longrightarrow> wsteps R b \<Longrightarrow> wsteps R (if c then a else b)"
  "wsteps R a \<Longrightarrow> (\<And>x. wsteps R (f x)) \<Longrightarrow> wsteps R (case v of None \<Rightarrow> a | Some x \<Rightarrow> f x)"
  "(\<And>x y. wsteps R (g x y)) \<Longrightarrow> wsteps R (case u of (x, y) \<Rightarrow> g x y)"
  by (simp_all split: option.split prod.split)

end

end
