(* ===== verification/Yookassa.thy ===== *)
theory Yookassa
  imports Provider_Ops Computation
begin

text \<open>
  The HTTP clients of the provider worker: \<open>apps/billing/src/provider/yookassa.service.ts\<close>, the API of
  the payment provider, and \<open>apps/billing/src/provider/wincrm-access-authorization.client.ts\<close>, which asks
  CRM Access whether a payment may still be created. The network is a parameter: what the n-th request
  is answered. The worker's computations keep what they have done when they fail, so their type differs
  from that of a transaction.
\<close>

section \<open>The worker's state\<close>

text \<open>The errors that the worker tells apart; \<open>Thrown\<close> carries every error of the domain services.\<close>

datatype worker_error =
    ProviderRequestError (pe_code: string) (pe_retryable: bool) (pe_ambiguous: bool)
  | AuthorizationError string
  | Thrown err
  | OtherError string

text \<open>A request to the provider; the URL is given by its parts, the body by the value that is printed.\<close>

datatype endpoint =
    PAYMENTS
  | PAYMENT jsstring
  | RECEIPTS jsstring int "jsstring option"

record http_request =
  hr_method :: string
  hr_endpoint :: endpoint
  hr_body :: "jsval option"
  hr_idempotenceKey :: "jsstring option"

text \<open>\<open>fetch\<close> throws or answers with a status and a body, which may be no JSON text.\<close>

datatype fetch_result = No_response | Response int "jsval option"

text \<open>
  The rows that \<open>quarantineInvalidMessage\<close> writes: the recorded failure, the event for the dead-letter
  exchange and the time of the receipt.
\<close>

record invalid_message =
  iv_eventId :: jsstring
  iv_failure :: jsval
  iv_deadLetter :: jsval
  iv_deduplicationKey :: jsstring
  iv_deliveredAt :: date

text \<open>
  The state: the database, the messages in quarantine, the requests sent to the provider and to CRM Access so far, and the two
  local variables of \<open>execute\<close> that its \<open>catch\<close> block reads.
\<close>

record world =
  wd_db :: db
  wd_invalid :: "invalid_message list"
  wd_sent :: "http_request list"
  wd_asked :: "jsval list"
  wd_providerCallStarted :: bool
  wd_providerPaymentId :: "jsstring option"

type_synonym 'a wop = "(world, worker_error, 'a) comp"

record provider =
  pv_credentials :: bool
  pv_fetch :: "nat \<Rightarrow> http_request \<Rightarrow> fetch_result"
  pv_accessConfigured :: bool
  pv_access :: "nat \<Rightarrow> jsval \<Rightarrow> fetch_result"
  pv_decrypt :: "jsstring \<Rightarrow> jsstring option"
  pv_contentHash :: "nat list \<Rightarrow> jsstring"

text \<open>A call of a domain service: a transaction that commits or leaves the database as it was.\<close>

definition wdb :: "'a op \<Rightarrow> 'a wop" where
  "wdb m s = (case m (wd_db s) of
     Inl err \<Rightarrow> (Inl (Thrown err), s)
   | Inr (x, w') \<Rightarrow> (Inr x, s\<lparr>wd_db := w'\<rparr>))"

section \<open>The provider's API\<close>

definition RECEIPT_LIST_PAGE_LIMIT :: int where
  "RECEIPT_LIST_PAGE_LIMIT = 100"

definition RECEIPT_LIST_MAX_PAGES :: nat where
  "RECEIPT_LIST_MAX_PAGES = 10"

definition RECEIPT_LIST_CURSOR_MAX_LENGTH :: nat where
  "RECEIPT_LIST_CURSOR_MAX_LENGTH = 1024"

definition isYooKassaObjectId :: "jsval \<Rightarrow> bool" where
  "isYooKassaObjectId value =
     (case value of
        JStr s \<Rightarrow> s \<noteq> [] \<and> is_alnum (hd s) \<and> length s \<le> 128 \<and> list_all provider_id_char s
      | _ \<Rightarrow> False)"

definition http_ok :: "int \<Rightarrow> bool" where
  "http_ok status \<longleftrightarrow> 200 \<le> status \<and> status \<le> 299"

definition provider_answer :: "fetch_result \<Rightarrow> worker_error + jsval" where
  "provider_answer r =
     (case r of
        No_response \<Rightarrow> Inl (ProviderRequestError ''PROVIDER_TRANSPORT_UNKNOWN'' True True)
      | Response status body \<Rightarrow>
          if http_ok status \<and> body = None then Inl (ProviderRequestError ''PROVIDER_INVALID_RESPONSE'' True True)
          else if \<not> http_ok status
          then (let retryable = (status = 429 \<or> status \<ge> 500) in
            Inl (ProviderRequestError (if retryable then ''PROVIDER_RETRYABLE'' else ''PROVIDER_REJECTED'') retryable False))
          else if \<not> commerceRecord (the body) then Inl (ProviderRequestError ''PROVIDER_INVALID_RESPONSE'' True True)
          else Inr (the body))"

definition request :: "provider \<Rightarrow> http_request \<Rightarrow> jsval wop" where
  "request p r s =
     (if \<not> pv_credentials p then (Inl (OtherError ''YooKassa credentials are missing for the selected MODE''), s)
      else (provider_answer (pv_fetch p (length (wd_sent s)) r), s\<lparr>wd_sent := wd_sent s @ [r]\<rparr>))"

record create_input =
  ci_paymentId :: jsstring
  ci_amount :: jsstring
  ci_billingPeriod :: cycle
  ci_autoRenew :: bool
  ci_customerEmail :: "jsstring option"
  ci_customerPhone :: "jsstring option"
  ci_returnUrl :: jsval
  ci_paymentMethodId :: "jsstring option"
  ci_kind :: order_kind

definition customer_fields :: "create_input \<Rightarrow> (string \<times> jsval) list" where
  "customer_fields input =
     (if truthy (ci_customerEmail input) then [(''email'', JStr (the (ci_customerEmail input)))] else [])
     @ (if truthy (ci_customerPhone input) then [(''phone'', JStr (the (ci_customerPhone input)))] else [])"

text \<open>The Russian word for subscription and a space, before the name of the product.\<close>

definition item_description :: jsstring where
  "item_description = [1055, 1086, 1076, 1087, 1080, 1089, 1082, 1072, 32] @ js ''WinCRM WINCRM''"

text \<open>
  The body of the request, for the product WINCRM with the plan WINCRM in roubles, which is all that
  the WinCRM worker sends.
\<close>

definition payment_body :: "create_input \<Rightarrow> jsval" where
  "payment_body input =
     (let amount = obj [(''value'', JStr (ci_amount input)), (''currency'', JStr (js ''RUB''))] in
      obj ([(''amount'', amount), (''capture'', JBool True),
        (''description'', JStr (js ''WinCRM WINCRM '' @ as_str (cycle_js (ci_billingPeriod input)))),
        (''metadata'', obj [(''productCode'', JStr (js ''WINCRM'')), (''paymentId'', JStr (ci_paymentId input)),
           (''kind'', kind_js (ci_kind input)), (''plan'', JStr (js ''WINCRM'')),
           (''billingPeriod'', cycle_js (ci_billingPeriod input))]),
        (''receipt'', obj [(''customer'', obj (customer_fields input)),
           (''items'', JArr [obj [(''description'', JStr item_description), (''quantity'', JStr (js ''1.00'')),
              (''amount'', amount), (''vat_code'', JInt 1), (''payment_subject'', JStr (js ''service'')),
              (''payment_mode'', JStr (js ''full_payment''))]]),
           (''internet'', JBool True)])]
       @ (if truthy (ci_paymentMethodId input)
          then [(''payment_method_id'', JStr (the (ci_paymentMethodId input)))]
          else [(''confirmation'', obj [(''type'', JStr (js ''redirect'')), (''return_url'', ci_returnUrl input)]),
                (''save_payment_method'', JBool (ci_autoRenew input))])))"

definition createPayment :: "provider \<Rightarrow> create_input \<Rightarrow> jsstring \<Rightarrow> jsval wop" where
  "createPayment p input idempotencyKey =
     (if customer_fields input = [] then wthrow (ProviderRequestError ''CUSTOMER_CONTACT_MISSING'' False False)
      else request p \<lparr>hr_method = ''POST'', hr_endpoint = PAYMENTS, hr_body = Some (payment_body input),
        hr_idempotenceKey = Some idempotencyKey\<rparr>)"

definition get_request :: "endpoint \<Rightarrow> http_request" where
  "get_request endpoint = \<lparr>hr_method = ''GET'', hr_endpoint = endpoint, hr_body = None, hr_idempotenceKey = None\<rparr>"

definition getPayment :: "provider \<Rightarrow> jsstring \<Rightarrow> jsval wop" where
  "getPayment p providerPaymentId = request p (get_request (PAYMENT providerPaymentId))"

definition is_array :: "jsval \<Rightarrow> bool" where
  "is_array v = (case v of JArr xs \<Rightarrow> True | _ \<Rightarrow> False)"

definition array_items :: "jsval \<Rightarrow> jsval list" where
  "array_items v = (case v of JArr xs \<Rightarrow> xs | _ \<Rightarrow> [])"

definition cursor_ok :: "jsval \<Rightarrow> jsstring list \<Rightarrow> bool" where
  "cursor_ok nextCursor seen =
     (case nextCursor of
        JStr s \<Rightarrow> length s \<le> RECEIPT_LIST_CURSOR_MAX_LENGTH \<and> s \<notin> set seen
      | _ \<Rightarrow> False)"

text \<open>The pages that are left, the cursor, the cursors seen and the items so far.\<close>

primrec receipt_pages ::
    "provider \<Rightarrow> jsstring \<Rightarrow> nat \<Rightarrow> jsstring option \<Rightarrow> jsstring list \<Rightarrow> jsval list \<Rightarrow> jsval wop" where
  "receipt_pages p paymentId 0 cursor seen items =
     wthrow (ProviderRequestError ''PROVIDER_RECEIPT_PAGINATION_LIMIT'' False False)"
| "receipt_pages p paymentId (Suc n) cursor seen items =
     wbind (request p (get_request (RECEIPTS paymentId RECEIPT_LIST_PAGE_LIMIT cursor))) (\<lambda>response.
     if \<not> is_array (jsfield response ''items'')
     then wthrow (ProviderRequestError ''PROVIDER_INVALID_RESPONSE'' True True)
     else
       let collected = items @ array_items (jsfield response ''items''); nextCursor = jsfield response ''next_cursor'' in
       if nextCursor \<in> {JUndef, JNull, JStr []}
       then wret (obj [(''type'', if jsfield response ''type'' \<in> {JUndef, JNull} then JStr (js ''list'') else jsfield response ''type''),
              (''items'', JArr collected)])
       else if \<not> cursor_ok nextCursor seen
       then wthrow (ProviderRequestError ''PROVIDER_RECEIPT_PAGINATION_INVALID'' False False)
       else receipt_pages p paymentId n (Some (as_str nextCursor)) (as_str nextCursor # seen) collected)"

definition getReceipts :: "provider \<Rightarrow> jsstring \<Rightarrow> jsval wop" where
  "getReceipts p providerPaymentId = receipt_pages p providerPaymentId RECEIPT_LIST_MAX_PAGES None [] []"

section \<open>The authorization by CRM Access\<close>

definition exactRecord :: "jsval \<Rightarrow> string list \<Rightarrow> bool" where
  "exactRecord value keys \<longleftrightarrow>
     commerceRecord value \<and> length (object_keys value) = length keys
     \<and> list_all (\<lambda>k. js k \<in> set (object_keys value)) keys"

definition authorization_body :: "prepared_op \<Rightarrow> jsval" where
  "authorization_body input =
     obj [(''schemaVersion'', JInt 1), (''workspaceId'', JStr (pr_workspaceId input)),
       (''actorSubject'', JStr (pr_ownerSubject input)), (''commandId'', JStr (pr_commandId input)),
       (''requestHash'', jsfield (pr_capacityFence input) ''requestHash''),
       (''fenceRevision'', jsfield (pr_capacityFence input) ''fenceRevision''),
       (''targetSeats'', jsfield (pr_capacityFence input) ''targetSeats'')]"

definition authorization_bound :: "prepared_op \<Rightarrow> jsval \<Rightarrow> bool" where
  "authorization_bound input value \<longleftrightarrow>
     (let capacityFence = pr_capacityFence input; granted = jsfield value ''capacityFence'' in
      exactRecord value [''schemaVersion'', ''workspaceId'', ''actorSubject'', ''commandId'', ''requestHash'',
        ''capacityFence'', ''authorized'']
      \<and> jsfield value ''schemaVersion'' = JInt 1
      \<and> jsfield value ''workspaceId'' = JStr (pr_workspaceId input)
      \<and> jsfield value ''actorSubject'' = JStr (pr_ownerSubject input)
      \<and> jsfield value ''commandId'' = JStr (pr_commandId input)
      \<and> jsfield value ''requestHash'' = jsfield capacityFence ''requestHash''
      \<and> jsfield value ''authorized'' = JBool True
      \<and> exactRecord granted [''operationId'', ''requestHash'', ''fenceRevision'', ''targetSeats'']
      \<and> jsfield granted ''operationId'' = JStr (pr_commandId input)
      \<and> jsfield capacityFence ''operationId'' = JStr (pr_commandId input)
      \<and> jsfield granted ''requestHash'' = jsfield capacityFence ''requestHash''
      \<and> jsfield granted ''fenceRevision'' = jsfield capacityFence ''fenceRevision''
      \<and> jsfield granted ''targetSeats'' = jsfield capacityFence ''targetSeats'')"

text \<open>A body that is too long or no JSON text is \<open>None\<close>, like a request that was not answered.\<close>

definition authorization_answer :: "prepared_op \<Rightarrow> fetch_result \<Rightarrow> worker_error + unit" where
  "authorization_answer input r =
     (case r of
        Response status (Some value) \<Rightarrow>
          if \<not> http_ok status
          then Inl (AuthorizationError (if status = 403 \<and> commerceRecord value
              \<and> jsfield value ''code'' = JStr (js ''OPERATION_AUTHORIZATION_REVOKED'')
            then ''AUTHORIZATION_REVOKED'' else ''DEPENDENCY_UNAVAILABLE''))
          else if \<not> authorization_bound input value then Inl (AuthorizationError ''DEPENDENCY_UNAVAILABLE'')
          else Inr ()
      | _ \<Rightarrow> Inl (AuthorizationError ''DEPENDENCY_UNAVAILABLE''))"

definition authorize :: "provider \<Rightarrow> prepared_op \<Rightarrow> unit wop" where
  "authorize p input s =
     (if \<not> pv_accessConfigured p then (Inl (AuthorizationError ''DEPENDENCY_UNAVAILABLE''), s)
      else (authorization_answer input (pv_access p (length (wd_asked s)) (authorization_body input)),
        s\<lparr>wd_asked := wd_asked s @ [authorization_body input]\<rparr>))"

end
