(* ===== verification/Provider_Worker.thy ===== *)
theory Provider_Worker
  imports Yookassa
begin

text \<open>
  \<open>apps/billing/src/provider/wincrm-provider-worker.service.ts\<close>: a message names a queued operation; the
  worker claims it, prepares it, lets CRM Access authorize the creation of a payment, announces the
  dispatch, calls the provider, and settles the response or records the failure.
\<close>

section \<open>Failures\<close>

definition classifyFailure :: "worker_error \<Rightarrow> bool \<Rightarrow> string \<times> bool \<times> bool" where
  "classifyFailure error externalCallStarted =
     (case error of
        Thrown (ProviderResponse code) \<Rightarrow> (code, externalCallStarted, False)
      | AuthorizationError code \<Rightarrow> (code, False, code \<noteq> ''AUTHORIZATION_REVOKED'')
      | ProviderRequestError code retryable ambiguous \<Rightarrow>
          (if code = ''PROVIDER_TRANSPORT_UNKNOWN'' then ''TRANSPORT_UNKNOWN''
           else if code = ''PROVIDER_REJECTED'' then ''PROVIDER_REJECTED''
           else if code = ''PROVIDER_RETRYABLE'' then ''PROVIDER_RETRYABLE''
           else ''PROVIDER_INVALID_RESPONSE'',
           ambiguous \<or> externalCallStarted \<and> retryable, retryable)
      | _ \<Rightarrow> (if externalCallStarted then ''TRANSPORT_UNKNOWN'' else ''DEPENDENCY_UNAVAILABLE'', externalCallStarted, True))"

definition recordFailure :: "env \<Rightarrow> claim \<Rightarrow> worker_error \<Rightarrow> unit wop" where
  "recordFailure e claim error =
     wbind (wget wd_providerCallStarted) (\<lambda>started.
     wbind (wget wd_providerPaymentId) (\<lambda>paymentId.
     case classifyFailure error started of
       (code, ambiguous, retryable) \<Rightarrow>
         wdb (failProviderOperation e claim \<lparr>fl_code = code, fl_ambiguous = ambiguous, fl_retryable = retryable,
           fl_providerPaymentId = (if truthy paymentId then JStr (the paymentId) else JUndef)\<rparr>)))"

section \<open>Execution of a claim\<close>

definition setPaymentId :: "jsstring option \<Rightarrow> unit wop" where
  "setPaymentId i = wset (\<lambda>s. s\<lparr>wd_providerPaymentId := i\<rparr>)"

text \<open>The stored payment method, decrypted; a ciphertext that cannot be decrypted throws.\<close>

definition saved_method :: "provider \<Rightarrow> jsval \<Rightarrow> jsstring option wop" where
  "saved_method p ciphertext =
     (case ciphertext of
        JStr s \<Rightarrow>
          if s = [] then wret None
          else (case pv_decrypt p s of
              None \<Rightarrow> wthrow (OtherError ''Invalid payment method ciphertext'')
            | Some m \<Rightarrow> wret (Some m))
      | _ \<Rightarrow> wret None)"

definition create_input_of :: "create_request \<Rightarrow> jsstring option \<Rightarrow> create_input" where
  "create_input_of rq paymentMethodId =
     \<lparr>ci_paymentId = rq_paymentId rq, ci_amount = rq_amount rq, ci_billingPeriod = rq_billingPeriod rq,
      ci_autoRenew = rq_autoRenew rq, ci_customerEmail = rq_customerEmail rq, ci_customerPhone = rq_customerPhone rq,
      ci_returnUrl = (if rq_returnUrl rq \<in> {JUndef, JNull, JStr []} then JUndef else rq_returnUrl rq),
      ci_paymentMethodId = paymentMethodId, ci_kind = rq_kind rq\<rparr>"

text \<open>The call that creates the payment; \<open>None\<close> when the window for repeating the request has passed.\<close>

definition call_create :: "env \<Rightarrow> provider \<Rightarrow> claim \<Rightarrow> prepared_op \<Rightarrow> jsval option wop" where
  "call_create e p claim op =
     (case (pr_request op, pr_firstDispatchAt op) of
        (Some rq, Some at) \<Rightarrow>
          wbind (wdb (new_date e)) (\<lambda>now.
          if (case Date_parse e at of None \<Rightarrow> True | Some first \<Rightarrow> now - first \<ge> PROVIDER_WINDOW_MS)
          then wthen (wdb (failProviderOperation e claim \<lparr>fl_code = ''IDEMPOTENCY_WINDOW_EXPIRED'', fl_ambiguous = True,
                 fl_retryable = False, fl_providerPaymentId = JUndef\<rparr>))
               (wret None)
          else
            wbind (saved_method p (rq_paymentMethodCiphertext rq)) (\<lambda>paymentMethodId.
            if rq_kind rq = RECURRING \<and> \<not> truthy paymentMethodId then wthrow (OtherError ''SAVED_METHOD_MISSING'')
            else
              wthen (wset (\<lambda>s. s\<lparr>wd_providerCallStarted := True\<rparr>))
              (wbind (createPayment p (create_input_of rq paymentMethodId) (pr_idempotencyKey op)) (\<lambda>response.
              wret (Some response)))))
      | _ \<Rightarrow> wthrow (OtherError ''INVALID_PROVIDER_PREPARATION''))"

definition call_read :: "provider \<Rightarrow> prepared_op \<Rightarrow> jsval option wop" where
  "call_read p op =
     (if \<not> isYooKassaObjectId (opt_js JStr (pr_providerPaymentId op)) then wthrow (OtherError ''INVALID_PROVIDER_BINDING'')
      else
        wthen (setPaymentId (pr_providerPaymentId op))
        (wbind (if pr_action op = SYNC_RECEIPT then getReceipts p (the (pr_providerPaymentId op))
                else getPayment p (the (pr_providerPaymentId op))) (\<lambda>response. wret (Some response))))"

definition finish_call :: "env \<Rightarrow> claim \<Rightarrow> prepared_op \<Rightarrow> jsval option \<Rightarrow> unit wop" where
  "finish_call e claim op answer =
     (case answer of
        None \<Rightarrow> wret ()
      | Some value \<Rightarrow>
          wthen (if pr_action op = CREATE \<and> isYooKassaObjectId (jsfield value ''id'')
                 then setPaymentId (Some (as_str (jsfield value ''id''))) else wret ())
          (wdb (settleProviderOperation e claim value)))"

definition execute_prepared :: "env \<Rightarrow> provider \<Rightarrow> claim \<Rightarrow> prepared \<Rightarrow> unit wop" where
  "execute_prepared e p claim prepared =
     (case prepared of
        SKIP \<Rightarrow> wret ()
      | PREPARED op \<Rightarrow>
          wbind (if pr_action op = CREATE then call_create e p claim op else call_read p op) (finish_call e claim op))"

definition execute_body :: "env \<Rightarrow> provider \<Rightarrow> claim \<Rightarrow> unit wop" where
  "execute_body e p claim =
     wbind (wdb (prepareProviderOperation e claim)) (\<lambda>prepared.
     case prepared of
       SKIP \<Rightarrow> wret ()
     | PREPARED op \<Rightarrow>
         wthen (if truthy (pr_providerPaymentId op) then setPaymentId (pr_providerPaymentId op) else wret ())
         (wbind (if pr_action op = CREATE
                 then wthen (authorize p op) (wdb (beginProviderDispatch e claim))
                 else wret prepared) (execute_prepared e p claim)))"

definition execute :: "env \<Rightarrow> provider \<Rightarrow> claim \<Rightarrow> unit wop" where
  "execute e p claim =
     wthen (wset (\<lambda>s. s\<lparr>wd_providerCallStarted := False, wd_providerPaymentId := None\<rparr>))
     (wcatch (execute_body e p claim) (recordFailure e claim))"

section \<open>Messages\<close>

text \<open>A message: the bytes of its content and the value that \<open>JSON.parse\<close> reads from them, if any.\<close>

record message =
  ms_content :: "nat list"
  ms_contentType :: "jsstring option"
  ms_value :: "jsval option"
  ms_messageId :: jsval
  ms_type :: jsval
  ms_exchange :: jsstring
  ms_routingKey :: jsstring

definition lower_uuid :: "jsval \<Rightarrow> bool" where
  "lower_uuid v = (case v of JStr s \<Rightarrow> match_classes WINCRM_UUID s | _ \<Rightarrow> False)"

definition event_ok :: "jsval \<Rightarrow> message \<Rightarrow> bool" where
  "event_ok event m \<longleftrightarrow>
     exactRecord event [''schemaVersion'', ''eventType'', ''eventId'', ''operationId'']
     \<and> jsfield event ''schemaVersion'' = JInt 1
     \<and> jsfield event ''eventType'' = JStr (js WINCRM_PROVIDER_EVENT_TYPE)
     \<and> lower_uuid (jsfield event ''eventId'')
     \<and> lower_uuid (jsfield event ''operationId'')
     \<and> ms_messageId m = jsfield event ''eventId''
     \<and> ms_type m = JStr (js WINCRM_PROVIDER_EVENT_TYPE)
     \<and> ms_exchange m = js ''winwidget.events''
     \<and> ms_routingKey m = js WINCRM_PROVIDER_EVENT_TYPE"

definition parseWincrmProviderMessage :: "message \<Rightarrow> jsval option" where
  "parseWincrmProviderMessage m =
     (if length (ms_content m) > 1024 \<or> ms_contentType m \<noteq> Some (js ''application/json'') then None
      else case ms_value m of
        None \<Rightarrow> None
      | Some event \<Rightarrow> if event_ok event m then Some event else None)"

definition slice :: "nat \<Rightarrow> nat \<Rightarrow> jsstring \<Rightarrow> jsstring" where
  "slice i j s = take (j - i) (drop i s)"

text \<open>An identifier of the shape of a UUID, made of the digits of the content's hash.\<close>

definition invalid_event_id :: "jsstring \<Rightarrow> jsstring" where
  "invalid_event_id hash =
     slice 0 8 hash @ js ''-'' @ slice 8 12 hash @ js ''-4'' @ slice 13 16 hash @ js ''-8'' @ slice 17 20 hash
     @ js ''-'' @ slice 20 32 hash"

definition safe_evidence :: "jsstring \<Rightarrow> jsstring \<Rightarrow> jsval" where
  "safe_evidence eventId hash =
     obj [(''schemaVersion'', JInt 1), (''eventType'', JStr (js WINCRM_PROVIDER_EVENT_TYPE)), (''eventId'', JStr eventId),
       (''code'', JStr (js ''INVALID_EVENT'')), (''contentSha256'', JStr hash)]"

text \<open>
  One serializable transaction, which is not repeated when it is aborted; the receipt of an earlier
  delivery of the same content ends it.
\<close>

definition quarantineInvalidMessage :: "env \<Rightarrow> provider \<Rightarrow> message \<Rightarrow> unit wop" where
  "quarantineInvalidMessage e p m s =
     (let hash = pv_contentHash p (ms_content m); eventId = invalid_event_id hash in
      if conflicts e (tick (wd_db s)) 0 then (Inl (Thrown P2034), s)
      else if \<exists>row\<in>set (wd_invalid s). iv_eventId row = eventId then (Inr (), s)
      else
        wthen (wdb (randomUUID e))
        (wbind (wdb (new_date e)) (\<lambda>now.
         wset (\<lambda>s. s\<lparr>wd_invalid := wd_invalid s @ [\<lparr>iv_eventId = eventId, iv_failure = safe_evidence eventId hash,
           iv_deadLetter = safe_evidence eventId hash, iv_deduplicationKey = js ''wincrm-provider-invalid:'' @ hash,
           iv_deliveredAt = now\<rparr>]\<rparr>))) s)"

text \<open>A message is acknowledged or returned to the queue; an error leaves it with the broker.\<close>

datatype outcome = ACK | REQUEUE

definition handle :: "env \<Rightarrow> provider \<Rightarrow> message \<Rightarrow> outcome wop" where
  "handle e p m =
     (case parseWincrmProviderMessage m of
        None \<Rightarrow> wthen (quarantineInvalidMessage e p m) (wret ACK)
      | Some event \<Rightarrow>
          wbind (wdb (claimProviderOperation e event)) (\<lambda>result.
          case result of
            BUSY \<Rightarrow> wret REQUEUE
          | DONE \<Rightarrow> wret ACK
          | CLAIMED claim \<Rightarrow> wthen (execute e p claim) (wret ACK)))"

end
