(* ===== verification/Commerce_Commands.thy ===== *)
theory Commerce_Commands
  imports Commerce_Core
begin

text \<open>
  The operations of \<open>apps/billing/src/domain/wincrm-commerce.service.ts\<close> that CRM Access calls:
  \<open>summary\<close>, \<open>quote\<close>, \<open>checkout\<close>, \<open>changeSeats\<close>, \<open>disableRenewal\<close>, \<open>confirmRenewal\<close>, \<open>order\<close>,
  \<open>verifyOrder\<close>, \<open>history\<close>, \<open>commandStatus\<close> and \<open>closeCommand\<close>. For each state-changing operation
  the body of its transaction is a definition of its own (\<open>checkout_tx\<close> and so on).
\<close>

section \<open>Reading operations\<close>

record trial_view =
  tv_startsAt :: jsstring
  tv_expiresAt :: jsstring
  tv_seatLimit :: "int option"

record summary_view =
  su_billingVersion :: jsstring
  su_serverTime :: jsstring
  su_policy :: price_snapshot
  su_trial :: "trial_view option"
  su_period :: "period_view option"
  su_pendingOrder :: "order_view option"
  su_renewal :: renewal_view

definition created_later :: "order_row \<Rightarrow> order_row \<Rightarrow> bool" where
  "created_later a b \<longleftrightarrow> o_createdAt b < o_createdAt a"

definition pending_order :: "jsstring \<Rightarrow> db \<Rightarrow> order_row option" where
  "pending_order ws w = first_by created_later (filter (\<lambda>x. o_workspaceId x = ws \<and> open_order x) (orders w))"

definition summary :: "env \<Rightarrow> jsval \<Rightarrow> summary_view op" where
  "summary e dto =
     thn (context_check dto)
     (bnd (gets (find_account (ws_of dto))) (\<lambda>account.
     bnd requireCrmCommercialPolicy (\<lambda>policy.
     bnd (gets (find_entitlement (ws_of dto))) (\<lambda>trial.
     bnd (gets (latestPeriod (ws_of dto))) (\<lambda>period.
     bnd (gets (pending_order (ws_of dto))) (\<lambda>pending.
     bnd (gets (\<lambda>w. Option.bind pending (\<lambda>x. period_of_order (o_id x) w))) (\<lambda>pendingPeriod.
     bnd (gets (find_renewal (ws_of dto))) (\<lambda>renewal.
     thn (owner account dto)
     (bnd (new_date e) (\<lambda>now.
     bnd (case period of
            None \<Rightarrow> ret None
          | Some p \<Rightarrow> bnd (lift_sum (wincrmPeriodView p now)) (\<lambda>v. ret (Some v))) (\<lambda>view.
     ret \<lparr>su_billingVersion = (case account of None \<Rightarrow> js ''0'' | Some a \<Rightarrow> dec_int (a_version a)),
          su_serverTime = toISOString now,
          su_policy = wincrmPriceSnapshot policy,
          su_trial = Option.bind trial (\<lambda>t. Option.bind (e_trialStartedAt t) (\<lambda>started.
            if e_planCode t = ''TRIAL''
            then Some \<lparr>tv_startsAt = toISOString started, tv_expiresAt = toISOString (e_effectiveUntil t),
              tv_seatLimit = e_seatLimit t\<rparr>
            else None)),
          su_period = view,
          su_pendingOrder = map_option (\<lambda>x. wincrmOrderView x pendingPeriod now) pending,
          su_renewal = wincrmRenewalView renewal\<rparr>)))))))))))"

record quote_period =
  qp_id :: jsstring
  qp_version :: int
  qp_oldTotalSeats :: int
  qp_oldExpiresAt :: jsstring
  qp_oldPeriodPriceMinor :: jsstring
  qp_newPeriodPriceMinor :: jsstring

record quote_view =
  qv_billingVersion :: jsstring
  qv_serverTime :: jsstring
  qv_validUntil :: jsstring
  qv_intent :: jsval
  qv_cycle :: cycle
  qv_totalSeats :: int
  qv_amountMinor :: jsstring
  qv_priceSnapshot :: price_snapshot
  qv_startsAt :: jsstring
  qv_expiresAt :: jsstring
  qv_period :: "quote_period option"

definition seat_change_terms ::
    "period_row option \<Rightarrow> cycle \<Rightarrow> int \<Rightarrow> date \<Rightarrow> err + price_snapshot \<times> date \<times> date \<times> quote_period option" where
  "seat_change_terms current c seats now =
     (case current of
        None \<Rightarrow> Inl (Conflict ''wincrm_paid_period_required'')
      | Some p \<Rightarrow>
          if p_startsAt p > now \<or> p_expiresAt p \<le> now \<or> p_cycle p \<noteq> c
          then Inl (Conflict ''wincrm_paid_period_required'')
          else sbind (readWincrmPriceSnapshot (p_priceSnapshot p)) (\<lambda>snapshot.
            sbind (convert p seats now) (\<lambda>conversion.
            Inr (snapshot, p_startsAt p, sd_expiresAtMs conversion,
              Some \<lparr>qp_id = p_id p, qp_version = p_version p, qp_oldTotalSeats = p_totalSeats p,
                qp_oldExpiresAt = toISOString (p_expiresAt p),
                qp_oldPeriodPriceMinor = dec_int (sd_oldPeriodPriceMinor conversion),
                qp_newPeriodPriceMinor = dec_int (sd_newPeriodPriceMinor conversion)\<rparr>))))"

text \<open>\<open>Math.max\<close> with NaN is NaN; \<open>new Date\<close> of it is an invalid date.\<close>

definition new_period_terms ::
    "env \<Rightarrow> jsval \<Rightarrow> summary_view \<Rightarrow> period_row option \<Rightarrow> renewal_row option \<Rightarrow> date \<Rightarrow>
     err + price_snapshot \<times> date \<times> date \<times> quote_period option" where
  "new_period_terms e dto sm current renewal now =
     (let intent = jsfield dto ''intent''; c = as_cycle (jsfield dto ''cycle'');
          seats = as_int (jsfield dto ''totalSeats'') in
      sbind (require (Conflict ''wincrm_checkout_not_available'')
        (\<not> (intent = JStr (js ''CHECKOUT'')
             \<and> (su_pendingOrder sm \<noteq> None
                \<or> (case current of None \<Rightarrow> False | Some p \<Rightarrow> p_expiresAt p > now))))) (\<lambda>_.
      sbind (if intent = JStr (js ''RENEWAL'')
        then (case renewal of
            None \<Rightarrow> Inl (Conflict ''wincrm_renewal_not_available'')
          | Some r \<Rightarrow>
              if r_cycle r \<noteq> c \<or> r_totalSeats r \<noteq> seats then Inl (Conflict ''wincrm_renewal_not_available'')
              else Inr (timeClip (max now (case current of None \<Rightarrow> 0 | Some p \<Rightarrow> p_expiresAt p))))
        else (case su_trial sm of
            None \<Rightarrow> Inr (Some now)
          | Some t \<Rightarrow> Inr (Option.bind (Date_parse e (tv_expiresAt t)) (\<lambda>x. timeClip (max now x))))) (\<lambda>startsAt.
      sbind (wincrmPeriodEnd startsAt c) (\<lambda>expiresAt.
      Inr (su_policy sm, the startsAt, expiresAt, None)))))"

definition quote :: "env \<Rightarrow> jsval \<Rightarrow> quote_view op" where
  "quote e dto =
     thn (context_check dto)
     (thn (check Invalid
        (jsfield dto ''intent'' \<in> {JStr (js ''CHECKOUT''), JStr (js ''SEAT_CHANGE''), JStr (js ''RENEWAL'')}
         \<and> commerceCycle (jsfield dto ''cycle'') \<and> commerceInt (jsfield dto ''totalSeats'') 2 10000))
     (bnd (summary e dto) (\<lambda>sm.
     bnd (new_date e) (\<lambda>now.
     bnd (gets (latestPeriod (ws_of dto))) (\<lambda>current.
     bnd (gets (find_renewal (ws_of dto))) (\<lambda>renewal.
     let c = as_cycle (jsfield dto ''cycle''); seats = as_int (jsfield dto ''totalSeats'') in
     bnd (lift_sum (if jsfield dto ''intent'' = JStr (js ''SEAT_CHANGE'')
        then seat_change_terms current c seats now
        else new_period_terms e dto sm current renewal now)) (\<lambda>(snapshot, startsAt, expiresAt, period).
     bnd (lift_sum (wincrmPrice snapshot c seats)) (\<lambda>amount.
     ret \<lparr>qv_billingVersion = su_billingVersion sm, qv_serverTime = toISOString now,
          qv_validUntil = toISOString (now + 30000), qv_intent = jsfield dto ''intent'', qv_cycle = c,
          qv_totalSeats = seats, qv_amountMinor = dec_int amount, qv_priceSnapshot = snapshot,
          qv_startsAt = toISOString startsAt, qv_expiresAt = toISOString expiresAt,
          qv_period = period\<rparr>))))))))"

definition order :: "env \<Rightarrow> jsval \<Rightarrow> (jsstring \<times> order_view) op" where
  "order e dto =
     thn (context_check dto)
     (thn (check Invalid (commerceUuid (jsfield dto ''orderId'')))
     (bnd (gets (\<lambda>w. find (\<lambda>x. o_id x = as_str (jsfield dto ''orderId'') \<and> o_workspaceId x = ws_of dto
        \<and> o_ownerSubject x = actor_of dto) (orders w))) (\<lambda>found.
     bnd (the_or (NotFound ''WinCRM order not found'') found) (\<lambda>row.
     bnd (gets (period_of_order (o_id row))) (\<lambda>period.
     bnd (new_date e) (\<lambda>now.
     ret (toISOString now, wincrmOrderView row period now)))))))"

definition history_before :: "order_row \<Rightarrow> order_row \<Rightarrow> bool" where
  "history_before a b \<longleftrightarrow>
     o_createdAt b < o_createdAt a \<or> o_createdAt a = o_createdAt b \<and> o_id b < o_id a"

record history_view =
  hv_page :: int
  hv_pageSize :: int
  hv_total :: nat
  hv_items :: "order_view list"

definition owned_orders :: "jsval \<Rightarrow> db \<Rightarrow> order_row list" where
  "owned_orders dto w =
     filter (\<lambda>x. o_workspaceId x = ws_of dto \<and> o_ownerSubject x = actor_of dto) (orders w)"

definition history :: "env \<Rightarrow> jsval \<Rightarrow> history_view op" where
  "history e dto =
     thn (context_check dto)
     (thn (check Invalid (commerceInt (jsfield dto ''page'') 1 1000000 \<and> commerceInt (jsfield dto ''pageSize'') 1 100))
     (let page = as_int (jsfield dto ''page''); pageSize = as_int (jsfield dto ''pageSize'') in
     bnd (gets (\<lambda>w. take (nat pageSize) (drop (nat ((page - 1) * pageSize))
        (order_by history_before (owned_orders dto w))))) (\<lambda>items.
     bnd (gets (\<lambda>w. length (owned_orders dto w))) (\<lambda>total.
     bnd (gets (\<lambda>w. map (\<lambda>x. period_of_order (o_id x) w) items)) (\<lambda>itemPeriods.
     bnd (new_date e) (\<lambda>now.
     ret \<lparr>hv_page = page, hv_pageSize = pageSize, hv_total = total,
          hv_items = map (\<lambda>(x, p). wincrmOrderView x p now) (zip items itemPeriods)\<rparr>))))))"

definition commandStatus :: "env \<Rightarrow> jsval \<Rightarrow> command_proof op" where
  "commandStatus e dto =
     thn (context_check dto)
     (thn (check Invalid (commerceUuid (jsfield dto ''commandId'')
        \<and> match_classes WINCRM_HASH (as_str (jsfield dto ''requestHash''))))
     (proof_of e (ws_of dto) (cmd_of dto) (as_str (jsfield dto ''requestHash'')) (actor_of dto)))"

section \<open>Checkout\<close>

definition checkout_dto_ok :: "jsval \<Rightarrow> bool" where
  "checkout_dto_ok dto \<longleftrightarrow>
     commerceCycle (jsfield dto ''cycle'')
     \<and> commerceInt (jsfield dto ''totalSeats'') 2 10000
     \<and> commerceInt (jsfield dto ''expectedPolicyVersion'') 1 2147483646
     \<and> (jsfield dto ''autoRenew'' = JBool True \<and> jsfield dto ''consentVersion'' = JStr WINCRM_CONSENT_VERSION
        \<or> jsfield dto ''autoRenew'' = JBool False \<and> jsfield dto ''consentVersion'' = JNull)"

definition contact_usable :: "contact_row option \<Rightarrow> bool" where
  "contact_usable identity =
     (case identity of
        None \<Rightarrow> False
      | Some i \<Rightarrow> i_status i = ''ACTIVE'' \<and> \<not> i_tombstone i \<and> i_deletedAt i = None
          \<and> (i_email i \<notin> {None, Some []} \<or> i_phone i \<notin> {None, Some []}))"

definition checkout_order ::
    "env \<Rightarrow> jsval \<Rightarrow> policy_row \<Rightarrow> contact_row \<Rightarrow> date \<Rightarrow> jsstring \<Rightarrow> int \<Rightarrow> date \<Rightarrow> order_row" where
  "checkout_order e dto policy identity now orderId amount createdAt =
     (let autoRenew = (jsfield dto ''autoRenew'' = JBool True) in
      \<lparr>o_id = orderId, o_workspaceId = ws_of dto, o_ownerSubject = actor_of dto, o_commandId = cmd_of dto,
       o_capacityCommandId = cmd_of dto, o_capacityFence = jsfield dto ''capacityFence'', o_version = 1,
       o_kind = ONE_TIME, o_status = O_PENDING, o_cycle = as_cycle (jsfield dto ''cycle''),
       o_totalSeats = as_int (jsfield dto ''totalSeats''), o_amountMinor = amount,
       o_policyVersion = pol_version policy,
       o_priceSnapshot = snapshot_json (wincrmPriceSnapshot policy), o_autoRenew = autoRenew,
       o_consentVersion = (if autoRenew then Some WINCRM_CONSENT_VERSION else None),
       o_consentText = (if autoRenew then Some WINCRM_CONSENT_TEXT else None),
       o_consentedAt = (if autoRenew then Some now else None),
       o_customerEmail = i_email identity, o_customerPhone = i_phone identity,
       o_providerPaymentId = None,
       o_providerIdempotencyKey = wincrmProviderKey e [js ''checkout'', orderId],
       o_providerStatus = None, o_confirmationUrl = None, o_checkoutExpiresAt = now + 3600000,
       o_succeededAt = None, o_cancellationReason = None, o_recurringCycleKey = None,
       o_recurringAttempt = 0, o_expectedRenewalVersion = None, o_createdAt = createdAt\<rparr>)"

definition bump_account :: "jsstring \<Rightarrow> int \<Rightarrow> account_row op" where
  "bump_account ws version = update_account ws (\<lambda>a. a\<lparr>a_version := version\<rparr>)"

definition checkout_body :: "env \<Rightarrow> jsval \<Rightarrow> string \<Rightarrow> jsstring \<Rightarrow> command_proof op" where
  "checkout_body e dto type hash =
     thn (requireEnabled e)
     (bnd (accountForCommand dto) (\<lambda>account.
     bnd (new_date e) (\<lambda>now.
     bnd requireCrmCommercialPolicy (\<lambda>policy.
     bnd (gets (latestPeriod (ws_of dto))) (\<lambda>period.
     bnd (gets (\<lambda>w. find (\<lambda>x. o_workspaceId x = ws_of dto \<and> open_order x) (orders w))) (\<lambda>pending.
     bnd (gets (find_contact (actor_of dto))) (\<lambda>identity.
     thn (check (Conflict ''wincrm_policy_version_conflict'')
        (JInt (pol_version policy) = jsfield dto ''expectedPolicyVersion''))
     (thn (check (Conflict ''wincrm_checkout_not_available'')
        (pending = None \<and> (case period of None \<Rightarrow> True | Some p \<Rightarrow> p_expiresAt p \<le> now)))
     (thn (check (Conflict ''wincrm_billing_contact_required'') (contact_usable identity))
     (bnd (randomUUID e) (\<lambda>orderId.
     bnd (lift_sum (wincrmPrice (wincrmPriceSnapshot policy) (as_cycle (jsfield dto ''cycle''))
        (as_int (jsfield dto ''totalSeats'')))) (\<lambda>amount.
     bnd (new_date e) (\<lambda>createdAt.
     bnd (create_order (checkout_order e dto policy (the identity) now orderId amount createdAt)) (\<lambda>order.
     thn (create_command
       \<lparr>c_commandId = cmd_of dto, c_workspaceId = ws_of dto, c_actorSubject = actor_of dto,
        c_commandType = type, c_requestHash = hash, c_expectedVersion = expected_version dto,
        c_capacityFence = Some (jsfield dto ''capacityFence''), c_status = C_PENDING,
        c_orderId = Some (o_id order), c_periodId = None, c_resultVersion = None\<rparr>)
     (thn (bump_account (ws_of dto) (a_version account + 1))
     (thn (enqueue e order CREATE (o_providerIdempotencyKey order) None None)
     (proof_of e (ws_of dto) (cmd_of dto) hash (actor_of dto))))))))))))))))))"

text \<open>Every command first answers from its stored result.\<close>

definition or_replay :: "env \<Rightarrow> jsval \<Rightarrow> string \<Rightarrow> jsstring \<Rightarrow> command_proof op \<Rightarrow> command_proof op" where
  "or_replay e dto type hash body =
     bnd (replay e dto type hash) (\<lambda>prior.
     case prior of Some p \<Rightarrow> ret p | None \<Rightarrow> body)"

definition checkout :: "env \<Rightarrow> jsval \<Rightarrow> command_proof op" where
  "checkout e dto =
     thn (command_check dto)
     (thn (check Invalid (checkout_dto_ok dto))
     (bnd (lift_sum (wincrmCommerceRequestHash e ''WINCRM_CHECKOUT'' dto)) (\<lambda>hash.
     thn (fence (jsfield dto ''capacityFence'') (cmd_of dto) hash (jsfield dto ''totalSeats''))
     (transaction e (or_replay e dto ''WINCRM_CHECKOUT'' hash (checkout_body e dto ''WINCRM_CHECKOUT'' hash))))))"

section \<open>Seat changes\<close>

definition seat_dto_ok :: "jsval \<Rightarrow> bool" where
  "seat_dto_ok dto \<longleftrightarrow>
     commerceUuid (jsfield dto ''expectedPeriodId'')
     \<and> commerceInt (jsfield dto ''expectedPeriodVersion'') 1 2147483646
     \<and> commerceInt (jsfield dto ''newTotalSeats'') 2 10000"

definition reseat_period :: "int \<Rightarrow> date \<Rightarrow> int \<Rightarrow> period_row \<Rightarrow> period_row" where
  "reseat_period seats expiresAt graceDays p =
     p\<lparr>p_totalSeats := seats, p_expiresAt := expiresAt,
       p_graceUntil := expiresAt + graceDays * WINCRM_DAY_MS, p_version := p_version p + 1\<rparr>"

definition reseat_renewal :: "int \<Rightarrow> int \<Rightarrow> date \<Rightarrow> renewal_row \<Rightarrow> renewal_row" where
  "reseat_renewal seats amount expiresAt r =
     r\<lparr>r_totalSeats := seats, r_amountMinor := amount, r_nextChargeAt := expiresAt,
       r_retryStartedAt := None, r_nextRetryAt := None, r_retryAttempt := 0, r_version := r_version r + 1\<rparr>"

definition changeSeats_renewal ::
    "env \<Rightarrow> jsval \<Rightarrow> period_row \<Rightarrow> date \<Rightarrow> renewal_row option \<Rightarrow> unit op" where
  "changeSeats_renewal e dto current expiresAt renewal =
     (case renewal of
        None \<Rightarrow> ret ()
      | Some r \<Rightarrow>
          let seats = as_int (jsfield dto ''newTotalSeats'') in
          bnd (lift_sum (readWincrmPriceSnapshot (r_priceSnapshot r))) (\<lambda>snapshot.
          bnd (lift_sum (wincrmPrice snapshot (r_cycle r) seats)) (\<lambda>amount.
          bnd (update_renewal (ws_of dto) (reseat_renewal seats amount expiresAt)) (\<lambda>updated.
          consent e updated (actor_of dto) (cmd_of dto) ''SEATS_CHANGED''
            (obj [(''beforeSeats'', JInt (p_totalSeats current)), (''afterSeats'', JInt seats),
              (''oldExpiresAt'', iso_js (p_expiresAt current)), (''newExpiresAt'', iso_js expiresAt)])))))"

definition changeSeats_body :: "env \<Rightarrow> jsval \<Rightarrow> string \<Rightarrow> jsstring \<Rightarrow> command_proof op" where
  "changeSeats_body e dto type hash =
     thn (requireEnabled e)
     (bnd (accountForCommand dto) (\<lambda>account.
     bnd (new_date e) (\<lambda>now.
     bnd (gets (latestPeriod (ws_of dto))) (\<lambda>found.
     bnd (the_or (Conflict ''wincrm_period_version_conflict'') found) (\<lambda>current.
     thn (check (Conflict ''wincrm_period_version_conflict'')
        (JStr (p_id current) = jsfield dto ''expectedPeriodId''
         \<and> JInt (p_version current) = jsfield dto ''expectedPeriodVersion''))
     (bnd (gets (find_renewal (ws_of dto))) (\<lambda>renewal.
     bnd (gets (\<lambda>w. count_rows (\<lambda>x. o_workspaceId x = ws_of dto \<and> open_order x) (orders w))) (\<lambda>open.
     thn (check (Conflict ''wincrm_provider_operation_pending'')
        ((case renewal of None \<Rightarrow> True | Some r \<Rightarrow> \<not> r_dispatchPending r) \<and> open = 0))
     (bnd (lift_sum (convert current (as_int (jsfield dto ''newTotalSeats'')) now)) (\<lambda>conversion.
     bnd (lift_sum (readWincrmPriceSnapshot (p_priceSnapshot current))) (\<lambda>snapshot.
     let expiresAt = sd_expiresAtMs conversion in
     thn (update_period (\<lambda>x. p_id x = p_id current \<and> p_version x = p_version current)
        (reseat_period (as_int (jsfield dto ''newTotalSeats'')) expiresAt (ps_graceDays snapshot)))
     (thn (update_account (ws_of dto) (\<lambda>a. a\<lparr>a_version := a_version account + 1,
        a_capacityCommandId := Some (cmd_of dto), a_capacityFence := Some (jsfield dto ''capacityFence'')\<rparr>))
     (thn (changeSeats_renewal e dto current expiresAt renewal)
     (thn (commitCommand dto type hash (a_version account + 1) (Some (p_id current))
        (Some (jsfield dto ''capacityFence'')) None)
     (thn (enqueueCrmEntitlementChanged e (ws_of dto))
     (proof_of e (ws_of dto) (cmd_of dto) hash (actor_of dto)))))))))))))))))"

definition changeSeats :: "env \<Rightarrow> jsval \<Rightarrow> command_proof op" where
  "changeSeats e dto =
     thn (command_check dto)
     (thn (check Invalid (seat_dto_ok dto))
     (bnd (lift_sum (wincrmCommerceRequestHash e ''WINCRM_SEAT_CHANGE'' dto)) (\<lambda>hash.
     thn (fence (jsfield dto ''capacityFence'') (cmd_of dto) hash (jsfield dto ''newTotalSeats''))
     (transaction e (or_replay e dto ''WINCRM_SEAT_CHANGE'' hash
        (changeSeats_body e dto ''WINCRM_SEAT_CHANGE'' hash))))))"

section \<open>Renewal commands\<close>

definition disable_renewal :: "date \<Rightarrow> renewal_row \<Rightarrow> renewal_row" where
  "disable_renewal now r = r\<lparr>r_status := R_USER_DISABLED, r_disabledAt := Some now, r_version := r_version r + 1\<rparr>"

definition confirm_renewal :: "int \<Rightarrow> price_snapshot \<Rightarrow> date \<Rightarrow> renewal_row \<Rightarrow> renewal_row" where
  "confirm_renewal amount snapshot now r =
     r\<lparr>r_status := R_ACTIVE, r_amountMinor := amount, r_priceSnapshot := snapshot_json snapshot,
       r_consentVersion := WINCRM_CONSENT_VERSION, r_consentText := WINCRM_CONSENT_TEXT,
       r_consentedAt := now, r_disabledAt := None, r_lastErrorCode := None, r_version := r_version r + 1\<rparr>"

definition renewal_change :: "env \<Rightarrow> jsval \<Rightarrow> bool \<Rightarrow> renewal_row \<Rightarrow> (renewal_row \<Rightarrow> renewal_row) op" where
  "renewal_change e dto confirm renewal =
     bnd (new_date e) (\<lambda>disabledAt.
     if \<not> confirm then ret (disable_renewal disabledAt)
     else
       bnd requireCrmCommercialPolicy (\<lambda>policy.
       thn (check (Conflict ''wincrm_renewal_confirmation_conflict'')
          (JInt (pol_version policy) = jsfield dto ''expectedPolicyVersion''
           \<and> jsfield dto ''consentVersion'' = JStr WINCRM_CONSENT_VERSION
           \<and> r_status renewal = R_PRICE_CONFIRMATION_REQUIRED \<and> \<not> r_dispatchPending renewal))
       (bnd (lift_sum (wincrmPrice (wincrmPriceSnapshot policy) (r_cycle renewal) (r_totalSeats renewal))) (\<lambda>amount.
       bnd (new_date e) (\<lambda>now.
       ret (confirm_renewal amount (wincrmPriceSnapshot policy) now))))))"

definition renewalCommand_body :: "env \<Rightarrow> jsval \<Rightarrow> bool \<Rightarrow> string \<Rightarrow> jsstring \<Rightarrow> command_proof op" where
  "renewalCommand_body e dto confirm type hash =
     thn (if confirm then requireEnabled e else ret ())
     (bnd (accountForCommand dto) (\<lambda>account.
     bnd (gets (find_renewal (ws_of dto))) (\<lambda>found.
     bnd (the_or (Conflict ''wincrm_renewal_version_conflict'') found) (\<lambda>renewal.
     thn (check (Conflict ''wincrm_renewal_version_conflict'')
        (JInt (r_version renewal) = jsfield dto ''expectedRenewalVersion''))
     (bnd (renewal_change e dto confirm renewal) (\<lambda>change.
     bnd (update_renewal (ws_of dto) change) (\<lambda>updated.
     thn (consent e updated (actor_of dto) (cmd_of dto) (if confirm then ''PRICE_CONFIRMED'' else ''DISABLED'')
        (obj [(''previousVersion'', JInt (r_version renewal)),
          (''previousAmountMinor'', JStr (dec_int (r_amountMinor renewal))),
          (''nextAmountMinor'', JStr (dec_int (r_amountMinor updated))),
          (''dispatchPending'', JBool (r_dispatchPending renewal)),
          (''consentVersion'', JStr (r_consentVersion updated)),
          (''consentText'', JStr (r_consentText updated))]))
     (thn (bump_account (ws_of dto) (a_version account + 1))
     (thn (commitCommand dto type hash (a_version account + 1) None None None)
     (proof_of e (ws_of dto) (cmd_of dto) hash (actor_of dto)))))))))))"

definition renewalCommand :: "env \<Rightarrow> jsval \<Rightarrow> bool \<Rightarrow> command_proof op" where
  "renewalCommand e dto confirm =
     (let type = (if confirm then ''WINCRM_CONFIRM_RENEWAL'' else ''WINCRM_DISABLE_RENEWAL'') in
     thn (command_check dto)
     (thn (check Invalid (commerceInt (jsfield dto ''expectedRenewalVersion'') 1 2147483646))
     (bnd (lift_sum (wincrmCommerceRequestHash e type dto)) (\<lambda>hash.
     transaction e (or_replay e dto type hash (renewalCommand_body e dto confirm type hash))))))"

definition disableRenewal :: "env \<Rightarrow> jsval \<Rightarrow> command_proof op" where
  "disableRenewal e dto = renewalCommand e dto False"

definition confirmRenewal :: "env \<Rightarrow> jsval \<Rightarrow> command_proof op" where
  "confirmRenewal e dto = renewalCommand e dto True"

section \<open>Verification of an order\<close>

definition verifyOrder_body :: "env \<Rightarrow> jsval \<Rightarrow> string \<Rightarrow> jsstring \<Rightarrow> command_proof op" where
  "verifyOrder_body e dto type hash =
     bnd (accountForCommand dto) (\<lambda>account.
     bnd (gets (\<lambda>w. find (\<lambda>x. o_id x = as_str (jsfield dto ''orderId'') \<and> o_workspaceId x = ws_of dto
        \<and> o_ownerSubject x = actor_of dto) (orders w))) (\<lambda>found.
     bnd (the_or (NotFound ''WinCRM order not found'') found) (\<lambda>order.
     thn (check (Conflict ''wincrm_order_version_conflict'')
        (JInt (o_version order) = jsfield dto ''expectedOrderVersion''))
     (thn (check (Conflict ''wincrm_order_verification_unavailable'')
        (o_providerPaymentId order \<notin> {None, Some []} \<and> open_order order))
     (thn (enqueue e order VERIFY (wincrmProviderKey e [js ''manual-verify'', cmd_of dto])
        (o_providerPaymentId order) None)
     (thn (bump_account (ws_of dto) (a_version account + 1))
     (thn (commitCommand dto type hash (a_version account + 1) None None (Some (o_id order)))
     (proof_of e (ws_of dto) (cmd_of dto) hash (actor_of dto)))))))))"

definition verifyOrder :: "env \<Rightarrow> jsval \<Rightarrow> command_proof op" where
  "verifyOrder e dto =
     thn (command_check dto)
     (thn (check Invalid (commerceUuid (jsfield dto ''orderId'')
        \<and> commerceInt (jsfield dto ''expectedOrderVersion'') 1 2147483646))
     (bnd (lift_sum (wincrmCommerceRequestHash e ''WINCRM_VERIFY_ORDER'' dto)) (\<lambda>hash.
     transaction e (or_replay e dto ''WINCRM_VERIFY_ORDER'' hash
        (verifyOrder_body e dto ''WINCRM_VERIFY_ORDER'' hash)))))"

section \<open>Closing a command\<close>

definition close_order :: "order_row \<Rightarrow> order_row" where
  "close_order x = x\<lparr>o_status := O_CANCELLED,
     o_cancellationReason := Some (js ''USER_CANCELLED_BEFORE_DISPATCH''), o_version := o_version x + 1\<rparr>"

definition dispatched :: "jsstring \<Rightarrow> db \<Rightarrow> nat" where
  "dispatched orderId w = count_rows (\<lambda>x. op_orderId x = orderId
     \<and> (op_firstDispatchAt x \<noteq> None \<or> op_status x = P_PROCESSING)) (operations w)"

definition close_current :: "command_row \<Rightarrow> unit op" where
  "close_current current =
     (case c_orderId current of
        None \<Rightarrow> ret ()
      | Some orderId \<Rightarrow>
          if c_status current \<noteq> C_PENDING then ret ()
          else bnd (gets (dispatched orderId)) (\<lambda>n.
            if n \<noteq> 0 then ret ()
            else thn (updateMany_order (\<lambda>x. o_id x = orderId \<and> o_status x = O_PENDING) close_order)
              (thn (update_command (c_commandId current) (\<lambda>c. c\<lparr>c_status := C_CANCELLED\<rparr>)) (ret ()))))"

definition closeCommand_tx :: "env \<Rightarrow> jsval \<Rightarrow> command_proof op" where
  "closeCommand_tx e dto =
     (let hash = as_str (jsfield dto ''requestHash'') in
     bnd (gets (find_command (cmd_of dto))) (\<lambda>found.
     thn (case found of
        None \<Rightarrow>
          bnd (gets (find_receipt (cmd_of dto))) (\<lambda>receipt.
          thn (check (Conflict ''wincrm_command_conflict'') (receipt = None))
          (thn (create_command
            \<lparr>c_commandId = cmd_of dto, c_workspaceId = ws_of dto, c_actorSubject = actor_of dto,
             c_commandType = (if jsfield dto ''commandType'' = JStr (js ''WINCRM_CHECKOUT'')
               then ''WINCRM_CHECKOUT'' else ''WINCRM_SEAT_CHANGE''),
             c_requestHash = hash, c_expectedVersion = 0,
             c_capacityFence = Some (jsfield dto ''capacityFence''), c_status = C_CANCELLED,
             c_orderId = None, c_periodId = None, c_resultVersion = None\<rparr>) (ret ())))
      | Some current \<Rightarrow>
          thn (matchCommand current (ws_of dto) (actor_of dto) hash) (close_current current))
     (proof_of e (ws_of dto) (cmd_of dto) hash (actor_of dto))))"

definition closeCommand :: "env \<Rightarrow> jsval \<Rightarrow> command_proof op" where
  "closeCommand e dto =
     thn (context_check dto)
     (thn (check Invalid (commerceUuid (jsfield dto ''commandId'')
        \<and> match_classes WINCRM_HASH (as_str (jsfield dto ''requestHash''))
        \<and> jsfield dto ''commandType'' \<in> {JStr (js ''WINCRM_CHECKOUT''), JStr (js ''WINCRM_SEAT_CHANGE'')}))
     (thn (fence (jsfield dto ''capacityFence'') (cmd_of dto) (as_str (jsfield dto ''requestHash''))
        (jsfield (jsfield dto ''capacityFence'') ''targetSeats''))
     (transaction e (closeCommand_tx e dto))))"

end
