(* ===== verification/Renewal_Scheduler.thy ===== *)
theory Renewal_Scheduler
  imports Provider_Ops
begin

text \<open>
  The scheduler of \<open>apps/billing/src/domain/wincrm-commerce.service.ts\<close> (\<open>advanceRenewals\<close>): it
  announces the paid periods that have started and creates the recurring orders that are due. Each
  period and each renewal is handled in a transaction of its own, so what was committed before an
  error stays; the loop is the function \<open>commits\<close>.
\<close>

section \<open>Periods that have started\<close>

definition starts_earlier :: "period_row \<Rightarrow> period_row \<Rightarrow> bool" where
  "starts_earlier a b \<longleftrightarrow> p_startsAt a < p_startsAt b \<or> p_startsAt a = p_startsAt b \<and> p_id a < p_id b"

definition due_periods :: "date \<Rightarrow> db \<Rightarrow> period_row list" where
  "due_periods now w =
     take 100 (order_by starts_earlier
       (filter (\<lambda>p. p_activationNotifiedAt p = None \<and> p_startsAt p \<le> now) (periods w)))"

definition activation_tx :: "env \<Rightarrow> jsstring \<Rightarrow> nat op" where
  "activation_tx e periodId =
     bnd (gets (find_period periodId)) (\<lambda>found.
     bnd (the_or P2025 found) (\<lambda>current.
     bnd (if p_activationNotifiedAt current \<noteq> None then ret True
          else bnd (new_date e) (\<lambda>time. ret (p_startsAt current > time))) (\<lambda>skip.
     if skip then ret 0
     else
       thn (enqueueCrmEntitlementChanged e (p_workspaceId current))
       (bnd (new_date e) (\<lambda>notifiedAt.
       thn (update_period (\<lambda>x. p_id x = p_id current) (\<lambda>p. p\<lparr>p_activationNotifiedAt := Some notifiedAt\<rparr>))
       (ret 0))))))"

section \<open>Charges\<close>

definition charges_earlier :: "renewal_row \<Rightarrow> renewal_row \<Rightarrow> bool" where
  "charges_earlier a b \<longleftrightarrow> r_nextChargeAt a < r_nextChargeAt b"

definition charge_due :: "date \<Rightarrow> renewal_row \<Rightarrow> bool" where
  "charge_due now r \<longleftrightarrow>
     r_status r = R_ACTIVE \<and> \<not> r_dispatchPending r
     \<and> (case r_nextRetryAt r of Some t \<Rightarrow> t \<le> now | None \<Rightarrow> r_nextChargeAt r \<le> now)"

definition due_renewals :: "date \<Rightarrow> db \<Rightarrow> renewal_row list" where
  "due_renewals now w = take 100 (order_by charges_earlier (filter (charge_due now) (renewals w)))"

definition renewal_due :: "renewal_row \<Rightarrow> date" where
  "renewal_due renewal = (case r_nextRetryAt renewal of Some t \<Rightarrow> t | None \<Rightarrow> r_nextChargeAt renewal)"

definition charge_window :: "renewal_row \<Rightarrow> int" where
  "charge_window renewal = (if r_nextRetryAt renewal \<noteq> None then 1 else 24) * 3600000"

definition pause :: "env \<Rightarrow> renewal_row \<Rightarrow> renewal_status \<Rightarrow> string \<Rightarrow> nat op" where
  "pause e renewal status code =
     bnd (update_renewal (r_workspaceId renewal)
       (\<lambda>r. r\<lparr>r_status := status, r_lastErrorCode := Some (js code), r_version := r_version r + 1\<rparr>)) (\<lambda>updated.
     bnd (randomUUID e) (\<lambda>commandId.
     thn (consent e updated (r_ownerSubject renewal) commandId
       (if status = R_REVOKED then ''REVOKED'' else ''PAUSED'') (obj [(''reason'', JStr (js code))]))
     (ret 0)))"

text \<open>
  \<open>JSON.stringify\<close> of the compared values: an array of integers, so equal texts are equal arrays.
\<close>

definition comparable :: "price_snapshot \<Rightarrow> int list" where
  "comparable v =
     [ps_monthlyPriceMinor v, ps_yearlyPriceMinor v, ps_additionalSeatMonthlyPriceMinor v,
      ps_additionalSeatYearlyPriceMinor v, ps_includedSeats v, ps_graceDays v]"

definition cycle_key :: "renewal_row \<Rightarrow> jsstring" where
  "cycle_key renewal =
     r_id renewal @ js '':'' @ toISOString (r_nextChargeAt renewal) @ js '':attempt:''
       @ dec_int (r_retryAttempt renewal)"

definition recurring_order ::
    "env \<Rightarrow> renewal_row \<Rightarrow> account_row \<Rightarrow> contact_row \<Rightarrow> price_snapshot \<Rightarrow> date \<Rightarrow> jsstring \<Rightarrow> jsstring \<Rightarrow> date \<Rightarrow>
     order_row" where
  "recurring_order e renewal account identity snapshot time newId commandId createdAt =
     \<lparr>o_id = newId, o_workspaceId = r_workspaceId renewal, o_ownerSubject = r_ownerSubject renewal,
      o_commandId = commandId, o_capacityCommandId = the (a_capacityCommandId account),
      o_capacityFence = the (a_capacityFence account), o_version = 1, o_kind = RECURRING,
      o_status = O_PENDING, o_cycle = r_cycle renewal, o_totalSeats = r_totalSeats renewal,
      o_amountMinor = r_amountMinor renewal, o_policyVersion = ps_policyVersion snapshot,
      o_priceSnapshot = r_priceSnapshot renewal, o_autoRenew = True,
      o_consentVersion = Some (r_consentVersion renewal), o_consentText = Some (r_consentText renewal),
      o_consentedAt = Some (r_consentedAt renewal), o_customerEmail = i_email identity,
      o_customerPhone = i_phone identity, o_providerPaymentId = None,
      o_providerIdempotencyKey = wincrmProviderKey e [js ''recurring'', cycle_key renewal],
      o_providerStatus = None, o_confirmationUrl = None,
      o_checkoutExpiresAt = min (time + PROVIDER_WINDOW_MS) (renewal_due renewal + charge_window renewal),
      o_succeededAt = None, o_cancellationReason = None, o_recurringCycleKey = Some (cycle_key renewal),
      o_recurringAttempt = r_retryAttempt renewal, o_expectedRenewalVersion = Some (r_version renewal + 1),
      o_createdAt = createdAt\<rparr>"

definition charge_order ::
    "env \<Rightarrow> renewal_row \<Rightarrow> account_row \<Rightarrow> contact_row \<Rightarrow> price_snapshot \<Rightarrow> date \<Rightarrow> nat op" where
  "charge_order e renewal account identity snapshot time =
     bnd (randomUUID e) (\<lambda>newId.
     bnd (randomUUID e) (\<lambda>commandId.
     bnd (new_date e) (\<lambda>createdAt.
     bnd (create_order (recurring_order e renewal account identity snapshot time newId commandId createdAt)) (\<lambda>ord.
     thn (update_renewal (r_workspaceId renewal)
       (\<lambda>r. r\<lparr>r_dispatchPending := True, r_version := r_version r + 1\<rparr>))
     (thn (update_account (r_workspaceId renewal) (\<lambda>a. a\<lparr>a_version := a_version a + 1\<rparr>))
     (thn (enqueue e ord CREATE (o_providerIdempotencyKey ord) None None)
     (ret 1)))))))"

definition owner_available :: "contact_row option \<Rightarrow> bool" where
  "owner_available identity =
     (case identity of
        None \<Rightarrow> False
      | Some i \<Rightarrow> i_status i = ''ACTIVE'' \<and> \<not> i_tombstone i \<and> i_deletedAt i = None)"

definition period_charged :: "period_row option \<Rightarrow> renewal_row \<Rightarrow> date \<Rightarrow> bool" where
  "period_charged period renewal time =
     (case period of
        None \<Rightarrow> False
      | Some p \<Rightarrow> p_expiresAt p \<le> time \<and> p_expiresAt p = r_nextChargeAt renewal
          \<and> p_totalSeats p = r_totalSeats renewal)"

definition charge_priced :: "env \<Rightarrow> renewal_row \<Rightarrow> account_row \<Rightarrow> contact_row \<Rightarrow> date \<Rightarrow> nat op" where
  "charge_priced e renewal account identity time =
     bnd (gets (\<lambda>w. count_rows (\<lambda>x. o_workspaceId x = r_workspaceId renewal \<and> open_order x) (orders w))) (\<lambda>open.
     if open \<noteq> 0 then ret 0
     else
       bnd requireCrmCommercialPolicy (\<lambda>policyRow.
       bnd (lift_sum (readWincrmPriceSnapshot (r_priceSnapshot renewal))) (\<lambda>snapshot.
       if comparable (wincrmPriceSnapshot policyRow) \<noteq> comparable snapshot
       then pause e renewal R_PRICE_CONFIRMATION_REQUIRED ''PRICE_CHANGED''
       else
         bnd (gets (\<lambda>w. find (\<lambda>x. o_recurringCycleKey x = Some (cycle_key renewal)) (orders w))) (\<lambda>existing.
         if existing \<noteq> None then ret 0
         else charge_order e renewal account identity snapshot time))))"

definition charge_tx :: "env \<Rightarrow> jsstring \<Rightarrow> nat op" where
  "charge_tx e workspaceId =
     bnd (gets (find_renewal workspaceId)) (\<lambda>found.
     bnd (the_or P2025 found) (\<lambda>renewal.
     bnd (gets (find_account workspaceId)) (\<lambda>foundAccount.
     bnd (the_or P2025 foundAccount) (\<lambda>account.
     if r_status renewal \<noteq> R_ACTIVE \<or> r_dispatchPending renewal
        \<or> \<not> truthy (a_capacityCommandId account) \<or> \<not> json_truthy (a_capacityFence account)
     then ret 0
     else
       bnd (new_date e) (\<lambda>time.
       if renewal_due renewal > time then ret 0
       else if time - renewal_due renewal \<ge> charge_window renewal
       then pause e renewal R_TECHNICAL_PAUSE ''CHARGE_WINDOW_MISSED''
       else
         bnd (gets (find_contact (r_ownerSubject renewal))) (\<lambda>identity.
         if \<not> owner_available identity then pause e renewal R_REVOKED ''OWNER_UNAVAILABLE''
         else
           bnd (gets (latestPeriod (r_workspaceId renewal))) (\<lambda>period.
           if \<not> period_charged period renewal time
           then pause e renewal R_TECHNICAL_PAUSE ''PAID_PERIOD_CHANGED''
           else charge_priced e renewal account (the identity) time)))))))"

section \<open>The scheduler\<close>

text \<open>One transaction per element; an error ends the loop and keeps what was committed.\<close>

fun commits :: "('a \<Rightarrow> nat op) \<Rightarrow> 'a list \<Rightarrow> nat \<Rightarrow> db \<Rightarrow> (err + nat) \<times> db" where
  "commits f [] n w = (Inr n, w)"
| "commits f (x # xs) n w =
     (case f x w of
        Inl error \<Rightarrow> (Inl error, w)
      | Inr (k, w') \<Rightarrow> commits f xs (n + k) w')"

definition advanceRenewals :: "env \<Rightarrow> js_date \<Rightarrow> db \<Rightarrow> (err + nat) \<times> db" where
  "advanceRenewals e now w =
     (case now of
        None \<Rightarrow> (Inl (Fault ''WINCRM_SCHEDULER_TIME_INVALID''), w)
      | Some t \<Rightarrow>
          (case commits (\<lambda>p. transaction e (activation_tx e (p_id p))) (due_periods t w) 0 w of
             (Inl error, w1) \<Rightarrow> (Inl error, w1)
           | (Inr _, w1) \<Rightarrow>
               if \<not> paymentsEnabled e then (Inr 0, w1)
               else commits (\<lambda>r. transaction e (charge_tx e (r_workspaceId r))) (due_renewals t w1) 0 w1))"

end
