(* ===== verification/Admin_Subscription.thy ===== *)
theory Admin_Subscription
  imports Commerce_Core
begin

text \<open>
  \<open>apps/billing/src/domain/crm-admin-subscription.service.ts\<close>: what administrators see of a
  workspace's subscription (\<open>list\<close>, \<open>detail\<close>, \<open>history\<close>), the free days they grant (\<open>extend\<close>), and
  the cancellation of a grant command that was never confirmed (\<open>cancel\<close>, \<open>command\<close>).
\<close>

section \<open>Requests\<close>

definition EXTEND_COMMAND_TYPE :: string where
  "EXTEND_COMMAND_TYPE = ''ADMIN_EXTEND_WINCRM_DAYS''"

definition CANCEL_COMMAND_TYPE :: string where
  "CANCEL_COMMAND_TYPE = ''CANCEL_ADMIN_EXTEND_WINCRM_DAYS''"

record extend_dto =
  xd_commandId :: jsstring
  xd_expectedActorSubject :: jsstring
  xd_expectedEntitlementVersion :: jsstring
  xd_expectedBillingVersion :: jsstring
  xd_expectedPeriodId :: "jsstring option"
  xd_expectedPeriodVersion :: "int option"
  xd_days :: int
  xd_reason :: jsstring

text \<open>What the decorators of \<open>ExtendCrmSubscriptionDaysDto\<close> let through as \<open>days\<close>.\<close>

definition extend_dto_ok :: "extend_dto \<Rightarrow> bool" where
  "extend_dto_ok d \<longleftrightarrow> 1 \<le> xd_days d \<and> xd_days d \<le> 3650"

definition extend_dto_fields :: "extend_dto \<Rightarrow> (string \<times> jsval) list" where
  "extend_dto_fields d =
     [(''schemaVersion'', JInt 1),
      (''commandId'', JStr (xd_commandId d)),
      (''expectedActorSubject'', JStr (xd_expectedActorSubject d)),
      (''expectedEntitlementVersion'', JStr (xd_expectedEntitlementVersion d)),
      (''expectedBillingVersion'', JStr (xd_expectedBillingVersion d)),
      (''expectedPeriodId'', opt_js JStr (xd_expectedPeriodId d)),
      (''expectedPeriodVersion'', opt_js JInt (xd_expectedPeriodVersion d)),
      (''days'', JInt (xd_days d)),
      (''reason'', JStr (xd_reason d))]"

definition admin_role :: "policy_context \<Rightarrow> string op" where
  "admin_role ctx = the_or (Forbidden ''WinCRM subscriptions are managed by ADMIN and DEV'')
     (policy_actor_role (pc_roles ctx))"

definition commandConflict :: err where
  "commandConflict = Conflict ''crm_admin_subscription_command_conflict''"

definition assertActor :: "jsstring \<Rightarrow> policy_context \<Rightarrow> unit op" where
  "assertActor expectedActorSubject ctx =
     check (Conflict ''crm_admin_subscription_actor_changed'') (expectedActorSubject = pc_subject ctx)"

definition admin_actor_of :: "policy_context \<Rightarrow> string \<Rightarrow> admin_actor" where
  "admin_actor_of ctx actorRole =
     \<lparr>act_id = pc_subject ctx, act_role = actorRole, act_ip = pc_ip ctx, act_userAgent = pc_userAgent ctx\<rparr>"

section \<open>The projection of a subscription\<close>

record subscription_projection =
  sp_workspaceId :: jsstring
  sp_now :: date
  sp_entitlement :: entitlement_row
  sp_account :: "account_row option"
  sp_period :: "period_row option"
  sp_currentPeriod :: "period_row option"
  sp_renewal :: "renewal_row option"
  sp_pendingOrders :: nat
  sp_pendingCommands :: nat

record entitlement_part =
  ep_planCode :: string
  ep_status :: entitlement_status
  ep_seatLimit :: "int option"
  ep_effectiveFrom :: jsstring
  ep_effectiveUntil :: jsstring
  ep_graceUntil :: "jsstring option"

record period_part =
  pp_id :: jsstring
  pp_version :: int
  pp_startsAt :: jsstring
  pp_expiresAt :: jsstring
  pp_graceUntil :: jsstring
  pp_totalSeats :: int

record subscription_view =
  sv_workspaceId :: jsstring
  sv_ownerSubject :: jsstring
  sv_entitlementVersion :: int
  sv_billingVersion :: int
  sv_entitlement :: entitlement_part
  sv_period :: "period_part option"
  sv_renewal :: "(renewal_status \<times> jsstring) option"
  sv_extensionTarget :: string
  sv_blockedReason :: "string option"

definition suspended :: "entitlement_row \<Rightarrow> bool" where
  "suspended ent \<longleftrightarrow> e_status ent = E_SUSPENDED \<or> e_status ent = E_CANCELLED"

definition blocked_reason :: "subscription_projection \<Rightarrow> string option" where
  "blocked_reason p =
     (if suspended (sp_entitlement p) then Some ''crm_admin_subscription_suspended''
      else if sp_pendingOrders p \<noteq> 0 \<or> sp_pendingCommands p \<noteq> 0
        \<or> (case sp_renewal p of None \<Rightarrow> False | Some r \<Rightarrow> r_dispatchPending r)
      then Some ''crm_admin_subscription_operation_pending''
      else if (case sp_renewal p of None \<Rightarrow> False | Some r \<Rightarrow> r_version r \<ge> 2147483646)
      then Some ''crm_admin_subscription_version_limit''
      else if (case sp_account p of None \<Rightarrow> False
        | Some a \<Rightarrow> truthy (a_capacityCommandId a) \<and> \<not> json_truthy (a_capacityFence a))
      then Some ''crm_admin_subscription_capacity_pending''
      else None)"

definition projected_status :: "entitlement_status \<Rightarrow> date \<Rightarrow> date option \<Rightarrow> date \<Rightarrow> entitlement_status" where
  "projected_status baseStatus effectiveUntil graceUntil now =
     (if baseStatus \<noteq> E_ACTIVE then baseStatus
      else if effectiveUntil > now then E_ACTIVE
      else case graceUntil of
        Some g \<Rightarrow> if g > now then E_GRACE else E_READ_ONLY
      | None \<Rightarrow> E_EXPIRED)"

definition project :: "subscription_projection \<Rightarrow> subscription_view" where
  "project p =
     (let entitlement = sp_entitlement p;
          activePeriod = (if suspended entitlement then None else sp_currentPeriod p);
          effectiveUntil = (case activePeriod of Some a \<Rightarrow> p_expiresAt a | None \<Rightarrow> e_effectiveUntil entitlement);
          graceUntil = (case activePeriod of Some a \<Rightarrow> Some (p_graceUntil a) | None \<Rightarrow> e_graceUntil entitlement);
          baseStatus = (if activePeriod \<noteq> None \<and> \<not> suspended entitlement then E_ACTIVE else e_status entitlement) in
      \<lparr>sv_workspaceId = sp_workspaceId p,
       sv_ownerSubject = (case sp_account p of Some a \<Rightarrow> a_ownerSubject a | None \<Rightarrow> e_activatedByUserId entitlement),
       sv_entitlementVersion = e_aggregateVersion entitlement,
       sv_billingVersion = (case sp_account p of Some a \<Rightarrow> a_version a | None \<Rightarrow> 0),
       sv_entitlement =
         \<lparr>ep_planCode = (if activePeriod \<noteq> None then ''PAID'' else e_planCode entitlement),
          ep_status = projected_status baseStatus effectiveUntil graceUntil (sp_now p),
          ep_seatLimit = (case activePeriod of Some a \<Rightarrow> Some (p_totalSeats a) | None \<Rightarrow> e_seatLimit entitlement),
          ep_effectiveFrom = toISOString (case activePeriod of Some a \<Rightarrow> p_startsAt a | None \<Rightarrow> e_effectiveFrom entitlement),
          ep_effectiveUntil = toISOString effectiveUntil,
          ep_graceUntil = map_option toISOString graceUntil\<rparr>,
       sv_period = map_option (\<lambda>x. \<lparr>pp_id = p_id x, pp_version = p_version x, pp_startsAt = toISOString (p_startsAt x),
         pp_expiresAt = toISOString (p_expiresAt x), pp_graceUntil = toISOString (p_graceUntil x),
         pp_totalSeats = p_totalSeats x\<rparr>) (sp_period p),
       sv_renewal = map_option (\<lambda>r. (r_status r, toISOString (r_nextChargeAt r))) (sp_renewal p),
       sv_extensionTarget = (if sp_period p \<noteq> None then ''PAID_PERIOD'' else ''ENTITLEMENT''),
       sv_blockedReason = blocked_reason p\<rparr>)"

definition renewal_status_js :: "renewal_status \<Rightarrow> jsval" where
  "renewal_status_js s = JStr (js (case s of R_ACTIVE \<Rightarrow> ''ACTIVE'' | R_USER_DISABLED \<Rightarrow> ''USER_DISABLED''
     | R_TECHNICAL_PAUSE \<Rightarrow> ''TECHNICAL_PAUSE'' | R_PRICE_CONFIRMATION_REQUIRED \<Rightarrow> ''PRICE_CONFIRMATION_REQUIRED''
     | R_REVOKED \<Rightarrow> ''REVOKED''))"

definition subscription_json :: "subscription_view \<Rightarrow> jsval" where
  "subscription_json v = obj
     [(''workspaceId'', JStr (sv_workspaceId v)),
      (''ownerSubject'', JStr (sv_ownerSubject v)),
      (''entitlementVersion'', JStr (dec_int (sv_entitlementVersion v))),
      (''billingVersion'', JStr (dec_int (sv_billingVersion v))),
      (''entitlement'', let x = sv_entitlement v in obj
         [(''planCode'', JStr (js (ep_planCode x))), (''status'', ent_status_js (ep_status x)),
          (''seatLimit'', opt_js JInt (ep_seatLimit x)), (''effectiveFrom'', JStr (ep_effectiveFrom x)),
          (''effectiveUntil'', JStr (ep_effectiveUntil x)), (''graceUntil'', opt_js JStr (ep_graceUntil x))]),
      (''period'', opt_js (\<lambda>x. obj
         [(''id'', JStr (pp_id x)), (''version'', JInt (pp_version x)), (''startsAt'', JStr (pp_startsAt x)),
          (''expiresAt'', JStr (pp_expiresAt x)), (''graceUntil'', JStr (pp_graceUntil x)),
          (''totalSeats'', JInt (pp_totalSeats x))]) (sv_period v)),
      (''renewal'', opt_js (\<lambda>(s, t). obj [(''status'', renewal_status_js s), (''nextChargeAt'', JStr t)]) (sv_renewal v)),
      (''extensionTarget'', JStr (js (sv_extensionTarget v))),
      (''blockedReason'', opt_js (\<lambda>r. JStr (js r)) (sv_blockedReason v))]"

section \<open>Reading\<close>

definition requireEntitlement :: "jsstring \<Rightarrow> entitlement_row op" where
  "requireEntitlement workspaceId =
     bnd (gets (find_entitlement workspaceId))
       (the_or (NotFound ''crm_admin_subscription_not_provisioned''))"

definition pending_orders :: "jsstring \<Rightarrow> db \<Rightarrow> nat" where
  "pending_orders ws w = count_rows (\<lambda>x. o_workspaceId x = ws \<and> open_order x) (orders w)"

definition pending_commands :: "jsstring \<Rightarrow> db \<Rightarrow> nat" where
  "pending_commands ws w = count_rows (\<lambda>c. c_workspaceId c = ws \<and> c_status c = C_PENDING) (commands w)"

definition read_subscription :: "env \<Rightarrow> jsstring \<Rightarrow> subscription_view op" where
  "read_subscription e workspaceId =
     bnd (requireEntitlement workspaceId) (\<lambda>entitlement.
     bnd (new_date e) (\<lambda>now.
     bnd (gets (find_account workspaceId)) (\<lambda>account.
     bnd (gets (latestPeriod workspaceId)) (\<lambda>period.
     bnd (gets (find_renewal workspaceId)) (\<lambda>renewal.
     bnd (gets (pending_orders workspaceId)) (\<lambda>pendingOrders.
     bnd (gets (pending_commands workspaceId)) (\<lambda>pendingCommands.
     bnd (gets (started_period workspaceId now)) (\<lambda>currentPeriod.
     ret (project \<lparr>sp_workspaceId = workspaceId, sp_now = now, sp_entitlement = entitlement,
       sp_account = account, sp_period = period, sp_currentPeriod = currentPeriod, sp_renewal = renewal,
       sp_pendingOrders = pendingOrders, sp_pendingCommands = pendingCommands\<rparr>)))))))))"

text \<open>
  \<open>readPage\<close> reads the rows of all workspaces of a page at once and then looks up, by workspace or by
  id, what belongs to each; a group without rows counts as zero.
\<close>

definition page_references :: "jsstring list \<Rightarrow> date \<Rightarrow> db \<Rightarrow> (jsstring \<times> jsstring option \<times> jsstring option) list" where
  "page_references ids now w =
     map (\<lambda>ent. (e_workspaceId ent, map_option p_id (latestPeriod (e_workspaceId ent) w),
       map_option p_id (started_period (e_workspaceId ent) now w)))
       (filter (\<lambda>ent. e_workspaceId ent \<in> set ids) (entitlements w))"

definition page_periods :: "jsstring list \<Rightarrow> date \<Rightarrow> db \<Rightarrow> period_row list" where
  "page_periods ids now w =
     (let refs = page_references ids now w;
          periodIds = concat (map (\<lambda>(ws, a, b). (case a of None \<Rightarrow> [] | Some x \<Rightarrow> [x])
            @ (case b of None \<Rightarrow> [] | Some x \<Rightarrow> [x])) refs)
      in filter (\<lambda>p. p_workspaceId p \<in> set ids \<and> p_id p \<in> set periodIds) (periods w))"

definition resolvePeriod :: "period_row list \<Rightarrow> jsstring \<Rightarrow> jsstring option \<Rightarrow> err + period_row option" where
  "resolvePeriod found workspaceId periodId =
     (case periodId of
        None \<Rightarrow> Inr None
      | Some i \<Rightarrow>
          (case find (\<lambda>p. p_id p = i) found of
             None \<Rightarrow> Inl (Fault ''WinCRM period snapshot binding is invalid'')
           | Some p \<Rightarrow> if p_workspaceId p \<noteq> workspaceId then Inl (Fault ''WinCRM period snapshot binding is invalid'')
               else Inr (Some p)))"

definition page_item :: "jsstring list \<Rightarrow> date \<Rightarrow> db \<Rightarrow> jsstring \<Rightarrow> err + subscription_view" where
  "page_item ids now w workspaceId =
     (case (find (\<lambda>x. e_workspaceId x = workspaceId) (filter (\<lambda>x. e_workspaceId x \<in> set ids) (entitlements w)),
            find (\<lambda>(ws, a, b). ws = workspaceId) (page_references ids now w)) of
        (Some entitlement, Some (_, periodId, currentId)) \<Rightarrow>
          sbind (resolvePeriod (page_periods ids now w) workspaceId periodId) (\<lambda>period.
          sbind (resolvePeriod (page_periods ids now w) workspaceId currentId) (\<lambda>currentPeriod.
          Inr (project \<lparr>sp_workspaceId = workspaceId, sp_now = now, sp_entitlement = entitlement,
            sp_account = find (\<lambda>a. a_workspaceId a = workspaceId) (filter (\<lambda>a. a_workspaceId a \<in> set ids) (accounts w)),
            sp_period = period, sp_currentPeriod = currentPeriod,
            sp_renewal = find (\<lambda>r. r_workspaceId r = workspaceId) (filter (\<lambda>r. r_workspaceId r \<in> set ids) (renewals w)),
            sp_pendingOrders = pending_orders workspaceId w, sp_pendingCommands = pending_commands workspaceId w\<rparr>)))
      | _ \<Rightarrow> Inl (Fault ''WinCRM subscription snapshot is incomplete''))"

definition readPage :: "jsstring list \<Rightarrow> date \<Rightarrow> db \<Rightarrow> err + subscription_view list" where
  "readPage ids now w = (if ids = [] then Inr [] else all_results (map (page_item ids now w) ids))"

record list_query =
  lq_page :: int
  lq_pageSize :: int
  lq_workspaceId :: "jsstring option"
  lq_ownerSubject :: "jsstring option"

definition list_where :: "list_query \<Rightarrow> db \<Rightarrow> entitlement_row \<Rightarrow> bool" where
  "list_where q w ent \<longleftrightarrow>
     (case lq_workspaceId q of None \<Rightarrow> True | Some ws \<Rightarrow> e_workspaceId ent = ws)
     \<and> (case lq_ownerSubject q of None \<Rightarrow> True
        | Some s \<Rightarrow> (case find_account (e_workspaceId ent) w of Some a \<Rightarrow> a_ownerSubject a | None \<Rightarrow> e_activatedByUserId ent) = s)"

definition updated_later :: "entitlement_row \<Rightarrow> entitlement_row \<Rightarrow> bool" where
  "updated_later a b \<longleftrightarrow>
     e_updatedAt b < e_updatedAt a \<or> e_updatedAt a = e_updatedAt b \<and> e_workspaceId a < e_workspaceId b"

record list_view =
  lv_page :: int
  lv_pageSize :: int
  lv_total :: nat
  lv_items :: "subscription_view list"

definition list_subscriptions :: "env \<Rightarrow> list_query \<Rightarrow> policy_context \<Rightarrow> list_view op" where
  "list_subscriptions e q ctx =
     thn (admin_role ctx)
     (bnd (new_date e) (\<lambda>now.
     bnd (gets (\<lambda>w. count_rows (list_where q w) (entitlements w))) (\<lambda>total.
     bnd (gets (\<lambda>w. map e_workspaceId (take (nat (lq_pageSize q)) (drop (nat ((lq_page q - 1) * lq_pageSize q))
       (order_by updated_later (filter (list_where q w) (entitlements w))))))) (\<lambda>ids.
     bnd (gets (readPage ids now)) (\<lambda>page.
     bnd (lift_sum page) (\<lambda>items.
     ret \<lparr>lv_page = lq_page q, lv_pageSize = lq_pageSize q, lv_total = total, lv_items = items\<rparr>))))))"

definition detail_subscription :: "env \<Rightarrow> jsstring \<Rightarrow> policy_context \<Rightarrow> subscription_view op" where
  "detail_subscription e workspaceId ctx = thn (admin_role ctx) (read_subscription e workspaceId)"

definition grantView :: "grant_row \<Rightarrow> (string \<times> jsval) list" where
  "grantView g =
     [(''commandId'', JStr (g_commandId g)), (''workspaceId'', JStr (g_workspaceId g)),
      (''actorSubject'', JStr (g_actorSubject g)), (''actorRole'', JStr (js (g_actorRole g))),
      (''days'', JInt (g_days g)), (''reason'', JStr (g_reason g)), (''target'', JStr (js (g_target g))),
      (''periodId'', opt_js JStr (g_periodId g)), (''oldExpiresAt'', iso_js (g_oldExpiresAt g)),
      (''newExpiresAt'', iso_js (g_newExpiresAt g)), (''createdAt'', iso_js (g_createdAt g))]"

definition granted_later :: "grant_row \<Rightarrow> grant_row \<Rightarrow> bool" where
  "granted_later a b \<longleftrightarrow>
     g_createdAt b < g_createdAt a \<or> g_createdAt a = g_createdAt b \<and> g_commandId b < g_commandId a"

definition grant_history :: "jsstring \<Rightarrow> int \<Rightarrow> int \<Rightarrow> policy_context \<Rightarrow> (nat \<times> jsval list) op" where
  "grant_history workspaceId page pageSize ctx =
     thn (admin_role ctx)
     (thn (requireEntitlement workspaceId)
     (bnd (gets (\<lambda>w. filter (\<lambda>g. g_workspaceId g = workspaceId) (grants w))) (\<lambda>rows.
     ret (length rows, map (\<lambda>g. obj (grantView g))
       (take (nat pageSize) (drop (nat ((page - 1) * pageSize)) (order_by granted_later rows)))))))"

section \<open>Proof of a command\<close>

definition is_js_string :: "jsval \<Rightarrow> bool" where
  "is_js_string v = (case v of JStr s \<Rightarrow> True | _ \<Rightarrow> False)"

text \<open>\<open>String(v) === s\<close> for a text \<open>s\<close> without a comma: an array of one element reads as that element.\<close>

fun string_is :: "string \<Rightarrow> jsval \<Rightarrow> bool" where
  "string_is s (JStr t) \<longleftrightarrow> t = js s"
| "string_is s (JArr [v]) \<longleftrightarrow> string_is s v"
| "string_is s _ \<longleftrightarrow> False"

definition cancelled_at_ok :: "env \<Rightarrow> jsval \<Rightarrow> bool" where
  "cancelled_at_ok e v = (case v of JStr s \<Rightarrow> Date_parse e s \<noteq> None | _ \<Rightarrow> False)"

definition commandProof :: "env \<Rightarrow> command_receipt \<Rightarrow> jsstring \<Rightarrow> jsstring \<Rightarrow> err + jsval" where
  "commandProof e receipt workspaceId commandId =
     (let result = rc_result receipt; grant = jsfield result ''grant'' in
      sbind (require commandConflict (commerceRecord result \<and> jsfield result ''schemaVersion'' = JInt 1
        \<and> jsfield result ''workspaceId'' = JStr workspaceId \<and> jsfield result ''commandId'' = JStr commandId)) (\<lambda>_.
      if rc_commandType receipt = EXTEND_COMMAND_TYPE
      then sbind (require commandConflict (commerceRecord grant \<and> is_js_string (jsfield grant ''actorSubject''))) (\<lambda>_.
        Inr (obj [(''schemaVersion'', JInt 1), (''workspaceId'', JStr workspaceId), (''commandId'', JStr commandId),
          (''actorSubject'', jsfield grant ''actorSubject''), (''outcome'', JStr (js ''COMMITTED'')), (''result'', result)]))
      else sbind (require commandConflict (rc_commandType receipt = CANCEL_COMMAND_TYPE
          \<and> jsfield result ''outcome'' = JStr (js ''CANCELLED'') \<and> is_js_string (jsfield result ''actorSubject'')
          \<and> (string_is ''ADMIN'' (jsfield result ''actorRole'') \<or> string_is ''DEV'' (jsfield result ''actorRole''))
          \<and> cancelled_at_ok e (jsfield result ''cancelledAt''))) (\<lambda>_.
        Inr (obj [(''schemaVersion'', JInt 1), (''workspaceId'', JStr workspaceId), (''commandId'', JStr commandId),
          (''actorSubject'', jsfield result ''actorSubject''), (''actorRole'', jsfield result ''actorRole''),
          (''outcome'', JStr (js ''CANCELLED'')), (''cancelledAt'', jsfield result ''cancelledAt'')]))))"

definition grant_command :: "env \<Rightarrow> jsstring \<Rightarrow> jsstring \<Rightarrow> policy_context \<Rightarrow> jsval op" where
  "grant_command e workspaceId commandId ctx =
     thn (admin_role ctx)
     (bnd (gets (find_receipt commandId)) (\<lambda>found.
     bnd (the_or (NotFound ''crm_admin_grant_not_found'') found) (\<lambda>receipt.
     thn (check (NotFound ''crm_admin_grant_not_found'')
       (rc_commandType receipt \<in> {EXTEND_COMMAND_TYPE, CANCEL_COMMAND_TYPE}
        \<and> jsfield (rc_result receipt) ''workspaceId'' = JStr workspaceId))
     (lift_sum (commandProof e receipt workspaceId commandId)))))"

section \<open>Cancelling an unconfirmed command\<close>

definition cancel_description :: "jsstring \<Rightarrow> jsstring" where
  "cancel_description commandId =
     js ''WinCRM: '' @ [1086, 1090, 1084, 1077, 1085, 1077, 1085, 1072, 32, 1085, 1077, 1087, 1086, 1076, 1090,
       1074, 1077, 1088, 1078, 1076, 1105, 1085, 1085, 1072, 1103, 32, 1082, 1086, 1084, 1072, 1085, 1076, 1072, 32,
       1085, 1072, 1095, 1080, 1089, 1083, 1077, 1085, 1080, 1103, 32, 1076, 1085, 1077, 1081, 32]
     @ commandId @ [59, 32, 1087, 1086, 1076, 1087, 1080, 1089, 1082, 1072, 32, 1085, 1077, 32, 1080, 1079,
       1084, 1077, 1085, 1077, 1085, 1072]"

definition cancel_result :: "jsstring \<Rightarrow> jsstring \<Rightarrow> policy_context \<Rightarrow> string \<Rightarrow> date \<Rightarrow> (string \<times> jsval) list" where
  "cancel_result workspaceId commandId ctx actorRole cancelledAt =
     [(''schemaVersion'', JInt 1), (''workspaceId'', JStr workspaceId), (''commandId'', JStr commandId),
      (''actorSubject'', JStr (pc_subject ctx)), (''actorRole'', JStr (js actorRole)),
      (''outcome'', JStr (js ''CANCELLED'')), (''cancelledAt'', iso_js cancelledAt)]"

definition cancel_tx :: "env \<Rightarrow> jsstring \<Rightarrow> jsstring \<Rightarrow> policy_context \<Rightarrow> string \<Rightarrow> jsstring \<Rightarrow> jsval op" where
  "cancel_tx e workspaceId commandId ctx actorRole requestHash =
     bnd (gets (find_receipt commandId)) (\<lambda>prior.
     case prior of
       Some receipt \<Rightarrow>
         bnd (lift_sum (commandProof e receipt workspaceId commandId)) (\<lambda>p.
         thn (check commandConflict (jsfield p ''actorSubject'' = JStr (pc_subject ctx)))
         (thn (if rc_commandType receipt = CANCEL_COMMAND_TYPE
               then thn (lift_sum (assertBillingCommandReceipt receipt CANCEL_COMMAND_TYPE requestHash)) (ret ())
               else ret ())
         (ret p)))
     | None \<Rightarrow>
         thn (requireEntitlement workspaceId)
         (bnd (new_date e) (\<lambda>cancelledAt.
         let result = cancel_result workspaceId commandId ctx actorRole cancelledAt in
         thn (create_receipt \<lparr>rc_commandId = commandId, rc_commandType = CANCEL_COMMAND_TYPE,
           rc_requestHash = requestHash, rc_requestHashVersion = 1, rc_result = obj result\<rparr>)
         (thn (enqueueBillingAdminAudit e
           \<lparr>au_actor = admin_actor_of ctx actorRole, au_section = ''SUBSCRIPTIONS'',
            au_action = ''SUBSCRIPTION_EXTEND_DAYS'', au_description = cancel_description commandId,
            au_entityType = ''crm_subscription_command'', au_entityId = commandId,
            au_entityLabel = Some ''WinCRM'', au_targetUserId = None,
            au_metadata = [(''productCode'', JStr (js ''WINCRM'')),
              (''operation'', JStr (js ''CANCEL_UNCONFIRMED_COMMAND''))] @ result\<rparr>)
         (ret (obj result))))))"

definition cancel_grant :: "env \<Rightarrow> jsstring \<Rightarrow> jsstring \<Rightarrow> jsstring \<Rightarrow> policy_context \<Rightarrow> jsval op" where
  "cancel_grant e workspaceId commandId expectedActorSubject ctx =
     bnd (admin_role ctx) (\<lambda>actorRole.
     thn (assertActor expectedActorSubject ctx)
     (bnd (lift_sum (billingCommandRequestHash (sha256 e) CANCEL_COMMAND_TYPE
       (obj [(''schemaVersion'', JInt 1), (''expectedActorSubject'', JStr expectedActorSubject),
         (''workspaceId'', JStr workspaceId), (''commandId'', JStr commandId),
         (''actorSubject'', JStr (pc_subject ctx))]))) (\<lambda>requestHash.
     transaction e (cancel_tx e workspaceId commandId ctx actorRole requestHash))))"

section \<open>Granting days\<close>

definition grant_timestamp :: "int option \<Rightarrow> err + date" where
  "grant_timestamp v =
     (case Option.bind v timeClip of
        None \<Rightarrow> Inl (BadRequest ''crm_admin_subscription_date_out_of_range'')
      | Some d \<Rightarrow> if getUTCFullYear d > 9999 then Inl (BadRequest ''crm_admin_subscription_date_out_of_range'')
          else Inr d)"

definition extend_period_row :: "date \<Rightarrow> date \<Rightarrow> period_row \<Rightarrow> period_row" where
  "extend_period_row expiresAt graceUntil p =
     p\<lparr>p_expiresAt := expiresAt, p_graceUntil := graceUntil, p_version := p_version p + 1\<rparr>"

definition extend_period :: "env \<Rightarrow> jsstring \<Rightarrow> jsstring \<Rightarrow> date \<Rightarrow> unit op" where
  "extend_period e workspaceId periodId newExpiresAt =
     bnd (gets (find_period periodId)) (\<lambda>found.
     bnd (the_or P2025 found) (\<lambda>period.
     bnd (lift_sum (readWincrmPriceSnapshot (p_priceSnapshot period))) (\<lambda>snapshot.
     bnd (lift_sum (grant_timestamp (Some (newExpiresAt + ps_graceDays snapshot * DAY_MS)))) (\<lambda>graceUntil.
     thn (update_period (\<lambda>x. p_id x = p_id period \<and> p_version x = p_version period)
       (extend_period_row newExpiresAt graceUntil))
     (bnd (new_date e) (\<lambda>updatedAt.
     thn (update_entitlement (\<lambda>x. e_workspaceId x = workspaceId)
       (\<lambda>x. x\<lparr>e_status := E_ACTIVE, e_updatedAt := updatedAt\<rparr>))
     (ret ())))))))"

definition extend_entitlement :: "env \<Rightarrow> jsstring \<Rightarrow> int \<Rightarrow> date \<Rightarrow> unit op" where
  "extend_entitlement e workspaceId version newExpiresAt =
     bnd (requireEntitlement workspaceId) (\<lambda>base.
     let graceDuration = map_option (\<lambda>g. g - e_effectiveUntil base) (e_graceUntil base) in
     thn (check (Conflict ''crm_admin_subscription_policy_invalid'')
       (case graceDuration of None \<Rightarrow> True | Some d \<Rightarrow> d > 0))
     (bnd (case graceDuration of
         None \<Rightarrow> ret None
       | Some d \<Rightarrow> bnd (lift_sum (grant_timestamp (Some (newExpiresAt + d)))) (\<lambda>g. ret (Some g))) (\<lambda>graceUntil.
     bnd (new_date e) (\<lambda>updatedAt.
     thn (update_entitlement (\<lambda>x. e_workspaceId x = workspaceId \<and> e_aggregateVersion x = version)
       (\<lambda>x. x\<lparr>e_status := E_ACTIVE, e_effectiveUntil := newExpiresAt, e_graceUntil := graceUntil,
          e_updatedAt := updatedAt\<rparr>))
     (ret ())))))"

definition extend_renewal :: "date \<Rightarrow> renewal_row \<Rightarrow> renewal_row" where
  "extend_renewal newExpiresAt r =
     r\<lparr>r_nextChargeAt := newExpiresAt, r_nextRetryAt := None, r_retryStartedAt := None, r_retryAttempt := 0,
       r_version := r_version r + 1\<rparr>"

definition versions_match :: "subscription_view \<Rightarrow> extend_dto \<Rightarrow> bool" where
  "versions_match before dto \<longleftrightarrow>
     dec_int (sv_entitlementVersion before) = xd_expectedEntitlementVersion dto
     \<and> dec_int (sv_billingVersion before) = xd_expectedBillingVersion dto
     \<and> map_option pp_id (sv_period before) = xd_expectedPeriodId dto
     \<and> map_option pp_version (sv_period before) = xd_expectedPeriodVersion dto"

definition version_limit :: "subscription_view \<Rightarrow> bool" where
  "version_limit before \<longleftrightarrow>
     sv_entitlementVersion before \<ge> 9223372036854775806
     \<or> sv_billingVersion before \<ge> 9223372036854775806
     \<or> (case sv_period before of None \<Rightarrow> False | Some p \<Rightarrow> pp_version p \<ge> 2147483646)"

definition extend_description :: "int \<Rightarrow> jsstring \<Rightarrow> jsstring" where
  "extend_description days workspaceId =
     js ''WinCRM: '' @ [1073, 1077, 1089, 1087, 1083, 1072, 1090, 1085, 1086, 32, 1085, 1072, 1095, 1080, 1089,
       1083, 1077, 1085, 1086, 32] @ dec_int days @ [32, 1076, 1085, 1077, 1081, 32, 1087, 1088, 1086, 1089,
       1090, 1088, 1072, 1085, 1089, 1090, 1074, 1091, 32] @ workspaceId"

definition extend_target :: "env \<Rightarrow> jsstring \<Rightarrow> subscription_view \<Rightarrow> date \<Rightarrow> unit op" where
  "extend_target e workspaceId before newExpiresAt =
     (case sv_period before of
        Some p \<Rightarrow> extend_period e workspaceId (pp_id p) newExpiresAt
      | None \<Rightarrow> extend_entitlement e workspaceId (sv_entitlementVersion before) newExpiresAt)"

text \<open>What follows in the transaction once the end has moved.\<close>

definition extend_record ::
    "env \<Rightarrow> jsstring \<Rightarrow> extend_dto \<Rightarrow> policy_context \<Rightarrow> string \<Rightarrow> jsstring \<Rightarrow> subscription_view \<Rightarrow> date \<Rightarrow> date \<Rightarrow> date \<Rightarrow>
     jsval op" where
  "extend_record e workspaceId dto ctx actorRole requestHash before now oldExpiresAt newExpiresAt =
     thn (if sv_billingVersion before \<noteq> 0
          then thn (update_row accounts accounts_update P2025
              (\<lambda>a. a_workspaceId a = workspaceId \<and> a_version a = sv_billingVersion before)
              (\<lambda>a. a\<lparr>a_version := a_version a + 1\<rparr>)) (ret ())
          else ret ())
     (thn (if sv_renewal before \<noteq> None
           then thn (update_renewal workspaceId (extend_renewal newExpiresAt)) (ret ()) else ret ())
     (thn (enqueueCrmEntitlementChanged e workspaceId)
     (bnd (create_grant
       \<lparr>g_commandId = xd_commandId dto, g_workspaceId = workspaceId, g_actorSubject = pc_subject ctx,
        g_actorRole = actorRole, g_days = xd_days dto, g_reason = xd_reason dto,
        g_target = (if sv_period before \<noteq> None then ''PAID_PERIOD'' else ''ENTITLEMENT''),
        g_periodId = map_option pp_id (sv_period before), g_oldExpiresAt = oldExpiresAt,
        g_newExpiresAt = newExpiresAt, g_createdAt = now\<rparr>) (\<lambda>grant.
     bnd (read_subscription e workspaceId) (\<lambda>after.
     let result = obj [(''schemaVersion'', JInt 1), (''workspaceId'', JStr workspaceId),
           (''commandId'', JStr (xd_commandId dto)), (''grant'', obj (grantView grant)),
           (''subscription'', subscription_json after)] in
     thn (enqueueBillingAdminAudit e
       \<lparr>au_actor = admin_actor_of ctx actorRole, au_section = ''SUBSCRIPTIONS'',
        au_action = ''SUBSCRIPTION_EXTEND_DAYS'', au_description = extend_description (xd_days dto) workspaceId,
        au_entityType = ''crm_subscription'', au_entityId = workspaceId, au_entityLabel = Some ''WinCRM'',
        au_targetUserId = Some (sv_ownerSubject before),
        au_metadata = [(''productCode'', JStr (js ''WINCRM''))] @ grantView grant
          @ [(''before'', subscription_json before), (''after'', subscription_json after)]\<rparr>)
     (thn (create_receipt \<lparr>rc_commandId = xd_commandId dto, rc_commandType = EXTEND_COMMAND_TYPE,
       rc_requestHash = requestHash, rc_requestHashVersion = 1, rc_result = result\<rparr>)
     (ret result)))))))"

text \<open>The grant itself, once the state of the subscription was found as expected.\<close>

definition extend_grant ::
    "env \<Rightarrow> jsstring \<Rightarrow> extend_dto \<Rightarrow> policy_context \<Rightarrow> string \<Rightarrow> jsstring \<Rightarrow> subscription_view \<Rightarrow> jsval op" where
  "extend_grant e workspaceId dto ctx actorRole requestHash before =
     bnd (new_date e) (\<lambda>now.
     let oldExpiresAt = Date_parse e (case sv_period before of
           Some p \<Rightarrow> pp_expiresAt p | None \<Rightarrow> ep_effectiveUntil (sv_entitlement before)) in
     bnd (lift_sum (grant_timestamp (map_option (\<lambda>old. max now old + xd_days dto * DAY_MS) oldExpiresAt))) (\<lambda>newExpiresAt.
     thn (extend_target e workspaceId before newExpiresAt)
     (extend_record e workspaceId dto ctx actorRole requestHash before now (the oldExpiresAt) newExpiresAt)))"

definition extend_tx ::
    "env \<Rightarrow> jsstring \<Rightarrow> extend_dto \<Rightarrow> policy_context \<Rightarrow> string \<Rightarrow> jsstring \<Rightarrow> jsval op" where
  "extend_tx e workspaceId dto ctx actorRole requestHash =
     bnd (gets (find_receipt (xd_commandId dto))) (\<lambda>prior.
     case prior of
       Some receipt \<Rightarrow>
         if rc_commandType receipt = CANCEL_COMMAND_TYPE
         then
           bnd (lift_sum (commandProof e receipt workspaceId (xd_commandId dto))) (\<lambda>p.
           thn (check commandConflict (jsfield p ''actorSubject'' = JStr (pc_subject ctx)))
           (throw (Conflict ''crm_admin_grant_cancelled'')))
         else lift_sum (assertBillingCommandReceipt receipt EXTEND_COMMAND_TYPE requestHash)
     | None \<Rightarrow>
         bnd (read_subscription e workspaceId) (\<lambda>before.
         thn (check (Conflict ''crm_admin_subscription_version_conflict'') (versions_match before dto))
         (thn (case sv_blockedReason before of None \<Rightarrow> ret () | Some reason \<Rightarrow> throw (Conflict reason))
         (thn (check (Conflict ''WinCRM subscription version limit reached'') (\<not> version_limit before))
         (extend_grant e workspaceId dto ctx actorRole requestHash before)))))"

definition extend_days :: "env \<Rightarrow> jsstring \<Rightarrow> extend_dto \<Rightarrow> policy_context \<Rightarrow> jsval op" where
  "extend_days e workspaceId dto ctx =
     bnd (admin_role ctx) (\<lambda>actorRole.
     thn (assertActor (xd_expectedActorSubject dto) ctx)
     (thn (check (BadRequest ''expected period version must match its id'')
       ((xd_expectedPeriodId dto = None) = (xd_expectedPeriodVersion dto = None)))
     (bnd (lift_sum (billingCommandRequestHash (sha256 e) EXTEND_COMMAND_TYPE
       (obj (extend_dto_fields dto @ [(''workspaceId'', JStr workspaceId), (''actorSubject'', JStr (pc_subject ctx))])))) (\<lambda>requestHash.
     transaction e (extend_tx e workspaceId dto ctx actorRole requestHash)))))"

end
