(* ===== verification/Service.thy ===== *)
theory Service
  imports Commerce_Commands Renewal_Scheduler Admin_Subscription
begin

text \<open>
  The service as a whole: the relation \<open>service_step\<close> has one rule for every transaction of the
  WinCRM billing services. The locale \<open>core_relation\<close> is the interface between these operations and a
  relation on states: a relation that writes to the auxiliary tables do not disturb holds across an
  operation as soon as it holds across that operation's writes to the accounts, orders, paid periods
  and renewals.
\<close>

section \<open>Relations across the operations\<close>

locale core_relation = db_relation R
  for R :: "db \<Rightarrow> db \<Rightarrow> bool" +
  assumes frame_policies: "frame R policies_update"
    and frame_entitlements: "frame R entitlements_update"
    and frame_commands: "frame R commands_update"
    and frame_consents: "frame R consents_update"
    and frame_operations: "frame R operations_update"
    and frame_deliveries: "frame R deliveries_update"
    and frame_fiscals: "frame R fiscals_update"
    and frame_receipts: "frame R receipts_update"
    and frame_outbox: "frame R outbox_update"
    and frame_grants: "frame R grants_update"
    and frame_sequence: "frame R sourceSequence_update"
    and steps_notify: "steps R (update_period (\<lambda>x. p_id x = k) (\<lambda>x. x\<lparr>p_activationNotifiedAt := Some t\<rparr>))"
begin

lemmas core_frames =
  frame_policies frame_entitlements frame_commands frame_consents frame_operations frame_deliveries
  frame_fiscals frame_receipts frame_outbox frame_grants frame_sequence steps_notify

lemma steps_core_account:
  assumes "\<And>row. steps R (create_account row)"
  shows "steps R (accountForCommand dto)"
  unfolding accountForCommand_def by (intro assms steps_intro)

lemma steps_or_replay: "steps R body \<Longrightarrow> steps R (or_replay e dto type hash body)"
  unfolding or_replay_def by (intro steps_intro)

lemma steps_core_wake: "steps R (enqueueCrmEntitlementChanged e ws)"
  by (intro core_frames steps_intro)

subsection \<open>Commands of CRM Access\<close>

lemma steps_queries:
  "steps R (summary e dto)" "steps R (quote e dto)" "steps R (order e dto)" "steps R (history e dto)"
  "steps R (commandStatus e dto)"
proof -
  show s: "steps R (summary e dto)"
    unfolding summary_def by (intro steps_intro)
  show "steps R (quote e dto)"
    unfolding quote_def by (intro s steps_intro)
  show "steps R (order e dto)" "steps R (history e dto)" "steps R (commandStatus e dto)"
    unfolding order_def history_def commandStatus_def by (intro steps_intro)+
qed

lemma steps_checkout_body:
  assumes "\<And>row. steps R (create_account row)" "\<And>row. o_status row = O_PENDING \<Longrightarrow> steps R (create_order row)"
    and "\<And>v. steps R (bump_account (ws_of dto) v)"
  shows "steps R (checkout_body e dto type hash)"
proof -
  have new: "steps R (create_order (checkout_order e dto policy identity now oid amount created))"
    for policy identity now oid amount created
    by (rule assms(2)) (simp add: checkout_order_def Let_def)
  show ?thesis
    unfolding checkout_body_def by (intro assms(1,3) new steps_core_account core_frames steps_intro)
qed

lemma steps_checkout:
  assumes "\<And>h. steps R (checkout_body e dto ''WINCRM_CHECKOUT'' h)"
  shows "steps R (checkout e dto)"
  unfolding checkout_def by (intro assms steps_or_replay steps_intro)

lemma steps_changeSeats:
  assumes "\<And>h. steps R (changeSeats_body e dto ''WINCRM_SEAT_CHANGE'' h)"
  shows "steps R (changeSeats e dto)"
  unfolding changeSeats_def by (intro assms steps_or_replay steps_intro)

lemma steps_renewalCommand_body:
  assumes "\<And>row. steps R (create_account row)" "\<And>v. steps R (bump_account (ws_of dto) v)"
    and "\<And>t. steps R (update_renewal (ws_of dto) (disable_renewal t))"
    and "\<And>a p t. steps R (update_renewal (ws_of dto) (confirm_renewal a p t))"
  shows "steps R (renewalCommand_body e dto confirm type hash)"
proof -
  have change: "steps R (bnd (renewal_change e dto confirm renewal) (\<lambda>change. bnd (update_renewal (ws_of dto) change) k))"
    if "\<And>r. steps R (k r)" for renewal k
    unfolding renewal_change_def
    by (rule stepsI) (auto split: if_splits dest!: stepsD [OF steps_new_date] stepsD [OF steps_requirePolicy]
        stepsD [OF assms(3)] stepsD [OF assms(4)] stepsD [OF that]; blast intro: step_trans)
  show ?thesis
    unfolding renewalCommand_body_def
    by (intro assms(1,2) change steps_core_account core_frames steps_intro)
qed

lemma steps_renewalCommand:
  assumes "\<And>c type h. steps R (renewalCommand_body e dto c type h)"
  shows "steps R (disableRenewal e dto)" "steps R (confirmRenewal e dto)"
  unfolding disableRenewal_def confirmRenewal_def renewalCommand_def
  by (intro assms steps_or_replay steps_intro)+

lemma steps_verifyOrder:
  assumes "\<And>row. steps R (create_account row)" "\<And>v. steps R (bump_account (ws_of dto) v)"
  shows "steps R (verifyOrder e dto)"
  unfolding verifyOrder_def verifyOrder_body_def
  by (intro assms steps_or_replay steps_core_account core_frames steps_intro)

lemma steps_closeCommand:
  assumes "\<And>oid. steps R (updateMany_order (\<lambda>x. o_id x = oid \<and> o_status x = O_PENDING) close_order)"
  shows "steps R (closeCommand e dto)"
  unfolding closeCommand_def closeCommand_tx_def close_current_def
  by (intro assms core_frames steps_intro)

subsection \<open>Provider operations\<close>

lemma steps_ownsLease: "steps R (ownsLease e operation c)"
  unfolding ownsLease_def by (intro steps_intro)

lemma steps_owned_operation: "steps R (owned_operation e c)"
  unfolding owned_operation_def load_operation_def by (intro steps_ownsLease steps_intro)

lemma steps_claim: "steps R (claimProviderOperation e event)"
  unfolding claimProviderOperation_def claim_tx_def by (intro core_frames steps_intro)

lemma steps_prepare: "steps R (prepareProviderOperation e c)"
  unfolding prepareProviderOperation_def by (intro steps_ownsLease steps_intro)

lemma steps_finish: "steps R (finish e oid c status error)"
  unfolding finish_def by (intro core_frames steps_intro)

lemma steps_cancelOrder:
  assumes "\<And>reason. steps R (update_order (o_id ord) (cancelled_order reason))"
    and "\<And>reason. steps R (cancel_recurring e ord reason)"
  shows "steps R (cancelOrder e ord reason)"
  unfolding cancelOrder_def by (intro assms core_frames steps_intro)

lemma steps_dispatch_create:
  assumes "\<And>reason. steps R (cancelOrder e ord reason)"
    and "steps R (update_order (o_id ord) unknown_order)"
    and "steps R (updateMany_order (\<lambda>x. o_id x = o_id ord \<and> o_status x = O_PENDING) unknown_order)"
  shows "steps R (dispatch_create e operation ord c)"
  unfolding dispatch_create_def dispatch_refused_def by (intro assms steps_finish core_frames steps_intro)

lemma steps_beginProviderDispatch:
  assumes "steps R (dispatch_tx e c)"
  shows "steps R (beginProviderDispatch e c)"
  unfolding beginProviderDispatch_def by (intro assms steps_intro)

lemma steps_fulfill_parts:
  "steps R (fulfill_entitlement e ord p ent)" "steps R (fulfill_command ord p v)"
  unfolding fulfill_entitlement_def fulfill_command_def by (intro core_frames steps_intro)+

lemma steps_fulfill_renewal:
  assumes "\<And>t. steps R (update_renewal (o_workspaceId ord) (renewed t))"
    and "\<And>c t l n. steps R (upsert_renewal (o_workspaceId ord)
      (enabled_renewal ord x c t l (blank_renewal (o_workspaceId ord) n))
      (\<lambda>r. (enabled_renewal ord x c t l r)\<lparr>r_version := r_version r + 1\<rparr>))"
  shows "steps R (fulfill_renewal e ord provider x)"
  unfolding fulfill_renewal_def Let_def by (intro assms core_frames steps_intro)

lemma steps_fulfill:
  assumes "\<And>i t. steps R (update_order (o_id ord) (succeeded_order i t))"
    and "\<And>row. steps R (create_period row)"
    and "\<And>f. steps R (update_account (o_workspaceId ord) f)"
    and "\<And>x. steps R (fulfill_renewal e ord provider x)"
  shows "steps R (fulfill e ord provider)"
  unfolding fulfill_def
  by (intro assms steps_fulfill_parts steps_core_wake core_frames steps_intro)

lemma steps_settleReceipts: "steps R (settleReceipts e ord value)"
proof -
  have "steps R (settleReceipt e ord item)" for item
    unfolding settleReceipt_def by (auto intro!: core_frames steps_intro split: jsval.split)
  then show ?thesis
    unfolding settleReceipts_def by (auto intro!: steps_intro split: jsval.split)
qed

lemma steps_settle_sync: "steps R (settle_sync e operation ord c value)"
  unfolding settle_sync_def rescheduleReceipt_def
  by (intro steps_settleReceipts steps_finish core_frames steps_intro)

lemma steps_settle_succeeded:
  assumes "steps R (fulfill e ord value)"
  shows "steps R (settle_succeeded e operation ord c value)"
  unfolding settle_succeeded_def by (intro assms steps_finish core_frames steps_intro)

lemma steps_settle_canceled:
  assumes "\<And>reason. steps R (cancelOrder e ord reason)"
    and "\<And>i s. steps R (update_order (o_id ord) (reported_order i s))"
  shows "steps R (settle_canceled e operation ord c value)"
  unfolding settle_canceled_def by (intro assms steps_finish core_frames steps_intro)

lemma steps_settle_pending:
  assumes "\<And>i s u. steps R (update_order (o_id ord) (pending_again i s u))"
  shows "steps R (settle_pending e operation ord c value)"
  unfolding settle_pending_def by (intro assms steps_finish core_frames steps_intro)

lemma steps_settleProviderOperation:
  assumes "steps R (settle_tx e c value)"
  shows "steps R (settleProviderOperation e c value)"
  unfolding settleProviderOperation_def by (intro assms steps_intro)

lemma steps_fail_retry: "steps R (fail_retry e operation c pid code)"
  unfolding fail_retry_def by (intro core_frames steps_intro)

lemma steps_fail_final:
  assumes "\<And>reason. steps R (cancelOrder e ord reason)"
    and "steps R (update_order (op_orderId operation) unknown_order)"
  shows "steps R (fail_final e operation ord c pid ambiguous code)"
  unfolding fail_final_def by (intro assms steps_finish core_frames steps_intro)

lemma steps_failProviderOperation:
  assumes "steps R (fail_tx e c failed)"
  shows "steps R (failProviderOperation e c failed)"
  unfolding failProviderOperation_def by (intro assms steps_intro)

lemma steps_verification: "steps R (enqueueProviderVerification e value)"
  unfolding enqueueProviderVerification_def verification_tx_def by (intro core_frames steps_intro)

lemma steps_retry: "steps R (retryProviderOperation e oid dto actor)"
  unfolding retryProviderOperation_def retry_tx_def load_operation_def by (intro core_frames steps_intro)

subsection \<open>Scheduler, policy, entitlement, administration\<close>

lemma steps_activation: "steps R (activation_tx e pid)"
  unfolding activation_tx_def by (intro steps_core_wake core_frames steps_intro)

lemma steps_pause:
  assumes "\<And>f. steps R (update_renewal (r_workspaceId r)
      (\<lambda>r. r\<lparr>r_status := status, r_lastErrorCode := f, r_version := r_version r + 1\<rparr>))"
  shows "steps R (pause e r status code)"
  unfolding pause_def by (intro assms core_frames steps_intro)

lemma steps_charge:
  assumes "\<And>row. o_status row = O_PENDING \<Longrightarrow> steps R (create_order row)"
    and "\<And>ws s f. steps R (update_renewal ws
      (\<lambda>r. r\<lparr>r_status := s, r_lastErrorCode := f, r_version := r_version r + 1\<rparr>))"
    and "\<And>ws. steps R (update_renewal ws (\<lambda>r. r\<lparr>r_dispatchPending := True, r_version := r_version r + 1\<rparr>))"
    and "\<And>ws. steps R (update_account ws (\<lambda>a. a\<lparr>a_version := a_version a + 1\<rparr>))"
  shows "steps R (charge_tx e ws)"
proof -
  have new: "steps R (create_order (recurring_order e r a i s t n c x))" for r a i s t n c x
    by (rule assms(1)) (simp add: recurring_order_def)
  have "steps R (charge_order e r a i s t)" for r a i s t
    unfolding charge_order_def by (intro new assms(3,4) core_frames steps_intro)
  then show ?thesis
    unfolding charge_tx_def charge_priced_def
    by (intro steps_pause assms(2) core_frames steps_intro)
qed

lemma steps_policy_and_trial:
  "steps R (updatePolicy e pdto ctx)" "steps R (activateTrial e tdto)" "steps R (getEntitlement e ws)"
  by (intro core_frames steps_intro)+

lemma steps_admin_queries:
  "steps R (admin_role ctx)" "steps R (assertActor s ctx)" "steps R (requireEntitlement ws)"
  "steps R (read_subscription e ws)" "steps R (list_subscriptions e q ctx)" "steps R (grant_history ws i n ctx)"
  "steps R (grant_command e ws c ctx)"
proof -
  show r: "steps R (admin_role ctx)" "steps R (assertActor s ctx)" "steps R (requireEntitlement ws)"
    unfolding admin_role_def assertActor_def requireEntitlement_def by (intro steps_intro)+
  show "steps R (read_subscription e ws)" "steps R (list_subscriptions e q ctx)"
    "steps R (grant_history ws i n ctx)" "steps R (grant_command e ws c ctx)"
    unfolding read_subscription_def list_subscriptions_def grant_history_def grant_command_def
    by (intro r steps_intro)+
qed

lemma steps_cancel_grant: "steps R (cancel_grant e ws c s ctx)"
  unfolding cancel_grant_def cancel_tx_def by (intro steps_admin_queries core_frames steps_intro)

lemma steps_extend_target:
  assumes "\<And>p x. steps R (extend_period e ws p x)"
  shows "steps R (extend_target e ws before x)"
proof -
  have "steps R (extend_entitlement e ws v x)" for v
    unfolding extend_entitlement_def by (intro steps_admin_queries core_frames steps_intro)
  then show ?thesis
    unfolding extend_target_def by (intro assms steps_intro)
qed

lemma steps_extend_record:
  assumes "\<And>v. steps R (update_row accounts accounts_update P2025 (\<lambda>a. a_workspaceId a = ws \<and> a_version a = v)
          (\<lambda>a. a\<lparr>a_version := a_version a + 1\<rparr>))"
    and "\<And>x. steps R (update_renewal ws (extend_renewal x))"
  shows "steps R (extend_record e ws dto ctx role hash before now old x)"
  unfolding extend_record_def
  by (intro assms steps_core_wake steps_admin_queries core_frames steps_intro)

lemma steps_extend_tx:
  assumes "\<And>before. steps R (extend_grant e ws dto ctx role hash before)"
  shows "steps R (extend_tx e ws dto ctx role hash)"
  unfolding extend_tx_def by (intro assms steps_admin_queries core_frames steps_intro)

lemma steps_extend_days:
  assumes "\<And>role h. steps R (extend_tx e ws dto ctx role h)"
  shows "steps R (extend_days e ws dto ctx)"
  unfolding extend_days_def by (intro assms steps_admin_queries steps_intro)

end

section \<open>Steps of the service\<close>

text \<open>
  Every rule is one committed call; a call that throws changes nothing. The scheduler runs one
  transaction per period and per renewal, and other calls may come between any two of them, so its
  transactions are steps of their own. \<open>identity_event\<close> is the projection of identity data that the
  Identity service maintains.
\<close>

inductive service_step :: "env \<Rightarrow> db \<Rightarrow> db \<Rightarrow> bool" for e :: env where
  step_summary: "summary e dto w = Inr (r1, w') \<Longrightarrow> service_step e w w'"
| step_quote: "quote e dto w = Inr (r2, w') \<Longrightarrow> service_step e w w'"
| step_order: "order e dto w = Inr (r3, w') \<Longrightarrow> service_step e w w'"
| step_history: "history e dto w = Inr (r4, w') \<Longrightarrow> service_step e w w'"
| step_commandStatus: "commandStatus e dto w = Inr (r5, w') \<Longrightarrow> service_step e w w'"
| step_checkout: "checkout e dto w = Inr (r6, w') \<Longrightarrow> service_step e w w'"
| step_changeSeats: "changeSeats e dto w = Inr (r7, w') \<Longrightarrow> service_step e w w'"
| step_disableRenewal: "disableRenewal e dto w = Inr (r8, w') \<Longrightarrow> service_step e w w'"
| step_confirmRenewal: "confirmRenewal e dto w = Inr (r9, w') \<Longrightarrow> service_step e w w'"
| step_verifyOrder: "verifyOrder e dto w = Inr (r10, w') \<Longrightarrow> service_step e w w'"
| step_closeCommand: "closeCommand e dto w = Inr (r11, w') \<Longrightarrow> service_step e w w'"
| step_claim: "claimProviderOperation e event w = Inr (r12, w') \<Longrightarrow> service_step e w w'"
| step_prepare: "prepareProviderOperation e c w = Inr (r13, w') \<Longrightarrow> service_step e w w'"
| step_dispatch: "beginProviderDispatch e c w = Inr (r14, w') \<Longrightarrow> service_step e w w'"
| step_settle: "settleProviderOperation e c value w = Inr (r15, w') \<Longrightarrow> service_step e w w'"
| step_fail: "failProviderOperation e c failed w = Inr (r16, w') \<Longrightarrow> service_step e w w'"
| step_webhook: "enqueueProviderVerification e value w = Inr (r17, w') \<Longrightarrow> service_step e w w'"
| step_retry: "retryProviderOperation e oid dto actor w = Inr (r18, w') \<Longrightarrow> service_step e w w'"
| step_activation: "transaction e (activation_tx e pid) w = Inr (r19, w') \<Longrightarrow> service_step e w w'"
| step_charge: "transaction e (charge_tx e ws) w = Inr (r20, w') \<Longrightarrow> service_step e w w'"
| step_updatePolicy: "policy_dto_ok pdto \<Longrightarrow> updatePolicy e pdto ctx w = Inr (r21, w') \<Longrightarrow> service_step e w w'"
| step_activateTrial: "activateTrial e tdto w = Inr (r22, w') \<Longrightarrow> service_step e w w'"
| step_getEntitlement: "getEntitlement e ws w = Inr (r23, w') \<Longrightarrow> service_step e w w'"
| step_listSubscriptions: "list_subscriptions e q ctx w = Inr (r24, w') \<Longrightarrow> service_step e w w'"
| step_readSubscription: "detail_subscription e ws ctx w = Inr (r25, w') \<Longrightarrow> service_step e w w'"
| step_grantHistory: "grant_history ws page psize ctx w = Inr (r28, w') \<Longrightarrow> service_step e w w'"
| step_grantCommand: "grant_command e ws cid ctx w = Inr (r29, w') \<Longrightarrow> service_step e w w'"
| step_cancelGrant: "cancel_grant e ws cid s ctx w = Inr (r26, w') \<Longrightarrow> service_step e w w'"
| step_extend: "extend_dto_ok xdto \<Longrightarrow> extend_days e ws xdto ctx w = Inr (r27, w') \<Longrightarrow> service_step e w w'"
| identity_event: "service_step e w (w\<lparr>contacts := cs\<rparr>)"

text \<open>The state before the first command: no account, order, period, renewal or queued operation.\<close>

definition initial :: "db \<Rightarrow> bool" where
  "initial w \<longleftrightarrow> accounts w = [] \<and> commands w = [] \<and> orders w = [] \<and> periods w = [] \<and> renewals w = []
     \<and> operations w = [] \<and> deliveries w = []"

definition reachable :: "env \<Rightarrow> db \<Rightarrow> bool" where
  "reachable e w \<longleftrightarrow> (\<exists>w0. initial w0 \<and> (service_step e)\<^sup>*\<^sup>* w0 w)"

lemma reachable_induct [consumes 1, case_names initial step]:
  assumes "reachable e w" "\<And>w. initial w \<Longrightarrow> P w"
    and "\<And>w w'. reachable e w \<Longrightarrow> P w \<Longrightarrow> service_step e w w' \<Longrightarrow> P w'"
  shows "P w"
proof -
  obtain w0 where w0: "initial w0" and run: "(service_step e)\<^sup>*\<^sup>* w0 w"
    using assms(1) by (auto simp: reachable_def)
  from run have "reachable e w \<and> P w"
  proof (induction rule: rtranclp_induct)
    case base
    then show ?case
      using w0 assms(2) by (auto simp: reachable_def)
  next
    case (step y z)
    then show ?case
      using assms(3) [of y z] by (auto simp: reachable_def intro: rtranclp.rtrancl_into_rtrancl)
  qed
  then show ?thesis
    by simp
qed

context core_relation
begin

text \<open>
  A relation that holds across the transactions that write to the main tables holds across every step
  but a settlement; if it holds across a settlement too, it holds across every step.
\<close>

lemma service_step_or_settle:
  assumes checkout: "\<And>dto h. steps R (checkout_body e dto ''WINCRM_CHECKOUT'' h)"
    and seats: "\<And>dto h. steps R (changeSeats_body e dto ''WINCRM_SEAT_CHANGE'' h)"
    and renewal: "\<And>dto c type h. steps R (renewalCommand_body e dto c type h)"
    and verify: "\<And>dto. steps R (verifyOrder e dto)"
    and close: "\<And>dto. steps R (closeCommand e dto)"
    and dispatch: "\<And>c. steps R (dispatch_tx e c)"
    and fail: "\<And>c failed. steps R (fail_tx e c failed)"
    and charge: "\<And>ws. steps R (charge_tx e ws)"
    and extend: "\<And>ws dto ctx role h. extend_dto_ok dto \<Longrightarrow> steps R (extend_tx e ws dto ctx role h)"
    and contacts: "frame R contacts_update"
  shows "service_step e w w' \<Longrightarrow> R w w' \<or> (\<exists>c value r. settleProviderOperation e c value w = Inr (r, w'))"
proof (induction rule: service_step.induct)
  case (identity_event w cs)
  then show ?case
    using frameD [OF contacts, of w "\<lambda>_. cs"] by simp
next
  case (step_extend xdto ws ctx w r27 w')
  then show ?case
    using stepsD [OF steps_extend_days [OF extend]] by blast
next
  case (step_readSubscription ws ctx w r25 w')
  have "steps R (detail_subscription e ws ctx)"
    unfolding detail_subscription_def by (rule steps_thn [OF steps_admin_queries(1,4)])
  from stepsD [OF this step_readSubscription] show ?case ..
next
  case step_settle
  then show ?case
    by blast
qed (rule disjI1, (rule stepsD, assumption | (erule stepsD [rotated],
      (rule steps_queries steps_checkout steps_changeSeats steps_renewalCommand steps_claim steps_prepare
         steps_beginProviderDispatch steps_failProviderOperation
         steps_verification steps_retry steps_transaction steps_activation steps_policy_and_trial
         steps_admin_queries steps_cancel_grant checkout seats renewal verify close dispatch fail charge)+)))+

lemma service_step_core:
  assumes checkout: "\<And>dto h. steps R (checkout_body e dto ''WINCRM_CHECKOUT'' h)"
    and seats: "\<And>dto h. steps R (changeSeats_body e dto ''WINCRM_SEAT_CHANGE'' h)"
    and renewal: "\<And>dto c type h. steps R (renewalCommand_body e dto c type h)"
    and verify: "\<And>dto. steps R (verifyOrder e dto)"
    and close: "\<And>dto. steps R (closeCommand e dto)"
    and dispatch: "\<And>c. steps R (dispatch_tx e c)"
    and settle: "\<And>c value. steps R (settle_tx e c value)"
    and fail: "\<And>c failed. steps R (fail_tx e c failed)"
    and charge: "\<And>ws. steps R (charge_tx e ws)"
    and extend: "\<And>ws dto ctx role h. extend_dto_ok dto \<Longrightarrow> steps R (extend_tx e ws dto ctx role h)"
    and contacts: "frame R contacts_update"
    and step: "service_step e w w'"
  shows "R w w'"
  using service_step_or_settle [OF checkout seats renewal verify close dispatch fail charge extend contacts step]
    stepsD [OF steps_settleProviderOperation [OF settle]] by blast

end

end
