(* ===== verification/Ledger.thy ===== *)
theory Ledger
  imports Commerce_Data
begin

text \<open>
  An abstract specification of WinCRM billing: which orders exist in which state and which paid
  periods they bought. Four steps change it: an order is opened, an unpaid order changes its state, an
  order is paid and buys a period after all earlier periods of its workspace, and the end of the last
  period of a workspace moves. The steps keep the invariant \<open>ledger_ok\<close>: identifiers are unique,
  periods of a workspace never overlap, and an order is paid exactly when it has a period.
\<close>

section \<open>The specification\<close>

record ledger_period =
  lp_id :: jsstring
  lp_workspace :: jsstring
  lp_order :: jsstring
  lp_start :: date
  lp_end :: date

record ledger =
  l_orders :: "(jsstring \<times> jsstring \<times> order_status) list"
  l_periods :: "ledger_period list"

definition set_status :: "jsstring \<Rightarrow> order_status \<Rightarrow> (jsstring \<times> jsstring \<times> order_status) list \<Rightarrow>
    (jsstring \<times> jsstring \<times> order_status) list" where
  "set_status i s xs = map (\<lambda>(j, ws, t). (j, ws, if j = i then s else t)) xs"

definition with_end :: "jsstring \<Rightarrow> date \<Rightarrow> ledger_period \<Rightarrow> ledger_period" where
  "with_end i t p = (if lp_id p = i then p\<lparr>lp_end := t\<rparr> else p)"

definition set_end :: "jsstring \<Rightarrow> date \<Rightarrow> ledger_period list \<Rightarrow> ledger_period list" where
  "set_end i t ps = map (with_end i t) ps"

inductive ledger_step :: "ledger \<Rightarrow> ledger \<Rightarrow> bool" where
  opened: "i \<notin> fst ` set (l_orders l) \<Longrightarrow>
     ledger_step l (l\<lparr>l_orders := l_orders l @ [(i, ws, O_PENDING)]\<rparr>)"
| moved: "(i, ws, s) \<in> set (l_orders l) \<Longrightarrow> s \<noteq> O_SUCCEEDED \<Longrightarrow> s' \<noteq> O_SUCCEEDED \<Longrightarrow>
     ledger_step l (l\<lparr>l_orders := set_status i s' (l_orders l)\<rparr>)"
| paid: "(i, ws, s) \<in> set (l_orders l) \<Longrightarrow> s \<noteq> O_SUCCEEDED \<Longrightarrow>
     k \<notin> lp_id ` set (l_periods l) \<Longrightarrow> i \<notin> lp_order ` set (l_periods l) \<Longrightarrow> a < b \<Longrightarrow>
     (\<And>p. p \<in> set (l_periods l) \<Longrightarrow> lp_workspace p = ws \<Longrightarrow> lp_end p \<le> a) \<Longrightarrow>
     ledger_step l (l\<lparr>l_orders := set_status i O_SUCCEEDED (l_orders l),
       l_periods := l_periods l @ [\<lparr>lp_id = k, lp_workspace = ws, lp_order = i, lp_start = a, lp_end = b\<rparr>]\<rparr>)"
| end_moved: "p \<in> set (l_periods l) \<Longrightarrow> lp_start p < t \<Longrightarrow>
     (\<And>q. q \<in> set (l_periods l) \<Longrightarrow> lp_workspace q = lp_workspace p \<Longrightarrow> lp_start q \<le> lp_start p) \<Longrightarrow>
     ledger_step l (l\<lparr>l_periods := set_end (lp_id p) t (l_periods l)\<rparr>)"

inductive_cases ledger_stepE: "ledger_step l l'"

section \<open>The invariant\<close>

definition apart :: "ledger_period \<Rightarrow> ledger_period \<Rightarrow> bool" where
  "apart p q \<longleftrightarrow> lp_end p \<le> lp_start q \<or> lp_end q \<le> lp_start p"

definition periods_ok :: "ledger_period list \<Rightarrow> bool" where
  "periods_ok ps \<longleftrightarrow>
     (\<forall>p\<in>set ps. lp_start p < lp_end p)
     \<and> (\<forall>p\<in>set ps. \<forall>q\<in>set ps. lp_workspace p = lp_workspace q \<longrightarrow> p \<noteq> q \<longrightarrow> apart p q)"

definition ledger_ok :: "ledger \<Rightarrow> bool" where
  "ledger_ok l \<longleftrightarrow>
     distinct (map fst (l_orders l)) \<and> distinct (map lp_id (l_periods l))
     \<and> distinct (map lp_order (l_periods l)) \<and> periods_ok (l_periods l)
     \<and> (\<forall>p\<in>set (l_periods l). (lp_order p, lp_workspace p, O_SUCCEEDED) \<in> set (l_orders l))
     \<and> (\<forall>i ws. (i, ws, O_SUCCEEDED) \<in> set (l_orders l) \<longrightarrow> i \<in> lp_order ` set (l_periods l))"

lemma set_status_fst [simp]: "map fst (set_status i s xs) = map fst xs"
  by (induction xs) (auto simp: set_status_def)

lemma set_status_mem:
  "(j, ws, t) \<in> set (set_status i s xs) \<longleftrightarrow>
     (if j = i then t = s \<and> (\<exists>u. (j, ws, u) \<in> set xs) else (j, ws, t) \<in> set xs)"
  by (force simp: set_status_def image_iff)

lemma order_unique:
  "distinct (map fst xs) \<Longrightarrow> (i, a) \<in> set xs \<Longrightarrow> (i, b) \<in> set xs \<Longrightarrow> a = b"
  by (metis eq_key_imp_eq_value)

lemma with_end_fields [simp]:
  "lp_id (with_end i t p) = lp_id p" "lp_workspace (with_end i t p) = lp_workspace p"
  "lp_order (with_end i t p) = lp_order p" "lp_start (with_end i t p) = lp_start p"
  "lp_end (with_end i t p) = (if lp_id p = i then t else lp_end p)"
  by (simp_all add: with_end_def)

lemma set_end_fields [simp]:
  "map lp_id (set_end i t ps) = map lp_id ps" "map lp_order (set_end i t ps) = map lp_order ps"
  by (simp_all add: set_end_def)

lemma set_set_end: "set (set_end i t ps) = with_end i t ` set ps"
  by (simp add: set_end_def)

text \<open>The last period of a workspace ends after all others.\<close>

lemma last_period_ends:
  assumes "periods_ok ps" "p \<in> set ps" "q \<in> set ps" "lp_workspace q = lp_workspace p" "q \<noteq> p"
    and "lp_start q \<le> lp_start p"
  shows "lp_end q \<le> lp_start p"
proof -
  have "lp_start p < lp_end p" "apart p q"
    using assms by (auto simp: periods_ok_def)
  then show ?thesis
    using assms(6) by (auto simp: apart_def)
qed

lemma periods_ok_append:
  assumes "periods_ok ps" "lp_start n < lp_end n"
    and "\<And>p. p \<in> set ps \<Longrightarrow> lp_workspace p = lp_workspace n \<Longrightarrow> lp_end p \<le> lp_start n"
  shows "periods_ok (ps @ [n])"
  using assms unfolding periods_ok_def apart_def by auto

lemma periods_ok_set_end:
  assumes "periods_ok ps" "p \<in> set ps" "lp_start p < t" "distinct (map lp_id ps)"
    and "\<And>q. q \<in> set ps \<Longrightarrow> lp_workspace q = lp_workspace p \<Longrightarrow> lp_start q \<le> lp_start p"
  shows "periods_ok (set_end (lp_id p) t ps)"
proof -
  have same: "q \<in> set ps \<Longrightarrow> lp_id q = lp_id p \<Longrightarrow> q = p" for q
    using assms(2,4) by (metis inj_on_def distinct_map)
  have rest: "q \<in> set ps \<Longrightarrow> lp_workspace q = lp_workspace p \<Longrightarrow> q \<noteq> p \<Longrightarrow> lp_end q \<le> lp_start p" for q
    using last_period_ends [OF assms(1,2)] assms(5) by blast
  have "apart (with_end (lp_id p) t u) (with_end (lp_id p) t v)"
    if uv: "u \<in> set ps" "v \<in> set ps" "lp_workspace u = lp_workspace v" "u \<noteq> v" for u v
  proof -
    consider "u = p" "v \<noteq> p" | "v = p" "u \<noteq> p" | "u \<noteq> p" "v \<noteq> p"
      using uv(4) by blast
    then show ?thesis
    proof cases
      case 1
      then show ?thesis
        using uv rest [of v] same [of v] by (auto simp: apart_def)
    next
      case 2
      then show ?thesis
        using uv rest [of u] same [of u] by (auto simp: apart_def)
    next
      case 3
      then have "lp_id u \<noteq> lp_id p" "lp_id v \<noteq> lp_id p" "apart u v"
        using uv same [of u] same [of v] assms(1) by (auto simp: periods_ok_def)
      then show ?thesis
        by (simp add: with_end_def)
    qed
  qed
  moreover have "lp_start u < lp_end (with_end (lp_id p) t u)" if "u \<in> set ps" for u
    using that assms(1,3) same [of u] by (auto simp: periods_ok_def)
  ultimately show ?thesis
    unfolding periods_ok_def set_set_end by (auto simp del: with_end_fields(5))
qed

lemma ledger_step_ok: "ledger_step l l' \<Longrightarrow> ledger_ok l \<Longrightarrow> ledger_ok l'"
proof (induction rule: ledger_step.induct)
  case (opened i l ws)
  then show ?case
    by (auto simp: ledger_ok_def)
next
  case (moved i ws s l s')
  then have "lp_order p \<noteq> i" if "p \<in> set (l_periods l)" for p
    using that order_unique [of "l_orders l" i] by (fastforce simp: ledger_ok_def)
  with moved show ?case
    by (auto simp: ledger_ok_def set_status_mem)
next
  case (paid i ws s l k a b)
  have "periods_ok (l_periods l @ [\<lparr>lp_id = k, lp_workspace = ws, lp_order = i, lp_start = a, lp_end = b\<rparr>])"
    using paid by (intro periods_ok_append) (auto simp: ledger_ok_def)
  with paid show ?case
    by (auto simp: ledger_ok_def set_status_mem)
next
  case (end_moved p l t)
  have "periods_ok (set_end (lp_id p) t (l_periods l))"
    using end_moved by (intro periods_ok_set_end) (auto simp: ledger_ok_def)
  with end_moved show ?case
    by (simp add: ledger_ok_def set_set_end image_image)
qed

lemma ledger_steps_ok: "ledger_step\<^sup>*\<^sup>* l l' \<Longrightarrow> ledger_ok l \<Longrightarrow> ledger_ok l'"
  by (induction rule: rtranclp_induct) (auto intro: ledger_step_ok)

section \<open>What no step takes back\<close>

text \<open>
  A paid order stays paid, and a period keeps its workspace, its order and its start for ever.
\<close>

definition ledger_keeps :: "ledger \<Rightarrow> ledger \<Rightarrow> bool" where
  "ledger_keeps l l' \<longleftrightarrow>
     (\<forall>i ws. (i, ws, O_SUCCEEDED) \<in> set (l_orders l) \<longrightarrow> (i, ws, O_SUCCEEDED) \<in> set (l_orders l'))
     \<and> (\<forall>p\<in>set (l_periods l). \<exists>q\<in>set (l_periods l'). lp_id q = lp_id p \<and> lp_workspace q = lp_workspace p
          \<and> lp_order q = lp_order p \<and> lp_start q = lp_start p)"

lemma ledger_keeps_trans: "ledger_keeps a b \<Longrightarrow> ledger_keeps b c \<Longrightarrow> ledger_keeps a c"
  unfolding ledger_keeps_def by fastforce

lemma ledger_step_keeps:
  assumes "ledger_step l l'" "distinct (map fst (l_orders l))"
  shows "ledger_keeps l l'"
  using assms
proof (induction rule: ledger_step.induct)
  case (moved i ws s l s')
  then have "(i, v, O_SUCCEEDED) \<notin> set (l_orders l)" for v
    using order_unique [of "l_orders l" i "(ws, s)" "(v, O_SUCCEEDED)"] by blast
  then show ?case
    by (auto simp: ledger_keeps_def set_status_mem)
next
  case (paid i ws s l k a b)
  then show ?case
    by (auto simp: ledger_keeps_def set_status_mem)
next
  case (end_moved p l t)
  then show ?case
    by (auto simp: ledger_keeps_def set_set_end)
qed (auto simp: ledger_keeps_def)

lemma ledger_steps_keep: "ledger_step\<^sup>*\<^sup>* l l' \<Longrightarrow> ledger_ok l \<Longrightarrow> ledger_keeps l l'"
proof (induction rule: rtranclp_induct)
  case base
  then show ?case
    by (auto simp: ledger_keeps_def)
next
  case (step m n)
  then have "ledger_ok m"
    using ledger_steps_ok by blast
  then have "ledger_keeps m n"
    using step.hyps(2) by (intro ledger_step_keeps) (auto simp: ledger_ok_def)
  with step show ?case
    using ledger_keeps_trans by blast
qed

end
