(* ===== verification/Ledger_Refinement.thy ===== *)
theory Ledger_Refinement
  imports Service Ledger
begin

text \<open>
  The orders and paid periods of the database as an abstract ledger, and the provider side of the
  service as a refinement of it: dispatching, settling and failing a provider operation are sequences
  of ledger steps, and a fulfilment is the step that pays an order.
\<close>

section \<open>The abstraction\<close>

definition ord_of :: "order_row \<Rightarrow> jsstring \<times> jsstring \<times> order_status" where
  "ord_of x = (o_id x, o_workspaceId x, o_status x)"

definition per_of :: "period_row \<Rightarrow> ledger_period" where
  "per_of p = \<lparr>lp_id = p_id p, lp_workspace = p_workspaceId p, lp_order = p_orderId p,
     lp_start = p_startsAt p, lp_end = p_expiresAt p\<rparr>"

definition ledger_of :: "db \<Rightarrow> ledger" where
  "ledger_of w = \<lparr>l_orders = map ord_of (orders w), l_periods = map per_of (periods w)\<rparr>"

definition refines :: "db \<Rightarrow> db \<Rightarrow> bool" where
  "refines w w' \<longleftrightarrow> (ledger_ok (ledger_of w) \<longrightarrow> ledger_step\<^sup>*\<^sup>* (ledger_of w) (ledger_of w'))"

lemma per_of_simps [simp]:
  "lp_id (per_of p) = p_id p" "lp_workspace (per_of p) = p_workspaceId p" "lp_order (per_of p) = p_orderId p"
  "lp_start (per_of p) = p_startsAt p" "lp_end (per_of p) = p_expiresAt p"
  by (simp_all add: per_of_def)

lemma ledger_of_simps [simp]:
  "l_orders (ledger_of w) = map ord_of (orders w)" "l_periods (ledger_of w) = map per_of (periods w)"
  by (simp_all add: ledger_of_def)

lemma ledger_of_cong: "orders w' = orders w \<Longrightarrow> periods w' = periods w \<Longrightarrow> ledger_of w' = ledger_of w"
  by (simp add: ledger_of_def)

lemma fst_ord_of [simp]: "fst \<circ> ord_of = o_id" "fst (ord_of x) = o_id x"
  by (auto simp: ord_of_def)

lemma refinesI: "(ledger_ok (ledger_of w) \<Longrightarrow> ledger_step\<^sup>*\<^sup>* (ledger_of w) (ledger_of w')) \<Longrightarrow> refines w w'"
  by (simp add: refines_def)

lemma refines_same: "ledger_of w' = ledger_of w \<Longrightarrow> refines w w'"
  by (simp add: refines_def)

lemma refines_trans: "refines a b \<Longrightarrow> refines b c \<Longrightarrow> refines a c"
  unfolding refines_def by (meson ledger_steps_ok rtranclp_trans)

lemma notify_ledger:
  assumes "update_period (\<lambda>x. p_id x = k) (\<lambda>x. x\<lparr>p_activationNotifiedAt := Some t\<rparr>) w = Inr (r, w')"
  shows "orders w' = orders w" and "ledger_of w' = ledger_of w"
  using assms by (auto simp: update_period_def tb_periods.update_row_Inr ledger_of_def upd_rows_def per_of_def)

interpretation same_ledger: core_relation "same ledger_of"
  by unfold_locales
    (auto simp: same_def frame_def ledger_of_def steps_def dest!: notify_ledger(2) [unfolded ledger_of_def])

interpretation refine: core_relation refines
proof unfold_locales
  show "refines w w" for w
    by (simp add: refines_same)
  show "refines a b \<Longrightarrow> refines b c \<Longrightarrow> refines a c" for a b c
    by (rule refines_trans)
  show "steps refines (update_period (\<lambda>x. p_id x = k) (\<lambda>x. x\<lparr>p_activationNotifiedAt := Some t\<rparr>))" for k t
    by (rule stepsI) (auto intro: refines_same dest: notify_ledger(2))
qed (auto simp: frame_def intro!: refines_same ledger_of_cong)

lemma refines_frames [simp]:
  "frame refines accounts_update" "frame refines renewals_update" "frame refines contacts_update"
  by (auto simp: frame_def intro!: refines_same ledger_of_cong)

section \<open>Writes to orders\<close>

lemma ledger_upd_orders:
  assumes "distinct (map o_id xs)" "old \<in> set xs" "P old" "\<And>x. x \<in> set xs \<Longrightarrow> P x \<Longrightarrow> o_id x = o_id old"
    and "\<And>x. o_id (f x) = o_id x" "\<And>x. o_workspaceId (f x) = o_workspaceId x"
  shows "map ord_of (upd_rows P f xs) = set_status (o_id old) (o_status (f old)) (map ord_of xs)"
proof -
  have "x = old" if "x \<in> set xs" "o_id x = o_id old" for x
    using assms(1,2) that by (metis inj_on_def distinct_map)
  then have "x \<in> set xs \<Longrightarrow> P x \<longleftrightarrow> x = old" and "x \<in> set xs \<Longrightarrow> o_id x = o_id old \<longleftrightarrow> x = old" for x
    using assms(3,4) by blast+
  then show ?thesis
    using assms(5,6) by (simp add: upd_rows_def set_status_def ord_of_def)
qed

lemma ledger_ok_ids: "ledger_ok (ledger_of w) \<Longrightarrow> distinct (map o_id (orders w))"
  by (simp add: ledger_ok_def)

text \<open>A write to the row of an unpaid order that does not make it paid is one step of the ledger.\<close>

lemma refines_update_orders:
  assumes "old \<in> set (orders w)" "P old" "\<And>x. P x \<Longrightarrow> o_id x = o_id old" "o_status old \<noteq> O_SUCCEEDED"
    and "\<And>x. o_id (f x) = o_id x" "\<And>x. o_workspaceId (f x) = o_workspaceId x" "o_status (f old) \<noteq> O_SUCCEEDED"
  shows "refines w (orders_update (upd_rows P f) w)"
proof (rule refinesI)
  assume ok: "ledger_ok (ledger_of w)"
  have "map ord_of (upd_rows P f (orders w)) = set_status (o_id old) (o_status (f old)) (map ord_of (orders w))"
    by (rule ledger_upd_orders) (use ledger_ok_ids [OF ok] assms in blast)+
  then have "ledger_of (orders_update (upd_rows P f) w)
      = (ledger_of w)\<lparr>l_orders := set_status (o_id old) (o_status (f old)) (l_orders (ledger_of w))\<rparr>"
    by (simp add: ledger_of_def)
  moreover have "ledger_step (ledger_of w)
      ((ledger_of w)\<lparr>l_orders := set_status (o_id old) (o_status (f old)) (l_orders (ledger_of w))\<rparr>)"
    using assms(1,4,7) by (intro moved [where ws = "o_workspaceId old" and s = "o_status old"])
      (auto simp: ord_of_def image_iff)
  ultimately show "ledger_step\<^sup>*\<^sup>* (ledger_of w) (ledger_of (orders_update (upd_rows P f) w))"
    by simp
qed

lemma refines_create_order: "o_status row = O_PENDING \<Longrightarrow> steps refines (create_order row)"
proof (rule stepsI)
  fix w x w'
  assume pending: "o_status row = O_PENDING" and "create_order row w = Inr (x, w')"
  then have new: "o_id row \<notin> o_id ` set (orders w)" and w': "w' = w\<lparr>orders := orders w @ [row]\<rparr>"
    by (auto simp: create_order_def tb_orders.create_row_Inr)
  have "ledger_step (ledger_of w)
      ((ledger_of w)\<lparr>l_orders := l_orders (ledger_of w) @ [(o_id row, o_workspaceId row, O_PENDING)]\<rparr>)"
    using new by (intro opened) (auto simp: ord_of_def image_iff)
  then have "ledger_step (ledger_of w) (ledger_of w')"
    using pending by (simp add: w' ledger_of_def ord_of_def)
  then show "refines w w'"
    by (simp add: refines_def r_into_rtranclp)
qed

lemma refines_updateMany_pending:
  assumes "\<And>x. o_id (f x) = o_id x" "\<And>x. o_workspaceId (f x) = o_workspaceId x"
    and "\<And>x. o_status x = O_PENDING \<Longrightarrow> o_status (f x) \<noteq> O_SUCCEEDED"
  shows "steps refines (updateMany_order (\<lambda>x. o_id x = oid \<and> o_status x = O_PENDING) f)"
proof (rule stepsI)
  fix w n w'
  let ?P = "\<lambda>x. o_id x = oid \<and> o_status x = O_PENDING"
  assume "updateMany_order ?P f w = Inr (n, w')"
  then have w': "w' = orders_update (upd_rows ?P f) w"
    by (simp add: updateMany_order_def tb_orders.update_many_Inr)
  show "refines w w'"
  proof (cases "\<exists>old\<in>set (orders w). ?P old")
    case True
    then obtain old where "old \<in> set (orders w)" "?P old"
      by blast
    then show ?thesis
      unfolding w' using assms by (intro refines_update_orders [of old]) auto
  next
    case False
    then have "upd_rows ?P f (orders w) = orders w"
      unfolding upd_rows_def by (intro map_idI) auto
    then show ?thesis
      by (simp add: w' refines_same)
  qed
qed

text \<open>
  \<open>unpaid oid\<close>: as long as the order is not paid it stays so, and the ledger makes its steps.
\<close>

definition live :: "jsstring \<Rightarrow> db \<Rightarrow> bool" where
  "live oid w \<longleftrightarrow> (\<forall>x\<in>set (orders w). o_id x = oid \<longrightarrow> o_status x \<noteq> O_SUCCEEDED)"

definition unpaid :: "jsstring \<Rightarrow> db \<Rightarrow> db \<Rightarrow> bool" where
  "unpaid oid w w' \<longleftrightarrow> (live oid w \<longrightarrow> live oid w' \<and> refines w w')"

lemma unpaid_same: "orders w' = orders w \<Longrightarrow> refines w w' \<Longrightarrow> unpaid oid w w'"
  by (simp add: unpaid_def live_def)

interpretation unpaid: core_relation "unpaid oid" for oid
proof unfold_locales
  show "unpaid oid w w" for w
    by (simp add: unpaid_same refines_same)
  show "unpaid oid a b \<Longrightarrow> unpaid oid b c \<Longrightarrow> unpaid oid a c" for a b c
    using refines_trans by (auto simp: unpaid_def)
  show "steps (unpaid oid) (update_period (\<lambda>x. p_id x = k) (\<lambda>x. x\<lparr>p_activationNotifiedAt := Some t\<rparr>))" for k t
    by (rule stepsI) (auto intro!: unpaid_same refines_same dest: notify_ledger)
qed (auto simp: frame_def intro!: unpaid_same refines_same ledger_of_cong)

lemma unpaid_frames [simp]: "frame (unpaid oid) accounts_update" "frame (unpaid oid) renewals_update"
  by (auto simp: frame_def intro!: unpaid_same refines_same ledger_of_cong)

lemma unpaid_update_order:
  assumes "\<And>x. o_id (f x) = o_id x" "\<And>x. o_workspaceId (f x) = o_workspaceId x"
    and "\<And>x. o_status x \<noteq> O_SUCCEEDED \<Longrightarrow> o_status (f x) \<noteq> O_SUCCEEDED"
  shows "steps (unpaid oid) (update_order oid f)"
proof (rule stepsI)
  fix w r w'
  assume run: "update_order oid f w = Inr (r, w')"
  then obtain old where old: "find (\<lambda>x. o_id x = oid) (orders w) = Some old"
    and w': "w' = orders_update (upd_rows (\<lambda>x. o_id x = oid) f) w"
    by (auto simp: update_order_def tb_orders.update_row_Inr split: option.splits if_splits)
  have "live oid w \<Longrightarrow> refines w w'"
    unfolding w' using assms find_Some_D [OF old] by (intro refines_update_orders [of old]) (auto simp: live_def)
  moreover have "live oid w \<Longrightarrow> live oid w'"
    using assms by (auto simp: w' live_def set_upd_rows)
  ultimately show "unpaid oid w w'"
    by (simp add: unpaid_def)
qed

lemma unpaid_updateMany:
  assumes "\<And>x. o_id (f x) = o_id x" "\<And>x. o_workspaceId (f x) = o_workspaceId x"
    and "\<And>x. o_status (f x) \<noteq> O_SUCCEEDED"
  shows "steps (unpaid oid) (updateMany_order (\<lambda>x. o_id x = oid \<and> o_status x = O_PENDING) f)"
proof (rule stepsI)
  fix w n w'
  assume run: "updateMany_order (\<lambda>x. o_id x = oid \<and> o_status x = O_PENDING) f w = Inr (n, w')"
  have "refines w w'"
    by (rule stepsD [OF refines_updateMany_pending run]) (use assms in auto)
  moreover have "live oid w \<Longrightarrow> live oid w'"
    using run assms by (auto simp: updateMany_order_def tb_orders.update_many_Inr live_def set_upd_rows)
  ultimately show "unpaid oid w w'"
    by (simp add: unpaid_def)
qed

lemma unpaid_cancelOrder: "steps (unpaid (o_id ord)) (cancelOrder e ord reason)"
proof (rule unpaid.steps_cancelOrder)
  show "steps (unpaid (o_id ord)) (update_order (o_id ord) (cancelled_order reason))" for reason
    by (rule unpaid_update_order) (auto simp: cancelled_order_def)
  show "steps (unpaid (o_id ord)) (cancel_recurring e ord reason)" for reason
    unfolding cancel_recurring_def by (intro unpaid_frames steps_intro)
qed

section \<open>Fulfilment\<close>

lemma period_end_later: "wincrmPeriodEnd (timeClip t) c = Inr x \<Longrightarrow> t < x"
  by (auto simp: wincrmPeriodEnd_def Let_def split: option.splits if_splits)

text \<open>What a fulfilment writes before the part that only notifies.\<close>

context core_relation
begin

lemma steps_fulfill_tail:
  assumes "frame R accounts_update" "frame R renewals_update"
  shows "steps R (thn (fulfill_entitlement e ord period ent)
     (thn (update_account ws f)
     (thn (fulfill_command ord period v)
     (thn (fulfill_renewal e ord provider x)
     (enqueueCrmEntitlementChanged e ws2)))))"
proof -
  have "steps R (fulfill_renewal e ord provider x)"
    by (intro steps_fulfill_renewal assms steps_intro)
  then show ?thesis
    by (intro steps_core_wake steps_fulfill_parts assms steps_intro)
qed

lemma fulfill_effect:
  assumes frames: "frame R accounts_update" "frame R renewals_update"
    and run: "fulfill e ord provider w = Inr (u, w')" and unpaid: "o_status ord \<noteq> O_SUCCEEDED"
  obtains snapshot startsAt expiresAt paidAt newId w1 where
    "case latestPeriod (o_workspaceId ord) w of None \<Rightarrow> True | Some p \<Rightarrow> p_expiresAt p \<le> clock e (tick w)"
    "startsAt = period_start (find_entitlement (o_workspaceId ord) w) (clock e (tick w))"
    "wincrmPeriodEnd (timeClip startsAt) (o_cycle ord) = Inr expiresAt"
    "readWincrmPriceSnapshot (o_priceSnapshot ord) = Inr snapshot"
    "paid_at e provider (clock e (tick w)) = Inr paidAt"
    "newId \<notin> p_id ` set (periods w)" "o_id ord \<notin> p_orderId ` set (periods w)"
    "orders w1 = upd_rows (\<lambda>x. o_id x = o_id ord) (succeeded_order (as_str (jsfield provider ''id'')) paidAt) (orders w)"
    "periods w1 = periods w @ [paid_period ord snapshot startsAt expiresAt newId]"
    "R w1 w'"
proof -
  obtain acc snapshot startsAt expiresAt paidAt w1 w2 w3 newId where facts:
      "case latestPeriod (o_workspaceId ord) w of None \<Rightarrow> True | Some p \<Rightarrow> p_expiresAt p \<le> clock e (tick w)"
      "startsAt = period_start (find_entitlement (o_workspaceId ord) w) (clock e (tick w))"
      "wincrmPeriodEnd (timeClip startsAt) (o_cycle ord) = Inr expiresAt"
      "readWincrmPriceSnapshot (o_priceSnapshot ord) = Inr snapshot"
      "paid_at e provider (clock e (tick w)) = Inr paidAt"
    and w1: "update_order (o_id ord) (succeeded_order (as_str (jsfield provider ''id'')) paidAt) (w\<lparr>tick := tick w + 1\<rparr>) = Inr (acc, w1)"
    and w2: "create_period (paid_period ord snapshot startsAt expiresAt newId) (w1\<lparr>fresh := fresh w1 + 1\<rparr>) = Inr (w2, w3)"
    and tail: "R w3 w'"
    using run unpaid
    by (auto simp: fulfill_def new_date_def randomUUID_def Let_def dest!: stepsD [OF steps_fulfill_tail [OF frames]]; blast)
  have eqs: "orders w1 = upd_rows (\<lambda>x. o_id x = o_id ord) (succeeded_order (as_str (jsfield provider ''id'')) paidAt) (orders w)"
    "periods w1 = periods w"
    using w1 by (auto simp: update_order_def tb_orders.update_row_Inr split: option.splits if_splits)
  have new: "newId \<notin> p_id ` set (periods w)" "o_id ord \<notin> p_orderId ` set (periods w)"
    "orders w3 = orders w1" "periods w3 = periods w @ [paid_period ord snapshot startsAt expiresAt newId]"
    using w2 eqs(2) by (auto simp: create_period_def tb_periods.create_row_Inr paid_period_def)
  show ?thesis
    by (rule that [OF facts new(1,2) _ new(4) tail]) (simp add: new(3) eqs(1))
qed

end

lemma succeeded_order_keeps [simp]:
  "o_id (succeeded_order i t x) = o_id x" "o_workspaceId (succeeded_order i t x) = o_workspaceId x"
  "o_status (succeeded_order i t x) = O_SUCCEEDED"
  by (simp_all add: succeeded_order_def)

text \<open>A fulfilment pays the order and appends a period after all others of the workspace.\<close>

lemma fulfill_refines:
  assumes run: "fulfill e ord provider w = Inr (u, w')" and unpaid: "o_status ord \<noteq> O_SUCCEEDED"
    and row: "ord \<in> set (orders w)"
  shows "refines w w'"
proof (rule refinesI)
  assume ok: "ledger_ok (ledger_of w)"
  obtain snapshot startsAt expiresAt paidAt newId w1 where f:
    "case latestPeriod (o_workspaceId ord) w of None \<Rightarrow> True | Some p \<Rightarrow> p_expiresAt p \<le> clock e (tick w)"
    "startsAt = period_start (find_entitlement (o_workspaceId ord) w) (clock e (tick w))"
    "wincrmPeriodEnd (timeClip startsAt) (o_cycle ord) = Inr expiresAt"
    "newId \<notin> p_id ` set (periods w)" "o_id ord \<notin> p_orderId ` set (periods w)"
    "orders w1 = upd_rows (\<lambda>x. o_id x = o_id ord) (succeeded_order (as_str (jsfield provider ''id'')) paidAt) (orders w)"
    "periods w1 = periods w @ [paid_period ord snapshot startsAt expiresAt newId]"
    "same ledger_of w1 w'"
    by (rule same_ledger.fulfill_effect [OF _ _ run unpaid]) (auto simp: ledger_of_def)
  have status: "map ord_of (orders w1) = set_status (o_id ord) O_SUCCEEDED (map ord_of (orders w))"
    unfolding f(6) using ledger_upd_orders [OF ledger_ok_ids [OF ok] row, of "\<lambda>x. o_id x = o_id ord"] by simp
  have earlier: "p_expiresAt p \<le> startsAt" if p: "p \<in> set (periods w)" "p_workspaceId p = o_workspaceId ord" for p
  proof (cases "latestPeriod (o_workspaceId ord) w")
    case None
    then show ?thesis
      using latestPeriod_None p by blast
  next
    case (Some q)
    have "p_expiresAt q \<le> startsAt"
      using f(1,2) Some by (auto simp: period_start_def)
    moreover have "per_of p = per_of q \<or> p_expiresAt p \<le> p_startsAt q"
      using last_period_ends [of "map per_of (periods w)" "per_of q" "per_of p"] ok p latestPeriod_last [OF Some]
      by (auto simp: ledger_ok_def)
    moreover have "p_startsAt q < p_expiresAt q"
      using ok latestPeriod_last(1) [OF Some] by (auto simp: ledger_ok_def periods_ok_def)
    ultimately show ?thesis
      by (auto simp: per_of_def)
  qed
  have "ledger_of w1 = (ledger_of w)\<lparr>l_orders := set_status (o_id ord) O_SUCCEEDED (l_orders (ledger_of w)),
      l_periods := l_periods (ledger_of w) @ [\<lparr>lp_id = newId, lp_workspace = o_workspaceId ord,
        lp_order = o_id ord, lp_start = startsAt, lp_end = expiresAt\<rparr>]\<rparr>"
    using status f(7) by (simp add: ledger_of_def per_of_def paid_period_def)
  also have "ledger_step (ledger_of w) \<dots>"
    using row unpaid f(4,5) earlier period_end_later [OF f(3)]
    by (intro paid [where s = "o_status ord"]) (auto simp: ord_of_def image_iff)
  finally have "ledger_step (ledger_of w) (ledger_of w1)" .
  then show "ledger_step\<^sup>*\<^sup>* (ledger_of w) (ledger_of w')"
    by (simp add: sameD [OF f(8)])
qed

section \<open>Provider transactions\<close>

lemma ownsLease_Inr:
  assumes "ownsLease e operation c w = Inr (b, w')" "b"
  obtains until where "op_status operation = P_PROCESSING" "op_version operation = cl_version c"
    "op_leaseToken operation = Some (cl_leaseToken c)" "op_pendingEventId operation = cl_eventId c"
    "op_leaseUntil operation = Some until" "clock e (tick w) < until" "w' = w\<lparr>tick := tick w + 1\<rparr>"
  using assms by (auto simp: ownsLease_def new_date_def split: if_splits option.splits)

lemma owned_operation_Inr:
  assumes "owned_operation e c w = Inr ((operation, ord), w')"
  obtains until where "find_operation (cl_operationId c) w = Some operation"
    "find_order (op_orderId operation) w = Some ord" "op_status operation = P_PROCESSING"
    "op_version operation = cl_version c" "op_leaseToken operation = Some (cl_leaseToken c)"
    "op_pendingEventId operation = cl_eventId c"
    "op_leaseUntil operation = Some until" "clock e (tick w) < until" "w' = w\<lparr>tick := tick w + 1\<rparr>"
  using assms by (auto simp: owned_operation_def load_operation_def elim!: ownsLease_Inr)

lemma find_order_D: "find_order oid w = Some ord \<Longrightarrow> ord \<in> set (orders w) \<and> o_id ord = oid"
  unfolding find_order_def by (drule find_Some_D) simp

text \<open>
  What a transaction does with the order of its operation: \<open>serves ord m\<close> when \<open>m\<close> refines the ledger
  from every state that has the row \<open>ord\<close>.
\<close>

definition serves :: "order_row \<Rightarrow> (db, err, 'a) tx \<Rightarrow> bool" where
  "serves ord m \<longleftrightarrow> (\<forall>w x w'. ord \<in> set (orders w) \<longrightarrow> m w = Inr (x, w') \<longrightarrow> refines w w')"

lemma serves_refines: "steps refines m \<Longrightarrow> serves ord m"
  by (auto simp: serves_def steps_def)

lemma serves_unpaid:
  assumes "o_status ord \<noteq> O_SUCCEEDED" "steps (unpaid (o_id ord)) m"
  shows "serves ord m"
  unfolding serves_def
proof (intro allI impI refinesI)
  fix w x w'
  assume row: "ord \<in> set (orders w)" and run: "m w = Inr (x, w')" and ok: "ledger_ok (ledger_of w)"
  have "live (o_id ord) w"
    using assms(1) row ledger_ok_ids [OF ok] by (auto simp: live_def distinct_map inj_on_def)
  then show "ledger_step\<^sup>*\<^sup>* (ledger_of w) (ledger_of w')"
    using stepsD [OF assms(2) run] ok by (simp add: unpaid_def refines_def)
qed

lemma serves_bnd:
  assumes "steps (same (\<lambda>w. (orders w, periods w))) m" "\<And>x. serves ord (f x)"
  shows "serves ord (bnd m f)"
  unfolding serves_def
proof (intro allI impI)
  fix w x w'
  assume row: "ord \<in> set (orders w)" and "bnd m f w = Inr (x, w')"
  then obtain y w1 where m: "m w = Inr (y, w1)" and f: "f y w1 = Inr (x, w')"
    by auto
  have "orders w1 = orders w" "periods w1 = periods w"
    using stepsD [OF assms(1) m] by (auto simp: same_def)
  then have "refines w1 w'" "ledger_of w1 = ledger_of w"
    using assms(2) f row by (auto simp: serves_def ledger_of_def)
  then show "refines w w'"
    by (simp add: refines_def)
qed

lemma serves_thn:
  "steps (same (\<lambda>w. (orders w, periods w))) m \<Longrightarrow> serves ord k \<Longrightarrow> serves ord (thn m k)"
  unfolding thn_def by (rule serves_bnd)

interpretation same_rows: db_relation "same (\<lambda>w. (orders w, periods w))"
  by unfold_locales (simp_all add: same_def frame_def)

lemma refines_owned:
  assumes "\<And>operation ord. op_orderId operation = o_id ord \<Longrightarrow> serves ord (k operation ord)"
  shows "steps refines (bnd (owned_operation e c) (\<lambda>(operation, ord). k operation ord))"
proof (rule stepsI)
  fix w x w'
  assume "bnd (owned_operation e c) (\<lambda>(operation, ord). k operation ord) w = Inr (x, w')"
  then obtain operation ord w1 where own: "owned_operation e c w = Inr ((operation, ord), w1)"
    and k: "k operation ord w1 = Inr (x, w')"
    by auto
  from own have "find_order (op_orderId operation) w = Some ord" "w1 = w\<lparr>tick := tick w + 1\<rparr>"
    by (auto elim!: owned_operation_Inr)
  then have "refines w1 w'" "ledger_of w1 = ledger_of w"
    using assms [of operation ord] k by (auto simp: serves_def ledger_of_def dest!: find_order_D)
  then show "refines w w'"
    by (simp add: refines_def)
qed

subsection \<open>Dispatch\<close>

lemma paid_cancelOrder: "o_status ord = O_SUCCEEDED \<Longrightarrow> steps refines (cancelOrder e ord reason)"
  by (simp add: cancelOrder_def refine.steps_ret)

lemma dispatch_create_refused:
  "o_status ord \<noteq> O_PENDING \<Longrightarrow> dispatch_create e operation ord c =
     bnd (new_date e) (\<lambda>now. bnd (gets (find_account (o_workspaceId ord))) (\<lambda>account.
     bnd (gets (find_command (o_capacityCommandId ord))) (\<lambda>command.
     bnd (gets (find_renewal (o_workspaceId ord))) (\<lambda>renewal. dispatch_refused e operation ord c))))"
  by (simp add: dispatch_create_def cong del: bnd_weak_cong)

lemma unknown_order_keeps [simp]:
  "o_id (unknown_order x) = o_id x" "o_workspaceId (unknown_order x) = o_workspaceId x"
  "o_status (unknown_order x) = O_UNKNOWN"
  by (simp_all add: unknown_order_def)

lemma refines_dispatch: "steps refines (dispatch_tx e c)"
proof -
  have "serves ord (dispatch_create e operation ord c)" for operation ord
  proof (cases "o_status ord = O_SUCCEEDED")
    case True
    have many: "steps refines (updateMany_order (\<lambda>x. o_id x = o_id ord \<and> o_status x = O_PENDING) unknown_order)"
      by (rule refines_updateMany_pending) auto
    have "steps refines (dispatch_create e operation ord c)"
      unfolding dispatch_create_refused [OF order_status.distinct(1) [folded True, symmetric]] dispatch_refused_def
      by (intro many paid_cancelOrder [OF True] refine.steps_finish refine.core_frames steps_intro)
    then show ?thesis
      by (rule serves_refines)
  next
    case False
    then show ?thesis
      by (intro serves_unpaid unpaid.steps_dispatch_create unpaid_cancelOrder unpaid_update_order
          unpaid_updateMany) auto
  qed
  then show ?thesis
    unfolding dispatch_tx_def
    by (intro refines_owned serves_bnd steps_intro) (simp add: serves_refines steps_intro)
qed

subsection \<open>Settlement\<close>

lemma pending_again_keeps [simp]:
  "o_id (pending_again i s u x) = o_id x" "o_workspaceId (pending_again i s u x) = o_workspaceId x"
  "o_status (pending_again i s u x) = O_PENDING" "o_id (reported_order i s x) = o_id x"
  "o_workspaceId (reported_order i s x) = o_workspaceId x" "o_status (reported_order i s x) = o_status x"
  by (simp_all add: pending_again_def reported_order_def)

lemma serves_fulfill: "serves ord (fulfill e ord value)"
proof (cases "o_status ord = O_SUCCEEDED")
  case True
  then have "steps refines (fulfill e ord value)"
    unfolding fulfill_def by (simp add: steps_intro)
  then show ?thesis
    by (rule serves_refines)
next
  case False
  then show ?thesis
    using fulfill_refines by (fastforce simp: serves_def)
qed

lemma serves_then:
  assumes "serves ord m" "steps refines k"
  shows "serves ord (thn m k)"
  unfolding serves_def
proof (intro allI impI)
  fix w x w'
  assume row: "ord \<in> set (orders w)" and "thn m k w = Inr (x, w')"
  then obtain y w1 where m: "m w = Inr (y, w1)" and k: "k w1 = Inr (x, w')"
    by auto
  show "refines w w'"
    using assms m k row stepsD [OF assms(2) k] by (auto simp: serves_def intro: refines_trans)
qed

lemma serves_settle_succeeded: "serves ord (settle_succeeded e operation ord c value)"
  unfolding settle_succeeded_def
  by (intro serves_thn serves_then serves_fulfill refine.steps_finish refine.core_frames steps_intro)

lemma serves_settle_canceled: "serves ord (settle_canceled e operation ord c value)"
proof (cases "o_status ord = O_SUCCEEDED")
  case True
  show ?thesis
    unfolding settle_canceled_def
    by (simp add: True) (intro serves_refines refine.steps_finish steps_intro)
next
  case False
  then show ?thesis
    by (intro serves_unpaid unpaid.steps_settle_canceled unpaid_cancelOrder unpaid_update_order) auto
qed

lemma serves_settle_pending: "serves ord (settle_pending e operation ord c value)"
proof (cases "o_status ord = O_SUCCEEDED")
  case True
  show ?thesis
    unfolding settle_pending_def
    by (simp add: True) (intro serves_refines refine.steps_finish refine.core_frames steps_intro)
next
  case False
  then show ?thesis
    by (intro serves_unpaid unpaid.steps_settle_pending unpaid_update_order) auto
qed

lemma serves_if: "serves ord a \<Longrightarrow> serves ord b \<Longrightarrow> serves ord (if p then a else b)"
  by simp

lemma refines_settle: "steps refines (settle_tx e c value)"
  unfolding settle_tx_def
  by (intro refines_owned serves_if serves_thn serves_bnd serves_settle_succeeded serves_settle_canceled
      serves_settle_pending serves_refines [OF refine.steps_settle_sync] steps_intro) simp_all

subsection \<open>Failure\<close>

lemma serves_fail_final:
  assumes "op_orderId operation = o_id ord"
  shows "serves ord (fail_final e operation ord c pid ambiguous code)"
proof (cases "o_status ord = O_SUCCEEDED")
  case True
  then have "fail_final e operation ord c pid ambiguous code =
     thn (if truthy pid \<and> \<not> truthy (op_providerPaymentId operation)
          then thn (update_operation (\<lambda>x. op_id x = op_id operation \<and> op_leaseToken x = Some (cl_leaseToken c))
            (\<lambda>x. x\<lparr>op_providerPaymentId := pid\<rparr>)) (ret ())
          else ret ())
     (thn (ret ()) (finish e (op_id operation) c (if ambiguous then P_UNKNOWN else P_FAILED) (Some (js code))))"
    unfolding fail_final_def by (simp cong del: thn_weak_cong split del: if_split)
  then show ?thesis
    by (simp only:) (intro serves_refines refine.steps_finish refine.core_frames steps_intro)
next
  case False
  then show ?thesis
    by (intro serves_unpaid unpaid.steps_fail_final unpaid_cancelOrder) (auto simp: assms intro: unpaid_update_order)
qed

lemma refines_fail: "steps refines (fail_tx e c failed)"
  unfolding fail_tx_def Let_def
  by (intro refines_owned serves_if serves_thn serves_bnd serves_fail_final
      serves_refines [OF refine.steps_fail_retry] steps_intro)

end
