(* ===== verification/Ledger_Service.thy ===== *)
theory Ledger_Service
  imports Ledger_Refinement
begin

text \<open>
  The service implements the abstract ledger: seat changes and granted days move the end of the last
  period of a workspace, and every committed call is a sequence of ledger steps. The invariants of the
  ledger therefore hold in every reachable state of the service.
\<close>

section \<open>Moving the end of the last period\<close>

lemma case_sum_Inr: "(case s of Inl x \<Rightarrow> Inl (f x) | Inr y \<Rightarrow> Inr y) = Inr r \<longleftrightarrow> s = Inr r"
  by (cases s) auto

lemma convert_later:
  assumes "convert p seats now = Inr r"
  shows "p_startsAt p < sd_expiresAtMs r"
proof -
  obtain snapshot where calc: "calculateWincrmSeatDuration
      (seat_input now seats (JStr (js ''PAID'')) (JStr (js ''ACTIVE'')) (cycle_js (p_cycle p))
        (p_startsAt p) (p_expiresAt p) (p_totalSeats p) (snapshot_json snapshot)) = Inr r"
    using assms unfolding convert_def sbind_Inr by (auto simp: case_sum_Inr)
  show ?thesis
    using seat_input_InrD(5,7) [OF calc] by linarith
qed

lemma ledger_upd_periods:
  assumes "distinct (map p_id xs)" "old \<in> set xs" "P old" "\<And>x. P x \<Longrightarrow> p_id x = p_id old"
    and "\<And>x. per_of (f x) = (per_of x)\<lparr>lp_end := t\<rparr>"
  shows "map per_of (upd_rows P f xs) = set_end (p_id old) t (map per_of xs)"
proof -
  have "x = old" if "x \<in> set xs" "p_id x = p_id old" for x
    using assms(1,2) that by (metis inj_on_def distinct_map)
  then have "x \<in> set xs \<Longrightarrow> P x \<longleftrightarrow> x = old" and "x \<in> set xs \<Longrightarrow> p_id x = p_id old \<longleftrightarrow> x = old" for x
    using assms(3,4) by blast+
  then show ?thesis
    using assms(5) by (simp add: upd_rows_def set_end_def with_end_def)
qed

lemma refines_move_end:
  assumes "update_period P f w = Inr (r, w')" "latestPeriod ws w = Some p"
    and "ledger_ok (ledger_of w) \<Longrightarrow> P p \<and> p_startsAt p < t" "\<And>x. P x \<Longrightarrow> p_id x = p_id p"
    and "\<And>x. per_of (f x) = (per_of x)\<lparr>lp_end := t\<rparr>"
  shows "refines w w'"
proof (rule refinesI)
  assume ok: "ledger_ok (ledger_of w)"
  note last = latestPeriod_last [OF assms(2)]
  have w': "w' = periods_update (upd_rows P f) w"
    using assms(1) by (simp add: update_period_def tb_periods.update_row_Inr)
  have "map per_of (upd_rows P f (periods w)) = set_end (p_id p) t (map per_of (periods w))"
  proof (rule ledger_upd_periods)
    show "distinct (map p_id (periods w))"
      using ok by (simp add: ledger_ok_def comp_def)
    show "p \<in> set (periods w)" "P p"
      using last(1) assms(3) [OF ok] by simp_all
    show "P x \<Longrightarrow> p_id x = p_id p" and "per_of (f x) = (per_of x)\<lparr>lp_end := t\<rparr>" for x
      by (fact assms(4,5))+
  qed
  then have "ledger_of w' = (ledger_of w)\<lparr>l_periods := set_end (lp_id (per_of p)) t (l_periods (ledger_of w))\<rparr>"
    by (simp add: w' ledger_of_def)
  also have "ledger_step (ledger_of w) \<dots>"
    using last assms(3) [OF ok] by (intro end_moved) auto
  finally have "ledger_step (ledger_of w) (ledger_of w')" .
  then show "ledger_step\<^sup>*\<^sup>* (ledger_of w) (ledger_of w')"
    by simp
qed

lemma changeSeats_tail_ledger:
  "steps (same ledger_of) (thn (update_account ws f)
     (thn (changeSeats_renewal e dto current x renewal)
     (thn (commitCommand dto type hash v p c oid)
     (thn (enqueueCrmEntitlementChanged e ws)
     (proof_of e ws cid hash actor)))))"
proof -
  have "steps (same ledger_of) (changeSeats_renewal e dto current x renewal)"
    unfolding changeSeats_renewal_def by (intro steps_intro) (auto simp: ledger_of_def)
  then show ?thesis
    by (intro same_ledger.steps_core_wake same_ledger.core_frames steps_intro) (auto simp: ledger_of_def)
qed

lemma accountForCommand_rows:
  "accountForCommand dto w = Inr (a, w') \<Longrightarrow> orders w' = orders w \<and> periods w' = periods w"
  using stepsD [OF same_rows.steps_accountForCommand] by (fastforce simp: same_def)

lemma changeSeats_effect:
  assumes "changeSeats_body e dto type hash w = Inr (r, w')"
  obtains current conversion w1 w2 old and snapshot :: price_snapshot where
    "update_period (\<lambda>x. p_id x = p_id current \<and> p_version x = p_version current)
        (reseat_period (as_int (jsfield dto ''newTotalSeats'')) (sd_expiresAtMs conversion) (ps_graceDays snapshot))
        (w1\<lparr>tick := Suc (tick w1)\<rparr>) = Inr (old, w2)"
    "convert current (as_int (jsfield dto ''newTotalSeats'')) (clock e (tick w1)) = Inr conversion"
    "latestPeriod (ws_of dto) w1 = Some current"
    "orders w1 = orders w" "periods w1 = periods w" "same ledger_of w2 w'"
  using assms
  by (auto simp: changeSeats_body_def requireEnabled_def new_date_def Let_def
      dest!: accountForCommand_rows stepsD [OF changeSeats_tail_ledger]; blast)

lemma refines_changeSeats: "steps refines (changeSeats_body e dto type hash)"
proof (rule stepsI)
  fix w r w'
  assume run: "changeSeats_body e dto type hash w = Inr (r, w')"
  obtain current conversion w1 w2 old and snapshot :: price_snapshot where
    e: "update_period (\<lambda>x. p_id x = p_id current \<and> p_version x = p_version current)
        (reseat_period (as_int (jsfield dto ''newTotalSeats'')) (sd_expiresAtMs conversion) (ps_graceDays snapshot))
        (w1\<lparr>tick := Suc (tick w1)\<rparr>) = Inr (old, w2)"
    "convert current (as_int (jsfield dto ''newTotalSeats'')) (clock e (tick w1)) = Inr conversion"
    "latestPeriod (ws_of dto) w1 = Some current"
    "orders w1 = orders w" "periods w1 = periods w" "same ledger_of w2 w'"
    by (rule changeSeats_effect [OF run])
  have "refines (w1\<lparr>tick := Suc (tick w1)\<rparr>) w2"
    by (rule refines_move_end [OF e(1), of "ws_of dto" current "sd_expiresAtMs conversion"])
      (use e(3) convert_later [OF e(2)] in \<open>auto simp: reseat_period_def per_of_def\<close>)
  moreover have "ledger_of (w1\<lparr>tick := Suc (tick w1)\<rparr>) = ledger_of w"
    using e(4,5) by (simp add: ledger_of_def)
  ultimately show "refines w w'"
    by (simp add: refines_def sameD [OF e(6)])
qed

lemma ledger_ok_period_ids: "ledger_ok (ledger_of w) \<Longrightarrow> distinct (map p_id (periods w))"
  by (simp add: ledger_ok_def comp_def)

lemma ledger_ok_period: "ledger_ok (ledger_of w) \<Longrightarrow> p \<in> set (periods w) \<Longrightarrow> p_startsAt p < p_expiresAt p"
  by (auto simp: ledger_ok_def periods_ok_def)

lemma read_subscription_Inr:
  assumes "read_subscription e ws w = Inr (v, w')"
  shows "w' = w\<lparr>tick := tick w + 1\<rparr>"
    and "sv_period v = map_option (\<lambda>x. \<lparr>pp_id = p_id x, pp_version = p_version x, pp_startsAt = toISOString (p_startsAt x),
         pp_expiresAt = toISOString (p_expiresAt x), pp_graceUntil = toISOString (p_graceUntil x),
         pp_totalSeats = p_totalSeats x\<rparr>) (latestPeriod ws w)"
  using assms by (auto simp: read_subscription_def requireEntitlement_def new_date_def project_def Let_def)

lemma grant_timestamp_Inr: "grant_timestamp v = Inr d \<Longrightarrow> v = Some d"
  by (cases v) (auto simp: grant_timestamp_def split: option.splits if_splits)

lemma extend_period_refines:
  assumes run: "extend_period e ws (p_id p) x w = Inr (u, w')" and last: "latestPeriod ws w = Some p"
    and later: "p_expiresAt p \<le> x"
  shows "refines w w'"
proof -
  obtain period w1 graceUntil old where
    upd: "update_period (\<lambda>y. p_id y = p_id period \<and> p_version y = p_version period) (extend_period_row x graceUntil) w = Inr (old, w1)"
    and period: "find_period (p_id p) w = Some period"
    and tail: "periods w' = periods w1" "orders w' = orders w1"
    using run by (auto simp: extend_period_def new_date_def update_entitlement_def tb_entitlements.update_row_Inr)
  have pid: "period \<in> set (periods w)" "p_id period = p_id p"
    using period unfolding find_period_def by (auto dest: find_Some_D)
  have "refines w w1"
  proof (rule refines_move_end [OF upd last])
    assume ok: "ledger_ok (ledger_of w)"
    have "period = p"
      using ledger_ok_period_ids [OF ok] pid latestPeriod_last(1) [OF last] by (metis inj_on_def distinct_map)
    then show "(p_id p = p_id period \<and> p_version p = p_version period) \<and> p_startsAt p < x"
      using ledger_ok_period [OF ok latestPeriod_last(1) [OF last]] later by simp
  qed (auto simp: pid extend_period_row_def per_of_def)
  moreover have "ledger_of w' = ledger_of w1"
    using tail by (simp add: ledger_of_def)
  ultimately show ?thesis
    by (simp add: refines_def)
qed

lemma refines_extend_record: "steps refines (extend_record e ws dto ctx role hash before now old x)"
  by (intro refine.steps_extend_record steps_intro)
    (auto intro!: steps_intro refine.steps_update simp: frame_def refines_same ledger_of_def)

lemma refines_extend_period:
  assumes "extend_grant e ws dto ctx role hash before w = Inr (r, w')" "latestPeriod ws w = Some p"
    and "map_option pp_id (sv_period before) = Some (p_id p)"
    and "map_option pp_expiresAt (sv_period before) = Some (toISOString (p_expiresAt p))" "0 \<le> xd_days dto"
  shows "refines w w'"
proof -
  define x where "x = max (clock e (tick w)) (p_expiresAt p) + xd_days dto * DAY_MS"
  obtain w1 u where run: "extend_period e ws (p_id p) x (w\<lparr>tick := tick w + 1\<rparr>) = Inr (u, w1)"
    and rest: "refines w1 w'"
    using assms(1,3,4)
    by (auto simp: extend_grant_def extend_target_def new_date_def Let_def x_def
        dest!: grant_timestamp_Inr stepsD [OF refines_extend_record])
  have "0 \<le> xd_days dto * DAY_MS"
    using assms(5) by (simp add: DAY_MS_def)
  then have x: "p_expiresAt p \<le> x"
    by (simp add: x_def)
  have "refines (w\<lparr>tick := tick w + 1\<rparr>) w1"
    using assms(2) by (intro extend_period_refines [OF run _ x]) simp
  then have "refines w w1"
    by (simp add: refines_def ledger_of_def)
  then show ?thesis
    using rest refines_trans by blast
qed

lemma refines_extend:
  assumes "extend_dto_ok dto"
  shows "steps refines (extend_tx e ws dto ctx role hash)"
proof (rule stepsI)
  fix w r w'
  assume run: "extend_tx e ws dto ctx role hash w = Inr (r, w')"
  show "refines w w'"
  proof (cases "find_receipt (xd_commandId dto) w")
    case (Some receipt)
    then have "w' = w"
      using run by (auto simp: extend_tx_def split: if_splits)
    then show ?thesis
      by (simp add: refines_same)
  next
    case None
    then obtain before w1 where read: "read_subscription e ws w = Inr (before, w1)"
      and grant: "extend_grant e ws dto ctx role hash before w1 = Inr (r, w')"
      using run by (auto simp: extend_tx_def split: option.splits)
    note w1 = read_subscription_Inr [OF read]
    have "refines w1 w'"
    proof (cases "latestPeriod ws w")
      case None
      then have "extend_target e ws before x = extend_entitlement e ws (sv_entitlementVersion before) x" for x
        using w1(2) by (simp add: extend_target_def)
      then have "steps refines (extend_grant e ws dto ctx role hash before)"
        unfolding extend_grant_def extend_entitlement_def
        by (simp only:) (intro refines_extend_record refine.steps_admin_queries refine.core_frames steps_intro)
      then show ?thesis
        using grant by (rule stepsD)
    next
      case (Some p)
      then show ?thesis
        using assms w1 by (intro refines_extend_period [OF grant]) (auto simp: extend_dto_ok_def)
    qed
    then show ?thesis
      by (simp add: w1(1) refines_def ledger_of_def)
  qed
qed

text \<open>Every step of the service refines the ledger.\<close>

lemma service_refines: "service_step e w w' \<Longrightarrow> refines w w'"
proof (rule refine.service_step_core)
  show "steps refines (checkout_body e dto ''WINCRM_CHECKOUT'' h)" for dto h
    by (intro refine.steps_checkout_body refines_create_order)
      (auto simp: bump_account_def intro!: steps_intro)
  show "steps refines (changeSeats_body e dto ''WINCRM_SEAT_CHANGE'' h)" for dto h
    by (rule refines_changeSeats)
  show "steps refines (renewalCommand_body e dto c type h)" for dto c type h
    by (rule refine.steps_renewalCommand_body) (auto simp: bump_account_def intro!: steps_intro)
  show "steps refines (verifyOrder e dto)" for dto
    by (rule refine.steps_verifyOrder) (auto simp: bump_account_def intro!: steps_intro)
  show "steps refines (closeCommand e dto)" for dto
    by (intro refine.steps_closeCommand refines_updateMany_pending) (auto simp: close_order_def)
  show "steps refines (charge_tx e ws)" for ws
    by (intro refine.steps_charge refines_create_order) (auto intro!: steps_intro)
qed (auto intro: refines_dispatch refines_settle refines_fail refines_extend)

section \<open>The ledger of reachable states\<close>

lemma reachable_ledger_ok: "reachable e w \<Longrightarrow> ledger_ok (ledger_of w)"
proof (induction rule: reachable_induct)
  case (initial w)
  then show ?case
    by (simp add: initial_def ledger_of_def ledger_ok_def periods_ok_def)
next
  case (step w w')
  then show ?case
    using service_refines [OF step.hyps(2)] ledger_steps_ok by (auto simp: refines_def)
qed

lemma steps_ledger:
  assumes "(service_step e)\<^sup>*\<^sup>* w w'" "ledger_ok (ledger_of w)"
  shows "ledger_step\<^sup>*\<^sup>* (ledger_of w) (ledger_of w')"
  using assms
proof (induction rule: rtranclp_induct)
  case (step y z)
  then show ?case
    using service_refines [OF step.hyps(2)] ledger_steps_ok by (auto simp: refines_def)
qed simp

end
