(* ===== verification/Scenario.thy ===== *)
theory Scenario
  imports Ledger_Service
begin

text \<open>
  A run of the service on concrete data, for the witnesses of the properties: a customer orders a
  month for three seats (\<open>checkout\<close>), a worker claims the queued operation
  (\<open>claimProviderOperation\<close>), and the provider reports the payment as captured
  (\<open>settleProviderOperation\<close>). The clock advances one second per reading and starts at
  2023-11-14T22:13:20Z.
\<close>

section \<open>Checkout\<close>

definition sample_hash :: jsstring where
  "sample_hash = replicate 64 48"

definition sample_contact :: contact_row where
  "sample_contact = \<lparr>i_userId = js ''owner'', i_email = Some (js ''owner@example.com''), i_phone = None,
     i_status = ''ACTIVE'', i_deletedAt = None, i_tombstone = False\<rparr>"

definition shop_db :: db where
  "shop_db = sample_policy_db\<lparr>contacts := [sample_contact]\<rparr>"

definition sample_fence :: jsval where
  "sample_fence = obj [(''operationId'', JStr (sample_uuid 900)), (''requestHash'', JStr sample_hash),
     (''fenceRevision'', JInt 1), (''targetSeats'', JInt 3)]"

definition sample_checkout :: jsval where
  "sample_checkout = obj [(''schemaVersion'', JInt 1), (''workspaceId'', JStr (sample_uuid 901)),
     (''actorSubject'', JStr (js ''owner'')), (''commandId'', JStr (sample_uuid 900)),
     (''expectedBillingVersion'', JStr (js ''0'')), (''cycle'', JStr (js ''MONTHLY'')), (''totalSeats'', JInt 3),
     (''expectedPolicyVersion'', JInt 1), (''autoRenew'', JBool True),
     (''consentVersion'', JStr WINCRM_CONSENT_VERSION), (''capacityFence'', sample_fence)]"

lemma sample_checkout_fields [simp]:
  "jsfield sample_checkout ''schemaVersion'' = JInt 1"
  "jsfield sample_checkout ''workspaceId'' = JStr (sample_uuid 901)"
  "jsfield sample_checkout ''actorSubject'' = JStr (js ''owner'')"
  "jsfield sample_checkout ''commandId'' = JStr (sample_uuid 900)"
  "jsfield sample_checkout ''expectedBillingVersion'' = JStr (js ''0'')"
  "jsfield sample_checkout ''cycle'' = JStr (js ''MONTHLY'')"
  "jsfield sample_checkout ''totalSeats'' = JInt 3"
  "jsfield sample_checkout ''expectedPolicyVersion'' = JInt 1"
  "jsfield sample_checkout ''autoRenew'' = JBool True"
  "jsfield sample_checkout ''consentVersion'' = JStr WINCRM_CONSENT_VERSION"
  "jsfield sample_checkout ''capacityFence'' = sample_fence"
  by (simp_all add: sample_checkout_def)

lemma match_replicate: "match_classes (replicate n p) s \<longleftrightarrow> length s = n \<and> list_all p s"
  by (auto simp: match_classes_def list_all2_conv_all_nth list_all_length)

lemma match_append: "match_classes ps s \<Longrightarrow> match_classes qs t \<Longrightarrow> match_classes (ps @ qs) (s @ t)"
  by (auto simp: match_classes_def intro: list_all2_appendI)

lemma js_append: "js (s @ t) = js s @ js t"
  by (simp add: js_def)

lemma sample_uuid_ok:
  assumes "length (dec n) \<le> 12"
  shows "commerceUuid (JStr (sample_uuid n))"
proof -
  have hex: "is_digit c \<Longrightarrow> is_lower_hex c" for c
    by (simp add: is_lower_hex_def)
  have "''00000000-0000-4000-8000-'' = ''00000000'' @ ''-'' @ ''0000'' @ ''-'' @ ''4'' @ ''000'' @ ''-'' @ ''8'' @ ''000'' @ ''-''"
    by simp
  then have eq: "sample_uuid n = js ''00000000'' @ js ''-'' @ js ''0000'' @ js ''-'' @ js ''4'' @ js ''000''
      @ js ''-'' @ js ''8'' @ js ''000'' @ js ''-'' @ replicate (12 - length (dec n)) 48 @ dec n"
    by (simp only: sample_uuid_def js_append append_assoc)
  have last: "match_classes (replicate 12 is_lower_hex) (replicate (12 - length (dec n)) 48 @ dec n)"
    using assms by (auto simp: match_replicate list_all_iff is_lower_hex_def is_digit_def dest: dec_digits)
  have zeros: "match_classes (replicate 8 is_lower_hex) (js ''00000000'')" "match_classes (replicate 4 is_lower_hex) (js ''0000'')"
    "match_classes (replicate 3 is_lower_hex) (js ''000'')"
    by (simp_all add: match_replicate js_def is_lower_hex_def is_digit_def)
  have single: "match_classes [\<lambda>c. c = 45] (js ''-'')" "match_classes [\<lambda>c. c = 52] (js ''4'')"
    "match_classes [\<lambda>c. c = 56 \<or> c = 57 \<or> c = 97 \<or> c = 98] (js ''8'')"
    by (simp_all add: match_classes_def js_def)
  show ?thesis
    unfolding commerceUuid_def jsval.case eq WINCRM_UUID_def by (intro match_append zeros single last)
qed

lemma sample_uuids: "commerceUuid (JStr (sample_uuid 900))" "commerceUuid (JStr (sample_uuid 901))"
  by (intro sample_uuid_ok; simp add: dec.simps)+

lemma ascii_text:
  assumes "list_all (\<lambda>c. 31 < c \<and> c < 127) s" "0 < length s" "length s \<le> n"
  shows "commerceText (JStr s) n"
proof -
  have "\<not> lone_surrogate s"
    using assms(1) by (induction s rule: lone_surrogate.induct) (auto simp: high_surrogate_def low_surrogate_def)
  moreover have "\<not> list_ex control_or_replacement s"
    using assms(1) by (auto simp: list_ex_iff list_all_iff control_or_replacement_def)
  ultimately show ?thesis
    using assms(2,3) by (simp add: commerceText_def)
qed

lemma sample_hash_total: "json_ok payload \<Longrightarrow> billingCommandRequestHash (sha256 sample_env) type payload = Inr sample_hash"
  using request_hash_total [of payload "sha256 sample_env" type] by (auto simp: sample_hash_def)

lemma owner_text: "commerceText (JStr (js ''owner'')) 256"
  by (rule ascii_text) (simp_all add: js_def)

lemma sample_checkout_checks:
  "context_ok sample_checkout" "command_ok sample_checkout" "checkout_dto_ok sample_checkout"
  "fence_ok sample_fence (sample_uuid 900) sample_hash (JInt 3)"
proof -
  show "context_ok sample_checkout"
    by (simp add: context_ok_def sample_uuids owner_text) (simp add: js_def is_space_def)
  show "command_ok sample_checkout"
    by (simp add: command_ok_def sample_uuids commerceVersion_def js_def undec_def)
  show "checkout_dto_ok sample_checkout"
    by (simp add: checkout_dto_ok_def commerceInt_def commerceCycle_def is_safe_integer_def MAX_SAFE_INTEGER_def)
  show "fence_ok sample_fence (sample_uuid 900) sample_hash (JInt 3)"
    by (simp add: fence_ok_def sample_fence_def commerceInt_def is_safe_integer_def MAX_SAFE_INTEGER_def
        commerceRecord_obj)
qed

lemma sample_checkout_hash: "wincrmCommerceRequestHash sample_env ''WINCRM_CHECKOUT'' sample_checkout = Inr sample_hash"
proof -
  have "json_ok (without sample_checkout ''capacityFence'')"
    unfolding sample_checkout_def obj_def by simp
  then show ?thesis
    unfolding wincrmCommerceRequestHash_def by (rule sample_hash_total)
qed

definition sample_order :: order_row where
  "sample_order = checkout_order sample_env sample_checkout sample_policy sample_contact 1700000000000
     (sample_uuid 0) 350 1700000001000"

definition sample_return_url :: jsstring where
  "sample_return_url = js ''https://crm.winwidget.ru/billing/return''"

definition sample_operation :: operation_row where
  "sample_operation = new_operation sample_order CREATE sample_hash None (sample_uuid 1) (sample_uuid 2) (sample_uuid 3)
     1700000002000 (request_snapshot sample_order CREATE (Some sample_return_url) None)"

definition sample_outbox :: "jsstring \<Rightarrow> jsstring \<Rightarrow> jsstring \<Rightarrow> date \<Rightarrow> outbox_row" where
  "sample_outbox oid eid xid t = \<lparr>x_id = xid, x_eventId = eid,
        x_deduplicationKey = Some (js ''wincrm-provider:'' @ oid @ [58] @ eid),
        x_eventType = WINCRM_PROVIDER_EVENT_TYPE,
        x_aggregateType = ''billing.wincrm-provider-operation'', x_aggregateId = oid,
        x_aggregateVersion = None, x_sourceSequence = None, x_exchange = ''winwidget.events'',
        x_routingKey = WINCRM_PROVIDER_EVENT_TYPE, x_availableAt = t,
        x_payload = obj [(''schemaVersion'', JInt 1),
          (''eventType'', JStr (js WINCRM_PROVIDER_EVENT_TYPE)),
          (''eventId'', JStr eid), (''operationId'', JStr oid)]\<rparr>"

definition sample_command :: command_row where
  "sample_command = \<lparr>c_commandId = sample_uuid 900, c_workspaceId = sample_uuid 901, c_actorSubject = js ''owner'',
        c_commandType = ''WINCRM_CHECKOUT'', c_requestHash = sample_hash, c_expectedVersion = 0,
        c_capacityFence = Some sample_fence, c_status = C_PENDING,
        c_orderId = Some (sample_uuid 0), c_periodId = None, c_resultVersion = None\<rparr>"

definition sample_account :: account_row where
  "sample_account = \<lparr>a_workspaceId = sample_uuid 901, a_ownerSubject = js ''owner'', a_version = 2,
          a_capacityCommandId = None, a_capacityFence = None\<rparr>"

definition ordered_db :: db where
  "ordered_db = shop_db\<lparr>accounts := [sample_account], commands := [sample_command], orders := [sample_order],
     operations := [sample_operation],
     outbox := [sample_outbox (sample_uuid 1) (sample_uuid 2) (sample_uuid 3) 1700000002000],
     tick := 4, fresh := 4\<rparr>"

lemma sample_returnUrl: "returnUrl sample_env ord = Inr sample_return_url"
proof -
  have "commerceText (JStr (js ''https://crm.winwidget.ru'')) 2048"
    by (rule ascii_text) (simp_all add: js_def)
  moreover have "\<not> list_ex (\<lambda>c. is_space c \<or> c = 92) (js ''https://crm.winwidget.ru'')"
    by (simp add: js_def is_space_def)
  moreover have "js ''https://crm.winwidget.ru'' \<noteq> sample_page"
    by (simp add: js_def sample_page_def)
  ultimately show ?thesis
    by (simp add: returnUrl_def Let_def sample_url_def sample_return_url_def sample_env_def)
qed

lemma sample_snapshot_ok: "snapshot_ok (wincrmPriceSnapshot sample_policy)"
  by (simp add: snapshot_ok_def wincrmPriceSnapshot_def sample_policy_def WINCRM_MAX_AMOUNT_def)

lemma sample_price: "wincrmPrice (wincrmPriceSnapshot sample_policy) MONTHLY 3 = Inr 350"
  using sample_snapshot_ok
  by (simp add: wincrmPrice_def read_snapshot_json commerceInt_def is_safe_integer_def MAX_SAFE_INTEGER_def
      wincrmPriceSnapshot_def sample_policy_def WINCRM_MAX_AMOUNT_def require_def)

lemma sample_expected_version: "expected_version sample_checkout = 0"
  by (simp add: expected_version_def js_def undec_def)

lemma shop_db_simps [simp]:
  "accounts shop_db = []" "commands shop_db = []" "orders shop_db = []" "periods shop_db = []"
  "renewals shop_db = []" "operations shop_db = []" "receipts shop_db = []" "outbox shop_db = []" "deliveries shop_db = []"
  "entitlements shop_db = []"
  "consents shop_db = []" "contacts shop_db = [sample_contact]" "policies shop_db = [sample_policy]" "tick shop_db = 0" "fresh shop_db = 0"
  by (simp_all add: shop_db_def sample_policy_db_def empty_db_def)

lemma sample_contact_simps [simp]:
  "i_userId sample_contact = js ''owner''" "i_email sample_contact = Some (js ''owner@example.com'')"
  "i_status sample_contact = ''ACTIVE''" "i_deletedAt sample_contact = None" "\<not> i_tombstone sample_contact"
  by (simp_all add: sample_contact_def)

lemma sample_policy_version [simp]: "pol_version sample_policy = 1"
  by (simp add: sample_policy_def)

lemma sample_order_simps [simp]:
  "o_id sample_order = sample_uuid 0" "o_workspaceId sample_order = sample_uuid 901"
  "o_kind sample_order = ONE_TIME" "o_status sample_order = O_PENDING" "o_commandId sample_order = sample_uuid 900"
  "o_recurringCycleKey sample_order = None" "o_providerPaymentId sample_order = None"
  "o_providerIdempotencyKey sample_order = sample_hash"
  by (simp_all add: sample_order_def checkout_order_def wincrmProviderKey_def Let_def sample_hash_def)

text \<open>The definitions that a run unfolds at every Prisma call.\<close>

lemmas prisma_defs = create_row_def update_row_def update_many_def upsert_row_def new_date_def randomUUID_def
  Let_def tx_simps find_account_def find_entitlement_def find_command_def find_receipt_def find_order_def
  find_operation_def find_contact_def find_renewal_def find_delivery_def create_account_def update_account_def
  create_command_def update_command_def create_order_def update_order_def create_operation_def
  update_operation_def updateMany_operation_def create_outbox_def create_period_def update_period_def
  create_receipt_def create_entitlement_def update_entitlement_def upsert_delivery_def update_delivery_def
  upsert_sequence_def

lemma checkout_run: "\<exists>p. checkout sample_env sample_checkout shop_db = Inr (p, ordered_db)"
  apply (simp add: checkout_def command_check_def context_check_def fence_def tx_simps sample_checkout_checks
      sample_checkout_hash)
  apply (simp add: or_replay_def replay_def checkout_body_def requireEnabled_def accountForCommand_def owner_def
      sample_expected_version requireCrmCommercialPolicy_def prisma_defs)
  apply (simp add: latest_policy_def latestPeriod_def contact_usable_def sample_price prisma_defs
      as_cycle_def bump_account_def enqueue_def providerOutbox_def sample_returnUrl sample_order_def [symmetric])
  apply (simp add: proof_of_def matchCommand_def ordered_db_def sample_command_def sample_account_def
      sample_operation_def sample_outbox_def sample_expected_version upd_rows_def eval_nat_numeral prisma_defs)
  done

section \<open>Claim\<close>

lemma ordered_db_simps [simp]:
  "accounts ordered_db = [sample_account]" "commands ordered_db = [sample_command]" "orders ordered_db = [sample_order]"
  "periods ordered_db = []" "renewals ordered_db = []" "operations ordered_db = [sample_operation]" "receipts ordered_db = []"
  "outbox ordered_db = [sample_outbox (sample_uuid 1) (sample_uuid 2) (sample_uuid 3) 1700000002000]"
  "deliveries ordered_db = []" "entitlements ordered_db = []" "sourceSequence ordered_db = None" "consents ordered_db = []"
  "tick ordered_db = 4" "fresh ordered_db = 4"
  by (simp_all add: ordered_db_def) (simp add: shop_db_def sample_policy_db_def empty_db_def)

definition sample_event :: jsval where
  "sample_event = obj [(''schemaVersion'', JInt 1), (''eventType'', JStr (js WINCRM_PROVIDER_EVENT_TYPE)),
     (''eventId'', JStr (sample_uuid 2)), (''operationId'', JStr (sample_uuid 1))]"

definition sample_delivery :: delivery_row where
  "sample_delivery = new_delivery (sample_uuid 5) (sample_uuid 2) (sample_uuid 1) sample_hash D_PROCESSING
     (Some (sample_uuid 4)) (Some 1700000064000)"

definition claimed_db :: db where
  "claimed_db = ordered_db\<lparr>operations := [lease_operation (sample_uuid 4) 1700000064000 sample_operation],
     deliveries := [sample_delivery], tick := 5, fresh := 6\<rparr>"

definition sample_claim :: claim where
  "sample_claim = \<lparr>cl_operationId = sample_uuid 1, cl_eventId = sample_uuid 2, cl_leaseToken = sample_uuid 4, cl_version = 2\<rparr>"

lemma sample_operation_simps [simp]:
  "op_id sample_operation = sample_uuid 1" "op_orderId sample_operation = sample_uuid 0"
  "op_kind sample_operation = CREATE" "op_status sample_operation = P_PENDING" "op_version sample_operation = 1"
  "op_idempotencyKey sample_operation = sample_hash" "op_providerPaymentId sample_operation = None"
  "op_firstDispatchAt sample_operation = None" "op_availableAt sample_operation = 1700000002000"
  "op_leaseUntil sample_operation = None" "op_pendingEventId sample_operation = sample_uuid 2"
  by (simp_all add: sample_operation_def new_operation_def)

lemma sample_event_ok: "provider_event_ok sample_event"
  by (simp add: provider_event_ok_def sample_event_def commerceRecord_obj sample_uuid_ok dec.simps)

lemma sample_event_fields [simp]: "jsfield sample_event ''eventId'' = JStr (sample_uuid 2)"
  "jsfield sample_event ''operationId'' = JStr (sample_uuid 1)"
  by (simp_all add: sample_event_def)

lemma sample_event_hash: "billingCommandRequestHash (sha256 sample_env) type sample_event = Inr sample_hash"
  unfolding sample_event_def by (rule sample_hash_total) (simp add: obj_def)

lemma claim_run: "claimProviderOperation sample_env sample_event ordered_db = Inr (CLAIMED sample_claim, claimed_db)"
  by (simp add: claimProviderOperation_def sample_event_ok sample_event_hash claim_tx_def finished_def LEASE_MS_def
      claimed_db_def sample_claim_def lease_operation_def sample_delivery_def upd_rows_def eval_nat_numeral
      prisma_defs)

section \<open>Settlement\<close>

definition sample_payment :: jsval where
  "sample_payment = obj [(''id'', JStr (js ''pay-1'')), (''status'', JStr (js ''succeeded'')), (''paid'', JBool True),
     (''amount'', obj [(''value'', JStr (js ''3.50'')), (''currency'', JStr (js ''RUB''))]),
     (''metadata'', obj [(''productCode'', JStr (js ''WINCRM'')), (''paymentId'', JStr (sample_uuid 0)),
        (''plan'', JStr (js ''WINCRM'')), (''billingPeriod'', JStr (js ''MONTHLY'')), (''kind'', JStr (js ''ONE_TIME''))]),
     (''payment_method'', obj [(''id'', JStr (js ''card-1'')), (''saved'', JBool True)])]"

lemma sample_payment_fields [simp]:
  "jsfield sample_payment ''id'' = JStr (js ''pay-1'')"
  "jsfield sample_payment ''status'' = JStr (js ''succeeded'')"
  "jsfield sample_payment ''paid'' = JBool True"
  "jsfield sample_payment ''captured_at'' = JUndef"
  "jsfield (jsfield sample_payment ''payment_method'') ''id'' = JStr (js ''card-1'')"
  "jsfield (jsfield sample_payment ''payment_method'') ''saved'' = JBool True"
  "jsfield (jsfield sample_payment ''payment_method'') ''title'' = JUndef"
  "jsfield (jsfield sample_payment ''payment_method'') ''card'' = JUndef"
  "jsfield (jsfield sample_payment ''amount'') ''value'' = JStr (js ''3.50'')"
  by (simp_all add: sample_payment_def)

lemma sample_order_terms [simp]: "o_cycle sample_order = MONTHLY" "o_amountMinor sample_order = 350" "o_totalSeats sample_order = 3"
    "o_priceSnapshot sample_order = snapshot_json (wincrmPriceSnapshot sample_policy)"
    "o_capacityCommandId sample_order = sample_uuid 900"
  by (simp_all add: sample_order_def checkout_order_def Let_def as_cycle_def)

lemma sample_decimal: "wincrmDecimal 350 = Inr (js ''3.50'')"
  by (simp add: wincrmDecimal_def WINCRM_MAX_AMOUNT_def dec.simps js_def require_def dec_int_def padStart2_def)

lemma sample_response: "response_shape sample_order sample_payment" 
   "response_bound (lease_operation t u sample_operation) sample_order sample_payment (js ''3.50'')"
proof -
  have "providerId (JStr (js ''pay-1''))"
    by (simp add: providerId_def js_def is_alnum_def provider_id_char_def is_digit_def)
  then show "response_shape sample_order sample_payment"
    by (simp add: response_shape_def sample_payment_def commerceRecord_obj cycle_js_def kind_js_def)
  show "response_bound (lease_operation t u sample_operation) sample_order sample_payment (js ''3.50'')"
    by (simp add: response_bound_def truthy_def lease_operation_def)
qed

lemma claimed_db_simps [simp]:
  "accounts claimed_db = [sample_account]" "commands claimed_db = [sample_command]" "orders claimed_db = [sample_order]"
  "periods claimed_db = []" "renewals claimed_db = []" 
  "operations claimed_db = [lease_operation (sample_uuid 4) 1700000064000 sample_operation]" "receipts claimed_db = []"
  "deliveries claimed_db = [sample_delivery]" "entitlements claimed_db = []" "sourceSequence claimed_db = None" "consents claimed_db = []"
  "outbox claimed_db = [sample_outbox (sample_uuid 1) (sample_uuid 2) (sample_uuid 3) 1700000002000]"
  "tick claimed_db = 5" "fresh claimed_db = 6"
  by (simp_all add: claimed_db_def)

lemma owned_run:
  "owned_operation sample_env sample_claim claimed_db =
     Inr ((lease_operation (sample_uuid 4) 1700000064000 sample_operation, sample_order), claimed_db\<lparr>tick := 6\<rparr>)"
  by (simp add: owned_operation_def load_operation_def lease_operation_def ownsLease_def sample_claim_def prisma_defs)

lemma sample_account_simps [simp]: "a_workspaceId sample_account = sample_uuid 901" "a_version sample_account = 2"
  by (simp_all add: sample_account_def)

lemma same_some_None [simp]: "\<not> same_some x None" "\<not> same_some None x"
  by (auto simp: same_some_def)

definition leased :: operation_row where
  "leased = (lease_operation (sample_uuid 4) 1700000064000 sample_operation)\<lparr>op_providerPaymentId := Some (js ''pay-1'')\<rparr>"

lemma leased_simps [simp]: "op_id leased = sample_uuid 1" "op_status leased = P_PROCESSING" "op_version leased = 2"
  "op_leaseToken leased = Some (sample_uuid 4)" "op_idempotencyKey leased = sample_hash"
  by (simp_all add: leased_def lease_operation_def)

lemma sample_consent: "consent_stands sample_order None"
  by (simp add: consent_stands_def sample_order_def checkout_order_def Let_def truthy_def WINCRM_CONSENT_VERSION_def
      WINCRM_CONSENT_TEXT_def js_def)

lemma sample_card: "providerId (JStr (js ''card-1''))" "\<not> commerceText JUndef n"
  by (simp_all add: providerId_def js_def is_alnum_def provider_id_char_def is_digit_def commerceText_def)

definition paying_db :: db where
  "paying_db = claimed_db\<lparr>tick := 6, operations := [leased]\<rparr>"

lemma fulfill_run:
  obtains w' where "fulfill sample_env sample_order sample_payment paying_db = Inr ((), w')"
    "orders w' = [succeeded_order (js ''pay-1'') 1700000006000 sample_order]" "length (periods w') = 1"
    "operations w' = [leased]" "deliveries w' = [sample_delivery]" "length (renewals w') = 1"
proof -
  obtain x where x: "wincrmPeriodEnd (Some 1700000006000) MONTHLY = Inr x"
    by (rule wincrmPeriodEnd_exists [of 1700000006000 MONTHLY])
      (simp add: date_margin_def MAX_DATE_MS_def MS_PER_DAY_def)
  have "\<exists>w'. fulfill sample_env sample_order sample_payment paying_db = Inr ((), w')
      \<and> orders w' = [succeeded_order (js ''pay-1'') 1700000006000 sample_order] \<and> length (periods w') = 1
      \<and> operations w' = [leased] \<and> deliveries w' = [sample_delivery] \<and> length (renewals w') = 1"
    apply (simp add: fulfill_def paying_db_def prisma_defs latestPeriod_def read_snapshot_json sample_snapshot_ok
        period_start_def timeClip_def x MAX_DATE_MS_def)
    apply (simp add: paid_at_def succeeded_order_def prisma_defs paid_period_def upd_rows_def
        fulfill_entitlement_def nextSequence_def first_paid_entitlement_def fulfill_command_def sample_command_def
        fulfill_renewal_def)
    apply (simp add: sample_consent sample_card encrypt_op_def upsert_renewal_def consent_def create_consent_def prisma_defs)
    apply (simp add: enqueueCrmEntitlementChanged_def prisma_defs started_period_def notify_activation_def
        sample_outbox_def entitlement_event_def upd_rows_def succeeded_order_def)
    done
  then show thesis
    using that by blast
qed

lemma sample_claim_simps [simp]:
  "cl_operationId sample_claim = sample_uuid 1" "cl_eventId sample_claim = sample_uuid 2"
  "cl_leaseToken sample_claim = sample_uuid 4" "cl_version sample_claim = 2"
  by (simp_all add: sample_claim_def)

lemma leased_finish [simp]:
  "op_id (finish_operation s x leased) = sample_uuid 1"
  "op_idempotencyKey (finish_operation s x leased) = sample_hash"
  "op_kind (lease_operation t u sample_operation) = CREATE"
  "op_id (lease_operation t u sample_operation) = sample_uuid 1"
  "is_delivery (sample_uuid 2) sample_delivery" "wincrmProviderKey sample_env ks = sample_hash"
  by (simp_all add: finish_operation_def lease_operation_def is_delivery_def sample_delivery_def new_delivery_def
      wincrmProviderKey_def sample_hash_def)

lemma leased_state:
  "operations_update (upd_rows (\<lambda>x. op_id x = sample_uuid 1) (op_providerPaymentId_update (\<lambda>_. Some (js ''pay-1''))))
     (claimed_db\<lparr>tick := 6\<rparr>) = paying_db"
  by (simp add: paying_db_def claimed_db_def upd_rows_def leased_def lease_operation_def)

lemma settle_run:
  obtains w' where "settleProviderOperation sample_env sample_claim sample_payment claimed_db = Inr ((), w')"
    "orders w' = [succeeded_order (js ''pay-1'') 1700000006000 sample_order]" "length (periods w') = 1"
    "length (renewals w') = 1"
proof -
  obtain w1 where w1: "fulfill sample_env sample_order sample_payment paying_db = Inr ((), w1)"
    "orders w1 = [succeeded_order (js ''pay-1'') 1700000006000 sample_order]" "length (periods w1) = 1"
    "operations w1 = [leased]" "deliveries w1 = [sample_delivery]" "length (renewals w1) = 1"
    by (rule fulfill_run)
  have "\<exists>w'. settleProviderOperation sample_env sample_claim sample_payment claimed_db = Inr ((), w')
    \<and> orders w' = orders w1 \<and> periods w' = periods w1 \<and> renewals w' = renewals w1"
    by (simp add: settleProviderOperation_def settle_tx_def owned_run sample_response sample_decimal
        leased_state [simplified] settle_succeeded_def w1 finish_def enqueue_def prisma_defs)
      (simp add: upd_rows_def count_rows_def tx_simps w1)
  then show thesis
    using w1 that by auto
qed

text \<open>The same claim, when the provider still waits for the customer.\<close>

definition sample_waiting :: jsval where
  "sample_waiting = obj [(''id'', JStr (js ''pay-1'')), (''status'', JStr (js ''pending'')),
     (''amount'', obj [(''value'', JStr (js ''3.50'')), (''currency'', JStr (js ''RUB''))]),
     (''metadata'', obj [(''productCode'', JStr (js ''WINCRM'')), (''paymentId'', JStr (sample_uuid 0)),
        (''plan'', JStr (js ''WINCRM'')), (''billingPeriod'', JStr (js ''MONTHLY'')), (''kind'', JStr (js ''ONE_TIME''))]),
     (''confirmation'', obj [(''confirmation_url'', JStr sample_page)])]"

lemma sample_waiting_fields [simp]:
  "jsfield sample_waiting ''id'' = JStr (js ''pay-1'')"
  "jsfield sample_waiting ''status'' = JStr (js ''pending'')"
  "jsfield (jsfield sample_waiting ''confirmation'') ''confirmation_url'' = JStr sample_page"
  by (simp_all add: sample_waiting_def)

lemma sample_confirmation: "confirmationUrl sample_env (JStr sample_page) (js ''pay-1'') = Inr (Some sample_page)"
proof -
  have "commerceText (JStr sample_page) 2048" "\<not> control_escape sample_page"
    "\<not> list_ex (\<lambda>c. is_space c \<or> c = 92) sample_page"
    by (rule ascii_text, simp_all add: sample_page_def js_def is_space_def)
  then show ?thesis
    by (simp add: confirmationUrl_def sample_page_url_def)
qed

lemma sample_waiting_bound:
  "response_shape sample_order sample_waiting"
  "response_bound (lease_operation t u sample_operation) sample_order sample_waiting (js ''3.50'')"
proof -
  have "providerId (JStr (js ''pay-1''))"
    by (simp add: providerId_def js_def is_alnum_def provider_id_char_def is_digit_def)
  then show "response_shape sample_order sample_waiting"
    by (simp add: response_shape_def sample_waiting_def commerceRecord_obj cycle_js_def kind_js_def)
  show "response_bound (lease_operation t u sample_operation) sample_order sample_waiting (js ''3.50'')"
    by (simp add: response_bound_def truthy_def lease_operation_def sample_waiting_def)
qed

lemma waiting_run:
  obtains w' where "settleProviderOperation sample_env sample_claim sample_waiting claimed_db = Inr ((), w')"
    "orders w' = [pending_again (js ''pay-1'') (js ''pending'') (Some sample_page) sample_order]"
proof -
  have "\<exists>w'. settleProviderOperation sample_env sample_claim sample_waiting claimed_db = Inr ((), w')
      \<and> orders w' = [pending_again (js ''pay-1'') (js ''pending'') (Some sample_page) sample_order]"
    by (simp add: settleProviderOperation_def settle_tx_def owned_run sample_waiting_bound sample_decimal
        leased_state [simplified] settle_pending_def sample_confirmation finish_def enqueue_def paying_db_def prisma_defs)
      (simp add: upd_rows_def count_rows_def tx_simps)
  then show thesis
    using that by blast
qed

section \<open>Reachable states\<close>

lemma shop_reachable: "reachable sample_env shop_db"
  by (auto simp: reachable_def initial_def intro!: exI [of _ shop_db])

lemma reachable_step: "reachable e w \<Longrightarrow> service_step e w w' \<Longrightarrow> reachable e w'"
  unfolding reachable_def by (meson rtranclp.rtrancl_into_rtrancl)

lemma ordered_reachable: "reachable sample_env ordered_db"
  using checkout_run reachable_step [OF shop_reachable] by (blast intro: step_checkout)

lemma claimed_reachable: "reachable sample_env claimed_db"
  using reachable_step [OF ordered_reachable step_claim [OF claim_run]] .

lemma paid_reachable:
  obtains w where "reachable sample_env w" "length (periods w) = 1"
    "orders w = [succeeded_order (js ''pay-1'') 1700000006000 sample_order]" "length (renewals w) = 1"
  using settle_run reachable_step [OF claimed_reachable step_settle] by metis

end
