(* ===== verification/Request_Terms.thy ===== *)
theory Request_Terms
  imports Service
begin

text \<open>
  What every call of the service keeps: the terms of an order and the snapshot of a queued operation
  are written once, when the row is created; the version of an operation never falls, and its lease
  changes only with the version; the receipt of a command stays. The locale \<open>row_relation\<close> carries such
  a relation across all calls.
\<close>

section \<open>The columns that are written once\<close>

definition order_terms :: "order_row \<Rightarrow> order_row" where
  "order_terms x = x\<lparr>o_version := 0, o_status := O_PENDING, o_providerPaymentId := None, o_providerStatus := None,
     o_confirmationUrl := None, o_succeededAt := None, o_cancellationReason := None\<rparr>"

definition operation_terms ::
    "operation_row \<Rightarrow> jsstring \<times> jsstring \<times> jsstring \<times> operation_kind \<times> jsstring \<times> jsval" where
  "operation_terms x =
     (op_id x, op_workspaceId x, op_orderId x, op_kind x, op_idempotencyKey x, op_requestSnapshot x)"

definition terms_kept :: "db \<Rightarrow> db \<Rightarrow> bool" where
  "terms_kept w w' \<longleftrightarrow>
     prefix (map order_terms (orders w)) (map order_terms (orders w'))
     \<and> prefix (map operation_terms (operations w)) (map operation_terms (operations w'))"

lemma order_terms_fields:
  assumes "order_terms x = order_terms y"
  shows "o_id x = o_id y \<and> o_kind x = o_kind y \<and> o_cycle x = o_cycle y \<and> o_amountMinor x = o_amountMinor y
    \<and> o_autoRenew x = o_autoRenew y \<and> o_customerEmail x = o_customerEmail y \<and> o_customerPhone x = o_customerPhone y
    \<and> o_providerIdempotencyKey x = o_providerIdempotencyKey y"
  using assms by (cases x, cases y) (simp add: order_terms_def)

lemma order_terms_updates [simp]:
  "order_terms (succeeded_order i t x) = order_terms x" "order_terms (cancelled_order r x) = order_terms x"
  "order_terms (unknown_order x) = order_terms x" "order_terms (reported_order i s x) = order_terms x"
  "order_terms (pending_again i s u x) = order_terms x" "order_terms (close_order x) = order_terms x"
  by (simp_all add: order_terms_def succeeded_order_def cancelled_order_def unknown_order_def reported_order_def
      pending_again_def close_order_def)

lemma operation_terms_updates [simp]:
  "operation_terms (lease_operation t u x) = operation_terms x" "operation_terms (finish_operation s r x) = operation_terms x"
  "operation_terms (dispatch_operation f x) = operation_terms x"
  "operation_terms (requeue_operation v i at r x) = operation_terms x"
  "operation_terms (x\<lparr>op_providerPaymentId := p\<rparr>) = operation_terms x"
  "operation_terms (x\<lparr>op_version := n\<rparr>) = operation_terms x"
  by (simp_all add: operation_terms_def lease_operation_def finish_operation_def dispatch_operation_def requeue_operation_def)

section \<open>The columns that name a claim\<close>

text \<open>
  A write to an operation keeps what it is requested with; it moves the version on, or it keeps the
  status, the lease and the event by which the operation is claimed.
\<close>

definition claim_columns ::
    "operation_row \<Rightarrow> int \<times> operation_status \<times> jsstring option \<times> date option \<times> jsstring" where
  "claim_columns x = (op_version x, op_status x, op_leaseToken x, op_leaseUntil x, op_pendingEventId x)"

definition op_moves :: "operation_row \<Rightarrow> operation_row \<Rightarrow> bool" where
  "op_moves x y \<longleftrightarrow> operation_terms y = operation_terms x
     \<and> (op_version x < op_version y \<or> claim_columns y = claim_columns x)"

lemma op_moves_updates [simp]:
  "op_moves x (lease_operation t u x)" "op_moves x (finish_operation s r x)" "op_moves x (dispatch_operation f x)"
  "op_moves x (requeue_operation v i at r x)" "op_moves x ((requeue_operation v i at r x)\<lparr>op_providerPaymentId := p\<rparr>)"
  "op_moves x (x\<lparr>op_providerPaymentId := p\<rparr>)" "op_moves x (x\<lparr>op_version := op_version x + 1\<rparr>)"
  by (simp_all add: op_moves_def claim_columns_def)
    (simp_all add: lease_operation_def finish_operation_def dispatch_operation_def requeue_operation_def)

lemma op_moves_refl [simp]: "op_moves x x"
  by (simp add: op_moves_def)

lemma op_moves_trans: "op_moves x y \<Longrightarrow> op_moves y z \<Longrightarrow> op_moves x z"
  by (auto simp: op_moves_def claim_columns_def)

lemma op_moves_id: "op_moves x y \<Longrightarrow> op_id y = op_id x"
  by (simp add: op_moves_def operation_terms_def)

section \<open>Relations on orders, operations and receipts\<close>

text \<open>
  The counterpart of \<open>core_relation\<close> for the tables that a claim and a command are settled by: a
  relation that no write to the other tables disturbs, that allows new orders, operations and receipts
  and the writes to orders that keep their terms, holds across every call that does not write to an
  existing operation (\<open>entry_relation\<close>); if it also allows the writes to operations that move on as
  \<open>op_moves\<close> says, it holds across every step of the service (\<open>row_relation\<close>).
\<close>

locale entry_relation = db_relation R
  for R :: "db \<Rightarrow> db \<Rightarrow> bool" +
  assumes frame_policies: "frame R policies_update"
    and frame_entitlements: "frame R entitlements_update"
    and frame_accounts: "frame R accounts_update"
    and frame_commands: "frame R commands_update"
    and frame_periods: "frame R periods_update"
    and frame_renewals: "frame R renewals_update"
    and frame_consents: "frame R consents_update"
    and frame_deliveries: "frame R deliveries_update"
    and frame_fiscals: "frame R fiscals_update"
    and frame_outbox: "frame R outbox_update"
    and frame_contacts: "frame R contacts_update"
    and frame_grants: "frame R grants_update"
    and frame_sequence: "frame R sourceSequence_update"
    and write_order: "steps R (create_order ord)"
    and write_operation: "steps R (create_operation opr)"
    and write_receipt: "steps R (create_receipt rc)"
    and rewrite_order: "(\<And>x. order_terms (f x) = order_terms x) \<Longrightarrow> steps R (update_order oid f)"
    and rewrite_orders: "(\<And>x. order_terms (f x) = order_terms x) \<Longrightarrow> steps R (updateMany_order P f)"
begin

lemmas row_writes =
  write_order write_operation write_receipt rewrite_order rewrite_orders
  frame_policies frame_entitlements frame_accounts frame_commands frame_periods frame_renewals frame_consents
  frame_deliveries frame_fiscals frame_outbox frame_contacts frame_grants frame_sequence

lemma row_enqueue: "steps R (enqueue e ord kind key pid at)"
  unfolding enqueue_def by (intro row_writes steps_intro)

lemma row_account: "steps R (update_row accounts accounts_update P2025 P f)"
  by (rule steps_update) (rule frameD [OF frame_accounts])

lemma row_cancelOrder: "steps R (cancelOrder e ord reason)"
  unfolding cancelOrder_def cancel_recurring_def by (intro row_writes steps_intro) simp

lemma row_commit: "steps R (commitCommand dto type hash v p f oid)"
  unfolding commitCommand_def by (intro row_writes steps_intro)

lemmas row_parts = row_enqueue row_account row_cancelOrder row_commit row_writes

subsection \<open>Commands of CRM Access\<close>

lemma row_replay: "steps R body \<Longrightarrow> steps R (or_replay e dto type hash body)"
  unfolding or_replay_def by (intro steps_intro)

lemma row_queries:
  "steps R (summary e dto)" "steps R (quote e dto)" "steps R (order e dto)"
  "steps R (history e dto)" "steps R (commandStatus e dto)"
proof -
  show s: "steps R (summary e dto)"
    unfolding summary_def by (intro steps_intro)
  show "steps R (quote e dto)"
    unfolding quote_def by (intro s steps_intro)
  show "steps R (order e dto)" "steps R (history e dto)" "steps R (commandStatus e dto)"
    unfolding order_def history_def commandStatus_def by (intro steps_intro)+
qed

lemma row_commands:
  "steps R (checkout e dto)" "steps R (changeSeats e dto)" "steps R (disableRenewal e dto)"
  "steps R (confirmRenewal e dto)" "steps R (verifyOrder e dto)" "steps R (closeCommand e dto)"
  unfolding checkout_def checkout_body_def changeSeats_def changeSeats_body_def changeSeats_renewal_def disableRenewal_def
    confirmRenewal_def renewalCommand_def renewalCommand_body_def renewal_change_def verifyOrder_def verifyOrder_body_def
    closeCommand_def closeCommand_tx_def close_current_def bump_account_def accountForCommand_def
  by (intro row_replay row_parts steps_intro; simp)+

subsection \<open>Provider operations\<close>

lemma row_owned: "steps R (ownsLease e operation c)" "steps R (owned_operation e c)"
proof -
  show o: "steps R (ownsLease e operation c)" for operation
    unfolding ownsLease_def by (intro steps_intro)
  show "steps R (owned_operation e c)"
    unfolding owned_operation_def load_operation_def by (intro o steps_intro)
qed

lemma row_prepare: "steps R (prepareProviderOperation e c)"
  unfolding prepareProviderOperation_def by (intro row_owned steps_intro)

lemma row_fulfill: "steps R (fulfill e ord provider)"
  unfolding fulfill_def fulfill_entitlement_def fulfill_command_def fulfill_renewal_def
  by (intro row_parts steps_intro) simp_all

lemma row_settleReceipts: "steps R (settleReceipts e ord value)"
proof -
  have "steps R (settleReceipt e ord item)" for item
    unfolding settleReceipt_def by (auto intro!: row_writes steps_intro split: jsval.split)
  then show ?thesis
    unfolding settleReceipts_def by (auto intro!: steps_intro split: jsval.split)
qed

lemma row_verification: "steps R (enqueueProviderVerification e value)"
  unfolding enqueueProviderVerification_def verification_tx_def by (intro row_parts steps_intro)

subsection \<open>Scheduler, policy, entitlement, administration\<close>

lemma row_scheduler: "steps R (activation_tx e pid)" "steps R (charge_tx e ws)"
  unfolding activation_tx_def charge_tx_def charge_priced_def charge_order_def pause_def
  by (intro row_parts steps_intro)+

lemma row_policy_and_trial:
  "steps R (updatePolicy e pdto ctx)" "steps R (activateTrial e tdto)" "steps R (getEntitlement e ws)"
proof -
  show "steps R (updatePolicy e pdto ctx)"
    unfolding updatePolicy_def updatePolicy_tx_def by (intro row_writes steps_intro)
  show "steps R (activateTrial e tdto)"
    unfolding activateTrial_def activateTrial_tx_def by (intro row_writes steps_intro)
  show "steps R (getEntitlement e ws)"
    by (intro steps_intro)
qed

lemma row_admin_queries:
  "steps R (admin_role ctx)" "steps R (assertActor s ctx)" "steps R (requireEntitlement ws)"
  "steps R (read_subscription e ws)" "steps R (list_subscriptions e q ctx)"
  "steps R (grant_history ws i n ctx)" "steps R (grant_command e ws c ctx)"
  "steps R (detail_subscription e ws ctx)"
proof -
  show r: "steps R (admin_role ctx)" "steps R (assertActor s ctx)" "steps R (requireEntitlement ws)"
    unfolding admin_role_def assertActor_def requireEntitlement_def by (intro steps_intro)+
  show s: "steps R (read_subscription e ws)"
    unfolding read_subscription_def by (intro r steps_intro)
  show "steps R (list_subscriptions e q ctx)" "steps R (grant_history ws i n ctx)"
    "steps R (grant_command e ws c ctx)" "steps R (detail_subscription e ws ctx)"
    unfolding list_subscriptions_def grant_history_def grant_command_def detail_subscription_def
    by (intro r s steps_intro)+
qed

lemma row_admin_commands: "steps R (cancel_grant e ws c s ctx)" "steps R (extend_days e ws xdto ctx)"
  unfolding cancel_grant_def cancel_tx_def extend_days_def extend_tx_def extend_grant_def extend_target_def extend_entitlement_def
    extend_period_def extend_record_def
  by (intro row_admin_queries row_parts steps_intro)+

text \<open>The calls that write to existing operations are those of the provider's side.\<close>

lemma entry_step:
  "service_step e w w' \<Longrightarrow> R w w' \<or> (\<exists>event r. claimProviderOperation e event w = Inr (r, w'))
     \<or> (\<exists>c r. beginProviderDispatch e c w = Inr (r, w')) \<or> (\<exists>c value r. settleProviderOperation e c value w = Inr (r, w'))
     \<or> (\<exists>c failed r. failProviderOperation e c failed w = Inr (r, w'))
     \<or> (\<exists>oid dto actor r. retryProviderOperation e oid dto actor w = Inr (r, w'))"
proof (induction rule: service_step.induct)
  case (identity_event w cs)
  then show ?case
    using frameD [OF frame_contacts, of w "\<lambda>_. cs"] by simp
qed (blast | rule disjI1, erule stepsD [rotated],
    (rule row_queries row_commands row_prepare row_verification steps_transaction row_scheduler row_policy_and_trial
       row_admin_queries row_admin_commands)+)+

end

locale row_relation = entry_relation R
  for R :: "db \<Rightarrow> db \<Rightarrow> bool" +
  assumes rewrite_operation: "(\<And>x. op_moves x (g x)) \<Longrightarrow> steps R (update_operation Q g)"
    and rewrite_operations: "(\<And>x. op_moves x (g x)) \<Longrightarrow> steps R (updateMany_operation Q g)"
begin

lemma row_finish: "steps R (finish e oid c status error)"
  unfolding finish_def by (intro rewrite_operations row_writes steps_intro) simp

lemmas moving_parts = row_finish rewrite_operation rewrite_operations row_parts

lemma row_claim: "steps R (claimProviderOperation e event)"
  unfolding claimProviderOperation_def claim_tx_def by (intro moving_parts steps_intro) simp

lemma row_dispatch: "steps R (beginProviderDispatch e c)"
  unfolding beginProviderDispatch_def dispatch_tx_def dispatch_create_def dispatch_refused_def
  by (intro row_owned moving_parts steps_intro) simp_all

lemma row_fail: "steps R (failProviderOperation e c failed)"
  unfolding failProviderOperation_def fail_tx_def fail_retry_def fail_final_def
  by (intro row_owned moving_parts steps_intro) simp_all

lemma row_settle: "steps R (settleProviderOperation e c value)"
  unfolding settleProviderOperation_def settle_tx_def settle_sync_def rescheduleReceipt_def settle_succeeded_def
    settle_canceled_def settle_pending_def
  by (intro row_owned row_fulfill row_settleReceipts moving_parts steps_intro) simp_all

lemma row_retry: "steps R (retryProviderOperation e oid dto actor)"
  unfolding retryProviderOperation_def retry_tx_def load_operation_def by (intro moving_parts steps_intro) simp

lemma row_service: "service_step e w w' \<Longrightarrow> R w w'"
  by (drule entry_step, elim disjE exE, assumption)
    (erule stepsD [rotated], rule row_claim row_dispatch row_settle row_fail row_retry)+

lemma row_services: "(service_step e)\<^sup>*\<^sup>* w w' \<Longrightarrow> R w w'"
  by (induction rule: rtranclp_induct) (auto intro: step_refl step_trans row_service)

end

section \<open>What every call keeps\<close>

interpretation terms: row_relation terms_kept
proof unfold_locales
  show "steps terms_kept (create_order ord)" "steps terms_kept (create_operation opr)" "steps terms_kept (create_receipt rc)"
    for ord opr rc
    by (rule stepsI; auto simp: terms_kept_def create_order_def create_operation_def create_receipt_def
        tb_orders.create_row_Inr tb_operations.create_row_Inr tb_receipts.create_row_Inr)+
  show "steps terms_kept (update_order oid f)" "steps terms_kept (updateMany_order P f)"
    if "\<And>x. order_terms (f x) = order_terms x" for oid P f
    by (rule stepsI; auto simp: terms_kept_def update_order_def updateMany_order_def tb_orders.update_row_Inr
        tb_orders.update_many_Inr that split: option.splits if_splits)+
  show "steps terms_kept (update_operation Q g)" "steps terms_kept (updateMany_operation Q g)"
    if "\<And>x. op_moves x (g x)" for Q g
    using that by - (rule stepsI; auto simp: terms_kept_def update_operation_def updateMany_operation_def
        tb_operations.update_row_Inr tb_operations.update_many_Inr op_moves_def)+
qed (auto simp: terms_kept_def frame_def intro: prefix_order.trans)

text \<open>The row of an operation is found again, and it has moved as its writes allow.\<close>

definition claims_kept :: "db \<Rightarrow> db \<Rightarrow> bool" where
  "claims_kept w w' \<longleftrightarrow>
     (\<forall>i x. find_operation i w = Some x \<longrightarrow> (\<exists>y. find_operation i w' = Some y \<and> op_moves x y))"

lemma claims_kept_update:
  assumes "\<And>x. op_moves x (g x)" "operations w' = upd_rows Q g (operations w)"
  shows "claims_kept w w'"
  unfolding claims_kept_def find_operation_def assms(2)
  by (subst find_upd_rows) (simp_all add: assms(1) op_moves_id [OF assms(1)])

interpretation claims: row_relation claims_kept
proof unfold_locales
  show "steps claims_kept (create_order ord)" "steps claims_kept (create_operation opr)" "steps claims_kept (create_receipt rc)"
    for ord opr rc
    by (rule stepsI; auto simp: claims_kept_def find_operation_def create_order_def create_operation_def create_receipt_def
        tb_orders.create_row_Inr tb_operations.create_row_Inr tb_receipts.create_row_Inr find_append)+
  show "steps claims_kept (update_order oid f)" "steps claims_kept (updateMany_order P f)" for oid P f
    by (rule stepsI; auto simp: claims_kept_def find_operation_def update_order_def updateMany_order_def
        tb_orders.update_row_Inr tb_orders.update_many_Inr split: option.splits if_splits)+
  show "steps claims_kept (update_operation Q g)" "steps claims_kept (updateMany_operation Q g)"
    if "\<And>x. op_moves x (g x)" for Q g
    by (rule stepsI; auto simp: update_operation_def updateMany_operation_def
        tb_operations.update_row_Inr tb_operations.update_many_Inr intro!: claims_kept_update [of g, OF that])+
  show "claims_kept a c" if "claims_kept a b" "claims_kept b c" for a b c
    using that unfolding claims_kept_def by (meson op_moves_trans)
qed (auto simp: claims_kept_def frame_def find_operation_def)

text \<open>The receipt of a command is kept as it was written.\<close>

definition receipts_kept :: "db \<Rightarrow> db \<Rightarrow> bool" where
  "receipts_kept w w' \<longleftrightarrow> (\<forall>c x. find_receipt c w = Some x \<longrightarrow> find_receipt c w' = Some x)"

interpretation receipts: row_relation receipts_kept
proof unfold_locales
  show "steps receipts_kept (create_order ord)" "steps receipts_kept (create_operation opr)"
    "steps receipts_kept (create_receipt rc)" for ord opr rc
    by (rule stepsI; auto simp: receipts_kept_def find_receipt_def create_order_def create_operation_def create_receipt_def
        tb_orders.create_row_Inr tb_operations.create_row_Inr tb_receipts.create_row_Inr find_append)+
  show "steps receipts_kept (update_order oid f)" "steps receipts_kept (updateMany_order P f)" for oid P f
    by (rule stepsI; auto simp: receipts_kept_def find_receipt_def update_order_def updateMany_order_def
        tb_orders.update_row_Inr tb_orders.update_many_Inr split: option.splits if_splits)+
  show "steps receipts_kept (update_operation Q g)" "steps receipts_kept (updateMany_operation Q g)" for Q g
    by (rule stepsI; auto simp: receipts_kept_def find_receipt_def update_operation_def updateMany_operation_def
        tb_operations.update_row_Inr tb_operations.update_many_Inr)+
qed (auto simp: receipts_kept_def frame_def find_receipt_def)

section \<open>Rows found again\<close>

lemma prefix_find:
  assumes "prefix (map g xs) (map g ys)" "find P xs = Some x" "\<And>a b. g a = g b \<Longrightarrow> P a = P b"
  shows "\<exists>y. find P ys = Some y \<and> g y = g x"
  using assms(1,2)
proof (induction xs arbitrary: ys)
  case (Cons a xs)
  then obtain b zs where ys: "ys = b # zs" "g b = g a" "prefix (map g xs) (map g zs)"
    by (cases ys) auto
  have "P b = P a"
    using assms(3) [OF ys(2)] .
  then show ?case
    using Cons ys by (auto split: if_splits)
qed simp

lemma terms_find_order:
  assumes "terms_kept w w'" "find_order i w = Some x"
  shows "\<exists>y. find_order i w' = Some y \<and> order_terms y = order_terms x"
  unfolding find_order_def
proof (rule prefix_find)
  show "prefix (map order_terms (orders w)) (map order_terms (orders w'))"
    using assms(1) by (simp add: terms_kept_def)
  show "find (\<lambda>x. o_id x = i) (orders w) = Some x"
    using assms(2) by (simp add: find_order_def)
  show "(o_id a = i) = (o_id b = i)" if "order_terms a = order_terms b" for a b
    using order_terms_fields [OF that] by simp
qed

lemma terms_find_operation:
  assumes "terms_kept w w'" "find_operation i w = Some x"
  shows "\<exists>y. find_operation i w' = Some y \<and> operation_terms y = operation_terms x"
  unfolding find_operation_def
proof (rule prefix_find)
  show "prefix (map operation_terms (operations w)) (map operation_terms (operations w'))"
    using assms(1) by (simp add: terms_kept_def)
  show "find (\<lambda>x. op_id x = i) (operations w) = Some x"
    using assms(2) by (simp add: find_operation_def)
  show "(op_id a = i) = (op_id b = i)" if "operation_terms a = operation_terms b" for a b
    using that by (simp add: operation_terms_def)
qed

end
