(* ===== verification/Lease_Steps.thy ===== *)
theory Lease_Steps
  imports Request_Terms Ledger_Refinement
begin

text \<open>
  Which calls touch the lease of an operation: the calls of the provider's side write only to the
  operation that they name, and every other call leaves all leases alone.
\<close>

section \<open>The lease of one operation\<close>

definition same_claim :: "jsstring \<Rightarrow> db \<Rightarrow> db \<Rightarrow> bool" where
  "same_claim i w w' \<longleftrightarrow> (\<forall>x. find_operation i w = Some x \<longrightarrow>
     (\<exists>y. find_operation i w' = Some y \<and> claim_columns y = claim_columns x))"

lemma same_claim_operations: "operations w' = operations w \<Longrightarrow> same_claim i w w'"
  by (simp add: same_claim_def find_operation_def)

lemma same_claim_update:
  assumes "\<And>x. op_id (g x) = op_id x" "\<And>x. Q x \<Longrightarrow> op_id x = i \<Longrightarrow> claim_columns (g x) = claim_columns x"
    and "operations w' = upd_rows Q g (operations w)"
  shows "same_claim i w w'"
  unfolding same_claim_def find_operation_def assms(3)
  by (subst find_upd_rows) (use assms(1,2) in \<open>auto dest!: find_Some_D\<close>)

interpretation same_claim: entry_relation "same_claim i" for i
proof unfold_locales
  show "steps (same_claim i) (create_order ord)" "steps (same_claim i) (create_operation opr)"
    "steps (same_claim i) (create_receipt rc)" for ord opr rc
    by (rule stepsI; auto simp: same_claim_def find_operation_def create_order_def create_operation_def create_receipt_def
        tb_orders.create_row_Inr tb_operations.create_row_Inr tb_receipts.create_row_Inr find_append)+
  show "steps (same_claim i) (update_order oid f)" "steps (same_claim i) (updateMany_order P f)" for oid P f
    by (rule stepsI; auto simp: update_order_def updateMany_order_def tb_orders.update_row_Inr tb_orders.update_many_Inr
        intro!: same_claim_operations split: option.splits if_splits)+
  show "same_claim i a c" if "same_claim i a b" "same_claim i b c" for a b c
    using that unfolding same_claim_def by (metis)
qed (auto simp: same_claim_def frame_def find_operation_def)

lemma other_operation:
  assumes "\<And>x. op_id (g x) = op_id x" "\<And>x. Q x \<Longrightarrow> op_id x \<noteq> i"
  shows "steps (same_claim i) (update_operation Q g)" "steps (same_claim i) (updateMany_operation Q g)"
  by (rule stepsI; auto simp: update_operation_def updateMany_operation_def tb_operations.update_row_Inr
      tb_operations.update_many_Inr intro!: same_claim_update [of g Q, OF assms(1)] dest: assms(2))+

text \<open>A call that reads its operation first may rely on the id of the row.\<close>

lemma found_bnd:
  assumes "\<And>x. op_id x = oid \<Longrightarrow> steps (same_claim i) (k x)"
  shows "steps (same_claim i) (bnd (gets (find_operation oid)) (\<lambda>found. bnd (the_or err found) k))"
  by (rule stepsI) (auto simp: find_operation_def dest!: find_Some_D intro: stepsD [OF assms])

lemma owned_bnd:
  assumes "\<And>x ord. op_id x = cl_operationId c \<Longrightarrow> steps (same_claim i) (k x ord)"
  shows "steps (same_claim i) (bnd (owned_operation e c) (\<lambda>(x, ord). k x ord))"
proof (rule stepsI)
  fix w r w'
  assume "bnd (owned_operation e c) (\<lambda>(x, ord). k x ord) w = Inr (r, w')"
  then obtain x ord w1 where own: "owned_operation e c w = Inr ((x, ord), w1)" and rest: "k x ord w1 = Inr (r, w')"
    by auto
  then have "op_id x = cl_operationId c"
    by (auto simp: find_operation_def dest!: find_Some_D elim!: owned_operation_Inr)
  then have "same_claim i w1 w'"
    by (rule stepsD [OF assms rest])
  then show "same_claim i w w'"
    using stepsD [OF same_claim.row_owned(2) own] same_claim.step_trans by blast
qed

section \<open>Calls for another operation\<close>

lemma update_ids [simp]:
  "op_id (lease_operation t u x) = op_id x" "op_id (finish_operation s r x) = op_id x"
  "op_id (requeue_operation v j at r x) = op_id x" "op_id (dispatch_operation f x) = op_id x"
  by (simp_all add: lease_operation_def finish_operation_def requeue_operation_def dispatch_operation_def)

lemma other_finish: "oid \<noteq> i \<Longrightarrow> steps (same_claim i) (finish e oid c status error)"
  unfolding finish_def by (intro other_operation same_claim.row_writes steps_intro) auto

lemmas other_parts = other_finish other_operation same_claim.row_parts

lemma other_claim_tx: "oid \<noteq> i \<Longrightarrow> steps (same_claim i) (claim_tx e oid ev h)"
  unfolding claim_tx_def by (intro found_bnd other_parts steps_intro) auto

lemma other_dispatch: "cl_operationId c \<noteq> i \<Longrightarrow> steps (same_claim i) (beginProviderDispatch e c)"
  unfolding beginProviderDispatch_def dispatch_tx_def dispatch_create_def dispatch_refused_def
  by (intro owned_bnd other_parts steps_intro) auto

lemma other_fail: "cl_operationId c \<noteq> i \<Longrightarrow> steps (same_claim i) (failProviderOperation e c failed)"
  unfolding failProviderOperation_def fail_tx_def fail_retry_def fail_final_def
  by (intro owned_bnd other_parts steps_intro) auto

lemma other_settle: "cl_operationId c \<noteq> i \<Longrightarrow> steps (same_claim i) (settleProviderOperation e c value)"
  unfolding settleProviderOperation_def settle_tx_def settle_sync_def rescheduleReceipt_def settle_succeeded_def
    settle_canceled_def settle_pending_def
  by (intro owned_bnd same_claim.row_fulfill same_claim.row_settleReceipts other_parts steps_intro) auto

lemma other_retry: "oid \<noteq> i \<Longrightarrow> steps (same_claim i) (retryProviderOperation e oid dto actor)"
  unfolding retryProviderOperation_def retry_tx_def load_operation_def
  by (intro other_parts steps_intro) auto

end
