(* ===== verification/Provider_Properties.thy ===== *)
theory Provider_Properties
  imports Scenario Lease_Steps
begin

text \<open>
  Properties of the provider operations: only the holder of an unexpired lease acts on an operation,
  the creation of a payment is dispatched only while the order, its capacity fence and its renewal
  authorise it, a queued request is the request that is prepared, and a failed attempt is repeated
  after 5 to 300 seconds.
\<close>

section \<open>Claims\<close>

lemma find_operation_upd:
  assumes "find_operation i w = Some x" "P x" "\<And>y. op_id (f y) = op_id y"
  shows "find (\<lambda>y. op_id y = i) (upd_rows P f (operations w)) = Some (f x)"
  using assms find_upd_rows [of P "\<lambda>y. op_id y = i" f "operations w"] by (simp add: find_operation_def)

lemma find_strengthen: "find Q xs = Some x \<Longrightarrow> P x \<Longrightarrow> (\<And>y. P y \<Longrightarrow> Q y) \<Longrightarrow> find P xs = Some x"
  by (induction xs) (auto split: if_splits)

lemma upsert_delivery_frame:
  "upsert_delivery P row f w = Inr (x, w') \<Longrightarrow> operations w' = operations w \<and> tick w' = tick w"
  by (auto simp: upsert_delivery_def upsert_row_def split: option.splits)

lemma claim_tx_CLAIMED:
  assumes "claim_tx e i ev h w = Inr (CLAIMED c, w')"
  obtains current where "find_operation i w = Some current" "op_pendingEventId current = ev"
    "op_status current = P_PROCESSING \<Longrightarrow> op_leaseUntil current = Some u \<Longrightarrow> u \<le> clock e (tick w)"
    "find_operation i w' = Some (lease_operation (cl_leaseToken c) (clock e (tick w) + LEASE_MS) current)"
    "cl_operationId c = i" "cl_eventId c = ev" "cl_version c = op_version current + 1" "tick w' = tick w + 1"
proof -
  obtain current where cur: "find_operation i w = Some current"
    using assms by (auto simp: claim_tx_def)
  then have i: "op_id current = i"
    unfolding find_operation_def by (drule_tac find_Some_D) simp
  have "op_pendingEventId current = ev
      \<and> (op_status current = P_PROCESSING \<longrightarrow> (case op_leaseUntil current of None \<Rightarrow> True | Some u \<Rightarrow> u \<le> clock e (tick w)))
      \<and> (\<exists>w1 w2 x. update_operation (\<lambda>x. op_id x = op_id current \<and> op_version x = op_version current)
            (lease_operation (cl_leaseToken c) (clock e (tick w) + LEASE_MS)) w1 = Inr (x, w2)
          \<and> operations w1 = operations w \<and> operations w' = operations w2 \<and> tick w1 = tick w + 1 \<and> tick w' = tick w2
          \<and> cl_operationId c = op_id x \<and> cl_eventId c = ev \<and> cl_version c = op_version x)"
    using assms cur
    by (auto simp: claim_tx_def new_date_def randomUUID_def Let_def split: if_splits option.splits
        dest!: upsert_delivery_frame; fastforce)
  then obtain w1 w2 x where ev: "op_pendingEventId current = ev"
    and exp: "op_status current = P_PROCESSING \<longrightarrow> (case op_leaseUntil current of None \<Rightarrow> True | Some u \<Rightarrow> u \<le> clock e (tick w))"
    and u: "update_operation (\<lambda>x. op_id x = op_id current \<and> op_version x = op_version current)
            (lease_operation (cl_leaseToken c) (clock e (tick w) + LEASE_MS)) w1 = Inr (x, w2)"
    and ops: "operations w1 = operations w" "operations w' = operations w2"
    and ticks: "tick w1 = tick w + 1" "tick w' = tick w2"
    and c: "cl_operationId c = op_id x" "cl_eventId c = ev" "cl_version c = op_version x"
    by blast
  have "find (\<lambda>x. op_id x = op_id current \<and> op_version x = op_version current) (operations w) = Some current"
    by (rule find_strengthen [OF cur [unfolded find_operation_def]]) (auto simp: i)
  then have x: "x = lease_operation (cl_leaseToken c) (clock e (tick w) + LEASE_MS) current"
    and w2: "operations w2 = upd_rows (\<lambda>x. op_id x = op_id current \<and> op_version x = op_version current)
      (lease_operation (cl_leaseToken c) (clock e (tick w) + LEASE_MS)) (operations w)"
    using u ops(1) by (auto simp: update_operation_def tb_operations.update_row_Inr)
  have "find_operation i w' = Some x"
    unfolding find_operation_def ops(2) w2 x
    by (rule find_operation_upd [OF cur]) (auto simp: lease_operation_def)
  moreover have "tick w' = tick w + 1"
    using u ticks by (auto simp: update_operation_def tb_operations.update_row_Inr)
  moreover have "op_status current = P_PROCESSING \<Longrightarrow> op_leaseUntil current = Some u \<Longrightarrow> u \<le> clock e (tick w)"
    using exp by simp
  ultimately show thesis
    using c by (intro that [OF cur ev]) (simp_all add: x i lease_operation_def)
qed

lemma claim_CLAIMED:
  assumes "claimProviderOperation e event w = Inr (CLAIMED c, w')"
  obtains current k where "find_operation (cl_operationId c) w = Some current" "op_pendingEventId current = cl_eventId c"
    "op_status current = P_PROCESSING \<Longrightarrow> op_leaseUntil current = Some u \<Longrightarrow> u \<le> clock e k"
    "find_operation (cl_operationId c) w' = Some (lease_operation (cl_leaseToken c) (clock e k + LEASE_MS) current)"
    "cl_version c = op_version current + 1" "tick w \<le> k" "k < tick w'"
proof -
  obtain i ev h where "transaction e (claim_tx e i ev h) w = Inr (CLAIMED c, w')"
    using assms by (auto simp: claimProviderOperation_def del: transaction_InrE)
  then obtain k j where later: "tick w \<le> k" and run: "claim_tx e i ev h (w\<lparr>tick := k, fresh := j\<rparr>) = Inr (CLAIMED c, w')"
    by (rule transaction_laterE)
  show thesis
    by (rule claim_tx_CLAIMED [OF run, of u]) (rule that [of _ k]; simp add: later)
qed

lemma settle_owned:
  assumes "settleProviderOperation e c value w = Inr (r, w')"
  obtains k j x where "owned_operation e c (w\<lparr>tick := k, fresh := j\<rparr>) = Inr x"
  using assms by (auto simp: settleProviderOperation_def settle_tx_def elim!: transaction_InrE)

lemma fail_owned:
  assumes "failProviderOperation e c failed w = Inr (r, w')"
  obtains k j x where "owned_operation e c (w\<lparr>tick := k, fresh := j\<rparr>) = Inr x"
  using assms by (auto simp: failProviderOperation_def fail_tx_def elim!: transaction_InrE)

lemma dispatch_owned:
  assumes "beginProviderDispatch e c w = Inr (r, w')"
  obtains k j x where "owned_operation e c (w\<lparr>tick := k, fresh := j\<rparr>) = Inr x"
  using assms by (auto simp: beginProviderDispatch_def dispatch_tx_def elim!: transaction_InrE)

lemma owned_token:
  assumes "owned_operation e c (w\<lparr>tick := k, fresh := j\<rparr>) = Inr x" "find_operation (cl_operationId c) w = Some operation"
  shows "op_leaseToken operation = Some (cl_leaseToken c)" "op_version operation = cl_version c"
    "\<exists>until. op_leaseUntil operation = Some until \<and> clock e k < until"
  using assms by (cases x; auto elim!: owned_operation_Inr)+

section \<open>Dispatch\<close>

lemma owned_update:
  assumes "owned_operation e c w = Inr ((operation, ord), w1)"
    and "update_operation (\<lambda>x. op_id x = op_id operation \<and> op_version x = cl_version c \<and> op_leaseToken x = Some (cl_leaseToken c))
      f w2 = Inr (x, w3)" and "operations w2 = operations w"
    and "\<And>y. op_id (f y) = op_id y"
  shows "x = f operation \<and> orders w3 = orders w2 \<and> find_operation (cl_operationId c) w3 = Some (f operation)"
proof -
  have found: "find (\<lambda>x. op_id x = cl_operationId c) (operations w2) = Some operation"
    and own: "op_version operation = cl_version c" "op_leaseToken operation = Some (cl_leaseToken c)"
    using assms(1,3) by (auto simp: find_operation_def elim!: owned_operation_Inr)
  have "find (\<lambda>x. op_id x = op_id operation \<and> op_version x = cl_version c \<and> op_leaseToken x = Some (cl_leaseToken c))
      (operations w2) = Some operation"
    by (rule find_strengthen [OF found]) (use own find_Some_D [OF found] in auto)
  moreover have "find_operation (cl_operationId c) w2 = Some operation"
    using found by (simp add: find_operation_def)
  ultimately show ?thesis
    using assms(2) find_operation_upd [OF _ _ assms(4), of "cl_operationId c" w2 operation] own
    by (auto simp: update_operation_def tb_operations.update_row_Inr find_operation_def)
qed

text \<open>The rows, and the reading of the clock, with which a dispatch hands out the creation of a payment.\<close>

lemma dispatch_CREATE:
  assumes "beginProviderDispatch e c w = Inr (PREPARED p, w')" "pr_action p = CREATE"
  obtains operation ord k rq where "find_operation (cl_operationId c) w = Some operation"
    "find_order (op_orderId operation) w = Some ord" "paymentsEnabled e" "o_status ord = O_PENDING"
    "clock e k < o_checkoutExpiresAt ord"
    "capacity_matches (find_account (o_workspaceId ord) w) (find_command (o_capacityCommandId ord) w) ord"
    "renewal_matches (find_renewal (o_workspaceId ord) w) ord" "\<not> truthy (payment_id_of operation ord)"
    "\<forall>f. op_firstDispatchAt operation = Some f \<longrightarrow> clock e k - f < PROVIDER_WINDOW_MS"
    "create_request_of operation ord = Inr rq" "pr_request p = Some rq" "pr_idempotencyKey p = o_providerIdempotencyKey ord"
    "pr_firstDispatchAt p = Some (toISOString (case op_firstDispatchAt operation of None \<Rightarrow> clock e k | Some f \<Rightarrow> f))"
    "orders w' = orders w"
    "find_operation (cl_operationId c) w' = Some (dispatch_operation (case op_firstDispatchAt operation of None \<Rightarrow> clock e k | Some f \<Rightarrow> f) operation)"
proof -
  obtain i j where run: "dispatch_tx e c (w\<lparr>tick := i, fresh := j\<rparr>) = Inr (PREPARED p, w')"
    using assms(1) by (auto simp: beginProviderDispatch_def)
  then obtain operation ord w1 q where own: "owned_operation e c (w\<lparr>tick := i, fresh := j\<rparr>) = Inr ((operation, ord), w1)"
    and q: "prepared_of operation ord = Inr q" "pr_action q = CREATE"
    and create: "dispatch_create e operation ord c w1 = Inr (PREPARED p, w')"
    using assms(2) by (auto simp: dispatch_tx_def split: if_splits)
  from own have found: "find_operation (cl_operationId c) w = Some operation" "find_order (op_orderId operation) w = Some ord"
    and w1: "w1 = w\<lparr>tick := i + 1, fresh := j\<rparr>"
    by (auto elim!: owned_operation_Inr)
  let ?first = "case op_firstDispatchAt operation of None \<Rightarrow> clock e (i + 1) | Some f \<Rightarrow> f"
  have new: "\<not> truthy (payment_id_of operation ord)"
    using q by (auto simp: prepared_of_def sbind_Inr prepared_action_def split: option.splits if_splits)
  have guards: "paymentsEnabled e \<and> o_status ord = O_PENDING \<and> clock e (i + 1) < o_checkoutExpiresAt ord
      \<and> capacity_matches (find_account (o_workspaceId ord) w) (find_command (o_capacityCommandId ord) w) ord
      \<and> renewal_matches (find_renewal (o_workspaceId ord) w) ord
      \<and> (\<forall>f. op_firstDispatchAt operation = Some f \<longrightarrow> clock e (i + 1) - f < PROVIDER_WINDOW_MS)"
    using create unfolding w1
    by (auto simp: dispatch_create_def dispatch_refused_def new_date_def split: if_splits option.splits)
  have "\<not> (case op_firstDispatchAt operation of None \<Rightarrow> False | Some f \<Rightarrow> clock e (i + 1) - f \<ge> PROVIDER_WINDOW_MS)"
    using guards by (auto split: option.split)
  then obtain x current where u: "update_operation (\<lambda>x. op_id x = op_id operation \<and> op_version x = cl_version c
        \<and> op_leaseToken x = Some (cl_leaseToken c)) (dispatch_operation ?first) (w\<lparr>fresh := j, tick := i + 2\<rparr>) = Inr (x, w')"
    and cur: "find_order (op_orderId x) w' = Some current" and p: "prepared_of x current = Inr p"
    using create guards unfolding w1
    by (auto simp: dispatch_create_def new_date_def cong: option.case_cong)
  have x: "x = dispatch_operation ?first operation" and orders: "orders w' = orders w"
    and row: "find_operation (cl_operationId c) w' = Some (dispatch_operation ?first operation)"
    using owned_update [OF own u] by (simp_all add: dispatch_operation_def)
  have "current = ord"
    using x cur orders found(2) by (simp add: find_order_def dispatch_operation_def)
  moreover have "create_request_of x ord = create_request_of operation ord" "op_firstDispatchAt x = Some ?first"
    by (simp_all add: x create_request_of_def dispatch_operation_def)
  ultimately obtain rq where "create_request_of operation ord = Inr rq" "pr_request p = Some rq"
      "pr_idempotencyKey p = o_providerIdempotencyKey ord" "pr_firstDispatchAt p = Some (toISOString ?first)"
    using p assms(2) by (auto simp: prepared_of_def sbind_Inr split: option.splits if_splits)
  then show thesis
    using guards new orders row by (intro that [OF found]) auto
qed

text \<open>
  The creation of a payment is handed to the provider only while payments are enabled, the order is
  pending and not expired, the capacity fence of its command stands, a recurring order still matches its
  active renewal, no payment id is known, and the first dispatch was less than 23 hours ago.
\<close>

theorem create_dispatch_authorised:
  assumes "beginProviderDispatch e c w = Inr (PREPARED p, w')" "pr_action p = CREATE"
  shows "\<exists>operation ord k. find_operation (cl_operationId c) w = Some operation
    \<and> find_order (op_orderId operation) w = Some ord \<and> paymentsEnabled e
    \<and> o_status ord = O_PENDING \<and> clock e k < o_checkoutExpiresAt ord
    \<and> capacity_matches (find_account (o_workspaceId ord) w) (find_command (o_capacityCommandId ord) w) ord
    \<and> renewal_matches (find_renewal (o_workspaceId ord) w) ord
    \<and> \<not> truthy (payment_id_of operation ord)
    \<and> (\<forall>f. op_firstDispatchAt operation = Some f \<longrightarrow> clock e k - f < PROVIDER_WINDOW_MS)"
  by (rule dispatch_CREATE [OF assms]) blast

lemma sample_prepared:
  assumes "op_requestSnapshot x = op_requestSnapshot sample_operation" "op_kind x = CREATE" "op_providerPaymentId x = None"
  shows "\<exists>p. prepared_of x sample_order = Inr p \<and> pr_action p = CREATE"
proof -
  have "op_requestSnapshot x = request_snapshot sample_order CREATE (Some sample_return_url) None"
    using assms(1) by (simp add: sample_operation_def new_operation_def)
  moreover have "commerceText (JStr sample_return_url) 2048"
    by (rule ascii_text) (simp_all add: sample_return_url_def js_def)
  ultimately show ?thesis
    using assms(2,3) sample_decimal
    by (simp add: prepared_of_def snapshot_bound_def request_snapshot_def Let_def prepared_action_def payment_id_of_def
        truthy_def create_request_of_def opt_js_def)
qed

definition dispatched_db :: db where
  "dispatched_db = claimed_db\<lparr>tick := 7,
     operations := [dispatch_operation 1700000006000 (lease_operation (sample_uuid 4) 1700000064000 sample_operation)]\<rparr>"

lemma sample_dispatch_run:
  "\<exists>p. beginProviderDispatch sample_env sample_claim claimed_db = Inr (PREPARED p, dispatched_db) \<and> pr_action p = CREATE"
proof -
  let ?op = "lease_operation (sample_uuid 4) 1700000064000 sample_operation"
  obtain p where p: "prepared_of ?op sample_order = Inr p" "pr_action p = CREATE"
    using sample_prepared [of ?op] by (auto simp: lease_operation_def)
  obtain q where q: "prepared_of (dispatch_operation 1700000006000 ?op) sample_order = Inr q" "pr_action q = CREATE"
    using sample_prepared [of "dispatch_operation 1700000006000 ?op"]
    by (auto simp: lease_operation_def dispatch_operation_def)
  have order: "o_capacityFence sample_order = sample_fence" "o_ownerSubject sample_order = js ''owner''"
    "o_checkoutExpiresAt sample_order = 1700003600000"
    by (simp_all add: sample_order_def checkout_order_def Let_def)
  have "capacity_matches (find_account ws claimed_db) (find_command (sample_uuid 900) claimed_db) sample_order" for ws
    by (simp add: capacity_matches_def find_command_def sample_command_def order opt_js_def)
  then have "dispatch_create sample_env ?op sample_order sample_claim (claimed_db\<lparr>tick := 6\<rparr>)
      = Inr (PREPARED q, dispatched_db)"
    using q(1)
    by (simp add: dispatched_db_def dispatch_create_def new_date_def order renewal_matches_def tx_simps update_operation_def update_row_def
        upd_rows_def find_order_def lease_operation_def dispatch_operation_def)
  then show ?thesis
    using p q(2) by (simp add: beginProviderDispatch_def dispatch_tx_def owned_run tx_simps find_operation_def lease_operation_def)
qed

theorem create_dispatch_authorised_witness:
  "\<exists>p w'. beginProviderDispatch sample_env sample_claim claimed_db = Inr (PREPARED p, w') \<and> paymentsEnabled sample_env
     \<and> o_status sample_order = O_PENDING"
proof -
  obtain p w' where run: "beginProviderDispatch sample_env sample_claim claimed_db = Inr (PREPARED p, w')"
    and p: "pr_action p = CREATE"
    using sample_dispatch_run by blast
  from create_dispatch_authorised [OF run p] show ?thesis
    using run by auto
qed

section \<open>The holder of a claim\<close>

text \<open>The operation is in process under the claim, and the lease ends at the given time.\<close>

definition held :: "claim \<Rightarrow> date \<Rightarrow> operation_row \<Rightarrow> bool" where
  "held c until x \<longleftrightarrow> op_status x = P_PROCESSING \<and> op_version x = cl_version c \<and> op_leaseToken x = Some (cl_leaseToken c)
     \<and> op_pendingEventId x = cl_eventId c \<and> op_leaseUntil x = Some until"

lemma held_columns: "claim_columns y = claim_columns x \<Longrightarrow> held c until y = held c until x"
  by (simp add: held_def claim_columns_def)

lemma held_moves: "held c until x \<Longrightarrow> op_moves x y \<Longrightarrow> held c until y \<or> cl_version c < op_version y"
  using held_columns [of y x] by (auto simp: op_moves_def held_def)

lemma held_dispatched [simp]: "held c until (dispatch_operation f x) = held c until x"
  by (simp add: held_def dispatch_operation_def)

lemma claim_held:
  assumes "claimProviderOperation e event w = Inr (CLAIMED c, w')"
  obtains x k where "find_operation (cl_operationId c) w' = Some x" "held c (clock e k + LEASE_MS) x" "tick w \<le> k" "k < tick w'"
  by (rule claim_CLAIMED [OF assms]) (rule that, assumption, simp_all add: held_def lease_operation_def)

lemma dispatch_held:
  assumes run: "beginProviderDispatch e c w = Inr (PREPARED p, w')"
    and x: "find_operation (cl_operationId c) w = Some x" "held c until x"
  shows "\<exists>y. find_operation (cl_operationId c) w' = Some y \<and> held c until y"
proof -
  obtain i j where tx: "dispatch_tx e c (w\<lparr>tick := i, fresh := j\<rparr>) = Inr (PREPARED p, w')"
    using run by (auto simp: beginProviderDispatch_def)
  then obtain operation ord q w1 where own: "owned_operation e c (w\<lparr>tick := i, fresh := j\<rparr>) = Inr ((operation, ord), w1)"
    and rest: "(if pr_action q \<noteq> CREATE then ret (PREPARED q) else dispatch_create e operation ord c) w1 = Inr (PREPARED p, w')"
    by (auto simp: dispatch_tx_def split del: if_split)
  have op: "operation = x" and w1: "w1 = w\<lparr>tick := i + 1, fresh := j\<rparr>"
    using own x by (auto elim!: owned_operation_Inr)
  show ?thesis
  proof (cases "pr_action q = CREATE")
    case True
    then obtain f y v where u: "update_operation (\<lambda>x. op_id x = op_id operation \<and> op_version x = cl_version c
          \<and> op_leaseToken x = Some (cl_leaseToken c)) (dispatch_operation f) (w\<lparr>fresh := j, tick := i + 2\<rparr>) = Inr (y, w')"
      using rest unfolding w1 by (auto simp: dispatch_create_def dispatch_refused_def new_date_def split: if_splits)
    from owned_update [OF own u] show ?thesis
      using x op by (simp add: dispatch_operation_def held_def)
  next
    case False
    then show ?thesis
      using rest x w1 by auto
  qed
qed

text \<open>
  How a lease ends: its holder settles or fails the operation, or learns at the dispatch that there is
  nothing to do any more, or another claim reads the clock at or past the end of the lease and counts its
  own lease from this reading.
\<close>

definition claimed_after :: "env \<Rightarrow> jsstring \<Rightarrow> date \<Rightarrow> db \<Rightarrow> claim \<Rightarrow> db \<Rightarrow> bool" where
  "claimed_after e i until w c2 w' \<longleftrightarrow> (\<exists>n y. tick w \<le> n \<and> n < tick w' \<and> until \<le> clock e n
     \<and> find_operation i w' = Some y \<and> held c2 (clock e n + LEASE_MS) y)"

definition lease_ends :: "env \<Rightarrow> claim \<Rightarrow> date \<Rightarrow> db \<Rightarrow> db \<Rightarrow> bool" where
  "lease_ends e c until w w' \<longleftrightarrow>
     beginProviderDispatch e c w = Inr (SKIP, w')
     \<or> (\<exists>value. settleProviderOperation e c value w = Inr ((), w'))
     \<or> (\<exists>failed. failProviderOperation e c failed w = Inr ((), w'))
     \<or> (\<exists>event c2. claimProviderOperation e event w = Inr (CLAIMED c2, w') \<and> claimed_after e (cl_operationId c) until w c2 w')"

lemma claim_again:
  assumes run: "claimProviderOperation e event w = Inr (CLAIMED c2, w')" and "cl_operationId c2 = i"
    and "find_operation i w = Some x" "op_status x = P_PROCESSING" "op_leaseUntil x = Some until"
  shows "claimed_after e i until w c2 w'"
  by (rule claim_CLAIMED [OF run, of until])
    (use assms in \<open>fastforce simp: claimed_after_def held_def lease_operation_def\<close>)

lemma retry_processing:
  assumes "retryProviderOperation e i dto actor w = Inr (r, w')" "find_operation i w = Some x" "op_status x = P_PROCESSING"
  shows "operations w' = operations w"
proof -
  obtain h k j where "retry_tx e i dto actor h (w\<lparr>tick := k, fresh := j\<rparr>) = Inr (r, w')"
    using assms(1) by (auto simp: retryProviderOperation_def)
  then show ?thesis
    using assms(2,3) by (auto simp: retry_tx_def load_operation_def split: option.splits)
qed

lemma claim_idle:
  assumes "claim_tx e oid ev h w = Inr (r, w')"
  shows "(\<exists>c. r = CLAIMED c) \<or> operations w' = operations w"
  using assms unfolding claim_tx_def
  apply (elim bnd_InrE thn_InrE)
  apply (simp only: gets_Inr the_or_Inr check_Inr)
  apply (elim conjE)
  apply hypsubst
  apply (split if_split_asm)
   apply simp
  apply (elim bnd_InrE thn_InrE)
  apply (split if_split_asm)
   apply (elim bnd_InrE thn_InrE)
   apply (clarsimp simp: new_date_def randomUUID_def dest!: upsert_delivery_frame)
  apply (split if_split_asm)
   apply (clarsimp simp: new_date_def)
  apply (clarsimp simp: Let_def)
  done

lemma claim_other:
  assumes "claimProviderOperation e event w = Inr (r, w')"
  shows "same_claim i w w' \<or> (\<exists>c. r = CLAIMED c \<and> cl_operationId c = i)"
proof -
  obtain oid ev h k j where run: "claim_tx e oid ev h (w\<lparr>tick := k, fresh := j\<rparr>) = Inr (r, w')"
    using assms by (auto simp: claimProviderOperation_def)
  show ?thesis
  proof (cases r)
    case (CLAIMED c)
    then have "cl_operationId c = oid"
      using run by (auto elim: claim_tx_CLAIMED)
    then show ?thesis
      using CLAIMED stepsD [OF other_claim_tx run] by (cases "oid = i") (auto simp: same_claim_def find_operation_def)
  qed (use claim_idle [OF run] in \<open>simp_all add: same_claim_def find_operation_def\<close>)
qed

lemma owned_holder:
  assumes "owned_operation e c2 (w\<lparr>tick := k, fresh := j\<rparr>) = Inr y" "cl_operationId c2 = cl_operationId c"
    and "find_operation (cl_operationId c) w = Some x" "held c until x"
  shows "c2 = c"
  using assms by (cases y; cases c; cases c2) (auto simp: held_def elim!: owned_operation_Inr)

lemma lease_step:
  assumes step: "service_step e w w'" and x: "find_operation (cl_operationId c) w = Some x" "held c until x"
  shows "(\<exists>y. find_operation (cl_operationId c) w' = Some y \<and> held c until y) \<or> lease_ends e c until w w'"
proof -
  have same: ?thesis if kept: "same_claim (cl_operationId c) w w'"
  proof -
    obtain y where y: "find_operation (cl_operationId c) w' = Some y" "claim_columns y = claim_columns x"
      using kept x(1) unfolding same_claim_def by blast
    show ?thesis
      using y(1) held_columns [OF y(2)] x(2) by simp
  qed
  have holder: "c2 = c \<or> same_claim (cl_operationId c) w w'"
    if "run w = Inr (r, w')" "cl_operationId c2 \<noteq> cl_operationId c \<Longrightarrow> steps (same_claim (cl_operationId c)) run"
      "\<exists>k j y. owned_operation e c2 (w\<lparr>tick := k, fresh := j\<rparr>) = Inr y"
    for c2 r and run :: "'b op"
    using stepsD [OF that(2) that(1)] owned_holder [OF _ _ x] that(3) by (cases "cl_operationId c2 = cl_operationId c") metis+
  show ?thesis
    using same_claim.entry_step [OF step, of "cl_operationId c"]
  proof (elim disjE exE)
    fix event r
    assume run: "claimProviderOperation e event w = Inr (r, w')"
    show ?thesis
      using claim_other [OF run, of "cl_operationId c"]
    proof
      assume "\<exists>c2. r = CLAIMED c2 \<and> cl_operationId c2 = cl_operationId c"
      then obtain c2 where c2: "r = CLAIMED c2" "cl_operationId c2 = cl_operationId c"
        by blast
      have "claimed_after e (cl_operationId c) until w c2 w'"
        by (rule claim_again [OF run [unfolded c2(1)] c2(2) x(1)]) (use x(2) in \<open>simp_all add: held_def\<close>)
      then show ?thesis
        using run c2 by (auto simp: lease_ends_def)
    qed (rule same)
  next
    fix c2 r
    assume run: "beginProviderDispatch e c2 w = Inr (r, w')"
    have "c2 = c \<or> same_claim (cl_operationId c) w w'"
      by (rule holder [OF run other_dispatch], assumption) (rule dispatch_owned [OF run], blast)
    then show ?thesis
      using same dispatch_held [OF _ x] run by (cases r) (auto simp: lease_ends_def)
  next
    fix c2 v r
    assume run: "settleProviderOperation e c2 v w = Inr (r, w')"
    have "c2 = c \<or> same_claim (cl_operationId c) w w'"
      by (rule holder [OF run other_settle], assumption) (rule settle_owned [OF run], blast)
    then show ?thesis
      using same run by (auto simp: lease_ends_def)
  next
    fix c2 failed r
    assume run: "failProviderOperation e c2 failed w = Inr (r, w')"
    have "c2 = c \<or> same_claim (cl_operationId c) w w'"
      by (rule holder [OF run other_fail], assumption) (rule fail_owned [OF run], blast)
    then show ?thesis
      using same run by (auto simp: lease_ends_def)
  next
    fix oid dto actor r
    assume run: "retryProviderOperation e oid dto actor w = Inr (r, w')"
    show ?thesis
    proof (cases "oid = cl_operationId c")
      case True
      then show ?thesis
        using retry_processing [of e oid dto actor w r w' x] run x
        by (intro same same_claim_operations) (simp add: held_def)
    next
      case False
      then show ?thesis
        by (rule same [OF stepsD [OF other_retry run]])
    qed
  qed (rule same)
qed

text \<open>
  C25. A claim holds its operation for one minute from a reading of the clock during the call: the
  operation is in process under the claim's token, version and event. It stays so along all later calls of
  the service, the dispatch of its request included, until its version moves on; and the only calls that
  end it are the holder's own (a dispatch that finds nothing to do, a settlement, a failure) and another
  claim that has read the clock at or past the end of the lease. Whatever has happened to the operation
  since, as long as it is in process with that end of the lease, another claim succeeds only after such a
  reading, and its own lease counts from it.
\<close>

theorem claim_exclusive:
  assumes "claimProviderOperation e event w = Inr (CLAIMED c, w')"
  shows "\<exists>operation k. find_operation (cl_operationId c) w' = Some operation \<and> held c (clock e k + LEASE_MS) operation
    \<and> tick w \<le> k \<and> k < tick w'
    \<and> (\<forall>w2. (service_step e)\<^sup>*\<^sup>* w' w2 \<longrightarrow> (\<exists>x. find_operation (cl_operationId c) w2 = Some x
        \<and> (held c (clock e k + LEASE_MS) x \<or> cl_version c < op_version x)))
    \<and> (\<forall>w2 p w3. (service_step e)\<^sup>*\<^sup>* w' w2 \<and> beginProviderDispatch e c w2 = Inr (PREPARED p, w3)
        \<longrightarrow> (\<exists>x. find_operation (cl_operationId c) w3 = Some x \<and> held c (clock e k + LEASE_MS) x))
    \<and> (\<forall>w2 x w3. find_operation (cl_operationId c) w2 = Some x \<and> held c (clock e k + LEASE_MS) x \<and> service_step e w2 w3
        \<longrightarrow> (\<exists>y. find_operation (cl_operationId c) w3 = Some y \<and> held c (clock e k + LEASE_MS) y)
            \<or> lease_ends e c (clock e k + LEASE_MS) w2 w3)
    \<and> (\<forall>w2 x event2 c2 w3. find_operation (cl_operationId c) w2 = Some x
        \<and> op_status x = P_PROCESSING \<and> op_leaseUntil x = Some (clock e k + LEASE_MS)
        \<and> claimProviderOperation e event2 w2 = Inr (CLAIMED c2, w3) \<and> cl_operationId c2 = cl_operationId c
        \<longrightarrow> claimed_after e (cl_operationId c) (clock e k + LEASE_MS) w2 c2 w3)"
proof -
  obtain operation k where claim: "find_operation (cl_operationId c) w' = Some operation"
    "held c (clock e k + LEASE_MS) operation" "tick w \<le> k" "k < tick w'"
    by (rule claim_held [OF assms])
  have later: "\<exists>x. find_operation (cl_operationId c) w2 = Some x \<and> (held c (clock e k + LEASE_MS) x \<or> cl_version c < op_version x)"
    if run: "(service_step e)\<^sup>*\<^sup>* w' w2" for w2
  proof -
    obtain x where "find_operation (cl_operationId c) w2 = Some x" "op_moves operation x"
      using claims.row_services [OF run] claim(1) unfolding claims_kept_def by blast
    then show ?thesis
      using held_moves [OF claim(2)] by blast
  qed
  have dispatched: "\<exists>x. find_operation (cl_operationId c) w3 = Some x \<and> held c (clock e k + LEASE_MS) x"
    if run: "(service_step e)\<^sup>*\<^sup>* w' w2" "beginProviderDispatch e c w2 = Inr (PREPARED p, w3)" for w2 p w3
  proof -
    obtain x where x: "find_operation (cl_operationId c) w2 = Some x" "held c (clock e k + LEASE_MS) x \<or> cl_version c < op_version x"
      using later [OF run(1)] by blast
    moreover have "op_version x = cl_version c"
      by (rule dispatch_owned [OF run(2)]) (rule owned_token(2) [OF _ x(1)])
    ultimately show ?thesis
      by (intro dispatch_held [OF run(2)]) auto
  qed
  show ?thesis
  proof (rule exI [of _ operation], rule exI [of _ k], intro conjI allI impI; (elim conjE)?)
    fix w2 x w3
    assume "find_operation (cl_operationId c) w2 = Some x" "held c (clock e k + LEASE_MS) x" "service_step e w2 w3"
    then show "(\<exists>y. find_operation (cl_operationId c) w3 = Some y \<and> held c (clock e k + LEASE_MS) y)
        \<or> lease_ends e c (clock e k + LEASE_MS) w2 w3"
      by (rule lease_step [rotated])
  qed (use claim in \<open>simp_all add: later dispatched claim_again\<close>)
qed

text \<open>
  The sample claim is dispatched three seconds later; a minute after that its lease has ended, and the
  operation is claimed again.
\<close>

definition expired_db :: db where
  "expired_db = dispatched_db\<lparr>tick := 70\<rparr>"

definition second_claim :: claim where
  "second_claim = \<lparr>cl_operationId = sample_uuid 1, cl_eventId = sample_uuid 2, cl_leaseToken = sample_uuid 6, cl_version = 3\<rparr>"

lemma second_claim_run:
  "\<exists>w3. claimProviderOperation sample_env sample_event expired_db = Inr (CLAIMED second_claim, w3)"
  by (simp add: claimProviderOperation_def sample_event_ok sample_event_hash claim_tx_def finished_def LEASE_MS_def
      expired_db_def dispatched_db_def claimed_db_def second_claim_def lease_operation_def dispatch_operation_def
      sample_delivery_def new_delivery_def is_delivery_def upd_rows_def prisma_defs)

theorem claim_exclusive_witness:
  "\<exists>k x p w3. find_operation (sample_uuid 1) claimed_db = Some x \<and> held sample_claim (clock sample_env k + LEASE_MS) x
     \<and> beginProviderDispatch sample_env sample_claim claimed_db = Inr (PREPARED p, dispatched_db)
     \<and> (\<exists>y. find_operation (sample_uuid 1) dispatched_db = Some y \<and> held sample_claim (clock sample_env k + LEASE_MS) y)
     \<and> claimProviderOperation sample_env sample_event expired_db = Inr (CLAIMED second_claim, w3)
     \<and> claimed_after sample_env (sample_uuid 1) (clock sample_env k + LEASE_MS) expired_db second_claim w3"
proof -
  let ?i = "cl_operationId sample_claim"
  obtain x k where k: "find_operation ?i claimed_db = Some x" "held sample_claim (clock sample_env k + LEASE_MS) x"
    and dispatched: "\<forall>w2 p w3. (service_step sample_env)\<^sup>*\<^sup>* claimed_db w2
        \<and> beginProviderDispatch sample_env sample_claim w2 = Inr (PREPARED p, w3)
        \<longrightarrow> (\<exists>x. find_operation ?i w3 = Some x \<and> held sample_claim (clock sample_env k + LEASE_MS) x)"
    and again: "\<forall>w2 x event2 c2 w3. find_operation ?i w2 = Some x \<and> op_status x = P_PROCESSING
        \<and> op_leaseUntil x = Some (clock sample_env k + LEASE_MS)
        \<and> claimProviderOperation sample_env event2 w2 = Inr (CLAIMED c2, w3) \<and> cl_operationId c2 = ?i
        \<longrightarrow> claimed_after sample_env ?i (clock sample_env k + LEASE_MS) w2 c2 w3"
    using claim_exclusive [OF claim_run] by (elim exE conjE) (rule that; assumption)
  have i: "?i = sample_uuid 1" "cl_operationId second_claim = sample_uuid 1"
    by (simp_all add: sample_claim_def second_claim_def)
  obtain p where p: "beginProviderDispatch sample_env sample_claim claimed_db = Inr (PREPARED p, dispatched_db)"
    using sample_dispatch_run by blast
  obtain w3 where w3: "claimProviderOperation sample_env sample_event expired_db = Inr (CLAIMED second_claim, w3)"
    using second_claim_run by blast
  obtain y where y: "find_operation ?i dispatched_db = Some y" "held sample_claim (clock sample_env k + LEASE_MS) y"
    using dispatched p by blast
  have "find_operation ?i expired_db = Some y" "op_status y = P_PROCESSING" "op_leaseUntil y = Some (clock sample_env k + LEASE_MS)"
    using y by (simp_all add: held_def expired_db_def find_operation_def)
  then have "claimed_after sample_env ?i (clock sample_env k + LEASE_MS) expired_db second_claim w3"
    using again w3 i by metis
  then show ?thesis
    using k p w3 y unfolding i by blast
qed

text \<open>The claim is refused: no call under it commits anything.\<close>

definition refused :: "env \<Rightarrow> claim \<Rightarrow> db \<Rightarrow> bool" where
  "refused e c w \<longleftrightarrow> (\<exists>x. prepareProviderOperation e c w = Inl x) \<and> (\<exists>x. beginProviderDispatch e c w = Inl x)
     \<and> (\<forall>value. \<exists>x. settleProviderOperation e c value w = Inl x) \<and> (\<forall>failed. \<exists>x. failProviderOperation e c failed w = Inl x)"

lemma prepare_owned:
  assumes "prepareProviderOperation e c w = Inr (r, w')"
  obtains k j x where "owned_operation e c (w\<lparr>tick := k, fresh := j\<rparr>) = Inr x"
proof -
  obtain x ord w1 where "find_operation (cl_operationId c) w = Some x" "find_order (op_orderId x) w = Some ord"
    "ownsLease e x c w = Inr (True, w1)"
    using assms by (auto simp: prepareProviderOperation_def)
  then have "owned_operation e c (w\<lparr>tick := tick w, fresh := fresh w\<rparr>) = Inr ((x, ord), w1)"
    by (simp add: owned_operation_def load_operation_def tx_simps)
  then show thesis
    by (rule that)
qed

lemma not_owned_refused:
  assumes "find_operation (cl_operationId c) w = Some x" "op_leaseToken x \<noteq> Some (cl_leaseToken c) \<or> op_version x \<noteq> cl_version c"
  shows "refused e c w"
proof -
  have no: "owned_operation e c (w\<lparr>tick := k, fresh := j\<rparr>) \<noteq> Inr y" for k j y
    using owned_token(1,2) [OF _ assms(1)] assms(2) by blast
  have "\<exists>x. r = Inl x" if "\<And>a b. r \<noteq> Inr (a, b)" for r :: "err + 'a \<times> db"
    using that by (metis sumE surj_pair)
  then show ?thesis
    unfolding refused_def by (metis no prepare_owned dispatch_owned settle_owned fail_owned sumE surj_pair)
qed

text \<open>
  C26. A claim whose token or version is no longer that of the operation can neither prepare nor dispatch
  nor settle nor fail it: each of these calls throws and commits nothing. And once that is so for a claim
  that was made, it stays so along all later calls of the service.
\<close>

theorem stale_claim_refused:
  assumes "find_operation (cl_operationId old) w = Some x"
    and "op_leaseToken x \<noteq> Some (cl_leaseToken old) \<or> op_version x \<noteq> cl_version old"
  shows "refused e old w
    \<and> (\<forall>e2 event w0 w1 w2. claimProviderOperation e2 event w0 = Inr (CLAIMED old, w1)
        \<and> (service_step e2)\<^sup>*\<^sup>* w1 w \<and> (service_step e2)\<^sup>*\<^sup>* w w2 \<longrightarrow> refused e old w2)"
proof (intro conjI allI impI)
  show "refused e old w"
    by (rule not_owned_refused [OF assms])
next
  fix e2 event w0 w1 w2
  assume run: "claimProviderOperation e2 event w0 = Inr (CLAIMED old, w1)
      \<and> (service_step e2)\<^sup>*\<^sup>* w1 w \<and> (service_step e2)\<^sup>*\<^sup>* w w2"
  then obtain z k where z: "find_operation (cl_operationId old) w1 = Some z" "held old (clock e2 k + LEASE_MS) z"
    by (auto elim: claim_held)
  have "claims_kept w1 w" "claims_kept w w2"
    using run claims.row_services by blast+
  then obtain y where xy: "op_moves z x" "find_operation (cl_operationId old) w2 = Some y" "op_moves x y"
    using z(1) assms(1) unfolding claims_kept_def by (metis option.inject)
  have "cl_version old < op_version x"
    using held_moves [OF z(2) xy(1)] assms(2) by (auto simp: held_def)
  then have "op_version y \<noteq> cl_version old"
    using xy(3) by (auto simp: op_moves_def claim_columns_def)
  then show "refused e old w2"
    using not_owned_refused [OF xy(2)] by blast
qed

text \<open>After the second claim the first one is refused, by its token and by its version.\<close>

theorem stale_claim_refused_witness:
  "refused sample_env (sample_claim\<lparr>cl_leaseToken := []\<rparr>) claimed_db
   \<and> refused sample_env (sample_claim\<lparr>cl_version := 1\<rparr>) claimed_db
   \<and> (\<exists>w3. claimProviderOperation sample_env sample_event expired_db = Inr (CLAIMED second_claim, w3)
        \<and> refused sample_env sample_claim w3)"
proof -
  have found: "find_operation (sample_uuid 1) claimed_db = Some (lease_operation (sample_uuid 4) 1700000064000 sample_operation)"
    by (simp add: find_operation_def)
  have token: "sample_uuid 4 \<noteq> []"
    by (simp add: sample_uuid_def js_def)
  obtain w3 where w3: "claimProviderOperation sample_env sample_event expired_db = Inr (CLAIMED second_claim, w3)"
    using second_claim_run by blast
  obtain z k where z: "find_operation (sample_uuid 1) w3 = Some z" "held second_claim (clock sample_env k + LEASE_MS) z"
    by (rule claim_held [OF w3]) (simp add: second_claim_def)
  have "refused sample_env (sample_claim\<lparr>cl_leaseToken := []\<rparr>) claimed_db"
    using stale_claim_refused [of "sample_claim\<lparr>cl_leaseToken := []\<rparr>" claimed_db _ sample_env] found token
    by (simp add: sample_claim_def lease_operation_def)
  moreover have "refused sample_env (sample_claim\<lparr>cl_version := 1\<rparr>) claimed_db"
    using stale_claim_refused [of "sample_claim\<lparr>cl_version := 1\<rparr>" claimed_db _ sample_env] found
    by (simp add: sample_claim_def lease_operation_def)
  moreover have "refused sample_env sample_claim w3"
    using stale_claim_refused [of sample_claim w3 z sample_env] z by (simp add: held_def second_claim_def sample_claim_def)
  ultimately show ?thesis
    using w3 by blast
qed

section \<open>Failures\<close>

lemma backoff_bounds: "0 \<le> n \<Longrightarrow> 5000 \<le> backoff n \<and> backoff n \<le> 300000"
  by (simp add: backoff_def)

lemma updated_operation:
  assumes "update_operation P f w = Inr (x, w')" "find_operation i w = Some operation" "P operation"
    and "\<And>y. op_id (f y) = op_id y"
  shows "find_operation i w' = Some (f operation)"
  using find_operation_upd [where P = P and f = f, OF assms(2-4)] assms(1)
  by (simp add: update_operation_def tb_operations.update_row_Inr find_operation_def)

lemma operations_kept:
  "steps (same operations) (cancelOrder e ord reason)" "steps (same operations) (update_order oid f)"
  "steps (same operations) (update_delivery P g)" "steps (same operations) (providerOutbox e i v x t d)"
  unfolding cancelOrder_def cancel_recurring_def
  by (intro steps_intro; simp)+

lemma finish_operations:
  assumes "finish e i c status error w = Inr (x, w')" "find_operation i w = Some operation"
    and "op_status operation = P_PROCESSING" "op_version operation = cl_version c"
    and "op_leaseToken operation = Some (cl_leaseToken c)"
  shows "find_operation i w' = Some (finish_operation status error operation)"
proof -
  have i: "op_id operation = i"
    using assms(2) unfolding find_operation_def by (drule_tac find_Some_D) simp
  obtain n w1 where many: "updateMany_operation (\<lambda>x. op_id x = i \<and> op_status x = P_PROCESSING
        \<and> op_version x = cl_version c \<and> op_leaseToken x = Some (cl_leaseToken c)) (finish_operation status error) w = Inr (n, w1)"
    and "operations w' = operations w1"
    using assms(1) unfolding finish_def
    by (auto split: if_splits simp: randomUUID_def new_date_def dest!: stepsD [OF operations_kept(3)] stepsD [OF operations_kept(4)] sameD)
  then show ?thesis
    using find_operation_upd [OF assms(2), of "\<lambda>x. op_id x = i \<and> op_status x = P_PROCESSING
        \<and> op_version x = cl_version c \<and> op_leaseToken x = Some (cl_leaseToken c)" "finish_operation status error"] assms i
    by (simp add: updateMany_operation_def tb_operations.update_many_Inr find_operation_def finish_operation_def)
qed

lemma fail_retry_operations:
  assumes "fail_retry e operation c pid code w = Inr (x, w')" "find_operation (op_id operation) w = Some operation"
    and "op_leaseToken operation = Some (cl_leaseToken c)"
  obtains eventId outboxId k where "find_operation (op_id operation) w' =
      Some ((requeue_operation eventId outboxId (clock e k + backoff (op_retryAttempt operation)) (Some (js code)) operation)
        \<lparr>op_providerPaymentId := pid\<rparr>)"
proof -
  obtain ev out k w1 w2 y where u: "update_operation (\<lambda>x. op_id x = op_id operation \<and> op_leaseToken x = Some (cl_leaseToken c))
      (\<lambda>x. (requeue_operation ev out (clock e k + backoff (op_retryAttempt operation)) (Some (js code)) x)
        \<lparr>op_providerPaymentId := pid\<rparr>) w1 = Inr (y, w2)"
    and ops: "operations w1 = operations w" "operations w' = operations w2"
    using assms(1) unfolding fail_retry_def
    by (auto simp: randomUUID_def new_date_def Let_def
        dest!: stepsD [OF operations_kept(3)] stepsD [OF operations_kept(4)] sameD; fastforce)
  have w1: "find_operation (op_id operation) w1 = Some operation"
    using assms(2) ops by (simp add: find_operation_def)
  show thesis
    using updated_operation [OF u w1] assms(3) ops(2) that by (simp add: requeue_operation_def find_operation_def)
qed

lemma fail_final_operations:
  assumes "fail_final e operation ord c pid amb code w = Inr (x, w')" "find_operation (op_id operation) w = Some operation"
    and "op_status operation = P_PROCESSING" "op_version operation = cl_version c"
    and "op_leaseToken operation = Some (cl_leaseToken c)"
  shows "\<exists>y. find_operation (op_id operation) w' = Some y \<and> op_status y = (if amb then P_UNKNOWN else P_FAILED)"
proof -
  define first where "first = (if truthy pid \<and> \<not> truthy (op_providerPaymentId operation)
      then operation\<lparr>op_providerPaymentId := pid\<rparr> else operation)"
  obtain w1 w2 where w1: "find_operation (op_id operation) w1 = Some first" and w2: "operations w2 = operations w1"
    and fin: "finish e (op_id operation) c (if amb then P_UNKNOWN else P_FAILED) (Some (js code)) w2 = Inr (x, w')"
  proof -
    obtain a w1 b w2 where m1: "(if truthy pid \<and> \<not> truthy (op_providerPaymentId operation)
          then thn (update_operation (\<lambda>x. op_id x = op_id operation \<and> op_leaseToken x = Some (cl_leaseToken c))
            (\<lambda>x. x\<lparr>op_providerPaymentId := pid\<rparr>)) (ret ())
          else ret ()) w = Inr (a, w1)"
      and m2: "(if op_kind operation = CREATE \<and> o_status ord \<noteq> O_SUCCEEDED
           then if amb \<or> truthy pid
             then thn (update_order (op_orderId operation) unknown_order) (ret ())
             else cancelOrder e ord (js code)
           else ret ()) w1 = Inr (b, w2)"
      and fin: "finish e (op_id operation) c (if amb then P_UNKNOWN else P_FAILED) (Some (js code)) w2 = Inr (x, w')"
      using assms(1) unfolding fail_final_def by (elim thn_InrE) blast
    have "find_operation (op_id operation) w1 = Some first"
      using m1 assms(2,5) updated_operation [of "\<lambda>x. op_id x = op_id operation \<and> op_leaseToken x = Some (cl_leaseToken c)"
          "\<lambda>x. x\<lparr>op_providerPaymentId := pid\<rparr>" w _ w1 "op_id operation" operation]
      by (auto simp: first_def split: if_splits)
    moreover have "operations w2 = operations w1"
      using m2 by (auto split: if_splits dest!: stepsD [OF operations_kept(1)] stepsD [OF operations_kept(2)] sameD)
    ultimately show thesis
      using that fin by blast
  qed
  have w2f: "find_operation (op_id operation) w2 = Some first"
    using w1 w2 by (simp add: find_operation_def)
  have "op_status first = P_PROCESSING" "op_version first = cl_version c" "op_leaseToken first = Some (cl_leaseToken c)"
    using assms(3-5) by (simp_all add: first_def)
  from finish_operations [OF fin w2f this] show ?thesis
    by (simp add: finish_operation_def)
qed

text \<open>What the transaction does after the checks: retry or end, from the claimed state.\<close>

lemma fail_tx_branches:
  assumes run: "fail_tx e c failed (w\<lparr>tick := i, fresh := j\<rparr>) = Inr (r, w')"
    and found: "find_operation (cl_operationId c) w = Some operation"
  obtains ord w1 pid where "owned_operation e c (w\<lparr>tick := i, fresh := j\<rparr>) = Inr ((operation, ord), w1)"
    and "(\<exists>w2. operations w2 = operations w1 \<and> fail_retry e operation c pid (fl_code failed) w2 = Inr (r, w'))
      \<or> (\<exists>w2. operations w2 = operations w1 \<and> fail_final e operation ord c pid
          (fl_ambiguous failed \<or> op_firstDispatchAt operation \<noteq> None) (fl_code failed) w2 = Inr (r, w'))"
proof -
  obtain x ord w1 where own: "owned_operation e c (w\<lparr>tick := i, fresh := j\<rparr>) = Inr ((x, ord), w1)"
    using run by (auto simp: fail_tx_def)
  then have x: "x = operation"
    using found by (auto elim!: owned_operation_Inr)
  define pid where "pid = (if providerId (fl_providerPaymentId failed) then Some (as_str (fl_providerPaymentId failed))
    else case op_providerPaymentId operation of Some p \<Rightarrow> Some p | None \<Rightarrow> o_providerPaymentId ord)"
  obtain b w2 where b: "(case op_firstDispatchAt operation of None \<Rightarrow> ret False
      | Some f \<Rightarrow> bnd (new_date e) (\<lambda>now. ret (now - f \<ge> PROVIDER_WINDOW_MS))) w1 = Inr (b, w2)"
    and branch: "(if fl_retryable failed \<and> (truthy pid \<or> op_kind operation \<noteq> CREATE \<or> \<not> b)
      then fail_retry e operation c pid (fl_code failed)
      else fail_final e operation ord c pid (fl_ambiguous failed \<or> op_firstDispatchAt operation \<noteq> None)
        (fl_code failed)) w2 = Inr (r, w')"
    using run own unfolding x fail_tx_def Let_def pid_def by (auto split del: if_split)
  have "operations w2 = operations w1"
    using b by (auto simp: new_date_def split: option.splits)
  then have "(\<exists>w2. operations w2 = operations w1 \<and> fail_retry e operation c pid (fl_code failed) w2 = Inr (r, w'))
    \<or> (\<exists>w2. operations w2 = operations w1 \<and> fail_final e operation ord c pid
        (fl_ambiguous failed \<or> op_firstDispatchAt operation \<noteq> None) (fl_code failed) w2 = Inr (r, w'))"
    using branch by (cases "fl_retryable failed \<and> (truthy pid \<or> op_kind operation \<noteq> CREATE \<or> \<not> b)") auto
  then show thesis
    using that own x by blast
qed

text \<open>
  A recorded failure always releases the operation: either it is queued again, one attempt later,
  5 to 300 seconds after a reading of the clock, or it ends as failed or, once dispatched, unknown.
\<close>

theorem failure_releases_operation:
  assumes "failProviderOperation e c failed w = Inr (r, w')"
    and "find_operation (cl_operationId c) w = Some operation" "0 \<le> op_retryAttempt operation"
  shows "\<exists>next k. find_operation (cl_operationId c) w' = Some next
    \<and> (op_status next = P_PENDING \<and> op_leaseToken next = None \<and> op_leaseUntil next = None
        \<and> op_retryAttempt next = op_retryAttempt operation + 1
        \<and> clock e k + 5000 \<le> op_availableAt next \<and> op_availableAt next \<le> clock e k + 300000
      \<or> op_status next = (if fl_ambiguous failed \<or> op_firstDispatchAt operation \<noteq> None then P_UNKNOWN else P_FAILED))"
proof -
  obtain i j where run: "fail_tx e c failed (w\<lparr>tick := i, fresh := j\<rparr>) = Inr (r, w')"
    using assms(1) by (auto simp: failProviderOperation_def)
  obtain ord w1 pid where own: "owned_operation e c (w\<lparr>tick := i, fresh := j\<rparr>) = Inr ((operation, ord), w1)"
    and rest: "(\<exists>w2. operations w2 = operations w1 \<and> fail_retry e operation c pid (fl_code failed) w2 = Inr (r, w'))
      \<or> (\<exists>w2. operations w2 = operations w1 \<and> fail_final e operation ord c pid
          (fl_ambiguous failed \<or> op_firstDispatchAt operation \<noteq> None) (fl_code failed) w2 = Inr (r, w'))"
    by (rule fail_tx_branches [OF run assms(2)])
  have w1: "find_operation (cl_operationId c) w1 = Some operation" and held: "op_status operation = P_PROCESSING"
      "op_version operation = cl_version c" "op_leaseToken operation = Some (cl_leaseToken c)"
    using own by (auto elim!: owned_operation_Inr)
  have id: "op_id operation = cl_operationId c"
    using assms(2) unfolding find_operation_def by (drule_tac find_Some_D) simp
  from rest show ?thesis
  proof (elim disjE exE conjE)
    fix w2
    assume w2: "operations w2 = operations w1" and retry: "fail_retry e operation c pid (fl_code failed) w2 = Inr (r, w')"
    have "find_operation (op_id operation) w2 = Some operation"
      using w1 w2 by (simp add: find_operation_def id)
    then obtain ev out k where "find_operation (cl_operationId c) w' = Some ((requeue_operation ev out
        (clock e k + backoff (op_retryAttempt operation)) (Some (js (fl_code failed))) operation)\<lparr>op_providerPaymentId := pid\<rparr>)"
      using fail_retry_operations [OF retry _ held(3)] id by metis
    then show ?thesis
      using backoff_bounds [OF assms(3)]
      by - (rule exI, rule exI [of _ k], rule conjI, assumption, simp add: requeue_operation_def)
  next
    fix w2
    assume w2: "operations w2 = operations w1" and final: "fail_final e operation ord c pid
        (fl_ambiguous failed \<or> op_firstDispatchAt operation \<noteq> None) (fl_code failed) w2 = Inr (r, w')"
    have "find_operation (op_id operation) w2 = Some operation"
      using w1 w2 by (simp add: find_operation_def id)
    from fail_final_operations [OF final this held] show ?thesis
      by (auto simp: id)
  qed
qed

definition sample_failure :: failure where
  "sample_failure = \<lparr>fl_code = ''PROVIDER_RETRYABLE'', fl_ambiguous = False, fl_retryable = True,
     fl_providerPaymentId = JUndef\<rparr>"

lemma sample_fail_run: "\<exists>w'. failProviderOperation sample_env sample_claim sample_failure claimed_db = Inr ((), w')"
  by (simp add: failProviderOperation_def fail_tx_def owned_run sample_failure_def providerId_def truthy_def
      fail_retry_def providerOutbox_def sample_outbox_def lease_operation_def requeue_operation_def release_delivery_def
      prisma_defs upd_rows_def same_some_def)

theorem failure_releases_operation_witness:
  "\<exists>w' next. failProviderOperation sample_env sample_claim sample_failure claimed_db = Inr ((), w')
     \<and> find_operation (sample_uuid 1) w' = Some next \<and> op_status next \<noteq> P_PROCESSING"
proof -
  obtain w' where run: "failProviderOperation sample_env sample_claim sample_failure claimed_db = Inr ((), w')"
    using sample_fail_run by blast
  have "find_operation (cl_operationId sample_claim) claimed_db
      = Some (lease_operation (sample_uuid 4) 1700000064000 sample_operation)"
    "0 \<le> op_retryAttempt (lease_operation (sample_uuid 4) 1700000064000 sample_operation)"
    by (simp_all add: find_operation_def lease_operation_def sample_operation_def new_operation_def)
  from failure_releases_operation [OF run this] show ?thesis
    using run by (auto split: if_splits)
qed

section \<open>Queued requests\<close>

text \<open>
  C27. The request that \<open>enqueue\<close> stores for the creation of an order's payment is read back by
  \<open>prepared\<close>: the prepared operation creates the payment of the same order, with its amount as
  decimal text, its idempotency key, and the return page or the stored payment method.
\<close>

theorem queued_request_prepared:
  assumes run: "enqueue e ord CREATE (o_providerIdempotencyKey ord) None at w = Inr (operation, w')"
    and new: "find (\<lambda>x. op_idempotencyKey x = o_providerIdempotencyKey ord) (operations w) = None"
    and unpaid: "o_providerPaymentId ord = None"
    and amount: "1 \<le> o_amountMinor ord" "o_amountMinor ord \<le> WINCRM_MAX_AMOUNT"
    and url: "\<And>u. returnUrl e ord = Inr u \<Longrightarrow> commerceText (JStr u) 2048"
    and card: "\<And>r. find_renewal (o_workspaceId ord) w = Some r \<Longrightarrow>
      commerceText (JStr (r_paymentMethodCiphertext r)) 10000"
  shows "\<exists>p rq. prepared_of operation ord = Inr p \<and> pr_action p = CREATE \<and> pr_orderId p = o_id ord
    \<and> pr_idempotencyKey p = o_providerIdempotencyKey ord \<and> pr_request p = Some rq
    \<and> rq_paymentId rq = o_id ord \<and> wincrmDecimal (o_amountMinor ord) = Inr (rq_amount rq)
    \<and> (if o_kind ord = ONE_TIME then (\<exists>u. returnUrl e ord = Inr u \<and> rq_returnUrl rq = JStr u)
       else (\<exists>r. find_renewal (o_workspaceId ord) w = Some r
         \<and> rq_paymentMethodCiphertext rq = JStr (r_paymentMethodCiphertext r)))"
proof -
  have kind: "o_kind ord = RECURRING" if "o_kind ord \<noteq> ONE_TIME"
    using that by (cases "o_kind ord") auto
  obtain i ev out t u ct where op: "operation = new_operation ord CREATE (o_providerIdempotencyKey ord) None i ev out t
      (request_snapshot ord CREATE u ct)"
    and parts: "if o_kind ord = ONE_TIME then ct = None \<and> (\<exists>x. returnUrl e ord = Inr x \<and> u = Some x)
      else u = None \<and> (\<exists>r. find_renewal (o_workspaceId ord) w = Some r \<and> ct = Some (r_paymentMethodCiphertext r))"
    using run new kind unfolding enqueue_def
    by (auto simp: new_date_def randomUUID_def create_operation_def tb_operations.create_row_Inr find_renewal_def
        split: option.splits if_splits; blast)
  show ?thesis
    using parts op unpaid wincrmDecimal_eq [OF amount] url card
    by (auto simp: prepared_of_def snapshot_bound_def request_snapshot_def Let_def prepared_action_def payment_id_of_def
        truthy_def create_request_of_def opt_js_def new_operation_def kind split: if_splits)
qed

theorem queued_request_prepared_witness:
  "\<exists>operation w' p. enqueue sample_env sample_order CREATE sample_hash None None shop_db = Inr (operation, w')
     \<and> prepared_of operation sample_order = Inr p \<and> pr_action p = CREATE"
proof -
  obtain operation w' where run: "enqueue sample_env sample_order CREATE (o_providerIdempotencyKey sample_order) None None shop_db
      = Inr (operation, w')"
    by (simp add: enqueue_def sample_returnUrl providerOutbox_def prisma_defs)
  have "commerceText (JStr sample_return_url) 2048"
    by (rule ascii_text) (simp_all add: sample_return_url_def js_def)
  then have "\<exists>p rq. prepared_of operation sample_order = Inr p \<and> pr_action p = CREATE"
    using queued_request_prepared [OF run] by (fastforce simp: sample_returnUrl WINCRM_MAX_AMOUNT_def find_renewal_def)
  then show ?thesis
    using run by auto
qed

end
