(* ===== verification/Worker_Properties.thy ===== *)
theory Worker_Properties
  imports Provider_Worker Provider_Properties Request_Terms
begin

text \<open>
  Properties of the provider worker: a request that creates a payment is sent at most once per claim,
  only with the authorization of CRM Access and after a committed dispatch, and a repeated attempt
  sends the same request with the same idempotency key; receipts are read in at most ten pages; an
  invalid message is put into quarantine once.
\<close>

section \<open>Relations across the worker's computations\<close>

lemma wdb_cases:
  assumes "wdb m s = (r, s')"
  obtains err where "m (wd_db s) = Inl err" "r = Inl (Thrown err)" "s' = s"
    | x w' where "m (wd_db s) = Inr (x, w')" "r = Inr x" "s' = s\<lparr>wd_db := w'\<rparr>"
  using assms by (auto simp: wdb_def split: sum.splits prod.splits)

locale world_relation = comp_relation R
  for R :: "world \<Rightarrow> world \<Rightarrow> bool"
begin

lemma wsteps_prepared [wsteps_intro]:
  "wsteps R a \<Longrightarrow> (\<And>x. wsteps R (k x)) \<Longrightarrow> wsteps R (case q of SKIP \<Rightarrow> a | PREPARED x \<Rightarrow> k x)"
  by (simp split: prepared.split)

lemma wsteps_saved_method [wsteps_intro]: "wsteps R (saved_method p v)"
  unfolding saved_method_def by (auto intro!: wsteps_intro split: jsval.split)

end

text \<open>The requests that create payments.\<close>

definition posts :: "world \<Rightarrow> http_request list" where
  "posts s = filter (\<lambda>q. hr_method q = ''POST'') (wd_sent s)"

definition same_posts :: "world \<Rightarrow> world \<Rightarrow> bool" where
  "same_posts s s' \<longleftrightarrow> posts s' = posts s"

definition on_db :: "(db \<Rightarrow> db \<Rightarrow> bool) \<Rightarrow> world \<Rightarrow> world \<Rightarrow> bool" where
  "on_db R s s' \<longleftrightarrow> R (wd_db s) (wd_db s')"

interpretation quiet_world: world_relation same_posts
  by unfold_locales (simp_all add: same_posts_def)

interpretation terms_world: world_relation "on_db terms_kept"
  by unfold_locales (auto simp: on_db_def intro: terms.step_refl terms.step_trans)

lemma posts_simps [simp]:
  "posts (s\<lparr>wd_db := w\<rparr>) = posts s" "posts (s\<lparr>wd_asked := a\<rparr>) = posts s" "posts (s\<lparr>wd_invalid := iv\<rparr>) = posts s"
  "posts (s\<lparr>wd_providerCallStarted := b\<rparr>) = posts s" "posts (s\<lparr>wd_providerPaymentId := i\<rparr>) = posts s"
  "posts (s\<lparr>wd_sent := wd_sent s @ [q]\<rparr>) = posts s @ (if hr_method q = ''POST'' then [q] else [])"
  by (simp_all add: posts_def)

lemma quiet_steps [wsteps_intro]:
  "wsteps same_posts (wdb m)" "wsteps same_posts (authorize p op)" "wsteps same_posts (setPaymentId i)"
  "wsteps same_posts (wset (\<lambda>s. s\<lparr>wd_providerCallStarted := b\<rparr>))"
  "wsteps same_posts (wset (\<lambda>s. s\<lparr>wd_providerCallStarted := b, wd_providerPaymentId := i\<rparr>))"
  "wsteps same_posts (request p (get_request endpoint))"
  by (auto simp: wsteps_def same_posts_def wdb_def authorize_def setPaymentId_def request_def get_request_def
      split: sum.split prod.split)

lemma quiet_read: "wsteps same_posts (call_read p op)"
proof -
  have "wsteps same_posts (receipt_pages p i n cursor seen items)" for i n cursor seen items
    by (induction n arbitrary: cursor seen items) (auto intro!: wsteps_intro simp: Let_def)
  then show ?thesis
    unfolding call_read_def getReceipts_def getPayment_def by (intro wsteps_intro)
qed

lemma quiet_finish: "wsteps same_posts (finish_call e c op answer)"
  unfolding finish_call_def by (intro wsteps_intro)

lemma quiet_recordFailure: "wsteps same_posts (recordFailure e c err)"
  unfolding recordFailure_def by (intro wsteps_intro)

section \<open>The request that creates a payment\<close>

abbreviation payment_post :: "create_input \<Rightarrow> jsstring \<Rightarrow> http_request" where
  "payment_post input key \<equiv> \<lparr>hr_method = ''POST'', hr_endpoint = PAYMENTS, hr_body = Some (payment_body input),
     hr_idempotenceKey = Some key\<rparr>"

lemma call_create_posts:
  assumes run: "call_create e p c op s = (r, s')" and new: "posts s' \<noteq> posts s"
  obtains rq at first m where "pr_request op = Some rq" "pr_firstDispatchAt op = Some at" "Date_parse e at = Some first"
    "clock e (tick (wd_db s)) - first < PROVIDER_WINDOW_MS" "\<forall>x. saved_method p (rq_paymentMethodCiphertext rq) x = (Inr m, x)"
    "r = map_sum id Some (provider_answer (pv_fetch p (length (wd_sent s)) (payment_post (create_input_of rq m) (pr_idempotencyKey op))))"
    "s' = s\<lparr>wd_db := (wd_db s)\<lparr>tick := tick (wd_db s) + 1\<rparr>, wd_providerCallStarted := True,
       wd_sent := wd_sent s @ [payment_post (create_input_of rq m) (pr_idempotencyKey op)]\<rparr>"
proof -
  obtain rq at where op: "pr_request op = Some rq" "pr_firstDispatchAt op = Some at"
    using run new by (auto simp: call_create_def split: option.splits)
  let ?s1 = "s\<lparr>wd_db := (wd_db s)\<lparr>tick := tick (wd_db s) + 1\<rparr>\<rparr>"
  have fail: "same_posts a b"
    if "wthen (wdb m) (wret (None :: jsval option)) a = (x, b)" for m :: "unit op" and a b x
    using that by (rule wstepsD [rotated]) (intro wsteps_intro)
  have "\<not> (case Date_parse e at of None \<Rightarrow> True | Some first \<Rightarrow> clock e (tick (wd_db s)) - first \<ge> PROVIDER_WINDOW_MS)"
  proof
    assume "case Date_parse e at of None \<Rightarrow> True | Some first \<Rightarrow> clock e (tick (wd_db s)) - first \<ge> PROVIDER_WINDOW_MS"
    then have "same_posts ?s1 s'"
      using run op by (auto simp: call_create_def wbind_run wdb_def new_date_def dest!: fail)
    then show False
      using new by (simp add: same_posts_def)
  qed
  then obtain first where first: "Date_parse e at = Some first" "clock e (tick (wd_db s)) - first < PROVIDER_WINDOW_MS"
    by (auto split: option.splits)
  define rest where "rest paymentMethodId =
      (if rq_kind rq = RECURRING \<and> \<not> truthy paymentMethodId then wthrow (OtherError ''SAVED_METHOD_MISSING'')
       else wthen (wset (\<lambda>s. s\<lparr>wd_providerCallStarted := True\<rparr>))
         (wbind (createPayment p (create_input_of rq paymentMethodId) (pr_idempotencyKey op)) (\<lambda>response. wret (Some response))))"
    for paymentMethodId
  have run': "wbind (saved_method p (rq_paymentMethodCiphertext rq)) rest ?s1 = (r, s')"
    using run op first unfolding rest_def [abs_def]
    by (simp add: call_create_def wbind_run [of "wdb _"] wdb_def new_date_def)
  have pure: "\<exists>x. \<forall>s. saved_method p v s = (x, s)" for v
    by (auto simp: saved_method_def split: jsval.split option.split)
  then obtain x where x: "\<forall>s. saved_method p (rq_paymentMethodCiphertext rq) s = (x, s)"
    by blast
  then obtain m where m: "x = Inr m" and rest: "rest m ?s1 = (r, s')"
    using run' new by (cases x) (auto simp: wbind_run)
  have "r = map_sum id Some (provider_answer (pv_fetch p (length (wd_sent s)) (payment_post (create_input_of rq m) (pr_idempotencyKey op))))
      \<and> s' = s\<lparr>wd_db := (wd_db s)\<lparr>tick := tick (wd_db s) + 1\<rparr>, wd_providerCallStarted := True,
       wd_sent := wd_sent s @ [payment_post (create_input_of rq m) (pr_idempotencyKey op)]\<rparr>"
    using new rest by (auto simp: rest_def wthen_def wbind_run createPayment_def request_def split: if_splits prod.splits sum.splits)
  with op first x m show thesis
    by (intro that) auto
qed

lemma execute_prepared_posts:
  assumes run: "execute_prepared e p c prep s = (r, s')" and new: "posts s' \<noteq> posts s"
  obtains op r1 s1 where "prep = PREPARED op" "pr_action op = CREATE" "call_create e p c op s = (r1, s1)" "posts s' = posts s1"
proof -
  obtain op where op: "prep = PREPARED op"
    using run new by (cases prep) (auto simp: execute_prepared_def)
  have "pr_action op = CREATE"
  proof (rule ccontr)
    assume "pr_action op \<noteq> CREATE"
    then have "wsteps same_posts (execute_prepared e p c prep)"
      using op unfolding execute_prepared_def by (simp add: quiet_read quiet_finish wsteps_intro)
    from wstepsD [OF this run] show False
      using new by (simp add: same_posts_def)
  qed
  with op run that show thesis
    by (cases "call_create e p c op s")
      (auto simp: execute_prepared_def wbind_run same_posts_def split: sum.splits dest: wstepsD [OF quiet_finish])
qed

text \<open>What has happened when a claim has made the worker send such a request.\<close>

lemma execute_dispatched:
  assumes run: "execute e p c s = (r, s')" and new: "posts s' \<noteq> posts s"
  obtains op0 w1 op s3 where "prepareProviderOperation e c (wd_db s) = Inr (PREPARED op0, w1)"
    "authorization_answer op0 (pv_access p (length (wd_asked s)) (authorization_body op0)) = Inr ()"
    "beginProviderDispatch e c w1 = Inr (PREPARED op, wd_db s3)" "pr_action op = CREATE" "wd_sent s3 = wd_sent s"
    "posts (snd (call_create e p c op s3)) = posts s'"
    "wcatch (\<lambda>_. wbind (call_create e p c op) (finish_call e c op) s3) (recordFailure e c) s = (r, s')"
proof -
  define s0 where "s0 = s\<lparr>wd_providerCallStarted := False, wd_providerPaymentId := None\<rparr>"
  obtain r1 s1 where body: "execute_body e p c s0 = (r1, s1)"
    by fastforce
  have s0: "wd_sent s0 = wd_sent s" "wd_db s0 = wd_db s" "wd_asked s0 = wd_asked s" "posts s0 = posts s"
    by (simp_all add: s0_def)
  have caught: "wcatch (\<lambda>_. (r1, s1)) (recordFailure e c) s = (r, s')"
    using run body by (simp add: execute_def wcatch_def s0_def)
  then have s1: "posts s' = posts s1"
    using wstepsD [OF quiet_recordFailure] by (auto simp: wcatch_def same_posts_def split: sum.splits)
  obtain prep w1 where prep: "prepareProviderOperation e c (wd_db s) = Inr (prep, w1)"
    using body new s0 s1 by (auto simp: execute_body_def wbind_run wdb_def split: sum.splits)
  then obtain op0 where op0: "prep = PREPARED op0"
    using body new s0 s1 by (cases prep) (auto simp: execute_body_def wbind_run wdb_def)
  let ?start = "if pr_action op0 = CREATE then wthen (authorize p op0) (wdb (beginProviderDispatch e c)) else wret prep"
  define s2 where "s2 = (if truthy (pr_providerPaymentId op0)
      then s0\<lparr>wd_db := w1, wd_providerPaymentId := pr_providerPaymentId op0\<rparr> else s0\<lparr>wd_db := w1\<rparr>)"
  then have s2: "wd_db s2 = w1" "wd_asked s2 = wd_asked s" "wd_sent s2 = wd_sent s"
    using s0 by simp_all
  have rest: "wbind ?start (execute_prepared e p c) s2 = (r1, s1)"
    using body prep op0 s0
    by (auto simp: execute_body_def wbind_run [of "wdb _"] wdb_def [of "prepareProviderOperation _ _"]
        setPaymentId_def s2_def)
  have quiet: "wd_sent b = wd_sent s" if "?start s2 = (x, b)" for x b
    using that s2 by (auto simp: wthen_def authorize_def elim!: wbind_cases wdb_cases split: if_splits)
  obtain q s3 where q: "?start s2 = (Inr q, s3)" "wd_sent s3 = wd_sent s" and ex: "execute_prepared e p c q s3 = (r1, s1)"
    using rest
  proof (cases rule: wbind_cases)
    case (1 err)
    then show ?thesis
      using quiet [OF 1(1)] new s1 by (simp add: posts_def)
  next
    case (2 x s3)
    then show ?thesis
      using that quiet [OF 2(1)] by simp
  qed
  have "posts s3 = posts s"
    by (simp add: posts_def q)
  then obtain op r2 s4 where op: "q = PREPARED op" "pr_action op = CREATE" "call_create e p c op s3 = (r2, s4)" "posts s1 = posts s4"
    using execute_prepared_posts [OF ex] new s1 by metis
  have create: "pr_action op0 = CREATE"
    using q op op0 by (cases "pr_action op0 = CREATE") auto
  have "authorization_answer op0 (pv_access p (length (wd_asked s)) (authorization_body op0)) = Inr ()"
    and "beginProviderDispatch e c w1 = Inr (PREPARED op, wd_db s3)"
    using q(1) create s2 op(1)
    by (auto simp: wthen_def authorize_def elim!: wbind_cases wdb_cases split: if_splits)
  moreover have "wbind (call_create e p c op) (finish_call e c op) s3 = (r1, s1)"
    using ex op by (simp add: execute_prepared_def)
  ultimately show thesis
    using prep op0 op q(2) s1 caught by (intro that [of op0 w1 op s3]) (simp_all add: wcatch_def)
qed

lemma execute_posts:
  assumes run: "execute e p c s = (r, s')" and new: "posts s' \<noteq> posts s"
  obtains op0 w1 op w2 rq at first m where "prepareProviderOperation e c (wd_db s) = Inr (PREPARED op0, w1)"
    "authorization_answer op0 (pv_access p (length (wd_asked s)) (authorization_body op0)) = Inr ()"
    "beginProviderDispatch e c w1 = Inr (PREPARED op, w2)" "pr_action op = CREATE" "pr_request op = Some rq"
    "pr_firstDispatchAt op = Some at" "Date_parse e at = Some first" "clock e (tick w2) - first < PROVIDER_WINDOW_MS"
    "\<forall>x. saved_method p (rq_paymentMethodCiphertext rq) x = (Inr m, x)"
    "posts s' = posts s @ [payment_post (create_input_of rq m) (pr_idempotencyKey op)]"
proof -
  obtain op0 w1 op s3 where d: "prepareProviderOperation e c (wd_db s) = Inr (PREPARED op0, w1)"
      "authorization_answer op0 (pv_access p (length (wd_asked s)) (authorization_body op0)) = Inr ()"
      "beginProviderDispatch e c w1 = Inr (PREPARED op, wd_db s3)" "pr_action op = CREATE" "wd_sent s3 = wd_sent s"
      "posts (snd (call_create e p c op s3)) = posts s'"
    by (rule execute_dispatched [OF assms])
  obtain r2 s4 where call: "call_create e p c op s3 = (r2, s4)"
    by fastforce
  have s3: "posts s3 = posts s"
    by (simp add: posts_def d)
  have "posts s4 \<noteq> posts s3"
    using d(6) call new s3 by simp
  then obtain rq at first m where c: "pr_request op = Some rq" "pr_firstDispatchAt op = Some at" "Date_parse e at = Some first"
      "clock e (tick (wd_db s3)) - first < PROVIDER_WINDOW_MS" "\<forall>x. saved_method p (rq_paymentMethodCiphertext rq) x = (Inr m, x)"
      "s4 = s3\<lparr>wd_db := (wd_db s3)\<lparr>tick := tick (wd_db s3) + 1\<rparr>, wd_providerCallStarted := True,
         wd_sent := wd_sent s3 @ [payment_post (create_input_of rq m) (pr_idempotencyKey op)]\<rparr>"
    by (rule call_create_posts [OF call])
  have "posts s' = posts s @ [payment_post (create_input_of rq m) (pr_idempotencyKey op)]"
    using d(5,6) call by (simp add: posts_def c(6))
  then show thesis
    by (rule that [OF d(1-4) c(1-5)])
qed

section \<open>A concrete run\<close>

text \<open>
  The provider does not answer and CRM Access grants what it is asked; the environment aborts every
  transaction from the clock reading 9 on, so that the failure of the first attempt cannot be recorded.
\<close>

definition sample_granted :: "jsval \<Rightarrow> jsval" where
  "sample_granted body =
     obj [(''schemaVersion'', JInt 1), (''workspaceId'', jsfield body ''workspaceId''),
       (''actorSubject'', jsfield body ''actorSubject''), (''commandId'', jsfield body ''commandId''),
       (''requestHash'', jsfield body ''requestHash''),
       (''capacityFence'', obj [(''operationId'', jsfield body ''commandId''), (''requestHash'', jsfield body ''requestHash''),
          (''fenceRevision'', jsfield body ''fenceRevision''), (''targetSeats'', jsfield body ''targetSeats'')]),
       (''authorized'', JBool True)]"

definition sample_provider :: "fetch_result \<Rightarrow> provider" where
  "sample_provider answer = \<lparr>pv_credentials = True, pv_fetch = (\<lambda>n q. answer), pv_accessConfigured = True,
     pv_access = (\<lambda>n body. Response 200 (Some (sample_granted body))), pv_decrypt = (\<lambda>s. None), pv_contentHash = (\<lambda>s. sample_hash)\<rparr>"

definition busy_env :: env where
  "busy_env = sample_env\<lparr>conflicts := (\<lambda>t n. 9 \<le> t)\<rparr>"

definition started :: "db \<Rightarrow> world" where
  "started w = \<lparr>wd_db = w, wd_invalid = [], wd_sent = [], wd_asked = [], wd_providerCallStarted = False,
     wd_providerPaymentId = None\<rparr>"

text \<open>The claimed operation, possibly dispatched before.\<close>

definition sample_leased :: "date option \<Rightarrow> int \<Rightarrow> operation_row" where
  "sample_leased first attempt = (lease_operation (sample_uuid 4) 1700000064000 sample_operation)
     \<lparr>op_firstDispatchAt := first, op_dispatchAttempt := attempt\<rparr>"

definition leased_db :: "nat \<Rightarrow> date option \<Rightarrow> int \<Rightarrow> db" where
  "leased_db n first attempt = claimed_db\<lparr>tick := n, operations := [sample_leased first attempt]\<rparr>"

lemma sample_leased_simps [simp]:
  "op_id (sample_leased d a) = sample_uuid 1" "op_orderId (sample_leased d a) = sample_uuid 0" "op_kind (sample_leased d a) = CREATE"
  "op_status (sample_leased d a) = P_PROCESSING" "op_version (sample_leased d a) = 2" "op_leaseToken (sample_leased d a) = Some (sample_uuid 4)"
  "op_pendingEventId (sample_leased d a) = sample_uuid 2" "op_leaseUntil (sample_leased d a) = Some 1700000064000"
  "op_requestSnapshot (sample_leased d a) = request_snapshot sample_order CREATE (Some sample_return_url) None"
  "op_providerPaymentId (sample_leased d a) = None" "op_firstDispatchAt (sample_leased d a) = d"
  "dispatch_operation f (sample_leased d a) = sample_leased (Some f) (a + 1)"
  by (simp_all add: sample_leased_def lease_operation_def dispatch_operation_def sample_operation_def new_operation_def)

lemma sample_order_more [simp]:
  "o_capacityFence sample_order = sample_fence" "o_ownerSubject sample_order = js ''owner''"
  "o_checkoutExpiresAt sample_order = 1700003600000" "o_customerEmail sample_order = Some (js ''owner@example.com'')"
  by (simp_all add: sample_order_def checkout_order_def Let_def)

definition sample_request :: create_request where
  "sample_request = (case create_request_of (sample_leased None 0) sample_order of Inr rq \<Rightarrow> rq)"

lemma sample_request_of:
  "create_request_of (sample_leased d a) sample_order = Inr sample_request"
  "rq_paymentMethodCiphertext sample_request = JNull" "rq_kind sample_request = ONE_TIME"
  "rq_customerEmail sample_request = Some (js ''owner@example.com'')"
proof -
  have "commerceText (JStr sample_return_url) 2048"
    by (rule ascii_text) (simp_all add: sample_return_url_def js_def)
  then have "create_request_of (sample_leased d a) sample_order
      = Inr \<lparr>rq_paymentId = o_id sample_order, rq_billingPeriod = o_cycle sample_order, rq_kind = ONE_TIME,
           rq_amount = js ''3.50'', rq_autoRenew = o_autoRenew sample_order, rq_customerEmail = o_customerEmail sample_order,
           rq_customerPhone = o_customerPhone sample_order, rq_returnUrl = JStr sample_return_url,
           rq_paymentMethodCiphertext = JNull\<rparr>" for d a
    by (simp add: create_request_of_def request_snapshot_def Let_def sample_decimal opt_js_def)
  then show "create_request_of (sample_leased d a) sample_order = Inr sample_request"
    "rq_paymentMethodCiphertext sample_request = JNull" "rq_kind sample_request = ONE_TIME"
    "rq_customerEmail sample_request = Some (js ''owner@example.com'')"
    by (simp_all add: sample_request_def)
qed

definition sample_prep :: "date option \<Rightarrow> prepared_op" where
  "sample_prep d = \<lparr>pr_action = CREATE, pr_orderId = sample_uuid 0, pr_workspaceId = sample_uuid 901,
     pr_ownerSubject = js ''owner'', pr_commandId = sample_uuid 900, pr_capacityFence = sample_fence,
     pr_providerPaymentId = None, pr_idempotencyKey = sample_hash, pr_request = Some sample_request,
     pr_firstDispatchAt = map_option toISOString d\<rparr>"

lemma sample_prepared_of: "prepared_of (sample_leased d a) sample_order = Inr (sample_prep d)"
proof -
  have "snapshot_bound (sample_leased d a) sample_order"
    by (simp add: snapshot_bound_def request_snapshot_def Let_def)
  moreover have "prepared_action (sample_leased d a) sample_order = Some CREATE"
    by (simp add: prepared_action_def payment_id_of_def truthy_def)
  ultimately show ?thesis
    by (simp add: prepared_of_def sample_request_of sample_prep_def payment_id_of_def)
qed

lemma leased_db_simps [simp]:
  "orders (leased_db n d a) = [sample_order]" "operations (leased_db n d a) = [sample_leased d a]"
  "accounts (leased_db n d a) = [sample_account]" "commands (leased_db n d a) = [sample_command]" "tick (leased_db n d a) = n"
  "(leased_db n d a)\<lparr>tick := m\<rparr> = leased_db m d a"
  "operations_update (\<lambda>_. [sample_leased f b]) (leased_db n d a) = leased_db n f b"
  by (simp_all add: leased_db_def)

lemma leased_dispatched:
  "P (sample_leased d a) \<Longrightarrow> operations_update (upd_rows P (dispatch_operation f)) (leased_db n d a) = leased_db n (Some f) (a + 1)"
  by (simp add: leased_db_def upd_rows_def)

lemma sample_prep_simps [simp]:
  "pr_action (sample_prep d) = CREATE" "pr_providerPaymentId (sample_prep d) = None" "pr_request (sample_prep d) = Some sample_request"
  "pr_firstDispatchAt (sample_prep d) = map_option toISOString d" "pr_idempotencyKey (sample_prep d) = sample_hash"
  by (simp_all add: sample_prep_def)

lemma sample_owns:
  assumes "clock e = clock sample_env" "n < 60"
  shows "ownsLease e (sample_leased d a) sample_claim (leased_db n d' a') = Inr (True, leased_db (n + 1) d' a')"
  using assms by (simp add: ownsLease_def new_date_def tx_simps)

lemma sample_prepare:
  assumes "clock e = clock sample_env" "n < 60"
  shows "prepareProviderOperation e sample_claim (leased_db n d a) = Inr (PREPARED (sample_prep d), leased_db (n + 1) d a)"
  by (simp add: prepareProviderOperation_def tx_simps sample_owns [OF assms] sample_prepared_of find_operation_def find_order_def)

lemma sample_dispatch:
  assumes "clock e = clock sample_env" "paymentsEnabled e" "n < 59" "\<not> conflicts e n 0" "d = None \<or> d = Some 1700000007000"
  shows "beginProviderDispatch e sample_claim (leased_db n d a)
    = Inr (PREPARED (sample_prep (Some (case d of None \<Rightarrow> clock e (n + 1) | Some f \<Rightarrow> f))),
        leased_db (n + 2) (Some (case d of None \<Rightarrow> clock e (n + 1) | Some f \<Rightarrow> f)) (a + 1))"
proof -
  have fence: "capacity_matches (find_account ws (leased_db m d b)) (find_command (sample_uuid 900) (leased_db m d b)) sample_order" for ws m b
    by (simp add: capacity_matches_def find_command_def sample_command_def opt_js_def)
  have "dispatch_tx e sample_claim (leased_db n d a)
    = Inr (PREPARED (sample_prep (Some (case d of None \<Rightarrow> clock e (n + 1) | Some f \<Rightarrow> f))),
        leased_db (n + 2) (Some (case d of None \<Rightarrow> clock e (n + 1) | Some f \<Rightarrow> f)) (a + 1))"
    using assms(5) fence assms(1-3)
    by (elim disjE) (simp_all add: dispatch_tx_def owned_operation_def load_operation_def tx_simps sample_owns sample_prepared_of
        find_operation_def find_order_def dispatch_create_def new_date_def renewal_matches_def update_operation_def
        update_row_def leased_dispatched PROVIDER_WINDOW_MS_def)
  then show ?thesis
    using assms(4) by (simp add: beginProviderDispatch_def transaction_def numeral_2_eq_2 tx_simps find_operation_def)
qed

lemma sample_authorized:
  "authorize (sample_provider answer) (sample_prep d) s
     = (Inr (), s\<lparr>wd_asked := wd_asked s @ [authorization_body (sample_prep d)]\<rparr>)"
proof -
  have "authorization_bound (sample_prep d) (sample_granted (authorization_body (sample_prep d)))"
    by (simp add: authorization_bound_def sample_granted_def authorization_body_def sample_prep_def sample_fence_def
        exactRecord_def commerceRecord_obj Let_def) (simp add: obj_def)
  then show ?thesis
    by (simp add: authorize_def sample_provider_def authorization_answer_def http_ok_def)
qed

abbreviation sample_post :: http_request where
  "sample_post \<equiv> payment_post (create_input_of sample_request None) sample_hash"

text \<open>The first attempt leaves the operation dispatched; the second is made at a later reading of the clock.\<close>

lemma sample_attempt:
  assumes "clock e = clock sample_env" "paymentsEnabled e" "n < 50" "\<not> conflicts e (n + 1) 0" "d = None \<or> d = Some 1700000007000"
    and "d = None \<Longrightarrow> n = 5"
  shows "\<exists>s1. execute_body e (sample_provider answer) sample_claim (started (leased_db n d a)) =
      (case provider_answer answer of
         Inl err \<Rightarrow> (Inl err, s1)
       | Inr v \<Rightarrow> finish_call e sample_claim (sample_prep (Some 1700000007000)) (Some v) s1)
    \<and> wd_db s1 = leased_db (n + 4) (Some 1700000007000) (a + 1) \<and> wd_sent s1 = [sample_post]
    \<and> wd_providerCallStarted s1 \<and> wd_providerPaymentId s1 = None"
proof -
  have first: "(case d of None \<Rightarrow> clock e (n + 1 + 1) | Some f \<Rightarrow> f) = 1700000007000"
    using assms by auto
  have prep: "wdb (prepareProviderOperation e sample_claim) (started (leased_db n d a))
      = (Inr (PREPARED (sample_prep d)), started (leased_db (n + 1) d a))"
    using assms by (simp add: wdb_def sample_prepare started_def)
  have dispatch: "wdb (beginProviderDispatch e sample_claim) s
      = (Inr (PREPARED (sample_prep (Some 1700000007000))), s\<lparr>wd_db := leased_db (n + 3) (Some 1700000007000) (a + 1)\<rparr>)"
    if "wd_db s = leased_db (n + 1) d a" for s
    using sample_dispatch [of e "n + 1" d a, unfolded first] assms that by (simp add: wdb_def numeral_3_eq_3)
  have create: "call_create e (sample_provider answer) sample_claim (sample_prep (Some 1700000007000)) s
      = (case provider_answer answer of
           Inl err \<Rightarrow> (Inl err, s\<lparr>wd_db := leased_db (n + 4) (Some 1700000007000) (a + 1), wd_providerCallStarted := True,
             wd_sent := wd_sent s @ [sample_post]\<rparr>)
         | Inr v \<Rightarrow> (Inr (Some v), s\<lparr>wd_db := leased_db (n + 4) (Some 1700000007000) (a + 1), wd_providerCallStarted := True,
             wd_sent := wd_sent s @ [sample_post]\<rparr>))"
    if s: "wd_db s = leased_db (n + 3) (Some 1700000007000) (a + 1)" for s
  proof -
    have clip: "timeClip 1700000007000 = Some 1700000007000"
      by (simp add: MAX_DATE_MS_def)
    moreover have "customer_fields (create_input_of sample_request None) \<noteq> []"
      by (simp add: customer_fields_def create_input_of_def sample_request_of truthy_def js_def)
    moreover have "clock e (n + 3) - 1700000007000 < PROVIDER_WINDOW_MS"
      using assms by (simp add: PROVIDER_WINDOW_MS_def)
    ultimately show ?thesis
      by (simp add: call_create_def wbind_run wdb_def new_date_def saved_method_def sample_request_of truthy_def
          createPayment_def request_def sample_provider_def clip s add.commute split: sum.split)
  qed
  define s1 where "s1 = (started (leased_db (n + 4) (Some 1700000007000) (a + 1)))\<lparr>wd_asked := [authorization_body (sample_prep d)],
      wd_providerCallStarted := True, wd_sent := [sample_post]\<rparr>"
  have "execute_body e (sample_provider answer) sample_claim (started (leased_db n d a)) =
      (case provider_answer answer of
         Inl err \<Rightarrow> (Inl err, s1)
       | Inr v \<Rightarrow> finish_call e sample_claim (sample_prep (Some 1700000007000)) (Some v) s1)"
    by (simp add: execute_body_def wbind_run [of "wdb _"] prep truthy_def)
      (simp add: execute_prepared_def wthen_def wbind_run sample_authorized dispatch create started_def s1_def split: sum.split)
  then show ?thesis
    by (intro exI [of _ s1]) (simp add: s1_def started_def)
qed

lemma sample_execute:
  assumes "clock e = clock sample_env" "paymentsEnabled e" "n < 50" "\<not> conflicts e (n + 1) 0" "d = None \<or> d = Some 1700000007000"
    and "d = None \<Longrightarrow> n = 5" "execute e (sample_provider answer) sample_claim (started (leased_db n d a)) = (r, s')"
  shows "posts s' = [sample_post]"
    and "answer = No_response \<Longrightarrow> (\<And>m k. 9 \<le> m \<Longrightarrow> conflicts e m k) \<Longrightarrow> n = 5 \<Longrightarrow> wd_db s' = leased_db 9 (Some 1700000007000) (a + 1)"
proof -
  have start: "(started w)\<lparr>wd_providerCallStarted := False, wd_providerPaymentId := None\<rparr> = started w" for w
    by (simp add: started_def)
  obtain s1 where body: "execute_body e (sample_provider answer) sample_claim (started (leased_db n d a)) =
      (case provider_answer answer of
         Inl err \<Rightarrow> (Inl err, s1)
       | Inr v \<Rightarrow> finish_call e sample_claim (sample_prep (Some 1700000007000)) (Some v) s1)"
    and s1: "wd_db s1 = leased_db (n + 4) (Some 1700000007000) (a + 1)" "wd_sent s1 = [sample_post]"
    using sample_attempt [OF assms(1-6), of answer] by blast
  have run: "wcatch (execute_body e (sample_provider answer) sample_claim) (recordFailure e sample_claim) (started (leased_db n d a)) = (r, s')"
    using assms(7) by (simp add: execute_def start)
  have "posts s1 = [sample_post]"
    by (simp add: posts_def s1)
  then show "posts s' = [sample_post]"
    using run body wstepsD [OF quiet_finish] wstepsD [OF quiet_recordFailure]
    by (auto simp: wcatch_def same_posts_def split: sum.splits prod.splits)
  assume busy: "answer = No_response" "\<And>m k. 9 \<le> m \<Longrightarrow> conflicts e m k" "n = 5"
  have "failProviderOperation e sample_claim failed (leased_db 9 (Some 1700000007000) (a + 1)) = Inl P2034" for failed
    using busy(2) by (simp add: failProviderOperation_def transaction_def numeral_2_eq_2 tx_simps find_operation_def)
  then have "recordFailure e sample_claim err s1 = (Inl (Thrown P2034), s1)" for err
    using s1 busy(3) by (cases "classifyFailure err (wd_providerCallStarted s1)")
      (simp add: recordFailure_def wbind_run wdb_def)
  then show "wd_db s' = leased_db 9 (Some 1700000007000) (a + 1)"
    using run body s1 busy by (simp add: wcatch_def provider_answer_def)
qed

lemma claimed_leased: "claimed_db = leased_db 5 None 0"
  by (simp add: leased_db_def claimed_db_def sample_leased_def lease_operation_def sample_operation_def new_operation_def)

lemma prepare_Inr:
  assumes "prepareProviderOperation e c w = Inr (PREPARED op, w')"
  obtains operation ord where "find_operation (cl_operationId c) w = Some operation"
    "find_order (op_orderId operation) w = Some ord" "prepared_of operation ord = Inr op" "w' = w\<lparr>tick := tick w + 1\<rparr>"
  using assms by (auto simp: prepareProviderOperation_def elim!: ownsLease_Inr)

text \<open>
  C17. For one claim the worker sends at most one request that creates a payment. It does so only when
  payments are enabled, the order is pending and not expired, its capacity fence and its renewal still
  stand, no payment of the order is known, CRM Access has just authorized exactly this operation, and
  the first dispatch was less than 23 hours ago; the request carries the amount, the customer and the
  idempotency key of the order.
\<close>

theorem payment_request_authorised:
  assumes "execute e p c s = (r, s')" "posts s' \<noteq> posts s"
  shows "\<exists>operation ord op rq m k n. find_operation (cl_operationId c) (wd_db s) = Some operation
    \<and> find_order (op_orderId operation) (wd_db s) = Some ord
    \<and> paymentsEnabled e \<and> o_status ord = O_PENDING \<and> clock e k < o_checkoutExpiresAt ord
    \<and> capacity_matches (find_account (o_workspaceId ord) (wd_db s)) (find_command (o_capacityCommandId ord) (wd_db s)) ord
    \<and> renewal_matches (find_renewal (o_workspaceId ord) (wd_db s)) ord
    \<and> \<not> truthy (payment_id_of operation ord)
    \<and> prepared_of operation ord = Inr op
    \<and> authorization_answer op (pv_access p (length (wd_asked s)) (authorization_body op)) = Inr ()
    \<and> clock e n - (case op_firstDispatchAt operation of None \<Rightarrow> clock e k | Some first \<Rightarrow> first) < PROVIDER_WINDOW_MS
    \<and> create_request_of operation ord = Inr rq
    \<and> posts s' = posts s @ [payment_post (create_input_of rq m) (o_providerIdempotencyKey ord)]"
proof -
  obtain op0 w1 op w2 rq at first m where run: "prepareProviderOperation e c (wd_db s) = Inr (PREPARED op0, w1)"
      "authorization_answer op0 (pv_access p (length (wd_asked s)) (authorization_body op0)) = Inr ()"
      "beginProviderDispatch e c w1 = Inr (PREPARED op, w2)" "pr_action op = CREATE" "pr_request op = Some rq"
      "pr_firstDispatchAt op = Some at" "Date_parse e at = Some first" "clock e (tick w2) - first < PROVIDER_WINDOW_MS"
      "posts s' = posts s @ [payment_post (create_input_of rq m) (pr_idempotencyKey op)]"
    by (rule execute_posts [OF assms])
  obtain operation ord where prep: "find_operation (cl_operationId c) (wd_db s) = Some operation"
      "find_order (op_orderId operation) (wd_db s) = Some ord" "prepared_of operation ord = Inr op0"
    and w1: "w1 = (wd_db s)\<lparr>tick := tick (wd_db s) + 1\<rparr>"
    by (rule prepare_Inr [OF run(1)])
  show ?thesis
    by (rule dispatch_CREATE [OF run(3,4)]) (use run prep w1 in auto)
qed

theorem payment_request_authorised_witness:
  "\<exists>r s' ord. execute sample_env (sample_provider No_response) sample_claim (started claimed_db) = (r, s')
     \<and> find_order (sample_uuid 0) claimed_db = Some ord \<and> o_status ord = O_PENDING \<and> posts s' = [sample_post]
     \<and> hr_idempotenceKey sample_post = Some (o_providerIdempotencyKey ord)"
proof -
  obtain r s' where run: "execute sample_env (sample_provider No_response) sample_claim (started claimed_db) = (r, s')"
    by fastforce
  have new: "posts s' = [sample_post]"
    by (rule sample_execute(1) [OF _ _ _ _ _ _ run [unfolded claimed_leased]]) simp_all
  moreover have "posts (started claimed_db) = []"
    by (simp add: posts_def started_def)
  ultimately have "posts s' \<noteq> posts (started claimed_db)"
    by simp
  from payment_request_authorised [OF run this] show ?thesis
    using run new by (auto simp: started_def find_order_def find_operation_def lease_operation_def)
qed

lemma terms_execute: "wsteps (on_db terms_kept) (execute e p c)"
proof -
  have db: "wsteps (on_db terms_kept) (wdb m)" if "steps terms_kept m" for m :: "'a op"
    unfolding wsteps_def wdb_def on_db_def using that
    by (auto split: sum.split prod.split intro: terms.step_refl dest: stepsD)
  have other [wsteps_intro]: "wsteps (on_db terms_kept) (authorize p op)" "wsteps (on_db terms_kept) (setPaymentId i)"
    "wsteps (on_db terms_kept) (wset (\<lambda>s. s\<lparr>wd_providerCallStarted := b\<rparr>))"
    "wsteps (on_db terms_kept) (wset (\<lambda>s. s\<lparr>wd_providerCallStarted := b, wd_providerPaymentId := i\<rparr>))"
    "wsteps (on_db terms_kept) (request p q)" for op i b q
    by (simp_all add: wsteps_def on_db_def authorize_def setPaymentId_def request_def terms.step_refl)
  have pages: "wsteps (on_db terms_kept) (receipt_pages p i n cursor seen items)" for i n cursor seen items
    by (induction n arbitrary: cursor seen items) (auto intro!: wsteps_intro other simp: Let_def)
  show ?thesis
    unfolding execute_def execute_body_def execute_prepared_def call_create_def call_read_def finish_call_def recordFailure_def
      createPayment_def getPayment_def getReceipts_def
    by (intro other pages db terms.row_prepare terms.row_dispatch terms.row_settle terms.row_fail wsteps_intro steps_intro)
qed

lemma same_request:
  assumes "create_request_of x ord = Inr rq" "create_request_of y ord' = Inr rq'"
    and "operation_terms y = operation_terms x" "order_terms ord' = order_terms ord"
  shows "rq' = rq \<and> o_providerIdempotencyKey ord' = o_providerIdempotencyKey ord"
proof -
  have "create_request_of y ord' = create_request_of x ord"
    using assms(3) order_terms_fields [OF assms(4)] by (simp add: create_request_of_def operation_terms_def cong del: sbind_weak_cong)
  then show ?thesis
    using assms(1,2) order_terms_fields [OF assms(4)] by simp
qed

text \<open>The request in terms of the rows before the run.\<close>

lemma execute_post_rows:
  assumes "execute e p c s = (r, s')" "posts s' \<noteq> posts s"
  obtains operation ord rq m where "find_operation (cl_operationId c) (wd_db s) = Some operation"
    "find_order (op_orderId operation) (wd_db s) = Some ord" "create_request_of operation ord = Inr rq"
    "\<forall>x. saved_method p (rq_paymentMethodCiphertext rq) x = (Inr m, x)"
    "posts s' = posts s @ [payment_post (create_input_of rq m) (o_providerIdempotencyKey ord)]"
proof -
  obtain op0 w1 op w2 rq m where run: "prepareProviderOperation e c (wd_db s) = Inr (PREPARED op0, w1)"
      "beginProviderDispatch e c w1 = Inr (PREPARED op, w2)" "pr_action op = CREATE" "pr_request op = Some rq"
      "\<forall>x. saved_method p (rq_paymentMethodCiphertext rq) x = (Inr m, x)"
      "posts s' = posts s @ [payment_post (create_input_of rq m) (pr_idempotencyKey op)]"
    by (rule execute_posts [OF assms])
  show thesis
    by (rule prepare_Inr [OF run(1)], rule dispatch_CREATE [OF run(2,3)]) (use run that in auto)
qed

text \<open>
  C18. A repeated attempt cannot become a second charge: when the worker sends the request that creates a
  payment for an operation, any calls of the services come in between, and the worker sends such a
  request for the same operation again, the second request is the first one, with the same body and
  the same idempotency key.
\<close>

theorem retry_repeats_request:
  assumes "execute e p c s = (r, s1)" "posts s1 \<noteq> posts s"
    and "(service_step e)\<^sup>*\<^sup>* (wd_db s1) (wd_db t)"
    and "execute e' p c' t = (r', t1)" "posts t1 \<noteq> posts t" "cl_operationId c' = cl_operationId c"
  shows "\<exists>q. posts s1 = posts s @ [q] \<and> posts t1 = posts t @ [q]"
proof -
  have kept: "terms_kept (wd_db s) (wd_db t)"
    using wstepsD [OF terms_execute assms(1)] terms.row_services [OF assms(3)] terms.step_trans by (auto simp: on_db_def)
  obtain x ord rq m where s: "find_operation (cl_operationId c) (wd_db s) = Some x" "find_order (op_orderId x) (wd_db s) = Some ord"
      "create_request_of x ord = Inr rq" "\<forall>x. saved_method p (rq_paymentMethodCiphertext rq) x = (Inr m, x)"
      "posts s1 = posts s @ [payment_post (create_input_of rq m) (o_providerIdempotencyKey ord)]"
    by (rule execute_post_rows [OF assms(1,2)])
  obtain y ord' rq' m' where t: "find_operation (cl_operationId c') (wd_db t) = Some y" "find_order (op_orderId y) (wd_db t) = Some ord'"
      "create_request_of y ord' = Inr rq'" "\<forall>x. saved_method p (rq_paymentMethodCiphertext rq') x = (Inr m', x)"
      "posts t1 = posts t @ [payment_post (create_input_of rq' m') (o_providerIdempotencyKey ord')]"
    by (rule execute_post_rows [OF assms(4,5)])
  have y: "operation_terms y = operation_terms x"
    using terms_find_operation [OF kept s(1)] t(1) assms(6) by simp
  then have "op_orderId y = op_orderId x"
    by (simp add: operation_terms_def)
  then have "order_terms ord' = order_terms ord"
    using terms_find_order [OF kept s(2)] t(2) by simp
  then have "rq' = rq" "o_providerIdempotencyKey ord' = o_providerIdempotencyKey ord"
    using same_request [OF s(3) t(3) y] by simp_all
  then show ?thesis
    using s(4,5) t(4,5) by auto
qed

theorem retry_repeats_request_witness:
  "\<exists>r s1 r' t1. execute busy_env (sample_provider No_response) sample_claim (started claimed_db) = (r, s1)
     \<and> execute sample_env (sample_provider No_response) sample_claim (started (wd_db s1)) = (r', t1) \<and> posts t1 = posts s1"
proof -
  obtain r s1 where run: "execute busy_env (sample_provider No_response) sample_claim (started claimed_db) = (r, s1)"
    by fastforce
  obtain r' t1 where run': "execute sample_env (sample_provider No_response) sample_claim (started (wd_db s1)) = (r', t1)"
    by fastforce
  have s1: "posts s1 = [sample_post]" "wd_db s1 = leased_db 9 (Some 1700000007000) 1"
    using sample_execute [OF _ _ _ _ _ _ run [unfolded claimed_leased]] by (simp_all add: busy_env_def)
  have t1: "posts t1 = [sample_post]"
    by (rule sample_execute(1) [OF _ _ _ _ _ _ run' [unfolded s1(2)]]) simp_all
  have "posts (started w) = []" for w
    by (simp add: posts_def started_def)
  then show ?thesis
    using retry_repeats_request [OF run _ _ run'] run run' s1 t1 by (auto simp: started_def)
qed

end
