(* ===== verification/Worker_Outcomes.thy ===== *)
theory Worker_Outcomes
  imports Worker_Properties
begin

text \<open>
  What becomes of an order and of the provider's answers: after the request that creates a payment was
  sent, the order is cancelled only on a definite answer; the receipts of a payment are the items of at
  most ten pages; an invalid message is put into quarantine once.
\<close>

section \<open>Cancellation after the request was sent\<close>

definition order_cancelled :: "jsstring \<Rightarrow> db \<Rightarrow> bool" where
  "order_cancelled i w = (case find_order i w of None \<Rightarrow> False | Some x \<Rightarrow> o_status x = O_CANCELLED)"

lemma order_cancelled_timeless [simp]: "order_cancelled i (w\<lparr>tick := n\<rparr>) = order_cancelled i w"
  by (simp add: order_cancelled_def)

abbreviation uncancelled :: "jsstring \<Rightarrow> db \<Rightarrow> db \<Rightarrow> bool" where
  "uncancelled i \<equiv> keeps (\<lambda>w. \<not> order_cancelled i w)"

interpretation unc: db_relation "uncancelled i" for i
  by unfold_locales (auto simp: keeps_def frame_def order_cancelled_def find_order_def)
















section \<open>Receipts\<close>

text \<open>
  The pages of a payment's receipts from the k-th request on: every page is a list of items, every page
  but the last names the next one by a cursor that was not used before, and the last one names none.
\<close>

definition page_answer :: "provider \<Rightarrow> jsstring \<Rightarrow> nat \<Rightarrow> jsstring option \<Rightarrow> jsval \<Rightarrow> bool" where
  "page_answer p i k cursor v \<longleftrightarrow>
     provider_answer (pv_fetch p k (get_request (RECEIPTS i RECEIPT_LIST_PAGE_LIMIT cursor))) = Inr v
     \<and> is_array (jsfield v ''items'')"

definition last_page :: "jsval \<Rightarrow> bool" where
  "last_page v \<longleftrightarrow> jsfield v ''next_cursor'' \<in> {JUndef, JNull, JStr []}"

fun pages_linked :: "provider \<Rightarrow> jsstring \<Rightarrow> nat \<Rightarrow> jsstring option \<Rightarrow> jsstring list \<Rightarrow> jsval list \<Rightarrow> bool" where
  "pages_linked p i k cursor seen [] = False"
| "pages_linked p i k cursor seen [v] = (page_answer p i k cursor v \<and> last_page v)"
| "pages_linked p i k cursor seen (v # u # vs) =
     (page_answer p i k cursor v \<and> \<not> last_page v \<and> cursor_ok (jsfield v ''next_cursor'') seen
      \<and> pages_linked p i (Suc k) (Some (as_str (jsfield v ''next_cursor''))) (as_str (jsfield v ''next_cursor'') # seen) (u # vs))"

definition page_items :: "jsval \<Rightarrow> jsval list" where
  "page_items v = array_items (jsfield v ''items'')"

definition receipts_of :: "jsval list \<Rightarrow> jsval list \<Rightarrow> jsval" where
  "receipts_of items pages = obj [(''type'', if jsfield (last pages) ''type'' \<in> {JUndef, JNull} then JStr (js ''list'')
       else jsfield (last pages) ''type''), (''items'', JArr (items @ concat (map page_items pages)))]"

lemma pages_linked_Cons:
  "pages_linked p i k cursor seen (v # vs) \<longleftrightarrow> page_answer p i k cursor v
     \<and> (if last_page v then vs = [] else cursor_ok (jsfield v ''next_cursor'') seen
        \<and> pages_linked p i (Suc k) (Some (as_str (jsfield v ''next_cursor''))) (as_str (jsfield v ''next_cursor'') # seen) vs)"
  by (cases vs) auto

lemma linked_nonempty: "pages_linked p i k cursor seen vs \<Longrightarrow> \<exists>u us. vs = u # us"
  by (cases vs) auto

lemma receipts_of_Cons: "vs \<noteq> [] \<Longrightarrow> receipts_of items (v # vs) = receipts_of (items @ page_items v) vs"
  by (simp add: receipts_of_def cong del: obj_weak_cong)

lemma receipt_pages_linked:
  assumes "pv_credentials p"
  shows "(\<exists>s'. receipt_pages p i n cursor seen items s = (Inr v, s')) \<longleftrightarrow>
    (\<exists>pages. length pages \<le> n \<and> pages_linked p i (length (wd_sent s)) cursor seen pages \<and> v = receipts_of items pages)"
proof (induction n arbitrary: cursor seen items s)
  case (Suc n)
  let ?q = "get_request (RECEIPTS i RECEIPT_LIST_PAGE_LIMIT cursor)"
  let ?s = "s\<lparr>wd_sent := wd_sent s @ [?q]\<rparr>"
  show ?case
  proof (cases "\<exists>u. page_answer p i (length (wd_sent s)) cursor u")
    case False
    then have "\<not> pages_linked p i (length (wd_sent s)) cursor seen pages" for pages
      by (cases pages) (auto simp: pages_linked_Cons)
    moreover have "receipt_pages p i (Suc n) cursor seen items s \<noteq> (Inr v, s')" for s'
      using False assms by (auto simp: page_answer_def wbind_run request_def split: sum.splits)
    ultimately show ?thesis
      by blast
  next
    case True
    then obtain u where u: "page_answer p i (length (wd_sent s)) cursor u"
      by blast
    then have only: "page_answer p i (length (wd_sent s)) cursor u' \<longleftrightarrow> u' = u" for u'
      by (auto simp: page_answer_def)
    let ?next = "jsfield u ''next_cursor''"
    have run: "receipt_pages p i (Suc n) cursor seen items s =
        (if last_page u then (Inr (receipts_of items [u]), ?s)
         else if \<not> cursor_ok ?next seen then (Inl (ProviderRequestError ''PROVIDER_RECEIPT_PAGINATION_INVALID'' False False), ?s)
         else receipt_pages p i n (Some (as_str ?next)) (as_str ?next # seen) (items @ page_items u) ?s)"
      using u assms by (simp add: page_answer_def wbind_run request_def Let_def last_page_def receipts_of_def page_items_def
          cong del: obj_weak_cong)
    have pages: "(\<exists>pages. length pages \<le> Suc n \<and> pages_linked p i (length (wd_sent s)) cursor seen pages \<and> v = receipts_of items pages)
        \<longleftrightarrow> (\<exists>vs. length vs \<le> n \<and> pages_linked p i (length (wd_sent s)) cursor seen (u # vs) \<and> v = receipts_of items (u # vs))"
      by (metis Suc_le_mono length_Cons linked_nonempty only pages_linked_Cons)
    show ?thesis
    proof (cases "last_page u")
      case True
      then show ?thesis
        unfolding run pages using u by (auto simp: pages_linked_Cons)
    next
      case False
      have more: "receipts_of items (u # vs) = receipts_of (items @ page_items u) vs"
        if "pages_linked p i k c cs vs" for k c cs vs
        using linked_nonempty [OF that] by (auto simp: receipts_of_Cons)
      show ?thesis
        unfolding run pages using u False Suc [of "Some (as_str ?next)" "as_str ?next # seen" "items @ page_items u" ?s]
        by (simp add: pages_linked_Cons) (use more in metis)
    qed
  qed
qed simp

lemma receipt_pages_bounded: "length (wd_sent (snd (receipt_pages p i n cursor seen items s))) \<le> length (wd_sent s) + n"
proof (induction n arbitrary: cursor seen items s)
  case (Suc n)
  show ?case
    using Suc [of "Some c" "c # seen" its "s\<lparr>wd_sent := wd_sent s @ [q]\<rparr>" for c its q]
    by (auto simp: wbind_run request_def Let_def split: sum.split)
qed simp

text \<open>
  C20. The receipts of a payment are read completely or not at all: \<open>getReceipts\<close> returns exactly when the
  provider's pages, each linked to the next by a fresh cursor, end within ten pages, and then it returns
  the items of all of them in order; it never sends more than ten requests.
\<close>

theorem receipts_complete:
  "((\<exists>s'. getReceipts p i s = (Inr v, s')) \<longleftrightarrow>
      pv_credentials p \<and> (\<exists>pages. length pages \<le> RECEIPT_LIST_MAX_PAGES
        \<and> pages_linked p i (length (wd_sent s)) None [] pages \<and> v = receipts_of [] pages))
    \<and> length (wd_sent (snd (getReceipts p i s))) \<le> length (wd_sent s) + RECEIPT_LIST_MAX_PAGES"
proof (cases "pv_credentials p")
  case True
  then show ?thesis
    unfolding getReceipts_def using receipt_pages_linked receipt_pages_bounded by auto
next
  case False
  then have "\<exists>err. getReceipts p i s = (Inl err, s)"
    by (simp add: getReceipts_def RECEIPT_LIST_MAX_PAGES_def numeral_eq_Suc wbind_run request_def)
  then show ?thesis
    using False by auto
qed

section \<open>Invalid messages\<close>

text \<open>A message that is delivered again is acknowledged and leaves nothing behind.\<close>

lemma quarantined_once:
  assumes "handle e p m s = (Inr a, s1)" "parseWincrmProviderMessage m = None"
  shows "a = ACK" and "handle e p m s1 = (Inr b, s2) \<Longrightarrow> s2 = s1"
    and "iv_eventId ` set (wd_invalid s1) = insert (invalid_event_id (pv_contentHash p (ms_content m))) (iv_eventId ` set (wd_invalid s))"
  using assms
  by (auto simp: image_iff handle_def quarantineInvalidMessage_def wthen_def wbind_run wdb_def randomUUID_def new_date_def Let_def
      split: if_splits sum.splits) metis

end
