(* ===== verification/Payments.thy ===== *)
theory Payments
  imports Provider_Properties
begin

text \<open>
  Which calls create paid periods, and from what: no call but the settlement of a provider operation
  adds a paid period, and it does so only for a response that is bound to the order and reports the
  payment as captured.
\<close>

section \<open>Only a settlement creates paid periods\<close>

abbreviation period_ids :: "db \<Rightarrow> jsstring list" where
  "period_ids w \<equiv> map p_id (periods w)"

lemma update_period_ids:
  assumes "\<And>x. p_id (f x) = p_id x"
  shows "steps (same period_ids) (update_period P f)"
  by (rule stepsI) (auto simp: same_def update_period_def tb_periods.update_row_Inr assms)

interpretation same_ids: core_relation "same period_ids"
  by unfold_locales (auto simp: same_def frame_def intro: update_period_ids)

lemma id_frames [simp]:
  "frame (same period_ids) accounts_update" "frame (same period_ids) orders_update"
  "frame (same period_ids) renewals_update" "frame (same period_ids) contacts_update"
  by simp_all

lemma cancelOrder_ids: "steps (same period_ids) (cancelOrder e ord reason)"
  unfolding cancelOrder_def cancel_recurring_def by (intro id_frames same_ids.core_frames steps_intro)

lemma settles_or_same_ids:
  assumes "service_step e w w'"
  shows "period_ids w' = period_ids w \<or> (\<exists>c value r. settleProviderOperation e c value w = Inr (r, w'))"
proof -
  have seats: "steps (same period_ids) (changeSeats_body e dto t h)" for dto t h
    unfolding changeSeats_body_def changeSeats_renewal_def
    by (intro update_period_ids id_frames same_ids.core_frames steps_intro) (simp add: reseat_period_def)
  have extend: "steps (same period_ids) (extend_tx e ws dto ctx role h)" for ws dto ctx role h
  proof (rule same_ids.steps_extend_tx)
    have period: "steps (same period_ids) (extend_period e ws pid x)" for pid x
      unfolding extend_period_def
      by (intro update_period_ids same_ids.core_frames steps_intro) (simp add: extend_period_row_def)
    have account: "steps (same period_ids) (update_row accounts accounts_update P2025 P f)" for P f
      by (rule same_ids.steps_update) (simp add: same_def)
    show "steps (same period_ids) (extend_grant e ws dto ctx role h before)" for before
      unfolding extend_grant_def
      by (intro period account same_ids.steps_extend_target same_ids.steps_extend_record id_frames steps_intro)
  qed
  have "same period_ids w w' \<or> (\<exists>c value r. settleProviderOperation e c value w = Inr (r, w'))"
  proof (rule same_ids.service_step_or_settle [OF _ seats _ _ _ _ _ _ extend _ assms])
    show "steps (same period_ids) (checkout_body e dto ''WINCRM_CHECKOUT'' h)" for dto h
      by (intro same_ids.steps_checkout_body id_frames steps_intro) (simp add: bump_account_def steps_intro)
    show "steps (same period_ids) (renewalCommand_body e dto c type h)" for dto c type h
      by (intro same_ids.steps_renewalCommand_body id_frames steps_intro) (simp add: bump_account_def steps_intro)
    show "steps (same period_ids) (verifyOrder e dto)" for dto
      by (intro same_ids.steps_verifyOrder id_frames steps_intro) (simp add: bump_account_def steps_intro)
    show "steps (same period_ids) (closeCommand e dto)" for dto
      by (intro same_ids.steps_closeCommand id_frames steps_intro)
    show "steps (same period_ids) (dispatch_tx e c)" for c
      unfolding dispatch_tx_def
      by (intro same_ids.steps_owned_operation same_ids.steps_dispatch_create cancelOrder_ids id_frames steps_intro)
    show "steps (same period_ids) (fail_tx e c failed)" for c failed
      unfolding fail_tx_def Let_def
      by (intro same_ids.steps_owned_operation same_ids.steps_fail_retry same_ids.steps_fail_final cancelOrder_ids
          id_frames steps_intro)
    show "steps (same period_ids) (charge_tx e ws)" for ws
      by (intro same_ids.steps_charge id_frames steps_intro)
  qed simp
  then show ?thesis
    by (simp add: same_def)
qed

section \<open>What a settlement pays for\<close>

text \<open>A paid period but for the time of its announcement.\<close>

definition quiet :: "period_row \<Rightarrow> period_row" where
  "quiet p = p\<lparr>p_activationNotifiedAt := None\<rparr>"

interpretation same_quiet: core_relation "same (\<lambda>w. map quiet (periods w))"
proof unfold_locales
  show "steps (same (\<lambda>w. map quiet (periods w)))
      (update_period (\<lambda>x. p_id x = k) (\<lambda>x. x\<lparr>p_activationNotifiedAt := Some t\<rparr>))" for k t
    by (rule stepsI) (auto simp: same_def update_period_def tb_periods.update_row_Inr quiet_def)
qed (auto simp: same_def frame_def)

lemma quiet_fields:
  assumes "quiet p = quiet q"
  shows "p_id p = p_id q \<and> p_orderId p = p_orderId q \<and> p_workspaceId p = p_workspaceId q \<and> p_cycle p = p_cycle q
    \<and> p_totalSeats p = p_totalSeats q \<and> p_priceSnapshot p = p_priceSnapshot q \<and> p_startsAt p = p_startsAt q
    \<and> p_expiresAt p = p_expiresAt q"
  using assms by (cases p, cases q) (simp add: quiet_def)

lemma fulfill_new_period:
  assumes run: "fulfill e ord provider w = Inr (u, w')" and p: "p \<in> set (periods w')" "p_id p \<notin> set (period_ids w)"
  shows "o_status ord \<noteq> O_SUCCEEDED \<and> p_orderId p = o_id ord \<and> p_workspaceId p = o_workspaceId ord
    \<and> p_cycle p = o_cycle ord \<and> p_totalSeats p = o_totalSeats ord \<and> p_priceSnapshot p = o_priceSnapshot ord
    \<and> wincrmPeriodEnd (timeClip (p_startsAt p)) (o_cycle ord) = Inr (p_expiresAt p) \<and> clock e (tick w) \<le> p_startsAt p"
proof -
  have unpaid: "o_status ord \<noteq> O_SUCCEEDED"
    using run p by (auto simp: fulfill_def)
  obtain snapshot startsAt expiresAt newId w1 where f:
      "startsAt = period_start (find_entitlement (o_workspaceId ord) w) (clock e (tick w))"
      "wincrmPeriodEnd (timeClip startsAt) (o_cycle ord) = Inr expiresAt"
      "periods w1 = periods w @ [paid_period ord snapshot startsAt expiresAt newId]"
      "same (\<lambda>w. map quiet (periods w)) w1 w'"
    by (rule same_quiet.fulfill_effect [OF _ _ run unpaid]) simp_all
  have "quiet p \<in> set (map quiet (periods w1))"
    using p(1) sameD [OF f(4)] by (metis (no_types, lifting) image_eqI list.set_map)
  then obtain q where q: "q \<in> set (periods w1)" "quiet p = quiet q"
    by auto
  have id: "p_id p = p_id q"
    using quiet_fields [OF q(2)] by simp
  then have "q = paid_period ord snapshot startsAt expiresAt newId"
    using p(2) q(1) by (auto simp: f(3))
  moreover have "p_orderId p = p_orderId q" "p_workspaceId p = p_workspaceId q" "p_cycle p = p_cycle q"
    "p_totalSeats p = p_totalSeats q" "p_priceSnapshot p = p_priceSnapshot q" "p_startsAt p = p_startsAt q"
    "p_expiresAt p = p_expiresAt q"
    using quiet_fields [OF q(2)] by simp_all
  ultimately show ?thesis
    using unpaid f(1,2) by (simp add: paid_period_def period_start_def)
qed

lemma settle_ids:
  "steps (same period_ids) (settle_sync e operation ord c value)"
  "steps (same period_ids) (settle_canceled e operation ord c value)"
  "steps (same period_ids) (settle_pending e operation ord c value)"
  by (intro same_ids.steps_settle_sync same_ids.steps_settle_canceled same_ids.steps_settle_pending cancelOrder_ids
      id_frames steps_intro)+

lemma settle_succeeded_Inr:
  assumes "settle_succeeded e operation ord c value w = Inr (r, w')"
  obtains u w1 where "jsfield value ''paid'' = JBool True" "fulfill e ord value w = Inr (u, w1)" "periods w' = periods w1"
proof -
  have fin: "steps (same periods) (finish e (op_id operation) c P_SUCCEEDED None)"
    and enq: "steps (same periods) (enqueue e ord SYNC_RECEIPT k pid None)" for k pid
    unfolding finish_def by (intro steps_intro; simp)+
  show thesis
    using assms that unfolding settle_succeeded_def
    by (auto simp: same_def dest!: stepsD [OF fin] stepsD [OF enq])
qed

lemma settle_new_period:
  assumes run: "settle_tx e c value w = Inr (r, w')" and p: "p \<in> set (periods w')" "p_id p \<notin> set (period_ids w)"
  obtains operation until ord amount where "find_operation (cl_operationId c) w = Some operation"
    "held c until operation" "clock e (tick w) < until"
    "find_order (op_orderId operation) w = Some ord" "o_status ord \<noteq> O_SUCCEEDED"
    "response_shape ord value" "wincrmDecimal (o_amountMinor ord) = Inr amount" "response_bound operation ord value amount"
    "jsfield value ''status'' = JStr (js ''succeeded'')" "jsfield value ''paid'' = JBool True"
    "p_orderId p = o_id ord \<and> p_workspaceId p = o_workspaceId ord \<and> p_cycle p = o_cycle ord
      \<and> p_totalSeats p = o_totalSeats ord \<and> p_priceSnapshot p = o_priceSnapshot ord
      \<and> wincrmPeriodEnd (timeClip (p_startsAt p)) (o_cycle ord) = Inr (p_expiresAt p) \<and> clock e (tick w + 1) \<le> p_startsAt p"
proof -
  obtain operation ord w1 where own: "owned_operation e c w = Inr ((operation, ord), w1)"
    using run by (auto simp: settle_tx_def)
  then obtain until where lease: "find_operation (cl_operationId c) w = Some operation" "held c until operation"
      "clock e (tick w) < until"
    and order: "find_order (op_orderId operation) w = Some ord" and w1: "periods w1 = periods w" "tick w1 = tick w + 1"
    by (auto simp: held_def elim!: owned_operation_Inr)
  have kind: "op_kind operation \<noteq> SYNC_RECEIPT"
  proof
    assume "op_kind operation = SYNC_RECEIPT"
    then have "settle_sync e operation ord c value w1 = Inr (r, w')"
      using run own by (simp add: settle_tx_def tx_simps)
    from sameD [OF stepsD [OF settle_ids(1) this]] show False
      using p w1 by (metis image_eqI list.set_map)
  qed
  then obtain amount x w2 where shape: "response_shape ord value" "wincrmDecimal (o_amountMinor ord) = Inr amount"
      "response_bound operation ord value amount"
    and up: "update_operation (\<lambda>x. op_id x = op_id operation)
        (\<lambda>x. x\<lparr>op_providerPaymentId := Some (as_str (jsfield value ''id''))\<rparr>) w1 = Inr (x, w2)"
    and rest: "(if jsfield value ''status'' = JStr (js ''succeeded'') then settle_succeeded e operation ord c value
        else if jsfield value ''status'' = JStr (js ''canceled'') then settle_canceled e operation ord c value
        else settle_pending e operation ord c value) w2 = Inr (r, w')"
    using run own by (auto simp: settle_tx_def split del: if_split)
  have w2: "periods w2 = periods w" "tick w2 = tick w + 1"
    using up w1 by (auto simp: update_operation_def tb_operations.update_row_Inr)
  have "jsfield value ''status'' = JStr (js ''succeeded'')"
  proof (rule ccontr)
    assume "jsfield value ''status'' \<noteq> JStr (js ''succeeded'')"
    then have "same period_ids w2 w'"
      using rest by (auto split: if_splits intro: stepsD [OF settle_ids(2)] stepsD [OF settle_ids(3)])
    then show False
      using p w2 by (metis image_eqI list.set_map sameD)
  qed
  moreover from this rest obtain u w3 where paid: "jsfield value ''paid'' = JBool True"
    and f: "fulfill e ord value w2 = Inr (u, w3)" and w3: "periods w' = periods w3"
    by (auto elim: settle_succeeded_Inr)
  moreover have "p \<in> set (periods w3)" "p_id p \<notin> set (period_ids w2)"
    using p w2 w3 by simp_all
  ultimately show thesis
    using that [OF lease order _ shape] fulfill_new_period [OF f] w2(2) by auto
qed

text \<open>
  C21. Nothing but a payment buys a period: when a call adds a paid period, the call is the settlement,
  under a claim that holds its operation (in process, with the claim's token, version and event, the lease
  running at a reading of the clock during the call), of a provider response that is bound to the unpaid
  order of that operation (its id, product, plan, cycle, kind, currency and exact amount) and reports the
  payment as succeeded and paid; the new period is for the order's workspace, cycle, seats and price list,
  and lasts one cycle from the next reading of the clock or later.
\<close>

theorem period_needs_payment:
  assumes "service_step e w w'" "p \<in> set (periods w')" "p_id p \<notin> p_id ` set (periods w)"
  shows "\<exists>c value r operation until ord amount k. settleProviderOperation e c value w = Inr (r, w')
    \<and> find_operation (cl_operationId c) w = Some operation \<and> held c until operation
    \<and> tick w \<le> k \<and> clock e k < until
    \<and> find_order (op_orderId operation) w = Some ord \<and> o_status ord \<noteq> O_SUCCEEDED
    \<and> response_shape ord value \<and> response_bound operation ord value amount
    \<and> wincrmDecimal (o_amountMinor ord) = Inr amount
    \<and> jsfield value ''status'' = JStr (js ''succeeded'') \<and> jsfield value ''paid'' = JBool True
    \<and> p_orderId p = o_id ord \<and> p_workspaceId p = o_workspaceId ord \<and> p_cycle p = o_cycle ord
    \<and> p_totalSeats p = o_totalSeats ord \<and> p_priceSnapshot p = o_priceSnapshot ord
    \<and> wincrmPeriodEnd (timeClip (p_startsAt p)) (o_cycle ord) = Inr (p_expiresAt p) \<and> clock e (k + 1) \<le> p_startsAt p"
proof -
  have "period_ids w' \<noteq> period_ids w"
    using assms(2,3) by (metis image_eqI list.set_map)
  then obtain c provider r where settle: "settleProviderOperation e c provider w = Inr (r, w')"
    using settles_or_same_ids [OF assms(1)] by blast
  then have "transaction e (settle_tx e c provider) w = Inr (r, w')"
    by (auto simp: settleProviderOperation_def del: transaction_InrE)
  then obtain i j where later: "tick w \<le> i" and tx: "settle_tx e c provider (w\<lparr>tick := i, fresh := j\<rparr>) = Inr (r, w')"
    by (rule transaction_laterE)
  show ?thesis
  proof (rule settle_new_period [OF tx assms(2)])
    show "p_id p \<notin> set (period_ids (w\<lparr>tick := i, fresh := j\<rparr>))"
      using assms(3) by simp
  qed (use settle later in \<open>simp, blast\<close>)
qed

theorem period_needs_payment_witness:
  "\<exists>w' p c operation until. service_step sample_env claimed_db w' \<and> p \<in> set (periods w') \<and> p_id p \<notin> p_id ` set (periods claimed_db)
     \<and> (\<exists>value. jsfield value ''paid'' = JBool True \<and> p_orderId p = sample_uuid 0)
     \<and> find_operation (cl_operationId c) claimed_db = Some operation \<and> held c until operation"
proof -
  obtain w' where run: "settleProviderOperation sample_env sample_claim sample_payment claimed_db = Inr ((), w')"
    and "length (periods w') = 1"
    by (rule settle_run)
  then obtain p where p: "p \<in> set (periods w')"
    by (cases "periods w'") auto
  have step: "service_step sample_env claimed_db w'"
    by (rule step_settle [OF run])
  have new: "p_id p \<notin> p_id ` set (periods claimed_db)"
    by simp
  obtain c v operation until ord where paid: "find_operation (cl_operationId c) claimed_db = Some operation" "held c until operation"
    "find_order (op_orderId operation) claimed_db = Some ord" "jsfield v ''paid'' = JBool True" "p_orderId p = o_id ord"
    using period_needs_payment [OF step p new] by (elim exE conjE) (rule that; assumption)
  have "o_id ord = sample_uuid 0"
    using paid(3) by (auto simp: find_order_def split: if_splits)
  then show ?thesis
    using step p new paid by metis
qed

end
