(* ===== verification/Row_Invariant.thy ===== *)
theory Row_Invariant
  imports Service
begin

text \<open>
  Invariants of the rows of the orders and of the renewals. The locale \<open>row_invariant\<close> states what a
  property of order rows and a property of renewal rows must satisfy for every write of the services;
  its lemma \<open>reachable_rows\<close> then gives both properties in every reachable state. Two interpretations
  follow: the amounts are the prices of the stored price lists, and the repeated charges follow the
  schedule of 24 and 72 hours.
\<close>

section \<open>Runs from a precondition\<close>

definition valid :: "(db \<Rightarrow> bool) \<Rightarrow> 'a op \<Rightarrow> (db \<Rightarrow> bool) \<Rightarrow> bool" where
  "valid P m Q \<longleftrightarrow> (\<forall>w x w'. P w \<longrightarrow> m w = Inr (x, w') \<longrightarrow> Q w')"

lemma valid_keeps: "valid I m I \<longleftrightarrow> steps (keeps I) m"
  by (auto simp: valid_def steps_def keeps_def)

lemma validI: "(\<And>w x w'. P w \<Longrightarrow> m w = Inr (x, w') \<Longrightarrow> Q w') \<Longrightarrow> valid P m Q"
  by (auto simp: valid_def)

lemma valid_pre: "valid P m Q \<Longrightarrow> (\<And>w. P' w \<Longrightarrow> P w) \<Longrightarrow> valid P' m Q"
  by (auto simp: valid_def)

lemma valid_bnd: "valid P m P' \<Longrightarrow> (\<And>x. valid P' (f x) Q) \<Longrightarrow> valid P (bnd m f) Q"
  unfolding valid_def bnd_Inr by blast

lemma valid_thn: "valid P m P' \<Longrightarrow> valid P' k Q \<Longrightarrow> valid P (thn m k) Q"
  unfolding thn_def by (rule valid_bnd)

text \<open>The precondition survives a prefix that keeps it.\<close>

lemma valid_keep:
  "steps (keeps P) m \<Longrightarrow> (\<And>x. valid P (f x) Q) \<Longrightarrow> valid P (bnd m f) Q"
  "steps (keeps P) m \<Longrightarrow> valid P k Q \<Longrightarrow> valid P (thn m k) Q"
  unfolding valid_def steps_def keeps_def bnd_Inr thn_Inr by blast+

lemma valid_gets: "(\<And>x. valid (\<lambda>w. P w \<and> g w = x) (f x) Q) \<Longrightarrow> valid P (bnd (gets g) f) Q"
  unfolding valid_def by auto

lemma valid_lift_sum: "(\<And>x. v = Inr x \<Longrightarrow> valid P (f x) Q) \<Longrightarrow> valid P (bnd (lift_sum v) f) Q"
  unfolding valid_def by (cases v) auto

lemma valid_check: "(c \<Longrightarrow> valid P k Q) \<Longrightarrow> valid P (thn (check err c) k) Q"
  unfolding valid_def by (cases c) auto

lemma valid_if: "(c \<Longrightarrow> valid P a Q) \<Longrightarrow> (\<not> c \<Longrightarrow> valid P b Q) \<Longrightarrow> valid P (if c then a else b) Q"
  by simp

section \<open>Rows of orders and renewals\<close>

definition rows_ok :: "(order_row \<Rightarrow> bool) \<Rightarrow> (renewal_row \<Rightarrow> bool) \<Rightarrow> db \<Rightarrow> bool" where
  "rows_ok OK RK w \<longleftrightarrow>
     (\<forall>x\<in>set (orders w). OK x) \<and> (\<forall>r\<in>set (renewals w). RK r) \<and> distinct (map r_workspaceId (renewals w))"

lemma rows_ok_cong: "orders w' = orders w \<Longrightarrow> renewals w' = renewals w \<Longrightarrow> rows_ok OK RK w' = rows_ok OK RK w"
  by (simp add: rows_ok_def)

lemma notify_rows:
  assumes "update_period P f w = Inr (r, w')"
  shows "orders w' = orders w \<and> renewals w' = renewals w"
  using assms by (auto simp: update_period_def tb_periods.update_row_Inr)

interpretation rows: core_relation "keeps (rows_ok OK RK)" for OK RK
proof unfold_locales
  show "keeps (rows_ok OK RK) w w" for w
    by (simp add: keeps_def)
  show "keeps (rows_ok OK RK) a b \<Longrightarrow> keeps (rows_ok OK RK) b c \<Longrightarrow> keeps (rows_ok OK RK) a c" for a b c
    by (simp add: keeps_def)
  show "steps (keeps (rows_ok OK RK)) (update_period (\<lambda>x. p_id x = k) (\<lambda>x. x\<lparr>p_activationNotifiedAt := Some t\<rparr>))" for k t
    by (rule stepsI) (auto simp: keeps_def rows_ok_def dest!: notify_rows)
qed (simp_all add: keeps_def frame_def rows_ok_def)

text \<open>The invariant together with the row of a workspace's renewal, while nothing writes to renewals.\<close>

definition renewal_is :: "(order_row \<Rightarrow> bool) \<Rightarrow> (renewal_row \<Rightarrow> bool) \<Rightarrow> jsstring \<Rightarrow> renewal_row option \<Rightarrow> db \<Rightarrow> bool" where
  "renewal_is OK RK ws r w \<longleftrightarrow> rows_ok OK RK w \<and> find_renewal ws w = r"

interpretation renewal_row: core_relation "keeps (renewal_is OK RK ws r)" for OK RK ws r
proof unfold_locales
  show "keeps (renewal_is OK RK ws r) w w" for w
    by (simp add: keeps_def)
  show "keeps (renewal_is OK RK ws r) a b \<Longrightarrow> keeps (renewal_is OK RK ws r) b c \<Longrightarrow> keeps (renewal_is OK RK ws r) a c" for a b c
    by (simp add: keeps_def)
  show "steps (keeps (renewal_is OK RK ws r)) (update_period (\<lambda>x. p_id x = k) (\<lambda>x. x\<lparr>p_activationNotifiedAt := Some t\<rparr>))" for k t
    by (rule stepsI) (auto simp: keeps_def rows_ok_def renewal_is_def find_renewal_def dest!: notify_rows)
qed (simp_all add: keeps_def frame_def rows_ok_def renewal_is_def find_renewal_def)

lemma rows_frames [simp]:
  "frame (keeps (rows_ok OK RK)) accounts_update" "frame (keeps (rows_ok OK RK)) periods_update"
  "frame (keeps (rows_ok OK RK)) contacts_update" "frame (keeps (renewal_is OK RK ws r)) accounts_update"
  "frame (keeps (renewal_is OK RK ws r)) periods_update"
  by (simp_all add: keeps_def frame_def rows_ok_def renewal_is_def find_renewal_def)

subsection \<open>Writes\<close>

lemma keeps_create_order: "OK row \<Longrightarrow> steps (keeps (rows_ok OK RK)) (create_order row)"
  by (rule stepsI) (auto simp: keeps_def rows_ok_def create_order_def tb_orders.create_row_Inr)

lemma keeps_update_order:
  assumes "\<And>x. OK x \<Longrightarrow> OK (f x)"
  shows "steps (keeps (rows_ok OK RK)) (update_order oid f)"
  by (rule stepsI) (auto simp: keeps_def rows_ok_def update_order_def tb_orders.update_row_Inr set_upd_rows assms
      split: option.splits if_splits)

lemma keeps_updateMany_order:
  assumes "\<And>x. OK x \<Longrightarrow> OK (f x)"
  shows "steps (keeps (rows_ok OK RK)) (updateMany_order P f)"
  by (rule stepsI) (auto simp: keeps_def rows_ok_def updateMany_order_def tb_orders.update_many_Inr set_upd_rows assms)

lemma keeps_update_renewal:
  assumes "\<And>r. RK r \<Longrightarrow> RK (f r)" "\<And>r. r_workspaceId (f r) = r_workspaceId r"
  shows "steps (keeps (rows_ok OK RK)) (update_renewal ws f)"
  by (rule stepsI) (auto simp: keeps_def rows_ok_def update_renewal_def tb_renewals.update_row_Inr set_upd_rows assms)

lemma keeps_upsert_renewal:
  assumes "RK row" "r_workspaceId row = ws" "\<And>r. RK r \<Longrightarrow> RK (f r)" "\<And>r. r_workspaceId (f r) = r_workspaceId r"
  shows "steps (keeps (rows_ok OK RK)) (upsert_renewal ws row f)"
proof (rule stepsI)
  fix w r w'
  assume run: "upsert_renewal ws row f w = Inr (r, w')"
  have "orders w' = orders w"
    using run by (auto simp: upsert_renewal_def upsert_row_def split: option.splits)
  moreover have "renewals w' = (if \<exists>x\<in>set (renewals w). r_workspaceId x = ws
      then upd_rows (\<lambda>x. r_workspaceId x = ws) f (renewals w) else renewals w @ [row])"
    using run unfolding upsert_renewal_def by (rule tb_renewals.upsert_row_get)
  ultimately show "keeps (rows_ok OK RK) w w'"
    using assms by (auto simp: keeps_def rows_ok_def set_upd_rows split: if_splits)
qed

text \<open>A write computed from the row that was read.\<close>

lemma valid_update_found:
  assumes "RK r0 \<Longrightarrow> RK (f r0)" "\<And>r. r_workspaceId (f r) = r_workspaceId r"
  shows "valid (renewal_is OK RK ws (Some r0)) (update_renewal ws f) (rows_ok OK RK)"
proof (rule validI)
  fix w x w'
  assume pre: "renewal_is OK RK ws (Some r0) w" and run: "update_renewal ws f w = Inr (x, w')"
  have r0: "r0 \<in> set (renewals w)" "r_workspaceId r0 = ws"
    using pre find_Some_D by (fastforce simp: renewal_is_def find_renewal_def)+
  have "r = r0" if "r \<in> set (renewals w)" "r_workspaceId r = ws" for r
    using pre that r0 by (auto simp: renewal_is_def rows_ok_def distinct_map inj_on_def)
  then show "rows_ok OK RK w'"
    using pre run assms
    by (auto simp: renewal_is_def rows_ok_def update_renewal_def tb_renewals.update_row_Inr set_upd_rows)
qed

lemma keeps_found_renewal:
  assumes "\<And>r. valid (renewal_is OK RK ws r) (k r) (rows_ok OK RK)"
  shows "steps (keeps (rows_ok OK RK)) (bnd (gets (find_renewal ws)) k)"
  unfolding valid_keeps [symmetric]
  by (rule valid_gets) (rule valid_pre [OF assms], simp add: renewal_is_def)

lemma valid_found:
  "(\<And>x. valid (renewal_is OK RK ws (Some x)) (f x) Q) \<Longrightarrow>
     valid (renewal_is OK RK ws r) (bnd (the_or err r) f) Q"
  unfolding valid_def by (cases r) auto

lemma renewal_is_RK: "renewal_is OK RK ws (Some r) w \<Longrightarrow> RK r"
  using find_Some_D by (fastforce simp: renewal_is_def rows_ok_def find_renewal_def)

lemma valid_from_rows:
  assumes "r \<noteq> None \<Longrightarrow> RK (the r) \<Longrightarrow> steps (keeps (rows_ok OK RK)) m" "r = None \<Longrightarrow> steps (keeps (rows_ok OK RK)) m"
  shows "valid (renewal_is OK RK ws r) m (rows_ok OK RK)"
proof (rule validI)
  fix w x w'
  assume pre: "renewal_is OK RK ws r w" and run: "m w = Inr (x, w')"
  have "steps (keeps (rows_ok OK RK)) m"
    using assms pre renewal_is_RK by (cases r) force+
  then have "keeps (rows_ok OK RK) w w'"
    using run by (rule stepsD)
  then show "rows_ok OK RK w'"
    using pre by (simp add: keeps_def renewal_is_def)
qed

lemma keeps_owned:
  assumes "\<And>operation ord. OK ord \<Longrightarrow> steps (keeps (rows_ok OK RK)) (k operation ord)"
  shows "steps (keeps (rows_ok OK RK)) (bnd (owned_operation e c) (\<lambda>(operation, ord). k operation ord))"
proof (rule stepsI)
  fix w x w'
  assume "bnd (owned_operation e c) (\<lambda>(operation, ord). k operation ord) w = Inr (x, w')"
  then obtain operation ord w1 where own: "owned_operation e c w = Inr ((operation, ord), w1)"
    and run: "k operation ord w1 = Inr (x, w')"
    by auto
  have w1: "keeps (rows_ok OK RK) w w1"
    using rows.steps_owned_operation own by (rule stepsD)
  have "ord \<in> set (orders w)"
    using own by (auto simp: owned_operation_def load_operation_def find_order_def dest!: find_Some_D)
  then have OK: "rows_ok OK RK w \<Longrightarrow> OK ord"
    by (simp add: rows_ok_def)
  have "keeps (rows_ok OK RK) w1 w'" if "rows_ok OK RK w"
    using assms [OF OK [OF that]] run by (rule stepsD)
  then show "keeps (rows_ok OK RK) w w'"
    using w1 by (simp add: keeps_def)
qed

section \<open>The interface\<close>

text \<open>
  What a property \<open>OK\<close> of order rows and a property \<open>RK\<close> of renewal rows promise: new orders and
  renewals have them, and every change of a row keeps them.
\<close>

locale row_invariant =
  fixes e :: env and OK :: "order_row \<Rightarrow> bool" and RK :: "renewal_row \<Rightarrow> bool"
  assumes new_order: "wincrmPrice (wincrmPriceSnapshot policy) (as_cycle (jsfield dto ''cycle''))
        (as_int (jsfield dto ''totalSeats'')) = Inr amount \<Longrightarrow>
        OK (checkout_order e dto policy identity now oid amount t)"
    and new_recurring: "RK r \<Longrightarrow> readWincrmPriceSnapshot (r_priceSnapshot r) = Inr s \<Longrightarrow>
        OK (recurring_order e r account identity s now oid cid t)"
    and order_closed: "OK x \<Longrightarrow> OK (close_order x)"
    and order_unknown: "OK x \<Longrightarrow> OK (unknown_order x)"
    and order_cancelled: "OK x \<Longrightarrow> OK (cancelled_order reason x)"
    and order_reported: "OK x \<Longrightarrow> OK (reported_order pid st x)"
    and order_succeeded: "OK x \<Longrightarrow> OK (succeeded_order pid t x)"
    and order_pending: "OK x \<Longrightarrow> confirmationUrl e v pid = Inr u \<Longrightarrow> OK (pending_again pid st u x)"
    and renewal_disabled: "RK r \<Longrightarrow> RK (disable_renewal t r)"
    and renewal_renewed: "RK r \<Longrightarrow> RK (renewed t r)"
    and renewal_extended: "RK r \<Longrightarrow> RK (extend_renewal t r)"
    and renewal_paused: "RK r \<Longrightarrow> RK (r\<lparr>r_status := rs, r_lastErrorCode := code, r_version := n\<rparr>)"
    and renewal_dispatched: "RK r \<Longrightarrow> RK (r\<lparr>r_dispatchPending := True, r_version := n\<rparr>)"
    and renewal_failed: "RK r \<Longrightarrow> RK (charge_failed r t reason r)"
    and renewal_reseated: "RK r \<Longrightarrow> readWincrmPriceSnapshot (r_priceSnapshot r) = Inr s \<Longrightarrow>
        wincrmPrice s (r_cycle r) seats = Inr amount \<Longrightarrow> RK (reseat_renewal seats amount t r)"
    and renewal_confirmed: "RK r \<Longrightarrow>
        wincrmPrice (wincrmPriceSnapshot policy) (r_cycle r) (r_totalSeats r) = Inr amount \<Longrightarrow>
        RK (confirm_renewal amount (wincrmPriceSnapshot policy) t r)"
    and renewal_enabled: "OK ord \<Longrightarrow> RK (enabled_renewal ord t cipher title l (blank_renewal ws newId))"
    and renewal_reenabled: "OK ord \<Longrightarrow> RK r \<Longrightarrow> RK ((enabled_renewal ord t cipher title l r)\<lparr>r_version := n\<rparr>)"
begin

lemma keeps_checkout: "steps (keeps (rows_ok OK RK)) (checkout_body e dto type hash)"
proof -
  have priced: "steps (keeps (rows_ok OK RK)) (bnd (lift_sum (wincrmPrice (wincrmPriceSnapshot policy)
      (as_cycle (jsfield dto ''cycle'')) (as_int (jsfield dto ''totalSeats'')))) (\<lambda>amount.
      bnd (new_date e) (\<lambda>t. bnd (create_order (checkout_order e dto policy identity now oid amount t)) k)))"
    if "\<And>x. steps (keeps (rows_ok OK RK)) (k x)" for policy identity now oid k
    unfolding valid_keeps [symmetric]
    by (rule valid_lift_sum) (unfold valid_keeps, intro that keeps_create_order new_order rows.core_frames steps_intro)
  show ?thesis
    unfolding checkout_body_def bump_account_def
    by (intro priced rows.core_frames steps_intro) auto
qed

lemma keeps_changeSeats: "steps (keeps (rows_ok OK RK)) (changeSeats_body e dto type hash)"
proof -
  have reseat: "valid (renewal_is OK RK (ws_of dto) r) (changeSeats_renewal e dto current x r) (rows_ok OK RK)"
    for current x r
  proof (cases r)
    case None
    then show ?thesis
      by (auto simp: changeSeats_renewal_def valid_def renewal_is_def)
  next
    case (Some r0)
    show ?thesis
      unfolding Some changeSeats_renewal_def option.case Let_def
    proof (rule valid_lift_sum, rule valid_lift_sum, rule valid_bnd)
      fix s amount
      assume "readWincrmPriceSnapshot (r_priceSnapshot r0) = Inr s"
        "wincrmPrice s (r_cycle r0) (as_int (jsfield dto ''newTotalSeats'')) = Inr amount"
      then show "valid (renewal_is OK RK (ws_of dto) (Some r0))
          (update_renewal (ws_of dto) (reseat_renewal (as_int (jsfield dto ''newTotalSeats'')) amount x)) (rows_ok OK RK)"
        by (intro valid_update_found renewal_reseated) (simp_all add: reseat_renewal_def)
    qed (unfold valid_keeps, intro rows.core_frames steps_intro)
  qed
  have tail: "valid (renewal_is OK RK (ws_of dto) r) (thn (changeSeats_renewal e dto current x r) k) (rows_ok OK RK)"
    if "steps (keeps (rows_ok OK RK)) k" for k :: "'c op" and current x r
    using that reseat by (intro valid_thn [where P' = "rows_ok OK RK"]) (simp_all add: valid_keeps)
  show ?thesis
    unfolding changeSeats_body_def Let_def
    by (intro keeps_found_renewal tail valid_keep rows.core_frames renewal_row.core_frames steps_intro) auto
qed

lemma keeps_renewalCommand: "steps (keeps (rows_ok OK RK)) (renewalCommand_body e dto confirm type hash)"
proof -
  have change: "valid (renewal_is OK RK (ws_of dto) (Some r))
      (bnd (renewal_change e dto confirm r) (\<lambda>change. bnd (update_renewal (ws_of dto) change) k)) (rows_ok OK RK)"
    if "\<And>x. steps (keeps (rows_ok OK RK)) (k x)" for r and k :: "renewal_row \<Rightarrow> command_proof op"
  proof (rule validI)
    fix w x w'
    assume pre: "renewal_is OK RK (ws_of dto) (Some r) w"
      and "bnd (renewal_change e dto confirm r) (\<lambda>change. bnd (update_renewal (ws_of dto) change) k) w = Inr (x, w')"
    then obtain f w1 y w2 where f: "renewal_change e dto confirm r w = Inr (f, w1)"
      and u: "update_renewal (ws_of dto) f w1 = Inr (y, w2)" and k: "k y w2 = Inr (x, w')"
      by auto
    have "steps (keeps (renewal_is OK RK (ws_of dto) (Some r))) (renewal_change e dto confirm r)"
      unfolding renewal_change_def by (intro steps_intro)
    from stepsD [OF this f] have w1: "renewal_is OK RK (ws_of dto) (Some r) w1"
      using pre by (simp add: keeps_def)
    have "RK (f r)" "\<And>z. r_workspaceId (f z) = r_workspaceId z"
      using f renewal_is_RK [OF pre] renewal_disabled renewal_confirmed
      by (auto simp: renewal_change_def new_date_def disable_renewal_def confirm_renewal_def
          split: if_splits dest!: stepsD)
    then have "rows_ok OK RK w2"
      using valid_update_found [of RK r f OK "ws_of dto"] w1 u unfolding valid_def by blast
    then show "rows_ok OK RK w'"
      using stepsD [OF that k] by (simp add: keeps_def)
  qed
  show ?thesis
    unfolding renewalCommand_body_def bump_account_def
    by (intro keeps_found_renewal valid_found change valid_keep(2) rows.core_frames renewal_row.core_frames
        steps_intro) simp_all
qed

lemma keeps_cancelOrder: "steps (keeps (rows_ok OK RK)) (cancelOrder e ord reason)"
proof (rule rows.steps_cancelOrder)
  show "steps (keeps (rows_ok OK RK)) (update_order (o_id ord) (cancelled_order reason))" for reason
    by (intro keeps_update_order order_cancelled)
  have failed: "valid (renewal_is OK RK ws (Some r)) (thn (update_renewal ws (charge_failed r t reason)) (ret ())) (rows_ok OK RK)"
    for ws r t reason
    by (intro valid_thn [where P' = "rows_ok OK RK"] valid_update_found renewal_failed)
      (simp_all add: charge_failed_def Let_def valid_keeps rows.steps_ret)
  have none: "valid (renewal_is OK RK ws r) (ret ()) (rows_ok OK RK)" for ws r
    by (auto simp: valid_def renewal_is_def)
  have "valid (renewal_is OK RK (o_workspaceId ord) r) (case r of None \<Rightarrow> ret () | Some renewal \<Rightarrow>
      bnd (case r_retryStartedAt renewal of Some t \<Rightarrow> ret t | None \<Rightarrow> new_date e) (\<lambda>retryStartedAt.
      thn (update_renewal (o_workspaceId ord) (charge_failed renewal retryStartedAt reason)) (ret ()))) (rows_ok OK RK)"
    for r reason
    by (cases r) (simp_all only: option.case none, intro failed valid_keep(1) steps_intro)
  then show "steps (keeps (rows_ok OK RK)) (cancel_recurring e ord reason)" for reason
    unfolding cancel_recurring_def by (rule keeps_found_renewal)
qed

lemma keeps_dispatch: "steps (keeps (rows_ok OK RK)) (dispatch_tx e c)"
  unfolding dispatch_tx_def
  by (intro keeps_owned rows.steps_dispatch_create keeps_cancelOrder keeps_update_order keeps_updateMany_order
      order_unknown steps_intro)

lemma keeps_settle: "steps (keeps (rows_ok OK RK)) (settle_tx e c value)"
proof -
  have fulfill: "steps (keeps (rows_ok OK RK)) (fulfill e ord value)" if "OK ord" for ord
    by (intro rows.steps_fulfill rows.steps_fulfill_renewal keeps_update_order order_succeeded keeps_update_renewal
        renewal_renewed keeps_upsert_renewal renewal_enabled [OF that] renewal_reenabled [OF that]
        rows_frames steps_intro)
      (simp_all add: renewed_def enabled_renewal_def blank_renewal_def)
  have pending: "steps (keeps (rows_ok OK RK)) (settle_pending e operation ord c value)" for operation ord
  proof -
    have url: "steps (keeps (rows_ok OK RK)) (bnd (lift_sum (confirmationUrl e v pid)) (\<lambda>u.
        thn (update_order (o_id ord) (pending_again pid st u)) (ret ())))" for v pid st
      unfolding valid_keeps [symmetric]
      by (rule valid_lift_sum) (unfold valid_keeps, intro keeps_update_order order_pending steps_intro)
    show ?thesis
      unfolding settle_pending_def by (intro url rows.steps_finish rows.core_frames steps_intro)
  qed
  show ?thesis
    unfolding settle_tx_def
    by (intro keeps_owned rows.steps_settle_sync rows.steps_settle_succeeded rows.steps_settle_canceled fulfill pending
        keeps_cancelOrder keeps_update_order order_reported rows.core_frames steps_intro)
qed

lemma keeps_fail: "steps (keeps (rows_ok OK RK)) (fail_tx e c failed)"
  unfolding fail_tx_def Let_def
  by (intro keeps_owned rows.steps_fail_retry rows.steps_fail_final keeps_cancelOrder keeps_update_order order_unknown
      rows.core_frames steps_intro)

lemma keeps_charge: "steps (keeps (rows_ok OK RK)) (charge_tx e ws)"
proof -
  have paused: "steps (keeps (rows_ok OK RK)) (pause e r status code)" for r status code
    by (intro rows.steps_pause keeps_update_renewal renewal_paused) simp_all
  have order: "steps (keeps (rows_ok OK RK)) (charge_order e r a i s t)"
    if "RK r" "readWincrmPriceSnapshot (r_priceSnapshot r) = Inr s" for r a i s t
    unfolding charge_order_def
    by (intro keeps_create_order new_recurring [OF that] keeps_update_renewal renewal_dispatched rows_frames
        rows.core_frames steps_intro) simp_all
  have priced: "steps (keeps (rows_ok OK RK)) (charge_priced e r a i t)" if "RK r" for r a i t
  proof -
    have read: "steps (keeps (rows_ok OK RK)) (bnd (lift_sum (readWincrmPriceSnapshot (r_priceSnapshot r))) k)"
      if "\<And>s. readWincrmPriceSnapshot (r_priceSnapshot r) = Inr s \<Longrightarrow> steps (keeps (rows_ok OK RK)) (k s)"
      for k :: "price_snapshot \<Rightarrow> nat op"
      unfolding valid_keeps [symmetric] by (rule valid_lift_sum) (simp add: valid_keeps that)
    show ?thesis
      unfolding charge_priced_def by (intro read paused order [OF \<open>RK r\<close>] steps_intro)
  qed
  have rest: "valid (renewal_is OK RK ws (Some r)) (bnd (gets (find_account ws)) k) (rows_ok OK RK)"
    if "\<And>x. RK r \<Longrightarrow> steps (keeps (rows_ok OK RK)) (k x)" for r and k :: "account_row option \<Rightarrow> nat op"
    using that by (intro valid_from_rows steps_intro) auto
  show ?thesis
    unfolding charge_tx_def
    by (intro keeps_found_renewal valid_found rest paused priced steps_intro)
qed

lemma keeps_extend: "steps (keeps (rows_ok OK RK)) (extend_tx e ws dto ctx role hash)"
proof -
  have period: "steps (keeps (rows_ok OK RK)) (extend_period e ws pid x)" for pid x
    unfolding extend_period_def by (intro rows_frames rows.core_frames steps_intro)
  have account: "steps (keeps (rows_ok OK RK)) (update_row accounts accounts_update P2025 P f)" for P f
    by (rule rows.steps_update) (rule frameD, rule rows_frames)
  show ?thesis
    by (rule rows.steps_extend_tx) (unfold extend_grant_def, intro period account rows.steps_extend_target
        rows.steps_extend_record keeps_update_renewal renewal_extended steps_intro; simp add: extend_renewal_def)
qed

lemma service_rows: "service_step e w w' \<Longrightarrow> keeps (rows_ok OK RK) w w'"
proof (rule rows.service_step_core)
  show "steps (keeps (rows_ok OK RK)) (verifyOrder e dto)" for dto
    by (rule rows.steps_verifyOrder) (auto simp: bump_account_def intro!: steps_intro)
  show "steps (keeps (rows_ok OK RK)) (closeCommand e dto)" for dto
    by (intro rows.steps_closeCommand keeps_updateMany_order order_closed)
qed (auto intro: keeps_checkout keeps_changeSeats keeps_renewalCommand keeps_dispatch keeps_settle keeps_fail
    keeps_charge keeps_extend)

lemma reachable_rows: "reachable e w \<Longrightarrow> rows_ok OK RK w"
proof (induction rule: reachable_induct)
  case (initial w)
  then show ?case
    by (simp add: initial_def rows_ok_def)
next
  case (step w w')
  then show ?case
    using service_rows by (simp add: keeps_def)
qed

end

section \<open>Amounts\<close>

text \<open>The amount is the price of the stored price list for the cycle and the number of seats.\<close>

definition priced :: "jsval \<Rightarrow> cycle \<Rightarrow> int \<Rightarrow> int \<Rightarrow> bool" where
  "priced snapshot c seats amount =
     (case readWincrmPriceSnapshot snapshot of
        Inl _ \<Rightarrow> False
      | Inr s \<Rightarrow> wincrmPrice s c seats = Inr amount)"

definition priced_order :: "order_row \<Rightarrow> bool" where
  "priced_order x \<longleftrightarrow> priced (o_priceSnapshot x) (o_cycle x) (o_totalSeats x) (o_amountMinor x)"

definition priced_renewal :: "renewal_row \<Rightarrow> bool" where
  "priced_renewal r \<longleftrightarrow> priced (r_priceSnapshot r) (r_cycle r) (r_totalSeats r) (r_amountMinor r)"

lemma priced_snapshot: "wincrmPrice s c n = Inr a \<Longrightarrow> priced (snapshot_json s) c n a"
  using wincrmPrice_eq(1) by (fastforce simp: priced_def read_snapshot_json)

interpretation prices: row_invariant e priced_order priced_renewal for e
proof unfold_locales
  show "priced_renewal r \<Longrightarrow> readWincrmPriceSnapshot (r_priceSnapshot r) = Inr s \<Longrightarrow>
      wincrmPrice s (r_cycle r) seats = Inr amount \<Longrightarrow> priced_renewal (reseat_renewal seats amount t r)"
    for r s seats amount t
    by (simp add: priced_renewal_def priced_def reseat_renewal_def)
qed (auto simp: priced_order_def priced_renewal_def checkout_order_def Let_def recurring_order_def close_order_def
    unknown_order_def cancelled_order_def reported_order_def succeeded_order_def pending_again_def
    disable_renewal_def renewed_def extend_renewal_def charge_failed_def confirm_renewal_def enabled_renewal_def
    intro: priced_snapshot)

section \<open>The schedule of repeated charges\<close>

definition retry_ok :: "renewal_row \<Rightarrow> bool" where
  "retry_ok r \<longleftrightarrow>
     0 \<le> r_retryAttempt r \<and> r_retryAttempt r \<le> 2
     \<and> (case r_nextRetryAt r of
          None \<Rightarrow> True
        | Some t \<Rightarrow> (case r_retryStartedAt r of
            None \<Rightarrow> False
          | Some s \<Rightarrow> r_retryAttempt r = 1 \<and> t = s + 24 * 3600000 \<or> r_retryAttempt r = 2 \<and> t = s + 72 * 3600000))"

interpretation retries: row_invariant e "\<lambda>x. True" retry_ok for e
  by unfold_locales
    (auto simp: retry_ok_def disable_renewal_def renewed_def extend_renewal_def charge_failed_def Let_def
      retryable_reason_def reseat_renewal_def confirm_renewal_def enabled_renewal_def blank_renewal_def
      split: option.splits)

section \<open>Confirmation pages\<close>

text \<open>The page a customer is sent to: the provider's host, over HTTPS, for one payment.\<close>

definition provider_page :: "env \<Rightarrow> jsstring \<Rightarrow> bool" where
  "provider_page e s =
     (case parse_url e s of
        None \<Rightarrow> False
      | Some url \<Rightarrow> u_protocol url = ''https:'' \<and> u_hostname url = ''yoomoney.ru'' \<and> u_port url = []
          \<and> u_username url = [] \<and> u_password url = [] \<and> u_hash url = []
          \<and> u_pathname url \<in> {''/checkout/payments/v2/contract'', ''/api-pages/v2/payment-confirm/epl''}
          \<and> map fst (u_searchParams url) = [js ''orderId''])"

definition page_order :: "env \<Rightarrow> order_row \<Rightarrow> bool" where
  "page_order e x \<longleftrightarrow> (case o_confirmationUrl x of None \<Rightarrow> True | Some s \<Rightarrow> provider_page e s)"

lemma one_param: "length (filter (\<lambda>p. fst p = k) ps) = 1 \<Longrightarrow> \<forall>p\<in>set ps. fst p = k \<Longrightarrow> map fst ps = [k]"
  by (cases ps) auto

lemma confirmationUrl_page:
  assumes "confirmationUrl e v pid = Inr (Some s)"
  shows "provider_page e s"
proof -
  obtain url where url: "parse_url e s = Some url" and ok: "u_protocol url = ''https:''" "u_hostname url = ''yoomoney.ru''"
      "u_port url = []" "u_username url = []" "u_password url = []" "u_hash url = []"
      "u_pathname url \<in> {''/checkout/payments/v2/contract'', ''/api-pages/v2/payment-confirm/epl''}"
      "length (filter (\<lambda>p. fst p = js ''orderId'') (u_searchParams url)) = 1"
      "\<forall>p\<in>set (u_searchParams url). fst p = js ''orderId''"
    using assms by (auto simp: confirmationUrl_def list_ex_iff split: if_splits option.splits)
  then show ?thesis
    using one_param [OF ok(8,9)] by (simp add: provider_page_def)
qed

interpretation pages: row_invariant e "page_order e" "\<lambda>r. True" for e
proof unfold_locales
  show "page_order e x \<Longrightarrow> confirmationUrl e v pid = Inr u \<Longrightarrow> page_order e (pending_again pid st u x)" for x v pid u st
    by (cases u) (auto simp: page_order_def pending_again_def dest: confirmationUrl_page)
qed (auto simp: page_order_def checkout_order_def Let_def recurring_order_def close_order_def
    unknown_order_def cancelled_order_def reported_order_def succeeded_order_def)

end
