(* ===== verification/Command_Properties.thy ===== *)
theory Command_Properties
  imports Row_Invariant Scenario
begin

text \<open>
  Properties of the commands of CRM Access. Every command is recorded under its id, so repeating it
  answers from the record and changes nothing; every command is guarded by the version of the billing
  account and advances it, so of two commands for the same version only one commits. Both facts are
  proved once, in the locale \<open>guarded_command\<close>, and hold for the five commands by interpretation.
\<close>

section \<open>Rows that a command reads and writes\<close>

definition account_is :: "jsstring \<Rightarrow> account_row \<Rightarrow> db \<Rightarrow> bool" where
  "account_is ws a w \<longleftrightarrow> find_account ws w = Some a"

interpretation account_row: core_relation "keeps (account_is ws a)" for ws a
proof unfold_locales
  show "steps (keeps (account_is ws a)) (update_period (\<lambda>x. p_id x = k) (\<lambda>x. x\<lparr>p_activationNotifiedAt := Some t\<rparr>))" for k t
    by (rule stepsI) (auto simp: keeps_def account_is_def find_account_def update_period_def tb_periods.update_row_Inr)
qed (auto simp: keeps_def frame_def account_is_def find_account_def)

lemma account_frames [simp]:
  "frame (keeps (account_is ws a)) orders_update" "frame (keeps (account_is ws a)) periods_update"
  "frame (keeps (account_is ws a)) renewals_update"
  by (simp_all add: keeps_def frame_def account_is_def find_account_def)

lemma valid_update_account:
  assumes "\<And>x. a_workspaceId (f x) = a_workspaceId x"
  shows "valid (account_is ws a) (update_account ws f) (account_is ws (f a))"
proof (rule validI)
  fix w x w'
  assume pre: "account_is ws a w" and run: "update_account ws f w = Inr (x, w')"
  have "a_workspaceId a = ws"
    using pre unfolding account_is_def find_account_def by (drule_tac find_Some_D) simp
  then show "account_is ws (f a) w'"
    using pre run find_upd_rows [of "\<lambda>a. a_workspaceId a = ws" "\<lambda>a. a_workspaceId a = ws" f "accounts w"] assms
    by (simp add: account_is_def find_account_def update_account_def tb_accounts.update_row_Inr)
qed

lemma valid_accountForCommand:
  assumes "\<And>a. expected_version dto \<le> a_version a \<Longrightarrow> valid (account_is (ws_of dto) a) (f a) Q"
  shows "valid (\<lambda>w. True) (bnd (accountForCommand dto) f) Q"
proof (rule validI)
  fix w x w'
  assume "bnd (accountForCommand dto) f w = Inr (x, w')"
  then obtain a w1 where acc: "accountForCommand dto w = Inr (a, w1)" and f: "f a w1 = Inr (x, w')"
    by auto
  have "account_is (ws_of dto) a w1 \<and> expected_version dto \<le> a_version a"
  proof (cases "find_account (ws_of dto) w")
    case None
    then show ?thesis
      using acc by (auto simp: accountForCommand_def owner_def create_account_def tb_accounts.create_row_Inr
          account_is_def find_account_def find_append)
  next
    case (Some b)
    then show ?thesis
      using acc by (auto simp: accountForCommand_def owner_def account_is_def)
  qed
  then show "Q w'"
    using assms [of a] f by (auto simp: valid_def)
qed

definition command_is :: "jsstring \<Rightarrow> command_row \<Rightarrow> db \<Rightarrow> bool" where
  "command_is cid row w \<longleftrightarrow> find_command cid w = Some row"

interpretation command_row: db_relation "keeps (command_is cid row)" for cid row
  by unfold_locales (auto simp: keeps_def frame_def command_is_def find_command_def)

lemma command_frames [simp]:
  "frame (keeps (command_is cid row)) accounts_update" "frame (keeps (command_is cid row)) receipts_update"
  "frame (keeps (command_is cid row)) operations_update" "frame (keeps (command_is cid row)) outbox_update"
  "frame (keeps (command_is cid row)) entitlements_update" "frame (keeps (command_is cid row)) periods_update"
  "frame (keeps (command_is cid row)) sourceSequence_update"
  by (simp_all add: keeps_def frame_def command_is_def find_command_def)

lemma valid_create_command: "valid P (create_command row) (command_is (c_commandId row) row)"
proof (rule validI)
  fix w x w'
  assume run: "create_command row w = Inr (x, w')"
  then have "find (\<lambda>c. c_commandId c = c_commandId row) (commands w) = None"
    by (auto simp: create_command_def tb_commands.create_row_Inr find_None_all)
  then show "command_is (c_commandId row) row w'"
    using run by (simp add: create_command_def tb_commands.create_row_Inr command_is_def find_command_def find_append)
qed

section \<open>The contract of a command\<close>

definition account_version :: "jsstring \<Rightarrow> db \<Rightarrow> int" where
  "account_version ws w = (case find_account ws w of None \<Rightarrow> 0 | Some a \<Rightarrow> a_version a)"

lemma period_view_again:
  assumes "wincrmPeriodView x t = Inr v"
  obtains v' where "wincrmPeriodView x t' = Inr v'" "pv_id v' = pv_id v"
  using assms by (auto simp: wincrmPeriodView_def sbind_Inr)

lemma order_view_id [simp]: "ov_id (wincrmOrderView x p t) = o_id x"
  by (simp add: wincrmOrderView_def Let_def)

lemma proof_of_again:
  assumes "proof_of e ws c h a w = Inr (p, w')"
  obtains q where "proof_of e ws c h a w' = Inr (q, w'\<lparr>tick := tick w' + 1\<rparr>)" "cp_status q = cp_status p"
    "cp_billingVersion q = cp_billingVersion p" "map_option ov_id (cp_order q) = map_option ov_id (cp_order p)"
    "map_option pv_id (cp_period q) = map_option pv_id (cp_period p)"
proof -
  obtain row where row: "find_command c w = Some row" and match: "c_workspaceId row = ws" "c_actorSubject row = a" "c_requestHash row = h"
    using assms by (auto simp: proof_of_def matchCommand_def)
  let ?period = "Option.bind (c_periodId row) (\<lambda>i. find_period i w)"
  have "\<exists>q. proof_of e ws c h a w' = Inr (q, w'\<lparr>tick := tick w' + 1\<rparr>) \<and> cp_status q = cp_status p
      \<and> cp_billingVersion q = cp_billingVersion p \<and> map_option ov_id (cp_order q) = map_option ov_id (cp_order p)
      \<and> map_option pv_id (cp_period q) = map_option pv_id (cp_period p)"
  proof (cases ?period)
    case None
    then show ?thesis
      using assms row match
      by (auto simp: proof_of_def matchCommand_def new_date_def Let_def tx_simps option.map_comp comp_def)
  next
    case (Some x)
    obtain v where v: "wincrmPeriodView x (clock e (tick w)) = Inr v"
      using assms row match Some by (auto simp: proof_of_def matchCommand_def new_date_def Let_def)
    obtain v' where "wincrmPeriodView x (clock e (tick w + 1)) = Inr v'" "pv_id v' = pv_id v"
      using period_view_again [OF v] by blast
    then show ?thesis
      using assms row match Some v
      by (auto simp: proof_of_def matchCommand_def new_date_def Let_def tx_simps option.map_comp comp_def)
  qed
  then show thesis
    using that by blast
qed

locale guarded_command =
  fixes e :: env and dto :: jsval and type :: string and hash :: jsstring and body :: "command_proof op"
  assumes guarded: "body w = Inr (p, w') \<Longrightarrow> account_version (ws_of dto) w = expected_version dto"
    and advances: "body w = Inr (p, w') \<Longrightarrow> expected_version dto < account_version (ws_of dto) w'"
    and answers: "body w = Inr (p, w') \<Longrightarrow>
      \<exists>w1. proof_of e (ws_of dto) (cmd_of dto) hash (actor_of dto) w1 = Inr (p, w')"
    and records: "body w = Inr (p, w') \<Longrightarrow>
      \<exists>row. find_command (cmd_of dto) w' = Some row \<and> c_commandType row = type \<and> c_status row \<noteq> C_CANCELLED"
begin

text \<open>A command that was answered is answered again from its record, and nothing changes but the time.\<close>

lemma repeat:
  assumes "or_replay e dto type hash body w = Inr (p, w')"
  shows "\<exists>q. or_replay e dto type hash body w' = Inr (q, w'\<lparr>tick := tick w' + 1\<rparr>) \<and> cp_status q = cp_status p
    \<and> cp_billingVersion q = cp_billingVersion p \<and> map_option ov_id (cp_order q) = map_option ov_id (cp_order p)
    \<and> map_option pv_id (cp_period q) = map_option pv_id (cp_period p)"
proof -
  obtain w1 row where pr: "proof_of e (ws_of dto) (cmd_of dto) hash (actor_of dto) w1 = Inr (p, w')"
    and row: "find_command (cmd_of dto) w' = Some row" "c_commandType row = type" "c_status row \<noteq> C_CANCELLED"
  proof (cases "find_command (cmd_of dto) w")
    case None
    then have "body w = Inr (p, w')"
      using assms by (auto simp: or_replay_def replay_def)
    then show thesis
      using answers records that by blast
  next
    case (Some row)
    then have pr: "proof_of e (ws_of dto) (cmd_of dto) hash (actor_of dto) w = Inr (p, w')"
      and row: "c_commandType row = type" "c_status row \<noteq> C_CANCELLED"
      using assms by (auto simp: or_replay_def replay_def matchCommand_def)
    have "find_command (cmd_of dto) w' = Some row"
      using pr Some by (auto simp: proof_of_def new_date_def Let_def matchCommand_def split: option.splits)
    then show thesis
      using that [OF pr] row by blast
  qed
  have "steps (same commands) (proof_of e (ws_of dto) (cmd_of dto) hash (actor_of dto))"
    by (intro steps_intro)
  from sameD [OF stepsD [OF this pr]] have "find_command (cmd_of dto) w1 = Some row"
    using row(1) by (simp add: find_command_def)
  then have match: "matchCommand row (ws_of dto) (actor_of dto) hash w' = Inr ((), w')"
    using pr by (auto simp: proof_of_def matchCommand_def tx_simps split: if_splits)
  obtain q where "proof_of e (ws_of dto) (cmd_of dto) hash (actor_of dto) w' = Inr (q, w'\<lparr>tick := tick w' + 1\<rparr>)"
    "cp_status q = cp_status p"
    "cp_billingVersion q = cp_billingVersion p" "map_option ov_id (cp_order q) = map_option ov_id (cp_order p)"
    "map_option pv_id (cp_period q) = map_option pv_id (cp_period p)"
    by (rule proof_of_again [OF pr])
  then show ?thesis
    using row match by (simp add: or_replay_def replay_def tx_simps)
qed

lemma fresh_guarded:
  assumes "or_replay e dto type hash body w = Inr (p, w')" "find_command (cmd_of dto) w = None"
  shows "account_version (ws_of dto) w = expected_version dto" "expected_version dto < account_version (ws_of dto) w'"
  using assms guarded advances by (auto simp: or_replay_def replay_def)

end

section \<open>The five commands\<close>

lemma accountForCommand_guard:
  "accountForCommand dto w = Inr (a, w1) \<Longrightarrow> account_version (ws_of dto) w = expected_version dto"
  by (auto simp: accountForCommand_def owner_def account_version_def split: option.splits)

lemma keeps_any: "steps (keeps (\<lambda>w. True)) m"
  by (simp add: steps_def keeps_def)

lemma valid_advanced:
  assumes "steps (keeps (account_is ws (f a))) k" "n < a_version (f a)" "\<And>x. a_workspaceId (f x) = a_workspaceId x"
  shows "valid (account_is ws a) (thn (update_account ws f) k) (\<lambda>w. n < account_version ws w)"
proof (rule valid_thn [OF valid_update_account [OF assms(3)]])
  have "valid (account_is ws (f a)) k (account_is ws (f a))"
    using assms(1) by (simp add: valid_keeps)
  then show "valid (account_is ws (f a)) k (\<lambda>w. n < account_version ws w)"
    using assms(2) unfolding valid_def by (fastforce simp: account_is_def account_version_def)
qed

definition recorded :: "jsval \<Rightarrow> string \<Rightarrow> db \<Rightarrow> bool" where
  "recorded dto type w \<longleftrightarrow>
     (\<exists>row. find_command (cmd_of dto) w = Some row \<and> c_commandType row = type \<and> c_status row \<noteq> C_CANCELLED)"

lemma valid_recorded:
  assumes "c_commandId row = cmd_of dto" "c_commandType row = type" "c_status row \<noteq> C_CANCELLED"
    and "steps (keeps (command_is (cmd_of dto) row)) k"
  shows "valid P (thn (create_command row) k) (recorded dto type)"
proof (rule valid_thn [OF valid_create_command])
  have "valid (command_is (cmd_of dto) row) k (command_is (cmd_of dto) row)"
    using assms(4) by (simp add: valid_keeps)
  then show "valid (command_is (c_commandId row) row) k (recorded dto type)"
    using assms(1-3) unfolding valid_def by (fastforce simp: command_is_def recorded_def)
qed

lemma valid_committed:
  assumes "\<And>row. steps (keeps (command_is (cmd_of dto) row)) k"
  shows "valid P (thn (commitCommand dto type hash v pid cf oid) k) (recorded dto type)"
proof -
  have "thn (commitCommand dto type hash v pid cf oid) k = thn (create_command
       \<lparr>c_commandId = cmd_of dto, c_workspaceId = ws_of dto, c_actorSubject = actor_of dto,
        c_commandType = type, c_requestHash = hash, c_expectedVersion = expected_version dto,
        c_capacityFence = cf, c_status = C_COMMITTED, c_orderId = oid,
        c_periodId = pid, c_resultVersion = Some v\<rparr>)
     (thn (create_receipt
       \<lparr>rc_commandId = cmd_of dto, rc_commandType = type, rc_requestHash = hash,
        rc_requestHashVersion = 1,
        rc_result = obj [(''workspaceId'', JStr (ws_of dto)), (''status'', JStr (js ''COMMITTED'')),
          (''billingVersion'', JStr (dec_int v)), (''periodId'', opt_js JStr pid)]\<rparr>) k)"
    by (simp add: fun_eq_iff commitCommand_def tx_simps split: sum.split prod.split)
  then show ?thesis
    using assms by (simp only:) (intro valid_recorded steps_intro; simp)
qed

lemma records_valid: "valid (\<lambda>w. True) m (recorded dto type) \<Longrightarrow> m w = Inr (p, w') \<Longrightarrow>
    \<exists>row. find_command (cmd_of dto) w' = Some row \<and> c_commandType row = type \<and> c_status row \<noteq> C_CANCELLED"
  by (auto simp: valid_def recorded_def)

lemma advances_valid: "valid (\<lambda>w. True) m (\<lambda>w. n < account_version ws w) \<Longrightarrow> m w = Inr (p, w') \<Longrightarrow>
    n < account_version ws w'"
  by (auto simp: valid_def)

interpretation checkout_command:
  guarded_command e dto "''WINCRM_CHECKOUT''" hash "checkout_body e dto ''WINCRM_CHECKOUT'' hash" for e dto hash
proof
  fix w p w'
  assume run: "checkout_body e dto ''WINCRM_CHECKOUT'' hash w = Inr (p, w')"
  show "account_version (ws_of dto) w = expected_version dto"
    using run by (auto simp: checkout_body_def requireEnabled_def dest!: accountForCommand_guard)
  show "\<exists>w1. proof_of e (ws_of dto) (cmd_of dto) hash (actor_of dto) w1 = Inr (p, w')"
    using run by (auto simp: checkout_body_def)
  show "expected_version dto < account_version (ws_of dto) w'"
    using _ run unfolding checkout_body_def bump_account_def
    by (rule advances_valid) (intro valid_accountForCommand valid_advanced valid_keep keeps_any account_frames
        account_row.core_frames steps_intro; simp)
  show "\<exists>row. find_command (cmd_of dto) w' = Some row \<and> c_commandType row = ''WINCRM_CHECKOUT'' \<and> c_status row \<noteq> C_CANCELLED"
    using _ run unfolding checkout_body_def bump_account_def
    by (rule records_valid) (intro valid_recorded valid_keep keeps_any steps_intro; simp)
qed

interpretation seat_command:
  guarded_command e dto "''WINCRM_SEAT_CHANGE''" hash "changeSeats_body e dto ''WINCRM_SEAT_CHANGE'' hash" for e dto hash
proof
  fix w p w'
  assume run: "changeSeats_body e dto ''WINCRM_SEAT_CHANGE'' hash w = Inr (p, w')"
  show "account_version (ws_of dto) w = expected_version dto"
    using run by (auto simp: changeSeats_body_def requireEnabled_def dest!: accountForCommand_guard)
  show "\<exists>w1. proof_of e (ws_of dto) (cmd_of dto) hash (actor_of dto) w1 = Inr (p, w')"
    using run by (auto simp: changeSeats_body_def Let_def)
  show "expected_version dto < account_version (ws_of dto) w'"
    using _ run unfolding changeSeats_body_def Let_def changeSeats_renewal_def
    by (rule advances_valid) (intro valid_accountForCommand valid_advanced valid_keep keeps_any account_frames
        account_row.core_frames steps_intro; simp)
  show "\<exists>row. find_command (cmd_of dto) w' = Some row \<and> c_commandType row = ''WINCRM_SEAT_CHANGE'' \<and> c_status row \<noteq> C_CANCELLED"
    using _ run unfolding changeSeats_body_def Let_def
    by (rule records_valid) (intro valid_committed valid_keep keeps_any steps_intro command_frames; simp)
qed

interpretation renewal_command:
  guarded_command e dto type hash "renewalCommand_body e dto confirm type hash" for e dto confirm type hash
proof
  fix w p w'
  assume run: "renewalCommand_body e dto confirm type hash w = Inr (p, w')"
  show "account_version (ws_of dto) w = expected_version dto"
    using run by (auto simp: renewalCommand_body_def requireEnabled_def dest!: accountForCommand_guard split: if_splits)
  show "\<exists>w1. proof_of e (ws_of dto) (cmd_of dto) hash (actor_of dto) w1 = Inr (p, w')"
    using run by (auto simp: renewalCommand_body_def)
  show "expected_version dto < account_version (ws_of dto) w'"
    using _ run unfolding renewalCommand_body_def bump_account_def renewal_change_def
    by (rule advances_valid) (intro valid_accountForCommand valid_advanced valid_keep keeps_any account_frames
        account_row.core_frames steps_intro; simp)
  show "\<exists>row. find_command (cmd_of dto) w' = Some row \<and> c_commandType row = type \<and> c_status row \<noteq> C_CANCELLED"
    using _ run unfolding renewalCommand_body_def
    by (rule records_valid) (intro valid_committed valid_keep keeps_any steps_intro command_frames; simp)
qed

interpretation verify_command:
  guarded_command e dto "''WINCRM_VERIFY_ORDER''" hash "verifyOrder_body e dto ''WINCRM_VERIFY_ORDER'' hash" for e dto hash
proof
  fix w p w'
  assume run: "verifyOrder_body e dto ''WINCRM_VERIFY_ORDER'' hash w = Inr (p, w')"
  show "account_version (ws_of dto) w = expected_version dto"
    using run by (auto simp: verifyOrder_body_def dest!: accountForCommand_guard)
  show "\<exists>w1. proof_of e (ws_of dto) (cmd_of dto) hash (actor_of dto) w1 = Inr (p, w')"
    using run by (auto simp: verifyOrder_body_def)
  show "expected_version dto < account_version (ws_of dto) w'"
    using _ run unfolding verifyOrder_body_def bump_account_def
    by (rule advances_valid) (intro valid_accountForCommand valid_advanced valid_keep keeps_any account_frames
        account_row.core_frames steps_intro; simp)
  show "\<exists>row. find_command (cmd_of dto) w' = Some row \<and> c_commandType row = ''WINCRM_VERIFY_ORDER'' \<and> c_status row \<noteq> C_CANCELLED"
    using _ run unfolding verifyOrder_body_def
    by (rule records_valid) (intro valid_committed valid_keep keeps_any steps_intro command_frames; simp)
qed

text \<open>Every command is a check of its request followed by one transaction that answers or runs its body.\<close>

lemmas command_defs = checkout_def changeSeats_def disableRenewal_def confirmRenewal_def renewalCommand_def verifyOrder_def
  command_check_def context_check_def fence_def

lemma account_version_time [simp]: "account_version ws (w\<lparr>tick := i, fresh := j\<rparr>) = account_version ws w"
  by (simp add: account_version_def find_account_def)

lemma transaction_calm: "\<not> conflicts e (tick w) 0 \<Longrightarrow> transaction e work w = work w"
  by (simp add: transaction_def numeral_2_eq_2)

definition owner_commands :: "(env \<Rightarrow> jsval \<Rightarrow> command_proof op) set" where
  "owner_commands = {checkout, changeSeats, disableRenewal, confirmRenewal, verifyOrder}"

lemma thn_check: "thn (check err c) k = (if c then k else throw err)"
  by (simp add: fun_eq_iff tx_simps)

lemma bnd_lift_sum: "bnd (lift_sum v) f = (case v of Inl err \<Rightarrow> throw err | Inr x \<Rightarrow> f x)"
  by (simp add: fun_eq_iff tx_simps split: sum.split)

lemma thn_assoc: "thn (thn m k) l = thn m (thn k l)"
  by (auto simp: fun_eq_iff thn_def bnd_def split: sum.split)

lemmas command_eqs = command_defs thn_assoc thn_check bnd_lift_sum

lemma throw_not_Inr [simp]: "throw err w \<noteq> Inr r"
  by (simp add: throw_def)

lemma command_shape:
  assumes "run \<in> owner_commands" "run e dto w = Inr (p, w')"
  shows "\<exists>type hash body. guarded_command e dto type hash body \<and> run e dto = transaction e (or_replay e dto type hash body)"
proof -
  consider "run = checkout" | "run = changeSeats" | "run = disableRenewal" | "run = confirmRenewal" | "run = verifyOrder"
    using assms(1) by (auto simp: owner_commands_def)
  then show ?thesis
  proof cases
    case 1
    then obtain hash where "run e dto = transaction e (or_replay e dto ''WINCRM_CHECKOUT'' hash (checkout_body e dto ''WINCRM_CHECKOUT'' hash))"
      using assms(2) by (auto simp: command_eqs split: if_splits sum.splits)
    with checkout_command.guarded_command_axioms show ?thesis
      by blast
  next
    case 2
    then obtain hash where "run e dto = transaction e (or_replay e dto ''WINCRM_SEAT_CHANGE'' hash (changeSeats_body e dto ''WINCRM_SEAT_CHANGE'' hash))"
      using assms(2) by (auto simp: command_eqs split: if_splits sum.splits)
    with seat_command.guarded_command_axioms show ?thesis
      by blast
  next
    case 3
    then obtain type hash where "run e dto = transaction e (or_replay e dto type hash (renewalCommand_body e dto False type hash))"
      using assms(2) by (auto simp: command_eqs Let_def split: if_splits sum.splits)
    with renewal_command.guarded_command_axioms show ?thesis
      by blast
  next
    case 4
    then obtain type hash where "run e dto = transaction e (or_replay e dto type hash (renewalCommand_body e dto True type hash))"
      using assms(2) by (auto simp: command_eqs Let_def split: if_splits sum.splits)
    with renewal_command.guarded_command_axioms show ?thesis
      by blast
  next
    case 5
    then obtain hash where "run e dto = transaction e (or_replay e dto ''WINCRM_VERIFY_ORDER'' hash (verifyOrder_body e dto ''WINCRM_VERIFY_ORDER'' hash))"
      using assms(2) by (auto simp: command_eqs split: if_splits sum.splits)
    with verify_command.guarded_command_axioms show ?thesis
      by blast
  qed
qed

section \<open>Properties\<close>

text \<open>
  C22. A command of the owner (checkout, change of seats, disabling or confirming the renewal,
  verification of an order) that was answered once is answered again with the same status, billing
  version, order and period, and the repetition changes nothing in the database.
\<close>

theorem command_repeat_changes_nothing:
  assumes "run \<in> {checkout, changeSeats, disableRenewal, confirmRenewal, verifyOrder}"
    and "run e dto w = Inr (p, w')" and "\<not> conflicts e (tick w') 0"
  shows "\<exists>q. run e dto w' = Inr (q, w'\<lparr>tick := tick w' + 1\<rparr>) \<and> cp_status q = cp_status p
    \<and> cp_billingVersion q = cp_billingVersion p \<and> map_option ov_id (cp_order q) = map_option ov_id (cp_order p)
    \<and> map_option pv_id (cp_period q) = map_option pv_id (cp_period p)"
proof -
  obtain type hash body where cmd: "guarded_command e dto type hash body"
    and shape: "run e dto = transaction e (or_replay e dto type hash body)"
    using command_shape [of run e dto w p w'] assms(1,2) by (auto simp: owner_commands_def)
  obtain i j where "or_replay e dto type hash body (w\<lparr>tick := i, fresh := j\<rparr>) = Inr (p, w')"
    using assms(2) shape by auto
  from guarded_command.repeat [OF cmd this] show ?thesis
    using assms(3) by (simp add: shape transaction_calm)
qed

theorem command_repeat_changes_nothing_witness:
  "\<exists>q. checkout sample_env sample_checkout ordered_db = Inr (q, ordered_db\<lparr>tick := tick ordered_db + 1\<rparr>)"
proof -
  obtain p where "checkout sample_env sample_checkout shop_db = Inr (p, ordered_db)"
    using checkout_run by blast
  then have "\<exists>q. checkout sample_env sample_checkout ordered_db = Inr (q, ordered_db\<lparr>tick := tick ordered_db + 1\<rparr>)
      \<and> cp_status q = cp_status p \<and> cp_billingVersion q = cp_billingVersion p
      \<and> map_option ov_id (cp_order q) = map_option ov_id (cp_order p)
      \<and> map_option pv_id (cp_period q) = map_option pv_id (cp_period p)"
    by (intro command_repeat_changes_nothing [where run = checkout]) simp_all
  then show ?thesis
    by blast
qed

lemma close_found:
  assumes "closeCommand_tx e dto w = Inr (p, w')"
  shows "\<exists>w1. (case find_command (cmd_of dto) w of None \<Rightarrow> orders w1 = orders w | Some c \<Rightarrow> close_current c w = Inr ((), w1))
    \<and> proof_of e (ws_of dto) (cmd_of dto) (as_str (jsfield dto ''requestHash'')) (actor_of dto) w1 = Inr (p, w')"
proof (cases "find_command (cmd_of dto) w")
  case None
  then show ?thesis
    using assms
    by (auto simp: closeCommand_tx_def Let_def create_command_def tb_commands.create_row_Inr)
      (rule exI, rule conjI [rotated], assumption, simp)
next
  case (Some c)
  then show ?thesis
    using assms by (auto simp: closeCommand_tx_def Let_def matchCommand_def)
qed

text \<open>
  C23. Of two commands of the owner of a workspace that expect the same billing version only one
  commits: after the first, the other fails, unless it is the repetition of a recorded command.
\<close>

theorem commands_serialize:
  assumes "run \<in> {checkout, changeSeats, disableRenewal, confirmRenewal, verifyOrder}"
    and "run' \<in> {checkout, changeSeats, disableRenewal, confirmRenewal, verifyOrder}"
    and "run e dto w = Inr (p, w')" and "find_command (cmd_of dto) w = None"
    and "ws_of dto' = ws_of dto" and "expected_version dto' = expected_version dto"
    and "find_command (cmd_of dto') w' = None"
  shows "\<exists>err. run' e dto' w' = Inl err"
proof (rule ccontr)
  assume "\<nexists>err. run' e dto' w' = Inl err"
  then obtain q w'' where run': "run' e dto' w' = Inr (q, w'')"
    by (metis sumE surj_pair)
  obtain type hash body where cmd: "guarded_command e dto type hash body"
    and shape: "run e dto = transaction e (or_replay e dto type hash body)"
    using command_shape [of run e dto w p w'] assms(1,3) by (auto simp: owner_commands_def)
  obtain type' hash' body' where cmd': "guarded_command e dto' type' hash' body'"
    and shape': "run' e dto' = transaction e (or_replay e dto' type' hash' body')"
    using command_shape [of run' e dto' w' q w''] assms(2) run' by (auto simp: owner_commands_def)
  obtain i j where first: "or_replay e dto type hash body (w\<lparr>tick := i, fresh := j\<rparr>) = Inr (p, w')"
    using assms(3) shape by auto
  obtain i' j' where "or_replay e dto' type' hash' body' (w'\<lparr>tick := i', fresh := j'\<rparr>) = Inr (q, w'')"
    using run' shape' by auto
  from guarded_command.fresh_guarded(1) [OF cmd' this] guarded_command.fresh_guarded(2) [OF cmd first] assms(4-7)
  show False
    by (simp add: find_command_def)
qed

definition sample_verify :: jsval where
  "sample_verify = obj [(''schemaVersion'', JInt 1), (''workspaceId'', JStr (sample_uuid 901)),
     (''actorSubject'', JStr (js ''owner'')), (''commandId'', JStr (sample_uuid 902)),
     (''expectedBillingVersion'', JStr (js ''0'')), (''orderId'', JStr (sample_uuid 0)), (''expectedOrderVersion'', JInt 1)]"

theorem commands_serialize_witness: "\<exists>err. verifyOrder sample_env sample_verify ordered_db = Inl err"
proof -
  obtain p where run: "checkout sample_env sample_checkout shop_db = Inr (p, ordered_db)"
    using checkout_run by blast
  have fields: "ws_of sample_verify = ws_of sample_checkout" "expected_version sample_verify = expected_version sample_checkout"
    "cmd_of sample_verify = sample_uuid 902"
    by (simp_all add: sample_verify_def expected_version_def)
  show ?thesis
    by (rule commands_serialize [of checkout verifyOrder _ sample_checkout, OF _ _ run])
      (simp_all add: fields find_command_def sample_command_def)
qed

text \<open>
  C24. Closing a command never takes back a payment that may be under way: it cancels at most the pending
  order of that command, and only while no provider operation of the order was dispatched or is in
  process; every other order stays as it is.
\<close>

theorem close_before_dispatch_only:
  assumes "closeCommand e dto w = Inr (p, w')" "x \<in> set (orders w)"
  shows "x \<in> set (orders w') \<or> o_status x = O_PENDING \<and> close_order x \<in> set (orders w')
    \<and> (\<forall>y\<in>set (operations w). op_orderId y = o_id x \<longrightarrow> op_firstDispatchAt y = None \<and> op_status y \<noteq> P_PROCESSING)
    \<and> (\<exists>c. find_command (cmd_of dto) w = Some c \<and> c_orderId c = Some (o_id x) \<and> c_status c = C_PENDING)"
proof -
  obtain i j where "closeCommand_tx e dto (w\<lparr>tick := i, fresh := j\<rparr>) = Inr (p, w')"
    using assms(1) by (auto simp: closeCommand_def context_check_def fence_def)
  from close_found [OF this] obtain w1 where found: "case find_command (cmd_of dto) (w\<lparr>tick := i, fresh := j\<rparr>) of
        None \<Rightarrow> orders w1 = orders (w\<lparr>tick := i, fresh := j\<rparr>)
      | Some c \<Rightarrow> close_current c (w\<lparr>tick := i, fresh := j\<rparr>) = Inr ((), w1)"
    and rest: "proof_of e (ws_of dto) (cmd_of dto) (as_str (jsfield dto ''requestHash'')) (actor_of dto) w1 = Inr (p, w')"
    by auto
  have "steps (same orders) (proof_of e (ws_of dto) (cmd_of dto) (as_str (jsfield dto ''requestHash'')) (actor_of dto))"
    by (intro steps_intro)
  from sameD [OF stepsD [OF this rest]] have "orders w' = orders w1" .
  then show ?thesis
    using found assms(2)
    by (auto simp: close_current_def dispatched_def count_rows_def filter_empty_conv updateMany_order_def
        tb_orders.update_many_Inr update_command_def tb_commands.update_row_Inr set_upd_rows split: option.splits if_splits)
qed

definition sample_close :: jsval where
  "sample_close = obj [(''schemaVersion'', JInt 1), (''workspaceId'', JStr (sample_uuid 901)),
     (''actorSubject'', JStr (js ''owner'')), (''commandId'', JStr (sample_uuid 900)),
     (''requestHash'', JStr sample_hash), (''commandType'', JStr (js ''WINCRM_CHECKOUT'')), (''capacityFence'', sample_fence)]"

lemma sample_close_fields [simp]:
  "jsfield sample_close ''schemaVersion'' = JInt 1" "jsfield sample_close ''workspaceId'' = JStr (sample_uuid 901)"
  "jsfield sample_close ''actorSubject'' = JStr (js ''owner'')" "jsfield sample_close ''commandId'' = JStr (sample_uuid 900)"
  "jsfield sample_close ''requestHash'' = JStr sample_hash" "jsfield sample_close ''commandType'' = JStr (js ''WINCRM_CHECKOUT'')"
  "jsfield sample_close ''capacityFence'' = sample_fence" "jsfield sample_fence ''targetSeats'' = JInt 3"
  by (simp_all add: sample_close_def sample_fence_def)

lemma close_run: "\<exists>p w'. closeCommand sample_env sample_close ordered_db = Inr (p, w') \<and> orders w' = [close_order sample_order]"
proof -
  have "context_ok sample_close"
    using sample_checkout_checks(1) by (simp add: context_ok_def)
  moreover have "match_classes WINCRM_HASH sample_hash"
    by (simp add: WINCRM_HASH_def match_replicate sample_hash_def is_lower_hex_def is_digit_def list_all_length)
  ultimately have "closeCommand sample_env sample_close ordered_db = closeCommand_tx sample_env sample_close ordered_db"
    using sample_checkout_checks(4) by (simp add: closeCommand_def context_check_def fence_def sample_uuids tx_simps)
  moreover have "\<exists>p w'. closeCommand_tx sample_env sample_close ordered_db = Inr (p, w') \<and> orders w' = [close_order sample_order]"
    by (simp add: closeCommand_tx_def matchCommand_def sample_command_def prisma_defs)
      (simp add: close_current_def dispatched_def count_rows_def updateMany_order_def proof_of_def matchCommand_def upd_rows_def
        sample_operation_def new_operation_def prisma_defs, simp add: sample_command_def upd_rows_def tx_simps)
  ultimately show ?thesis
    by simp
qed

theorem close_before_dispatch_only_witness:
  "\<exists>p w'. closeCommand sample_env sample_close ordered_db = Inr (p, w') \<and> close_order sample_order \<in> set (orders w')"
proof -
  obtain p w' where run: "closeCommand sample_env sample_close ordered_db = Inr (p, w')" "orders w' = [close_order sample_order]"
    using close_run by blast
  have "o_status (close_order sample_order) \<noteq> o_status sample_order"
    by (simp add: close_order_def)
  then have "sample_order \<noteq> close_order sample_order"
    by metis
  then show ?thesis
    using close_before_dispatch_only [OF run(1), of sample_order] run by auto
qed

end
