(* ===== verification/Renewal_Properties.thy ===== *)
theory Renewal_Properties
  imports Scenario
begin

text \<open>
  Properties of the scheduler of the renewals and of the retry loop of the transactions: what a charge
  may create and when, how many orders one run of the scheduler creates, and that a transaction is
  tried at most three times and runs whenever one of these attempts is free of conflicts.
\<close>

section \<open>The retry loop\<close>

lemma attempts_run:
  "attempts e n k work w =
     (if \<exists>i\<le>k. \<not> conflicts e (tick w + i) (n + i)
      then work (w\<lparr>tick := tick w + (LEAST i. \<not> conflicts e (tick w + i) (n + i)),
                   fresh := fresh w + (LEAST i. \<not> conflicts e (tick w + i) (n + i))\<rparr>)
      else Inl P2034)"
proof (induction k arbitrary: n w)
  case 0
  show ?case
    by (auto simp: Least_eq_0)
next
  case (Suc k)
  show ?case
  proof (cases "conflicts e (tick w) n")
    case False
    then have "(LEAST i. \<not> conflicts e (tick w + i) (n + i)) = 0"
      by (intro Least_eq_0) simp
    then show ?thesis
      using False by (auto intro: exI [of _ 0])
  next
    case True
    let ?free = "\<lambda>i. \<not> conflicts e (tick w + i) (n + i)"
    have ex: "(\<exists>i\<le>Suc k. ?free i) \<longleftrightarrow> (\<exists>i\<le>k. ?free (Suc i))"
      using True by (metis (no_types, lifting) Suc_le_mono add.right_neutral not0_implies_Suc)
    have least: "(LEAST i. ?free i) = Suc (LEAST i. ?free (Suc i))" if "?free (Suc j)" for j
      using that True by (intro Least_Suc [of ?free "Suc j"]) simp_all
    show ?thesis
      using True by (auto simp: Suc.IH ex least simp del: add_Suc_right) (auto simp: least)
  qed
qed

section \<open>What a charge creates\<close>

lemma enqueue_keeps_tables:
  assumes "enqueue e ord kind key pid at w = Inr (x, w')"
  shows "orders w' = orders w \<and> renewals w' = renewals w"
proof
  have "steps (same orders) (enqueue e ord kind key pid at)"
    by (intro steps_intro; simp)
  from stepsD [OF this assms] show "orders w' = orders w"
    by (rule sameD)
  have "steps (same renewals) (enqueue e ord kind key pid at)"
    by (intro steps_intro; simp)
  from stepsD [OF this assms] show "renewals w' = renewals w"
    by (rule sameD)
qed

lemma pause_keeps_orders:
  assumes "pause e renewal status code w = Inr (n, w')"
  shows "n = 0 \<and> orders w' = orders w"
proof
  show "n = 0"
    using assms by (auto simp: pause_def)
  have "steps (same orders) (pause e renewal status code)"
    unfolding pause_def consent_def by (intro steps_intro; simp)
  from stepsD [OF this assms] show "orders w' = orders w"
    by (rule sameD)
qed

text \<open>The conditions under which the scheduler charges a renewal, and the order it then creates.\<close>

definition chargeable :: "env \<Rightarrow> renewal_row \<Rightarrow> date \<Rightarrow> db \<Rightarrow> bool" where
  "chargeable e renewal time w \<longleftrightarrow>
     r_status renewal = R_ACTIVE \<and> \<not> r_dispatchPending renewal
     \<and> renewal_due renewal \<le> time \<and> time < renewal_due renewal + charge_window renewal
     \<and> owner_available (find_contact (r_ownerSubject renewal) w)
     \<and> period_charged (latestPeriod (r_workspaceId renewal) w) renewal time
     \<and> (\<forall>x\<in>set (orders w). o_workspaceId x = r_workspaceId renewal \<longrightarrow> \<not> open_order x)
     \<and> (\<forall>x\<in>set (orders w). o_recurringCycleKey x \<noteq> Some (cycle_key renewal))
     \<and> (\<exists>policy snapshot. latest_policy w = Some policy \<and> readWincrmPriceSnapshot (r_priceSnapshot renewal) = Inr snapshot
          \<and> comparable (wincrmPriceSnapshot policy) = comparable snapshot)"

definition charges :: "renewal_row \<Rightarrow> order_row \<Rightarrow> bool" where
  "charges renewal x \<longleftrightarrow>
     o_workspaceId x = r_workspaceId renewal \<and> o_kind x = RECURRING \<and> o_status x = O_PENDING
     \<and> o_amountMinor x = r_amountMinor renewal \<and> o_totalSeats x = r_totalSeats renewal \<and> o_cycle x = r_cycle renewal
     \<and> o_recurringCycleKey x = Some (cycle_key renewal) \<and> o_expectedRenewalVersion x = Some (r_version renewal + 1)
     \<and> o_checkoutExpiresAt x \<le> renewal_due renewal + charge_window renewal"

lemma charge_order_effect:
  assumes "charge_order e renewal account identity snapshot time w = Inr (n, w')"
    and "find_renewal (r_workspaceId renewal) w = Some renewal"
  shows "n = 1 \<and> (\<exists>x. orders w' = orders w @ [x] \<and> charges renewal x)
    \<and> find_renewal (r_workspaceId renewal) w' = Some (renewal\<lparr>r_dispatchPending := True, r_version := r_version renewal + 1\<rparr>)"
  using assms
  by (auto simp: charge_order_def randomUUID_def new_date_def create_order_def tb_orders.create_row_Inr charges_def
      recurring_order_def update_renewal_def tb_renewals.update_row_Inr update_account_def tb_accounts.update_row_Inr
      find_renewal_def find_upd_rows dest!: enqueue_keeps_tables)

lemma chargeableI:
  assumes "r_workspaceId renewal = ws" "charge_order e renewal account identity snapshot time w1 = Inr (n, w')"
    "r_status renewal = R_ACTIVE" "\<not> r_dispatchPending renewal" "\<not> time < renewal_due renewal"
    "\<not> charge_window renewal \<le> time - renewal_due renewal" "owner_available (find_contact (r_ownerSubject renewal) w)"
    "period_charged (latestPeriod ws w) renewal time" "count_rows (\<lambda>x. o_workspaceId x = ws \<and> open_order x) (orders w) = 0"
    "find (\<lambda>x. o_recurringCycleKey x = Some (cycle_key renewal)) (orders w) = None" "latest_policy w = Some policy"
    "readWincrmPriceSnapshot (r_priceSnapshot renewal) = Inr snapshot"
    "comparable (wincrmPriceSnapshot policy) = comparable snapshot"
  shows "chargeable e renewal time w
    \<and> (\<exists>account identity snapshot. charge_order e renewal account identity snapshot time w1 = Inr (n, w'))"
  using assms by (auto simp: chargeable_def count_rows_def filter_empty_conv find_None_iff)

lemma charge_tx_effect:
  assumes "charge_tx e ws w = Inr (n, w')"
  shows "n = 0 \<and> orders w' = orders w
    \<or> n = 1 \<and> (\<exists>renewal k x. find_renewal ws w = Some renewal \<and> chargeable e renewal (clock e k) w
        \<and> orders w' = orders w @ [x] \<and> charges renewal x
        \<and> find_renewal ws w' = Some (renewal\<lparr>r_dispatchPending := True, r_version := r_version renewal + 1\<rparr>))"
proof -
  obtain renewal where found: "find_renewal ws w = Some renewal"
    using assms by (auto simp: charge_tx_def)
  then have ws: "r_workspaceId renewal = ws"
    by (auto simp: find_renewal_def dest!: find_Some_D)
  have "n = 0 \<and> orders w' = orders w \<or> chargeable e renewal (clock e (tick w)) w
      \<and> (\<exists>account identity snapshot. charge_order e renewal account identity snapshot (clock e (tick w))
            (w\<lparr>tick := tick w + 1\<rparr>) = Inr (n, w'))"
    using assms unfolding charge_tx_def charge_priced_def requireCrmCommercialPolicy_def
    by (auto simp: found ws new_date_def split: if_splits dest!: pause_keeps_orders)
      (blast dest: chargeableI [OF ws])+
  then show ?thesis
  proof (elim disjE conjE exE)
    fix account identity snapshot
    assume ok: "chargeable e renewal (clock e (tick w)) w"
      and run: "charge_order e renewal account identity snapshot (clock e (tick w)) (w\<lparr>tick := tick w + 1\<rparr>) = Inr (n, w')"
    have "find_renewal (r_workspaceId renewal) (w\<lparr>tick := tick w + 1\<rparr>) = Some renewal"
      using found ws by simp
    from charge_order_effect [OF run this] show ?thesis
      using found ws ok by auto
  qed simp
qed

section \<open>A run of the scheduler\<close>

lemma set_insert_by [simp]: "set (insert_by precedes x xs) = insert x (set xs)"
  by (induction xs) auto

lemma set_order_by [simp]: "set (order_by precedes xs) = set xs"
  by (induction xs) auto

text \<open>The loop \<open>commits\<close> runs at most one transaction for each element.\<close>

lemma commits_steps:
  assumes "\<And>x w k w'. f x w = Inr (k, w') \<Longrightarrow> R w w'"
  shows "commits f xs n w = (r, w') \<Longrightarrow> R\<^sup>*\<^sup>* w w'"
proof (induction xs arbitrary: n w)
  case (Cons x xs)
  show ?case
  proof (cases "f x w")
    case (Inr p)
    then obtain k w1 where "f x w = Inr (k, w1)" "commits f xs (n + k) w1 = (r, w')"
      using Cons.prems by (cases p) simp
    then show ?thesis
      using Cons.IH assms by (blast intro: converse_rtranclp_into_rtranclp)
  qed (use Cons.prems in simp)
qed simp

lemma commits_count:
  assumes "\<And>x w k w'. f x w = Inr (k, w') \<Longrightarrow> k \<le> 1 \<and> length (orders w') = length (orders w) + k"
  shows "commits f xs n w = (r, w') \<Longrightarrow> length (orders w) \<le> length (orders w')
    \<and> length (orders w') \<le> length (orders w) + length xs
    \<and> (\<forall>m. r = Inr m \<longrightarrow> length (orders w') + n = length (orders w) + m)"
proof (induction xs arbitrary: n w)
  case (Cons x xs)
  show ?case
  proof (cases "f x w")
    case (Inr p)
    then obtain k w1 where run: "f x w = Inr (k, w1)" "commits f xs (n + k) w1 = (r, w')"
      using Cons.prems by (cases p) simp
    from Cons.IH [OF run(2)] assms [OF run(1)] show ?thesis
      by auto
  qed (use Cons.prems in auto)
qed auto

lemma commits_keep:
  assumes "\<And>x. steps (keeps I) (f x)" "commits f xs n w = (r, w')" "I w"
  shows "I w'"
proof -
  have "(keeps I)\<^sup>*\<^sup>* w w'"
    using commits_steps [of f "keeps I"] assms(1,2) by (meson stepsD)
  then show ?thesis
    using assms(3) by (induction rule: rtranclp_induct) (auto simp: keeps_def)
qed

lemma commits_all:
  assumes "\<And>x y. steps (keeps (P y)) (f x)" "\<And>x y. steps (keeps (Q y)) (f x)"
    and "\<And>x w k w'. f x w = Inr (k, w') \<Longrightarrow> P x w \<Longrightarrow> Q x w'"
  shows "commits f xs n w = (Inr m, w') \<Longrightarrow> \<forall>x\<in>set xs. P x w \<Longrightarrow> \<forall>x\<in>set xs. Q x w'"
proof (induction xs arbitrary: n w)
  case (Cons x xs)
  obtain k w1 where run: "f x w = Inr (k, w1)" "commits f xs (n + k) w1 = (Inr m, w')"
    using Cons.prems(1) by (auto split: sum.splits)
  have "P y w1" if "y \<in> set xs" for y
    using stepsD [OF assms(1) run(1), of y] Cons.prems(2) that by (simp add: keeps_def)
  moreover have "Q x w'"
    using commits_keep [OF assms(2) run(2)] assms(3) [OF run(1)] Cons.prems(2) by simp
  ultimately show ?case
    using Cons.IH [OF run(2)] by simp
qed simp

lemma charge_count:
  assumes "transaction e (charge_tx e ws) w = Inr (k, w')"
  shows "k \<le> 1 \<and> length (orders w') = length (orders w) + k"
proof -
  obtain i j where "charge_tx e ws (w\<lparr>tick := i, fresh := j\<rparr>) = Inr (k, w')"
    using assms by auto
  from charge_tx_effect [OF this] show ?thesis
    by auto
qed

lemma activation_keeps_orders:
  assumes "transaction e (activation_tx e pid) w = Inr (k, w')"
  shows "orders w' = orders w"
proof -
  have "steps (same orders) (transaction e (activation_tx e pid))"
    unfolding activation_tx_def by (intro steps_intro; simp)
  from stepsD [OF this assms] show ?thesis
    by (rule sameD)
qed

subsection \<open>Announcing the periods that have started\<close>

definition announced :: "jsstring \<Rightarrow> db \<Rightarrow> bool" where
  "announced pid w = (case find_period pid w of None \<Rightarrow> False | Some p \<Rightarrow> p_activationNotifiedAt p \<noteq> None)"

definition started_by :: "date \<Rightarrow> jsstring \<Rightarrow> db \<Rightarrow> bool" where
  "started_by t pid w = (case find_period pid w of None \<Rightarrow> True | Some p \<Rightarrow> p_startsAt p \<le> t)"

lemma notify_find_period:
  assumes "update_period (\<lambda>x. p_id x = k) (\<lambda>x. x\<lparr>p_activationNotifiedAt := Some t\<rparr>) w = Inr (r, w')"
  shows "find_period pid w' = map_option (\<lambda>p. if p_id p = k then p\<lparr>p_activationNotifiedAt := Some t\<rparr> else p) (find_period pid w)"
  using assms by (auto simp: update_period_def tb_periods.update_row_Inr find_period_def find_upd_rows)

interpretation announced: core_relation "keeps (announced pid)" for pid
proof unfold_locales
  show "steps (keeps (announced pid)) (update_period (\<lambda>x. p_id x = k) (\<lambda>x. x\<lparr>p_activationNotifiedAt := Some t\<rparr>))" for k t
    by (rule stepsI) (auto simp: keeps_def announced_def dest!: notify_find_period [where pid = pid] split: option.splits)
qed (auto simp: keeps_def frame_def announced_def find_period_def)

interpretation started_by: core_relation "keeps (started_by t pid)" for t pid
proof unfold_locales
  show "steps (keeps (started_by t pid)) (update_period (\<lambda>x. p_id x = k) (\<lambda>x. x\<lparr>p_activationNotifiedAt := Some u\<rparr>))" for k u
    by (rule stepsI) (auto simp: keeps_def started_by_def dest!: notify_find_period [where pid = pid] split: option.splits)
qed (simp_all add: keeps_def frame_def started_by_def find_period_def)

lemma notify_announces:
  assumes "update_period (\<lambda>x. p_id x = pid) (\<lambda>x. x\<lparr>p_activationNotifiedAt := Some t\<rparr>) w = Inr (r, w')"
  shows "announced pid w'"
proof -
  obtain p where "find_period pid w = Some p" "p_id p = pid"
    using assms by (auto simp: update_period_def tb_periods.update_row_Inr find_period_def dest: find_Some_D)
  then show ?thesis
    using notify_find_period [OF assms, of pid] by (simp add: announced_def)
qed

lemma activation_announces:
  assumes "transaction e (activation_tx e pid) w = Inr (k, w')" "started_by t pid w" "\<And>n. t \<le> clock e n"
  shows "announced pid w'"
proof -
  obtain i j where run: "activation_tx e pid (w\<lparr>tick := i, fresh := j\<rparr>) = Inr (k, w')"
    using assms(1) by auto
  then obtain p where p: "find_period pid w = Some p"
    by (auto simp: activation_tx_def)
  then have id: "p_id p = pid"
    by (auto simp: find_period_def dest!: find_Some_D)
  have "p_startsAt p \<le> clock e n" for n
    using assms(2) assms(3) [of n] p by (simp add: started_by_def)
  then show ?thesis
    using run p unfolding id [symmetric]
    by (auto simp: activation_tx_def new_date_def announced_def [of "p_id p" "w\<lparr>tick := i, fresh := j\<rparr>"] not_less [symmetric]
        split: if_splits dest!: notify_announces)
qed

subsection \<open>The events that announce them\<close>

text \<open>
  An event that tells CRM Access of a newer version of an entitlement: it is published under the routing
  key of entitlement changes, for the entitlement's row and workspace.
\<close>

definition wakes :: "entitlement_row \<Rightarrow> outbox_row \<Rightarrow> bool" where
  "wakes ent ev \<longleftrightarrow> x_eventType ev = ''billing.crm-entitlement.changed.v1''
     \<and> x_exchange ev = ''winwidget.events'' \<and> x_routingKey ev = ''billing.crm-entitlement.changed.v1''
     \<and> x_aggregateId ev = e_id ent \<and> (\<exists>v > e_aggregateVersion ent. x_aggregateVersion ev = Some v)
     \<and> jsfield (jsfield (x_payload ev) ''state'') ''workspaceId'' = JStr (e_workspaceId ent)"

definition period_head :: "period_row \<Rightarrow> jsstring \<times> jsstring" where
  "period_head p = (p_id p, p_workspaceId p)"

text \<open>
  From one state to a later one the periods stay in place, the outbox only grows, the version of an
  entitlement does not fall, and whenever a period has become announced in between, an event for the
  entitlement of its workspace has been published.
\<close>

definition entitlement_grows :: "db \<Rightarrow> db \<Rightarrow> bool" where
  "entitlement_grows w w' \<longleftrightarrow> (\<forall>ws ent. find_entitlement ws w = Some ent \<longrightarrow> (\<exists>ent'. find_entitlement ws w' = Some ent'
     \<and> e_id ent' = e_id ent \<and> e_aggregateVersion ent \<le> e_aggregateVersion ent'))"

definition published :: "db \<Rightarrow> db \<Rightarrow> bool" where
  "published w w' \<longleftrightarrow> map period_head (periods w') = map period_head (periods w)
     \<and> (\<exists>evs. outbox w' = outbox w @ evs \<and> (distinct (map p_id (periods w)) \<longrightarrow>
          (\<forall>i < length (periods w). p_activationNotifiedAt (periods w ! i) = None
             \<longrightarrow> p_activationNotifiedAt (periods w' ! i) \<noteq> None
             \<longrightarrow> (\<forall>ent. find_entitlement (p_workspaceId (periods w ! i)) w = Some ent \<longrightarrow> (\<exists>ev\<in>set evs. wakes ent ev)))))
     \<and> entitlement_grows w w'"

lemma find_entitlement_workspace: "find_entitlement ws w = Some ent \<Longrightarrow> e_workspaceId ent = ws"
  unfolding find_entitlement_def by (drule find_Some_D) simp

lemma wakes_newer:
  assumes "wakes ent' ev" "e_id ent' = e_id ent" "e_aggregateVersion ent \<le> e_aggregateVersion ent'"
    and "e_workspaceId ent' = e_workspaceId ent"
  shows "wakes ent ev"
  using assms by (auto simp: wakes_def)

lemma entitlement_grows_trans:
  assumes "entitlement_grows a b" "entitlement_grows b c"
  shows "entitlement_grows a c"
proof (unfold entitlement_grows_def, intro allI impI)
  fix ws ent
  assume "find_entitlement ws a = Some ent"
  then obtain ent1 ent2 where "find_entitlement ws b = Some ent1" "e_id ent1 = e_id ent"
      "e_aggregateVersion ent \<le> e_aggregateVersion ent1" "find_entitlement ws c = Some ent2" "e_id ent2 = e_id ent1"
      "e_aggregateVersion ent1 \<le> e_aggregateVersion ent2"
    using assms unfolding entitlement_grows_def by blast
  then show "\<exists>ent'. find_entitlement ws c = Some ent' \<and> e_id ent' = e_id ent \<and> e_aggregateVersion ent \<le> e_aggregateVersion ent'"
    by force
qed

lemma published_trans:
  assumes ab: "published a b" and bc: "published b c"
  shows "published a c"
proof -
  obtain e1 e2 where e: "outbox b = outbox a @ e1" "outbox c = outbox b @ e2"
    using ab bc by (auto simp: published_def)
  have len: "length (periods b) = length (periods a)"
    using ab by (metis length_map published_def)
  have ids: "map p_id (periods b) = map p_id (periods a)"
  proof -
    have "map fst (map period_head (periods b)) = map fst (map period_head (periods a))"
      using ab by (simp add: published_def)
    then show ?thesis
      by (simp add: period_head_def comp_def)
  qed
  have ws: "p_workspaceId (periods b ! i) = p_workspaceId (periods a ! i)" if "i < length (periods a)" for i
  proof -
    have "map period_head (periods b) ! i = map period_head (periods a) ! i"
      using ab by (simp add: published_def)
    then show ?thesis
      using that len by (simp add: period_head_def)
  qed
  have "\<exists>ev\<in>set (e1 @ e2). wakes ent ev"
    if i: "distinct (map p_id (periods a))" "i < length (periods a)" "p_activationNotifiedAt (periods a ! i) = None"
      "p_activationNotifiedAt (periods c ! i) \<noteq> None" "find_entitlement (p_workspaceId (periods a ! i)) a = Some ent" for i ent
  proof (cases "p_activationNotifiedAt (periods b ! i) = None")
    case True
    have "entitlement_grows a b"
      using ab by (simp add: published_def)
    then obtain ent' where ent': "find_entitlement (p_workspaceId (periods a ! i)) b = Some ent'" "e_id ent' = e_id ent"
        "e_aggregateVersion ent \<le> e_aggregateVersion ent'"
      using i(5) unfolding entitlement_grows_def by blast
    have "\<exists>ev\<in>set e2. wakes ent' ev"
      using bc True i e(2) ent'(1) ids len ws by (auto simp: published_def)
    then show ?thesis
      using wakes_newer ent' i(5) find_entitlement_workspace by (metis UnCI set_append)
  next
    case False
    then show ?thesis
      using ab i e(1) by (auto simp: published_def)
  qed
  moreover have "entitlement_grows a c"
    by (rule entitlement_grows_trans [of a b]) (use ab bc in \<open>simp_all add: published_def\<close>)
  ultimately show ?thesis
    using ab bc e unfolding published_def by (intro conjI exI [of _ "e1 @ e2"]) auto
qed

lemma published_timeless [simp]: "published (w\<lparr>tick := i, fresh := j\<rparr>) w' = published w w'"
  by (simp add: published_def entitlement_grows_def find_entitlement_def)

lemma published_refl: "published w w"
  by (auto simp: published_def entitlement_grows_def)

text \<open>What a wake-up call writes.\<close>

lemma notify_writes:
  assumes "notify_activation period now w = Inr (u, w')"
  shows "entitlements w' = entitlements w \<and> outbox w' = outbox w \<and> (periods w' = periods w \<or> (\<exists>p. period = Some p
     \<and> periods w' = upd_rows (\<lambda>x. p_id x = p_id p) (\<lambda>x. x\<lparr>p_activationNotifiedAt := Some now\<rparr>) (periods w)))"
  using assms by (auto simp: notify_activation_def update_period_def tb_periods.update_row_Inr split: option.splits if_splits)

lemma wake_writes:
  assumes run: "enqueueCrmEntitlementChanged e ws w = Inr (u, w')" and base: "find_entitlement ws w = Some base"
  obtains ev f now where "outbox w' = outbox w @ [ev]" "wakes base ev"
    "entitlements w' = upd_rows (\<lambda>x. e_workspaceId x = ws) f (entitlements w)"
    "\<And>x. e_id (f x) = e_id x \<and> e_workspaceId (f x) = e_workspaceId x" "e_aggregateVersion base \<le> e_aggregateVersion (f base)"
    "periods w' = periods w \<or> (\<exists>p. p \<in> set (periods w) \<and> p_workspaceId p = ws
       \<and> periods w' = upd_rows (\<lambda>x. p_id x = p_id p) (\<lambda>x. x\<lparr>p_activationNotifiedAt := Some now\<rparr>) (periods w))"
proof -
  define v where "v = wake_version (find_account ws w) base"
  have v: "e_aggregateVersion base < v"
    by (auto simp: v_def wake_version_def Let_def split: if_splits)
  let ?now = "clock e (tick w)"
  let ?f = "\<lambda>s t x. x\<lparr>e_sourceSequence := s, e_aggregateVersion := v, e_updatedAt := t\<rparr>"
  have timeless: "started_period ws t (w\<lparr>tick := n\<rparr>) = started_period ws t w" for t n
    by (simp add: started_period_def)
  obtain s t q n w2 ev where n: "notify_activation (started_period ws ?now w) ?now
        (entitlements_update (upd_rows (\<lambda>x. e_workspaceId x = ws) (?f s t)) (w\<lparr>sourceSequence := q, tick := n\<rparr>)) = Inr ((), w2)"
      and rows: "periods w' = periods w2" "entitlements w' = entitlements w2" "outbox w' = outbox w2 @ [ev]" "wakes base ev"
    using run base v
    by (auto simp: enqueueCrmEntitlementChanged_def new_date_def upsert_sequence_def randomUUID_def Let_def
        update_entitlement_def create_outbox_def tb_entitlements.update_row_Inr tb_outbox.create_row_Inr
        entitlement_event_def wakes_def v_def [symmetric] timeless find_entitlement_workspace [OF base])
  have "p \<in> set (periods w) \<and> p_workspaceId p = ws" if "started_period ws (clock e (tick w)) w = Some p" for p
    using that by (auto simp: started_period_def dest!: first_by_in)
  then show thesis
    using notify_writes [OF n] rows v by (intro that [of ev "?f s t" ?now]) auto
qed

lemma entitlement_grows_update:
  assumes "entitlements w' = upd_rows (\<lambda>x. e_workspaceId x = ws) f (entitlements w)" "find_entitlement ws w = Some base"
    and "\<And>x. e_id (f x) = e_id x \<and> e_workspaceId (f x) = e_workspaceId x" "e_aggregateVersion base \<le> e_aggregateVersion (f base)"
  shows "entitlement_grows w w'"
proof (unfold entitlement_grows_def, intro allI impI)
  fix ws' ent
  assume ent: "find_entitlement ws' w = Some ent"
  have "find_entitlement ws' w' = map_option (\<lambda>r. if e_workspaceId r = ws then f r else r) (find_entitlement ws' w)"
    unfolding find_entitlement_def assms(1) by (rule find_upd_rows) (simp add: assms(3))
  moreover have "ent = base" if "e_workspaceId ent = ws"
    using that find_entitlement_workspace [OF ent] ent assms(2) by simp
  ultimately show "\<exists>ent'. find_entitlement ws' w' = Some ent' \<and> e_id ent' = e_id ent \<and> e_aggregateVersion ent \<le> e_aggregateVersion ent'"
    using ent assms(3,4) by auto
qed

lemma period_head_notified [simp]: "period_head (p\<lparr>p_activationNotifiedAt := t\<rparr>) = period_head p"
  by (simp add: period_head_def)

lemma same_id_row: "distinct (map p_id ps) \<Longrightarrow> i < length ps \<Longrightarrow> q \<in> set ps \<Longrightarrow> p_id (ps ! i) = p_id q \<Longrightarrow> ps ! i = q"
  by (metis distinct_map inj_onD nth_mem)

lemma published_rows:
  assumes "map period_head (periods w') = map period_head (periods w)" "outbox w' = outbox w @ evs" "entitlement_grows w w'"
    and "\<And>i. distinct (map p_id (periods w)) \<Longrightarrow> i < length (periods w)
      \<Longrightarrow> p_activationNotifiedAt (periods w' ! i) \<noteq> p_activationNotifiedAt (periods w ! i) \<Longrightarrow> p_workspaceId (periods w ! i) = ws"
    and "\<And>ent. find_entitlement ws w = Some ent \<Longrightarrow> \<exists>ev\<in>set evs. wakes ent ev"
  shows "published w w'"
  unfolding published_def using assms by (intro conjI exI [of _ evs]) auto

lemma activation_published:
  assumes run: "activation_tx e pid w = Inr (k, w')"
  shows "published w w'"
proof -
  obtain current where "find_period pid w = Some current"
    using run by (auto simp: activation_tx_def)
  then have current: "current \<in> set (periods w)" "find_period pid w = Some current"
    by (auto simp: find_period_def dest: find_Some_D)
  let ?mark = "\<lambda>q t. upd_rows (\<lambda>x. p_id x = p_id q) (\<lambda>x. x\<lparr>p_activationNotifiedAt := Some t\<rparr>)"
  consider (skip) "periods w' = periods w" "outbox w' = outbox w" "entitlements w' = entitlements w"
    | (wake) n t w1 where "enqueueCrmEntitlementChanged e (p_workspaceId current) (w\<lparr>tick := n\<rparr>) = Inr ((), w1)"
        "periods w' = ?mark current t (periods w1)" "outbox w' = outbox w1" "entitlements w' = entitlements w1"
    using run current(2)
    by (auto simp: activation_tx_def new_date_def update_period_def tb_periods.update_row_Inr split: if_splits)
  then show ?thesis
  proof cases
    case skip
    then show ?thesis
      by (auto simp: published_def entitlement_grows_def find_entitlement_def)
  next
    case (wake n t w1)
    note wake = wake(1) and w' = wake(2-4)
    have own: "p_workspaceId (periods w ! i) = p_workspaceId current"
      if "distinct (map p_id (periods w))" "i < length (periods w)" "p_id (periods w ! i) = p_id q" "q \<in> set (periods w)"
        "p_workspaceId q = p_workspaceId current" for i q
      using same_id_row [OF that(1,2,4,3)] that(5) by simp
    show ?thesis
    proof (cases "find_entitlement (p_workspaceId current) w")
      case None
      then have "w1 = w\<lparr>tick := n\<rparr>"
        using wake by (auto simp: enqueueCrmEntitlementChanged_def find_entitlement_def)
      then show ?thesis
        using w' None own [OF _ _ _ current(1)]
        by (intro published_rows [where ws = "p_workspaceId current" and evs = "[]"])
          (auto simp: upd_rows_def entitlement_grows_def find_entitlement_def split: if_splits)
    next
      case (Some base)
      then have base: "find_entitlement (p_workspaceId current) (w\<lparr>tick := n\<rparr>) = Some base"
        by (simp add: find_entitlement_def)
      obtain ev f now where o: "outbox w1 = outbox w @ [ev]" "wakes base ev"
          and ent: "entitlements w1 = upd_rows (\<lambda>x. e_workspaceId x = p_workspaceId current) f (entitlements w)"
            "\<And>x. e_id (f x) = e_id x \<and> e_workspaceId (f x) = e_workspaceId x" "e_aggregateVersion base \<le> e_aggregateVersion (f base)"
          and marks: "periods w1 = periods w \<or> (\<exists>p. p \<in> set (periods w) \<and> p_workspaceId p = p_workspaceId current
            \<and> periods w1 = ?mark p now (periods w))"
        by (rule wake_writes [OF wake base]) simp
      have "entitlement_grows w w'"
        using entitlement_grows_update [OF ent(1) [folded w'(3)] Some ent(2,3)] .
      then show ?thesis
        using w' o marks Some own [OF _ _ _ current(1)] own
        by (intro published_rows [where ws = "p_workspaceId current" and evs = "[ev]"])
          (auto simp: upd_rows_def split: if_splits)
    qed
  qed
qed

text \<open>A charge announces no period.\<close>

definition outbox_grows :: "db \<Rightarrow> db \<Rightarrow> bool" where
  "outbox_grows w w' \<longleftrightarrow> (\<exists>evs. outbox w' = outbox w @ evs)"

interpretation outbox_grows: db_relation outbox_grows
  by unfold_locales (auto simp: outbox_grows_def frame_def)

lemma outbox_grows_create: "steps outbox_grows (create_outbox row)"
  by (rule stepsI) (auto simp: outbox_grows_def create_outbox_def tb_outbox.create_row_Inr)

lemma charge_published:
  assumes "charge_tx e ws w = Inr (k, w')"
  shows "published w w'"
proof -
  have "steps outbox_grows (charge_tx e ws)"
    unfolding charge_tx_def charge_priced_def charge_order_def pause_def enqueue_def providerOutbox_def
    by (intro outbox_grows_create steps_intro; simp add: outbox_grows_def frame_def)
  moreover have "steps (same periods) (charge_tx e ws)" "steps (same entitlements) (charge_tx e ws)"
    unfolding charge_tx_def charge_priced_def charge_order_def pause_def by (intro steps_intro; simp)+
  ultimately have "outbox_grows w w'" "periods w' = periods w" "entitlements w' = entitlements w"
    using assms by (auto simp: steps_def same_def)
  then show ?thesis
    by (auto simp: published_def outbox_grows_def entitlement_grows_def find_entitlement_def)
qed

lemma published_run: "published\<^sup>*\<^sup>* w w' \<Longrightarrow> published w w'"
  by (induction rule: rtranclp_induct) (auto intro: published_refl published_trans)

lemma scheduler_published:
  assumes "advanceRenewals e (Some t) w = (Inr n, w')"
  shows "published w w'"
proof -
  obtain m w1 where first: "commits (\<lambda>p. transaction e (activation_tx e (p_id p))) (due_periods t w) 0 w = (Inr m, w1)"
    and rest: "w' = w1 \<or> commits (\<lambda>r. transaction e (charge_tx e (r_workspaceId r))) (due_renewals t w1) 0 w1 = (Inr n, w')"
    using assms by (auto simp: advanceRenewals_def split: prod.splits sum.splits if_splits)
  have "published\<^sup>*\<^sup>* w w1"
    by (rule commits_steps [OF _ first]) (auto dest: activation_published)
  moreover have "published\<^sup>*\<^sup>* w1 w'"
    if "commits (\<lambda>r. transaction e (charge_tx e (r_workspaceId r))) (due_renewals t w1) 0 w1 = (Inr n, w')"
    by (rule commits_steps [OF _ that]) (auto dest: charge_published)
  ultimately show ?thesis
    using rest published_run published_trans by blast
qed

lemma published_period:
  assumes pub: "published w w'" and ids: "distinct (map p_id (periods w))" and p: "p \<in> set (periods w)"
    "p_activationNotifiedAt p = None" "find_period (p_id p) w' = Some q" "p_activationNotifiedAt q \<noteq> None"
    and ent: "find_entitlement (p_workspaceId p) w = Some ent" and out: "outbox w' = outbox w @ evs"
  shows "\<exists>ev\<in>set evs. wakes ent ev"
proof -
  obtain i where i: "i < length (periods w)" "periods w ! i = p"
    using p(1) by (auto simp: in_set_conv_nth)
  have heads: "map period_head (periods w') = map period_head (periods w)"
    using pub by (simp add: published_def)
  have "map p_id (periods w') = map p_id (periods w)"
    using arg_cong [OF heads, of "map fst"] by (simp add: period_head_def comp_def)
  moreover have "period_head (periods w' ! i) = period_head p" and len: "i < length (periods w')"
    using heads i by (metis length_map nth_map)+
  moreover have "q \<in> set (periods w')" "p_id q = p_id p"
    using p(3) by (auto simp: find_period_def dest!: find_Some_D)
  ultimately have "periods w' ! i = q"
    using ids same_id_row [of "periods w'" i q] by (simp add: period_head_def)
  then show ?thesis
    using pub ids i p(2,4) ent out by (auto simp: published_def)
qed

section \<open>A due renewal\<close>

text \<open>A workspace whose paid period ended one second before the first reading of the clock.\<close>

definition due_renewal :: renewal_row where
  "due_renewal = \<lparr>r_workspaceId = sample_uuid 901, r_id = sample_uuid 903, r_ownerSubject = js ''owner'', r_version = 1,
     r_status = R_ACTIVE, r_cycle = MONTHLY, r_totalSeats = 3, r_amountMinor = 350,
     r_priceSnapshot = snapshot_json (wincrmPriceSnapshot sample_policy), r_paymentMethodCiphertext = js ''cipher'',
     r_paymentMethodTitle = None, r_paymentMethodLast4 = None, r_consentVersion = WINCRM_CONSENT_VERSION,
     r_consentText = WINCRM_CONSENT_TEXT, r_consentedAt = 1697000000000, r_nextChargeAt = 1699999999000,
     r_retryStartedAt = None, r_retryAttempt = 0, r_nextRetryAt = None, r_dispatchPending = False, r_disabledAt = None,
     r_lastErrorCode = None\<rparr>"

definition ended_period :: period_row where
  "ended_period = \<lparr>p_id = sample_uuid 904, p_workspaceId = sample_uuid 901, p_orderId = sample_uuid 905, p_version = 1,
     p_cycle = MONTHLY, p_totalSeats = 3, p_originalSeats = 3,
     p_priceSnapshot = snapshot_json (wincrmPriceSnapshot sample_policy), p_startsAt = 1697000000000,
     p_expiresAt = 1699999999000, p_originalExpiresAt = 1699999999000, p_graceUntil = 1700999999000,
     p_activationNotifiedAt = None\<rparr>"

definition due_db :: db where
  "due_db = shop_db\<lparr>accounts := [\<lparr>a_workspaceId = sample_uuid 901, a_ownerSubject = js ''owner'', a_version = 4,
       a_capacityCommandId = Some (sample_uuid 900), a_capacityFence = Some sample_fence\<rparr>],
     periods := [ended_period], renewals := [due_renewal]\<rparr>"

definition started_db :: db where
  "started_db = due_db\<lparr>periods := [ended_period\<lparr>p_activationNotifiedAt := Some 1700000001000\<rparr>], tick := 2\<rparr>"

lemma sample_uuid_nonempty [simp]: "sample_uuid n \<noteq> []"
  by (simp add: sample_uuid_def js_def)

lemma activation_run: "activation_tx sample_env (sample_uuid 904) due_db = Inr (0, started_db)"
  by (simp add: activation_tx_def due_db_def started_db_def find_period_def ended_period_def
      enqueueCrmEntitlementChanged_def upd_rows_def prisma_defs)

lemma charge_run: "\<exists>w'. charge_tx sample_env (sample_uuid 901) started_db = Inr (1, w')"
  apply (simp add: charge_tx_def due_db_def started_db_def prisma_defs due_renewal_def)
  apply (simp add: renewal_due_def charge_window_def truthy_def json_truthy_def sample_fence_def obj_def owner_available_def
      latestPeriod_def period_charged_def ended_period_def charge_priced_def count_rows_def requireCrmCommercialPolicy_def
      latest_policy_def read_snapshot_json sample_snapshot_ok prisma_defs)
  apply (simp add: charge_order_def recurring_order_def enqueue_def providerOutbox_def update_renewal_def prisma_defs upd_rows_def)
  done

lemma scheduler_run: "\<exists>w'. advanceRenewals sample_env (Some 1700000000000) due_db = (Inr 1, w')"
proof -
  have "due_periods 1700000000000 due_db = [ended_period]"
    by (simp add: due_periods_def due_db_def ended_period_def)
  moreover have "due_renewals 1700000000000 started_db = [due_renewal]"
    by (simp add: due_renewals_def started_db_def due_db_def charge_due_def due_renewal_def)
  moreover have "p_id ended_period = sample_uuid 904" "r_workspaceId due_renewal = sample_uuid 901"
    by (simp_all add: ended_period_def due_renewal_def)
  ultimately show ?thesis
    using charge_run by (auto simp: advanceRenewals_def activation_run)
qed

section \<open>Properties\<close>

text \<open>
  C28. A transaction is tried at most three times: it runs its body once, at the first attempt that the
  database does not abort, and fails with the serialization error exactly when all three are aborted.
\<close>

theorem transaction_retries:
  "(\<exists>i\<le>2. (\<forall>j<i. conflicts e (tick w + j) j) \<and> \<not> conflicts e (tick w + i) i
      \<and> transaction e work w = work (w\<lparr>tick := tick w + i, fresh := fresh w + i\<rparr>))
   \<or> (\<forall>i\<le>2. conflicts e (tick w + i) i) \<and> transaction e work w = Inl P2034"
proof (cases "\<exists>i\<le>2. \<not> conflicts e (tick w + i) i")
  case True
  define i where "i = (LEAST i. \<not> conflicts e (tick w + i) i)"
  have "\<not> conflicts e (tick w + i) i"
    using True unfolding i_def by (intro LeastI_ex [of "\<lambda>i. \<not> conflicts e (tick w + i) i"]) blast
  moreover have "i \<le> 2"
    using True Least_le [of "\<lambda>i. \<not> conflicts e (tick w + i) i"] unfolding i_def by (meson order_trans)
  moreover have "conflicts e (tick w + j) j" if "j < i" for j
    using not_less_Least [of j "\<lambda>i. \<not> conflicts e (tick w + i) i"] that unfolding i_def by blast
  moreover have "transaction e work w = work (w\<lparr>tick := tick w + i, fresh := fresh w + i\<rparr>)"
    using True by (simp add: transaction_def attempts_run i_def)
  ultimately show ?thesis
    by blast
next
  case False
  then show ?thesis
    by (auto simp: transaction_def attempts_run)
qed

definition busy_env :: env where
  "busy_env = sample_env\<lparr>conflicts := (\<lambda>t n. n < 2)\<rparr>"

theorem transaction_retries_witness:
  "transaction busy_env (new_date busy_env) shop_db = Inr (1700000002000, shop_db\<lparr>tick := 3, fresh := 2\<rparr>)"
proof -
  have "\<exists>i\<le>2. (\<forall>j<i. j < 2) \<and> \<not> i < 2
      \<and> transaction busy_env (new_date busy_env) shop_db = new_date busy_env (shop_db\<lparr>tick := tick shop_db + i, fresh := fresh shop_db + i\<rparr>)"
    using transaction_retries [of busy_env shop_db "new_date busy_env"] by (auto simp: busy_env_def)
  then have "transaction busy_env (new_date busy_env) shop_db = new_date busy_env (shop_db\<lparr>tick := tick shop_db + 2, fresh := fresh shop_db + 2\<rparr>)"
    by (metis le_antisym not_less)
  then show ?thesis
    by (simp add: new_date_def busy_env_def)
qed

text \<open>
  C29. The scheduler charges only what the owner agreed to: a committed charge creates no order or
  exactly one, and one only for an active renewal without a charge in flight, inside the window after
  the due time, whose owner is available, whose paid period has just ended, whose workspace has no open
  order, whose cycle has no order yet and whose price list is unchanged; the order is for the renewal's
  amount, seats and cycle, and the renewal is then marked as in flight.
\<close>

theorem charge_as_agreed:
  assumes "transaction e (charge_tx e ws) w = Inr (n, w')"
  shows "n = 0 \<and> orders w' = orders w
    \<or> n = 1 \<and> (\<exists>renewal k x. find_renewal ws w = Some renewal \<and> chargeable e renewal (clock e k) w
        \<and> orders w' = orders w @ [x] \<and> charges renewal x
        \<and> find_renewal ws w' = Some (renewal\<lparr>r_dispatchPending := True, r_version := r_version renewal + 1\<rparr>))"
proof -
  obtain i j where "charge_tx e ws (w\<lparr>tick := i, fresh := j\<rparr>) = Inr (n, w')"
    using assms by auto
  from charge_tx_effect [OF this] show ?thesis
    by (simp add: chargeable_def latestPeriod_def)
qed

theorem charge_as_agreed_witness:
  "\<exists>w' x. transaction sample_env (charge_tx sample_env (sample_uuid 901)) started_db = Inr (1, w')
     \<and> orders w' = orders started_db @ [x] \<and> charges due_renewal x"
proof -
  obtain w' where run: "transaction sample_env (charge_tx sample_env (sample_uuid 901)) started_db = Inr (1, w')"
    using charge_run by auto
  have "find_renewal (sample_uuid 901) started_db = Some due_renewal"
    by (simp add: find_renewal_def started_db_def due_db_def due_renewal_def)
  then show ?thesis
    using charge_as_agreed [OF run] run by auto
qed

text \<open>
  C30. One run of the scheduler ends after at most 200 transactions, each of them a step of the service;
  it creates at most 100 orders, none while payments are disabled, and its result is the number of the
  orders it created.
\<close>

theorem scheduler_bounded:
  assumes "advanceRenewals e now w = (r, w')"
  shows "(service_step e)\<^sup>*\<^sup>* w w' \<and> length (orders w') \<le> length (orders w) + 100
    \<and> (\<not> paymentsEnabled e \<longrightarrow> orders w' = orders w)
    \<and> (\<forall>n. r = Inr n \<longrightarrow> length (orders w') = length (orders w) + n)"
proof (cases now)
  case None
  then show ?thesis
    using assms by (auto simp: advanceRenewals_def)
next
  case (Some t)
  obtain r1 w1 where first: "commits (\<lambda>p. transaction e (activation_tx e (p_id p))) (due_periods t w) 0 w = (r1, w1)"
    by fastforce
  have steps1: "(service_step e)\<^sup>*\<^sup>* w w1"
    by (rule commits_steps [OF _ first]) (rule step_activation)
  have "(same orders)\<^sup>*\<^sup>* w w1"
    by (rule commits_steps [OF _ first]) (simp add: same_def activation_keeps_orders)
  then have same1: "orders w1 = orders w"
    by (induction rule: rtranclp_induct) (simp_all add: same_def)
  show ?thesis
  proof (cases "(\<exists>x. r1 = Inl x) \<or> \<not> paymentsEnabled e")
    case True
    then have "w' = w1" "r = Inl x \<or> r = Inr 0" if "r1 = Inl x \<or> r1 = Inr y" for x y
      using assms Some first that by (auto simp: advanceRenewals_def split: sum.splits)
    then show ?thesis
      using assms Some first steps1 same1 True by (auto simp: advanceRenewals_def split: sum.splits)
  next
    case False
    then have second: "commits (\<lambda>r. transaction e (charge_tx e (r_workspaceId r))) (due_renewals t w1) 0 w1 = (r, w')"
      using assms Some first by (auto simp: advanceRenewals_def split: sum.splits)
    have "(service_step e)\<^sup>*\<^sup>* w1 w'"
      by (rule commits_steps [OF _ second]) (rule step_charge)
    moreover have "length (due_renewals t w1) \<le> 100"
      by (simp add: due_renewals_def)
    moreover have "length (orders w1) \<le> length (orders w') \<and> length (orders w') \<le> length (orders w1) + length (due_renewals t w1)
        \<and> (\<forall>m. r = Inr m \<longrightarrow> length (orders w') + 0 = length (orders w1) + m)"
      by (rule commits_count [OF _ second]) (rule charge_count)
    ultimately show ?thesis
      using steps1 same1 False by auto
  qed
qed

theorem scheduler_bounded_witness:
  "\<exists>w'. advanceRenewals sample_env (Some 1700000000000) due_db = (Inr 1, w') \<and> length (orders w') = length (orders due_db) + 1"
proof -
  obtain w' where run: "advanceRenewals sample_env (Some 1700000000000) due_db = (Inr 1, w')"
    using scheduler_run by blast
  then show ?thesis
    using scheduler_bounded [OF run] by blast
qed

text \<open>
  C31. A run of the scheduler that ends without an error announces every paid period that has started:
  each of the first 100 not yet announced is marked as announced when the run ends, and, if its workspace
  has an entitlement, the run has added to the outbox an event of its change, with a newer version of it,
  for CRM Access; provided that the clock does not run behind the time given to the scheduler.
\<close>

theorem started_periods_announced:
  assumes "advanceRenewals e (Some t) w = (Inr n, w')" "distinct (map p_id (periods w))" "\<And>k. t \<le> clock e k"
  shows "\<exists>evs. outbox w' = outbox w @ evs \<and> (\<forall>p\<in>set (due_periods t w).
    (\<exists>q. find_period (p_id p) w' = Some q \<and> p_activationNotifiedAt q \<noteq> None)
    \<and> (\<forall>ent. find_entitlement (p_workspaceId p) w = Some ent \<longrightarrow> (\<exists>ev\<in>set evs. wakes ent ev)))"
proof -
  obtain m w1 where first: "commits (\<lambda>p. transaction e (activation_tx e (p_id p))) (due_periods t w) 0 w = (Inr m, w1)"
    and rest: "w' = w1 \<or> commits (\<lambda>r. transaction e (charge_tx e (r_workspaceId r))) (due_renewals t w1) 0 w1 = (Inr n, w')"
    using assms(1) by (auto simp: advanceRenewals_def split: prod.splits sum.splits if_splits)
  have "started_by t (p_id p) w" if "p \<in> set (due_periods t w)" for p
    using that assms(2) find_key_unique [of p_id "periods w" p]
    by (auto simp: due_periods_def started_by_def find_period_def dest!: in_set_takeD)
  moreover have "\<And>p q. steps (keeps (started_by t (p_id q))) (transaction e (activation_tx e (p_id p)))"
    "\<And>p q. steps (keeps (announced (p_id q))) (transaction e (activation_tx e (p_id p)))"
    by (rule started_by.steps_transaction, rule started_by.steps_activation)
      (rule announced.steps_transaction, rule announced.steps_activation)
  ultimately have one: "\<forall>p\<in>set (due_periods t w). announced (p_id p) w1"
    by (rule_tac commits_all [where P = "\<lambda>p. started_by t (p_id p)", OF _ _ activation_announces [OF _ _ assms(3)] first])
      (assumption | blast)+
  have keep: "steps (keeps (announced pid)) (transaction e (charge_tx e ws))" for pid ws
    by (intro announced.steps_charge steps_intro) (auto simp: keeps_def frame_def announced_def find_period_def)
  have "announced (p_id p) w'" if "announced (p_id p) w1" for p
    using rest
  proof
    assume "commits (\<lambda>r. transaction e (charge_tx e (r_workspaceId r))) (due_renewals t w1) 0 w1 = (Inr n, w')"
    from commits_keep [OF keep this that] show ?thesis .
  qed (use that in simp)
  then have marked: "\<exists>q. find_period (p_id p) w' = Some q \<and> p_activationNotifiedAt q \<noteq> None"
    if "p \<in> set (due_periods t w)" for p
    using one that by (fastforce simp: announced_def split: option.splits)
  have pub: "published w w'"
    by (rule scheduler_published [OF assms(1)])
  then obtain evs where out: "outbox w' = outbox w @ evs"
    by (auto simp: published_def)
  have "\<exists>ev\<in>set evs. wakes ent ev"
    if due: "p \<in> set (due_periods t w)" "find_entitlement (p_workspaceId p) w = Some ent" for p ent
  proof -
    have "p \<in> set (periods w)" "p_activationNotifiedAt p = None"
      using due(1) by (auto simp: due_periods_def dest!: in_set_takeD)
    then show ?thesis
      using marked [OF due(1)] published_period [OF pub assms(2)] due(2) out by blast
  qed
  then show ?thesis
    using marked out by blast
qed

text \<open>The same workspace with an entitlement, while payments are disabled.\<close>

definition entitled_db :: db where
  "entitled_db = due_db\<lparr>entitlements := [sample_entitlement\<lparr>e_workspaceId := sample_uuid 901\<rparr>]\<rparr>"

definition idle_env :: env where
  "idle_env = sample_env\<lparr>paymentsEnabled := False\<rparr>"

lemma entitled_simps [simp]:
  "entitlements entitled_db = [sample_entitlement\<lparr>e_workspaceId := sample_uuid 901\<rparr>]" "periods entitled_db = [ended_period]"
  "accounts entitled_db = accounts due_db" "outbox entitled_db = []" "sourceSequence entitled_db = None"
  "clock idle_env = clock sample_env" "uuid idle_env = uuid sample_env" "\<not> paymentsEnabled idle_env"
  "\<not> conflicts idle_env i j"
  by (simp_all add: entitled_db_def due_db_def shop_db_def sample_policy_db_def empty_db_def idle_env_def)

lemma announcing_run: "\<exists>w'. advanceRenewals idle_env (Some 1700000000000) entitled_db = (Inr 0, w')"
proof -
  have "\<exists>w1. activation_tx idle_env (sample_uuid 904) entitled_db = Inr (0, w1)"
    by (simp add: activation_tx_def find_period_def ended_period_def enqueueCrmEntitlementChanged_def find_entitlement_def
        started_period_def notify_activation_def Let_def upd_rows_def prisma_defs)
  then obtain w1 where "activation_tx idle_env (sample_uuid 904) entitled_db = Inr (0, w1)"
    by blast
  moreover have "due_periods 1700000000000 entitled_db = [ended_period]" "p_id ended_period = sample_uuid 904"
    by (simp_all add: due_periods_def ended_period_def)
  ultimately show ?thesis
    by (simp add: advanceRenewals_def transaction_no_conflict)
qed

theorem started_periods_announced_witness:
  "\<exists>w' q ev. advanceRenewals idle_env (Some 1700000000000) entitled_db = (Inr 0, w')
     \<and> find_period (sample_uuid 904) w' = Some q \<and> p_activationNotifiedAt q \<noteq> None
     \<and> ev \<in> set (outbox w') \<and> wakes (sample_entitlement\<lparr>e_workspaceId := sample_uuid 901\<rparr>) ev"
proof -
  obtain w' where run: "advanceRenewals idle_env (Some 1700000000000) entitled_db = (Inr 0, w')"
    using announcing_run by blast
  have "\<exists>evs. outbox w' = outbox entitled_db @ evs \<and> (\<forall>p\<in>set (due_periods 1700000000000 entitled_db).
      (\<exists>q. find_period (p_id p) w' = Some q \<and> p_activationNotifiedAt q \<noteq> None)
      \<and> (\<forall>ent. find_entitlement (p_workspaceId p) entitled_db = Some ent \<longrightarrow> (\<exists>ev\<in>set evs. wakes ent ev)))"
    by (rule started_periods_announced [OF run]) simp_all
  moreover have "due_periods 1700000000000 entitled_db = [ended_period]" "p_id ended_period = sample_uuid 904"
    "find_entitlement (p_workspaceId ended_period) entitled_db = Some (sample_entitlement\<lparr>e_workspaceId := sample_uuid 901\<rparr>)"
    by (simp_all add: due_periods_def ended_period_def find_entitlement_def)
  ultimately show ?thesis
    using run by auto
qed

end
