(* ===== verification/Admin_Properties.thy ===== *)
theory Admin_Properties
  imports Ledger_Service Renewal_Properties Request_Terms
begin

text \<open>
  Properties of the administration of the subscriptions: the page of subscriptions, read with one
  query for each table, shows what the detail view of each workspace shows; a grant of days moves the
  end of the paid period by exactly these days; a cancelled grant is never applied.
\<close>

section \<open>The page and the detail view\<close>

lemma find_filter_key: "P k \<Longrightarrow> find (\<lambda>x. f x = k) (filter (\<lambda>x. P (f x)) xs) = find (\<lambda>x. f x = k) xs"
  by (induction xs) auto

lemma find_map: "find P (map f xs) = map_option f (find (P \<circ> f) xs)"
  by (induction xs) auto

lemma page_reference:
  assumes "find_entitlement ws w = Some ent" "ws \<in> set ids"
  shows "find (\<lambda>(x, a, b). x = ws) (page_references ids now w)
    = Some (ws, map_option p_id (latestPeriod ws w), map_option p_id (started_period ws now w))"
proof -
  have "find (\<lambda>x. e_workspaceId x = ws) (filter (\<lambda>x. e_workspaceId x \<in> set ids) (entitlements w)) = Some ent"
    using assms find_filter_key [of "\<lambda>k. k \<in> set ids" ws e_workspaceId "entitlements w"] by (simp add: find_entitlement_def)
  moreover from this have "e_workspaceId ent = ws"
    by (auto dest: find_Some_D)
  ultimately show ?thesis
    by (simp add: page_references_def find_map comp_def)
qed

lemma period_queries:
  "latestPeriod ws w = Some p \<Longrightarrow> p \<in> set (periods w) \<and> p_workspaceId p = ws"
  "started_period ws now w = Some p \<Longrightarrow> p \<in> set (periods w) \<and> p_workspaceId p = ws"
  by (auto simp: latestPeriod_def started_period_def dest!: first_by_in)

lemma resolve_reference:
  assumes "distinct (map p_id (periods w))" "find_entitlement ws w = Some ent" "ws \<in> set ids"
    and "x = latestPeriod ws w \<or> x = started_period ws now w"
  shows "resolvePeriod (page_periods ids now w) ws (map_option p_id x) = Inr x"
proof (cases x)
  case (Some p)
  have p: "p \<in> set (periods w)" "p_workspaceId p = ws"
    using assms(4) Some period_queries by metis+
  have "p \<in> set (page_periods ids now w)"
  proof -
    have "(ws, map_option p_id (latestPeriod ws w), map_option p_id (started_period ws now w)) \<in> set (page_references ids now w)"
      using find_Some_D [OF page_reference [OF assms(2,3)]] by blast
    then show ?thesis
      using p assms(3,4) Some unfolding page_periods_def Let_def
      by (auto intro!: bexI [of _ "(ws, map_option p_id (latestPeriod ws w), map_option p_id (started_period ws now w))"])
        (metis option.map(2))+
  qed
  moreover have "distinct (map p_id (page_periods ids now w))"
    using assms(1) by (simp add: page_periods_def Let_def distinct_map_filter)
  ultimately have "find (\<lambda>y. p_id y = p_id p) (page_periods ids now w) = Some p"
    by (intro find_key_unique)
  then show ?thesis
    using Some p by (simp add: resolvePeriod_def)
qed (simp add: resolvePeriod_def)

lemma page_item_reads:
  assumes "distinct (map p_id (periods w))" "find_entitlement ws w = Some ent" "ws \<in> set ids"
  shows "\<exists>v. page_item ids (clock e (tick w)) w ws = Inr v \<and> read_subscription e ws w = Inr (v, w\<lparr>tick := tick w + 1\<rparr>)"
  using page_reference [OF assms(2,3), of "clock e (tick w)"] resolve_reference [OF assms, of _ "clock e (tick w)"] assms(2,3)
  by (simp add: page_item_def read_subscription_def requireEntitlement_def new_date_def tx_simps find_filter_key [of "\<lambda>k. k \<in> set ids"]
      find_entitlement_def find_account_def find_renewal_def pending_orders_def pending_commands_def latestPeriod_def started_period_def)

lemma all_results_map:
  "(\<And>x. x \<in> set xs \<Longrightarrow> \<exists>v. f x = Inr v \<and> R x v) \<Longrightarrow> \<exists>vs. all_results (map f xs) = Inr vs \<and> list_all2 R xs vs"
proof (induction xs)
  case (Cons x xs)
  obtain v vs where "f x = Inr v" "R x v" "all_results (map f xs) = Inr vs" "list_all2 R xs vs"
    using Cons.IH Cons.prems by (metis list.set_intros(1,2))
  then show ?case
    by auto
qed simp

section \<open>The effect of a grant\<close>

text \<open>A period as a row of the table, but for the time of its announcement.\<close>

definition period_like :: "jsstring \<Rightarrow> period_row \<Rightarrow> db \<Rightarrow> bool" where
  "period_like pid q w = (case find_period pid w of None \<Rightarrow> False
     | Some x \<Rightarrow> x\<lparr>p_activationNotifiedAt := None\<rparr> = q\<lparr>p_activationNotifiedAt := None\<rparr>)"

interpretation period_like: core_relation "keeps (period_like pid q)" for pid q
proof unfold_locales
  show "steps (keeps (period_like pid q)) (update_period (\<lambda>x. p_id x = k) (\<lambda>x. x\<lparr>p_activationNotifiedAt := Some t\<rparr>))" for k t
    by (rule stepsI) (auto simp: keeps_def period_like_def find_period_def update_period_def tb_periods.update_row_Inr
        find_upd_rows split: option.splits)
qed (simp_all add: keeps_def frame_def period_like_def find_period_def)

lemma period_likeD:
  assumes "period_like pid q w"
  shows "\<exists>x. find_period pid w = Some x \<and> p_startsAt x = p_startsAt q \<and> p_expiresAt x = p_expiresAt q
    \<and> p_totalSeats x = p_totalSeats q \<and> p_version x = p_version q"
proof -
  obtain x where "find_period pid w = Some x" "x\<lparr>p_activationNotifiedAt := None\<rparr> = q\<lparr>p_activationNotifiedAt := None\<rparr>"
    using assms by (auto simp: period_like_def split: option.splits)
  then show ?thesis
    by (cases x, cases q) simp
qed

interpretation same_grants: db_relation "same grants"
  by unfold_locales (simp_all add: same_def frame_def)

lemma extend_record_grants:
  assumes "extend_record e ws dto ctx role hash before now old new w = Inr (r, w')"
  shows "\<exists>g. grants w' = grants w @ [g] \<and> g_workspaceId g = ws \<and> g_days g = xd_days dto \<and> g_actorSubject g = pc_subject ctx
    \<and> g_oldExpiresAt g = old \<and> g_newExpiresAt g = new"
proof -
  have wake: "steps (same grants) (enqueueCrmEntitlementChanged e ws)"
    by (intro steps_intro; simp)
  have read: "steps (same grants) (read_subscription e ws)"
    unfolding read_subscription_def requireEntitlement_def by (intro steps_intro)
  have audit: "steps (same grants) (enqueueBillingAdminAudit e i)" for i
    by (intro steps_intro) simp
  show ?thesis
    using assms
    by (auto simp: extend_record_def Let_def tb_accounts.update_row_Inr update_renewal_def tb_renewals.update_row_Inr create_grant_def
        tb_grants.create_row_Inr create_receipt_def tb_receipts.create_row_Inr split: if_splits
        dest!: stepsD [OF wake] stepsD [OF read] stepsD [OF audit] sameD)
qed

lemma extend_record_period:
  assumes "extend_record e ws dto ctx role hash before now old new w = Inr (r, w')" "period_like pid q w"
  shows "period_like pid q w'"
proof -
  have "steps (keeps (period_like pid q)) (extend_record e ws dto ctx role hash before now old new)"
    by (intro period_like.steps_extend_record steps_intro)
      (auto intro!: steps_intro period_like.steps_update simp: keeps_def frame_def period_like_def find_period_def)
  from stepsD [OF this assms(1)] show ?thesis
    using assms(2) by (simp add: keeps_def)
qed

lemma extend_period_effect:
  assumes "extend_period e ws (p_id p) new w = Inr (u, w')" "find_period (p_id p) w = Some p"
  shows "grants w' = grants w \<and> (\<exists>graceUntil. period_like (p_id p) (extend_period_row new graceUntil p) w')"
proof -
  have "find (\<lambda>x. p_id x = p_id p) (upd_rows (\<lambda>x. p_id x = p_id p \<and> p_version x = p_version p) (extend_period_row new g) (periods w))
      = Some (extend_period_row new g p)" for g
    using assms(2) by (subst find_upd_rows) (auto simp: find_period_def extend_period_row_def)
  then show ?thesis
    using assms
    by (auto simp: extend_period_def new_date_def update_entitlement_def tb_entitlements.update_row_Inr update_period_def
        tb_periods.update_row_Inr period_like_def find_period_def intro!: exI)
qed

lemma extend_grant_effect:
  assumes "extend_grant e ws dto ctx role hash before w = Inr (r, w')" "find_period (p_id p) w = Some p"
    and "map_option pp_id (sv_period before) = Some (p_id p)"
    and "map_option pp_expiresAt (sv_period before) = Some (toISOString (p_expiresAt p))"
  shows "\<exists>g graceUntil. grants w' = grants w @ [g] \<and> g_workspaceId g = ws \<and> g_days g = xd_days dto
    \<and> g_actorSubject g = pc_subject ctx \<and> g_oldExpiresAt g = p_expiresAt p
    \<and> g_newExpiresAt g = max (clock e (tick w)) (p_expiresAt p) + xd_days dto * DAY_MS
    \<and> period_like (p_id p) (extend_period_row (g_newExpiresAt g) graceUntil p) w'"
proof -
  define x where "x = max (clock e (tick w)) (p_expiresAt p) + xd_days dto * DAY_MS"
  obtain w1 u now where run: "extend_period e ws (p_id p) x (w\<lparr>tick := tick w + 1\<rparr>) = Inr (u, w1)"
    and rest: "extend_record e ws dto ctx role hash before now (p_expiresAt p) x w1 = Inr (r, w')"
    using assms(1,3,4)
    by (auto simp: extend_grant_def extend_target_def new_date_def Let_def x_def timeClip_def
        split: if_splits dest!: grant_timestamp_Inr)
  have "find_period (p_id p) (w\<lparr>tick := tick w + 1\<rparr>) = Some p"
    using assms(2) by simp
  from extend_period_effect [OF run this] obtain graceUntil where
    "grants w1 = grants w" "period_like (p_id p) (extend_period_row x graceUntil p) w1"
    by auto
  with extend_record_grants [OF rest] extend_record_period [OF rest] show ?thesis
    unfolding x_def by metis
qed

section \<open>The receipt of a cancellation\<close>

lemma commandProof_outcome:
  assumes "commandProof e receipt ws c = Inr p" "jsfield p ''outcome'' = JStr (js ''CANCELLED'')"
  shows "rc_commandType receipt = CANCEL_COMMAND_TYPE"
  using assms by (auto simp: commandProof_def Let_def sbind_Inr split: if_splits)

lemma cancelled_receipt:
  assumes "cancel_grant e ws c subject ctx w = Inr (r, w')" "jsfield r ''outcome'' = JStr (js ''CANCELLED'')"
  shows "\<exists>row. find_receipt c w' = Some row \<and> rc_commandType row = CANCEL_COMMAND_TYPE"
proof -
  obtain role hash i j where run: "cancel_tx e ws c ctx role hash (w\<lparr>tick := i, fresh := j\<rparr>) = Inr (r, w')"
    using assms(1) by (auto simp: cancel_grant_def admin_role_def assertActor_def)
  have audit: "steps (same receipts) (enqueueBillingAdminAudit e a)" for a
    by (intro steps_intro) simp
  show ?thesis
  proof (cases "find_receipt c w")
    case None
    then show ?thesis
      using run by (auto simp: cancel_tx_def requireEntitlement_def new_date_def Let_def create_receipt_def
          tb_receipts.create_row_Inr find_receipt_def find_append dest!: stepsD [OF audit] sameD)
  next
    case (Some row)
    then show ?thesis
      using run commandProof_outcome assms(2) by (auto simp: cancel_tx_def find_receipt_def split: if_splits)
  qed
qed

section \<open>A workspace under administration\<close>

definition admin_db :: db where
  "admin_db = due_db\<lparr>entitlements := [sample_entitlement\<lparr>e_workspaceId := sample_uuid 901\<rparr>]\<rparr>"

definition sample_extend :: extend_dto where
  "sample_extend = \<lparr>xd_commandId = sample_uuid 910, xd_expectedActorSubject = js ''admin'',
     xd_expectedEntitlementVersion = dec_int (e_aggregateVersion sample_entitlement), xd_expectedBillingVersion = dec_int 4,
     xd_expectedPeriodId = Some (sample_uuid 904), xd_expectedPeriodVersion = Some 1, xd_days = 10,
     xd_reason = js ''support''\<rparr>"

lemma sample_role: "admin_role sample_admin w = Inr (''ADMIN'', w)" "pc_subject sample_admin = js ''admin''"
  by (simp_all add: admin_role_def sample_admin_def policy_actor_role_def tx_simps)

lemma admin_db_entitlement:
  "find_entitlement (sample_uuid 901) (admin_db\<lparr>tick := i\<rparr>) = Some (sample_entitlement\<lparr>e_workspaceId := sample_uuid 901\<rparr>)"
  "find_entitlement (sample_uuid 901) admin_db = Some (sample_entitlement\<lparr>e_workspaceId := sample_uuid 901\<rparr>)"
  by (simp_all add: find_entitlement_def admin_db_def)

lemma cancel_run:
  "\<exists>r w'. cancel_grant sample_env (sample_uuid 901) (sample_uuid 910) (js ''admin'') sample_admin admin_db = Inr (r, w')
    \<and> jsfield r ''outcome'' = JStr (js ''CANCELLED'')"
proof -
  have "json_ok (obj [(''schemaVersion'', JInt 1), (''expectedActorSubject'', JStr (js ''admin'')),
         (''workspaceId'', JStr (sample_uuid 901)), (''commandId'', JStr (sample_uuid 910)), (''actorSubject'', JStr (js ''admin''))])"
    by (simp add: json_ok_obj)
  note hash = sample_hash_total [OF this]
  have "find_receipt (sample_uuid 910) admin_db = None"
    by (simp add: find_receipt_def admin_db_def due_db_def)
  moreover have "jsfield (obj (cancel_result ws c ctx role t)) ''outcome'' = JStr (js ''CANCELLED'')" for ws c ctx role t
    unfolding cancel_result_def by simp
  ultimately show ?thesis
    unfolding cancel_grant_def sample_role(2)
    by (simp add: sample_role assertActor_def hash cancel_tx_def requireEntitlement_def admin_db_entitlement
        admin_db_def due_db_def prisma_defs)
      (simp add: enqueueBillingAdminAudit_def prisma_defs)
qed

lemma extend_hash:
  "billingCommandRequestHash (sha256 sample_env) t (obj (extend_dto_fields sample_extend @
     [(''workspaceId'', JStr (sample_uuid 901)), (''actorSubject'', JStr (pc_subject sample_admin))])) = Inr sample_hash"
  by (rule sample_hash_total) (simp add: json_ok_obj extend_dto_fields_def sample_extend_def opt_js_def)

definition sample_before :: subscription_view where
  "sample_before = project \<lparr>sp_workspaceId = sample_uuid 901, sp_now = 1700000000000,
     sp_entitlement = sample_entitlement\<lparr>e_workspaceId := sample_uuid 901\<rparr>, sp_account = Some (hd (accounts due_db)),
     sp_period = Some ended_period, sp_currentPeriod = Some ended_period, sp_renewal = Some due_renewal, sp_pendingOrders = 0,
     sp_pendingCommands = 0\<rparr>"

lemma before_run: "read_subscription sample_env (sample_uuid 901) admin_db = Inr (sample_before, admin_db\<lparr>tick := 1\<rparr>)"
  by (simp add: read_subscription_def requireEntitlement_def admin_db_entitlement sample_before_def latestPeriod_def
      started_period_def pending_orders_def pending_commands_def count_rows_def prisma_defs)
    (simp add: admin_db_def due_db_def ended_period_def due_renewal_def latestPeriod_def started_period_def pending_orders_def
      pending_commands_def count_rows_def prisma_defs)

lemma sample_new_end: "grant_timestamp (Some 1700864001000) = Inr 1700864001000" "grant_timestamp (Some 1701123201000) = Inr 1701123201000"
  by (simp_all add: grant_timestamp_def timeClip_def MAX_DATE_MS_def getUTCFullYear_def MS_PER_DAY_def civil_of_day_def march_year_def
      month_days_def march_days_def Let_def)

lemma sample_before_simps:
  "versions_match sample_before sample_extend" "sv_blockedReason sample_before = None" "\<not> version_limit sample_before"
  "sv_billingVersion sample_before = 4" "sv_renewal sample_before \<noteq> None"
  "sv_period sample_before = Some \<lparr>pp_id = sample_uuid 904, pp_version = 1, pp_startsAt = toISOString 1697000000000,
     pp_expiresAt = toISOString 1699999999000, pp_graceUntil = toISOString 1700999999000, pp_totalSeats = 3\<rparr>"
  by (simp_all add: sample_before_def project_def Let_def versions_match_def sample_extend_def ended_period_def due_db_def
      blocked_reason_def suspended_def sample_entitlement_def trial_entitlement_def due_renewal_def truthy_def json_truthy_def
      sample_fence_def obj_def version_limit_def)

definition extended_db :: db where
  "extended_db = admin_db\<lparr>periods := [extend_period_row 1700864001000 1701123201000 ended_period],
     entitlements := [sample_entitlement\<lparr>e_workspaceId := sample_uuid 901, e_status := E_ACTIVE, e_updatedAt := 1700000002000\<rparr>],
     tick := 3\<rparr>"

lemma target_run:
  "extend_target sample_env (sample_uuid 901) sample_before 1700864001000 (admin_db\<lparr>tick := Suc (Suc 0)\<rparr>) = Inr ((), extended_db)"
proof -
  have "ps_graceDays (wincrmPriceSnapshot sample_policy) = 3"
    by (simp add: wincrmPriceSnapshot_def sample_policy_def)
  then show ?thesis
    by (simp add: extend_target_def sample_before_simps extend_period_def find_period_def prisma_defs)
      (simp add: admin_db_def due_db_def ended_period_def read_snapshot_json sample_snapshot_ok DAY_MS_def sample_new_end
        extended_db_def upd_rows_def prisma_defs)
qed

lemma record_run:
  "\<exists>r w'. extend_record sample_env (sample_uuid 901) sample_extend sample_admin ''ADMIN'' sample_hash sample_before 1700000001000
     old 1700864001000 extended_db = Inr (r, w')"
  apply (simp add: extend_record_def sample_before_simps extended_db_def admin_db_def due_db_def update_renewal_def upd_rows_def prisma_defs)
  apply (simp add: due_renewal_def enqueueCrmEntitlementChanged_def upd_rows_def extend_period_row_def prisma_defs)
  apply (simp add: sample_entitlement_def trial_entitlement_def started_period_def ended_period_def notify_activation_def entitlement_event_def
      upd_rows_def create_grant_def read_subscription_def requireEntitlement_def sample_extend_def prisma_defs)
  apply (simp add: enqueueBillingAdminAudit_def upd_rows_def prisma_defs)
  apply (simp add: shop_db_def sample_policy_db_def empty_db_def)
  done

lemma extend_run: "\<exists>r w'. extend_days sample_env (sample_uuid 901) sample_extend sample_admin admin_db = Inr (r, w')"
proof -
  have "find_receipt (xd_commandId sample_extend) admin_db = None"
    by (simp add: find_receipt_def admin_db_def due_db_def)
  moreover have "xd_expectedActorSubject sample_extend = js ''admin''" "xd_days sample_extend = 10"
    "(xd_expectedPeriodId sample_extend = None) = (xd_expectedPeriodVersion sample_extend = None)"
    by (simp_all add: sample_extend_def)
  ultimately have "extend_days sample_env (sample_uuid 901) sample_extend sample_admin admin_db
      = extend_grant sample_env (sample_uuid 901) sample_extend sample_admin ''ADMIN'' sample_hash sample_before (admin_db\<lparr>tick := 1\<rparr>)"
    by (simp add: extend_days_def sample_role assertActor_def extend_hash extend_tx_def before_run sample_before_simps tx_simps)
  moreover have "\<exists>r w'. extend_grant sample_env (sample_uuid 901) sample_extend sample_admin ''ADMIN'' sample_hash sample_before
      (admin_db\<lparr>tick := 1\<rparr>) = Inr (r, w')"
    apply (simp add: extend_grant_def sample_before_simps prisma_defs)
    apply (simp add: timeClip_def MAX_DATE_MS_def sample_extend_def DAY_MS_def sample_new_end)
    apply (use record_run in \<open>simp add: thn_run target_run\<close>)
    done
  ultimately show ?thesis
    by simp
qed

section \<open>Properties\<close>

text \<open>
  C32. The page of subscriptions, read with one query per table for all its workspaces, shows for each
  workspace exactly what its detail view shows at the same time.
\<close>

theorem page_shows_details:
  assumes "distinct (map p_id (periods w))" "\<forall>ws\<in>set ids. find_entitlement ws w \<noteq> None"
  shows "\<exists>views. readPage ids (clock e (tick w)) w = Inr views
    \<and> list_all2 (\<lambda>ws v. read_subscription e ws w = Inr (v, w\<lparr>tick := tick w + 1\<rparr>)) ids views"
proof -
  have "\<exists>v. page_item ids (clock e (tick w)) w ws = Inr v \<and> read_subscription e ws w = Inr (v, w\<lparr>tick := tick w + 1\<rparr>)"
    if "ws \<in> set ids" for ws
    using assms that page_item_reads [OF assms(1)] by blast
  from all_results_map [OF this] show ?thesis
    by (cases "ids = []") (auto simp: readPage_def)
qed

theorem page_shows_details_witness:
  "\<exists>v. readPage [sample_uuid 901] (clock sample_env (tick admin_db)) admin_db = Inr [v]
     \<and> read_subscription sample_env (sample_uuid 901) admin_db = Inr (v, admin_db\<lparr>tick := tick admin_db + 1\<rparr>)"
proof -
  have "\<exists>views. readPage [sample_uuid 901] (clock sample_env (tick admin_db)) admin_db = Inr views
    \<and> list_all2 (\<lambda>ws v. read_subscription sample_env ws admin_db = Inr (v, admin_db\<lparr>tick := tick admin_db + 1\<rparr>)) [sample_uuid 901] views"
    by (rule page_shows_details) (simp_all add: admin_db_entitlement, simp add: admin_db_def due_db_def)
  then show ?thesis
    by (auto simp: list_all2_Cons1)
qed

text \<open>
  C33. A committed grant of days to a workspace with a paid period moves the end of its last period to
  exactly these days after its old end, or after now if it had ended; the start and the seats stay, and
  the grant is recorded with both ends.
\<close>

theorem grant_moves_end:
  assumes "extend_days e ws dto ctx w = Inr (r, w')" "find_receipt (xd_commandId dto) w = None"
    and "latestPeriod ws w = Some p" "distinct (map p_id (periods w))"
  shows "\<exists>g q k. grants w' = grants w @ [g] \<and> g_workspaceId g = ws \<and> g_days g = xd_days dto
    \<and> g_actorSubject g = pc_subject ctx \<and> g_oldExpiresAt g = p_expiresAt p
    \<and> g_newExpiresAt g = max (clock e k) (p_expiresAt p) + xd_days dto * DAY_MS
    \<and> find_period (p_id p) w' = Some q \<and> p_expiresAt q = g_newExpiresAt g \<and> p_startsAt q = p_startsAt p
    \<and> p_totalSeats q = p_totalSeats p \<and> p_version q = p_version p + 1"
proof -
  obtain role hash i j where "extend_tx e ws dto ctx role hash (w\<lparr>tick := i, fresh := j\<rparr>) = Inr (r, w')"
    using assms(1) by (auto simp: extend_days_def admin_role_def assertActor_def)
  then obtain before w1 where read: "read_subscription e ws (w\<lparr>tick := i, fresh := j\<rparr>) = Inr (before, w1)"
    and grant: "extend_grant e ws dto ctx role hash before w1 = Inr (r, w')"
    using assms(2) by (auto simp: extend_tx_def split: option.splits)
  note view = read_subscription_Inr [OF read]
  have "find_period (p_id p) w = Some p"
    using assms(3,4) period_queries(1) find_key_unique by (fastforce simp: find_period_def)
  then have "\<exists>g graceUntil. grants w' = grants w1 @ [g] \<and> g_workspaceId g = ws \<and> g_days g = xd_days dto
    \<and> g_actorSubject g = pc_subject ctx \<and> g_oldExpiresAt g = p_expiresAt p
    \<and> g_newExpiresAt g = max (clock e (tick w1)) (p_expiresAt p) + xd_days dto * DAY_MS
    \<and> period_like (p_id p) (extend_period_row (g_newExpiresAt g) graceUntil p) w'"
    using view assms(3) by (intro extend_grant_effect [OF grant]) (simp_all add: latestPeriod_def)
  then show ?thesis
    using view(1) by (fastforce simp: extend_period_row_def dest!: period_likeD)
qed

theorem grant_moves_end_witness:
  "\<exists>r w' g q. extend_days sample_env (sample_uuid 901) sample_extend sample_admin admin_db = Inr (r, w')
     \<and> grants w' = grants admin_db @ [g] \<and> g_days g = 10 \<and> find_period (sample_uuid 904) w' = Some q
     \<and> p_expiresAt q = g_newExpiresAt g"
proof -
  obtain r w' where run: "extend_days sample_env (sample_uuid 901) sample_extend sample_admin admin_db = Inr (r, w')"
    using extend_run by blast
  have "find_receipt (xd_commandId sample_extend) admin_db = None" "latestPeriod (sample_uuid 901) admin_db = Some ended_period"
    "distinct (map p_id (periods admin_db))" "xd_days sample_extend = 10" "p_id ended_period = sample_uuid 904"
    by (simp_all add: find_receipt_def latestPeriod_def admin_db_def due_db_def sample_extend_def ended_period_def)
  then show ?thesis
    using grant_moves_end [OF run] run by fastforce
qed

text \<open>
  C34. A grant command that was cancelled is never applied: whatever calls of the service come after the
  cancellation, the receipt of the cancelled command is still there, and every attempt to apply a grant
  under the same command id fails, whatever the request and whoever sends it.
\<close>

theorem cancelled_grant_refused:
  assumes "cancel_grant e ws c subject ctx w = Inr (r, w')" "jsfield r ''outcome'' = JStr (js ''CANCELLED'')"
    and "(service_step e')\<^sup>*\<^sup>* w' later" "xd_commandId dto = c"
  shows "(\<exists>row. find_receipt c later = Some row \<and> rc_commandType row = CANCEL_COMMAND_TYPE)
    \<and> (\<exists>err. extend_days e'' ws' dto ctx' later = Inl err)"
proof -
  obtain row where "find_receipt c w' = Some row" and row: "rc_commandType row = CANCEL_COMMAND_TYPE"
    using cancelled_receipt [OF assms(1,2)] by blast
  then have kept: "find_receipt c later = Some row"
    using receipts.row_services [OF assms(3)] by (simp add: receipts_kept_def)
  have "extend_days e'' ws' dto ctx' later \<noteq> Inr y" for y
    using kept row assms(4)
    by (cases y) (auto simp: extend_days_def extend_tx_def admin_role_def assertActor_def split: if_splits)
  then show ?thesis
    using kept row by (metis sumE)
qed

theorem cancelled_grant_refused_witness:
  "\<exists>r w' err. cancel_grant sample_env (sample_uuid 901) (sample_uuid 910) (js ''admin'') sample_admin admin_db = Inr (r, w')
     \<and> service_step sample_env w' (w'\<lparr>contacts := []\<rparr>)
     \<and> extend_days sample_env (sample_uuid 901) sample_extend sample_admin (w'\<lparr>contacts := []\<rparr>) = Inl err"
proof -
  obtain r w' where run: "cancel_grant sample_env (sample_uuid 901) (sample_uuid 910) (js ''admin'') sample_admin admin_db = Inr (r, w')"
    "jsfield r ''outcome'' = JStr (js ''CANCELLED'')"
    using cancel_run by blast
  have step: "service_step sample_env w' (w'\<lparr>contacts := []\<rparr>)"
    by (rule identity_event)
  then have later: "(service_step sample_env)\<^sup>*\<^sup>* w' (w'\<lparr>contacts := []\<rparr>)"
    by blast
  have "\<exists>err. extend_days sample_env (sample_uuid 901) sample_extend sample_admin (w'\<lparr>contacts := []\<rparr>) = Inl err"
    by (rule cancelled_grant_refused [THEN conjunct2, OF run later]) (simp add: sample_extend_def)
  then show ?thesis
    using run(1) step by blast
qed

end
