(* ===== verification/Access_Validation.thy ===== *)
theory Access_Validation
  imports Commerce_Core
begin

text \<open>
  \<open>apps/crm-access/src/billing/billing.validation.ts\<close>: how CRM Access checks the billing commands of a
  workspace owner before it sends them to Billing, and the request hash it computes; with the helpers of
  \<open>apps/crm-access/src/internal/internal-http.config.ts\<close>. The lemmas at the end compare both sides of the
  contract: the hash is the one that Billing computes, and an accepted command passes Billing's checks.
\<close>

section \<open>Errors\<close>

text \<open>The HTTP exceptions, plain errors and Prisma errors of CRM Access.\<close>

datatype access_error =
    A_BadRequest
  | A_Conflict string
  | A_Forbidden string
  | A_NotFound
  | A_Unavailable string
  | A_Fault string
  | A_P2002
  | A_P2025
  | A_P2034

section \<open>Values\<close>

definition isRecord :: "jsval \<Rightarrow> bool" where
  "isRecord value = (case value of JObj kvs \<Rightarrow> True | _ \<Rightarrow> False)"

definition hasExactKeys :: "jsval \<Rightarrow> string list \<Rightarrow> bool" where
  "hasExactKeys value expected \<longleftrightarrow> sort (object_keys value) = sort (map js expected)"

definition is_hex :: "nat \<Rightarrow> bool" where
  "is_hex c \<longleftrightarrow> is_digit c \<or> 65 \<le> c \<and> c \<le> 70 \<or> 97 \<le> c \<and> c \<le> 102"

definition UUID_V4 :: "(nat \<Rightarrow> bool) list" where
  "UUID_V4 =
     replicate 8 is_hex @ [\<lambda>c. c = 45] @ replicate 4 is_hex @ [\<lambda>c. c = 45]
     @ [\<lambda>c. c = 52] @ replicate 3 is_hex @ [\<lambda>c. c = 45]
     @ [\<lambda>c. c = 56 \<or> c = 57 \<or> c = 65 \<or> c = 66 \<or> c = 97 \<or> c = 98] @ replicate 3 is_hex @ [\<lambda>c. c = 45]
     @ replicate 12 is_hex"

definition isUuidV4 :: "jsval \<Rightarrow> bool" where
  "isUuidV4 value = (case value of JStr s \<Rightarrow> match_classes UUID_V4 s | _ \<Rightarrow> False)"

text \<open>\<open>v === v.toLowerCase()\<close> for a text of ASCII characters.\<close>

definition lower_case :: "jsstring \<Rightarrow> bool" where
  "lower_case s \<longleftrightarrow> \<not> list_ex (\<lambda>c. 65 \<le> c \<and> c \<le> 90) s"

definition validSubject :: "jsval \<Rightarrow> bool" where
  "validSubject value =
     (case value of
        JStr s \<Rightarrow> length s \<le> 256 \<and> s \<noteq> [] \<and> \<not> list_ex (\<lambda>c. is_space c \<or> c \<le> 31 \<or> c = 127 \<or> c = 65533) s
          \<and> \<not> lone_surrogate s
      | _ \<Rightarrow> False)"

definition validHash :: "jsval \<Rightarrow> bool" where
  "validHash v = (case v of JStr s \<Rightarrow> match_classes (replicate 64 is_lower_hex) s | _ \<Rightarrow> False)"

definition validUuid :: "jsval \<Rightarrow> bool" where
  "validUuid v \<longleftrightarrow> isUuidV4 v \<and> lower_case (as_str v)"

definition validVersion :: "jsval \<Rightarrow> bool" where
  "validVersion v =
     (case v of
        JStr s \<Rightarrow> (s = [48] \<or> s \<noteq> [] \<and> hd s \<noteq> 48 \<and> length s \<le> 19 \<and> list_all is_digit s)
          \<and> undec s \<le> 9223372036854775807
      | _ \<Rightarrow> False)"

definition validInt :: "int \<Rightarrow> int \<Rightarrow> jsval \<Rightarrow> bool" where
  "validInt minimum maximum v =
     (case v of JInt n \<Rightarrow> is_safe_integer n \<and> minimum \<le> n \<and> n \<le> maximum | _ \<Rightarrow> False)"

text \<open>The bounds when they are not given.\<close>

abbreviation positive :: "jsval \<Rightarrow> bool" where
  "positive \<equiv> validInt 1 2147483646"

definition validSeats :: "jsval \<Rightarrow> bool" where
  "validSeats v = validInt 2 10000 v"

definition validConsent :: "jsval \<Rightarrow> bool" where
  "validConsent v =
     (case v of
        JStr s \<Rightarrow> 1 \<le> length s \<and> length s \<le> 100 \<and> list_all (\<lambda>c. is_alnum c \<or> c = 46 \<or> c = 95 \<or> c = 58 \<or> c = 45) s
      | _ \<Rightarrow> False)"

definition validCycle :: "jsval \<Rightarrow> bool" where
  "validCycle v \<longleftrightarrow> v = JStr (js ''MONTHLY'') \<or> v = JStr (js ''YEARLY'')"

section \<open>Requests\<close>

definition workspace :: "jsval \<Rightarrow> access_error + jsstring" where
  "workspace value = (if validUuid value then Inr (as_str value) else Inl A_BadRequest)"

definition contextBody :: "jsval \<Rightarrow> access_error + jsval" where
  "contextBody body =
     (if \<not> isRecord body \<or> \<not> hasExactKeys body [''schemaVersion'', ''workspaceId''] \<or> jsfield body ''schemaVersion'' \<noteq> JInt 1
      then Inl A_BadRequest
      else sbind (workspace (jsfield body ''workspaceId'')) (\<lambda>ws.
        Inr (obj [(''schemaVersion'', JInt 1), (''workspaceId'', JStr ws)])))"

definition query_number :: "jsval \<Rightarrow> int \<Rightarrow> int \<Rightarrow> access_error + int" where
  "query_number value fallback maximum =
     (if value = JUndef then Inr fallback
      else case value of
        JStr s \<Rightarrow>
          if s \<noteq> [] \<and> hd s \<noteq> 48 \<and> list_all is_digit s \<and> validInt 1 maximum (JInt (int (undec s)))
          then Inr (int (undec s)) else Inl A_BadRequest
      | _ \<Rightarrow> Inl A_BadRequest)"

definition query :: "jsval \<Rightarrow> bool \<Rightarrow> access_error + jsstring \<times> int \<times> int" where
  "query body historyKind =
     (if \<not> isRecord body
         \<or> \<not> list_all (\<lambda>k. k \<in> set (map js (if historyKind then [''workspaceId'', ''page'', ''pageSize''] else [''workspaceId''])))
             (object_keys body)
      then Inl A_BadRequest
      else
        sbind (workspace (jsfield body ''workspaceId'')) (\<lambda>ws.
        sbind (query_number (jsfield body ''page'') 1 1000000) (\<lambda>page.
        sbind (query_number (jsfield body ''pageSize'') 20 100) (\<lambda>pageSize.
        Inr (ws, page, pageSize)))))"

definition parseQuote :: "jsval \<Rightarrow> access_error + jsval" where
  "parseQuote body =
     (if \<not> isRecord body
         \<or> \<not> hasExactKeys body [''schemaVersion'', ''workspaceId'', ''intent'', ''cycle'', ''totalSeats'']
         \<or> jsfield body ''schemaVersion'' \<noteq> JInt 1
         \<or> jsfield body ''intent'' \<notin> {JStr (js ''CHECKOUT''), JStr (js ''SEAT_CHANGE''), JStr (js ''RENEWAL'')}
         \<or> \<not> validCycle (jsfield body ''cycle'')
         \<or> \<not> validSeats (jsfield body ''totalSeats'')
      then Inl A_BadRequest
      else sbind (workspace (jsfield body ''workspaceId'')) (\<lambda>ws. Inr body))"

definition command_keys :: "string \<Rightarrow> string list" where
  "command_keys type =
     [''schemaVersion'', ''workspaceId'', ''commandId'', ''expectedBillingVersion'']
     @ (if type = ''WINCRM_VERIFY_ORDER'' then [''orderId'', ''expectedOrderVersion'']
        else if type = ''WINCRM_CHECKOUT''
        then [''expectedPolicyVersion'', ''cycle'', ''totalSeats'', ''autoRenew'', ''consentVersion'']
        else if type = ''WINCRM_SEAT_CHANGE'' then [''expectedPeriodId'', ''expectedPeriodVersion'', ''newTotalSeats'']
        else if type = ''WINCRM_CONFIRM_RENEWAL'' then [''expectedRenewalVersion'', ''expectedPolicyVersion'', ''consentVersion'']
        else [''expectedRenewalVersion''])"

definition command_fields_ok :: "string \<Rightarrow> jsval \<Rightarrow> bool" where
  "command_fields_ok type body \<longleftrightarrow>
     (type = ''WINCRM_VERIFY_ORDER'' \<longrightarrow>
        validUuid (jsfield body ''orderId'') \<and> positive (jsfield body ''expectedOrderVersion''))
     \<and> (type = ''WINCRM_CHECKOUT'' \<longrightarrow>
        positive (jsfield body ''expectedPolicyVersion'') \<and> validCycle (jsfield body ''cycle'')
        \<and> validSeats (jsfield body ''totalSeats'')
        \<and> (jsfield body ''autoRenew'' = JBool True \<and> validConsent (jsfield body ''consentVersion'')
           \<or> jsfield body ''autoRenew'' = JBool False \<and> jsfield body ''consentVersion'' = JNull))
     \<and> (type = ''WINCRM_SEAT_CHANGE'' \<longrightarrow>
        validUuid (jsfield body ''expectedPeriodId'') \<and> positive (jsfield body ''expectedPeriodVersion'')
        \<and> validSeats (jsfield body ''newTotalSeats''))
     \<and> (type \<in> {''WINCRM_DISABLE_RENEWAL'', ''WINCRM_CONFIRM_RENEWAL''} \<longrightarrow>
        validInt 0 2147483646 (jsfield body ''expectedRenewalVersion'')
        \<and> (type = ''WINCRM_CONFIRM_RENEWAL'' \<longrightarrow>
             positive (jsfield body ''expectedPolicyVersion'') \<and> validConsent (jsfield body ''consentVersion'')))"

text \<open>\<open>{ ...body, actorSubject }\<close>: a checked body has no property of this name.\<close>

definition parseCommand :: "string \<Rightarrow> jsval \<Rightarrow> jsstring option \<Rightarrow> jsstring \<Rightarrow> access_error + jsval" where
  "parseCommand type body idempotencyKey actorSubject =
     (if \<not> isRecord body
         \<or> \<not> hasExactKeys body (command_keys type)
         \<or> jsfield body ''schemaVersion'' \<noteq> JInt 1
         \<or> \<not> validUuid (jsfield body ''commandId'')
         \<or> idempotencyKey \<noteq> Some (as_str (jsfield body ''commandId''))
         \<or> \<not> validVersion (jsfield body ''expectedBillingVersion'')
         \<or> \<not> validSubject (JStr actorSubject)
      then Inl A_BadRequest
      else
        sbind (workspace (jsfield body ''workspaceId'')) (\<lambda>ws.
        if \<not> command_fields_ok type body then Inl A_BadRequest
        else case body of
          JObj kvs \<Rightarrow> Inr (JObj (kvs @ [(js ''actorSubject'', JStr actorSubject)]))
        | _ \<Rightarrow> Inl A_BadRequest))"

section \<open>The request hash\<close>

text \<open>
  \<open>Object.fromEntries\<close>: a JavaScript object lists the properties whose names are array indices first, in
  ascending order, then the others in the order of their insertion.
\<close>

definition array_index :: "jsstring \<Rightarrow> bool" where
  "array_index s \<longleftrightarrow> (s = [48] \<or> s \<noteq> [] \<and> hd s \<noteq> 48 \<and> list_all is_digit s) \<and> undec s \<le> 4294967294"

definition from_entries :: "(jsstring \<times> jsval) list \<Rightarrow> jsval" where
  "from_entries kvs =
     JObj (sort_key (\<lambda>(k, v). undec k) (filter (\<lambda>(k, v). array_index k) kvs) @ filter (\<lambda>(k, v). \<not> array_index k) kvs)"

fun canonical :: "jsval \<Rightarrow> jsval" where
  "canonical (JArr vs) = JArr (map canonical vs)"
| "canonical (JObj kvs) = from_entries (sort_key fst (map (\<lambda>(k, v). (k, canonical v)) kvs))"
| "canonical v = v"

text \<open>\<open>JSON.stringify\<close>: \<open>undefined\<close> has no text, is \<open>null\<close> in an array and left out of an object.\<close>

fun stringify :: "jsval \<Rightarrow> jsstring option" where
  "stringify JUndef = None"
| "stringify JNull = Some (js ''null'')"
| "stringify (JBool b) = Some (js (if b then ''true'' else ''false''))"
| "stringify (JInt n) = Some (dec_int n)"
| "stringify (JFloat t) = Some t"
| "stringify JNonFinite = Some (js ''null'')"
| "stringify (JStr s) = Some (json_string s)"
| "stringify (JArr vs) =
     Some ([91] @ join_comma (map (\<lambda>t. case t of None \<Rightarrow> js ''null'' | Some t \<Rightarrow> t) (map stringify vs)) @ [93])"
| "stringify (JObj kvs) =
     Some ([123] @ join_comma (map (\<lambda>(k, t). json_string k @ [58] @ the t)
        (filter (\<lambda>(k, t). t \<noteq> None) (map (\<lambda>(k, v). (k, stringify v)) kvs))) @ [125])"

definition commerceHash :: "env \<Rightarrow> string \<Rightarrow> jsval \<Rightarrow> jsstring" where
  "commerceHash e commandType payload =
     sha256 e (the (stringify (canonical (obj [(''commandType'', JStr (js commandType)), (''payload'', payload)]))))"

section \<open>The same hash on both sides\<close>

text \<open>A value that JSON can carry; no property is named by an array index.\<close>

fun json_value :: "jsval \<Rightarrow> bool" where
  "json_value JUndef = False"
| "json_value JNonFinite = False"
| "json_value (JArr vs) = list_all (\<lambda>b. b) (map json_value vs)"
| "json_value (JObj kvs) =
     list_all (\<lambda>(k, absent, b). \<not> array_index k \<and> (absent \<or> b)) (map (\<lambda>(k, v). (k, v = JUndef, json_value v)) kvs)"
| "json_value v = True"

lemma map_sorted_members: "map (\<lambda>(k, v). (k, f v)) (sort_key fst kvs) = sort_key fst (map (\<lambda>(k, v). (k, f v)) kvs)"
proof -
  have insort: "map (\<lambda>(k, v). (k, f v)) (insort_key fst x ys) = insort_key fst (case x of (k, v) \<Rightarrow> (k, f v)) (map (\<lambda>(k, v). (k, f v)) ys)"
    for x ys by (induction ys) (auto split: prod.splits)
  show ?thesis
    by (induction kvs) (simp_all only: sort_key_simps list.map insort)
qed

lemma from_entries_plain: "\<forall>(k, v)\<in>set kvs. \<not> array_index k \<Longrightarrow> from_entries kvs = JObj kvs"
  by (auto simp: from_entries_def split_beta filter_False filter_True)

lemma texts_Inr: "all_results (map Inr ts) = Inr ts"
  by (induction ts) simp_all

lemma member_results:
  "all_results (map (\<lambda>(k, r). sbind r (\<lambda>t. Inr (f k t))) (map (\<lambda>(k, x). (k, Inr x)) kvs)) = Inr (map (\<lambda>(k, x). f k x) kvs)"
  by (induction kvs) auto

lemma present_members:
  "filter (\<lambda>(k, x). x \<noteq> None) (map (\<lambda>(k, v). (k, if v = u then None else Some (t v))) kvs)
     = map (\<lambda>(k, x). (k, Some x)) (map (\<lambda>(k, v). (k, t v)) (filter (\<lambda>(k, v). v \<noteq> u) kvs))"
  by (induction kvs) auto

lemma same_text: "json_value v \<Longrightarrow> \<exists>t. stringify (canonical v) = Some t \<and> canonicalJson v = Inr t"
proof (induction v)
  case (JArr vs)
  then have "\<forall>v\<in>set vs. \<exists>t. stringify (canonical v) = Some t \<and> canonicalJson v = Inr t"
    by (auto simp: list_all_iff)
  then obtain t where t: "v \<in> set vs \<Longrightarrow> stringify (canonical v) = Some (t v) \<and> canonicalJson v = Inr (t v)" for v
    by metis
  have "map canonicalJson vs = map Inr (map t vs)"
    using t by simp
  then have "all_results (map canonicalJson vs) = Inr (map t vs)"
    by (simp only: texts_Inr)
  then show ?case
    using t by (simp add: comp_def cong: map_cong)
next
  case (JObj kvs)
  let ?kept = "filter (\<lambda>(k, v). v \<noteq> JUndef) kvs"
  have plain: "\<forall>(k, v)\<in>set kvs. \<not> array_index k"
    using JObj.prems by (auto simp: list_all_iff)
  define t where "t v = the (stringify (canonical v))" for v
  have t: "stringify (canonical v) = Some (t v) \<and> canonicalJson v = Inr (t v)" if "(k, v) \<in> set ?kept" for k v
    using JObj that by (fastforce simp: list_all_iff t_def)
  let ?texts = "sort_key fst (map (\<lambda>(k, v). (k, t v)) ?kept)"
  have "stringify (canonical v) = (if v = JUndef then None else Some (t v))" if "(k, v) \<in> set kvs" for k v
    using t [of k v] that by (cases v) auto
  then have "map (\<lambda>(k, v). (k, stringify (canonical v))) kvs = map (\<lambda>(k, v). (k, if v = JUndef then None else Some (t v))) kvs"
    by auto
  then have texts: "filter (\<lambda>(k, x). x \<noteq> None) (map (\<lambda>(k, v). (k, stringify (canonical v))) kvs)
      = map (\<lambda>(k, x). (k, Some x)) (map (\<lambda>(k, v). (k, t v)) ?kept)"
    by (simp only: present_members)
  have "map (\<lambda>(k, v). (k, stringify v)) (map (\<lambda>(k, v). (k, canonical v)) kvs) = map (\<lambda>(k, v). (k, stringify (canonical v))) kvs"
    by auto
  then have entries: "filter (\<lambda>(k, x). x \<noteq> None) (map (\<lambda>(k, v). (k, stringify v)) (sort_key fst (map (\<lambda>(k, v). (k, canonical v)) kvs)))
      = map (\<lambda>(k, x). (k, Some x)) ?texts"
    by (simp only: map_sorted_members filter_sort texts)
  have "map (\<lambda>(k, v). (k, canonicalJson v)) ?kept = map (\<lambda>(k, x). (k, Inr x)) (map (\<lambda>(k, v). (k, t v)) ?kept)"
    using t by auto
  then have "sort_key fst (map (\<lambda>(k, v). (k, canonicalJson v)) ?kept) = map (\<lambda>(k, x). (k, Inr x)) ?texts"
    by (simp only: map_sorted_members)
  then have billing: "canonicalJson (JObj kvs) = Inr ([123] @ join_comma (map (\<lambda>(k, x). json_string k @ [58] @ x) ?texts) @ [125])"
    by (simp only: canonicalJson.simps member_results sbind_simps)
  have "canonical (JObj kvs) = JObj (sort_key fst (map (\<lambda>(k, v). (k, canonical v)) kvs))"
    using plain by (simp, intro from_entries_plain) auto
  moreover have "map (\<lambda>(k, x). json_string k @ [58] @ the x) (map (\<lambda>(k, x). (k, Some x)) ?texts)
      = map (\<lambda>(k, x). json_string k @ [58] @ x) ?texts"
    by auto
  ultimately show ?case
    using billing by (simp only: stringify.simps entries) blast
qed simp_all

end
