(* ===== verification/Access_Data.thy ===== *)
theory Access_Data
  imports Access_Validation Computation
begin

text \<open>
  The database of the CRM Access service (\<open>apps/crm-access/prisma/schema.prisma\<close>), its retry of serializable
  transactions, and the helpers of \<open>apps/crm-access/src/team/team.util.ts\<close>: audit rows, outbox events and
  idempotent team commands. Answers of other services (Identity, Billing) are functions of the number of the
  call, collected in the record \<open>peers\<close>, with the functions of the JavaScript engine and of the database that
  depend on Unicode tables or on a locale: the order of \<open>localeCompare\<close>, the case-insensitive equality of names,
  lower case, the NFC form and the class of letters in names.
\<close>

section \<open>Rows\<close>

datatype op_state = S_PENDING | S_COMMITTED | S_CANCELLED | S_NOT_STARTED

record capacity_row =
  ca_workspaceId :: jsstring
  ca_revision :: int
  ca_admissionCeiling :: "int option"
  ca_pendingOperationId :: "jsstring option"
  ca_pendingTargetSeats :: "int option"
  ca_latestCommittedOperationId :: "jsstring option"

record billing_op =
  bo_commandId :: jsstring
  bo_workspaceId :: jsstring
  bo_actorSubject :: jsstring
  bo_commandType :: string
  bo_requestHash :: "jsstring option"
  bo_request :: "jsval option"
  bo_fenceRevision :: "int option"
  bo_targetSeats :: "int option"
  bo_state :: op_state
  bo_releaseFence :: bool
  bo_billingVersion :: "jsstring option"
  bo_holdUntil :: "date option"
  bo_nextCheckAt :: date
  bo_proof :: "jsval option"

record team_receipt =
  tr_commandId :: jsstring
  tr_workspaceId :: jsstring
  tr_actorSubject :: jsstring
  tr_commandType :: string
  tr_requestHash :: jsstring
  tr_result :: jsval

record member_row =
  mr_id :: jsstring
  mr_workspaceId :: jsstring
  mr_subject :: jsstring
  mr_membershipId :: jsstring
  mr_role :: jsstring
  mr_disabledAt :: "date option"
  mr_version :: int
  mr_createdAt :: date
  mr_updatedAt :: date

record team_row =
  tm_id :: jsstring
  tm_workspaceId :: jsstring
  tm_name :: jsstring
  tm_version :: int
  tm_archivedAt :: "date option"
  tm_createdAt :: date
  tm_updatedAt :: date

record member_team_row =
  mt_workspaceId :: jsstring
  mt_memberId :: jsstring
  mt_teamId :: jsstring

datatype intent_status = I_REGISTERING | I_INVITED | I_ACCEPTED | I_REVOKED | I_EXPIRED

record intent_row =
  in_id :: jsstring
  in_workspaceId :: jsstring
  in_email :: jsstring
  in_firstName :: "jsstring option"
  in_lastName :: "jsstring option"
  in_middleName :: "jsstring option"
  in_role :: jsstring
  in_teamIds :: "jsstring list"
  in_inviterSubject :: jsstring
  in_status :: intent_status
  in_version :: int
  in_expiresAt :: date
  in_revokedAt :: "date option"
  in_identityVersion :: "int option"
  in_provisioningCommandId :: jsstring
  in_revokeCommandId :: "jsstring option"
  in_createdAt :: date
  in_updatedAt :: date

datatype admission_status = W_WAITING | W_ACTIVE | W_CANCELLED

record admission_row =
  ad_id :: jsstring
  ad_workspaceId :: jsstring
  ad_intentId :: "jsstring option"
  ad_sourceAcceptanceId :: "jsstring option"
  ad_memberId :: "jsstring option"
  ad_expectedMemberVersion :: "int option"
  ad_subject :: jsstring
  ad_membershipId :: jsstring
  ad_requestedBySubject :: jsstring
  ad_position :: nat
  ad_status :: admission_status
  ad_activatedAt :: "date option"
  ad_cancellationCode :: "string option"
  ad_createdAt :: date

record profile_row =
  pf_id :: jsstring
  pf_workspaceId :: jsstring
  pf_subject :: jsstring
  pf_firstName :: jsstring
  pf_lastName :: jsstring
  pf_middleName :: "jsstring option"
  pf_version :: int

datatype lifecycle = L_ONBOARDING | L_ACTIVE | L_READ_ONLY | L_SUSPENDED

record workspace_row =
  wa_workspaceId :: jsstring
  wa_lifecycle :: lifecycle
  wa_activatedBySubject :: jsstring
  wa_billingEntitlementId :: jsstring
  wa_onboardingCompletedAt :: "date option"

record team_audit =
  ta_workspaceId :: jsstring
  ta_actorSubject :: jsstring
  ta_commandId :: jsstring
  ta_action :: string
  ta_targetId :: jsstring
  ta_before :: jsval
  ta_after :: jsval

record team_event =
  te_messageId :: jsstring
  te_deduplicationKey :: jsstring
  te_exchange :: string
  te_eventType :: string
  te_routingKey :: jsstring
  te_payload :: jsval
  te_headers :: jsval

text \<open>
  The column \<open>updatedAt\<close> is kept for members, teams and invitations where a transfer object of the same command
  shows it.

  The tables, the next position of an admission, the clock and the source of identifiers, the number of
  calls to other services and the commerce requests sent to Billing so far.
\<close>

record access =
  t_capacities :: "capacity_row list"
  t_operations :: "billing_op list"
  t_receipts :: "team_receipt list"
  t_members :: "member_row list"
  t_teams :: "team_row list"
  t_memberTeams :: "member_team_row list"
  t_intents :: "intent_row list"
  t_admissions :: "admission_row list"
  t_profiles :: "profile_row list"
  t_workspaces :: "workspace_row list"
  t_audits :: "team_audit list"
  t_events :: "team_event list"
  t_position :: nat
  a_tick :: nat
  a_fresh :: nat
  a_calls :: nat
  a_sent :: "(string \<times> jsval \<times> jsstring option) list"

type_synonym 'a atx = "(access, access_error, 'a) tx"
type_synonym 'a acomp = "(access, access_error, 'a) comp"

section \<open>Other services\<close>

record membership =
  mb_workspaceId :: jsstring
  mb_membershipId :: jsstring
  mb_role :: jsstring

record auth_context =
  ac_subject :: jsstring
  ac_memberships :: "membership list"

record source_context =
  sc_subject :: jsstring
  sc_ownerSubject :: "jsstring option"
  sc_membership :: "membership option"

record entitlement_details =
  ed_id :: jsstring
  ed_seatLimit :: jsval
  ed_policyVersion :: jsval
  ed_graceUntil :: "date option"
  ed_effectiveUntil :: date

record entitlement_answer =
  ea_status :: string
  ea_entitlement :: "entitlement_details option"

record acceptance =
  ap_id :: jsstring
  ap_invitationId :: jsstring
  ap_invitationVersion :: int
  ap_workspaceId :: jsstring
  ap_subject :: jsstring
  ap_membershipId :: jsstring
  ap_acceptedAt :: jsstring

text \<open>
  An HTTP answer of Billing: the status, whether it is JSON that was not redirected, and the value that
  \<open>readBoundedJson\<close> reads from the body, if any. \<open>None\<close> is a request that failed.
\<close>

record commerce_answer =
  co_status :: int
  co_json :: bool
  co_body :: "jsval option"

datatype invitation_answer = Accepted acceptance | Rejected | Failed access_error

record peers =
  pe_billingEnabled :: bool
  pe_authContext :: "nat \<Rightarrow> jsstring option \<Rightarrow> access_error + auth_context"
  pe_sourceContext :: "nat \<Rightarrow> jsstring \<Rightarrow> jsstring \<Rightarrow> access_error + source_context"
  pe_widgetSourceContext :: "nat \<Rightarrow> jsstring \<Rightarrow> jsstring \<Rightarrow> access_error + source_context"
  pe_entitlement :: "nat \<Rightarrow> jsstring \<Rightarrow> access_error + entitlement_answer"
  pe_commerce :: "nat \<Rightarrow> string \<Rightarrow> jsval \<Rightarrow> commerce_answer option"
  pe_createInvitation :: "nat \<Rightarrow> intent_row \<Rightarrow> access_error + int"
  pe_revokeInvitation :: "nat \<Rightarrow> intent_row \<Rightarrow> access_error option"
  pe_acceptance :: "nat \<Rightarrow> jsstring \<Rightarrow> jsstring \<Rightarrow> invitation_answer"
  pe_localeLess :: "jsstring \<Rightarrow> jsstring \<Rightarrow> bool"
  pe_sameName :: "jsstring \<Rightarrow> jsstring \<Rightarrow> bool"
  pe_lower :: "jsstring \<Rightarrow> jsstring"
  pe_nfc :: "jsstring \<Rightarrow> jsstring"
  pe_nameText :: "jsstring \<Rightarrow> bool"

text \<open>A call to another service has its own number.\<close>

definition ask :: "(nat \<Rightarrow> access_error + 'a) \<Rightarrow> 'a acomp" where
  "ask f s = (f (a_calls s), s\<lparr>a_calls := a_calls s + 1\<rparr>)"

section \<open>Time, identifiers and transactions\<close>

definition access_date :: "env \<Rightarrow> date atx" where
  "access_date e w = Inr (clock e (a_tick w), w\<lparr>a_tick := a_tick w + 1\<rparr>)"

definition access_uuid :: "env \<Rightarrow> jsstring atx" where
  "access_uuid e w = Inr (uuid e (a_fresh w), w\<lparr>a_fresh := a_fresh w + 1\<rparr>)"

text \<open>
  \<open>serializable\<close>: a serialization failure (decided by the environment) and a repeated unique key are tried
  again twice; a unique key that is repeated to the end is a conflict. A failed attempt leaves the tables as
  they were. (The advisory locks decide which transactions run, not what they do.)
\<close>

fun serializable_from :: "env \<Rightarrow> nat \<Rightarrow> nat \<Rightarrow> 'a atx \<Rightarrow> 'a atx" where
  "serializable_from e n 0 action w =
     (case if conflicts e (a_tick w) n then Inl A_P2034 else action w of
        Inr r \<Rightarrow> Inr r
      | Inl err \<Rightarrow> Inl (if err = A_P2002 then A_Conflict ''CRM team state conflicts with another command'' else err))"
| "serializable_from e n (Suc k) action w =
     (case if conflicts e (a_tick w) n then Inl A_P2034 else action w of
        Inr r \<Rightarrow> Inr r
      | Inl err \<Rightarrow>
          if err = A_P2034 \<or> err = A_P2002
          then serializable_from e (n + 1) k action (w\<lparr>a_tick := a_tick w + 1, a_fresh := a_fresh w + 1\<rparr>)
          else Inl err)"

definition serializable :: "env \<Rightarrow> 'a atx \<Rightarrow> 'a atx" where
  "serializable e action = serializable_from e 0 2 action"

text \<open>A transaction as a step of a handler: a failed one leaves the tables as they were.\<close>

definition run_tx :: "'a atx \<Rightarrow> 'a acomp" where
  "run_tx m s =
     (case m s of
        Inl err \<Rightarrow> (Inl err, s\<lparr>a_tick := a_tick s + 1, a_fresh := a_fresh s + 1\<rparr>)
      | Inr (x, s') \<Rightarrow> (Inr x, s'))"

text \<open>A committed transaction is a run of its action, at a possibly later time.\<close>

lemma serializable_from_Inr:
  "serializable_from e n k action w = Inr (x, w') \<Longrightarrow> \<exists>i j. action (w\<lparr>a_tick := i, a_fresh := j\<rparr>) = Inr (x, w')"
proof (induction k arbitrary: n w)
  case 0
  then have "action (w\<lparr>a_tick := a_tick w, a_fresh := a_fresh w\<rparr>) = Inr (x, w')"
    by (simp split: if_splits sum.splits)
  then show ?case
    by blast
next
  case (Suc k)
  show ?case
  proof (cases "serializable_from e (n + 1) k action (w\<lparr>a_tick := a_tick w + 1, a_fresh := a_fresh w + 1\<rparr>) = Inr (x, w')")
    case True
    from Suc.IH [OF this] show ?thesis
      by simp
  next
    case False
    then have "action (w\<lparr>a_tick := a_tick w, a_fresh := a_fresh w\<rparr>) = Inr (x, w')"
      using Suc.prems by (simp split: if_splits sum.splits)
    then show ?thesis
      by blast
  qed
qed

lemma serializable_InrE [elim!]:
  assumes "serializable e action w = Inr (x, w')"
  obtains i j where "action (w\<lparr>a_tick := i, a_fresh := j\<rparr>) = Inr (x, w')"
  using serializable_from_Inr [OF assms [unfolded serializable_def]] that by auto

lemma serializable_no_conflict:
  "(\<And>t n. \<not> conflicts e t n) \<Longrightarrow> action w = Inr r \<Longrightarrow> serializable e action w = Inr r"
  by (simp add: serializable_def numeral_2_eq_2)

section \<open>Prisma calls\<close>

definition upsert_capacity :: "capacity_row \<Rightarrow> capacity_row atx" where
  "upsert_capacity row = upsert_row t_capacities t_capacities_update
     (\<lambda>c. ca_workspaceId c = ca_workspaceId row) row (\<lambda>c. c)"

definition update_capacity :: "jsstring \<Rightarrow> (capacity_row \<Rightarrow> capacity_row) \<Rightarrow> capacity_row atx" where
  "update_capacity ws = update_row t_capacities t_capacities_update A_P2025 (\<lambda>c. ca_workspaceId c = ws)"

definition create_billing_op :: "billing_op \<Rightarrow> billing_op atx" where
  "create_billing_op = create_row t_operations t_operations_update (\<lambda>a b. bo_commandId a = bo_commandId b) A_P2002"

definition update_billing_op :: "jsstring \<Rightarrow> (billing_op \<Rightarrow> billing_op) \<Rightarrow> billing_op atx" where
  "update_billing_op i = update_row t_operations t_operations_update A_P2025 (\<lambda>x. bo_commandId x = i)"

definition create_team_receipt :: "team_receipt \<Rightarrow> team_receipt atx" where
  "create_team_receipt = create_row t_receipts t_receipts_update (\<lambda>a b. tr_commandId a = tr_commandId b) A_P2002"

definition create_member :: "member_row \<Rightarrow> member_row atx" where
  "create_member = create_row t_members t_members_update
     (\<lambda>a b. mr_id a = mr_id b
        \<or> mr_workspaceId a = mr_workspaceId b \<and> (mr_subject a = mr_subject b \<or> mr_membershipId a = mr_membershipId b)) A_P2002"

definition update_member :: "jsstring \<Rightarrow> (member_row \<Rightarrow> member_row) \<Rightarrow> member_row atx" where
  "update_member i = update_row t_members t_members_update A_P2025 (\<lambda>m. mr_id m = i)"

definition create_team_row :: "peers \<Rightarrow> team_row \<Rightarrow> team_row atx" where
  "create_team_row p = create_row t_teams t_teams_update
     (\<lambda>a b. tm_id a = tm_id b
        \<or> tm_workspaceId a = tm_workspaceId b \<and> tm_archivedAt a = None \<and> pe_sameName p (tm_name a) (tm_name b)) A_P2002"

definition update_team_row :: "jsstring \<Rightarrow> (team_row \<Rightarrow> team_row) \<Rightarrow> team_row atx" where
  "update_team_row i = update_row t_teams t_teams_update A_P2025 (\<lambda>t. tm_id t = i)"

definition open_intent :: "intent_row \<Rightarrow> bool" where
  "open_intent i \<longleftrightarrow> in_status i = I_REGISTERING \<or> in_status i = I_INVITED"

definition create_intent :: "intent_row \<Rightarrow> intent_row atx" where
  "create_intent = create_row t_intents t_intents_update
     (\<lambda>a b. in_id a = in_id b \<or> in_provisioningCommandId a = in_provisioningCommandId b
        \<or> in_workspaceId a = in_workspaceId b \<and> in_email a = in_email b \<and> open_intent a \<and> open_intent b) A_P2002"

definition update_intent :: "jsstring \<Rightarrow> (intent_row \<Rightarrow> intent_row) \<Rightarrow> intent_row atx" where
  "update_intent i = update_row t_intents t_intents_update A_P2025 (\<lambda>x. in_id x = i)"

definition updateMany_intent :: "(intent_row \<Rightarrow> bool) \<Rightarrow> (intent_row \<Rightarrow> intent_row) \<Rightarrow> nat atx" where
  "updateMany_intent = update_many t_intents t_intents_update"

definition create_admission :: "admission_row \<Rightarrow> admission_row atx" where
  "create_admission = create_row t_admissions t_admissions_update
     (\<lambda>a b. ad_id a = ad_id b \<or> ad_position a = ad_position b
        \<or> same_some (ad_intentId a) (ad_intentId b) \<or> same_some (ad_sourceAcceptanceId a) (ad_sourceAcceptanceId b)
        \<or> ad_workspaceId a = ad_workspaceId b \<and> ad_subject a = ad_subject b
          \<and> ad_status a = W_WAITING \<and> ad_status b = W_WAITING) A_P2002"

definition update_admission :: "jsstring \<Rightarrow> (admission_row \<Rightarrow> admission_row) \<Rightarrow> admission_row atx" where
  "update_admission i = update_row t_admissions t_admissions_update A_P2025 (\<lambda>x. ad_id x = i)"

definition updateMany_admission :: "(admission_row \<Rightarrow> bool) \<Rightarrow> (admission_row \<Rightarrow> admission_row) \<Rightarrow> nat atx" where
  "updateMany_admission = update_many t_admissions t_admissions_update"

text \<open>\<open>@default(autoincrement())\<close>.\<close>

definition next_position :: "nat atx" where
  "next_position w = Inr (t_position w, w\<lparr>t_position := t_position w + 1\<rparr>)"

definition create_audit :: "team_audit \<Rightarrow> team_audit atx" where
  "create_audit = create_row t_audits t_audits_update (\<lambda>a b. ta_commandId a = ta_commandId b) A_P2002"

definition create_event :: "team_event \<Rightarrow> team_event atx" where
  "create_event = create_row t_events t_events_update (\<lambda>a b. te_deduplicationKey a = te_deduplicationKey b) A_P2002"

definition find_billing_op :: "jsstring \<Rightarrow> access \<Rightarrow> billing_op option" where
  "find_billing_op i w = find (\<lambda>x. bo_commandId x = i) (t_operations w)"

definition find_capacity :: "jsstring \<Rightarrow> access \<Rightarrow> capacity_row option" where
  "find_capacity ws w = find (\<lambda>c. ca_workspaceId c = ws) (t_capacities w)"

definition find_team_receipt :: "jsstring \<Rightarrow> access \<Rightarrow> team_receipt option" where
  "find_team_receipt i w = find (\<lambda>r. tr_commandId r = i) (t_receipts w)"

definition find_member_of :: "jsstring \<Rightarrow> jsstring \<Rightarrow> access \<Rightarrow> member_row option" where
  "find_member_of ws subject w = find (\<lambda>m. mr_workspaceId m = ws \<and> mr_subject m = subject) (t_members w)"

definition find_intent :: "jsstring \<Rightarrow> access \<Rightarrow> intent_row option" where
  "find_intent i w = find (\<lambda>x. in_id x = i) (t_intents w)"

definition find_workspace :: "jsstring \<Rightarrow> access \<Rightarrow> workspace_row option" where
  "find_workspace ws w = find (\<lambda>x. wa_workspaceId x = ws) (t_workspaces w)"

text \<open>\<open>crmWorkspaceMember.count\<close> of the members that are not disabled.\<close>

definition enabled_members :: "jsstring \<Rightarrow> access \<Rightarrow> int" where
  "enabled_members ws w = int (count_rows (\<lambda>m. mr_workspaceId m = ws \<and> mr_disabledAt m = None) (t_members w))"

section \<open>Team utilities\<close>

text \<open>The authority of a caller in a workspace.\<close>

record team_authority =
  au_workspaceId :: jsstring
  au_subject :: jsstring
  au_role :: jsstring
  au_state :: string
  au_dataScope :: string
  au_teamIds :: "jsstring list"
  au_permissions :: "string list"

fun json :: "jsval \<Rightarrow> jsval" where
  "json (JArr vs) = JArr (map (\<lambda>v. if v = JUndef then JNull else v) (map json vs))"
| "json (JObj kvs) = JObj (filter (\<lambda>(k, v). v \<noteq> JUndef) (map (\<lambda>(k, v). (k, json v)) kvs))"
| "json JNonFinite = JNull"
| "json v = v"

fun team_canonical :: "peers \<Rightarrow> jsval \<Rightarrow> jsval" where
  "team_canonical p (JArr vs) = JArr (map (team_canonical p) vs)"
| "team_canonical p (JObj kvs) =
     from_entries (order_by (\<lambda>a b. pe_localeLess p (fst a) (fst b)) (map (\<lambda>(k, v). (k, team_canonical p v)) kvs))"
| "team_canonical p v = v"

definition semanticHash :: "env \<Rightarrow> peers \<Rightarrow> jsval \<Rightarrow> jsstring" where
  "semanticHash e p value = sha256 e (the (stringify (team_canonical p value)))"

definition auditTeam :: "team_authority \<Rightarrow> jsstring \<Rightarrow> string \<Rightarrow> jsstring \<Rightarrow> jsval \<Rightarrow> jsval \<Rightarrow> unit atx" where
  "auditTeam actor commandId action targetId before after =
     thn (create_audit
       \<lparr>ta_workspaceId = au_workspaceId actor, ta_actorSubject = au_subject actor, ta_commandId = commandId,
        ta_action = action, ta_targetId = targetId, ta_before = json before, ta_after = json after\<rparr>)
     (ret ())"

definition TEAM_EVENTS :: "string \<Rightarrow> string" where
  "TEAM_EVENTS consumer =
     (if consumer = ''provision'' then ''crm.access.invitation-provision.v1''
      else if consumer = ''acceptance'' then ''identity.wincrm.invitation-accepted.v1''
      else ''crm.access.admission-wake.v1'')"

definition emitTeamEvent :: "env \<Rightarrow> string \<Rightarrow> jsstring \<Rightarrow> jsstring \<Rightarrow> jsstring option \<Rightarrow> unit atx" where
  "emitTeamEvent e consumer workspaceId key invitationId =
     bnd (access_uuid e) (\<lambda>eventId.
     bnd (access_date e) (\<lambda>now.
     thn (create_event
       \<lparr>te_messageId = eventId, te_deduplicationKey = js consumer @ [58] @ key, te_exchange = ''winwidget.events'',
        te_eventType = TEAM_EVENTS consumer, te_routingKey = js (TEAM_EVENTS consumer),
        te_payload = obj ([(''schemaVersion'', JInt 1), (''eventId'', JStr eventId),
          (''eventType'', JStr (js (TEAM_EVENTS consumer))), (''workspaceId'', JStr workspaceId)]
          @ (case invitationId of None \<Rightarrow> [] | Some i \<Rightarrow> [(''invitationId'', JStr i)])
          @ [(''occurredAt'', JStr (toISOString now))]),
        te_headers = JObj []\<rparr>)
     (ret ())))"

text \<open>A team command: authority checked again, a repeated command answered from its receipt.\<close>

definition command_tx ::
    "team_authority \<Rightarrow> jsstring \<Rightarrow> string \<Rightarrow> jsstring \<Rightarrow> jsval atx \<Rightarrow> jsval atx" where
  "command_tx actor commandId commandType requestHash action =
     thn (if au_role actor \<noteq> js ''OWNER''
          then bnd (gets (find_member_of (au_workspaceId actor) (au_subject actor))) (\<lambda>current.
            check (A_Forbidden ''CRM team authority has changed'')
              (case current of None \<Rightarrow> False | Some m \<Rightarrow> mr_disabledAt m = None \<and> mr_role m = au_role actor))
          else ret ())
     (bnd (gets (find_team_receipt commandId)) (\<lambda>prior.
     case prior of
       Some r \<Rightarrow>
         thn (check (A_Conflict ''Team command conflict'')
           (tr_workspaceId r = au_workspaceId actor \<and> tr_actorSubject r = au_subject actor
            \<and> tr_commandType r = commandType \<and> tr_requestHash r = requestHash))
         (ret (tr_result r))
     | None \<Rightarrow>
         bnd action (\<lambda>result.
         thn (create_team_receipt
           \<lparr>tr_commandId = commandId, tr_workspaceId = au_workspaceId actor, tr_actorSubject = au_subject actor,
            tr_commandType = commandType, tr_requestHash = requestHash, tr_result = json result\<rparr>)
         (ret result))))"

definition command_hash :: "env \<Rightarrow> peers \<Rightarrow> team_authority \<Rightarrow> string \<Rightarrow> jsval \<Rightarrow> jsstring" where
  "command_hash e p actor commandType body =
     semanticHash e p (obj [(''actor'', JStr (au_subject actor)), (''workspaceId'', JStr (au_workspaceId actor)),
       (''commandType'', JStr (js commandType)), (''body'', body)])"

definition team_command ::
    "env \<Rightarrow> peers \<Rightarrow> team_authority \<Rightarrow> jsstring \<Rightarrow> string \<Rightarrow> jsval \<Rightarrow> jsval atx \<Rightarrow> jsval atx" where
  "team_command e p actor commandId commandType body action =
     serializable e (command_tx actor commandId commandType (command_hash e p actor commandType body) action)"

end
