(* ===== verification/Access_Response.thy ===== *)
theory Access_Response
  imports Access_Validation
begin

text \<open>
  \<open>apps/crm-access/src/billing/billing-response.parser.ts\<close>: what CRM Access accepts as an answer of Billing.
  A check is a predicate on values; a shape is a list of named checks and admits no other property.
\<close>

section \<open>Checks\<close>

definition literal :: "jsval list \<Rightarrow> jsval \<Rightarrow> bool" where
  "literal values v \<longleftrightarrow> v \<in> set values"

definition strings :: "string list \<Rightarrow> jsval \<Rightarrow> bool" where
  "strings values = literal (map (\<lambda>s. JStr (js s)) values)"

definition nullable :: "(jsval \<Rightarrow> bool) \<Rightarrow> jsval \<Rightarrow> bool" where
  "nullable test v \<longleftrightarrow> v = JNull \<or> test v"

definition text_check :: "nat \<Rightarrow> jsval \<Rightarrow> bool" where
  "text_check maximum v =
     (case v of
        JStr s \<Rightarrow> 0 < length s \<and> length s \<le> maximum
          \<and> \<not> list_ex (\<lambda>c. c \<le> 8 \<or> c = 11 \<or> c = 12 \<or> 14 \<le> c \<and> c \<le> 31 \<or> c = 127 \<or> c = 65533) s
          \<and> \<not> lone_surrogate s
      | _ \<Rightarrow> False)"

definition bool_check :: "jsval \<Rightarrow> bool" where
  "bool_check v = (case v of JBool b \<Rightarrow> True | _ \<Rightarrow> False)"

definition nonnegative :: "jsval \<Rightarrow> bool" where
  "nonnegative = validInt 0 2147483646"

definition minor :: "jsval \<Rightarrow> bool" where
  "minor v =
     (case v of
        JStr s \<Rightarrow> (s = [48] \<or> s \<noteq> [] \<and> hd s \<noteq> 48 \<and> length s \<le> 19 \<and> list_all is_digit s)
          \<and> undec s \<le> 9223372036854775807
      | _ \<Rightarrow> False)"

definition instant :: "env \<Rightarrow> jsval \<Rightarrow> js_date" where
  "instant e v = Date_parse e (as_str v)"

definition iso :: "env \<Rightarrow> jsval \<Rightarrow> bool" where
  "iso e v =
     (case v of JStr s \<Rightarrow> (case Date_parse e s of None \<Rightarrow> False | Some t \<Rightarrow> toISOString t = s) | _ \<Rightarrow> False)"

text \<open>\<open>Date.parse(a) < Date.parse(b)\<close>; a comparison with an invalid date is false.\<close>

definition earlier :: "env \<Rightarrow> jsval \<Rightarrow> jsval \<Rightarrow> bool" where
  "earlier e a b = (case (instant e a, instant e b) of (Some s, Some t) \<Rightarrow> s < t | _ \<Rightarrow> False)"

definition shape :: "(string \<times> (jsval \<Rightarrow> bool)) list \<Rightarrow> jsval \<Rightarrow> bool" where
  "shape parts v \<longleftrightarrow>
     isRecord v \<and> hasExactKeys v (map fst parts) \<and> list_all (\<lambda>(key, test). test (jsfield v key)) parts"

section \<open>Parts of an answer\<close>

definition price_check :: "jsval \<Rightarrow> bool" where
  "price_check = shape
     [(''policyVersion'', positive),
      (''monthlyPriceMinor'', validInt 1 100000000),
      (''yearlyPriceMinor'', validInt 1 100000000),
      (''additionalSeatMonthlyPriceMinor'', validInt 0 100000000),
      (''additionalSeatYearlyPriceMinor'', validInt 0 100000000),
      (''includedSeats'', validSeats),
      (''graceDays'', literal [JInt 3])]"

definition url_check :: "env \<Rightarrow> jsval \<Rightarrow> bool" where
  "url_check e v =
     (case v of
        JStr s \<Rightarrow> length s \<le> 4096
          \<and> (case parse_url e s of
               None \<Rightarrow> False
             | Some u \<Rightarrow> u_protocol u = ''https:'' \<and> u_username u = [] \<and> u_password u = [] \<and> u_hash u = []
                 \<and> print_url e u = s)
      | _ \<Rightarrow> False)"

definition order_fields :: "env \<Rightarrow> (string \<times> (jsval \<Rightarrow> bool)) list" where
  "order_fields e =
     [(''id'', isUuidV4), (''workspaceId'', isUuidV4), (''canVerify'', bool_check), (''version'', positive),
      (''kind'', strings [''ONE_TIME'', ''RECURRING'']),
      (''state'', strings [''PENDING'', ''SUCCEEDED'', ''CANCELLED'', ''UNKNOWN'']),
      (''cycle'', validCycle), (''totalSeats'', validSeats), (''amountMinor'', minor), (''currency'', strings [''RUB'']),
      (''policyVersion'', positive), (''confirmationUrl'', nullable (url_check e)), (''checkoutExpiresAt'', iso e),
      (''createdAt'', iso e), (''succeededAt'', nullable (iso e)),
      (''fulfillment'', strings [''NONE'', ''SCHEDULED'', ''ACTIVE'', ''EXPIRED'']),
      (''periodId'', nullable isUuidV4), (''startsAt'', nullable (iso e)), (''expiresAt'', nullable (iso e))]"

definition order_check :: "env \<Rightarrow> jsval \<Rightarrow> bool" where
  "order_check e v \<longleftrightarrow>
     shape (order_fields e) v
     \<and> (jsfield v ''canVerify'' = JBool True \<longrightarrow> strings [''PENDING'', ''UNKNOWN''] (jsfield v ''state''))
     \<and> (jsfield v ''state'' = JStr (js ''SUCCEEDED'')) = (jsfield v ''succeededAt'' \<noteq> JNull)
     \<and> (if jsfield v ''fulfillment'' = JStr (js ''NONE'')
        then jsfield v ''periodId'' = JNull \<and> jsfield v ''startsAt'' = JNull \<and> jsfield v ''expiresAt'' = JNull
        else jsfield v ''periodId'' \<noteq> JNull \<and> jsfield v ''startsAt'' \<noteq> JNull \<and> jsfield v ''expiresAt'' \<noteq> JNull
          \<and> earlier e (jsfield v ''startsAt'') (jsfield v ''expiresAt''))"

definition period_check :: "env \<Rightarrow> jsval \<Rightarrow> bool" where
  "period_check e v \<longleftrightarrow>
     shape
       [(''id'', isUuidV4), (''orderId'', isUuidV4), (''version'', positive), (''cycle'', validCycle),
        (''totalSeats'', validSeats), (''priceSnapshot'', price_check), (''startsAt'', iso e), (''expiresAt'', iso e),
        (''graceUntil'', iso e), (''state'', strings [''SCHEDULED'', ''ACTIVE'', ''GRACE'', ''EXPIRED''])] v
     \<and> earlier e (jsfield v ''startsAt'') (jsfield v ''expiresAt'')
     \<and> (case (instant e (jsfield v ''expiresAt''), instant e (jsfield v ''graceUntil'')) of
          (Some a, Some b) \<Rightarrow> a \<le> b | _ \<Rightarrow> False)"

definition renewal_check :: "env \<Rightarrow> jsval \<Rightarrow> bool" where
  "renewal_check e = shape
     [(''version'', nonnegative),
      (''state'', strings [''NONE'', ''ACTIVE'', ''USER_DISABLED'', ''TECHNICAL_PAUSE'', ''PRICE_CONFIRMATION_REQUIRED'', ''REVOKED'']),
      (''canDisable'', bool_check), (''dispatchPending'', bool_check), (''nextChargeAt'', nullable (iso e)),
      (''nextRetryAt'', nullable (iso e)), (''retryAttempt'', nonnegative),
      (''methodLast4'', nullable (\<lambda>x. case x of JStr s \<Rightarrow> match_classes (replicate 4 is_digit) s | _ \<Rightarrow> False)),
      (''methodTitle'', nullable (text_check 200))]"

section \<open>Answers\<close>

definition common_fields :: "jsstring \<Rightarrow> (string \<times> (jsval \<Rightarrow> bool)) list" where
  "common_fields workspaceId = [(''schemaVersion'', literal [JInt 1]), (''workspaceId'', literal [JStr workspaceId])]"

definition summary_check :: "env \<Rightarrow> jsstring \<Rightarrow> jsval \<Rightarrow> bool" where
  "summary_check e workspaceId value \<longleftrightarrow>
     shape (common_fields workspaceId @
       [(''billingVersion'', validVersion), (''serverTime'', iso e), (''policy'', price_check),
        (''trial'', nullable (\<lambda>v.
           shape [(''startsAt'', iso e), (''expiresAt'', iso e), (''seatLimit'', validSeats)] v
           \<and> earlier e (jsfield v ''startsAt'') (jsfield v ''expiresAt''))),
        (''period'', nullable (period_check e)), (''pendingOrder'', nullable (order_check e)),
        (''renewal'', renewal_check e)]) value
     \<and> (isRecord (jsfield value ''pendingOrder'')
        \<longrightarrow> jsfield (jsfield value ''pendingOrder'') ''workspaceId'' = JStr workspaceId)"

definition proof_check :: "env \<Rightarrow> jsstring \<Rightarrow> jsstring \<times> jsstring \<Rightarrow> jsval \<Rightarrow> bool" where
  "proof_check e workspaceId binding value \<longleftrightarrow>
     shape (common_fields workspaceId @
       [(''commandId'', literal [JStr (fst binding)]),
        (''requestHash'', \<lambda>v. v = JStr (snd binding) \<and> validHash v),
        (''status'', strings [''PENDING'', ''COMMITTED'', ''CANCELLED'']),
        (''billingVersion'', validVersion), (''releaseFence'', bool_check), (''holdUntil'', nullable (iso e)),
        (''order'', nullable (order_check e)), (''period'', nullable (period_check e))]) value
     \<and> \<not> (jsfield value ''status'' = JStr (js ''PENDING'') \<and> jsfield value ''releaseFence'' = JBool True)
     \<and> \<not> (jsfield value ''status'' = JStr (js ''CANCELLED'') \<and> jsfield value ''releaseFence'' = JBool False)
     \<and> (jsfield value ''holdUntil'' \<noteq> JNull \<longrightarrow>
          jsfield value ''status'' = JStr (js ''COMMITTED'') \<and> jsfield value ''releaseFence'' = JBool False)
     \<and> (isRecord (jsfield value ''order'') \<longrightarrow> jsfield (jsfield value ''order'') ''workspaceId'' = JStr workspaceId)"

definition quote_check :: "env \<Rightarrow> jsstring \<Rightarrow> jsval \<Rightarrow> bool" where
  "quote_check e workspaceId value \<longleftrightarrow>
     shape (common_fields workspaceId @
       [(''billingVersion'', validVersion), (''serverTime'', iso e), (''validUntil'', iso e),
        (''intent'', strings [''CHECKOUT'', ''SEAT_CHANGE'', ''RENEWAL'']), (''cycle'', validCycle),
        (''totalSeats'', validSeats), (''amountMinor'', minor), (''currency'', strings [''RUB'']),
        (''priceSnapshot'', price_check), (''startsAt'', iso e), (''expiresAt'', iso e),
        (''period'', nullable (shape
           [(''id'', isUuidV4), (''version'', positive), (''oldTotalSeats'', validSeats), (''oldExpiresAt'', iso e),
            (''oldPeriodPriceMinor'', minor), (''newPeriodPriceMinor'', minor)])),
        (''consent'', shape [(''version'', validConsent), (''text'', text_check 5000)])]) value
     \<and> earlier e (jsfield value ''serverTime'') (jsfield value ''validUntil'')
     \<and> earlier e (jsfield value ''startsAt'') (jsfield value ''expiresAt'')"

definition order_answer_check :: "env \<Rightarrow> jsstring \<Rightarrow> jsval \<Rightarrow> bool" where
  "order_answer_check e workspaceId value \<longleftrightarrow>
     shape (common_fields workspaceId @ [(''serverTime'', iso e), (''order'', order_check e)]) value
     \<and> jsfield (jsfield value ''order'') ''workspaceId'' = JStr workspaceId"

fun items_of :: "jsval \<Rightarrow> jsval list" where
  "items_of (JArr vs) = vs"
| "items_of v = []"

definition history_check :: "env \<Rightarrow> jsstring \<Rightarrow> jsval \<Rightarrow> bool" where
  "history_check e workspaceId value \<longleftrightarrow>
     shape (common_fields workspaceId @
       [(''page'', validInt 1 1000000), (''pageSize'', validInt 1 100), (''total'', validInt 0 MAX_SAFE_INTEGER),
        (''items'', \<lambda>v. case v of
           JArr vs \<Rightarrow> length vs \<le> 100
             \<and> list_all (\<lambda>item. order_check e item \<and> jsfield item ''workspaceId'' = JStr workspaceId) vs
         | _ \<Rightarrow> False)]) value
     \<and> int (length (items_of (jsfield value ''items''))) \<le> as_int (jsfield value ''pageSize'')"

datatype response_kind = K_summary | K_quote | K_proof | K_order | K_history

definition response_ok :: "env \<Rightarrow> response_kind \<Rightarrow> jsstring \<Rightarrow> (jsstring \<times> jsstring) option \<Rightarrow> jsval \<Rightarrow> bool" where
  "response_ok e kind workspaceId binding value =
     (case kind of
        K_summary \<Rightarrow> summary_check e workspaceId value
      | K_proof \<Rightarrow> (case binding of None \<Rightarrow> False | Some b \<Rightarrow> proof_check e workspaceId b value)
      | K_quote \<Rightarrow> quote_check e workspaceId value
      | K_order \<Rightarrow> order_answer_check e workspaceId value
      | K_history \<Rightarrow> history_check e workspaceId value)"

definition parseBillingResponse ::
    "env \<Rightarrow> response_kind \<Rightarrow> jsval \<Rightarrow> jsstring \<Rightarrow> (jsstring \<times> jsstring) option \<Rightarrow> access_error + jsval" where
  "parseBillingResponse e kind value workspaceId binding =
     (if isRecord value \<and> response_ok e kind workspaceId binding value then Inr value
      else Inl (A_Fault ''BILLING_RESPONSE_CONTRACT''))"

end
