(* ===== verification/Access_Capacity.thy ===== *)
theory Access_Capacity
  imports Access_Data Access_Response
begin

text \<open>
  The billing part of CRM Access (\<open>apps/crm-access/src/billing\<close>): the client of Billing's commerce interface,
  the reservation of seats around a purchase (\<open>billing-capacity.service.ts\<close>), the requests of a workspace
  owner (\<open>billing.service.ts\<close>), the authorization that Billing asks for before it charges
  (\<open>billing-operation.controller.ts\<close>) and the reconciliation of unfinished operations.
\<close>

section \<open>The client of Billing\<close>

definition wcheck :: "'e \<Rightarrow> bool \<Rightarrow> ('s, 'e, unit) comp" where
  "wcheck err b = (if b then wret () else wthrow err)"

definition requireBilling :: "peers \<Rightarrow> unit acomp" where
  "requireBilling p = wcheck A_NotFound (pe_billingEnabled p)"

definition commerce_paths :: "string list" where
  "commerce_paths =
     [''summary'', ''quote'', ''checkout'', ''seats'', ''renewal/disable'', ''renewal/confirm-price'', ''orders/get'',
      ''orders/verify'', ''history'', ''operations/get'', ''operations/close'']"

definition billing_unavailable :: access_error where
  "billing_unavailable = A_Unavailable ''CRM billing service is unavailable''"

definition commerce_result ::
    "env \<Rightarrow> string \<Rightarrow> response_kind \<Rightarrow> jsstring \<Rightarrow> (jsstring \<times> jsstring) option \<Rightarrow> commerce_answer option \<Rightarrow>
     access_error + jsval" where
  "commerce_result e path kind workspaceId binding answer =
     (case answer of
        None \<Rightarrow> Inl billing_unavailable
      | Some a \<Rightarrow>
          if co_status a \<noteq> 200 \<and> \<not> (path \<in> {''checkout'', ''orders/verify''} \<and> co_status a = 202)
          then Inl (if co_status a = 404 \<and> path \<in> {''operations/get'', ''orders/get''} then A_NotFound
                    else if co_status a = 409 then A_Conflict ''CRM billing state changed''
                    else if co_status a = 400 then A_BadRequest
                    else billing_unavailable)
          else if \<not> co_json a then Inl billing_unavailable
          else (case co_body a of
              None \<Rightarrow> Inl billing_unavailable
            | Some value \<Rightarrow>
                (case parseBillingResponse e kind value workspaceId binding of
                   Inl err \<Rightarrow> Inl billing_unavailable
                 | Inr v \<Rightarrow> Inr v)))"

text \<open>The binding of a proof, when it is not given, is the command and hash of the body.\<close>

definition body_binding :: "jsval \<Rightarrow> (jsstring \<times> jsstring) option" where
  "body_binding body =
     (if as_str (jsfield body ''commandId'') \<noteq> [] \<and> as_str (jsfield body ''requestHash'') \<noteq> []
      then Some (as_str (jsfield body ''commandId''), as_str (jsfield body ''requestHash'')) else None)"

definition idempotency_key :: "bool \<Rightarrow> jsval \<Rightarrow> jsstring option" where
  "idempotency_key command body =
     (if command \<and> as_str (jsfield body ''commandId'') \<noteq> [] then Some (as_str (jsfield body ''commandId'')) else None)"

definition commerce_request ::
    "env \<Rightarrow> peers \<Rightarrow> string \<Rightarrow> jsval \<Rightarrow> response_kind \<Rightarrow> bool \<Rightarrow> (jsstring \<times> jsstring) option \<Rightarrow> jsval acomp" where
  "commerce_request e p path body kind command binding =
     wthen (requireBilling p)
     (wthen (wcheck (A_Fault ''BILLING_PATH'') (path \<in> set commerce_paths))
     (wthen (wset (\<lambda>s. s\<lparr>a_sent := a_sent s @ [(path, body, idempotency_key command body)]\<rparr>))
     (ask (\<lambda>n. commerce_result e path kind (ws_of body)
        (case binding of Some b \<Rightarrow> Some b | None \<Rightarrow> body_binding body) (pe_commerce p n path body)))))"

section \<open>Owners\<close>

definition canonicalOwner :: "peers \<Rightarrow> jsstring \<Rightarrow> jsstring \<Rightarrow> unit acomp" where
  "canonicalOwner p workspaceId subject =
     wbind (ask (\<lambda>n. pe_widgetSourceContext p n workspaceId subject)) (\<lambda>context.
     wcheck (A_Forbidden ''OPERATION_AUTHORIZATION_REVOKED'')
       (sc_ownerSubject context = Some subject
        \<and> (case sc_membership context of None \<Rightarrow> False | Some m \<Rightarrow> mb_role m = js ''OWNER'')))"

definition owner_subject :: "peers \<Rightarrow> jsstring \<Rightarrow> jsstring option \<Rightarrow> jsstring acomp" where
  "owner_subject p workspaceId authorization =
     wthen (requireBilling p)
     (wbind (ask (\<lambda>n. pe_authContext p n authorization)) (\<lambda>auth.
     wthen (wcheck (A_Forbidden ''CRM billing requires the workspace owner'')
       (list_ex (\<lambda>m. mb_workspaceId m = workspaceId \<and> mb_role m = js ''OWNER'') (ac_memberships auth)))
     (wthen (canonicalOwner p workspaceId (ac_subject auth))
     (wret (ac_subject auth)))))"

section \<open>The reservation of seats\<close>

definition effectiveAdmissionCeiling :: "int \<Rightarrow> capacity_row option \<Rightarrow> int" where
  "effectiveAdmissionCeiling remote capacity =
     (case capacity of
        None \<Rightarrow> remote
      | Some c \<Rightarrow> min remote (min (case ca_admissionCeiling c of None \<Rightarrow> remote | Some n \<Rightarrow> n)
          (case ca_pendingTargetSeats c of None \<Rightarrow> remote | Some n \<Rightarrow> n)))"

definition route :: "string \<Rightarrow> string" where
  "route commandType =
     (if commandType = ''WINCRM_CHECKOUT'' then ''checkout''
      else if commandType = ''WINCRM_SEAT_CHANGE'' then ''seats''
      else if commandType = ''WINCRM_DISABLE_RENEWAL'' then ''renewal/disable''
      else if commandType = ''WINCRM_CONFIRM_RENEWAL'' then ''renewal/confirm-price''
      else if commandType = ''WINCRM_VERIFY_ORDER'' then ''orders/verify''
      else ''undefined'')"

definition state_js :: "op_state \<Rightarrow> jsval" where
  "state_js s = JStr (js (case s of S_PENDING \<Rightarrow> ''PENDING'' | S_COMMITTED \<Rightarrow> ''COMMITTED''
     | S_CANCELLED \<Rightarrow> ''CANCELLED'' | S_NOT_STARTED \<Rightarrow> ''NOT_STARTED''))"

definition status_state :: "jsval \<Rightarrow> op_state" where
  "status_state v =
     (if v = JStr (js ''PENDING'') then S_PENDING
      else if v = JStr (js ''COMMITTED'') then S_COMMITTED
      else if v = JStr (js ''CANCELLED'') then S_CANCELLED
      else S_NOT_STARTED)"

definition operationView :: "billing_op \<Rightarrow> jsval" where
  "operationView op = obj
     [(''schemaVersion'', JInt 1), (''workspaceId'', JStr (bo_workspaceId op)), (''commandId'', JStr (bo_commandId op)),
      (''state'', state_js (bo_state op)), (''requestHash'', opt_js JStr (bo_requestHash op)),
      (''billing'', opt_js (\<lambda>v. v) (bo_proof op))]"

definition billing_audit :: "env \<Rightarrow> billing_op \<Rightarrow> string \<Rightarrow> unit atx" where
  "billing_audit e op action =
     bnd (access_uuid e) (\<lambda>auditId.
     auditTeam
       \<lparr>au_workspaceId = bo_workspaceId op, au_subject = bo_actorSubject op, au_role = js ''OWNER'', au_state = ''BILLING'',
        au_dataScope = [], au_teamIds = [], au_permissions = []\<rparr>
       auditId action (bo_commandId op) JNull
       (obj [(''state'', state_js (bo_state op)), (''releaseFence'', JBool (bo_releaseFence op)),
          (''targetSeats'', opt_js JInt (bo_targetSeats op)), (''fenceRevision'', opt_js JInt (bo_fenceRevision op))]))"

text \<open>\<open>'totalSeats' in request\<close>: the request has the property.\<close>

definition target_seats :: "jsval \<Rightarrow> int option" where
  "target_seats request =
     (if js ''totalSeats'' \<in> set (object_keys request) then Some (as_int (jsfield request ''totalSeats''))
      else if js ''newTotalSeats'' \<in> set (object_keys request) then Some (as_int (jsfield request ''newTotalSeats''))
      else None)"

definition reserve_revision :: "jsval \<Rightarrow> int option \<Rightarrow> int option \<Rightarrow> int option atx" where
  "reserve_revision request targetSeats currentSeatLimit =
     (case targetSeats of
        None \<Rightarrow> ret None
      | Some seats \<Rightarrow>
          bnd (upsert_capacity \<lparr>ca_workspaceId = ws_of request, ca_revision = 0, ca_admissionCeiling = currentSeatLimit,
            ca_pendingOperationId = None, ca_pendingTargetSeats = None, ca_latestCommittedOperationId = None\<rparr>) (\<lambda>capacity.
          thn (check (A_Conflict ''Resolve the pending CRM billing operation first'') (\<not> truthy (ca_pendingOperationId capacity)))
          (bnd (gets (enabled_members (ws_of request))) (\<lambda>members.
          thn (check (A_Conflict ''CRM seats cannot be lower than the active roster'') (1 + members \<le> seats))
          (thn (check (A_Conflict ''CRM capacity revision is exhausted'') (ca_revision capacity < 2147483646))
          (ret (Some (ca_revision capacity + 1))))))))"

definition new_billing_op :: "string \<Rightarrow> jsval \<Rightarrow> jsstring \<Rightarrow> int option \<Rightarrow> int option \<Rightarrow> date \<Rightarrow> billing_op" where
  "new_billing_op commandType request requestHash targetSeats fenceRevision now =
     \<lparr>bo_commandId = cmd_of request, bo_workspaceId = ws_of request, bo_actorSubject = actor_of request,
      bo_commandType = commandType, bo_requestHash = Some requestHash, bo_request = Some (json request),
      bo_fenceRevision = fenceRevision, bo_targetSeats = targetSeats, bo_state = S_PENDING, bo_releaseFence = False,
      bo_billingVersion = None, bo_holdUntil = None, bo_nextCheckAt = now, bo_proof = None\<rparr>"

definition prepare_new :: "env \<Rightarrow> string \<Rightarrow> jsval \<Rightarrow> int option \<Rightarrow> jsstring \<Rightarrow> billing_op atx" where
  "prepare_new e commandType request currentSeatLimit requestHash =
     bnd (gets (find_team_receipt (cmd_of request))) (\<lambda>receipt.
     thn (check (A_Conflict ''CRM command identifier is already used'') (receipt = None))
     (bnd (reserve_revision request (target_seats request) currentSeatLimit) (\<lambda>fenceRevision.
     thn (create_team_receipt
       \<lparr>tr_commandId = cmd_of request, tr_workspaceId = ws_of request, tr_actorSubject = actor_of request,
        tr_commandType = commandType, tr_requestHash = requestHash,
        tr_result = obj [(''schemaVersion'', JInt 1), (''operationId'', JStr (cmd_of request))]\<rparr>)
     (bnd (access_date e) (\<lambda>now.
     bnd (create_billing_op (new_billing_op commandType request requestHash (target_seats request) fenceRevision now)) (\<lambda>operation.
     thn (if target_seats request = None then ret ()
          else thn (update_capacity (ws_of request) (\<lambda>c. c\<lparr>ca_revision := the fenceRevision,
            ca_pendingOperationId := Some (cmd_of request), ca_pendingTargetSeats := target_seats request\<rparr>)) (ret ()))
     (thn (billing_audit e operation ''BILLING_OPERATION_PREPARED'')
     (ret operation))))))))"

definition prepare_tx :: "env \<Rightarrow> string \<Rightarrow> jsval \<Rightarrow> int option \<Rightarrow> billing_op atx" where
  "prepare_tx e commandType request currentSeatLimit =
     bnd (gets (find_billing_op (cmd_of request))) (\<lambda>prior.
     case prior of
       Some op \<Rightarrow>
         thn (check (A_Conflict ''CRM billing command conflicts with a prior operation'')
           (bo_workspaceId op = ws_of request \<and> bo_actorSubject op = actor_of request
            \<and> bo_commandType op = commandType \<and> bo_requestHash op = Some (commerceHash e commandType request)))
         (ret op)
     | None \<Rightarrow> prepare_new e commandType request currentSeatLimit (commerceHash e commandType request))"

definition prepare :: "env \<Rightarrow> string \<Rightarrow> jsval \<Rightarrow> int option \<Rightarrow> billing_op atx" where
  "prepare e commandType request currentSeatLimit = serializable e (prepare_tx e commandType request currentSeatLimit)"

definition capacity_fence :: "billing_op \<Rightarrow> access_error + jsval" where
  "capacity_fence op =
     (case (bo_requestHash op, bo_fenceRevision op, bo_targetSeats op) of
        (Some hash, Some revision, Some seats) \<Rightarrow>
          if hash = [] then Inl (A_Fault ''CAPACITY_BINDING_UNAVAILABLE'')
          else Inr (obj [(''operationId'', JStr (bo_commandId op)), (''requestHash'', JStr hash),
            (''fenceRevision'', JInt revision), (''targetSeats'', JInt seats)])
      | _ \<Rightarrow> Inl (A_Fault ''CAPACITY_BINDING_UNAVAILABLE''))"

section \<open>Proofs\<close>

definition committed :: "jsval \<Rightarrow> bool" where
  "committed p \<longleftrightarrow> jsfield p ''status'' = JStr (js ''COMMITTED'')"

definition releases :: "jsval \<Rightarrow> bool" where
  "releases p \<longleftrightarrow> jsfield p ''releaseFence'' = JBool True"

definition proof_binding :: "billing_op \<Rightarrow> jsval \<Rightarrow> access_error + unit" where
  "proof_binding binding p =
     (let period = jsfield p ''period'' in
      if \<not> (jsfield p ''workspaceId'' = JStr (bo_workspaceId binding) \<and> jsfield p ''commandId'' = JStr (bo_commandId binding)
            \<and> jsfield p ''requestHash'' = opt_js JStr (bo_requestHash binding))
      then Inl (A_Unavailable ''CRM billing proof binding is invalid'')
      else if period \<noteq> JNull \<and> bo_targetSeats binding \<noteq> None
          \<and> jsfield period ''totalSeats'' \<noteq> opt_js JInt (bo_targetSeats binding)
      then Inl (A_Unavailable ''CRM billing capacity proof is invalid'')
      else if bo_targetSeats binding \<noteq> None \<and> committed p \<and> period = JNull
      then Inl (A_Unavailable ''CRM committed capacity proof is incomplete'')
      else Inr ())"

definition record_proof :: "env \<Rightarrow> jsval \<Rightarrow> billing_op \<Rightarrow> billing_op" where
  "record_proof e p op = op
     \<lparr>bo_state := status_state (jsfield p ''status''), bo_releaseFence := releases p,
      bo_billingVersion := Some (as_str (jsfield p ''billingVersion'')),
      bo_holdUntil := (if as_str (jsfield p ''holdUntil'') = [] then None else instant e (jsfield p ''holdUntil'')),
      bo_proof := Some (json p)\<rparr>"

definition settle_capacity :: "jsval \<Rightarrow> billing_op \<Rightarrow> capacity_row \<Rightarrow> capacity_row" where
  "settle_capacity p op c =
     (let c1 = (if committed p then c\<lparr>ca_latestCommittedOperationId := Some (bo_commandId op)\<rparr> else c);
          c2 = (if releases p then c1\<lparr>ca_pendingOperationId := None, ca_pendingTargetSeats := None\<rparr> else c1) in
      if releases p \<and> committed p then c2\<lparr>ca_admissionCeiling := bo_targetSeats op\<rparr> else c2)"

definition apply_capacity :: "env \<Rightarrow> jsval \<Rightarrow> billing_op \<Rightarrow> unit atx" where
  "apply_capacity e p op =
     (if bo_targetSeats op = None then ret ()
      else
        bnd (gets (find_capacity (bo_workspaceId op))) (\<lambda>found.
        bnd (the_or A_P2025 found) (\<lambda>capacity.
        thn (check (A_Unavailable ''CRM capacity fence changed'')
          (ca_pendingOperationId capacity = Some (bo_commandId op) \<and> Some (ca_revision capacity) = bo_fenceRevision op))
        (thn (if committed p \<or> releases p
              then thn (update_capacity (bo_workspaceId op) (settle_capacity p op)) (ret ()) else ret ())
        (if releases p
         then emitTeamEvent e ''admission'' (bo_workspaceId op) (js ''billing:'' @ bo_commandId op) None
         else ret ())))))"

definition stale :: "jsval \<Rightarrow> billing_op \<Rightarrow> bool" where
  "stale p op = (case bo_billingVersion op of None \<Rightarrow> False | Some v \<Rightarrow> undec (as_str (jsfield p ''billingVersion'')) < undec v)"

definition apply_tx :: "env \<Rightarrow> jsstring \<Rightarrow> jsval \<Rightarrow> billing_op atx" where
  "apply_tx e commandId p =
     bnd (gets (find_billing_op commandId)) (\<lambda>found.
     bnd (the_or A_P2025 found) (\<lambda>op.
     if bo_releaseFence op \<or> stale p op then ret op
     else
       thn (check (A_Unavailable ''CRM billing operation status is inconsistent'')
         (bo_state op = S_PENDING \<or> status_state (jsfield p ''status'') = bo_state op))
       (bnd (update_billing_op (bo_commandId op) (record_proof e p)) (\<lambda>updated.
       thn (apply_capacity e p op)
       (thn (if bo_state op \<noteq> bo_state updated \<or> bo_releaseFence op \<noteq> bo_releaseFence updated
             then billing_audit e updated ''BILLING_OPERATION_SYNCHRONIZED'' else ret ())
       (ret updated))))))"

definition applyProof :: "env \<Rightarrow> billing_op \<Rightarrow> jsval \<Rightarrow> billing_op acomp" where
  "applyProof e binding p =
     wthen (wlift (proof_binding binding p)) (run_tx (serializable e (apply_tx e (bo_commandId binding) p)))"

section \<open>Operations\<close>

fun with_property :: "jsval \<Rightarrow> string \<Rightarrow> jsval \<Rightarrow> jsval" where
  "with_property (JObj kvs) k v = JObj (kvs @ [(js k, v)])"
| "with_property u k v = obj [(k, v)]"

text \<open>The body of the request: the stored command and, when it reserves seats, the fence.\<close>

definition command_body :: "billing_op \<Rightarrow> access_error + jsval" where
  "command_body op =
     (let request = (case bo_request op of None \<Rightarrow> JNull | Some r \<Rightarrow> r) in
      if bo_targetSeats op = None then Inr request
      else sbind (capacity_fence op) (\<lambda>f. Inr (with_property request ''capacityFence'' f)))"

definition execute_operation :: "env \<Rightarrow> peers \<Rightarrow> billing_op \<Rightarrow> jsval acomp" where
  "execute_operation e p op =
     (if bo_state op \<noteq> S_PENDING then wret (operationView op)
      else
        wthen (canonicalOwner p (bo_workspaceId op) (bo_actorSubject op))
        (wbind (wlift (command_body op)) (\<lambda>body.
        wbind (commerce_request e p (route (bo_commandType op)) body K_proof True
          (Some (bo_commandId op, case bo_requestHash op of None \<Rightarrow> [] | Some h \<Rightarrow> h))) (\<lambda>answer.
        wbind (applyProof e op answer) (\<lambda>updated. wret (operationView updated))))))"

definition known :: "jsstring \<Rightarrow> jsstring \<Rightarrow> billing_op acomp" where
  "known workspaceId commandId =
     wbind (wget (\<lambda>s. find (\<lambda>x. bo_workspaceId x = workspaceId \<and> bo_commandId x = commandId) (t_operations s))) (\<lambda>found.
     case found of None \<Rightarrow> wthrow A_NotFound | Some op \<Rightarrow> wret op)"

text \<open>\<open>UPDATE crm_billing_operations SET next_check_at = ...\<close>, once per reading of the operation.\<close>

definition defer_check :: "env \<Rightarrow> billing_op \<Rightarrow> unit atx" where
  "defer_check e op =
     bnd (access_date e) (\<lambda>now.
     modify (t_operations_update (upd_rows
       (\<lambda>x. bo_commandId x = bo_commandId op \<and> bo_nextCheckAt x = bo_nextCheckAt op \<and> \<not> bo_releaseFence x)
       (\<lambda>x. x\<lparr>bo_nextCheckAt := now + 5000\<rparr>))))"

definition wfinally :: "('s, 'e, 'a) comp \<Rightarrow> ('s, 'e, unit) comp \<Rightarrow> ('s, 'e, 'a) comp" where
  "wfinally m f s = (case m s of (r, s') \<Rightarrow> (case f s' of (Inl err, t) \<Rightarrow> (Inl err, t) | (Inr u, t) \<Rightarrow> (r, t)))"

definition operation_query :: "billing_op \<Rightarrow> jsval" where
  "operation_query op = obj
     [(''schemaVersion'', JInt 1), (''workspaceId'', JStr (bo_workspaceId op)), (''actorSubject'', JStr (bo_actorSubject op)),
      (''commandId'', JStr (bo_commandId op)), (''requestHash'', opt_js JStr (bo_requestHash op))]"

definition synchronize :: "env \<Rightarrow> peers \<Rightarrow> billing_op \<Rightarrow> billing_op acomp" where
  "synchronize e p op =
     (if bo_state op = S_NOT_STARTED \<or> bo_releaseFence op then wret op
      else
        wfinally
          (wbind (commerce_request e p ''operations/get'' (operation_query op) K_proof False None) (applyProof e op))
          (run_tx (defer_check e op)))"

definition syncPending :: "env \<Rightarrow> peers \<Rightarrow> jsstring \<Rightarrow> unit acomp" where
  "syncPending e p workspaceId =
     (if \<not> pe_billingEnabled p then wret ()
      else
        wbind (wget (find_capacity workspaceId)) (\<lambda>capacity.
        case Option.bind capacity ca_pendingOperationId of
          None \<Rightarrow> wret ()
        | Some i \<Rightarrow>
            if i = [] then wret ()
            else wcatch (wbind (known workspaceId i) (\<lambda>op. wthen (synchronize e p op) (wret ())))
              (\<lambda>err. if err = A_NotFound then wret () else wthrow err)))"

definition tombstone :: "jsstring \<Rightarrow> jsstring \<Rightarrow> jsstring \<Rightarrow> date \<Rightarrow> billing_op" where
  "tombstone workspaceId commandId actorSubject now =
     \<lparr>bo_commandId = commandId, bo_workspaceId = workspaceId, bo_actorSubject = actorSubject,
      bo_commandType = ''WINCRM_NOT_STARTED'', bo_requestHash = None, bo_request = None, bo_fenceRevision = None,
      bo_targetSeats = None, bo_state = S_NOT_STARTED, bo_releaseFence = True, bo_billingVersion = None,
      bo_holdUntil = None, bo_nextCheckAt = now, bo_proof = None\<rparr>"

definition recover_tx :: "env \<Rightarrow> jsstring \<Rightarrow> jsstring \<Rightarrow> jsstring \<Rightarrow> billing_op atx" where
  "recover_tx e workspaceId commandId actorSubject =
     bnd (gets (find_billing_op commandId)) (\<lambda>prior.
     case prior of
       Some op \<Rightarrow> thn (check (A_Conflict ''CRM command identifier is already used'') (bo_workspaceId op = workspaceId)) (ret op)
     | None \<Rightarrow>
         bnd (gets (find_team_receipt commandId)) (\<lambda>receipt.
         thn (check (A_Conflict ''CRM command identifier is already used'') (receipt = None))
         (thn (create_team_receipt
           \<lparr>tr_commandId = commandId, tr_workspaceId = workspaceId, tr_actorSubject = actorSubject,
            tr_commandType = ''WINCRM_NOT_STARTED'', tr_requestHash = replicate 64 48,
            tr_result = obj [(''schemaVersion'', JInt 1), (''operationId'', JStr commandId), (''state'', JStr (js ''NOT_STARTED''))]\<rparr>)
         (bnd (access_date e) (\<lambda>now.
         bnd (create_billing_op (tombstone workspaceId commandId actorSubject now)) (\<lambda>row.
         thn (billing_audit e row ''BILLING_OPERATION_NOT_STARTED'')
         (ret row)))))))"

definition close_body :: "billing_op \<Rightarrow> jsval \<Rightarrow> jsval" where
  "close_body op f = obj
     [(''schemaVersion'', JInt 1), (''workspaceId'', JStr (bo_workspaceId op)), (''actorSubject'', JStr (bo_actorSubject op)),
      (''commandId'', JStr (bo_commandId op)), (''requestHash'', opt_js JStr (bo_requestHash op)),
      (''commandType'', JStr (js (bo_commandType op))), (''capacityFence'', f)]"

definition close_operation :: "env \<Rightarrow> peers \<Rightarrow> billing_op \<Rightarrow> jsval acomp" where
  "close_operation e p op =
     wbind (wlift (capacity_fence op)) (\<lambda>f.
     wbind (commerce_request e p ''operations/close'' (close_body op f) K_proof True None) (\<lambda>answer.
     wbind (applyProof e op answer) (\<lambda>updated. wret (operationView updated))))"

definition recover :: "env \<Rightarrow> peers \<Rightarrow> jsstring \<Rightarrow> jsstring \<Rightarrow> jsstring \<Rightarrow> jsval acomp" where
  "recover e p workspaceId commandId actorSubject =
     wbind (run_tx (serializable e (recover_tx e workspaceId commandId actorSubject))) (\<lambda>op.
     if bo_state op = S_NOT_STARTED \<or> bo_releaseFence op then wret (operationView op)
     else
       wcatch (wbind (synchronize e p op) (\<lambda>updated. wret (operationView updated)))
         (\<lambda>err.
            if err \<noteq> A_NotFound then wthrow err
            else if bo_targetSeats op = None
            then wthen (wcheck (A_Conflict ''CRM billing command belongs to a different owner'') (actorSubject = bo_actorSubject op))
              (execute_operation e p op)
            else close_operation e p op))"

section \<open>The authorization of a charge\<close>

definition authority_revoked :: access_error where
  "authority_revoked = A_Forbidden ''OPERATION_AUTHORIZATION_REVOKED''"

definition authorized_answer :: "jsval \<Rightarrow> jsval \<Rightarrow> jsval" where
  "authorized_answer body f = obj
     [(''schemaVersion'', JInt 1), (''workspaceId'', jsfield body ''workspaceId''), (''actorSubject'', jsfield body ''actorSubject''),
      (''commandId'', jsfield body ''commandId''), (''requestHash'', jsfield body ''requestHash''), (''capacityFence'', f),
      (''authorized'', JBool True)]"

definition operation_matches :: "jsval \<Rightarrow> billing_op \<Rightarrow> bool" where
  "operation_matches body op \<longleftrightarrow>
     bo_workspaceId op = ws_of body \<and> bo_actorSubject op = actor_of body
     \<and> opt_js JStr (bo_requestHash op) = jsfield body ''requestHash''
     \<and> opt_js JInt (bo_fenceRevision op) = jsfield body ''fenceRevision''
     \<and> opt_js JInt (bo_targetSeats op) = jsfield body ''targetSeats''
     \<and> (bo_state op = S_PENDING \<or> bo_state op = S_COMMITTED)"

definition authorize_tx :: "jsval \<Rightarrow> jsval atx" where
  "authorize_tx body =
     bnd (gets (find_billing_op (cmd_of body))) (\<lambda>found.
     bnd (gets (find_capacity (ws_of body))) (\<lambda>cap.
     case (found, cap) of
       (Some op, Some capacity) \<Rightarrow>
         let pending = (ca_pendingOperationId capacity = Some (cmd_of body));
             latest = (ca_latestCommittedOperationId capacity = Some (cmd_of body)) in
         thn (check authority_revoked
           (operation_matches body op \<and> (pending \<or> latest) \<and> (latest \<longrightarrow> bo_state op = S_COMMITTED)))
         (thn (check (A_Unavailable ''CRM billing capacity is being reconciled'')
           (\<not> (latest \<and> truthy (ca_pendingOperationId capacity) \<and> \<not> pending)))
         (bnd (lift_sum (capacity_fence op)) (\<lambda>f. ret (authorized_answer body f))))
     | _ \<Rightarrow> throw authority_revoked))"

definition authorizeOperation :: "env \<Rightarrow> peers \<Rightarrow> jsval \<Rightarrow> jsval acomp" where
  "authorizeOperation e p body =
     wthen (requireBilling p)
     (wthen (canonicalOwner p (ws_of body) (actor_of body))
     (run_tx (serializable e (authorize_tx body))))"

definition authorize_request_ok :: "jsval \<Rightarrow> bool" where
  "authorize_request_ok body \<longleftrightarrow>
     isRecord body
     \<and> hasExactKeys body [''schemaVersion'', ''workspaceId'', ''actorSubject'', ''commandId'', ''requestHash'', ''fenceRevision'',
         ''targetSeats'']
     \<and> jsfield body ''schemaVersion'' = JInt 1 \<and> isUuidV4 (jsfield body ''workspaceId'') \<and> isUuidV4 (jsfield body ''commandId'')
     \<and> validSubject (jsfield body ''actorSubject'') \<and> validHash (jsfield body ''requestHash'')
     \<and> positive (jsfield body ''fenceRevision'') \<and> validSeats (jsfield body ''targetSeats'')"

definition authorize_endpoint :: "env \<Rightarrow> peers \<Rightarrow> jsval \<Rightarrow> jsval acomp" where
  "authorize_endpoint e p body =
     wthen (wcheck A_BadRequest (authorize_request_ok body)) (authorizeOperation e p body)"

end
