(* ===== verification/Access_Billing.thy ===== *)
theory Access_Billing
  imports Access_Capacity
begin

text \<open>
  \<open>apps/crm-access/src/billing/billing.service.ts\<close>: the requests of a workspace owner, each checked again for
  ownership before it answers; and \<open>billing-reconciliation.service.ts\<close>: the periodic reading of unfinished
  operations.
\<close>

section \<open>Requests of the owner\<close>

definition revalidate :: "peers \<Rightarrow> jsstring \<Rightarrow> jsstring option \<Rightarrow> jsstring \<Rightarrow> unit acomp" where
  "revalidate p workspaceId authorization subject =
     wbind (owner_subject p workspaceId authorization) (\<lambda>current.
     wcheck (A_Forbidden ''CRM billing session changed'') (current = subject))"

definition owner_body :: "jsstring \<Rightarrow> jsstring \<Rightarrow> (string \<times> jsval) list \<Rightarrow> jsval" where
  "owner_body workspaceId actorSubject rest =
     obj ([(''schemaVersion'', JInt 1), (''workspaceId'', JStr workspaceId), (''actorSubject'', JStr actorSubject)] @ rest)"

text \<open>The seats of the started period, else those of the trial, if any.\<close>

definition summary_seat_limit :: "jsval \<Rightarrow> int option" where
  "summary_seat_limit billing =
     (let period = jsfield billing ''period''; trial = jsfield billing ''trial'' in
      if isRecord period \<and> jsfield period ''state'' \<noteq> JStr (js ''SCHEDULED'')
      then Some (as_int (jsfield period ''totalSeats''))
      else if isRecord trial then Some (as_int (jsfield trial ''seatLimit''))
      else None)"

definition context_ceiling :: "int option \<Rightarrow> capacity_row option \<Rightarrow> int option" where
  "context_ceiling seatLimit state =
     (case seatLimit of
        Some n \<Rightarrow> Some (effectiveAdmissionCeiling n state)
      | None \<Rightarrow>
          (case Option.bind state ca_admissionCeiling of
             Some n \<Rightarrow> Some n
           | None \<Rightarrow> Option.bind state ca_pendingTargetSeats))"

definition context_view :: "jsstring \<Rightarrow> jsstring \<Rightarrow> jsval \<Rightarrow> capacity_row option \<Rightarrow> int \<Rightarrow> jsval" where
  "context_view workspaceId actorSubject billing state members =
     (let period = jsfield billing ''period'';
          pending = truthy (Option.bind state ca_pendingOperationId);
          ordered = isRecord (jsfield billing ''pendingOrder'') in
      obj [(''schemaVersion'', JInt 1), (''workspaceId'', JStr workspaceId), (''actorSubject'', JStr actorSubject),
        (''billing'', billing),
        (''capacity'', obj
          [(''usedSeats'', JInt (members + 1)),
           (''admissionCeiling'', opt_js JInt (context_ceiling (summary_seat_limit billing) state)),
           (''pendingOperationId'', opt_js JStr (Option.bind state ca_pendingOperationId))]),
        (''capabilities'', obj
          [(''quote'', JBool True),
           (''checkout'', JBool (\<not> (isRecord period \<and> strings [''ACTIVE'', ''SCHEDULED''] (jsfield period ''state''))
              \<and> \<not> ordered \<and> \<not> pending)),
           (''changeSeats'', JBool (isRecord period \<and> jsfield period ''state'' = JStr (js ''ACTIVE'') \<and> \<not> pending \<and> \<not> ordered)),
           (''disableAutoRenew'', jsfield (jsfield billing ''renewal'') ''canDisable''),
           (''confirmRenewalPrice'',
              JBool (jsfield (jsfield billing ''renewal'') ''state'' = JStr (js ''PRICE_CONFIRMATION_REQUIRED'')))])])"

definition billing_context :: "env \<Rightarrow> peers \<Rightarrow> jsstring option \<Rightarrow> jsstring \<Rightarrow> jsval acomp" where
  "billing_context e p authorization workspaceId =
     wbind (owner_subject p workspaceId authorization) (\<lambda>actorSubject.
     wthen (syncPending e p workspaceId)
     (wbind (commerce_request e p ''summary'' (owner_body workspaceId actorSubject []) K_summary False None) (\<lambda>billing.
     wbind (wget (find_capacity workspaceId)) (\<lambda>state.
     wbind (wget (enabled_members workspaceId)) (\<lambda>members.
     wthen (revalidate p workspaceId authorization actorSubject)
     (wret (context_view workspaceId actorSubject billing state members)))))))"

definition billing_quote :: "env \<Rightarrow> peers \<Rightarrow> jsstring option \<Rightarrow> jsval \<Rightarrow> jsval acomp" where
  "billing_quote e p authorization value =
     wthen (requireBilling p)
     (wbind (wlift (parseQuote value)) (\<lambda>body.
     wbind (owner_subject p (ws_of body) authorization) (\<lambda>actorSubject.
     wbind (commerce_request e p ''quote'' (with_property body ''actorSubject'' (JStr actorSubject)) K_quote False None) (\<lambda>result.
     wthen (wcheck (A_Unavailable ''CRM billing quote binding is invalid'')
       (jsfield result ''intent'' = jsfield body ''intent'' \<and> jsfield result ''cycle'' = jsfield body ''cycle''
        \<and> jsfield result ''totalSeats'' = jsfield body ''totalSeats''))
     (wthen (revalidate p (ws_of body) authorization actorSubject)
     (wret result))))))"

definition current_seat_limit :: "env \<Rightarrow> peers \<Rightarrow> string \<Rightarrow> jsval \<Rightarrow> int option acomp" where
  "current_seat_limit e p type request =
     wbind (wget (find_billing_op (cmd_of request))) (\<lambda>prior.
     if (type = ''WINCRM_CHECKOUT'' \<or> type = ''WINCRM_SEAT_CHANGE'') \<and> prior = None
     then wbind (commerce_request e p ''summary'' (owner_body (ws_of request) (actor_of request) []) K_summary False None) (\<lambda>summary.
       wret (summary_seat_limit summary))
     else wret None)"

definition billing_command :: "env \<Rightarrow> peers \<Rightarrow> string \<Rightarrow> jsstring option \<Rightarrow> jsval \<Rightarrow> jsstring option \<Rightarrow> jsval acomp" where
  "billing_command e p type authorization value key =
     wthen (requireBilling p)
     (wthen (wcheck A_BadRequest (isRecord value))
     (wbind (wlift (workspace (jsfield value ''workspaceId''))) (\<lambda>workspaceId.
     wbind (owner_subject p workspaceId authorization) (\<lambda>actorSubject.
     wbind (wlift (parseCommand type value key actorSubject)) (\<lambda>request.
     wbind (current_seat_limit e p type request) (\<lambda>limit.
     wbind (run_tx (prepare e type request limit)) (\<lambda>operation.
     wbind (execute_operation e p operation) (\<lambda>result.
     wthen (revalidate p workspaceId authorization actorSubject)
     (wret result)))))))))"

definition billing_operation :: "env \<Rightarrow> peers \<Rightarrow> jsstring option \<Rightarrow> jsstring \<Rightarrow> jsstring \<Rightarrow> bool \<Rightarrow> jsval acomp" where
  "billing_operation e p authorization workspaceId commandId recovery =
     wbind (owner_subject p workspaceId authorization) (\<lambda>actorSubject.
     wbind (if recovery then recover e p workspaceId commandId actorSubject
            else wbind (known workspaceId commandId) (\<lambda>op.
              wbind (synchronize e p op) (\<lambda>updated. wret (operationView updated)))) (\<lambda>result.
     wthen (revalidate p workspaceId authorization actorSubject)
     (wret result)))"

definition billing_order :: "env \<Rightarrow> peers \<Rightarrow> jsstring option \<Rightarrow> jsstring \<Rightarrow> jsstring \<Rightarrow> jsval acomp" where
  "billing_order e p authorization workspaceId orderId =
     wbind (owner_subject p workspaceId authorization) (\<lambda>actorSubject.
     wbind (commerce_request e p ''orders/get'' (owner_body workspaceId actorSubject [(''orderId'', JStr orderId)]) K_order False None) (\<lambda>result.
     wthen (wcheck (A_Unavailable ''CRM billing order binding is invalid'')
       (jsfield (jsfield result ''order'') ''id'' = JStr orderId))
     (wthen (revalidate p workspaceId authorization actorSubject)
     (wret result))))"

definition billing_history :: "env \<Rightarrow> peers \<Rightarrow> jsstring option \<Rightarrow> jsstring \<Rightarrow> int \<Rightarrow> int \<Rightarrow> jsval acomp" where
  "billing_history e p authorization workspaceId page pageSize =
     wbind (owner_subject p workspaceId authorization) (\<lambda>actorSubject.
     wbind (commerce_request e p ''history''
       (owner_body workspaceId actorSubject [(''page'', JInt page), (''pageSize'', JInt pageSize)]) K_history False None) (\<lambda>result.
     wthen (wcheck (A_Unavailable ''CRM billing history binding is invalid'')
       (jsfield result ''page'' = JInt page \<and> jsfield result ''pageSize'' = JInt pageSize))
     (wthen (revalidate p workspaceId authorization actorSubject)
     (wret result))))"

section \<open>Reconciliation\<close>

text \<open>\<open>ORDER BY next_check_at, command_id LIMIT 25\<close>.\<close>

definition due_operations :: "date \<Rightarrow> access \<Rightarrow> (jsstring \<times> jsstring) list" where
  "due_operations now s =
     map (\<lambda>x. (bo_workspaceId x, bo_commandId x)) (take 25
       (order_by (\<lambda>a b. bo_nextCheckAt a < bo_nextCheckAt b \<or> bo_nextCheckAt a = bo_nextCheckAt b \<and> bo_commandId a < bo_commandId b)
         (filter (\<lambda>x. \<not> bo_releaseFence x \<and> bo_nextCheckAt x \<le> now) (t_operations s))))"

text \<open>\<open>Promise.allSettled\<close>: a failure does not keep the others from running.\<close>

fun settle_all :: "('a \<Rightarrow> unit acomp) \<Rightarrow> 'a list \<Rightarrow> unit acomp" where
  "settle_all f [] = wret ()"
| "settle_all f (x # xs) = wthen (wcatch (f x) (\<lambda>err. wret ())) (settle_all f xs)"

definition check_operation :: "env \<Rightarrow> peers \<Rightarrow> jsstring \<times> jsstring \<Rightarrow> unit acomp" where
  "check_operation e p row =
     wbind (known (fst row) (snd row)) (\<lambda>op. wthen (synchronize e p op) (wret ()))"

text \<open>Batches of five, until the service stops (\<open>stopping\<close> is asked before each batch).\<close>

function batches :: "env \<Rightarrow> peers \<Rightarrow> (nat \<Rightarrow> bool) \<Rightarrow> nat \<Rightarrow> (jsstring \<times> jsstring) list \<Rightarrow> unit acomp" where
  "batches e p stopping i rows =
     (if rows = [] \<or> stopping i then wret ()
      else wthen (settle_all (check_operation e p) (take 5 rows)) (batches e p stopping (i + 1) (drop 5 rows)))"
  by pat_completeness auto

termination
  by (relation "measure (\<lambda>(e, p, stopping, i, rows). length rows)") auto

declare batches.simps [simp del]

definition reconcile_tick :: "env \<Rightarrow> peers \<Rightarrow> (nat \<Rightarrow> bool) \<Rightarrow> unit acomp" where
  "reconcile_tick e p stopping =
     wbind (run_tx (access_date e)) (\<lambda>now.
     wbind (wget (due_operations now)) (batches e p stopping 0))"

end
