(* ===== verification/Access_Authority.thy ===== *)
theory Access_Authority
  imports Access_Capacity
begin

text \<open>
  \<open>apps/crm-access/src/authorization/crm-authorization.service.ts\<close>: the role, state, scope, teams and permissions
  of a subject in a workspace, from the membership that Identity reports, the entitlement that Billing reports
  and the rows of CRM Access.
\<close>

definition READ_PERMISSIONS :: "string list" where
  "READ_PERMISSIONS = [''customers:read'', ''sales:read'', ''intake:read'', ''sales:analytics'']"

definition WRITE_PERMISSIONS :: "string list" where
  "WRITE_PERMISSIONS = [''customers:write'', ''sales:write'', ''intake:write'']"

definition ADMIN_PERMISSIONS :: "string list" where
  "ADMIN_PERMISSIONS = [''customers:merge'', ''sales:manage-pipelines'', ''intake:manage-sources'', ''access:manage-team'']"

definition OWNER_PERMISSIONS :: "string list" where
  "OWNER_PERMISSIONS = [''customers:export'', ''sales:export'', ''intake:export'']"

abbreviation OWNER :: jsstring where
  "OWNER \<equiv> js ''OWNER''"

abbreviation CRM_ADMIN :: jsstring where
  "CRM_ADMIN \<equiv> js ''CRM_ADMIN''"

definition is_manager :: "jsstring \<Rightarrow> bool" where
  "is_manager role \<longleftrightarrow> role = OWNER \<or> role = CRM_ADMIN"

text \<open>The teams of a member that are not archived, and those of a workspace, by identifier.\<close>

definition team_open :: "jsstring \<Rightarrow> access \<Rightarrow> bool" where
  "team_open i s \<longleftrightarrow> list_ex (\<lambda>t. tm_id t = i \<and> tm_archivedAt t = None) (t_teams s)"

definition member_team_ids :: "jsstring \<Rightarrow> access \<Rightarrow> jsstring list" where
  "member_team_ids memberId s =
     sort (filter (\<lambda>i. team_open i s) (map mt_teamId (filter (\<lambda>x. mt_memberId x = memberId) (t_memberTeams s))))"

definition workspace_team_ids :: "jsstring \<Rightarrow> access \<Rightarrow> jsstring list" where
  "workspace_team_ids ws s =
     take 1001 (sort (map tm_id (filter (\<lambda>t. tm_workspaceId t = ws \<and> tm_archivedAt t = None) (t_teams s))))"

definition workspace_available :: "workspace_row option \<Rightarrow> entitlement_answer \<Rightarrow> bool" where
  "workspace_available workspaceRow billing =
     (case (workspaceRow, ea_entitlement billing) of
        (Some w, Some d) \<Rightarrow> wa_billingEntitlementId w = ed_id d \<and> wa_onboardingCompletedAt w \<noteq> None
          \<and> (wa_lifecycle w = L_ACTIVE \<or> wa_lifecycle w = L_READ_ONLY)
          \<and> ea_status billing \<in> {''ACTIVE'', ''GRACE'', ''READ_ONLY''}
      | _ \<Rightarrow> False)"

definition member_active :: "membership \<Rightarrow> member_row option \<Rightarrow> bool" where
  "member_active m member \<longleftrightarrow>
     mb_role m = OWNER
     \<or> (case member of None \<Rightarrow> False | Some r \<Rightarrow> mr_disabledAt r = None \<and> mr_membershipId r = mb_membershipId m)"

definition permissions_of :: "jsstring \<Rightarrow> string \<Rightarrow> string list" where
  "permissions_of role state =
     (let canWrite = (state \<noteq> ''READ_ONLY'' \<and> role \<noteq> js ''ANALYST'') in
      (if role = js ''ANALYST'' then [''sales:analytics''] else READ_PERMISSIONS)
      @ (if canWrite then WRITE_PERMISSIONS else [])
      @ (if canWrite \<and> is_manager role then ADMIN_PERMISSIONS else [])
      @ (if is_manager role then [''access:read-team''] @ (if canWrite then [''access:revoke-access''] else []) else [])
      @ (if role = OWNER then OWNER_PERMISSIONS else []))"

definition scope_of :: "jsstring \<Rightarrow> string" where
  "scope_of role = (if role = js ''MANAGER'' then ''OWN'' else if role = js ''TEAM_LEAD'' then ''TEAM'' else ''ALL'')"

text \<open>The permissions whose names begin with the name of the calling service and a colon.\<close>

definition caller_permissions :: "string option \<Rightarrow> string list \<Rightarrow> string list" where
  "caller_permissions namespace ps =
     (case namespace of None \<Rightarrow> ps | Some n \<Rightarrow> filter (\<lambda>x. take (length n + 1) x = n @ '':'') ps)"

definition namespace_of :: "string \<Rightarrow> string" where
  "namespace_of caller = (if take 4 caller = ''crm-'' then drop 4 caller else caller)"

definition authority_of ::
    "jsstring \<Rightarrow> jsstring \<Rightarrow> jsstring \<Rightarrow> workspace_row \<Rightarrow> entitlement_answer \<Rightarrow> jsstring list \<Rightarrow> string option \<Rightarrow> team_authority" where
  "authority_of workspaceId subject role workspaceRow billing teamIds caller =
     (let state = (if wa_lifecycle workspaceRow = L_READ_ONLY \<or> ea_status billing = ''READ_ONLY'' then ''READ_ONLY''
                   else ea_status billing) in
      \<lparr>au_workspaceId = workspaceId, au_subject = subject, au_role = role, au_state = state,
       au_dataScope = scope_of role, au_teamIds = teamIds,
       au_permissions = caller_permissions (map_option namespace_of caller) (permissions_of role state)\<rparr>)"

definition resolve_rows ::
    "jsstring \<Rightarrow> jsstring \<Rightarrow> membership \<Rightarrow> string option \<Rightarrow> entitlement_answer \<Rightarrow> access \<Rightarrow> access_error + team_authority" where
  "resolve_rows workspaceId subject m caller billing s =
     (let workspaceRow = find_workspace workspaceId s;
          member = (if mb_role m = OWNER then None else find_member_of workspaceId subject s) in
      if \<not> workspace_available workspaceRow billing then Inl (A_Forbidden ''WinCRM workspace is not available'')
      else if \<not> member_active m member then Inl (A_Forbidden ''An active CRM role is required'')
      else
        let role = (if mb_role m = OWNER then OWNER else mr_role (the member)) in
        if is_manager role
        then (if length (workspace_team_ids workspaceId s) > 1000
              then Inl (A_Unavailable ''CRM team authority exceeds the supported contract limit'')
              else Inr (authority_of workspaceId subject role (the workspaceRow) billing (workspace_team_ids workspaceId s) caller))
        else Inr (authority_of workspaceId subject role (the workspaceRow) billing
          (case member of None \<Rightarrow> [] | Some r \<Rightarrow> member_team_ids (mr_id r) s) caller))"

definition resolve ::
    "peers \<Rightarrow> jsstring \<Rightarrow> jsstring \<Rightarrow> membership option \<Rightarrow> string option \<Rightarrow> team_authority acomp" where
  "resolve p workspaceId subject m caller =
     (case m of
        None \<Rightarrow> wthrow (A_Forbidden ''Workspace membership is required'')
      | Some mb \<Rightarrow>
          wbind (ask (\<lambda>n. pe_entitlement p n workspaceId)) (\<lambda>billing.
          wbind (wget (resolve_rows workspaceId subject mb caller billing)) wlift))"

definition authorize_caller :: "peers \<Rightarrow> jsstring option \<Rightarrow> jsstring \<Rightarrow> string option \<Rightarrow> team_authority acomp" where
  "authorize_caller p authorization workspaceId caller =
     wbind (ask (\<lambda>n. pe_authContext p n authorization)) (\<lambda>auth.
     resolve p workspaceId (ac_subject auth) (find (\<lambda>m. mb_workspaceId m = workspaceId) (ac_memberships auth)) caller)"

definition authorizeSubject :: "peers \<Rightarrow> jsstring \<Rightarrow> jsstring \<Rightarrow> string option \<Rightarrow> team_authority acomp" where
  "authorizeSubject p workspaceId subject caller =
     wbind (ask (\<lambda>n. pe_sourceContext p n workspaceId subject)) (\<lambda>context.
     resolve p workspaceId (sc_subject context) (sc_membership context) caller)"

definition manages_sources :: "team_authority \<Rightarrow> bool" where
  "manages_sources a \<longleftrightarrow> au_state a \<noteq> ''READ_ONLY'' \<and> is_manager (au_role a) \<and> ''intake:manage-sources'' \<in> set (au_permissions a)"

definition authorizeSource :: "peers \<Rightarrow> jsstring \<Rightarrow> jsstring \<Rightarrow> team_authority acomp" where
  "authorizeSource p workspaceId subject =
     wbind (authorizeSubject p workspaceId subject (Some ''crm-intake'')) (\<lambda>context.
     wthen (wcheck (A_Forbidden ''Source delegation is not active'') (manages_sources context))
     (wret context))"

definition authorizeWidgetSource :: "peers \<Rightarrow> jsstring \<Rightarrow> jsstring \<Rightarrow> (team_authority \<times> jsstring) acomp" where
  "authorizeWidgetSource p workspaceId subject =
     wbind (ask (\<lambda>n. pe_widgetSourceContext p n workspaceId subject)) (\<lambda>context.
     wthen (wcheck (A_Forbidden ''Widget source owner is not available'')
       (truthy (sc_ownerSubject context) \<and> sc_membership context \<noteq> None))
     (wbind (resolve p workspaceId subject (sc_membership context) (Some ''crm-intake'')) (\<lambda>a.
     wthen (wcheck (A_Forbidden ''Widget source delegation is not active'') (manages_sources a))
     (wret (a, the (sc_ownerSubject context))))))"

definition workflow_permissions :: "string \<Rightarrow> string list option" where
  "workflow_permissions caller =
     (if caller = ''crm-intake'' then Some [''intake:write'']
      else if caller = ''crm-customers'' then Some [''customers:read'', ''customers:write'']
      else if caller = ''crm-sales'' then Some [''sales:write'']
      else None)"

definition authorizeWorkflow :: "peers \<Rightarrow> jsstring \<Rightarrow> jsstring \<Rightarrow> string \<Rightarrow> string \<Rightarrow> team_authority acomp" where
  "authorizeWorkflow p workspaceId subject purpose caller =
     (case workflow_permissions caller of
        None \<Rightarrow> wthrow (A_Forbidden ''Unsupported workflow authority'')
      | Some required \<Rightarrow>
          if purpose \<noteq> ''INTAKE_ACCEPT'' then wthrow (A_Forbidden ''Unsupported workflow authority'')
          else
            wbind (authorizeSubject p workspaceId subject (Some caller)) (\<lambda>a.
            wthen (wcheck (A_Forbidden ''Workflow execution is not permitted'')
              (au_state a \<noteq> ''READ_ONLY'' \<and> au_role a \<noteq> js ''ANALYST''
               \<and> list_all (\<lambda>x. x \<in> set (au_permissions a)) required))
            (wret a)))"

definition assignmentSubject :: "peers \<Rightarrow> jsstring \<Rightarrow> jsstring \<Rightarrow> (team_authority \<times> jsstring) acomp" where
  "assignmentSubject p workspaceId subject =
     wbind (ask (\<lambda>n. pe_sourceContext p n workspaceId subject)) (\<lambda>context.
     wbind (resolve p workspaceId (sc_subject context) (sc_membership context) (Some ''crm-sales'')) (\<lambda>a.
     wret (a, mb_membershipId (the (sc_membership context)))))"

end
