(* ===== verification/Access_Team.thy ===== *)
theory Access_Team
  imports Access_Authority
begin

text \<open>
  \<open>apps/crm-access/src/team/team.service.ts\<close>: the commands of the managers of a workspace on teams, invitations
  and members. Each is a team command: the authority is checked before and inside the transaction, and a
  repeated command identifier answers from its receipt. A request is the validated transfer object.
\<close>

section \<open>Authority\<close>

definition team_permission :: "string \<Rightarrow> string" where
  "team_permission mode =
     (if mode = ''read'' then ''access:read-team'' else if mode = ''revoke'' then ''access:revoke-access'' else ''access:manage-team'')"

definition team_authorized :: "string \<Rightarrow> team_authority \<Rightarrow> bool" where
  "team_authorized mode actor \<longleftrightarrow>
     is_manager (au_role actor) \<and> team_permission mode \<in> set (au_permissions actor)
     \<and> (mode \<noteq> ''read'' \<longrightarrow> au_state actor \<noteq> ''READ_ONLY'')"

definition authority :: "peers \<Rightarrow> jsstring option \<Rightarrow> jsstring \<Rightarrow> string \<Rightarrow> team_authority acomp" where
  "authority p authorization workspaceId mode =
     wbind (authorize_caller p authorization workspaceId None) (\<lambda>actor.
     wthen (wcheck (A_Forbidden ''CRM team action is not permitted'') (team_authorized mode actor))
     (wret actor))"

definition manages_role :: "team_authority \<Rightarrow> jsstring \<Rightarrow> bool" where
  "manages_role actor role \<longleftrightarrow> role \<noteq> OWNER \<and> (au_role actor = OWNER \<or> role \<noteq> CRM_ADMIN)"

definition manageRole :: "team_authority \<Rightarrow> jsstring \<Rightarrow> access_error + unit" where
  "manageRole actor role =
     (if manages_role actor role then Inr () else Inl (A_Forbidden ''Only the owner can manage CRM administrators''))"

definition teams_ok :: "jsstring \<Rightarrow> jsstring list \<Rightarrow> access \<Rightarrow> bool" where
  "teams_ok workspaceId teamIds w \<longleftrightarrow>
     distinct teamIds \<and> length teamIds \<le> 1000
     \<and> count_rows (\<lambda>t. tm_id t \<in> set teamIds \<and> tm_workspaceId t = workspaceId \<and> tm_archivedAt t = None) (t_teams w) = length teamIds"

definition requireTeams :: "jsstring \<Rightarrow> jsstring list \<Rightarrow> unit atx" where
  "requireTeams workspaceId teamIds =
     bnd (gets (teams_ok workspaceId teamIds)) (\<lambda>ok. check A_BadRequest ok)"

definition target_member :: "team_authority \<Rightarrow> jsstring \<Rightarrow> int option \<Rightarrow> member_row atx" where
  "target_member actor i expectedVersion =
     bnd (gets (\<lambda>w. find (\<lambda>m. mr_id m = i \<and> mr_workspaceId m = au_workspaceId actor) (t_members w))) (\<lambda>found.
     bnd (the_or A_NotFound found) (\<lambda>member.
     bnd (gets (find_workspace (au_workspaceId actor))) (\<lambda>row.
     bnd (the_or A_P2025 row) (\<lambda>workspaceRow.
     thn (check (A_Forbidden ''The owner and current actor cannot be modified through this action'')
       (mr_subject member \<noteq> wa_activatedBySubject workspaceRow \<and> mr_subject member \<noteq> au_subject actor))
     (thn (lift_sum (manageRole actor (mr_role member)))
     (thn (check (A_Conflict ''CRM member version conflict'')
       (case expectedVersion of None \<Rightarrow> True | Some v \<Rightarrow> mr_version member = v))
     (ret member)))))))"

section \<open>Transfer objects\<close>

definition as_strs :: "jsval \<Rightarrow> jsstring list" where
  "as_strs v = map as_str (items_of v)"

definition iso_opt :: "date option \<Rightarrow> jsval" where
  "iso_opt t = opt_js (\<lambda>d. JStr (toISOString d)) t"

definition memberDto :: "member_row \<Rightarrow> jsstring list \<Rightarrow> jsval" where
  "memberDto m teamIds = obj
     [(''id'', JStr (mr_id m)), (''workspaceId'', JStr (mr_workspaceId m)), (''subject'', JStr (mr_subject m)),
      (''membershipId'', JStr (mr_membershipId m)), (''role'', JStr (mr_role m)), (''teamIds'', JArr (map JStr teamIds)),
      (''disabledAt'', iso_opt (mr_disabledAt m)), (''version'', JInt (mr_version m)),
      (''createdAt'', JStr (toISOString (mr_createdAt m))), (''updatedAt'', JStr (toISOString (mr_updatedAt m)))]"

definition teamDto :: "team_row \<Rightarrow> jsval" where
  "teamDto t = obj
     [(''id'', JStr (tm_id t)), (''workspaceId'', JStr (tm_workspaceId t)), (''name'', JStr (tm_name t)),
      (''version'', JInt (tm_version t)), (''archivedAt'', iso_opt (tm_archivedAt t)),
      (''createdAt'', JStr (toISOString (tm_createdAt t))), (''updatedAt'', JStr (toISOString (tm_updatedAt t)))]"

definition intent_status_js :: "intent_status \<Rightarrow> jsval" where
  "intent_status_js s = JStr (js (case s of I_REGISTERING \<Rightarrow> ''REGISTERING'' | I_INVITED \<Rightarrow> ''INVITED''
     | I_ACCEPTED \<Rightarrow> ''ACCEPTED'' | I_REVOKED \<Rightarrow> ''REVOKED'' | I_EXPIRED \<Rightarrow> ''EXPIRED''))"

definition invitationDto :: "intent_row \<Rightarrow> date \<Rightarrow> jsval" where
  "invitationDto i now = obj
     [(''id'', JStr (in_id i)), (''workspaceId'', JStr (in_workspaceId i)), (''email'', JStr (in_email i)),
      (''role'', JStr (in_role i)), (''teamIds'', JArr (map JStr (in_teamIds i))),
      (''status'', intent_status_js (if open_intent i \<and> in_expiresAt i \<le> now then I_EXPIRED else in_status i)),
      (''version'', JInt (in_version i)), (''expiresAt'', JStr (toISOString (in_expiresAt i))),
      (''createdAt'', JStr (toISOString (in_createdAt i))), (''updatedAt'', JStr (toISOString (in_updatedAt i)))]"

definition result_of :: "string \<Rightarrow> jsval \<Rightarrow> jsval" where
  "result_of name value = obj [(''schemaVersion'', JInt 1), (name, value)]"

text \<open>\<open>{ id, ...dto }\<close>, and \<open>{ ...dto, k: v }\<close>, which replaces a property in its place.\<close>

fun with_id :: "jsstring \<Rightarrow> jsval \<Rightarrow> jsval" where
  "with_id i (JObj kvs) = JObj ((js ''id'', JStr i) # kvs)"
| "with_id i v = obj [(''id'', JStr i)]"

fun put :: "string \<Rightarrow> jsval \<Rightarrow> jsval \<Rightarrow> jsval" where
  "put k v (JObj kvs) =
     (if js k \<in> set (map fst kvs) then JObj (map (\<lambda>(k', v'). (k', if k' = js k then v else v')) kvs)
      else JObj (kvs @ [(js k, v)]))"
| "put k v u = obj [(k, v)]"

abbreviation expected_of :: "jsval \<Rightarrow> int" where
  "expected_of dto \<equiv> as_int (jsfield dto ''expectedVersion'')"

definition trim :: "jsstring \<Rightarrow> jsstring" where
  "trim s = rev (dropWhile is_space (rev (dropWhile is_space s)))"

section \<open>Teams\<close>

definition team_name :: "jsval \<Rightarrow> access_error + jsstring" where
  "team_name value =
     (let name = trim (as_str value) in if name = [] \<or> length name > 100 then Inl A_BadRequest else Inr name)"

definition uniqueTeamName :: "peers \<Rightarrow> jsstring \<Rightarrow> jsstring \<Rightarrow> jsstring option \<Rightarrow> unit atx" where
  "uniqueTeamName p workspaceId name i =
     bnd (gets (\<lambda>w. list_ex (\<lambda>t. tm_workspaceId t = workspaceId \<and> pe_sameName p (tm_name t) name \<and> tm_archivedAt t = None
        \<and> Some (tm_id t) \<noteq> i) (t_teams w))) (\<lambda>taken.
     check (A_Conflict ''An active team with this name already exists'') (\<not> taken))"

definition open_team :: "jsstring \<Rightarrow> jsstring \<Rightarrow> team_row atx" where
  "open_team i workspaceId =
     bnd (gets (\<lambda>w. find (\<lambda>t. tm_id t = i \<and> tm_workspaceId t = workspaceId \<and> tm_archivedAt t = None) (t_teams w))) (\<lambda>found.
     the_or A_NotFound found)"

definition createTeam_tx :: "env \<Rightarrow> peers \<Rightarrow> team_authority \<Rightarrow> jsval \<Rightarrow> jsstring \<Rightarrow> jsval atx" where
  "createTeam_tx e p actor dto name =
     thn (uniqueTeamName p (ws_of dto) name None)
     (bnd (access_uuid e) (\<lambda>i.
     bnd (access_date e) (\<lambda>now.
     bnd (create_team_row p \<lparr>tm_id = i, tm_workspaceId = ws_of dto, tm_name = name, tm_version = 1, tm_archivedAt = None,
       tm_createdAt = now, tm_updatedAt = now\<rparr>) (\<lambda>team.
     thn (auditTeam actor (cmd_of dto) ''TEAM_CREATED'' (tm_id team) JNull (obj [(''name'', JStr name)]))
     (ret (result_of ''team'' (teamDto team)))))))"

definition createTeam :: "env \<Rightarrow> peers \<Rightarrow> jsstring option \<Rightarrow> jsval \<Rightarrow> jsval acomp" where
  "createTeam e p authorization dto =
     wbind (authority p authorization (ws_of dto) ''manage'') (\<lambda>actor.
     wbind (wlift (team_name (jsfield dto ''name''))) (\<lambda>name.
     run_tx (team_command e p actor (cmd_of dto) ''team.create'' (put ''name'' (JStr name) dto) (createTeam_tx e p actor dto name))))"

definition updateTeam_tx :: "env \<Rightarrow> peers \<Rightarrow> team_authority \<Rightarrow> jsstring \<Rightarrow> jsval \<Rightarrow> jsstring \<Rightarrow> jsval atx" where
  "updateTeam_tx e p actor i dto name =
     bnd (open_team i (ws_of dto)) (\<lambda>current.
     thn (check (A_Conflict ''Team version conflict'') (tm_version current = expected_of dto))
     (thn (uniqueTeamName p (ws_of dto) name (Some i))
     (bnd (access_date e) (\<lambda>now.
     bnd (update_team_row i (\<lambda>t. t\<lparr>tm_name := name, tm_version := tm_version t + 1, tm_updatedAt := now\<rparr>)) (\<lambda>updated.
     thn (auditTeam actor (cmd_of dto) ''TEAM_RENAMED'' i (obj [(''name'', JStr (tm_name current))]) (obj [(''name'', JStr name)]))
     (ret (result_of ''team'' (teamDto updated))))))))"

definition updateTeam :: "env \<Rightarrow> peers \<Rightarrow> jsstring option \<Rightarrow> jsstring \<Rightarrow> jsval \<Rightarrow> jsval acomp" where
  "updateTeam e p authorization i dto =
     wbind (authority p authorization (ws_of dto) ''manage'') (\<lambda>actor.
     wbind (wlift (team_name (jsfield dto ''name''))) (\<lambda>name.
     run_tx (team_command e p actor (cmd_of dto) ''team.rename'' (put ''name'' (JStr name) (with_id i dto))
       (updateTeam_tx e p actor i dto name))))"

definition archiveTeam_tx :: "env \<Rightarrow> team_authority \<Rightarrow> jsstring \<Rightarrow> jsval \<Rightarrow> jsval atx" where
  "archiveTeam_tx e actor i dto =
     bnd (open_team i (ws_of dto)) (\<lambda>current.
     thn (check (A_Conflict ''Team version conflict'') (tm_version current = expected_of dto))
     (bnd (gets (\<lambda>w. list_ex (\<lambda>x. mt_teamId x = i \<and> mt_workspaceId x = ws_of dto) (t_memberTeams w))) (\<lambda>assigned.
     thn (check (A_Conflict ''Remove member assignments before archiving a team'') (\<not> assigned))
     (bnd (access_date e) (\<lambda>now.
     bnd (update_team_row i (\<lambda>t. t\<lparr>tm_archivedAt := Some now, tm_version := tm_version t + 1, tm_updatedAt := now\<rparr>)) (\<lambda>updated.
     thn (auditTeam actor (cmd_of dto) ''TEAM_ARCHIVED'' i (obj [(''archived'', JBool False)]) (obj [(''archived'', JBool True)]))
     (ret (result_of ''team'' (teamDto updated)))))))))"

definition archiveTeam :: "env \<Rightarrow> peers \<Rightarrow> jsstring option \<Rightarrow> jsstring \<Rightarrow> jsval \<Rightarrow> jsval acomp" where
  "archiveTeam e p authorization i dto =
     wbind (authority p authorization (ws_of dto) ''manage'') (\<lambda>actor.
     run_tx (team_command e p actor (cmd_of dto) ''team.archive'' (with_id i dto) (archiveTeam_tx e actor i dto)))"

section \<open>Invitations\<close>

definition squeeze_spaces :: "jsstring \<Rightarrow> jsstring" where
  "squeeze_spaces s = rev (foldl (\<lambda>acc c. if c = 32 \<and> acc \<noteq> [] \<and> hd acc = 32 then acc else c # acc) [] s)"

definition employee_name :: "peers \<Rightarrow> jsval \<Rightarrow> access_error + jsstring" where
  "employee_name p value =
     (case value of
        JStr s \<Rightarrow>
          let normalized = squeeze_spaces (trim (pe_nfc p s)) in
          if length normalized > 100 \<or> \<not> pe_nameText p normalized then Inl A_BadRequest else Inr normalized
      | _ \<Rightarrow> Inl A_BadRequest)"

definition normalizeEmployeeName :: "peers \<Rightarrow> jsval \<Rightarrow> access_error + jsstring \<times> jsstring \<times> jsstring option" where
  "normalizeEmployeeName p profile =
     sbind (employee_name p (jsfield profile ''firstName'')) (\<lambda>firstName.
     sbind (employee_name p (jsfield profile ''lastName'')) (\<lambda>lastName.
     if jsfield profile ''middleName'' \<in> {JUndef, JNull, JStr []} then Inr (firstName, lastName, None)
     else sbind (employee_name p (jsfield profile ''middleName'')) (\<lambda>middleName. Inr (firstName, lastName, Some middleName))))"

definition name_profile :: "(jsstring \<times> jsstring \<times> jsstring option) option \<Rightarrow> jsval \<Rightarrow> jsval" where
  "name_profile profile dto =
     (case profile of
        None \<Rightarrow> dto
      | Some (firstName, lastName, middleName) \<Rightarrow>
          put ''profile'' (obj [(''firstName'', JStr firstName), (''lastName'', JStr lastName),
            (''middleName'', opt_js JStr middleName)]) dto)"

text \<open>The intended new row; the dates come from one reading of the clock.\<close>

definition new_intent ::
    "team_authority \<Rightarrow> jsval \<Rightarrow> jsstring \<Rightarrow> jsstring list \<Rightarrow> (jsstring \<times> jsstring \<times> jsstring option) option \<Rightarrow>
     date \<Rightarrow> jsstring \<Rightarrow> jsstring \<Rightarrow> date \<Rightarrow> intent_row" where
  "new_intent actor dto email teamIds profile now i provisioningId updatedAt =
     \<lparr>in_id = i, in_workspaceId = ws_of dto, in_email = email, in_firstName = map_option fst profile,
      in_lastName = map_option (fst \<circ> snd) profile, in_middleName = Option.bind profile (snd \<circ> snd),
      in_role = as_str (jsfield dto ''role''), in_teamIds = teamIds, in_inviterSubject = au_subject actor,
      in_status = I_REGISTERING, in_version = 1,
      in_expiresAt = now + (case jsfield dto ''ttlDays'' of JInt n \<Rightarrow> n | _ \<Rightarrow> 7) * 86400000,
      in_revokedAt = None, in_identityVersion = None, in_provisioningCommandId = provisioningId,
      in_revokeCommandId = None, in_createdAt = now, in_updatedAt = updatedAt\<rparr>"

definition expire_invitations :: "jsval \<Rightarrow> jsstring \<Rightarrow> date \<Rightarrow> nat atx" where
  "expire_invitations dto email now = updateMany_intent
     (\<lambda>i. in_workspaceId i = ws_of dto \<and> in_email i = email \<and> open_intent i \<and> in_expiresAt i \<le> now)
     (\<lambda>i. i\<lparr>in_status := I_EXPIRED, in_version := in_version i + 1\<rparr>)"

definition invite_tx ::
    "env \<Rightarrow> team_authority \<Rightarrow> jsval \<Rightarrow> jsstring \<Rightarrow> jsstring list \<Rightarrow> (jsstring \<times> jsstring \<times> jsstring option) option \<Rightarrow> jsval atx" where
  "invite_tx e actor dto email teamIds profile =
     thn (requireTeams (ws_of dto) teamIds)
     (bnd (access_date e) (\<lambda>now.
     thn (expire_invitations dto email now)
     (bnd (gets (\<lambda>w. list_ex (\<lambda>i. in_workspaceId i = ws_of dto \<and> in_email i = email \<and> open_intent i) (t_intents w))) (\<lambda>taken.
     thn (check (A_Conflict ''An active invitation for this email already exists'') (\<not> taken))
     (bnd (access_uuid e) (\<lambda>i.
     bnd (access_uuid e) (\<lambda>provisioningId.
     bnd (access_date e) (\<lambda>updatedAt.
     bnd (create_intent (new_intent actor dto email teamIds profile now i provisioningId updatedAt)) (\<lambda>invitation.
     thn (emitTeamEvent e ''provision'' (ws_of dto) (cmd_of dto) (Some (in_id invitation)))
     (thn (auditTeam actor (cmd_of dto) ''INVITATION_CREATED'' (in_id invitation) JNull
        (obj [(''role'', jsfield dto ''role''), (''teamIds'', JArr (map JStr teamIds))]))
     (bnd (access_date e) (\<lambda>shownAt.
     ret (result_of ''invitation'' (invitationDto invitation shownAt))))))))))))))"

definition invite :: "env \<Rightarrow> peers \<Rightarrow> jsstring option \<Rightarrow> jsval \<Rightarrow> jsval acomp" where
  "invite e p authorization dto =
     wbind (authority p authorization (ws_of dto) ''manage'') (\<lambda>actor.
     wthen (wlift (manageRole actor (as_str (jsfield dto ''role''))))
     (let email = pe_lower p (trim (as_str (jsfield dto ''email'')));
          teamIds = sort (as_strs (jsfield dto ''teamIds'')) in
      wbind (if jsfield dto ''profile'' \<in> {JUndef, JNull} then wret None
             else wbind (wlift (normalizeEmployeeName p (jsfield dto ''profile''))) (\<lambda>n. wret (Some n))) (\<lambda>profile.
      run_tx (team_command e p actor (cmd_of dto) ''invitation.create''
        (name_profile profile (put ''teamIds'' (JArr (map JStr teamIds)) (put ''email'' (JStr email) dto)))
        (invite_tx e actor dto email teamIds profile)))))"

definition revokeInvitation_tx :: "env \<Rightarrow> team_authority \<Rightarrow> jsstring \<Rightarrow> jsval \<Rightarrow> jsval atx" where
  "revokeInvitation_tx e actor i dto =
     bnd (gets (\<lambda>w. find (\<lambda>x. in_id x = i \<and> in_workspaceId x = ws_of dto) (t_intents w))) (\<lambda>found.
     bnd (the_or A_P2025 found) (\<lambda>current.
     thn (lift_sum (manageRole actor (in_role current)))
     (thn (check (A_Conflict ''Invitation version conflict'') (in_version current = expected_of dto))
     (bnd (gets (\<lambda>w. find (\<lambda>a. ad_intentId a = Some i) (t_admissions w))) (\<lambda>admission.
     thn (check (A_Conflict ''Disable the active CRM member instead'')
       (case admission of None \<Rightarrow> True | Some a \<Rightarrow> ad_status a \<noteq> W_ACTIVE))
     (thn (check (A_Conflict ''Invitation is already revoked'') (in_status current \<noteq> I_REVOKED))
     (bnd (access_date e) (\<lambda>now.
     bnd (access_uuid e) (\<lambda>revokeId.
     bnd (update_intent i (\<lambda>x. x\<lparr>in_status := I_REVOKED, in_revokedAt := Some now, in_revokeCommandId := Some revokeId,
       in_version := in_version x + 1, in_updatedAt := now\<rparr>)) (\<lambda>updated.
     thn (updateMany_admission (\<lambda>a. ad_intentId a = Some i \<and> ad_status a = W_WAITING)
       (\<lambda>a. a\<lparr>ad_status := W_CANCELLED, ad_cancellationCode := Some ''INVITATION_REVOKED''\<rparr>))
     (thn (emitTeamEvent e ''provision'' (ws_of dto) (cmd_of dto) (Some i))
     (thn (emitTeamEvent e ''admission'' (ws_of dto) (cmd_of dto) None)
     (thn (auditTeam actor (cmd_of dto) ''INVITATION_REVOKED'' i (obj [(''status'', intent_status_js (in_status current))])
        (obj [(''status'', JStr (js ''REVOKED''))]))
     (bnd (access_date e) (\<lambda>shownAt.
     ret (result_of ''invitation'' (invitationDto updated shownAt)))))))))))))))))"

definition revokeInvitation :: "env \<Rightarrow> peers \<Rightarrow> jsstring option \<Rightarrow> jsstring \<Rightarrow> jsval \<Rightarrow> jsval acomp" where
  "revokeInvitation e p authorization i dto =
     wbind (authority p authorization (ws_of dto) ''revoke'') (\<lambda>actor.
     wbind (wget (\<lambda>s. find (\<lambda>x. in_id x = i \<and> in_workspaceId x = ws_of dto) (t_intents s))) (\<lambda>preview.
     case preview of
       None \<Rightarrow> wthrow A_NotFound
     | Some x \<Rightarrow>
         wthen (wlift (manageRole actor (in_role x)))
         (run_tx (team_command e p actor (cmd_of dto) ''invitation.revoke'' (with_id i dto) (revokeInvitation_tx e actor i dto)))))"

section \<open>Members\<close>

definition changeRole_tx :: "env \<Rightarrow> team_authority \<Rightarrow> jsstring \<Rightarrow> jsval \<Rightarrow> jsval atx" where
  "changeRole_tx e actor i dto =
     bnd (target_member actor i (Some (expected_of dto))) (\<lambda>current.
     bnd (access_date e) (\<lambda>now.
     bnd (update_member i (\<lambda>m. m\<lparr>mr_role := as_str (jsfield dto ''role''), mr_version := mr_version m + 1, mr_updatedAt := now\<rparr>)) (\<lambda>updated.
     bnd (gets (member_team_ids i)) (\<lambda>teamIds.
     thn (auditTeam actor (cmd_of dto) ''MEMBER_ROLE_CHANGED'' i (obj [(''role'', JStr (mr_role current))])
        (obj [(''role'', jsfield dto ''role'')]))
     (ret (result_of ''member'' (memberDto updated teamIds)))))))"

definition changeRole :: "env \<Rightarrow> peers \<Rightarrow> jsstring option \<Rightarrow> jsstring \<Rightarrow> jsval \<Rightarrow> jsval acomp" where
  "changeRole e p authorization i dto =
     wbind (authority p authorization (ws_of dto) ''manage'') (\<lambda>actor.
     wthen (wlift (manageRole actor (as_str (jsfield dto ''role''))))
     (wthen (run_tx (target_member actor i None))
     (run_tx (team_command e p actor (cmd_of dto) ''member.role'' (with_id i dto) (changeRole_tx e actor i dto)))))"

definition assign_teams :: "jsstring \<Rightarrow> jsstring \<Rightarrow> jsstring list \<Rightarrow> access \<Rightarrow> access" where
  "assign_teams workspaceId memberId teamIds = t_memberTeams_update (\<lambda>rows. rows @
     map (\<lambda>t. \<lparr>mt_workspaceId = workspaceId, mt_memberId = memberId, mt_teamId = t\<rparr>) teamIds)"

definition setTeams_tx :: "env \<Rightarrow> team_authority \<Rightarrow> jsstring \<Rightarrow> jsval \<Rightarrow> jsstring list \<Rightarrow> jsval atx" where
  "setTeams_tx e actor i dto teamIds =
     bnd (target_member actor i (Some (expected_of dto))) (\<lambda>current.
     bnd (gets (member_team_ids i)) (\<lambda>before.
     thn (requireTeams (ws_of dto) teamIds)
     (thn (modify (t_memberTeams_update (filter (\<lambda>x. \<not> (mt_memberId x = i \<and> mt_workspaceId x = ws_of dto)))))
     (thn (modify (assign_teams (ws_of dto) i teamIds))
     (bnd (access_date e) (\<lambda>now.
     bnd (update_member i (\<lambda>m. m\<lparr>mr_version := mr_version m + 1, mr_updatedAt := now\<rparr>)) (\<lambda>updated.
     bnd (gets (member_team_ids i)) (\<lambda>shown.
     thn (auditTeam actor (cmd_of dto) ''MEMBER_TEAMS_CHANGED'' i (obj [(''teamIds'', JArr (map JStr before))])
        (obj [(''teamIds'', JArr (map JStr teamIds))]))
     (ret (result_of ''member'' (memberDto updated shown)))))))))))"

definition setTeams :: "env \<Rightarrow> peers \<Rightarrow> jsstring option \<Rightarrow> jsstring \<Rightarrow> jsval \<Rightarrow> jsval acomp" where
  "setTeams e p authorization i dto =
     wbind (authority p authorization (ws_of dto) ''manage'') (\<lambda>actor.
     wthen (run_tx (target_member actor i None))
     (let teamIds = sort (as_strs (jsfield dto ''teamIds'')) in
      run_tx (team_command e p actor (cmd_of dto) ''member.teams'' (put ''teamIds'' (JArr (map JStr teamIds)) (with_id i dto))
        (setTeams_tx e actor i dto teamIds))))"

definition disable_tx :: "env \<Rightarrow> team_authority \<Rightarrow> jsstring \<Rightarrow> jsval \<Rightarrow> jsval atx" where
  "disable_tx e actor i dto =
     bnd (target_member actor i (Some (expected_of dto))) (\<lambda>current.
     bnd (access_date e) (\<lambda>now.
     bnd (update_member i (\<lambda>m. m\<lparr>mr_disabledAt := Some now, mr_version := mr_version m + 1, mr_updatedAt := now\<rparr>)) (\<lambda>updated.
     bnd (gets (member_team_ids i)) (\<lambda>teamIds.
     thn (updateMany_admission
       (\<lambda>a. ad_workspaceId a = ws_of dto \<and> ad_subject a = mr_subject current \<and> ad_status a = W_WAITING)
       (\<lambda>a. a\<lparr>ad_status := W_CANCELLED, ad_cancellationCode := Some ''MEMBER_DISABLED''\<rparr>))
     (thn (emitTeamEvent e ''admission'' (ws_of dto) (cmd_of dto) None)
     (thn (auditTeam actor (cmd_of dto) ''MEMBER_DISABLED'' i (obj [(''disabled'', JBool (mr_disabledAt current \<noteq> None))])
        (obj [(''disabled'', JBool True)]))
     (ret (result_of ''member'' (memberDto updated teamIds)))))))))"

definition disable_member :: "env \<Rightarrow> peers \<Rightarrow> jsstring option \<Rightarrow> jsstring \<Rightarrow> jsval \<Rightarrow> jsval acomp" where
  "disable_member e p authorization i dto =
     wbind (authority p authorization (ws_of dto) ''revoke'') (\<lambda>actor.
     wthen (run_tx (target_member actor i None))
     (run_tx (team_command e p actor (cmd_of dto) ''member.disable'' (with_id i dto) (disable_tx e actor i dto))))"

definition admission_view :: "jsstring \<Rightarrow> admission_row \<Rightarrow> jsval" where
  "admission_view memberId a = obj
     [(''id'', JStr (ad_id a)), (''workspaceId'', JStr (ad_workspaceId a)), (''memberId'', JStr memberId),
      (''status'', JStr (js ''WAITING'')), (''createdAt'', JStr (toISOString (ad_createdAt a)))]"

definition enable_tx :: "env \<Rightarrow> team_authority \<Rightarrow> jsstring \<Rightarrow> jsval \<Rightarrow> jsval atx" where
  "enable_tx e actor i dto =
     bnd (target_member actor i (Some (expected_of dto))) (\<lambda>current.
     thn (check (A_Conflict ''CRM member is already enabled'') (mr_disabledAt current \<noteq> None))
     (bnd (gets (\<lambda>w. list_ex (\<lambda>a. ad_workspaceId a = ws_of dto \<and> ad_subject a = mr_subject current \<and> ad_status a = W_WAITING)
        (t_admissions w))) (\<lambda>waiting.
     thn (check (A_Conflict ''An admission is already waiting'') (\<not> waiting))
     (bnd (access_uuid e) (\<lambda>admissionId.
     bnd next_position (\<lambda>position.
     bnd (access_date e) (\<lambda>now.
     bnd (create_admission
       \<lparr>ad_id = admissionId, ad_workspaceId = ws_of dto, ad_intentId = None, ad_sourceAcceptanceId = None, ad_memberId = Some i,
        ad_expectedMemberVersion = Some (mr_version current), ad_subject = mr_subject current,
        ad_membershipId = mr_membershipId current, ad_requestedBySubject = au_subject actor, ad_position = position,
        ad_status = W_WAITING, ad_activatedAt = None, ad_cancellationCode = None, ad_createdAt = now\<rparr>) (\<lambda>admission.
     thn (emitTeamEvent e ''admission'' (ws_of dto) (cmd_of dto) None)
     (thn (auditTeam actor (cmd_of dto) ''MEMBER_ENABLE_REQUESTED'' i (obj [(''disabled'', JBool True)])
        (obj [(''admissionId'', JStr (ad_id admission)), (''status'', JStr (js ''WAITING''))]))
     (ret (result_of ''admission'' (admission_view i admission))))))))))))"

definition enable_member :: "env \<Rightarrow> peers \<Rightarrow> jsstring option \<Rightarrow> jsstring \<Rightarrow> jsval \<Rightarrow> jsval acomp" where
  "enable_member e p authorization i dto =
     wbind (authority p authorization (ws_of dto) ''manage'') (\<lambda>actor.
     wthen (run_tx (target_member actor i None))
     (run_tx (team_command e p actor (cmd_of dto) ''member.enable'' (with_id i dto) (enable_tx e actor i dto))))"

end
