(* ===== verification/Access_Admission.thy ===== *)
theory Access_Admission
  imports Access_Team
begin

text \<open>
  \<open>apps/crm-access/src/team/team-admission.service.ts\<close>: the registration of an invitation with Identity, its
  acceptance, and the admission of the first waiting member when the seats allow it.
\<close>

section \<open>Managers and cancellation\<close>

definition is_forbidden :: "access_error \<Rightarrow> bool" where
  "is_forbidden err = (case err of A_Forbidden m \<Rightarrow> True | _ \<Rightarrow> False)"

definition requireManager :: "team_authority \<Rightarrow> jsstring option \<Rightarrow> access_error + unit" where
  "requireManager actor role =
     (if \<not> (is_manager (au_role actor) \<and> au_state actor \<noteq> ''READ_ONLY'' \<and> ''access:manage-team'' \<in> set (au_permissions actor))
      then Inl (A_Forbidden ''Invitation manager authority is unavailable'')
      else if truthy role then manageRole actor (the role) else Inr ())"

definition cancelInTransaction :: "env \<Rightarrow> admission_row \<Rightarrow> string \<Rightarrow> unit atx" where
  "cancelInTransaction e candidate code =
     bnd (updateMany_admission
       (\<lambda>a. ad_id a = ad_id candidate \<and> ad_workspaceId a = ad_workspaceId candidate \<and> ad_status a = W_WAITING)
       (\<lambda>a. a\<lparr>ad_status := W_CANCELLED, ad_cancellationCode := Some code\<rparr>)) (\<lambda>count.
     if count = 0 then ret ()
     else emitTeamEvent e ''admission'' (ad_workspaceId candidate) (js ''advance:'' @ ad_id candidate) None)"

definition cancel_admission :: "env \<Rightarrow> admission_row \<Rightarrow> string \<Rightarrow> unit acomp" where
  "cancel_admission e candidate code = run_tx (serializable e (cancelInTransaction e candidate code))"

section \<open>Registration and acceptance of an invitation\<close>

text \<open>A revocation that Identity rejects is ignored; \<open>None\<close> is success.\<close>

definition revoke_at_identity :: "peers \<Rightarrow> intent_row \<Rightarrow> unit acomp" where
  "revoke_at_identity p intent =
     ask (\<lambda>n. case pe_revokeInvitation p n intent of
        None \<Rightarrow> Inr () | Some err \<Rightarrow> if err = A_Fault ''InvitationRejectedError'' then Inr () else Inl err)"

definition mark_invited :: "intent_row \<Rightarrow> int \<Rightarrow> nat atx" where
  "mark_invited intent version = updateMany_intent
     (\<lambda>i. in_id i = in_id intent \<and> in_workspaceId i = in_workspaceId intent \<and> in_status i = I_REGISTERING
        \<and> in_version i = in_version intent)
     (\<lambda>i. i\<lparr>in_status := I_INVITED, in_identityVersion := Some version, in_version := in_version i + 1\<rparr>)"

definition expire_intent :: "intent_row \<Rightarrow> nat atx" where
  "expire_intent intent = updateMany_intent
     (\<lambda>i. in_id i = in_id intent \<and> in_status i = I_REGISTERING \<and> in_version i = in_version intent)
     (\<lambda>i. i\<lparr>in_status := I_EXPIRED, in_version := in_version i + 1\<rparr>)"

definition provision :: "env \<Rightarrow> peers \<Rightarrow> jsstring \<Rightarrow> jsstring \<Rightarrow> unit acomp" where
  "provision e p workspaceId invitationId =
     wbind (wget (\<lambda>s. find (\<lambda>x. in_id x = invitationId \<and> in_workspaceId x = workspaceId) (t_intents s))) (\<lambda>found.
     case found of
       None \<Rightarrow> wret ()
     | Some intent \<Rightarrow>
         if in_status intent = I_REVOKED then revoke_at_identity p intent
         else if in_status intent \<noteq> I_REGISTERING then wret ()
         else
           wbind (run_tx (access_date e)) (\<lambda>now.
           if in_expiresAt intent \<le> now then wthen (run_tx (expire_intent intent)) (wret ())
           else
             wbind (authorizeSubject p workspaceId (in_inviterSubject intent) None) (\<lambda>actor.
             wthen (wlift (requireManager actor (Some (in_role intent))))
             (wbind (ask (\<lambda>n. pe_createInvitation p n intent)) (\<lambda>version.
             wthen (run_tx (serializable e (mark_invited intent version)))
             (wbind (wget (find_intent (in_id intent))) (\<lambda>latest.
             case latest of
               None \<Rightarrow> wthrow A_P2025
             | Some x \<Rightarrow> if in_status x = I_REVOKED then revoke_at_identity p x else wret ())))))))"

record accepted_event =
  ev_invitationId :: jsstring
  ev_invitationVersion :: int
  ev_workspaceId :: jsstring
  ev_acceptanceId :: jsstring
  ev_subject :: jsstring
  ev_membershipId :: jsstring
  ev_occurredAt :: jsstring

definition matchProof :: "acceptance \<Rightarrow> accepted_event \<Rightarrow> bool" where
  "matchProof a event \<longleftrightarrow>
     ap_id a = ev_acceptanceId event \<and> ap_invitationId a = ev_invitationId event
     \<and> ap_invitationVersion a = ev_invitationVersion event \<and> ap_workspaceId a = ev_workspaceId event
     \<and> ap_subject a = ev_subject event \<and> ap_membershipId a = ev_membershipId event \<and> ap_acceptedAt a = ev_occurredAt event"

definition admission_status_js :: "admission_status \<Rightarrow> jsval" where
  "admission_status_js s =
     JStr (js (case s of W_WAITING \<Rightarrow> ''WAITING'' | W_ACTIVE \<Rightarrow> ''ACTIVE'' | W_CANCELLED \<Rightarrow> ''CANCELLED''))"

definition new_admission ::
    "jsstring \<Rightarrow> intent_row \<Rightarrow> acceptance \<Rightarrow> string option \<Rightarrow> jsstring \<Rightarrow> nat \<Rightarrow> date \<Rightarrow> admission_row" where
  "new_admission workspaceId current a cancellation i position now =
     \<lparr>ad_id = i, ad_workspaceId = workspaceId, ad_intentId = Some (in_id current), ad_sourceAcceptanceId = Some (ap_id a),
      ad_memberId = None, ad_expectedMemberVersion = None, ad_subject = ap_subject a, ad_membershipId = ap_membershipId a,
      ad_requestedBySubject = in_inviterSubject current, ad_position = position,
      ad_status = (if cancellation = None then W_WAITING else W_CANCELLED), ad_activatedAt = None,
      ad_cancellationCode = cancellation, ad_createdAt = now\<rparr>"

definition admit_new_tx :: "env \<Rightarrow> accepted_event \<Rightarrow> intent_row \<Rightarrow> acceptance \<Rightarrow> unit atx" where
  "admit_new_tx e event current a =
     bnd (gets (find_member_of (ev_workspaceId event) (ap_subject a))) (\<lambda>existing.
     bnd (gets (\<lambda>w. list_ex (\<lambda>x. ad_workspaceId x = ev_workspaceId event \<and> ad_subject x = ap_subject a \<and> ad_status x = W_WAITING)
        (t_admissions w))) (\<lambda>waiting.
     bnd (access_uuid e) (\<lambda>i.
     bnd next_position (\<lambda>position.
     bnd (access_date e) (\<lambda>now.
     bnd (create_admission (new_admission (ev_workspaceId event) current a
       (if existing \<noteq> None then Some ''ALREADY_CRM_MEMBER'' else if waiting then Some ''ALREADY_WAITING'' else None) i position now)) (\<lambda>admission.
     thn (update_intent (in_id current) (\<lambda>x. x\<lparr>in_status := I_ACCEPTED, in_identityVersion := Some (ap_invitationVersion a),
       in_version := in_version x + 1\<rparr>))
     (thn (if ad_status admission = W_WAITING
           then emitTeamEvent e ''admission'' (ev_workspaceId event) (ap_id a) None else ret ())
     (auditTeam \<lparr>au_workspaceId = ev_workspaceId event, au_subject = ap_subject a, au_role = js ''MEMBER'', au_state = ''ACTIVE'',
        au_dataScope = [], au_teamIds = [], au_permissions = []\<rparr>
        (ap_id a) ''INVITATION_ACCEPTED'' (in_id current) JNull
        (obj [(''admissionId'', JStr (ad_id admission)), (''status'', admission_status_js (ad_status admission))])))))))))"

definition accept_tx :: "env \<Rightarrow> accepted_event \<Rightarrow> jsstring \<Rightarrow> acceptance \<Rightarrow> unit atx" where
  "accept_tx e event intentId a =
     bnd (gets (find_intent intentId)) (\<lambda>found.
     bnd (the_or A_P2025 found) (\<lambda>current.
     if in_status current = I_REVOKED then ret ()
     else
       bnd (gets (\<lambda>w. find (\<lambda>x. ad_intentId x = Some intentId) (t_admissions w))) (\<lambda>prior.
       case prior of
         Some x \<Rightarrow> check (A_Fault ''ADMISSION_PROOF_CONFLICT'')
           (ad_sourceAcceptanceId x = Some (ap_id a) \<and> ad_subject x = ap_subject a \<and> ad_membershipId x = ap_membershipId a)
       | None \<Rightarrow> admit_new_tx e event current a)))"

text \<open>\<open>Date.parse(proof.acceptedAt) > intent.expiresAt.getTime()\<close>; false when the text is no date.\<close>

definition accepted_late :: "env \<Rightarrow> acceptance \<Rightarrow> intent_row \<Rightarrow> bool" where
  "accepted_late e a intent = (case Date_parse e (ap_acceptedAt a) of None \<Rightarrow> False | Some t \<Rightarrow> t > in_expiresAt intent)"

definition accept :: "env \<Rightarrow> peers \<Rightarrow> accepted_event \<Rightarrow> unit acomp" where
  "accept e p event =
     wbind (wget (\<lambda>s. find (\<lambda>x. in_id x = ev_invitationId event \<and> in_workspaceId x = ev_workspaceId event) (t_intents s))) (\<lambda>found.
     case found of
       None \<Rightarrow> wret ()
     | Some intent \<Rightarrow>
         if in_status intent = I_REVOKED then wret ()
         else
           wbind (ask (\<lambda>n. Inr (pe_acceptance p n (ev_invitationId event) (ev_workspaceId event)))) (\<lambda>answer.
           case answer of
             Rejected \<Rightarrow> wret ()
           | Failed err \<Rightarrow> wthrow err
           | Accepted a \<Rightarrow>
               wthen (wcheck (A_Fault ''ADMISSION_PROOF_CONFLICT'') (matchProof a event))
               (wthen (wcheck (A_Fault ''ACCEPTANCE_AFTER_INVITATION_EXPIRY'') (\<not> accepted_late e a intent))
               (run_tx (serializable e (accept_tx e event (in_id intent) a))))))"

section \<open>Admission\<close>

definition first_waiting :: "jsstring \<Rightarrow> access \<Rightarrow> admission_row option" where
  "first_waiting ws w = first_by (\<lambda>a b. ad_position a < ad_position b)
     (filter (\<lambda>a. ad_workspaceId a = ws \<and> ad_status a = W_WAITING) (t_admissions w))"

text \<open>What the admission knows from the calls before its transaction.\<close>

record admission_facts =
  af_candidate :: admission_row
  af_intent :: "intent_row option"
  af_actor :: team_authority
  af_entitlement :: entitlement_details
  af_seatLimit :: int

definition all_team_ids :: "jsstring \<Rightarrow> access \<Rightarrow> jsstring list" where
  "all_team_ids memberId w = map mt_teamId (filter (\<lambda>x. mt_memberId x = memberId) (t_memberTeams w))"

definition manager_current :: "team_authority \<Rightarrow> jsstring \<Rightarrow> access \<Rightarrow> bool" where
  "manager_current actor ws w \<longleftrightarrow>
     au_role actor = OWNER
     \<or> (case find_member_of ws (au_subject actor) w of
          None \<Rightarrow> False | Some m \<Rightarrow> mr_disabledAt m = None \<and> mr_role m = CRM_ADMIN)"

definition member_unchanged :: "admission_row \<Rightarrow> member_row option \<Rightarrow> bool" where
  "member_unchanged candidate member =
     (case member of
        None \<Rightarrow> False
      | Some m \<Rightarrow> Some (mr_id m) = ad_memberId candidate \<and> mr_disabledAt m \<noteq> None
          \<and> Some (mr_version m) = ad_expectedMemberVersion candidate \<and> mr_membershipId m = ad_membershipId candidate)"

text \<open>The reason to cancel the admission inside the transaction, in the order of the code.\<close>

definition admission_obstacle ::
    "admission_facts \<Rightarrow> workspace_row \<Rightarrow> intent_row option \<Rightarrow> member_row option \<Rightarrow> jsstring \<Rightarrow> jsstring list \<Rightarrow> access \<Rightarrow>
     string option" where
  "admission_obstacle f workspaceRow currentIntent member role teamIds w =
     (let candidate = af_candidate f; ws = ad_workspaceId candidate in
      if ad_subject candidate = wa_activatedBySubject workspaceRow then Some ''OWNER_IMMUTABLE''
      else if \<not> manager_current (af_actor f) ws w then Some ''INVITER_AUTHORITY_REVOKED''
      else if af_intent f \<noteq> None \<and> (case currentIntent of None \<Rightarrow> True | Some i \<Rightarrow> in_status i \<noteq> I_ACCEPTED)
      then Some ''INVITATION_UNAVAILABLE''
      else if af_intent f \<noteq> None \<and> member \<noteq> None then Some ''ALREADY_CRM_MEMBER''
      else if af_intent f = None \<and> \<not> member_unchanged candidate member then Some ''MEMBER_VERSION_CHANGED''
      else if \<not> manages_role (af_actor f) role then Some ''INVITER_AUTHORITY_REVOKED''
      else if \<not> teams_ok ws teamIds w then Some ''TEAM_ASSIGNMENTS_CHANGED''
      else None)"

definition activate_member :: "env \<Rightarrow> admission_row \<Rightarrow> member_row option \<Rightarrow> jsstring \<Rightarrow> member_row atx" where
  "activate_member e candidate member role =
     bnd (access_date e) (\<lambda>now.
     case member of
       Some m \<Rightarrow> update_member (mr_id m) (\<lambda>x. x\<lparr>mr_disabledAt := None, mr_version := mr_version x + 1, mr_updatedAt := now\<rparr>)
     | None \<Rightarrow>
         bnd (access_uuid e) (\<lambda>i.
         create_member \<lparr>mr_id = i, mr_workspaceId = ad_workspaceId candidate, mr_subject = ad_subject candidate,
           mr_membershipId = ad_membershipId candidate, mr_role = role, mr_disabledAt = None, mr_version = 1,
           mr_createdAt = now, mr_updatedAt = now\<rparr>))"

text \<open>\<open>createMany\<close> with \<open>skipDuplicates\<close>.\<close>

definition create_profile :: "env \<Rightarrow> admission_row \<Rightarrow> intent_row option \<Rightarrow> unit atx" where
  "create_profile e candidate currentIntent =
     (case currentIntent of
        None \<Rightarrow> ret ()
      | Some i \<Rightarrow>
          if \<not> (truthy (in_firstName i) \<and> truthy (in_lastName i)) then ret ()
          else
            bnd (access_uuid e) (\<lambda>profileId.
            modify (t_profiles_update (\<lambda>rows.
              if list_ex (\<lambda>r. pf_workspaceId r = ad_workspaceId candidate \<and> pf_subject r = ad_subject candidate) rows then rows
              else rows @ [\<lparr>pf_id = profileId, pf_workspaceId = ad_workspaceId candidate, pf_subject = ad_subject candidate,
                pf_firstName = the (in_firstName i), pf_lastName = the (in_lastName i), pf_middleName = in_middleName i,
                pf_version = 1\<rparr>]))))"

definition admission_audit ::
    "admission_facts \<Rightarrow> jsstring \<Rightarrow> int \<Rightarrow> int \<Rightarrow> jsstring \<Rightarrow> jsstring list \<Rightarrow> unit atx" where
  "admission_audit f memberId enabled admissionLimit role teamIds =
     auditTeam (af_actor f) (ad_id (af_candidate f)) ''MEMBER_ADMITTED'' memberId
       (obj [(''usedSeats'', JInt (1 + enabled))])
       (obj [(''usedSeats'', JInt (2 + enabled)), (''seatLimit'', JInt (af_seatLimit f)), (''admissionLimit'', JInt admissionLimit),
          (''entitlementId'', JStr (ed_id (af_entitlement f))), (''policyVersion'', ed_policyVersion (af_entitlement f)),
          (''role'', JStr role), (''teamIds'', JArr (map JStr teamIds))])"

definition admit_member ::
    "env \<Rightarrow> admission_facts \<Rightarrow> intent_row option \<Rightarrow> member_row option \<Rightarrow> jsstring \<Rightarrow> jsstring list \<Rightarrow> unit atx" where
  "admit_member e f currentIntent member role teamIds =
     (let candidate = af_candidate f; ws = ad_workspaceId candidate in
      bnd (gets (enabled_members ws)) (\<lambda>enabled.
      bnd (gets (find_capacity ws)) (\<lambda>capacity.
      let admissionLimit = effectiveAdmissionCeiling (af_seatLimit f) capacity in
      if 1 + enabled \<ge> admissionLimit then ret ()
      else
        bnd (activate_member e candidate member role) (\<lambda>activated.
        thn (if member = None then create_profile e candidate currentIntent else ret ())
        (thn (if member = None then modify (assign_teams ws (mr_id activated) teamIds) else ret ())
        (bnd (access_date e) (\<lambda>now.
        thn (update_admission (ad_id candidate) (\<lambda>a. a\<lparr>ad_status := W_ACTIVE, ad_activatedAt := Some now,
          ad_memberId := Some (mr_id activated)\<rparr>))
        (thn (admission_audit f (mr_id activated) enabled admissionLimit role teamIds)
        (emitTeamEvent e ''admission'' ws (js ''advance:'' @ ad_id candidate) None)))))))))"

definition admit_tx :: "env \<Rightarrow> admission_facts \<Rightarrow> unit atx" where
  "admit_tx e f =
     (let candidate = af_candidate f; ws = ad_workspaceId candidate; entitlement = af_entitlement f in
      bnd (gets (first_waiting ws)) (\<lambda>first.
      if map_option ad_id first \<noteq> Some (ad_id candidate) then ret ()
      else
        bnd (gets (find_workspace ws)) (\<lambda>row.
        bnd (the_or A_P2025 row) (\<lambda>workspaceRow.
        bnd (access_date e) (\<lambda>now.
        if wa_billingEntitlementId workspaceRow \<noteq> ed_id entitlement \<or> wa_lifecycle workspaceRow \<noteq> L_ACTIVE
            \<or> (case ed_graceUntil entitlement of Some t \<Rightarrow> t | None \<Rightarrow> ed_effectiveUntil entitlement) \<le> now
        then ret ()
        else
          bnd (gets (\<lambda>w. Option.bind (af_intent f) (\<lambda>i. find_intent (in_id i) w))) (\<lambda>currentIntent.
          bnd (gets (find_member_of ws (ad_subject candidate))) (\<lambda>member.
          bnd (gets (\<lambda>w. case currentIntent of Some i \<Rightarrow> in_teamIds i
             | None \<Rightarrow> (case member of None \<Rightarrow> [] | Some m \<Rightarrow> all_team_ids (mr_id m) w))) (\<lambda>teamIds.
          let role = (case currentIntent of Some i \<Rightarrow> in_role i
             | None \<Rightarrow> (case member of None \<Rightarrow> [] | Some m \<Rightarrow> mr_role m)) in
          bnd (gets (admission_obstacle f workspaceRow currentIntent member role teamIds)) (\<lambda>obstacle.
          case obstacle of
            Some code \<Rightarrow> cancelInTransaction e (the first) code
          | None \<Rightarrow> admit_member e f currentIntent member role teamIds)))))))))"

definition membership_matches :: "source_context \<Rightarrow> admission_row \<Rightarrow> bool" where
  "membership_matches context candidate =
     (case sc_membership context of
        None \<Rightarrow> False
      | Some m \<Rightarrow> mb_membershipId m = ad_membershipId candidate \<and> mb_role m = js ''MEMBER'')"

text \<open>\<open>Some code\<close> when the acceptance at Identity is gone; a failure or another acceptance throws.\<close>

definition acceptance_obstacle :: "peers \<Rightarrow> admission_row \<Rightarrow> intent_row option \<Rightarrow> string option acomp" where
  "acceptance_obstacle p candidate intent =
     (case intent of
        None \<Rightarrow> wret None
      | Some i \<Rightarrow>
          wbind (ask (\<lambda>n. Inr (pe_acceptance p n (in_id i) (ad_workspaceId candidate)))) (\<lambda>answer.
          case answer of
            Rejected \<Rightarrow> wret (Some ''INVITATION_UNAVAILABLE'')
          | Failed err \<Rightarrow> wthrow err
          | Accepted a \<Rightarrow>
              if Some (ap_id a) = ad_sourceAcceptanceId candidate \<and> ap_subject a = ad_subject candidate
                 \<and> ap_membershipId a = ad_membershipId candidate
              then wret None else wthrow (A_Fault ''ADMISSION_PROOF_CONFLICT'')))"

definition admit_entitled ::
    "env \<Rightarrow> admission_row \<Rightarrow> intent_row option \<Rightarrow> team_authority \<Rightarrow> entitlement_answer \<Rightarrow> unit acomp" where
  "admit_entitled e candidate intent actor billing =
     (case ea_entitlement billing of
        None \<Rightarrow> wret ()
      | Some d \<Rightarrow>
          if ea_status billing \<notin> {''ACTIVE'', ''GRACE''} then wret ()
          else if \<not> validInt 2 10000 (ed_seatLimit d) then wthrow (A_Unavailable ''CRM admission seat policy is unavailable'')
          else run_tx (serializable e (admit_tx e \<lparr>af_candidate = candidate, af_intent = intent, af_actor = actor,
            af_entitlement = d, af_seatLimit = as_int (ed_seatLimit d)\<rparr>)))"

definition admit_authorized :: "env \<Rightarrow> peers \<Rightarrow> admission_row \<Rightarrow> intent_row option \<Rightarrow> team_authority \<Rightarrow> unit acomp" where
  "admit_authorized e p candidate intent actor =
     (if au_state actor = ''READ_ONLY'' then wret ()
      else
        case requireManager actor (map_option in_role intent) of
          Inl err \<Rightarrow> if is_forbidden err then cancel_admission e candidate ''INVITER_AUTHORITY_REVOKED'' else wthrow err
        | Inr u \<Rightarrow>
            wbind (ask (\<lambda>n. pe_entitlement p n (ad_workspaceId candidate))) (\<lambda>billing.
            wbind (ask (\<lambda>n. pe_sourceContext p n (ad_workspaceId candidate) (ad_subject candidate))) (\<lambda>context.
            if \<not> membership_matches context candidate then cancel_admission e candidate ''MEMBERSHIP_UNAVAILABLE''
            else
              wbind (acceptance_obstacle p candidate intent) (\<lambda>obstacle.
              case obstacle of
                Some code \<Rightarrow> cancel_admission e candidate code
              | None \<Rightarrow> admit_entitled e candidate intent actor billing))))"

definition admit_candidate :: "env \<Rightarrow> peers \<Rightarrow> admission_row \<Rightarrow> intent_row option \<Rightarrow> unit acomp" where
  "admit_candidate e p candidate intent =
     wbind (wcatch (wbind (authorizeSubject p (ad_workspaceId candidate) (ad_requestedBySubject candidate) None) (\<lambda>a. wret (Inr a)))
         (\<lambda>err. wret (Inl err))) (\<lambda>authorized.
     case authorized of
       Inl err \<Rightarrow> if is_forbidden err then cancel_admission e candidate ''INVITER_AUTHORITY_REVOKED'' else wthrow err
     | Inr actor \<Rightarrow> admit_authorized e p candidate intent actor)"

definition admitNext :: "env \<Rightarrow> peers \<Rightarrow> jsstring \<Rightarrow> unit acomp" where
  "admitNext e p workspaceId =
     wthen (syncPending e p workspaceId)
     (wbind (wget (first_waiting workspaceId)) (\<lambda>found.
     case found of
       None \<Rightarrow> wret ()
     | Some candidate \<Rightarrow>
         wbind (wget (\<lambda>s. Option.bind (ad_intentId candidate) (\<lambda>i. find_intent i s))) (\<lambda>intent.
         if ad_intentId candidate \<noteq> None \<and> (case intent of None \<Rightarrow> True | Some i \<Rightarrow> in_status i = I_REVOKED)
         then cancel_admission e candidate ''INVITATION_REVOKED''
         else admit_candidate e p candidate intent)))"

end
