(* ===== verification/Access_Steps.thy ===== *)
theory Access_Steps
  imports Access_Billing Access_Admission
begin

text \<open>
  Relations between the states of CRM Access before and after a transaction. The locale \<open>access_relation\<close> holds
  for a relation that only looks at the capacities, the billing operations and the members; every team
  transaction but the admission steps along such a relation, which is proved once here. The relation used
  below is \<open>seats_kept\<close>: capacities and operations stay as they are and no workspace gains an enabled member.
\<close>

section \<open>Relations that ignore the other tables\<close>

definition aframe :: "(access \<Rightarrow> access \<Rightarrow> bool) \<Rightarrow> (('r \<Rightarrow> 'r) \<Rightarrow> access \<Rightarrow> access) \<Rightarrow> bool" where
  "aframe R upd \<longleftrightarrow> (\<forall>g w. R w (upd g w))"

lemma aframeD: "aframe R upd \<Longrightarrow> R w (upd g w)"
  by (simp add: aframe_def)

lemma row_created: "aframe R upd \<Longrightarrow> steps R (create_row get upd clash err row)"
  by (auto simp: steps_def create_row_def aframe_def split: if_splits)

lemma row_updated: "aframe R upd \<Longrightarrow> steps R (update_row get upd err P f)"
  by (auto simp: steps_def update_row_def aframe_def split: option.splits)

lemma rows_updated: "aframe R upd \<Longrightarrow> steps R (update_many get upd P f)"
  by (auto simp: steps_def update_many_def aframe_def)

text \<open>A change of a member that does not enable it.\<close>

definition not_enabled :: "member_row \<Rightarrow> member_row \<Rightarrow> bool" where
  "not_enabled m m' \<longleftrightarrow> mr_id m' = mr_id m \<and> mr_workspaceId m' = mr_workspaceId m
     \<and> (mr_disabledAt m' = None \<longrightarrow> mr_disabledAt m = None)"

locale access_relation = step_preorder R
  for R :: "access \<Rightarrow> access \<Rightarrow> bool" +
  assumes step_counters: "aframe R a_tick_update" "aframe R a_fresh_update" "aframe R t_position_update"
    and step_logs: "aframe R t_receipts_update" "aframe R t_audits_update" "aframe R t_events_update"
    and step_teams: "aframe R t_teams_update" "aframe R t_memberTeams_update" "aframe R t_profiles_update"
    and step_invitations: "aframe R t_intents_update" "aframe R t_admissions_update"
    and step_members: "(\<And>m. not_enabled m (f m)) \<Longrightarrow> R w (t_members_update (upd_rows P f) w)"
begin

lemmas step_tables = step_counters step_logs step_teams step_invitations

lemma steps_time [steps_intro]: "steps R (access_date e)" "steps R (access_uuid e)" "steps R next_position"
  using step_counters [THEN aframeD]
  by (auto simp: steps_def access_date_def access_uuid_def next_position_def)

lemma steps_creates [steps_intro]:
  "steps R (create_team_receipt r)" "steps R (create_team_row p t)" "steps R (create_intent i)" "steps R (create_admission a)"
  "steps R (create_audit u)" "steps R (create_event v)"
  unfolding create_team_receipt_def create_team_row_def create_intent_def create_admission_def create_audit_def create_event_def
  by (intro row_created step_tables)+

lemma steps_updates [steps_intro]:
  "steps R (update_team_row i f)" "steps R (update_intent i g)" "steps R (updateMany_intent P g)"
  "steps R (update_admission i h)" "steps R (updateMany_admission Q h)"
  unfolding update_team_row_def update_intent_def updateMany_intent_def update_admission_def updateMany_admission_def
  by (intro row_updated rows_updated step_tables)+

lemma steps_modify_teams [steps_intro]:
  "steps R (modify (t_memberTeams_update g))" "steps R (modify (t_profiles_update h))" "steps R (modify (assign_teams ws i ts))"
  unfolding assign_teams_def by (intro steps_modify step_tables [THEN aframeD])+

lemma steps_update_member: "(\<And>m. not_enabled m (f m)) \<Longrightarrow> steps R (update_member i f)"
  using step_members by (auto simp: steps_def update_member_def update_row_def split: option.splits)

lemma steps_serializable_from: "steps R action \<Longrightarrow> steps R (serializable_from e n k action)"
proof (induction k arbitrary: n)
  case 0
  then show ?case
    by (auto simp: steps_def split: if_splits sum.splits)
next
  case (Suc k)
  show ?case
  proof (rule stepsI)
    fix w x w'
    assume run: "serializable_from e n (Suc k) action w = Inr (x, w')"
    define w1 where "w1 = w\<lparr>a_tick := a_tick w + 1, a_fresh := a_fresh w + 1\<rparr>"
    have "R w (w\<lparr>a_tick := a_tick w + 1\<rparr>)"
      using aframeD [OF step_counters(1), of w "\<lambda>_. a_tick w + 1"] by simp
    moreover have "R (w\<lparr>a_tick := a_tick w + 1\<rparr>) w1"
      using aframeD [OF step_counters(2), of "w\<lparr>a_tick := a_tick w + 1\<rparr>" "\<lambda>_. a_fresh w + 1"] by (simp add: w1_def)
    ultimately have late: "R w w1"
      by (rule step_trans)
    have "R w1 w'" if "serializable_from e (n + 1) k action w1 = Inr (x, w')"
      using stepsD [OF Suc.IH [OF Suc.prems] that] .
    then show "R w w'"
      using run stepsD [OF Suc.prems, of w x w'] step_trans [OF late] by (auto simp: w1_def split: if_splits sum.splits)
  qed
qed

lemma steps_serializable [steps_intro]: "steps R action \<Longrightarrow> steps R (serializable e action)"
  by (simp add: serializable_def steps_serializable_from)

lemma steps_util [steps_intro]:
  "steps R (auditTeam actor c a t before after)" "steps R (emitTeamEvent e consumer ws key i)"
  unfolding auditTeam_def emitTeamEvent_def by (intro steps_intro)+

lemma steps_team_command [steps_intro]:
  "steps R action \<Longrightarrow> steps R (team_command e p actor c t body action)"
  unfolding team_command_def command_tx_def by (intro steps_intro)

lemma steps_team_checks [steps_intro]:
  "steps R (requireTeams ws ts)" "steps R (target_member actor i v)" "steps R (uniqueTeamName p ws name j)" "steps R (open_team i ws)"
  unfolding requireTeams_def target_member_def uniqueTeamName_def open_team_def by (intro steps_intro)+

lemma steps_team_txs [steps_intro]:
  "steps R (createTeam_tx e p actor dto name)" "steps R (updateTeam_tx e p actor i dto name)" "steps R (archiveTeam_tx e actor i dto)"
  unfolding createTeam_tx_def updateTeam_tx_def archiveTeam_tx_def by (intro steps_intro)+

lemma steps_invitation_txs [steps_intro]:
  "steps R (invite_tx e actor dto email ts profile)" "steps R (revokeInvitation_tx e actor i dto)"
  "steps R (mark_invited intent v)" "steps R (expire_intent intent)" "steps R (cancelInTransaction e candidate code)"
  unfolding invite_tx_def expire_invitations_def revokeInvitation_tx_def mark_invited_def expire_intent_def cancelInTransaction_def
  by (intro steps_intro)+

lemma steps_accept_tx [steps_intro]: "steps R (accept_tx e event i a)"
  unfolding accept_tx_def admit_new_tx_def by (intro steps_intro)

lemma steps_member_txs [steps_intro]:
  "steps R (changeRole_tx e actor i dto)" "steps R (setTeams_tx e actor i dto ts)" "steps R (disable_tx e actor i dto)"
  "steps R (enable_tx e actor i dto)"
  unfolding changeRole_tx_def setTeams_tx_def disable_tx_def enable_tx_def
  by (intro steps_intro steps_update_member; simp add: not_enabled_def)+

end

section \<open>Seats are kept\<close>

definition seats_kept :: "access \<Rightarrow> access \<Rightarrow> bool" where
  "seats_kept w w' \<longleftrightarrow>
     t_capacities w' = t_capacities w \<and> t_operations w' = t_operations w
     \<and> map mr_id (t_members w') = map mr_id (t_members w)
     \<and> (\<forall>ws. enabled_members ws w' \<le> enabled_members ws w)"

lemma enabled_upd_rows:
  assumes "\<And>m. not_enabled m (f m)"
  shows "count_rows (\<lambda>m. mr_workspaceId m = ws \<and> mr_disabledAt m = None) (upd_rows P f rows)
    \<le> count_rows (\<lambda>m. mr_workspaceId m = ws \<and> mr_disabledAt m = None) rows"
proof (induction rows)
  case (Cons m rows)
  then show ?case
    using assms [of m] by (auto simp: count_rows_def upd_rows_def not_enabled_def)
qed simp

interpretation kept: access_relation seats_kept
proof unfold_locales
  fix f w P
  assume f: "\<And>m. not_enabled m (f m)"
  then show "seats_kept w (t_members_update (upd_rows P f) w)"
    using enabled_upd_rows [OF f] by (simp add: seats_kept_def enabled_members_def not_enabled_def)
qed (auto simp: seats_kept_def aframe_def enabled_members_def intro: order_trans)

end
