(* ===== verification/Access_Contract.thy ===== *)
theory Access_Contract
  imports Access_Capacity Commerce_Commands
begin

text \<open>
  The contract between CRM Access and Billing: a command that CRM Access accepts from an owner passes the
  checks of Billing, and both services compute the same hash of it.
\<close>

section \<open>What a parsed command looks like\<close>

definition commerce_types :: "string list" where
  "commerce_types =
     [''WINCRM_CHECKOUT'', ''WINCRM_SEAT_CHANGE'', ''WINCRM_DISABLE_RENEWAL'', ''WINCRM_CONFIRM_RENEWAL'', ''WINCRM_VERIFY_ORDER'']"

lemma commerce_types_cases:
  assumes "type \<in> set commerce_types"
  obtains "type = ''WINCRM_CHECKOUT''" | "type = ''WINCRM_SEAT_CHANGE''" | "type = ''WINCRM_DISABLE_RENEWAL''"
    | "type = ''WINCRM_CONFIRM_RENEWAL''" | "type = ''WINCRM_VERIFY_ORDER''"
proof -
  have "type = ''WINCRM_CHECKOUT'' \<or> type = ''WINCRM_SEAT_CHANGE'' \<or> type = ''WINCRM_DISABLE_RENEWAL''
    \<or> type = ''WINCRM_CONFIRM_RENEWAL'' \<or> type = ''WINCRM_VERIFY_ORDER''"
    using assms by (simp add: commerce_types_def)
  then show ?thesis
    by (elim disjE) (fact that)+
qed

lemma hasExactKeys_JObj:
  assumes "hasExactKeys (JObj kvs) expected" "distinct expected"
  shows "fst ` set kvs = js ` set expected" "distinct (map fst kvs)"
proof -
  have "mset (map fst kvs) = mset (map js expected)"
    using assms(1) by (metis hasExactKeys_def mset_sort object_keys.simps(1))
  then show "fst ` set kvs = js ` set expected" "distinct (map fst kvs)"
    using assms(2) by (metis list.set_map mset_eq_setD, metis distinct_map inj_on_def js_inject mset_eq_imp_distinct_iff)
qed

lemma distinct_command_keys: "distinct (command_keys type)"
  by (simp add: command_keys_def)

lemma parseCommandE:
  assumes "parseCommand type body key actor = Inr request"
  obtains kvs where "body = JObj kvs" "request = JObj (kvs @ [(js ''actorSubject'', JStr actor)])"
    "fst ` set kvs = js ` set (command_keys type)" "distinct (map fst kvs)"
    "jsfield body ''schemaVersion'' = JInt 1" "validUuid (jsfield body ''commandId'')" "validUuid (jsfield body ''workspaceId'')"
    "validVersion (jsfield body ''expectedBillingVersion'')" "validSubject (JStr actor)" "command_fields_ok type body"
proof -
  obtain kvs where body: "body = JObj kvs"
    using assms by (cases body) (auto simp: parseCommand_def isRecord_def)
  show ?thesis
    using assms that [OF body] hasExactKeys_JObj [of kvs "command_keys type"] distinct_command_keys
    unfolding body parseCommand_def workspace_def by (auto simp: sbind_def split: if_splits)
qed

text \<open>The properties of the request: those of the body, and the owner as \<open>actorSubject\<close>.\<close>

lemma parsed_field:
  assumes "parseCommand type body key actor = Inr request"
  shows "jsfield request k = (if k = ''actorSubject'' then JStr actor else jsfield body k)"
proof -
  obtain kvs where kvs: "body = JObj kvs" "request = JObj (kvs @ [(js ''actorSubject'', JStr actor)])"
    "fst ` set kvs = js ` set (command_keys type)"
    using assms by (rule parseCommandE) blast
  have "js ''actorSubject'' \<notin> fst ` set kvs"
    unfolding kvs(3) by (auto simp: command_keys_def split: if_splits)
  then have "map_of kvs (js ''actorSubject'') = None"
    by (simp add: map_of_eq_None_iff)
  then show ?thesis
    by (auto simp: kvs(1,2) map_add_def split: option.splits)
qed

lemma parsed_keys:
  assumes "parseCommand type body key actor = Inr request"
  shows "set (object_keys request) = js ` (set (command_keys type) \<union> {''actorSubject''})"
    "distinct (object_keys request)" "\<exists>kvs. request = JObj kvs"
proof -
  obtain kvs where kvs: "request = JObj (kvs @ [(js ''actorSubject'', JStr actor)])"
    "fst ` set kvs = js ` set (command_keys type)" "distinct (map fst kvs)"
    using assms by (rule parseCommandE) blast
  show "set (object_keys request) = js ` (set (command_keys type) \<union> {''actorSubject''})" "\<exists>kvs. request = JObj kvs"
    by (auto simp: kvs)
  have "js ''actorSubject'' \<notin> fst ` set kvs"
    unfolding kvs(2) by (auto simp: command_keys_def split: if_splits)
  then show "distinct (object_keys request)"
    using kvs(3) by (simp add: kvs(1))
qed

text \<open>Seats are the target of a checkout and of a change of seats, and of no other command.\<close>

lemma parsed_target:
  assumes "parseCommand type body key actor = Inr request" "type \<in> set commerce_types"
  shows "target_seats request =
    (if type = ''WINCRM_CHECKOUT'' then Some (as_int (jsfield request ''totalSeats''))
     else if type = ''WINCRM_SEAT_CHANGE'' then Some (as_int (jsfield request ''newTotalSeats'')) else None)"
proof -
  have has: "js k \<in> set (object_keys request) \<longleftrightarrow> k = ''actorSubject'' \<or> k \<in> set (command_keys type)" for k
    by (simp add: parsed_keys(1) [OF assms(1)] image_iff)
  from assms(2) show ?thesis
    by (cases type rule: commerce_types_cases) (simp_all add: target_seats_def has command_keys_def)
qed

lemma valid_seats: "validSeats v \<Longrightarrow> \<exists>n. v = JInt n \<and> 2 \<le> n \<and> n \<le> 10000"
  by (cases v) (auto simp: validSeats_def validInt_def)

lemma parsed_seats:
  assumes "parseCommand type body key actor = Inr request"
  shows "type = ''WINCRM_CHECKOUT'' \<Longrightarrow> validSeats (jsfield request ''totalSeats'')"
    "type = ''WINCRM_SEAT_CHANGE'' \<Longrightarrow> validSeats (jsfield request ''newTotalSeats'')"
proof -
  have "command_fields_ok type body"
    using assms by (rule parseCommandE)
  then show "type = ''WINCRM_CHECKOUT'' \<Longrightarrow> validSeats (jsfield request ''totalSeats'')"
    "type = ''WINCRM_SEAT_CHANGE'' \<Longrightarrow> validSeats (jsfield request ''newTotalSeats'')"
    by (simp_all add: command_fields_ok_def parsed_field [OF assms])
qed

lemma parsed_target_range:
  assumes "parseCommand type body key actor = Inr request" "type \<in> set commerce_types" "target_seats request = Some n"
  shows "2 \<le> n \<and> n \<le> 10000" "type = ''WINCRM_CHECKOUT'' \<or> type = ''WINCRM_SEAT_CHANGE''"
  using parsed_target [OF assms(1,2)] assms(3) parsed_seats [OF assms(1)] by (auto dest!: valid_seats split: if_splits)

lemma match_classes_lower:
  assumes "match_classes ps s" "lower_case s" "list_all2 (\<lambda>p q. \<forall>c. p c \<and> \<not> (65 \<le> c \<and> c \<le> 90) \<longrightarrow> q c) ps qs"
  shows "match_classes qs s"
  using assms
proof (induction s arbitrary: ps qs)
  case (Cons c s)
  then show ?case
    by (cases ps; cases qs) (auto simp: match_classes_def lower_case_def)
qed (auto simp: match_classes_def)

lemma valid_uuid: "validUuid v \<Longrightarrow> commerceUuid v"
proof -
  assume v: "validUuid v"
  then obtain s where s: "v = JStr s" "match_classes UUID_V4 s" "lower_case s"
    by (cases v) (auto simp: validUuid_def isUuidV4_def)
  have "list_all2 (\<lambda>p q. \<forall>c. p c \<and> \<not> (65 \<le> c \<and> c \<le> 90) \<longrightarrow> q c) UUID_V4 WINCRM_UUID"
    unfolding UUID_V4_def WINCRM_UUID_def
    by (intro list_all2_appendI) (auto simp: list_all2_conv_all_nth is_hex_def is_lower_hex_def)
  then show ?thesis
    using match_classes_lower [OF s(2,3)] s(1) by (simp add: commerceUuid_def)
qed

lemma valid_version: "validVersion v = commerceVersion v"
  by (simp add: validVersion_def commerceVersion_def)

lemma valid_int: "validInt a b v = commerceInt v a b"
  by (simp add: validInt_def commerceInt_def)

lemma valid_subject: "validSubject (JStr s) \<Longrightarrow> commerceText (JStr s) 256 \<and> \<not> list_ex is_space s"
  by (auto simp: validSubject_def commerceText_def control_or_replacement_def list_ex_iff)

lemma valid_hash: "validHash (JStr s) = match_classes WINCRM_HASH s"
  by (simp add: validHash_def WINCRM_HASH_def)

text \<open>The checks that all commands share in Billing.\<close>

lemma parsed_checks:
  assumes "parseCommand type body key actor = Inr request"
  shows "context_ok request" "command_ok request" "cmd_of request \<noteq> []"
proof -
  obtain kvs where f: "jsfield body ''schemaVersion'' = JInt 1" "validUuid (jsfield body ''commandId'')"
    "validUuid (jsfield body ''workspaceId'')" "validVersion (jsfield body ''expectedBillingVersion'')" "validSubject (JStr actor)"
    using assms by (rule parseCommandE) blast
  show "context_ok request" "command_ok request"
    using f valid_subject [OF f(5)] by (simp_all add: context_ok_def command_ok_def parsed_field [OF assms] valid_uuid valid_version)
  show "cmd_of request \<noteq> []"
    using f(2) match_classes_length [of UUID_V4 "as_str (jsfield body ''commandId'')"]
    by (auto simp: parsed_field [OF assms] validUuid_def isUuidV4_def UUID_V4_def split: jsval.splits)
qed

section \<open>The stored request\<close>

fun scalar :: "jsval \<Rightarrow> bool" where
  "scalar (JStr s) = True"
| "scalar (JInt n) = True"
| "scalar (JBool b) = True"
| "scalar JNull = True"
| "scalar v = False"

lemma scalar_cases: "scalar v \<Longrightarrow> json v = v \<and> v \<noteq> JUndef \<and> json_value v"
  by (cases v) auto

lemma valid_scalar:
  "validUuid v \<Longrightarrow> scalar v" "validVersion v \<Longrightarrow> scalar v" "positive v \<Longrightarrow> scalar v" "validConsent v \<Longrightarrow> scalar v"
  "validCycle v \<Longrightarrow> scalar v" "validSeats v \<Longrightarrow> scalar v" "validInt 0 2147483646 v \<Longrightarrow> scalar v"
  by (cases v; auto simp: validUuid_def isUuidV4_def validVersion_def validInt_def validConsent_def validCycle_def validSeats_def)+

lemma parsed_fields_scalar:
  assumes "parseCommand type body key actor = Inr request" "type \<in> set commerce_types" "name \<in> set (command_keys type)"
  shows "scalar (jsfield body name)"
proof -
  obtain kvs where f: "jsfield body ''schemaVersion'' = JInt 1" "validUuid (jsfield body ''commandId'')"
    "validUuid (jsfield body ''workspaceId'')" "validVersion (jsfield body ''expectedBillingVersion'')" "command_fields_ok type body"
    using assms(1) by (rule parseCommandE) blast
  from assms(2) have "list_all (\<lambda>k. scalar (jsfield body k)) (command_keys type)"
  proof (cases type rule: commerce_types_cases)
    case 1
    then show ?thesis
      using f by (auto simp: command_keys_def command_fields_ok_def valid_scalar)
  qed (use f in \<open>simp_all add: command_keys_def command_fields_ok_def valid_scalar\<close>)
  then show ?thesis
    using assms(3) by (simp add: list_all_iff)
qed

lemma not_array_index: "c \<notin> {48..57} \<Longrightarrow> \<not> array_index (c # s)"
  by (auto simp: array_index_def is_digit_def)

lemma command_keys_plain: "name \<in> set (command_keys type) \<Longrightarrow> \<not> array_index (js name)" "\<not> array_index (js ''actorSubject'')"
proof -
  have "list_all (\<lambda>k. \<not> array_index (js k)) (command_keys type)"
    by (simp add: command_keys_def js_def not_array_index)
  then show "name \<in> set (command_keys type) \<Longrightarrow> \<not> array_index (js name)"
    by (simp add: list_all_iff)
qed (simp add: js_def not_array_index)

lemma parsed_scalar:
  assumes "parseCommand type body key actor = Inr request" "type \<in> set commerce_types" "(k, v) \<in> set kvs" "request = JObj kvs"
  shows "scalar v" "\<not> array_index k"
proof -
  have "k \<in> fst ` set kvs"
    using assms(3) by (rule rev_image_eqI) simp
  then have "k \<in> js ` (set (command_keys type) \<union> {''actorSubject''})"
    unfolding parsed_keys(1) [OF assms(1), symmetric] by (simp add: assms(4))
  then obtain name where name: "k = js name" "name \<in> set (command_keys type) \<union> {''actorSubject''}"
    by (rule imageE)
  have "v = jsfield request name"
    using parsed_keys(2) [OF assms(1)] assms(3,4) name(1) by simp
  then have v: "v = (if name = ''actorSubject'' then JStr actor else jsfield body name)"
    by (simp add: parsed_field [OF assms(1)])
  show "scalar v"
    unfolding v using parsed_fields_scalar [OF assms(1,2), of name] name(2) by (cases "name = ''actorSubject''") simp_all
  show "\<not> array_index k"
    unfolding name(1) using name(2) command_keys_plain by (cases "name = ''actorSubject''") simp_all
qed

lemma parsed_json:
  assumes "parseCommand type body key actor = Inr request" "type \<in> set commerce_types"
  shows "json request = request" "json_value request"
proof -
  obtain kvs where kvs: "request = JObj kvs"
    using parsed_keys(3) [OF assms(1)] by blast
  have each: "json v = v \<and> v \<noteq> JUndef \<and> json_value v \<and> \<not> array_index k" if "(k, v) \<in> set kvs" for k v
    using scalar_cases parsed_scalar [OF assms that kvs] by blast
  then have "map (\<lambda>(k, v). (k, json v)) kvs = kvs"
    by (intro map_idI) auto
  moreover have "filter (\<lambda>(k, v). v \<noteq> JUndef) kvs = kvs"
    using each by (intro filter_True) auto
  ultimately show "json request = request"
    by (simp add: kvs)
  show "json_value request"
    using each by (auto simp: kvs list_all_iff)
qed

section \<open>One hash\<close>

lemma commerceHash_billing:
  assumes "json_value payload" "payload \<noteq> JUndef"
  shows "billingCommandRequestHash (sha256 e) type payload = Inr (commerceHash e type payload)"
proof -
  have "json_value (obj [(''commandType'', JStr (js type)), (''payload'', payload)])"
    using assms(1) not_array_index by (simp add: obj_def js_def)
  from same_text [OF this] show ?thesis
    by (auto simp: billingCommandRequestHash_def commerceHash_def)
qed

text \<open>The body of the request with the fence: Billing leaves the fence out of the hash.\<close>

lemma parsed_without_fence:
  assumes "parseCommand type body key actor = Inr request"
  shows "without (with_property request ''capacityFence'' f) ''capacityFence'' = request" "without request ''capacityFence'' = request"
proof -
  obtain kvs where kvs: "request = JObj kvs"
    using parsed_keys(3) [OF assms] by blast
  have "js ''capacityFence'' \<notin> set (object_keys request)"
    unfolding parsed_keys(1) [OF assms] by (simp add: image_iff command_keys_def)
  then have "filter (\<lambda>(k, v). k \<noteq> js ''capacityFence'') kvs = kvs"
    by (intro filter_True) (auto simp: kvs rev_image_eqI)
  then show "without (with_property request ''capacityFence'' f) ''capacityFence'' = request" "without request ''capacityFence'' = request"
    by (simp_all add: kvs)
qed

lemma with_property_field:
  assumes "parseCommand type body key actor = Inr request"
  shows "jsfield (with_property request ''capacityFence'' f) k = (if k = ''capacityFence'' then f else jsfield request k)"
proof -
  obtain kvs where kvs: "request = JObj kvs"
    using parsed_keys(3) [OF assms] by blast
  have "js ''capacityFence'' \<notin> fst ` set kvs"
    using parsed_keys(1) [OF assms] by (simp add: kvs image_iff command_keys_def)
  then have "map_of kvs (js ''capacityFence'') = None"
    by (simp add: map_of_eq_None_iff)
  then show ?thesis
    by (auto simp: kvs map_add_def split: option.splits)
qed

lemma parsed_hash:
  assumes "parseCommand type body key actor = Inr request" "type \<in> set commerce_types"
  shows "wincrmCommerceRequestHash e type request = Inr (commerceHash e type request)"
    "wincrmCommerceRequestHash e type (with_property request ''capacityFence'' f) = Inr (commerceHash e type request)"
proof -
  have "request \<noteq> JUndef"
    using parsed_keys(3) [OF assms(1)] by auto
  then show "wincrmCommerceRequestHash e type request = Inr (commerceHash e type request)"
    "wincrmCommerceRequestHash e type (with_property request ''capacityFence'' f) = Inr (commerceHash e type request)"
    using commerceHash_billing [OF parsed_json(2) [OF assms]]
    by (simp_all add: wincrmCommerceRequestHash_def parsed_without_fence [OF assms(1)])
qed

section \<open>Stored operations\<close>

text \<open>An operation that was started comes from a parsed command of its owner.\<close>

definition from_command :: "env \<Rightarrow> string \<Rightarrow> jsval \<Rightarrow> billing_op \<Rightarrow> bool" where
  "from_command e type request x \<longleftrightarrow>
     type \<in> set commerce_types \<and> (\<exists>body key actor. parseCommand type body key actor = Inr request)
     \<and> bo_commandId x = cmd_of request \<and> bo_workspaceId x = ws_of request \<and> bo_actorSubject x = actor_of request
     \<and> bo_commandType x = type \<and> bo_requestHash x = Some (commerceHash e type request) \<and> bo_request x = Some request
     \<and> bo_targetSeats x = target_seats request"

definition operation_origin :: "env \<Rightarrow> billing_op \<Rightarrow> bool" where
  "operation_origin e x \<longleftrightarrow> bo_state x = S_NOT_STARTED \<or> (\<exists>type request. from_command e type request x)"

text \<open>The checks of Billing's five commands on the body of a request.\<close>

definition billing_accepts :: "env \<Rightarrow> string \<Rightarrow> jsval \<Rightarrow> jsstring \<Rightarrow> bool" where
  "billing_accepts e type dto hash \<longleftrightarrow>
     context_ok dto \<and> command_ok dto \<and> wincrmCommerceRequestHash e type dto = Inr hash
     \<and> (type = ''WINCRM_CHECKOUT'' \<longrightarrow> fence_ok (jsfield dto ''capacityFence'') (cmd_of dto) hash (jsfield dto ''totalSeats'')
          \<and> checkout_dto_ok dto)
     \<and> (type = ''WINCRM_SEAT_CHANGE'' \<longrightarrow> seat_dto_ok dto
          \<and> fence_ok (jsfield dto ''capacityFence'') (cmd_of dto) hash (jsfield dto ''newTotalSeats''))
     \<and> (type = ''WINCRM_DISABLE_RENEWAL'' \<or> type = ''WINCRM_CONFIRM_RENEWAL'' \<longrightarrow>
          commerceInt (jsfield dto ''expectedRenewalVersion'') 1 2147483646)
     \<and> (type = ''WINCRM_VERIFY_ORDER'' \<longrightarrow> commerceUuid (jsfield dto ''orderId'')
          \<and> commerceInt (jsfield dto ''expectedOrderVersion'') 1 2147483646)"

text \<open>
  Two conditions that CRM Access does not check: that the consent names the current text, which only Billing
  knows, and that the expected version of a renewal is not 0, which \<open>parseCommand\<close> admits.
\<close>

definition current_command :: "jsval \<Rightarrow> bool" where
  "current_command dto \<longleftrightarrow>
     jsfield dto ''consentVersion'' \<in> {JUndef, JNull, JStr WINCRM_CONSENT_VERSION}
     \<and> jsfield dto ''expectedRenewalVersion'' \<noteq> JInt 0"

lemma fence_accepted:
  assumes "2 \<le> n" "n \<le> 10000" "1 \<le> r" "r \<le> 2147483646"
  shows "fence_ok (obj [(''operationId'', JStr i), (''requestHash'', JStr h), (''fenceRevision'', JInt r), (''targetSeats'', JInt n)])
    i h (JInt n)"
proof -
  have "is_safe_integer n" "is_safe_integer r"
    using assms by (simp_all add: is_safe_integer_def MAX_SAFE_INTEGER_def)
  then show ?thesis
    unfolding fence_ok_def jsfield_obj using assms
    by (simp add: commerceInt_def commerceRecord_def obj_def)
qed

lemma positive_version: "commerceInt v 0 m \<Longrightarrow> v \<noteq> JInt 0 \<Longrightarrow> commerceInt v 1 m"
  by (cases v) (auto simp: commerceInt_def)

lemma command_fields_accepted:
  assumes "parseCommand type body key actor = Inr request" and f: "\<And>k. k \<noteq> ''capacityFence'' \<Longrightarrow> jsfield dto k = jsfield request k"
  shows "context_ok dto" "command_ok dto"
    "type = ''WINCRM_CHECKOUT'' \<Longrightarrow> current_command dto \<Longrightarrow> checkout_dto_ok dto"
    "type = ''WINCRM_SEAT_CHANGE'' \<Longrightarrow> seat_dto_ok dto"
    "type = ''WINCRM_DISABLE_RENEWAL'' \<or> type = ''WINCRM_CONFIRM_RENEWAL'' \<Longrightarrow> current_command dto \<Longrightarrow>
       commerceInt (jsfield dto ''expectedRenewalVersion'') 1 2147483646"
    "type = ''WINCRM_VERIFY_ORDER'' \<Longrightarrow> commerceUuid (jsfield dto ''orderId'')
       \<and> commerceInt (jsfield dto ''expectedOrderVersion'') 1 2147483646"
proof -
  have ok: "command_fields_ok type body"
    using assms(1) by (rule parseCommandE)
  have dto: "k \<noteq> ''capacityFence'' \<Longrightarrow> k \<noteq> ''actorSubject'' \<Longrightarrow> jsfield dto k = jsfield body k" for k
    using f parsed_field [OF assms(1)] by simp
  show "context_ok dto" "command_ok dto"
    using parsed_checks [OF assms(1)] by (simp_all add: context_ok_def command_ok_def f)
  show "type = ''WINCRM_CHECKOUT'' \<Longrightarrow> current_command dto \<Longrightarrow> checkout_dto_ok dto"
    using ok by (auto simp: dto command_fields_ok_def checkout_dto_ok_def validCycle_def commerceCycle_def validSeats_def valid_int
      validConsent_def current_command_def)
  show "type = ''WINCRM_SEAT_CHANGE'' \<Longrightarrow> seat_dto_ok dto"
    using ok by (simp add: dto command_fields_ok_def seat_dto_ok_def validSeats_def valid_int valid_uuid)
  show "type = ''WINCRM_DISABLE_RENEWAL'' \<or> type = ''WINCRM_CONFIRM_RENEWAL'' \<Longrightarrow> current_command dto \<Longrightarrow>
       commerceInt (jsfield dto ''expectedRenewalVersion'') 1 2147483646"
    using ok positive_version by (auto simp: dto command_fields_ok_def valid_int current_command_def)
  show "type = ''WINCRM_VERIFY_ORDER'' \<Longrightarrow> commerceUuid (jsfield dto ''orderId'')
       \<and> commerceInt (jsfield dto ''expectedOrderVersion'') 1 2147483646"
    using ok by (simp add: dto command_fields_ok_def valid_int valid_uuid)
qed

lemma command_body_accepted:
  assumes x: "from_command e type request x" and fence: "bo_targetSeats x \<noteq> None \<Longrightarrow>
      \<exists>r. bo_fenceRevision x = Some r \<and> 1 \<le> r \<and> r \<le> 2147483646" and hash: "commerceHash e type request \<noteq> []"
  shows "\<exists>dto. command_body x = Inr dto
    \<and> (current_command dto \<longrightarrow> billing_accepts e type dto (commerceHash e type request))"
proof -
  obtain body key actor where parsed: "parseCommand type body key actor = Inr request" and type: "type \<in> set commerce_types"
    using x by (auto simp: from_command_def)
  have fields: "bo_request x = Some request" "bo_requestHash x = Some (commerceHash e type request)"
    "bo_targetSeats x = target_seats request" "bo_commandId x = cmd_of request"
    using x by (simp_all add: from_command_def)
  show ?thesis
  proof (cases "target_seats request")
    case None
    then have "type \<noteq> ''WINCRM_CHECKOUT''" "type \<noteq> ''WINCRM_SEAT_CHANGE''"
      using parsed_target [OF parsed type] by auto
    moreover have "command_body x = Inr request"
      by (simp add: command_body_def fields None)
    ultimately show ?thesis
      using command_fields_accepted [OF parsed, of request] parsed_hash(1) [OF parsed type] by (auto simp: billing_accepts_def)
  next
    case (Some n)
    obtain r where r: "bo_fenceRevision x = Some r" "1 \<le> r" "r \<le> 2147483646"
      using fence Some fields(3) by auto
    define f where "f = obj [(''operationId'', JStr (bo_commandId x)), (''requestHash'', JStr (commerceHash e type request)),
      (''fenceRevision'', JInt r), (''targetSeats'', JInt n)]"
    let ?dto = "with_property request ''capacityFence'' f"
    have body: "command_body x = Inr ?dto"
      using hash by (simp add: command_body_def capacity_fence_def fields Some r(1) f_def)
    have n: "2 \<le> n" "n \<le> 10000" "type = ''WINCRM_CHECKOUT'' \<or> type = ''WINCRM_SEAT_CHANGE''"
      using parsed_target_range [OF parsed type Some] by auto
    have dto: "jsfield ?dto k = (if k = ''capacityFence'' then f else jsfield request k)" for k
      by (rule with_property_field [OF parsed])
    have seats: "type = ''WINCRM_CHECKOUT'' \<Longrightarrow> jsfield request ''totalSeats'' = JInt n"
      "type = ''WINCRM_SEAT_CHANGE'' \<Longrightarrow> jsfield request ''newTotalSeats'' = JInt n"
      using parsed_target [OF parsed type] Some parsed_seats [OF parsed] by (auto dest!: valid_seats)
    have "fence_ok f (cmd_of request) (commerceHash e type request) (JInt n)"
      unfolding f_def fields(4) by (rule fence_accepted [OF n(1,2) r(2,3)])
    then show ?thesis
      using command_fields_accepted [OF parsed, of ?dto] parsed_hash(2) [OF parsed type, of e f] n(3) seats body
      by (auto simp: billing_accepts_def dto)
  qed
qed

end
