(* ===== verification/Seat_Invariant.thy ===== *)
theory Seat_Invariant
  imports Access_Capacity
begin

text \<open>
  The invariant behind the reservation of seats, stated on the tables alone: the capacities, the billing
  operations and the number of enabled members of each workspace. It contains the conditions that the
  migration \<open>20260906120000_crm_billing_capacity\<close> checks in the database. Each lemma of the second part shows
  that one kind of change of the tables keeps it.
\<close>

section \<open>The invariant\<close>

definition operation_checked :: "billing_op \<Rightarrow> bool" where
  "operation_checked x \<longleftrightarrow>
     (bo_fenceRevision x = None) = (bo_targetSeats x = None)
     \<and> (\<forall>r. bo_fenceRevision x = Some r \<longrightarrow> 1 \<le> r \<and> r \<le> 2147483646)
     \<and> (\<forall>n. bo_targetSeats x = Some n \<longrightarrow> 2 \<le> n \<and> n \<le> 10000)
     \<and> (bo_commandType x \<in> {''WINCRM_CHECKOUT'', ''WINCRM_SEAT_CHANGE''}) = (bo_fenceRevision x \<noteq> None)
     \<and> (if bo_state x = S_NOT_STARTED
        then bo_commandType x = ''WINCRM_NOT_STARTED'' \<and> bo_requestHash x = None \<and> bo_request x = None
          \<and> bo_proof x = None \<and> bo_releaseFence x
        else bo_commandType x \<noteq> ''WINCRM_NOT_STARTED'' \<and> bo_requestHash x \<noteq> None
          \<and> (\<exists>kvs. bo_request x = Some (JObj kvs)))
     \<and> (bo_releaseFence x \<longrightarrow> bo_state x \<noteq> S_PENDING)
     \<and> (bo_holdUntil x \<noteq> None \<longrightarrow> bo_state x = S_COMMITTED \<and> \<not> bo_releaseFence x)
     \<and> (\<forall>v. bo_billingVersion x = Some v \<longrightarrow> validVersion (JStr v))"

definition pending_binding :: "capacity_row \<Rightarrow> (jsstring \<Rightarrow> int) \<Rightarrow> billing_op \<Rightarrow> bool" where
  "pending_binding c used x \<longleftrightarrow>
     bo_workspaceId x = ca_workspaceId c \<and> bo_fenceRevision x = Some (ca_revision c)
     \<and> bo_targetSeats x = ca_pendingTargetSeats c \<and> \<not> bo_releaseFence x
     \<and> (bo_state x = S_PENDING \<or> bo_state x = S_COMMITTED)
     \<and> 1 + used (ca_workspaceId c) \<le> the (bo_targetSeats x)"

definition latest_binding :: "capacity_row \<Rightarrow> (jsstring \<Rightarrow> int) \<Rightarrow> billing_op \<Rightarrow> bool" where
  "latest_binding c used x \<longleftrightarrow>
     bo_workspaceId x = ca_workspaceId c \<and> bo_state x = S_COMMITTED \<and> bo_targetSeats x \<noteq> None
     \<and> (if bo_releaseFence x
        then ca_admissionCeiling c = bo_targetSeats x \<and> 1 + used (ca_workspaceId c) \<le> the (bo_targetSeats x)
        else ca_pendingOperationId c = Some (bo_commandId x))"

definition capacity_bound :: "billing_op list \<Rightarrow> (jsstring \<Rightarrow> int) \<Rightarrow> capacity_row \<Rightarrow> bool" where
  "capacity_bound ops used c \<longleftrightarrow>
     0 \<le> ca_revision c \<and> ca_revision c \<le> 2147483646
     \<and> (\<forall>n. ca_admissionCeiling c = Some n \<longrightarrow> 2 \<le> n \<and> n \<le> 10000)
     \<and> (ca_pendingOperationId c = None) = (ca_pendingTargetSeats c = None)
     \<and> (\<forall>i. ca_pendingOperationId c = Some i \<longrightarrow> i \<noteq> [] \<and> (\<exists>x\<in>set ops. bo_commandId x = i \<and> pending_binding c used x))
     \<and> (\<forall>i. ca_latestCommittedOperationId c = Some i \<longrightarrow> (\<exists>x\<in>set ops. bo_commandId x = i \<and> latest_binding c used x))"

definition operation_bound :: "capacity_row list \<Rightarrow> billing_op \<Rightarrow> bool" where
  "operation_bound caps x \<longleftrightarrow>
     operation_checked x
     \<and> (bo_targetSeats x \<noteq> None \<and> \<not> bo_releaseFence x \<longrightarrow>
          (\<exists>c\<in>set caps. ca_workspaceId c = bo_workspaceId x \<and> ca_pendingOperationId c = Some (bo_commandId x)))
     \<and> (\<forall>r. bo_fenceRevision x = Some r \<longrightarrow> (\<exists>c\<in>set caps. ca_workspaceId c = bo_workspaceId x \<and> r \<le> ca_revision c))"

definition seats_inv :: "capacity_row list \<Rightarrow> billing_op list \<Rightarrow> (jsstring \<Rightarrow> int) \<Rightarrow> bool" where
  "seats_inv caps ops used \<longleftrightarrow>
     distinct (map ca_workspaceId caps) \<and> distinct (map bo_commandId ops)
     \<and> (\<forall>c\<in>set caps. capacity_bound ops used c) \<and> (\<forall>x\<in>set ops. operation_bound caps x)"

lemma seats_invD:
  assumes "seats_inv caps ops used"
  shows "distinct (map ca_workspaceId caps)" "distinct (map bo_commandId ops)"
    "c \<in> set caps \<Longrightarrow> capacity_bound ops used c" "x \<in> set ops \<Longrightarrow> operation_bound caps x"
  using assms by (auto simp: seats_inv_def)

lemma seats_inv_empty: "seats_inv [] [] used"
  by (simp add: seats_inv_def)

section \<open>Changes of the tables\<close>

text \<open>A row is known by its key.\<close>

lemma key_unique: "distinct (map key rows) \<Longrightarrow> a \<in> set rows \<Longrightarrow> b \<in> set rows \<Longrightarrow> key a = key b \<Longrightarrow> a = b"
  by (auto simp: distinct_map inj_on_def)

lemma set_upd_key:
  assumes "distinct (map key rows)" "x \<in> set rows" "key x = k"
  shows "set (upd_rows (\<lambda>r. key r = k) f rows) = insert (f x) {r \<in> set rows. key r \<noteq> k}"
proof -
  have "r = x" if "r \<in> set rows" "key r = k" for r
    using key_unique [OF assms(1) that(1) assms(2)] that(2) assms(3) by simp
  then have rows: "set rows = insert x {r \<in> set rows. key r \<noteq> k}"
    using assms(2) by blast
  show ?thesis
    unfolding set_upd_rows by (subst rows) (simp add: assms(3) image_iff, blast)
qed

lemma find_key: "distinct (map key rows) \<Longrightarrow> x \<in> set rows \<Longrightarrow> key x = k \<Longrightarrow> find (\<lambda>r. key r = k) rows = Some x"
  by (induction rows) auto

lemma capacity_bound_members:
  assumes "capacity_bound ops used c"
    and "\<And>x. ca_pendingTargetSeats c \<noteq> None \<Longrightarrow> pending_binding c used x \<Longrightarrow> pending_binding c used' x"
    and "\<And>x. latest_binding c used x \<Longrightarrow> latest_binding c used' x"
  shows "capacity_bound ops used' c"
proof -
  have "\<exists>x\<in>set ops. bo_commandId x = i \<and> pending_binding c used' x" if "ca_pendingOperationId c = Some i" for i
    using assms(1,2) that unfolding capacity_bound_def by (metis option.distinct(1))
  moreover have "\<exists>x\<in>set ops. bo_commandId x = i \<and> latest_binding c used' x" if "ca_latestCommittedOperationId c = Some i" for i
    using assms(1,3) that unfolding capacity_bound_def by blast
  ultimately show ?thesis
    using assms(1) unfolding capacity_bound_def by simp
qed

lemma fewer_members:
  assumes "seats_inv caps ops used" "\<And>ws. used' ws \<le> used ws"
  shows "seats_inv caps ops used'"
proof -
  have "pending_binding c used x \<Longrightarrow> pending_binding c used' x" "latest_binding c used x \<Longrightarrow> latest_binding c used' x" for c x
    using assms(2) [of "ca_workspaceId c"] by (auto simp: pending_binding_def latest_binding_def split: if_splits)
  then have "capacity_bound ops used c \<Longrightarrow> capacity_bound ops used' c" for c
    by (auto elim: capacity_bound_members)
  then show ?thesis
    using assms(1) by (auto simp: seats_inv_def)
qed

text \<open>An admission below the effective ceiling.\<close>

lemma one_more_member:
  assumes inv: "seats_inv caps ops used"
    and ceiling: "1 + used ws < effectiveAdmissionCeiling limit (find (\<lambda>c. ca_workspaceId c = ws) caps)"
    and used': "\<And>v. used' v \<le> (if v = ws then used ws + 1 else used v)"
  shows "seats_inv caps ops used'"
proof -
  have "capacity_bound ops used' c" if c: "c \<in> set caps" for c
  proof (cases "ca_workspaceId c = ws")
    case True
    have "find (\<lambda>c. ca_workspaceId c = ws) caps = Some c"
      by (rule find_key [OF seats_invD(1) [OF inv] c True])
    then have "ca_pendingTargetSeats c \<noteq> None \<Longrightarrow> pending_binding c used x \<Longrightarrow> pending_binding c used' x"
      and "latest_binding c used x \<Longrightarrow> latest_binding c used' x" for x
      using ceiling used' [of ws] True
      by (auto simp: effectiveAdmissionCeiling_def pending_binding_def latest_binding_def split: if_splits option.splits)
    then show ?thesis
      using capacity_bound_members [OF seats_invD(3) [OF inv c]] by blast
  next
    case False
    then have "pending_binding c used x \<Longrightarrow> pending_binding c used' x" "latest_binding c used x \<Longrightarrow> latest_binding c used' x" for x
      using used' [of "ca_workspaceId c"] by (auto simp: pending_binding_def latest_binding_def split: if_splits)
    then show ?thesis
      using capacity_bound_members [OF seats_invD(3) [OF inv c]] by blast
  qed
  then show ?thesis
    using inv by (auto simp: seats_inv_def)
qed

text \<open>A new operation that reserves no seats.\<close>

lemma new_operation_without_seats:
  assumes inv: "seats_inv caps ops used" and new: "bo_commandId x \<notin> bo_commandId ` set ops"
    and x: "operation_checked x" "bo_targetSeats x = None"
  shows "seats_inv caps (ops @ [x]) used"
proof -
  have "operation_bound caps x"
    using x by (auto simp: operation_bound_def operation_checked_def)
  moreover have "capacity_bound ops used c \<Longrightarrow> capacity_bound (ops @ [x]) used c" for c
    by (auto simp: capacity_bound_def)
  ultimately show ?thesis
    using inv new by (auto simp: seats_inv_def)
qed

text \<open>Operations whose state and binding stay the same.\<close>

lemma operations_same_binding:
  assumes inv: "seats_inv caps ops used"
    and f: "\<And>x. bo_commandId (f x) = bo_commandId x" "\<And>x. operation_checked (f x) = operation_checked x"
      "\<And>x. bo_workspaceId (f x) = bo_workspaceId x \<and> bo_fenceRevision (f x) = bo_fenceRevision x
        \<and> bo_targetSeats (f x) = bo_targetSeats x \<and> bo_releaseFence (f x) = bo_releaseFence x \<and> bo_state (f x) = bo_state x"
  shows "seats_inv caps (map f ops) used"
proof -
  have "operation_bound caps (f x) = operation_bound caps x" for x
    by (simp add: operation_bound_def f)
  moreover have "pending_binding c used (f x) = pending_binding c used x" "latest_binding c used (f x) = latest_binding c used x" for c x
    by (simp_all add: pending_binding_def latest_binding_def f)
  then have "capacity_bound (map f ops) used c = capacity_bound ops used c" for c
    by (simp add: capacity_bound_def f)
  moreover have "map bo_commandId (map f ops) = map bo_commandId ops"
    by (simp add: f)
  ultimately show ?thesis
    using inv unfolding seats_inv_def set_map by (metis imageE)
qed

text \<open>A capacity row for a workspace that has none.\<close>

lemma new_capacity:
  assumes inv: "seats_inv caps ops used" and new: "ca_workspaceId c \<notin> ca_workspaceId ` set caps"
    and c: "ca_revision c = 0" "\<And>n. ca_admissionCeiling c = Some n \<Longrightarrow> 2 \<le> n \<and> n \<le> 10000"
      "ca_pendingOperationId c = None" "ca_pendingTargetSeats c = None" "ca_latestCommittedOperationId c = None"
  shows "seats_inv (caps @ [c]) ops used"
proof -
  have "capacity_bound ops used c"
    using c by (simp add: capacity_bound_def)
  moreover have "operation_bound caps x \<Longrightarrow> operation_bound (caps @ [c]) x" for x
    by (auto simp: operation_bound_def)
  ultimately show ?thesis
    using inv new by (auto simp: seats_inv_def)
qed

text \<open>The reservation of seats by a new operation.\<close>

lemma new_reservation:
  assumes inv: "seats_inv caps ops used" and c: "c \<in> set caps" "ca_workspaceId c = ws" "ca_pendingOperationId c = None"
    and x: "operation_checked x" "bo_workspaceId x = ws" "bo_fenceRevision x = Some (ca_revision c + 1)" "bo_targetSeats x = Some n"
      "\<not> bo_releaseFence x" "bo_state x = S_PENDING" "bo_commandId x \<noteq> []"
    and new: "bo_commandId x \<notin> bo_commandId ` set ops" and seats: "1 + used ws \<le> n" and revision: "ca_revision c < 2147483646"
    and g: "g c = c\<lparr>ca_revision := ca_revision c + 1, ca_pendingOperationId := Some (bo_commandId x), ca_pendingTargetSeats := Some n\<rparr>"
      "\<And>d. ca_workspaceId (g d) = ca_workspaceId d"
  shows "seats_inv (upd_rows (\<lambda>d. ca_workspaceId d = ws) g caps) (ops @ [x]) used"
proof -
  let ?caps = "upd_rows (\<lambda>d. ca_workspaceId d = ws) g caps"
  have caps: "set ?caps = insert (g c) {d \<in> set caps. ca_workspaceId d \<noteq> ws}"
    by (rule set_upd_key [OF seats_invD(1) [OF inv] c(1,2)])
  have gc: "ca_workspaceId (g c) = ws" "ca_pendingOperationId (g c) = Some (bo_commandId x)" "ca_revision (g c) = ca_revision c + 1"
    using c(2) by (simp_all add: g)
  have bound: "capacity_bound ops used c"
    by (rule seats_invD(3) [OF inv c(1)])
  have "latest_binding (g c) used y" if "latest_binding c used y" for y
    using that c(3) by (auto simp: latest_binding_def g(1) split: if_splits)
  then have "\<exists>y\<in>set (ops @ [x]). bo_commandId y = i \<and> latest_binding (g c) used y" if "ca_latestCommittedOperationId (g c) = Some i" for i
    using bound that unfolding capacity_bound_def g(1) by fastforce
  moreover have "pending_binding (g c) used x"
    using x seats gc c(2) by (simp add: pending_binding_def g(1))
  ultimately have "capacity_bound (ops @ [x]) used (g c)"
    using bound x(7) revision unfolding capacity_bound_def by (simp add: g(1))
  moreover have "capacity_bound ops used d \<Longrightarrow> capacity_bound (ops @ [x]) used d" for d
    unfolding capacity_bound_def by auto
  ultimately have "\<forall>d\<in>set ?caps. capacity_bound (ops @ [x]) used d"
    using seats_invD(3) [OF inv] caps by auto
  moreover have "operation_bound ?caps x"
    using x gc unfolding operation_bound_def caps by auto
  moreover have "operation_bound ?caps y" if "y \<in> set ops" for y
  proof -
    have y: "operation_bound caps y"
      by (rule seats_invD(4) [OF inv that])
    have still: "\<exists>d\<in>set ?caps. P d" if "\<exists>d\<in>set caps. P d" "P c \<Longrightarrow> P (g c)" for P
      using that caps key_unique [OF seats_invD(1) [OF inv] _ c(1)] c(2) by auto
    have "\<exists>d\<in>set ?caps. ca_workspaceId d = bo_workspaceId y \<and> ca_pendingOperationId d = Some (bo_commandId y)"
      if "bo_targetSeats y \<noteq> None" "\<not> bo_releaseFence y"
      by (rule still) (use y that c(3) in \<open>auto simp: operation_bound_def\<close>)
    moreover have "\<exists>d\<in>set ?caps. ca_workspaceId d = bo_workspaceId y \<and> r \<le> ca_revision d" if "bo_fenceRevision y = Some r" for r
      by (rule still) (use y that c(2) gc in \<open>auto simp: operation_bound_def\<close>)
    ultimately show ?thesis
      using y unfolding operation_bound_def by blast
  qed
  ultimately show ?thesis
    using inv new g(2) by (auto simp: seats_inv_def)
qed

section \<open>The settlement of an operation\<close>

text \<open>The operation changes its state, its release and what it knows from the proof, not its binding.\<close>

definition settles :: "billing_op \<Rightarrow> billing_op \<Rightarrow> bool" where
  "settles x x' \<longleftrightarrow>
     bo_commandId x' = bo_commandId x \<and> bo_workspaceId x' = bo_workspaceId x \<and> bo_fenceRevision x' = bo_fenceRevision x
     \<and> bo_targetSeats x' = bo_targetSeats x \<and> operation_checked x'
     \<and> \<not> bo_releaseFence x \<and> (bo_state x = S_PENDING \<or> bo_state x' = bo_state x)
     \<and> bo_state x' \<noteq> S_NOT_STARTED \<and> (bo_state x' = S_CANCELLED \<longrightarrow> bo_releaseFence x')"

lemma settles_binding: "settles x x' \<Longrightarrow> bo_releaseFence x' \<or> bo_state x' = S_PENDING \<or> bo_state x' = S_COMMITTED"
  by (cases "bo_state x'") (auto simp: settles_def)

lemma other_workspace:
  assumes d: "capacity_bound ops used d" "bo_workspaceId x \<noteq> ca_workspaceId d"
    and ops': "\<And>y. y \<in> set ops \<Longrightarrow> y \<noteq> x \<Longrightarrow> y \<in> set ops'"
  shows "capacity_bound ops' used d"
proof -
  have "y \<in> set ops'" if "y \<in> set ops" "pending_binding d used y \<or> latest_binding d used y" for y
    using ops' that d(2) by (auto simp: pending_binding_def latest_binding_def)
  then show ?thesis
    using d(1) unfolding capacity_bound_def by blast
qed

lemma settled_without_seats:
  assumes inv: "seats_inv caps ops used" and x: "x \<in> set ops" "bo_commandId x = i" "bo_targetSeats x = None"
    and f: "settles x (f x)" "\<And>y. bo_commandId (f y) = bo_commandId y"
  shows "seats_inv caps (upd_rows (\<lambda>y. bo_commandId y = i) f ops) used"
proof -
  let ?ops = "upd_rows (\<lambda>y. bo_commandId y = i) f ops"
  have ops: "set ?ops = insert (f x) {y \<in> set ops. bo_commandId y \<noteq> i}"
    by (rule set_upd_key [OF seats_invD(2) [OF inv] x(1,2)])
  have "capacity_bound ?ops used c" if "c \<in> set caps" for c
  proof -
    have c: "capacity_bound ops used c"
      by (rule seats_invD(3) [OF inv that])
    have "y \<noteq> x" if "pending_binding c used y \<and> ca_pendingTargetSeats c \<noteq> None \<or> latest_binding c used y" for y
      using that x(3) by (auto simp: pending_binding_def latest_binding_def)
    then have "y \<in> set ?ops" if "y \<in> set ops" "pending_binding c used y \<and> ca_pendingTargetSeats c \<noteq> None \<or> latest_binding c used y" for y
      using that ops key_unique [OF seats_invD(2) [OF inv] that(1) x(1)] x(2) by auto
    moreover have "ca_pendingOperationId c = Some j \<Longrightarrow> ca_pendingTargetSeats c \<noteq> None" for j
      using c by (auto simp: capacity_bound_def)
    ultimately show ?thesis
      using c unfolding capacity_bound_def by blast
  qed
  moreover have "operation_bound caps (f x)"
    using f(1) x(3) by (auto simp: settles_def operation_bound_def operation_checked_def)
  ultimately show ?thesis
    using inv ops f(2) by (auto simp: seats_inv_def)
qed

lemma settled_with_seats:
  assumes inv: "seats_inv caps ops used" and x: "x \<in> set ops" "bo_commandId x = i"
    and c: "c \<in> set caps" "ca_workspaceId c = bo_workspaceId x" "ca_pendingOperationId c = Some i"
    and f: "settles x (f x)" "\<And>y. bo_commandId (f y) = bo_commandId y"
    and g: "\<And>d. ca_workspaceId (g d) = ca_workspaceId d" "ca_revision (g c) = ca_revision c"
      "bo_targetSeats x \<noteq> None \<Longrightarrow> \<not> bo_releaseFence (f x) \<Longrightarrow> ca_pendingOperationId (g c) = Some i"
    and settled: "capacity_bound (upd_rows (\<lambda>y. bo_commandId y = i) f ops) used (g c)"
  shows "seats_inv (upd_rows (\<lambda>d. ca_workspaceId d = bo_workspaceId x) g caps) (upd_rows (\<lambda>y. bo_commandId y = i) f ops) used"
proof -
  let ?ops = "upd_rows (\<lambda>y. bo_commandId y = i) f ops" and ?caps = "upd_rows (\<lambda>d. ca_workspaceId d = bo_workspaceId x) g caps"
  have ops: "set ?ops = insert (f x) {y \<in> set ops. bo_commandId y \<noteq> i}"
    by (rule set_upd_key [OF seats_invD(2) [OF inv] x])
  have caps: "set ?caps = insert (g c) {d \<in> set caps. ca_workspaceId d \<noteq> bo_workspaceId x}"
    by (rule set_upd_key [OF seats_invD(1) [OF inv] c(1,2)])
  have only: "y = x" if "y \<in> set ops" "bo_commandId y = i" for y
    using key_unique [OF seats_invD(2) [OF inv] that(1) x(1)] that(2) x(2) by simp
  have "capacity_bound ?ops used d" if "d \<in> set ?caps" for d
  proof (cases "d = g c")
    case False
    then have d: "d \<in> set caps" "bo_workspaceId x \<noteq> ca_workspaceId d"
      using that caps by auto
    show ?thesis
      by (rule other_workspace [OF seats_invD(3) [OF inv d(1)] d(2)]) (use only ops in blast)
  qed (use settled in simp)
  moreover have still: "\<exists>d\<in>set ?caps. P d" if "\<exists>d\<in>set caps. P d" "P c \<Longrightarrow> P (g c)" for P
    using that caps key_unique [OF seats_invD(1) [OF inv] _ c(1)] c(2) by auto
  have revisions: "\<exists>d\<in>set ?caps. ca_workspaceId d = bo_workspaceId y \<and> r \<le> ca_revision d"
    if "y \<in> set ops" "bo_fenceRevision y = Some r" for y r
    by (rule still) (use seats_invD(4) [OF inv that(1)] that(2) g in \<open>auto simp: operation_bound_def\<close>)
  have "operation_bound ?caps (f x)"
    using f(1) g(1) [of c] g(3) c(2) x(2) revisions [OF x(1)] caps
    by (auto simp: operation_bound_def settles_def)
  moreover have "operation_bound ?caps y" if y: "y \<in> set ops" "bo_commandId y \<noteq> i" for y
  proof -
    have "\<exists>d\<in>set ?caps. ca_workspaceId d = bo_workspaceId y \<and> ca_pendingOperationId d = Some (bo_commandId y)"
      if "bo_targetSeats y \<noteq> None" "\<not> bo_releaseFence y"
      by (rule still) (use seats_invD(4) [OF inv y(1)] that c(3) y(2) in \<open>auto simp: operation_bound_def\<close>)
    then show ?thesis
      using seats_invD(4) [OF inv y(1)] revisions [OF y(1)] unfolding operation_bound_def by blast
  qed
  ultimately show ?thesis
    using inv ops g(1) f(2) by (auto simp: seats_inv_def)
qed

text \<open>What a proof leaves of the capacity row is bound by the settled operation.\<close>

lemma settle_capacity_bound:
  assumes inv: "seats_inv caps ops used" and x: "x \<in> set ops" "bo_commandId x = i" "bo_targetSeats x \<noteq> None"
    and c: "c \<in> set caps" "ca_pendingOperationId c = Some i"
    and f: "settles x (f x)" and proved: "bo_state (f x) = S_COMMITTED \<longleftrightarrow> committed p" "bo_releaseFence (f x) = releases p"
  shows "capacity_bound (upd_rows (\<lambda>y. bo_commandId y = i) f ops) used (settle_capacity p x c)"
proof -
  let ?ops = "upd_rows (\<lambda>y. bo_commandId y = i) f ops" and ?c = "settle_capacity p x c"
  have ops: "set ?ops = insert (f x) {y \<in> set ops. bo_commandId y \<noteq> i}"
    by (rule set_upd_key [OF seats_invD(2) [OF inv] x(1,2)])
  have only: "y = x" if "y \<in> set ops" "bo_commandId y = i" for y
    using key_unique [OF seats_invD(2) [OF inv] that(1) x(1)] that(2) x(2) by simp
  have bound: "capacity_bound ops used c"
    by (rule seats_invD(3) [OF inv c(1)])
  then have pending: "pending_binding c used x" and i: "i \<noteq> []"
    using c(2) only unfolding capacity_bound_def by blast+
  have seats: "\<exists>n. bo_targetSeats x = Some n \<and> 2 \<le> n \<and> n \<le> 10000"
    using seats_invD(4) [OF inv x(1)] x(3) by (auto simp: operation_bound_def operation_checked_def)
  have same: "bo_commandId (f x) = i" "bo_workspaceId (f x) = bo_workspaceId x" "bo_targetSeats (f x) = bo_targetSeats x"
    "bo_fenceRevision (f x) = bo_fenceRevision x"
    using f x(2) by (simp_all add: settles_def)
  have fields: "ca_workspaceId ?c = ca_workspaceId c" "ca_revision ?c = ca_revision c"
    "ca_pendingOperationId ?c = (if releases p then None else Some i)"
    "ca_pendingTargetSeats ?c = (if releases p then None else ca_pendingTargetSeats c)"
    "ca_latestCommittedOperationId ?c = (if committed p then Some i else ca_latestCommittedOperationId c)"
    "ca_admissionCeiling ?c = (if releases p \<and> committed p then bo_targetSeats x else ca_admissionCeiling c)"
    using c(2) x(2) by (auto simp: settle_capacity_def Let_def)
  have "pending_binding ?c used (f x)" if "\<not> releases p"
    using pending settles_binding [OF f] that same by (auto simp: pending_binding_def fields proved)
  moreover have "latest_binding ?c used (f x)" if "committed p"
    using pending proved that same x(3) by (auto simp: latest_binding_def pending_binding_def fields)
  moreover have "\<exists>y\<in>set ?ops. bo_commandId y = j \<and> latest_binding ?c used y"
    if latest: "ca_latestCommittedOperationId c = Some j" "\<not> committed p" for j
  proof -
    obtain y where y: "y \<in> set ops" "bo_commandId y = j" "latest_binding c used y"
      using bound latest unfolding capacity_bound_def by blast
    then have "y \<noteq> x"
      using f proved(1) latest(2) by (auto simp: settles_def latest_binding_def)
    then have other: "bo_commandId y \<noteq> i"
      using only y(1) by blast
    then have "latest_binding ?c used y"
      using y(3) c(2) latest(2) by (auto simp: latest_binding_def fields split: if_splits)
    then show ?thesis
      using y other ops by blast
  qed
  moreover have "f x \<in> set ?ops"
    using ops by simp
  ultimately show ?thesis
    using bound i same(1) seats c(2) unfolding capacity_bound_def fields by (auto split: if_splits)
qed

end
