(* ===== verification/Access_Machine.thy ===== *)
theory Access_Machine
  imports Access_Steps Access_Contract Seat_Invariant
begin

text \<open>
  CRM Access as a state machine: its atomic steps are the transactions and updates of the handlers, in any
  order and with any arguments that the handlers can pass, and the writes of the parts that are not modelled.
  Every reachable state satisfies \<open>access_inv\<close>: the seat invariant on its tables, and the origin of its
  operations.
\<close>

section \<open>Steps\<close>

definition limit_ok :: "int option \<Rightarrow> bool" where
  "limit_ok limit \<longleftrightarrow> (\<forall>n. limit = Some n \<longrightarrow> 2 \<le> n \<and> n \<le> 10000)"

text \<open>
  The transactions of team commands (the command, its authority and its arguments are any), and the other
  transactions of the team that do not enable members.
\<close>

inductive team_action :: "env \<Rightarrow> peers \<Rightarrow> team_authority \<Rightarrow> jsval atx \<Rightarrow> bool" for e p actor where
  "team_action e p actor (createTeam_tx e p actor dto name)"
| "team_action e p actor (updateTeam_tx e p actor i dto name)"
| "team_action e p actor (archiveTeam_tx e actor i dto)"
| "team_action e p actor (invite_tx e actor dto email ts profile)"
| "team_action e p actor (revokeInvitation_tx e actor i dto)"
| "team_action e p actor (changeRole_tx e actor i dto)"
| "team_action e p actor (setTeams_tx e actor i dto ts)"
| "team_action e p actor (disable_tx e actor i dto)"
| "team_action e p actor (enable_tx e actor i dto)"

inductive access_step :: "env \<Rightarrow> peers \<Rightarrow> access \<Rightarrow> access \<Rightarrow> bool" for e p where
  prepared: "parseCommand type value key actor = Inr request \<Longrightarrow> type \<in> set commerce_types \<Longrightarrow> limit_ok limit \<Longrightarrow>
    prepare e type request limit s = Inr (op, s') \<Longrightarrow> access_step e p s s'"
| recovered: "serializable e (recover_tx e ws i actor) s = Inr (op, s') \<Longrightarrow> access_step e p s s'"
| proved: "proof_check e ws b answer \<Longrightarrow> serializable e (apply_tx e i answer) s = Inr (op, s') \<Longrightarrow> access_step e p s s'"
| deferred: "defer_check e op s = Inr (u, s') \<Longrightarrow> access_step e p s s'"
| commanded: "team_action e p actor action \<Longrightarrow> team_command e p actor i type body action s = Inr (r, s') \<Longrightarrow> access_step e p s s'"
| invited: "serializable e (mark_invited intent v) s = Inr (n, s') \<Longrightarrow> access_step e p s s'"
| expired: "expire_intent intent s = Inr (n, s') \<Longrightarrow> access_step e p s s'"
| accepted: "serializable e (accept_tx e event i a) s = Inr (u, s') \<Longrightarrow> access_step e p s s'"
| cancelled: "serializable e (cancelInTransaction e candidate code) s = Inr (u, s') \<Longrightarrow> access_step e p s s'"
| admitted: "serializable e (admit_tx e f) s = Inr (u, s') \<Longrightarrow> access_step e p s s'"
| idle: "access_step e p s (s\<lparr>a_tick := i, a_fresh := j, a_calls := k, a_sent := l\<rparr>)"
| outside: "access_step e p s (s\<lparr>t_workspaces := a, t_profiles := b, t_events := c, t_audits := d,
    t_receipts := t_receipts s @ rs\<rparr>)"

definition empty_access :: access where
  "empty_access = \<lparr>t_capacities = [], t_operations = [], t_receipts = [], t_members = [], t_teams = [], t_memberTeams = [],
     t_intents = [], t_admissions = [], t_profiles = [], t_workspaces = [], t_audits = [], t_events = [], t_position = 0,
     a_tick = 0, a_fresh = 0, a_calls = 0, a_sent = []\<rparr>"

inductive access_reachable :: "env \<Rightarrow> peers \<Rightarrow> access \<Rightarrow> bool" for e p where
  initial: "access_reachable e p empty_access"
| step: "access_reachable e p s \<Longrightarrow> access_step e p s s' \<Longrightarrow> access_reachable e p s'"

section \<open>The invariant\<close>

definition used_seats :: "access \<Rightarrow> jsstring \<Rightarrow> int" where
  "used_seats s ws = enabled_members ws s"

definition access_inv :: "env \<Rightarrow> access \<Rightarrow> bool" where
  "access_inv e s \<longleftrightarrow>
     seats_inv (t_capacities s) (t_operations s) (used_seats s) \<and> distinct (map mr_id (t_members s))
     \<and> (\<forall>x\<in>set (t_operations s). operation_origin e x)"

lemma access_invI:
  assumes "seats_inv (t_capacities s) (t_operations s) (used_seats s)" "distinct (map mr_id (t_members s))"
    "\<And>x. x \<in> set (t_operations s) \<Longrightarrow> operation_origin e x"
  shows "access_inv e s"
  using assms by (simp add: access_inv_def)

lemma used_seats_members: "t_members s' = t_members s \<Longrightarrow> used_seats s' = used_seats s"
  by (simp add: fun_eq_iff used_seats_def enabled_members_def)

text \<open>A step that keeps the seats keeps the invariant.\<close>

lemma seats_kept_inv:
  assumes "access_inv e s" "seats_kept s s'"
  shows "access_inv e s'"
proof -
  have "used_seats s' ws \<le> used_seats s ws" for ws
    using assms(2) by (simp add: seats_kept_def used_seats_def)
  then show ?thesis
    using assms fewer_members by (auto simp: access_inv_def seats_kept_def)
qed

lemma team_action_kept: "team_action e p actor action \<Longrightarrow> steps seats_kept action"
  by (induction rule: team_action.induct)
    (rule kept.steps_team_txs kept.steps_invitation_txs kept.steps_member_txs)+

section \<open>The reservation\<close>

lemma same_tables [simp]:
  "enabled_members ws (s\<lparr>a_tick := i\<rparr>) = enabled_members ws s" "enabled_members ws (s\<lparr>a_fresh := j\<rparr>) = enabled_members ws s"
  "find_billing_op k (s\<lparr>a_tick := i\<rparr>) = find_billing_op k s" "find_billing_op k (s\<lparr>a_fresh := j\<rparr>) = find_billing_op k s"
  "find_capacity k (s\<lparr>a_tick := i\<rparr>) = find_capacity k s" "find_capacity k (s\<lparr>a_fresh := j\<rparr>) = find_capacity k s"
  by (simp_all add: enabled_members_def find_billing_op_def find_capacity_def)

text \<open>Writing an audit row or an event leaves the tables of seats alone.\<close>

definition logs_only :: "access \<Rightarrow> access \<Rightarrow> bool" where
  "logs_only s s' \<longleftrightarrow> t_capacities s' = t_capacities s \<and> t_operations s' = t_operations s \<and> t_members s' = t_members s"

lemma billing_audit_logs: "steps logs_only (billing_audit e op action)"
  by (auto simp: steps_def logs_only_def billing_audit_def auditTeam_def access_uuid_def create_audit_def create_row_def
      split: if_splits)

lemma event_logs: "steps logs_only (emitTeamEvent e c ws k i)"
  by (auto simp: steps_def logs_only_def emitTeamEvent_def access_uuid_def access_date_def create_event_def create_row_def
      split: if_splits)

lemma access_inv_tables:
  assumes "access_inv e s" "t_capacities s' = t_capacities s" "t_operations s' = t_operations s" "t_members s' = t_members s"
  shows "access_inv e s'"
  using assms used_seats_members [OF assms(4)] by (simp add: access_inv_def)

lemma logs_only_inv: "steps logs_only m \<Longrightarrow> m s = Inr (x, s') \<Longrightarrow> access_inv e s \<Longrightarrow> access_inv e s'"
  by (drule stepsD) (auto simp: logs_only_def intro: access_inv_tables)

lemma upd_rows_same [simp]: "upd_rows P (\<lambda>r. r) rows = rows"
  by (simp add: upd_rows_def)

lemma reserve_revision_inv:
  assumes inv: "access_inv e s" and run: "reserve_revision request (Some n) limit s = Inr (r, s1)" and limit: "limit_ok limit"
  obtains c where "access_inv e s1" "c \<in> set (t_capacities s1)" "ca_workspaceId c = ws_of request" "ca_pendingOperationId c = None"
    "1 + used_seats s1 (ws_of request) \<le> n" "ca_revision c < 2147483646" "r = Some (ca_revision c + 1)"
    "t_operations s1 = t_operations s"
proof -
  let ?ws = "ws_of request"
  define row where "row = \<lparr>ca_workspaceId = ?ws, ca_revision = 0, ca_admissionCeiling = limit,
    ca_pendingOperationId = None, ca_pendingTargetSeats = None, ca_latestCommittedOperationId = None\<rparr>"
  obtain c where up: "upsert_capacity row s = Inr (c, s1)" and c: "\<not> truthy (ca_pendingOperationId c)"
    "1 + enabled_members ?ws s1 \<le> n" "ca_revision c < 2147483646" "r = Some (ca_revision c + 1)"
    using run unfolding reserve_revision_def row_def by (auto simp: tx_simps split: sum.splits if_splits)
  have seats: "seats_inv (t_capacities s) (t_operations s) (used_seats s)"
    using inv by (simp add: access_inv_def)
  have "c \<in> set (t_capacities s1) \<and> ca_workspaceId c = ?ws \<and> t_operations s1 = t_operations s \<and> t_members s1 = t_members s
      \<and> seats_inv (t_capacities s1) (t_operations s) (used_seats s)"
  proof (cases "find (\<lambda>c. ca_workspaceId c = ?ws) (t_capacities s)")
    case None
    have "seats_inv (t_capacities s @ [row]) (t_operations s) (used_seats s)"
      using None limit by (intro new_capacity [OF seats]) (auto simp: row_def limit_ok_def find_None_iff)
    then show ?thesis
      using up None by (auto simp: upsert_capacity_def upsert_row_def row_def)
  next
    case (Some d)
    then have "c = d" "s1 = s"
      using up by (auto simp: upsert_capacity_def upsert_row_def row_def)
    then show ?thesis
      using Some seats by (auto simp: find_Some_iff)
  qed
  moreover from this have "access_inv e s1"
    using inv used_seats_members [of s1 s] by (auto simp: access_inv_def)
  moreover have "ca_pendingOperationId c = None"
    using c(1) calculation seats_invD(3) [of "t_capacities s1" _ _ c] by (auto simp: truthy_def capacity_bound_def)
  ultimately show ?thesis
    using c by (intro that [of c]) (simp_all add: used_seats_def)
qed

lemma create_billing_op_effect:
  assumes "create_billing_op x s = Inr (y, s')"
  shows "y = x" "s' = s\<lparr>t_operations := t_operations s @ [x]\<rparr>" "bo_commandId x \<notin> bo_commandId ` set (t_operations s)"
  using assms by (auto simp: create_billing_op_def create_row_def split: if_splits)

lemma new_op_checked:
  assumes parsed: "parseCommand type value key actor = Inr request" and type: "type \<in> set commerce_types"
    and rv: "(rv = None) = (target_seats request = None)" "\<And>r. rv = Some r \<Longrightarrow> 1 \<le> r \<and> r \<le> 2147483646"
  shows "operation_checked (new_billing_op type request h (target_seats request) rv now)"
    "from_command e type request (new_billing_op type request (commerceHash e type request) (target_seats request) rv now)"
proof -
  obtain kvs where "request = JObj kvs"
    using parsed_keys(3) [OF parsed] by blast
  moreover have "(type = ''WINCRM_CHECKOUT'' \<or> type = ''WINCRM_SEAT_CHANGE'') = (target_seats request \<noteq> None)"
    using parsed_target [OF parsed type] by auto
  moreover have "type \<noteq> ''WINCRM_NOT_STARTED''"
    using type by (auto simp: commerce_types_def)
  ultimately show "operation_checked (new_billing_op type request h (target_seats request) rv now)"
    using rv parsed_target_range [OF parsed type] parsed_json(1) [OF parsed type]
    by (auto simp: operation_checked_def new_billing_op_def)
  show "from_command e type request (new_billing_op type request (commerceHash e type request) (target_seats request) rv now)"
    using parsed type parsed_json(1) [OF parsed type] by (auto simp: from_command_def new_billing_op_def)
qed

lemma prepare_newE:
  assumes "prepare_new e type request limit hash s = Inr (op, s')"
  obtains rv s1 s2 s3 now s4 u v where "reserve_revision request (target_seats request) limit s = Inr (rv, s1)"
    "create_billing_op (new_billing_op type request hash (target_seats request) rv now) s2 = Inr (op, s3)"
    "(if target_seats request = None then ret () else thn (update_capacity (ws_of request) (\<lambda>c. c\<lparr>ca_revision := the rv,
        ca_pendingOperationId := Some (cmd_of request), ca_pendingTargetSeats := target_seats request\<rparr>)) (ret ())) s3 = Inr (u, s4)"
    "billing_audit e op ''BILLING_OPERATION_PREPARED'' s4 = Inr (v, s')"
    "t_capacities s2 = t_capacities s1" "t_operations s2 = t_operations s1" "t_members s2 = t_members s1"
proof -
  show ?thesis
    using assms unfolding prepare_new_def
    apply (elim bnd_InrE thn_InrE)
    subgoal premises run for receipt w1 u1 w2 rv w3 r w4 now w5 op' w6 u2 w7 v w8
    proof -
      have "op' = op" "w8 = s'" "w2 = s"
        using run by auto
      then show ?thesis
        using run by (intro that [of rv w3 now w5 w6 u2 w7 v])
          (auto simp: create_team_receipt_def create_row_def access_date_def split: if_splits)
    qed
    done
qed

lemma prepare_new_inv:
  assumes inv: "access_inv e s" and parsed: "parseCommand type value key actor = Inr request" and type: "type \<in> set commerce_types"
    and limit: "limit_ok limit" and run: "prepare_new e type request limit (commerceHash e type request) s = Inr (op, s')"
  shows "access_inv e s'"
proof -
  let ?target = "target_seats request" and ?hash = "commerceHash e type request"
  obtain rv s1 s2 s3 now s4 u v where reserve: "reserve_revision request ?target limit s = Inr (rv, s1)"
    and s3: "create_billing_op (new_billing_op type request ?hash ?target rv now) s2 = Inr (op, s3)"
    and s4: "(if ?target = None then ret () else thn (update_capacity (ws_of request) (\<lambda>c. c\<lparr>ca_revision := the rv,
        ca_pendingOperationId := Some (cmd_of request), ca_pendingTargetSeats := ?target\<rparr>)) (ret ())) s3 = Inr (u, s4)"
    and audit: "billing_audit e op ''BILLING_OPERATION_PREPARED'' s4 = Inr (v, s')"
    and s2: "t_capacities s2 = t_capacities s1" "t_operations s2 = t_operations s1" "t_members s2 = t_members s1"
    by (rule prepare_newE [OF run])
  let ?x = "new_billing_op type request ?hash ?target rv now"
  note created = create_billing_op_effect [OF s3]
  have "access_inv e s4"
  proof (cases ?target)
    case None
    then have "rv = None" "s1 = s" "s4 = s3"
      using reserve s4 by (auto simp: reserve_revision_def)
    moreover from this have x: "operation_checked ?x" "from_command e type request ?x" "bo_targetSeats ?x = None"
      using new_op_checked [OF parsed type, of rv] None by (auto simp: new_billing_op_def)
    ultimately show ?thesis
      using inv new_operation_without_seats [of "t_capacities s" "t_operations s" "used_seats s" ?x] created(2,3) s2
        used_seats_members [of s3 s]
      by (auto simp: access_inv_def operation_origin_def)
  next
    case (Some n)
    obtain c where s1: "access_inv e s1" and c: "c \<in> set (t_capacities s1)" "ca_workspaceId c = ws_of request"
      "ca_pendingOperationId c = None" "1 + used_seats s1 (ws_of request) \<le> n" "ca_revision c < 2147483646"
      "rv = Some (ca_revision c + 1)"
      using reserve_revision_inv [OF inv, of request n limit rv s1] reserve limit Some by metis
    have seats: "seats_inv (t_capacities s1) (t_operations s1) (used_seats s1)"
      using s1 by (simp add: access_inv_def)
    then have "0 \<le> ca_revision c"
      using seats_invD(3) [OF seats c(1)] by (simp add: capacity_bound_def)
    then have x: "operation_checked ?x" "from_command e type request ?x"
      using new_op_checked [OF parsed type, of rv] Some c(5,6) by auto
    define g where "g d = d\<lparr>ca_revision := the rv, ca_pendingOperationId := Some (cmd_of request), ca_pendingTargetSeats := ?target\<rparr>"
      for d :: capacity_row
    have s4': "s4 = s3\<lparr>t_capacities := upd_rows (\<lambda>d. ca_workspaceId d = ws_of request) g (t_capacities s3)\<rparr>"
      using s4 Some by (auto simp: update_capacity_def update_row_def g_def [abs_def] split: option.splits)
    have "seats_inv (upd_rows (\<lambda>d. ca_workspaceId d = ws_of request) g (t_capacities s1)) (t_operations s1 @ [?x]) (used_seats s1)"
      by (rule new_reservation [OF seats c(1-3) x(1)])
        (use c created(3) s2 Some parsed_checks(3) [OF parsed] in \<open>auto simp: new_billing_op_def g_def\<close>)
    then show ?thesis
      using s1 x(2) created(2) s2 s4' used_seats_members [of s4 s1] by (auto simp: access_inv_def operation_origin_def)
  qed
  then show ?thesis
    by (rule logs_only_inv [OF billing_audit_logs audit])
qed

lemma prepare_inv:
  assumes inv: "access_inv e s" and parsed: "parseCommand type value key actor = Inr request" and type: "type \<in> set commerce_types"
    and limit: "limit_ok limit" and run: "prepare e type request limit s = Inr (op, s')"
  shows "access_inv e s'"
proof -
  obtain i j where run: "prepare_tx e type request limit (s\<lparr>a_tick := i, a_fresh := j\<rparr>) = Inr (op, s')"
    using run unfolding prepare_def by auto
  have inv: "access_inv e (s\<lparr>a_tick := i, a_fresh := j\<rparr>)"
    using inv by (rule access_inv_tables) simp_all
  show ?thesis
    using run inv prepare_new_inv [OF inv parsed type limit] unfolding prepare_tx_def
    by (auto simp: gets_Inr split: option.splits)
qed

section \<open>Recovery and reconciliation\<close>

lemma recover_inv:
  assumes inv: "access_inv e s" and run: "serializable e (recover_tx e ws i actor) s = Inr (op, s')"
  shows "access_inv e s'"
proof -
  obtain k j where run: "recover_tx e ws i actor (s\<lparr>a_tick := k, a_fresh := j\<rparr>) = Inr (op, s')"
    using run by auto
  show ?thesis
  proof (cases "find_billing_op i s")
    case (Some x)
    then have "s' = s\<lparr>a_tick := k, a_fresh := j\<rparr>"
      using run by (auto simp: recover_tx_def)
    then show ?thesis
      using access_inv_tables [OF inv] by simp
  next
    case None
    then obtain now s2 s3 u where s3: "create_billing_op (tombstone ws i actor now) s2 = Inr (op, s3)"
      and audit: "billing_audit e op ''BILLING_OPERATION_NOT_STARTED'' s3 = Inr (u, s')"
      and s2: "t_capacities s2 = t_capacities s" "t_operations s2 = t_operations s" "t_members s2 = t_members s"
      using run unfolding recover_tx_def
      by (auto simp: create_team_receipt_def create_row_def access_date_def split: if_splits)
    note created = create_billing_op_effect [OF s3]
    have "operation_checked (tombstone ws i actor now)" "bo_targetSeats (tombstone ws i actor now) = None"
      "operation_origin e (tombstone ws i actor now)"
      by (simp_all add: tombstone_def operation_checked_def operation_origin_def)
    then have "access_inv e s3"
      using inv new_operation_without_seats [of "t_capacities s" "t_operations s" "used_seats s" "tombstone ws i actor now"]
        created(2,3) s2 used_seats_members [of s3 s]
      by (auto simp: access_inv_def)
    then show ?thesis
      by (rule logs_only_inv [OF billing_audit_logs audit])
  qed
qed

lemma origin_fields:
  assumes "bo_commandId y = bo_commandId x" "bo_workspaceId y = bo_workspaceId x" "bo_actorSubject y = bo_actorSubject x"
    "bo_commandType y = bo_commandType x" "bo_requestHash y = bo_requestHash x" "bo_request y = bo_request x"
    "bo_targetSeats y = bo_targetSeats x" "bo_state y = S_NOT_STARTED \<longleftrightarrow> bo_state x = S_NOT_STARTED"
  shows "operation_origin e y = operation_origin e x"
  using assms by (simp add: operation_origin_def from_command_def)

lemma deferred_operation:
  "operation_checked (x\<lparr>bo_nextCheckAt := t\<rparr>) = operation_checked x" "operation_origin e (x\<lparr>bo_nextCheckAt := t\<rparr>) = operation_origin e x"
  by (simp add: operation_checked_def) (rule origin_fields; simp)

lemma defer_inv:
  assumes inv: "access_inv e s" and run: "defer_check e op s = Inr (u, s')"
  shows "access_inv e s'"
proof -
  define f where "f now x = (if bo_commandId x = bo_commandId op \<and> bo_nextCheckAt x = bo_nextCheckAt op \<and> \<not> bo_releaseFence x
    then x\<lparr>bo_nextCheckAt := now + 5000\<rparr> else x)" for now and x :: billing_op
  define now where "now = clock e (a_tick s)"
  have "s' = t_operations_update (map (f now)) (s\<lparr>a_tick := a_tick s + 1\<rparr>)"
    using run by (auto simp add: defer_check_def access_date_def tx_simps upd_rows_def [abs_def] f_def [abs_def] now_def)
  then have s': "t_operations s' = map (f now) (t_operations s)" "t_capacities s' = t_capacities s" "t_members s' = t_members s"
    by simp_all
  have f: "bo_commandId (f now x) = bo_commandId x" "operation_checked (f now x) = operation_checked x"
    "operation_origin e (f now x) = operation_origin e x"
    "bo_workspaceId (f now x) = bo_workspaceId x \<and> bo_fenceRevision (f now x) = bo_fenceRevision x
      \<and> bo_targetSeats (f now x) = bo_targetSeats x \<and> bo_releaseFence (f now x) = bo_releaseFence x \<and> bo_state (f now x) = bo_state x"
    for x by (simp_all add: f_def deferred_operation)
  have "seats_inv (t_capacities s) (map (f now) (t_operations s)) (used_seats s)"
    using inv f by (intro operations_same_binding) (auto simp: access_inv_def)
  then show ?thesis
    using inv f(3) s' used_seats_members [OF s'(3)] by (auto simp: access_inv_def)
qed

section \<open>Proofs of Billing\<close>

lemma shape_field: "shape parts v \<Longrightarrow> (k, t) \<in> set parts \<Longrightarrow> t (jsfield v k)"
  by (auto simp: shape_def list_all_iff)

lemma proof_check_facts:
  assumes "proof_check e ws b p"
  shows "status_state (jsfield p ''status'') \<noteq> S_NOT_STARTED"
    "status_state (jsfield p ''status'') = S_COMMITTED \<longleftrightarrow> committed p"
    "status_state (jsfield p ''status'') = S_CANCELLED \<Longrightarrow> releases p"
    "releases p \<Longrightarrow> status_state (jsfield p ''status'') \<noteq> S_PENDING"
    "jsfield p ''holdUntil'' \<noteq> JNull \<Longrightarrow> committed p \<and> \<not> releases p"
    "validVersion (jsfield p ''billingVersion'')"
proof -
  have s: "shape (common_fields ws @
       [(''commandId'', literal [JStr (fst b)]),
        (''requestHash'', \<lambda>v. v = JStr (snd b) \<and> validHash v),
        (''status'', strings [''PENDING'', ''COMMITTED'', ''CANCELLED'']),
        (''billingVersion'', validVersion), (''releaseFence'', bool_check), (''holdUntil'', nullable (iso e)),
        (''order'', nullable (order_check e)), (''period'', nullable (period_check e))]) p"
    using assms by (simp add: proof_check_def)
  have "strings [''PENDING'', ''COMMITTED'', ''CANCELLED''] (jsfield p ''status'')" "bool_check (jsfield p ''releaseFence'')"
    "validVersion (jsfield p ''billingVersion'')"
    by (rule shape_field [OF s], simp)+
  then have f: "jsfield p ''status'' \<in> {JStr (js ''PENDING''), JStr (js ''COMMITTED''), JStr (js ''CANCELLED'')}"
    "\<exists>b. jsfield p ''releaseFence'' = JBool b" "validVersion (jsfield p ''billingVersion'')"
    by (auto simp: strings_def literal_def bool_check_def split: jsval.splits)
  have status: "jsfield p ''status'' = JStr (js ''PENDING'') \<or> jsfield p ''status'' = JStr (js ''COMMITTED'')
    \<or> jsfield p ''status'' = JStr (js ''CANCELLED'')"
    using f(1) by simp
  obtain c where b: "jsfield p ''releaseFence'' = JBool c"
    using f(2) by blast
  have g: "\<not> (jsfield p ''status'' = JStr (js ''PENDING'') \<and> jsfield p ''releaseFence'' = JBool True)"
    "\<not> (jsfield p ''status'' = JStr (js ''CANCELLED'') \<and> jsfield p ''releaseFence'' = JBool False)"
    "jsfield p ''holdUntil'' \<noteq> JNull \<Longrightarrow> jsfield p ''status'' = JStr (js ''COMMITTED'') \<and> jsfield p ''releaseFence'' = JBool False"
    using assms unfolding proof_check_def by blast+
  show "validVersion (jsfield p ''billingVersion'')"
    by (rule f(3))
  have names: "''PENDING'' \<noteq> ''COMMITTED''" "''PENDING'' \<noteq> ''CANCELLED''" "''COMMITTED'' \<noteq> ''CANCELLED''"
    by simp_all
  show "status_state (jsfield p ''status'') \<noteq> S_NOT_STARTED"
    using status by (auto simp: status_state_def)
  show "status_state (jsfield p ''status'') = S_COMMITTED \<longleftrightarrow> committed p"
    using status names by (auto simp: status_state_def committed_def)
  show "status_state (jsfield p ''status'') = S_CANCELLED \<Longrightarrow> releases p"
    using g(2) b by (cases c) (auto simp: status_state_def releases_def split: if_splits)
  show "releases p \<Longrightarrow> status_state (jsfield p ''status'') \<noteq> S_PENDING"
    using g(1) by (auto simp: status_state_def releases_def split: if_splits)
  show "jsfield p ''holdUntil'' \<noteq> JNull \<Longrightarrow> committed p \<and> \<not> releases p"
    using g(3) by (simp add: committed_def releases_def)
qed

lemma record_proof_settles:
  assumes p: "proof_check e ws b p" and x: "operation_checked x" "\<not> bo_releaseFence x"
    and status: "bo_state x = S_PENDING \<or> status_state (jsfield p ''status'') = bo_state x"
  shows "settles x (record_proof e p x)" "bo_state (record_proof e p x) = S_COMMITTED \<longleftrightarrow> committed p"
    "bo_releaseFence (record_proof e p x) = releases p"
proof -
  note facts = proof_check_facts [OF p]
  have version: "validVersion (JStr (as_str (jsfield p ''billingVersion'')))"
    using facts(6) by (cases "jsfield p ''billingVersion''") (auto simp: validVersion_def)
  have "bo_state x \<noteq> S_NOT_STARTED"
    using x by (auto simp: operation_checked_def)
  moreover have "bo_holdUntil (record_proof e p x) \<noteq> None \<Longrightarrow> jsfield p ''holdUntil'' \<noteq> JNull"
    by (auto simp: record_proof_def)
  ultimately have "operation_checked (record_proof e p x)"
    using x facts version unfolding operation_checked_def by (simp add: record_proof_def del: not_None_eq)
  then show "settles x (record_proof e p x)"
    using facts(1,3) x(2) status by (auto simp: settles_def record_proof_def)
  show "bo_state (record_proof e p x) = S_COMMITTED \<longleftrightarrow> committed p" "bo_releaseFence (record_proof e p x) = releases p"
    using facts(2) by (simp_all add: record_proof_def)
qed

lemma record_proof_origin:
  "settles x (record_proof e p x) \<Longrightarrow> operation_checked x \<Longrightarrow> operation_origin e' (record_proof e p x) = operation_origin e' x"
  by (rule origin_fields) (auto simp: settles_def record_proof_def operation_checked_def)

text \<open>The effect of a proof on the tables.\<close>

lemma apply_capacityE:
  assumes "apply_capacity e p x s = Inr (u, s')" "bo_targetSeats x \<noteq> None"
  obtains c where "find_capacity (bo_workspaceId x) s = Some c" "ca_pendingOperationId c = Some (bo_commandId x)"
    "t_capacities s' = upd_rows (\<lambda>d. ca_workspaceId d = bo_workspaceId x)
       (if committed p \<or> releases p then settle_capacity p x else (\<lambda>d. d)) (t_capacities s)"
    "t_operations s' = t_operations s" "t_members s' = t_members s"
proof -
  let ?g = "if committed p \<or> releases p then settle_capacity p x else (\<lambda>d. d)"
  obtain c s1 v where c: "find_capacity (bo_workspaceId x) s = Some c" "ca_pendingOperationId c = Some (bo_commandId x)"
    and s1: "(if committed p \<or> releases p then thn (update_capacity (bo_workspaceId x) (settle_capacity p x)) (ret ()) else ret ()) s
      = Inr (v, s1)"
    and s': "(if releases p then emitTeamEvent e ''admission'' (bo_workspaceId x) (js ''billing:'' @ bo_commandId x) None
      else ret ()) s1 = Inr (u, s')"
    using assms unfolding apply_capacity_def by (auto simp del: thn_InrE split del: if_split)
  have "logs_only s1 s'"
    using s' stepsD [OF event_logs] by (auto simp: logs_only_def split: if_splits)
  moreover have "s1 = s\<lparr>t_capacities := upd_rows (\<lambda>d. ca_workspaceId d = bo_workspaceId x) ?g (t_capacities s)\<rparr>"
    using s1 by (auto simp: update_capacity_def update_row_def split: if_splits option.splits)
  ultimately show ?thesis
    using that [OF c] by (simp add: logs_only_def)
qed

lemma apply_txE:
  assumes "apply_tx e i p s = Inr (op, s')"
  obtains (kept) "s' = s"
  | (settled) x s1 s2 u y where "find_billing_op i s = Some x" "\<not> bo_releaseFence x" "\<not> stale p x"
      "bo_state x = S_PENDING \<or> status_state (jsfield p ''status'') = bo_state x"
      "update_billing_op (bo_commandId x) (record_proof e p) s = Inr (y, s1)"
      "apply_capacity e p x s1 = Inr (u, s2)" "logs_only s2 s'"
proof -
  obtain x where x: "find_billing_op i s = Some x"
    using assms unfolding apply_tx_def by auto
  show ?thesis
  proof (cases "bo_releaseFence x \<or> stale p x")
    case True
    then show ?thesis
      using assms x kept unfolding apply_tx_def by auto
  next
    case False
    obtain y s1 u s2 s3 where run: "bo_state x = S_PENDING \<or> status_state (jsfield p ''status'') = bo_state x"
      "update_billing_op (bo_commandId x) (record_proof e p) s = Inr (y, s1)" "apply_capacity e p x s1 = Inr (u, s2)"
      "(if bo_state x \<noteq> bo_state y \<or> bo_releaseFence x \<noteq> bo_releaseFence y
        then billing_audit e y ''BILLING_OPERATION_SYNCHRONIZED'' else ret ()) s2 = Inr ((), s')"
      using assms x False unfolding apply_tx_def by (auto split del: if_split)
    have "logs_only s2 s'"
      using run(4) stepsD [OF billing_audit_logs] by (auto simp: logs_only_def split: if_splits)
    then show ?thesis
      using settled [OF x _ _ run(1,2,3)] False by blast
  qed
qed

lemma find_row: "find P rows = Some x \<Longrightarrow> x \<in> set rows \<and> P x"
  by (auto simp: find_Some_iff)

lemma apply_inv:
  assumes inv: "access_inv e' s" and p: "proof_check e ws b p" and run: "serializable e (apply_tx e i p) s = Inr (op, s')"
  shows "access_inv e' s'"
proof -
  obtain k j where run: "apply_tx e i p (s\<lparr>a_tick := k, a_fresh := j\<rparr>) = Inr (op, s')"
    using run by auto
  define s0 where "s0 = s\<lparr>a_tick := k, a_fresh := j\<rparr>"
  have inv: "access_inv e' s0"
    using inv by (rule access_inv_tables) (simp_all add: s0_def)
  from run [folded s0_def] show ?thesis
  proof (cases rule: apply_txE)
    case kept
    then show ?thesis
      using inv by simp
  next
    case (settled x s1 s2 u y)
    have x: "x \<in> set (t_operations s0)" "bo_commandId x = i"
      using settled(1) by (auto simp: find_billing_op_def dest!: find_row)
    have seats: "seats_inv (t_capacities s0) (t_operations s0) (used_seats s0)"
      using inv by (simp add: access_inv_def)
    let ?f = "record_proof e p"
    let ?ops = "upd_rows (\<lambda>y. bo_commandId y = i) ?f (t_operations s0)"
    have s1: "s1 = s0\<lparr>t_operations := ?ops\<rparr>"
      using settled(5) x(2) by (auto simp: update_billing_op_def update_row_def split: option.splits)
    have checked: "operation_checked x"
      using seats_invD(4) [OF seats x(1)] by (simp add: operation_bound_def)
    note settles = record_proof_settles [OF p checked settled(2,4)]
    have keys: "bo_commandId (?f y) = bo_commandId y" for y
      by (simp add: record_proof_def)
    have "seats_inv (t_capacities s2) ?ops (used_seats s0) \<and> t_operations s2 = ?ops \<and> t_members s2 = t_members s0"
    proof (cases "bo_targetSeats x = None")
      case True
      then have "s2 = s1"
        using settled(6) by (simp add: apply_capacity_def)
      then show ?thesis
        using settled_without_seats [where f = ?f, OF seats x True settles(1) keys] by (simp add: s1)
    next
      case False
      obtain c where c: "find_capacity (bo_workspaceId x) s1 = Some c" "ca_pendingOperationId c = Some (bo_commandId x)"
        and s2: "t_capacities s2 = upd_rows (\<lambda>d. ca_workspaceId d = bo_workspaceId x)
          (if committed p \<or> releases p then settle_capacity p x else (\<lambda>d. d)) (t_capacities s1)"
          "t_operations s2 = t_operations s1" "t_members s2 = t_members s1"
        using apply_capacityE [OF settled(6) False] by blast
      have row: "c \<in> set (t_capacities s0)" "ca_workspaceId c = bo_workspaceId x" "ca_pendingOperationId c = Some i"
        using c x(2) by (auto simp: find_capacity_def s1 dest!: find_row)
      let ?g = "if committed p \<or> releases p then settle_capacity p x else (\<lambda>d. d)"
      have g: "?g c = settle_capacity p x c" "ca_workspaceId (?g d) = ca_workspaceId d" "ca_revision (?g c) = ca_revision c"
        "\<not> releases p \<Longrightarrow> ca_pendingOperationId (?g c) = Some i" for d
        using row(3) by (auto simp: settle_capacity_def Let_def)
      have "capacity_bound ?ops (used_seats s0) (?g c)"
        unfolding g(1) by (rule settle_capacity_bound [where f = ?f, OF seats x False row(1,3) settles])
      then have "seats_inv (upd_rows (\<lambda>d. ca_workspaceId d = bo_workspaceId x) ?g (t_capacities s0)) ?ops (used_seats s0)"
        using settles(3) g by (intro settled_with_seats [where f = ?f, OF seats x row settles(1) keys]) auto
      then show ?thesis
        using s2 by (simp add: s1)
    qed
    moreover have "operation_origin e' y" if "y \<in> set ?ops" for y
      using that inv set_upd_key [OF seats_invD(2) [OF seats] x, of ?f] record_proof_origin [OF settles(1) checked] x(1)
      by (auto simp: access_inv_def)
    ultimately have "access_inv e' s2"
      using inv used_seats_members [of s2 s0] by (intro access_invI) (auto simp: access_inv_def)
    then show ?thesis
      using settled(7) access_inv_tables by (auto simp: logs_only_def)
  qed
qed

end
