(* ===== verification/Access_Reachable.thy ===== *)
theory Access_Reachable
  imports Access_Machine
begin

text \<open>
  The admission of a member keeps the invariant of CRM Access, and with the preservation lemmas of the other
  steps every reachable state satisfies it.
\<close>

section \<open>Admission\<close>

lemma count_rows_append: "count_rows P (xs @ ys) = count_rows P xs + count_rows P ys"
  by (simp add: count_rows_def)

lemma count_enable_one:
  assumes "distinct (map mr_id rows)" "m \<in> set rows" "mr_workspaceId (g m) = mr_workspaceId m" "mr_id m = i"
  shows "count_rows (\<lambda>m. mr_workspaceId m = ws \<and> mr_disabledAt m = None) (upd_rows (\<lambda>m. mr_id m = i) g rows)
    \<le> count_rows (\<lambda>m. mr_workspaceId m = ws \<and> mr_disabledAt m = None) rows + (if ws = mr_workspaceId m then 1 else 0)"
  using assms
proof (induction rows)
  case (Cons r rows)
  have tail: "i \<notin> mr_id ` set rows \<Longrightarrow> upd_rows (\<lambda>m. mr_id m = i) g rows = rows"
    unfolding upd_rows_def by (intro map_idI) auto
  show ?case
  proof (cases "r = m")
    case True
    then show ?thesis
      using Cons.prems tail by (auto simp: count_rows_def upd_rows_def)
  next
    case False
    then have "mr_id r \<noteq> i"
      using Cons.prems by auto
    then show ?thesis
      using Cons False by (auto simp: count_rows_def upd_rows_def)
  qed
qed simp

text \<open>An admission enables one member of the workspace of the candidate.\<close>

lemma activate_member_effect:
  assumes run: "activate_member e candidate member role s = Inr (y, s')"
    and member: "member = find_member_of (ad_workspaceId candidate) (ad_subject candidate) s" and ids: "distinct (map mr_id (t_members s))"
  shows "used_seats s' ws \<le> (if ws = ad_workspaceId candidate then used_seats s ws + 1 else used_seats s ws)"
    "distinct (map mr_id (t_members s'))" "t_capacities s' = t_capacities s" "t_operations s' = t_operations s"
proof -
  have "used_seats s' ws \<le> (if ws = ad_workspaceId candidate then used_seats s ws + 1 else used_seats s ws)
    \<and> distinct (map mr_id (t_members s')) \<and> t_capacities s' = t_capacities s \<and> t_operations s' = t_operations s"
  proof (cases member)
    case None
    then show ?thesis
      using run ids unfolding activate_member_def
      by (auto simp: access_date_def access_uuid_def create_member_def create_row_def used_seats_def enabled_members_def
          count_rows_append split: if_splits) (fastforce simp: count_rows_def)+
  next
    case (Some m)
    have m: "m \<in> set (t_members s)" "mr_workspaceId m = ad_workspaceId candidate"
      using Some member by (auto simp: find_member_of_def dest!: find_row)
    obtain now where s': "t_members s' = upd_rows (\<lambda>x. mr_id x = mr_id m)
        (\<lambda>x. x\<lparr>mr_disabledAt := None, mr_version := mr_version x + 1, mr_updatedAt := now\<rparr>) (t_members s)"
      "t_capacities s' = t_capacities s" "t_operations s' = t_operations s"
      using run Some unfolding activate_member_def
      by (auto simp: access_date_def update_member_def update_row_def split: option.splits)
    have "map mr_id (t_members s') = map mr_id (t_members s)"
      by (simp add: s'(1))
    then show ?thesis
      using count_enable_one [OF ids m(1) _ refl, of "\<lambda>x. x\<lparr>mr_disabledAt := None, mr_version := mr_version x + 1, mr_updatedAt := now\<rparr>" ws]
        ids m(2) s' by (auto simp: used_seats_def enabled_members_def)
  qed
  then show "used_seats s' ws \<le> (if ws = ad_workspaceId candidate then used_seats s ws + 1 else used_seats s ws)"
    "distinct (map mr_id (t_members s'))" "t_capacities s' = t_capacities s" "t_operations s' = t_operations s"
    by blast+
qed

lemma case_runE:
  assumes "(case r of Inl e \<Rightarrow> Inl e | Inr (x, w) \<Rightarrow> g x w) = Inr y"
  obtains x w where "r = Inr (x, w)" "g x w = Inr y"
  using assms by (auto split: sum.splits)

text \<open>The branches of a transaction that reads, tests and then writes.\<close>

lemma read_runE:
  assumes "bnd (gets g) k w = Inr r"
  obtains "k (g w) w = Inr r"
  using assms by (simp add: bnd_run gets_run)

lemma the_or_runE:
  assumes "bnd (the_or err row) k w = Inr r"
  obtains x where "row = Some x" "k x w = Inr r"
  using assms by (auto simp: tx_simps the_or_def split: option.splits)

lemma date_runE:
  assumes "bnd (access_date e) k w = Inr r"
  obtains "k (clock e (a_tick w)) (w\<lparr>a_tick := a_tick w + 1\<rparr>) = Inr r"
  using assms by (simp add: bnd_run access_date_def)

lemma if_ret_runE:
  assumes "(if c then ret () else k) w = Inr (u, w')"
  obtains "w' = w" | "k w = Inr (u, w')"
  using assms by (auto split: if_splits)

lemma option_runE:
  assumes "(case x of None \<Rightarrow> k | Some y \<Rightarrow> m y) w = Inr r"
  obtains "k w = Inr r" | y where "m y w = Inr r"
  using assms by (cases x) auto

lemma admit_memberE:
  assumes run: "admit_member e f currentIntent member role teamIds s = Inr (u, s')"
    and free: "\<not> (1 + enabled_members (ad_workspaceId (af_candidate f)) s
      \<ge> effectiveAdmissionCeiling (af_seatLimit f) (find_capacity (ad_workspaceId (af_candidate f)) s))"
  obtains activated s1 where "activate_member e (af_candidate f) member role s = Inr (activated, s1)"
    and "thn (if member = None then create_profile e (af_candidate f) currentIntent else ret ())
      (thn (if member = None then modify (assign_teams (ad_workspaceId (af_candidate f)) (mr_id activated) teamIds) else ret ())
      (bnd (access_date e) (\<lambda>now.
      thn (update_admission (ad_id (af_candidate f)) (\<lambda>a. a\<lparr>ad_status := W_ACTIVE, ad_activatedAt := Some now,
        ad_memberId := Some (mr_id activated)\<rparr>))
      (thn (admission_audit f (mr_id activated) (enabled_members (ad_workspaceId (af_candidate f)) s)
        (effectiveAdmissionCeiling (af_seatLimit f) (find_capacity (ad_workspaceId (af_candidate f)) s)) role teamIds)
      (emitTeamEvent e ''admission'' (ad_workspaceId (af_candidate f)) (js ''advance:'' @ ad_id (af_candidate f)) None))))) s1
      = Inr (u, s')"
  using run free unfolding admit_member_def Let_def
  apply (simp only: bnd_run gets_run sum.case prod.case if_False)
  apply (erule case_runE)
  subgoal premises run
    by (rule run(1) [OF run(3,4)])
  done

lemma admit_member_seats:
  assumes run: "admit_member e f currentIntent member role teamIds s = Inr (u, s')"
  obtains (full) "s' = s"
    | (admitted) activated s1 where "1 + enabled_members (ad_workspaceId (af_candidate f)) s
        < effectiveAdmissionCeiling (af_seatLimit f) (find_capacity (ad_workspaceId (af_candidate f)) s)"
        "activate_member e (af_candidate f) member role s = Inr (activated, s1)" "seats_kept s1 s'"
proof (cases "1 + enabled_members (ad_workspaceId (af_candidate f)) s
    \<ge> effectiveAdmissionCeiling (af_seatLimit f) (find_capacity (ad_workspaceId (af_candidate f)) s)")
  case True
  then show ?thesis
    using run full by (auto simp: admit_member_def Let_def)
next
  case False
  let ?ws = "ad_workspaceId (af_candidate f)"
  from run False show ?thesis
  proof (rule admit_memberE)
    fix activated s1
    assume s1: "activate_member e (af_candidate f) member role s = Inr (activated, s1)"
      and rest: "thn (if member = None then create_profile e (af_candidate f) currentIntent else ret ())
        (thn (if member = None then modify (assign_teams ?ws (mr_id activated) teamIds) else ret ())
        (bnd (access_date e) (\<lambda>now.
        thn (update_admission (ad_id (af_candidate f)) (\<lambda>a. a\<lparr>ad_status := W_ACTIVE, ad_activatedAt := Some now,
          ad_memberId := Some (mr_id activated)\<rparr>))
        (thn (admission_audit f (mr_id activated) (enabled_members ?ws s)
          (effectiveAdmissionCeiling (af_seatLimit f) (find_capacity ?ws s)) role teamIds)
        (emitTeamEvent e ''admission'' ?ws (js ''advance:'' @ ad_id (af_candidate f)) None))))) s1 = Inr (u, s')"
    have "seats_kept s1 s'"
      by (rule stepsD [rotated], rule rest, unfold create_profile_def admission_audit_def, intro steps_intro)
    then show ?thesis
      using False s1 by (intro admitted) simp_all
  qed
qed

lemma admit_member_inv:
  assumes inv: "access_inv e' s" and run: "admit_member e f currentIntent member role teamIds s = Inr (u, s')"
    and member: "member = find_member_of (ad_workspaceId (af_candidate f)) (ad_subject (af_candidate f)) s"
  shows "access_inv e' s'"
  using run
proof (cases rule: admit_member_seats)
  case full
  then show ?thesis
    using inv by simp
next
  case (admitted activated s1)
  let ?ws = "ad_workspaceId (af_candidate f)"
  have ids: "distinct (map mr_id (t_members s))" and seats: "seats_inv (t_capacities s) (t_operations s) (used_seats s)"
    using inv by (simp_all add: access_inv_def)
  have free: "1 + used_seats s ?ws < effectiveAdmissionCeiling (af_seatLimit f) (find (\<lambda>c. ca_workspaceId c = ?ws) (t_capacities s))"
    using admitted(1) by (simp add: used_seats_def find_capacity_def)
  note effect = activate_member_effect [OF admitted(2) member ids]
  have "seats_inv (t_capacities s1) (t_operations s1) (used_seats s1)"
    unfolding effect(3,4)
  proof (rule one_more_member [OF seats free])
    show "used_seats s1 v \<le> (if v = ?ws then used_seats s ?ws + 1 else used_seats s v)" for v
      using effect(1) [of v] by (simp split: if_splits)
  qed
  then have "access_inv e' s1"
    using inv effect(2,4) by (simp add: access_inv_def)
  then show ?thesis
    by (rule seats_kept_inv [OF _ admitted(3)])
qed

lemma cancelInTransaction_kept: "steps seats_kept (cancelInTransaction e candidate code)"
  by (rule kept.steps_invitation_txs)

text \<open>The transaction of an admission ends early, cancels the admission or admits the candidate.\<close>

lemma admit_txE:
  assumes "admit_tx e f s = Inr (u, s')"
  obtains (skipped) "s' = s \<or> s' = s\<lparr>a_tick := a_tick s + 1\<rparr>"
    | (cancelled) candidate code where "cancelInTransaction e candidate code (s\<lparr>a_tick := a_tick s + 1\<rparr>) = Inr (u, s')"
    | (admitted) currentIntent role teamIds where "admit_member e f currentIntent
        (find_member_of (ad_workspaceId (af_candidate f)) (ad_subject (af_candidate f)) (s\<lparr>a_tick := a_tick s + 1\<rparr>)) role teamIds
        (s\<lparr>a_tick := a_tick s + 1\<rparr>) = Inr (u, s')"
proof -
  from assms show thesis
    unfolding admit_tx_def Let_def
    apply (elim read_runE the_or_runE date_runE if_ret_runE option_runE)
    apply (rule skipped, blast)
    apply (rule skipped, blast)
    apply (rule admitted, simp)
    apply (erule cancelled)
    done
qed

lemma admit_inv:
  assumes inv: "access_inv e' s" and run: "serializable e (admit_tx e f) s = Inr (u, s')"
  shows "access_inv e' s'"
proof -
  obtain k j where run: "admit_tx e f (s\<lparr>a_tick := k, a_fresh := j\<rparr>) = Inr (u, s')"
    using run by auto
  define s0 where "s0 = s\<lparr>a_tick := k, a_fresh := j\<rparr>"
  have inv: "access_inv e' s0"
    using inv by (rule access_inv_tables) (simp_all add: s0_def)
  have later: "access_inv e' (s0\<lparr>a_tick := a_tick s0 + 1\<rparr>)"
    using inv by (rule access_inv_tables) simp_all
  from run [folded s0_def] show ?thesis
  proof (cases rule: admit_txE)
    case skipped
    then show ?thesis
      using inv later by auto
  next
    case cancelled
    show ?thesis
      by (rule seats_kept_inv [OF later]) (rule stepsD [OF cancelInTransaction_kept cancelled])
  next
    case admitted
    then show ?thesis
      by (rule admit_member_inv [OF later]) (rule refl)
  qed
qed

section \<open>Reachable states\<close>

lemma access_step_inv:
  assumes "access_step e p s s'" "access_inv e s"
  shows "access_inv e s'"
  using assms
proof (induction rule: access_step.induct)
  case (prepared type v key actor request limit s op s')
  show ?case
    by (rule prepare_inv [OF prepared(5,1-4)])
next
  case (recovered ws i actor s op s')
  show ?case
    by (rule recover_inv [OF recovered(2,1)])
next
  case (proved ws b answer i s op s')
  show ?case
    by (rule apply_inv [OF proved(3,1,2)])
next
  case (deferred op s u s')
  show ?case
    by (rule defer_inv [OF deferred(2,1)])
next
  case (commanded actor action i type body s r s')
  show ?case
    by (rule seats_kept_inv [OF commanded(3) stepsD [OF kept.steps_team_command [OF team_action_kept [OF commanded(1)]] commanded(2)]])
next
  case (invited intent v s n s')
  show ?case
    by (rule seats_kept_inv [OF invited(2) stepsD [OF kept.steps_serializable [OF kept.steps_invitation_txs(3)] invited(1)]])
next
  case (expired intent s n s')
  show ?case
    by (rule seats_kept_inv [OF expired(2) stepsD [OF kept.steps_invitation_txs(4) expired(1)]])
next
  case (accepted event i a s u s')
  show ?case
    by (rule seats_kept_inv [OF accepted(2) stepsD [OF kept.steps_serializable [OF kept.steps_accept_tx] accepted(1)]])
next
  case (cancelled candidate code s u s')
  show ?case
    by (rule seats_kept_inv [OF cancelled(2) stepsD [OF kept.steps_serializable [OF kept.steps_invitation_txs(5)] cancelled(1)]])
next
  case (admitted f s u s')
  show ?case
    by (rule admit_inv [OF admitted(2,1)])
next
  case idle
  then show ?case
    by (auto intro: access_inv_tables)
next
  case outside
  then show ?case
    by (auto intro: access_inv_tables)
qed

text \<open>The seat invariant and the origin of the operations hold in every reachable state.\<close>

lemma reachable_inv: "access_reachable e p s \<Longrightarrow> access_inv e s"
proof (induction rule: access_reachable.induct)
  case initial
  then show ?case
    by (simp add: access_inv_def empty_access_def seats_inv_empty)
next
  case (step s s')
  then show ?case
    by (blast intro: access_step_inv)
qed

lemma reachable_seats: "access_reachable e p s \<Longrightarrow> seats_inv (t_capacities s) (t_operations s) (used_seats s)"
  using reachable_inv by (simp add: access_inv_def)

lemma reachable_origin: "access_reachable e p s \<Longrightarrow> x \<in> set (t_operations s) \<Longrightarrow> operation_origin e x"
  using reachable_inv by (simp add: access_inv_def)

end
