(* ===== verification/Access_Progress.thy ===== *)
theory Access_Progress
  imports Access_Reachable
begin

text \<open>
  What the steps of CRM Access do to its billing operations: no operation is deleted, its command is never
  rewritten, its state leaves PENDING once, a released operation is final and the version of the proof never
  decreases. The relation \<open>op_progress\<close> says this of one operation, \<open>progress\<close> of the table.
\<close>

section \<open>The relation\<close>

definition op_progress :: "billing_op \<Rightarrow> billing_op \<Rightarrow> bool" where
  "op_progress x y \<longleftrightarrow>
     bo_commandId y = bo_commandId x \<and> bo_workspaceId y = bo_workspaceId x \<and> bo_actorSubject y = bo_actorSubject x
     \<and> bo_commandType y = bo_commandType x \<and> bo_requestHash y = bo_requestHash x \<and> bo_request y = bo_request x
     \<and> bo_fenceRevision y = bo_fenceRevision x \<and> bo_targetSeats y = bo_targetSeats x
     \<and> (bo_releaseFence x \<longrightarrow> y = x)
     \<and> (bo_state x = S_PENDING \<or> bo_state y = bo_state x)
     \<and> (\<forall>v. bo_billingVersion x = Some v \<longrightarrow> (\<exists>w. bo_billingVersion y = Some w \<and> undec v \<le> undec w))"

definition progress :: "access \<Rightarrow> access \<Rightarrow> bool" where
  "progress s s' \<longleftrightarrow> (\<forall>x\<in>set (t_operations s). \<exists>y\<in>set (t_operations s'). op_progress x y)"

lemma op_progress_refl: "op_progress x x"
  by (simp add: op_progress_def)

lemma op_progress_trans: "op_progress x y \<Longrightarrow> op_progress y z \<Longrightarrow> op_progress x z"
  unfolding op_progress_def by (elim conjE) (intro conjI; force intro: order_trans)

lemma progress_subset: "set (t_operations s) \<subseteq> set (t_operations s') \<Longrightarrow> progress s s'"
  unfolding progress_def using op_progress_refl by blast

lemma progress_trans: "progress a b \<Longrightarrow> progress b c \<Longrightarrow> progress a c"
  unfolding progress_def by (meson op_progress_trans)

lemma progress_map:
  assumes "\<And>x. x \<in> set (t_operations s) \<Longrightarrow> op_progress x (f x)" "t_operations s' = map f (t_operations s)"
  shows "progress s s'"
  using assms unfolding progress_def by auto

interpretation progress: access_relation progress
  by unfold_locales (auto simp: aframe_def intro: progress_subset progress_trans)

section \<open>The steps\<close>

lemma progress_rows:
  "steps progress (create_billing_op x)" "steps progress (upsert_capacity r)" "steps progress (update_capacity i f)"
  "steps progress (create_member m)" "steps progress (update_member j g)"
  by (auto simp: steps_def create_billing_op_def upsert_capacity_def update_capacity_def create_member_def update_member_def
      create_row_def upsert_row_def update_row_def intro!: progress_subset split: if_splits option.splits)

lemma progress_prepare: "steps progress (prepare e type request limit)"
  unfolding prepare_def prepare_tx_def prepare_new_def reserve_revision_def billing_audit_def
  by (intro steps_intro progress_rows)

lemma progress_recover: "steps progress (serializable e (recover_tx e ws i actor))"
  unfolding recover_tx_def billing_audit_def by (intro steps_intro progress_rows)

lemma progress_admit: "steps progress (serializable e (admit_tx e f))"
  unfolding admit_tx_def admit_member_def activate_member_def create_profile_def admission_audit_def Let_def
  by (intro steps_intro progress_rows)

lemma progress_team_action: "team_action e p actor action \<Longrightarrow> steps progress action"
  by (induction rule: team_action.induct)
    (rule progress.steps_team_txs progress.steps_invitation_txs progress.steps_member_txs)+

lemma progress_defer: "steps progress (defer_check e op)"
proof (rule stepsI)
  fix s u s'
  assume run: "defer_check e op s = Inr (u, s')"
  let ?P = "\<lambda>x. bo_commandId x = bo_commandId op \<and> bo_nextCheckAt x = bo_nextCheckAt op \<and> \<not> bo_releaseFence x"
  let ?f = "\<lambda>x. x\<lparr>bo_nextCheckAt := clock e (a_tick s) + 5000\<rparr>"
  show "progress s s'"
  proof (rule progress_map)
    show "t_operations s' = map (\<lambda>x. if ?P x then ?f x else x) (t_operations s)"
      using run by (auto simp: defer_check_def access_date_def tx_simps upd_rows_def)
    show "op_progress x (if ?P x then ?f x else x)" for x
      by (simp add: op_progress_def)
  qed
qed

lemma record_proof_progress:
  assumes p: "proof_check e ws b p" and x: "\<not> bo_releaseFence x" "\<not> stale p x"
    and status: "bo_state x = S_PENDING \<or> status_state (jsfield p ''status'') = bo_state x"
  shows "op_progress x (record_proof e p x)"
  using x status by (auto simp: op_progress_def record_proof_def stale_def split: option.splits)

lemma progress_apply:
  assumes p: "proof_check e ws b p" and run: "serializable e (apply_tx e i p) s = Inr (op, s')"
    and inv: "access_inv e' s"
  shows "progress s s'"
proof -
  obtain k j where run: "apply_tx e i p (s\<lparr>a_tick := k, a_fresh := j\<rparr>) = Inr (op, s')"
    using run by auto
  then show ?thesis
  proof (cases rule: apply_txE)
    case kept
    then show ?thesis
      by (intro progress_subset) simp
  next
    case (settled x s1 s2 u y)
    have x: "x \<in> set (t_operations s)" "bo_commandId x = i"
      using settled(1) by (auto simp: find_billing_op_def dest!: find_row)
    have s1: "t_operations s1 = upd_rows (\<lambda>y. bo_commandId y = i) (record_proof e p) (t_operations s)"
      using settled(5) x(2) by (auto simp: update_billing_op_def update_row_def split: option.splits)
    have "distinct (map bo_commandId (t_operations s))"
      using inv seats_invD(2) by (auto simp: access_inv_def)
    then have only: "y = x" if "y \<in> set (t_operations s)" "bo_commandId y = i" for y
      using key_unique [where key = bo_commandId, OF _ that(1) x(1)] that(2) x(2) by simp
    have "t_operations s2 = t_operations s1"
    proof (cases "bo_targetSeats x = None")
      case True
      then show ?thesis
        using settled(6) by (simp add: apply_capacity_def)
    next
      case False
      then show ?thesis
        using apply_capacityE [OF settled(6)] by blast
    qed
    then have s': "t_operations s' = upd_rows (\<lambda>y. bo_commandId y = i) (record_proof e p) (t_operations s)"
      using settled(7) s1 by (simp add: logs_only_def)
    show ?thesis
    proof (rule progress_map)
      show "t_operations s' = map (\<lambda>y. if bo_commandId y = i then record_proof e p y else y) (t_operations s)"
        by (simp add: s' upd_rows_def)
      show "op_progress y (if bo_commandId y = i then record_proof e p y else y)" if "y \<in> set (t_operations s)" for y
        proof (cases "bo_commandId y = i")
        case True
        then show ?thesis
          using record_proof_progress [OF p settled(2,3,4)] only [OF that True] by simp
      next
        case False
        then show ?thesis
          by (simp add: op_progress_refl)
      qed
    qed
  qed
qed

lemma step_progress:
  assumes "access_step e p s s'" "access_inv e s"
  shows "progress s s'"
  using assms
proof (induction rule: access_step.induct)
  case (prepared type v key actor request limit s op s')
  show ?case
    by (rule stepsD [OF progress_prepare prepared(4)])
next
  case (recovered ws i actor s op s')
  show ?case
    by (rule stepsD [OF progress_recover recovered(1)])
next
  case (proved ws b answer i s op s')
  show ?case
    by (rule progress_apply [OF proved])
next
  case (deferred op s u s')
  show ?case
    by (rule stepsD [OF progress_defer deferred(1)])
next
  case (commanded actor action i type body s r s')
  show ?case
    by (rule stepsD [OF progress.steps_team_command [OF progress_team_action [OF commanded(1)]] commanded(2)])
next
  case (invited intent v s n s')
  show ?case
    by (rule stepsD [OF progress.steps_serializable [OF progress.steps_invitation_txs(3)] invited(1)])
next
  case (expired intent s n s')
  show ?case
    by (rule stepsD [OF progress.steps_invitation_txs(4) expired(1)])
next
  case (accepted event i a s u s')
  show ?case
    by (rule stepsD [OF progress.steps_serializable [OF progress.steps_accept_tx] accepted(1)])
next
  case (cancelled candidate code s u s')
  show ?case
    by (rule stepsD [OF progress.steps_serializable [OF progress.steps_invitation_txs(5)] cancelled(1)])
next
  case (admitted f s u s')
  show ?case
    by (rule stepsD [OF progress_admit admitted(1)])
qed (auto intro: progress_subset)

text \<open>Any number of steps after a reachable state.\<close>

lemma steps_progress:
  assumes "(access_step e p)\<^sup>*\<^sup>* s s'" "access_reachable e p s"
  shows "progress s s' \<and> access_reachable e p s'"
  using assms
proof (induction rule: rtranclp_induct)
  case base
  then show ?case
    by (auto intro: progress_subset)
next
  case (step s1 s2)
  then show ?case
    using step_progress [OF step.hyps(2) reachable_inv] access_reachable.step progress_trans by blast
qed

end
