(* ===== verification/Access_Handlers.thy ===== *)
theory Access_Handlers
  imports Access_Progress
begin

text \<open>
  The handlers of CRM Access run by the steps of the state machine: whatever a request, an event or a tick of
  the reconciliation does to the tables is a sequence of steps, so it ends in a reachable state. The answers
  of Billing enter the steps through the checks of the response parser.
\<close>

section \<open>Sequences of steps\<close>

context comp_relation begin

text \<open>A computation whose result is known to satisfy \<open>P\<close> passes this to the rest.\<close>

lemma wsteps_bind_value:
  assumes "wsteps R m" "\<And>s x s'. m s = (Inr x, s') \<Longrightarrow> P x" "\<And>x. P x \<Longrightarrow> wsteps R (f x)"
  shows "wsteps R (wbind m f)"
proof (rule wstepsI)
  fix s
  obtain r s' where m: "m s = (r, s')"
    by (cases "m s")
  have first: "R s s'"
    by (rule wstepsD [OF assms(1) m])
  show "R s (snd (wbind m f s))"
  proof (cases r)
    case (Inl err)
    then show ?thesis
      using m first by (simp add: wbind_run)
  next
    case (Inr x)
    then have "P x"
      using assms(2) m by simp
    then have "R s' (snd (f x s'))"
      using assms(3) by (simp add: wsteps_def)
    then have "R s (snd (f x s'))"
      by (rule comp_trans [OF first])
    then show ?thesis
      using m Inr by (simp add: wbind_run)
  qed
qed

lemma wsteps_check [wsteps_intro]: "wsteps R (wcheck err b)"
  unfolding wcheck_def by (intro wsteps_cases wsteps_basic)

lemma wsteps_finally: "wsteps R m \<Longrightarrow> wsteps R f \<Longrightarrow> wsteps R (wfinally m f)"
  unfolding wsteps_def wfinally_def by (auto split: prod.split sum.split) (metis snd_conv comp_trans)+

end

definition moves :: "env \<Rightarrow> peers \<Rightarrow> access \<Rightarrow> access \<Rightarrow> bool" where
  "moves e p = (access_step e p)\<^sup>*\<^sup>*"

interpretation moves: comp_relation "moves e p"
  by unfold_locales (auto simp: moves_def)

lemma one_move: "access_step e p s s' \<Longrightarrow> moves e p s s'"
  by (simp add: moves_def)

lemma idle_move: "moves e p s (s\<lparr>a_tick := i, a_fresh := j, a_calls := k, a_sent := l\<rparr>)"
  by (rule one_move) (rule access_step.idle)

lemma same_tables_move:
  assumes "s' = s\<lparr>a_tick := a_tick s', a_fresh := a_fresh s', a_calls := a_calls s', a_sent := a_sent s'\<rparr>"
  shows "moves e p s s'"
  by (subst assms) (rule idle_move)

lemma moves_ask [wsteps_intro]: "wsteps (moves e p) (ask f)"
  by (rule wstepsI) (simp add: ask_def same_tables_move)

lemma moves_sent [wsteps_intro]: "wsteps (moves e p) (wset (\<lambda>s. s\<lparr>a_sent := f s\<rparr>))"
  by (rule wstepsI) (simp add: same_tables_move)

text \<open>A transaction: when it fails, only the counters change.\<close>

lemma moves_tx:
  assumes "\<And>s x s'. m s = Inr (x, s') \<Longrightarrow> moves e p s s'"
  shows "wsteps (moves e p) (run_tx m)"
proof (rule wstepsI)
  fix s
  show "moves e p s (snd (run_tx m s))"
    using assms by (auto simp: run_tx_def same_tables_move split: sum.split)
qed

lemma moves_time [wsteps_intro]: "wsteps (moves e p) (run_tx (access_date e'))"
  by (rule moves_tx) (auto simp: access_date_def intro: same_tables_move)

section \<open>Requests to other services\<close>

lemma moves_request [wsteps_intro]:
  "wsteps (moves e p) (requireBilling p')" "wsteps (moves e p) (commerce_request e' p' path body kind command binding)"
  unfolding requireBilling_def commerce_request_def by (intro wsteps_intro)+

lemma moves_owner [wsteps_intro]:
  "wsteps (moves e p) (canonicalOwner p' ws subject)" "wsteps (moves e p) (owner_subject p' ws a)"
  "wsteps (moves e p) (revalidate p' ws a subject)"
  unfolding revalidate_def owner_subject_def canonicalOwner_def by (intro wsteps_intro)+

lemma commerce_requestE:
  assumes "commerce_request e p path body kind command binding s = (Inr v, s')"
  shows "response_ok e kind (ws_of body) (case binding of Some b \<Rightarrow> Some b | None \<Rightarrow> body_binding body) v"
proof -
  define b where "b = (case binding of Some b \<Rightarrow> Some b | None \<Rightarrow> body_binding body)"
  obtain answer where "commerce_result e path kind (ws_of body) b answer = Inr v"
    using assms unfolding commerce_request_def b_def
    by (auto simp: wthen_def wbind_run wcheck_def requireBilling_def ask_def split: if_splits sum.splits prod.splits)
  then have "response_ok e kind (ws_of body) b v"
    by (auto simp: commerce_result_def parseBillingResponse_def split: option.splits if_splits sum.splits)
  then show ?thesis
    by (simp add: b_def)
qed

lemma proof_answer:
  assumes "commerce_request e p path body K_proof command binding s = (Inr v, s')"
  shows "\<exists>ws b. proof_check e ws b v"
  using commerce_requestE [OF assms] by (auto simp: response_ok_def split: option.splits)

lemma summary_answer:
  assumes "commerce_request e p path body K_summary command binding s = (Inr v, s')"
  shows "\<exists>ws. summary_check e ws v"
  using commerce_requestE [OF assms] by (auto simp: response_ok_def)

lemma summary_limit:
  assumes "summary_check e ws v"
  shows "limit_ok (summary_seat_limit v)"
proof -
  define parts where "parts = common_fields ws @
    [(''billingVersion'', validVersion), (''serverTime'', iso e), (''policy'', price_check),
     (''trial'', nullable (\<lambda>v. shape [(''startsAt'', iso e), (''expiresAt'', iso e), (''seatLimit'', validSeats)] v
       \<and> earlier e (jsfield v ''startsAt'') (jsfield v ''expiresAt''))),
     (''period'', nullable (period_check e)), (''pendingOrder'', nullable (order_check e)), (''renewal'', renewal_check e)]"
  have s: "shape parts v"
    using assms by (simp add: summary_check_def parts_def)
  have "nullable (period_check e) (jsfield v ''period'')"
    by (rule shape_field [OF s]) (simp add: parts_def)
  then have period: "validSeats (jsfield (jsfield v ''period'') ''totalSeats'')" if "isRecord (jsfield v ''period'')"
    using that by (auto simp: nullable_def isRecord_def period_check_def elim!: shape_field)
  have "nullable (\<lambda>v. shape [(''startsAt'', iso e), (''expiresAt'', iso e), (''seatLimit'', validSeats)] v
    \<and> earlier e (jsfield v ''startsAt'') (jsfield v ''expiresAt'')) (jsfield v ''trial'')"
    by (rule shape_field [OF s]) (simp add: parts_def)
  then have trial: "validSeats (jsfield (jsfield v ''trial'') ''seatLimit'')" if "isRecord (jsfield v ''trial'')"
    using that by (auto simp: nullable_def isRecord_def elim!: shape_field)
  have range: "2 \<le> as_int u \<and> as_int u \<le> 10000" if "validSeats u" for u
    using valid_seats [OF that] by auto
  show ?thesis
    using period trial range by (auto simp: limit_ok_def summary_seat_limit_def Let_def split: if_splits)
qed

section \<open>Handlers of billing\<close>

lemma moves_apply:
  assumes "\<exists>ws b. proof_check e ws b v"
  shows "wsteps (moves e p) (applyProof e op v)"
proof -
  have "moves e p s s'" if "serializable e (apply_tx e (bo_commandId op) v) s = Inr (x, s')" for s x s'
    using assms one_move [OF access_step.proved [OF _ that]] by blast
  then show ?thesis
    unfolding applyProof_def by (intro wsteps_intro moves_tx)
qed

lemma moves_proof:
  assumes "\<And>v. \<exists>ws b. proof_check e ws b v \<Longrightarrow> wsteps (moves e p) (k v)"
  shows "wsteps (moves e p) (wbind (commerce_request e p path body K_proof command binding) k)"
  by (rule moves.wsteps_bind_value [OF moves_request(2) proof_answer assms])

lemma moves_execute: "wsteps (moves e p) (execute_operation e p op)" "wsteps (moves e p) (close_operation e p op)"
  unfolding execute_operation_def close_operation_def by (intro moves_proof moves_apply wsteps_intro; assumption)+

lemma moves_known: "wsteps (moves e p) (known ws i)"
  unfolding known_def by (intro wsteps_intro)

lemma moves_defer: "wsteps (moves e p) (run_tx (defer_check e op))"
  by (rule moves_tx) (rule one_move, rule access_step.deferred)

lemma moves_synchronize: "wsteps (moves e p) (synchronize e p op)"
  unfolding synchronize_def
  by (intro moves.wsteps_cases moves.wsteps_basic moves.wsteps_finally moves_proof moves_apply moves_defer)

lemma moves_sync_pending: "wsteps (moves e p) (syncPending e p ws)"
  unfolding syncPending_def by (intro wsteps_intro moves_known moves_synchronize)

lemma moves_recovery: "wsteps (moves e p) (run_tx (serializable e (recover_tx e ws i actor)))"
  by (rule moves_tx) (rule one_move, rule access_step.recovered)

lemma moves_recover: "wsteps (moves e p) (recover e p ws i actor)"
  unfolding recover_def by (intro wsteps_intro moves_execute moves_synchronize moves_recovery)

lemma moves_limit:
  "wsteps (moves e p) (current_seat_limit e p type request)"
  "current_seat_limit e p type request s = (Inr limit, s') \<Longrightarrow> limit_ok limit"
proof -
  show "wsteps (moves e p) (current_seat_limit e p type request)"
    unfolding current_seat_limit_def by (intro wsteps_intro)
  assume "current_seat_limit e p type request s = (Inr limit, s')"
  then consider "limit = None"
    | body v s1 where "commerce_request e p ''summary'' body K_summary False None s = (Inr v, s1)" "limit = summary_seat_limit v"
    unfolding current_seat_limit_def by (auto simp: wbind_run wret_def split: if_splits sum.splits prod.splits)
  then show "limit_ok limit"
  proof cases
    case 1
    then show ?thesis
      by (simp add: limit_ok_def)
  next
    case 2
    then show ?thesis
      using summary_answer summary_limit by blast
  qed
qed

lemma moves_prepare:
  assumes "parseCommand type value key actor = Inr request" "type \<in> set commerce_types" "limit_ok limit"
  shows "wsteps (moves e p) (run_tx (prepare e type request limit))"
  by (rule moves_tx) (rule one_move, rule access_step.prepared [OF assms])

lemma moves_parsed:
  assumes type: "type \<in> set commerce_types" and k: "\<And>operation. wsteps (moves e p) (k operation)"
  shows "wsteps (moves e p) (wbind (wlift (parseCommand type value key actor)) (\<lambda>request.
    wbind (current_seat_limit e p type request) (\<lambda>limit. wbind (run_tx (prepare e type request limit)) k)))"
proof (rule moves.wsteps_bind_value [where P = "\<lambda>request. parseCommand type value key actor = Inr request"])
  fix request
  assume request: "parseCommand type value key actor = Inr request"
  show "wsteps (moves e p) (wbind (current_seat_limit e p type request) (\<lambda>limit. wbind (run_tx (prepare e type request limit)) k))"
    by (rule moves.wsteps_bind_value [where P = limit_ok, OF moves_limit], assumption)
      (intro wsteps_intro k moves_prepare [OF request type])
qed (auto simp: wlift_def split: sum.splits intro: moves.wsteps_basic)

lemma moves_command:
  assumes "type \<in> set commerce_types"
  shows "wsteps (moves e p) (billing_command e p type authorization value key)"
  unfolding billing_command_def by (intro moves_parsed [OF assms] wsteps_intro moves_execute)

lemma moves_reads:
  "wsteps (moves e p) (billing_context e p a ws)" "wsteps (moves e p) (billing_quote e p a value)"
  "wsteps (moves e p) (billing_operation e p a ws i recovery)" "wsteps (moves e p) (billing_order e p a ws i)"
  "wsteps (moves e p) (billing_history e p a ws page n)"
  unfolding billing_context_def billing_quote_def billing_operation_def billing_order_def billing_history_def
  by (intro wsteps_intro moves_sync_pending moves_recover moves_known moves_synchronize)+

lemma moves_authorize: "wsteps (moves e p) (authorize_endpoint e p body)"
proof -
  have "moves e p s s'" if run: "serializable e (authorize_tx body) s = Inr (x, s')" for s x s'
  proof -
    obtain i j where "authorize_tx body (s\<lparr>a_tick := i, a_fresh := j\<rparr>) = Inr (x, s')"
      using run by auto
    then have "s' = s\<lparr>a_tick := i, a_fresh := j\<rparr>"
      unfolding authorize_tx_def Let_def by (auto split: option.splits)
    then show ?thesis
      by (simp add: same_tables_move)
  qed
  then show ?thesis
    unfolding authorize_endpoint_def authorizeOperation_def by (intro wsteps_intro moves_tx)
qed

lemma moves_settle_all: "(\<And>x. wsteps (moves e p) (f x)) \<Longrightarrow> wsteps (moves e p) (settle_all f xs)"
proof (induction xs)
  case Nil
  then show ?case
    unfolding settle_all.simps by (intro wsteps_intro)
next
  case (Cons x xs)
  then show ?case
    unfolding settle_all.simps by (intro wsteps_intro) (use Cons in blast)+
qed

lemma moves_batches: "wsteps (moves e p) (batches e p stopping i rows)"
proof (induction e p stopping i rows rule: batches.induct)
  case (1 e p stopping i rows)
  then show ?case
    by (subst batches.simps) (auto intro!: wsteps_intro moves_settle_all moves_known moves_synchronize simp: check_operation_def)
qed

lemma moves_tick: "wsteps (moves e p) (reconcile_tick e p stopping)"
  unfolding reconcile_tick_def by (intro wsteps_intro moves_batches)

section \<open>Handlers of the team\<close>

lemma moves_authority [wsteps_intro]:
  "wsteps (moves e p) (resolve p' ws subject m caller)" "wsteps (moves e p) (authorize_caller p' a ws caller)"
  "wsteps (moves e p) (authorizeSubject p' ws subject caller)" "wsteps (moves e p) (authority p' a ws mode)"
  unfolding authority_def authorizeSubject_def authorize_caller_def resolve_def by (intro wsteps_intro)+

lemma moves_team_command:
  assumes "team_action e p actor action"
  shows "wsteps (moves e p) (run_tx (team_command e p actor i type body action))"
  by (rule moves_tx) (rule one_move, rule access_step.commanded [OF assms])

lemma moves_target: "wsteps (moves e p) (run_tx (target_member actor i v))"
proof -
  have "moves e p s s'" if "target_member actor i v s = Inr (x, s')" for s x s'
  proof -
    have "s' = s"
      using that unfolding target_member_def by (auto split: option.splits)
    then show ?thesis
      by (simp add: same_tables_move)
  qed
  then show ?thesis
    by (rule moves_tx)
qed

lemma moves_team:
  "wsteps (moves e p) (createTeam e p a dto)" "wsteps (moves e p) (updateTeam e p a i dto)"
  "wsteps (moves e p) (archiveTeam e p a i dto)" "wsteps (moves e p) (invite e p a dto)"
  "wsteps (moves e p) (revokeInvitation e p a i dto)"
  unfolding createTeam_def updateTeam_def archiveTeam_def invite_def revokeInvitation_def Let_def
  by (intro wsteps_intro moves_team_command team_action.intros)+

lemma moves_members:
  "wsteps (moves e p) (changeRole e p a i dto)" "wsteps (moves e p) (setTeams e p a i dto)"
  "wsteps (moves e p) (disable_member e p a i dto)" "wsteps (moves e p) (enable_member e p a i dto)"
  unfolding changeRole_def setTeams_def disable_member_def enable_member_def Let_def
  by (intro wsteps_intro moves_target moves_team_command team_action.intros)+

lemma moves_provision: "wsteps (moves e p) (provision e p ws i)"
proof -
  have "wsteps (moves e p) (run_tx (expire_intent intent))" "wsteps (moves e p) (run_tx (serializable e (mark_invited intent v)))"
    for intent v
    by (rule moves_tx, rule one_move, erule access_step.expired access_step.invited)+
  then show ?thesis
    unfolding provision_def revoke_at_identity_def by (intro wsteps_intro)
qed

lemma moves_accept: "wsteps (moves e p) (accept e p event)"
proof -
  have "wsteps (moves e p) (run_tx (serializable e (accept_tx e event i a)))" for i a
    by (rule moves_tx) (rule one_move, erule access_step.accepted)
  then show ?thesis
    unfolding accept_def by (auto intro!: wsteps_intro split: invitation_answer.split option.split)
qed

lemma moves_cancel: "wsteps (moves e p) (cancel_admission e candidate code)"
  unfolding cancel_admission_def by (rule moves_tx) (rule one_move, erule access_step.cancelled)

lemma moves_entitled: "wsteps (moves e p) (admit_entitled e candidate intent actor billing)"
proof -
  have "wsteps (moves e p) (run_tx (serializable e (admit_tx e f)))" for f
    by (rule moves_tx) (rule one_move, erule access_step.admitted)
  then show ?thesis
    unfolding admit_entitled_def by (intro wsteps_intro)
qed

lemma moves_obstacle: "wsteps (moves e p) (acceptance_obstacle p' candidate intent)"
  unfolding acceptance_obstacle_def by (intro wsteps_intro) (auto intro!: wsteps_intro split: invitation_answer.split)

lemma moves_admit_next: "wsteps (moves e p) (admitNext e p ws)"
  unfolding admitNext_def admit_candidate_def admit_authorized_def
  by (intro wsteps_intro moves_sync_pending moves_cancel moves_obstacle moves_entitled)
    (auto intro!: wsteps_intro moves_cancel moves_obstacle moves_entitled split: sum.split)

text \<open>A handler that starts in a reachable state ends in one.\<close>

lemma moves_reachable: "access_reachable e p s \<Longrightarrow> wsteps (moves e p) m \<Longrightarrow> access_reachable e p (snd (m s))"
  using steps_progress [of e p s] by (simp add: wsteps_def moves_def)

end
