(* ===== verification/Access_Scenario.thy ===== *)
theory Access_Scenario
  imports Access_Handlers Scenario
begin

text \<open>
  A concrete history of CRM Access, on which the properties are evaluated: the checkout of three seats that
  Scenario follows in Billing is reserved in CRM Access first.
\<close>

definition sample_crm_body :: jsval where
  "sample_crm_body = obj [(''schemaVersion'', JInt 1), (''workspaceId'', JStr (sample_uuid 901)),
     (''commandId'', JStr (sample_uuid 900)), (''expectedBillingVersion'', JStr (js ''0'')),
     (''expectedPolicyVersion'', JInt 1), (''cycle'', JStr (js ''MONTHLY'')), (''totalSeats'', JInt 3),
     (''autoRenew'', JBool True), (''consentVersion'', JStr WINCRM_CONSENT_VERSION)]"

definition sample_crm_request :: jsval where
  "sample_crm_request = obj [(''schemaVersion'', JInt 1), (''workspaceId'', JStr (sample_uuid 901)),
     (''commandId'', JStr (sample_uuid 900)), (''expectedBillingVersion'', JStr (js ''0'')),
     (''expectedPolicyVersion'', JInt 1), (''cycle'', JStr (js ''MONTHLY'')), (''totalSeats'', JInt 3),
     (''autoRenew'', JBool True), (''consentVersion'', JStr WINCRM_CONSENT_VERSION), (''actorSubject'', JStr (js ''owner''))]"

lemma match_lower_classes:
  assumes "match_classes ps s" "list_all2 (\<lambda>p q. \<forall>c. p c \<longrightarrow> q c \<and> \<not> (65 \<le> c \<and> c \<le> 90)) ps qs"
  shows "match_classes qs s \<and> lower_case s"
  using assms
proof (induction s arbitrary: ps qs)
  case (Cons c s)
  then show ?case
    by (cases ps; cases qs) (auto simp: match_classes_def lower_case_def)
qed (auto simp: match_classes_def lower_case_def)

lemma billing_uuid: "commerceUuid v \<Longrightarrow> validUuid v"
proof -
  assume "commerceUuid v"
  then obtain s where s: "v = JStr s" "match_classes WINCRM_UUID s"
    by (cases v) (auto simp: commerceUuid_def)
  have "list_all2 (\<lambda>p q. \<forall>c. p c \<longrightarrow> q c \<and> \<not> (65 \<le> c \<and> c \<le> 90)) WINCRM_UUID UUID_V4"
    unfolding UUID_V4_def WINCRM_UUID_def
    by (intro list_all2_appendI) (auto simp: list_all2_conv_all_nth is_hex_def is_lower_hex_def is_digit_def)
  then show ?thesis
    using match_lower_classes [OF s(2)] s(1) by (simp add: validUuid_def isUuidV4_def)
qed

lemma sample_valid_uuids: "validUuid (JStr (sample_uuid 900))" "validUuid (JStr (sample_uuid 901))"
  by (intro billing_uuid sample_uuids)+

lemma sample_body_checks:
  "isRecord sample_crm_body" "hasExactKeys sample_crm_body (command_keys ''WINCRM_CHECKOUT'')"
  "validVersion (JStr (js ''0''))" "validSubject (JStr (js ''owner''))" "command_fields_ok ''WINCRM_CHECKOUT'' sample_crm_body"
proof -
  show "isRecord sample_crm_body"
    by (simp add: isRecord_def sample_crm_body_def obj_def)
  show "hasExactKeys sample_crm_body (command_keys ''WINCRM_CHECKOUT'')"
    by (simp add: sample_crm_body_def obj_def hasExactKeys_def command_keys_def)
  show "validVersion (JStr (js ''0''))"
    by (simp add: validVersion_def js_def undec_def)
  show "validSubject (JStr (js ''owner''))"
    by (simp add: validSubject_def js_def is_space_def high_surrogate_def low_surrogate_def)
  show "command_fields_ok ''WINCRM_CHECKOUT'' sample_crm_body"
    by (simp add: command_fields_ok_def sample_crm_body_def validInt_def validCycle_def validSeats_def validConsent_def
      is_safe_integer_def MAX_SAFE_INTEGER_def WINCRM_CONSENT_VERSION_def js_def is_alnum_def is_digit_def)
qed

lemma sample_parsed:
  "parseCommand ''WINCRM_CHECKOUT'' sample_crm_body (Some (sample_uuid 900)) (js ''owner'') = Inr sample_crm_request"
proof -
  have "jsfield sample_crm_body ''schemaVersion'' = JInt 1" "jsfield sample_crm_body ''commandId'' = JStr (sample_uuid 900)"
    "jsfield sample_crm_body ''workspaceId'' = JStr (sample_uuid 901)"
    "jsfield sample_crm_body ''expectedBillingVersion'' = JStr (js ''0'')"
    by (simp_all add: sample_crm_body_def)
  then show ?thesis
    using sample_body_checks unfolding parseCommand_def
    by (simp add: sample_valid_uuids workspace_def) (simp add: sample_crm_body_def sample_crm_request_def obj_def)
qed

lemma sample_request_fields [simp]:
  "cmd_of sample_crm_request = sample_uuid 900" "ws_of sample_crm_request = sample_uuid 901"
  "actor_of sample_crm_request = js ''owner''" "target_seats sample_crm_request = Some 3"
  "commerceHash sample_env type sample_crm_request = sample_hash"
  by (simp_all add: sample_crm_request_def target_seats_def commerceHash_def sample_hash_def sample_env_def obj_def)

lemma sample_serializable:
  "action s = Inr r \<Longrightarrow> serializable sample_env action s = Inr r"
  by (simp add: serializable_def numeral_2_eq_2 sample_env_def)

definition sample_pending :: billing_op where
  "sample_pending = new_billing_op ''WINCRM_CHECKOUT'' sample_crm_request sample_hash (Some 3) (Some 1) 1700000000000"

definition sample_capacity :: capacity_row where
  "sample_capacity = \<lparr>ca_workspaceId = sample_uuid 901, ca_revision = 1, ca_admissionCeiling = Some 2,
     ca_pendingOperationId = Some (sample_uuid 900), ca_pendingTargetSeats = Some 3, ca_latestCommittedOperationId = None\<rparr>"

definition reserved_state :: access where
  "reserved_state = empty_access\<lparr>t_capacities := [sample_capacity], t_operations := [sample_pending],
     t_receipts := [\<lparr>tr_commandId = sample_uuid 900, tr_workspaceId = sample_uuid 901, tr_actorSubject = js ''owner'',
       tr_commandType = ''WINCRM_CHECKOUT'', tr_requestHash = sample_hash,
       tr_result = obj [(''schemaVersion'', JInt 1), (''operationId'', JStr (sample_uuid 900))]\<rparr>],
     t_audits := [\<lparr>ta_workspaceId = sample_uuid 901, ta_actorSubject = js ''owner'', ta_commandId = sample_uuid 0,
       ta_action = ''BILLING_OPERATION_PREPARED'', ta_targetId = sample_uuid 900, ta_before = JNull,
       ta_after = json (obj [(''state'', state_js S_PENDING), (''releaseFence'', JBool False), (''targetSeats'', JInt 3),
         (''fenceRevision'', JInt 1)])\<rparr>],
     a_tick := 1, a_fresh := 1\<rparr>"

text \<open>The definitions that a run of CRM Access unfolds at every Prisma call.\<close>

lemmas access_run_defs = find_billing_op_def find_capacity_def find_team_receipt_def tx_simps upsert_capacity_def
  upsert_row_def enabled_members_def count_rows_def create_team_receipt_def create_row_def access_date_def access_uuid_def
  create_billing_op_def update_capacity_def update_row_def upd_rows_def billing_audit_def auditTeam_def create_audit_def
  truthy_def opt_js_def

lemma sample_pending_simps [simp]:
  "bo_commandId sample_pending = sample_uuid 900" "bo_workspaceId sample_pending = sample_uuid 901"
  "bo_actorSubject sample_pending = js ''owner''" "bo_requestHash sample_pending = Some sample_hash"
  "bo_fenceRevision sample_pending = Some 1" "bo_targetSeats sample_pending = Some 3" "bo_state sample_pending = S_PENDING"
  "\<not> bo_releaseFence sample_pending" "bo_commandType sample_pending = ''WINCRM_CHECKOUT''"
  by (simp_all add: sample_pending_def new_billing_op_def)

lemma sample_reservation:
  "prepare sample_env ''WINCRM_CHECKOUT'' sample_crm_request (Some 2) empty_access = Inr (sample_pending, reserved_state)"
  unfolding prepare_def
proof (rule sample_serializable)
  show "prepare_tx sample_env ''WINCRM_CHECKOUT'' sample_crm_request (Some 2) empty_access = Inr (sample_pending, reserved_state)"
    by (simp add: prepare_tx_def prepare_new_def reserve_revision_def empty_access_def reserved_state_def access_run_defs
        sample_pending_def [symmetric] sample_capacity_def) (simp add: obj_def opt_js_def)
qed

lemma reserved_reachable: "access_reachable sample_env p reserved_state"
proof (rule access_reachable.step [OF access_reachable.initial])
  show "access_step sample_env p empty_access reserved_state"
    by (rule access_step.prepared [OF sample_parsed _ _ sample_reservation]) (simp_all add: commerce_types_def limit_ok_def)
qed

text \<open>Billing asks before it charges.\<close>

definition sample_question :: jsval where
  "sample_question = obj [(''schemaVersion'', JInt 1), (''workspaceId'', JStr (sample_uuid 901)), (''actorSubject'', JStr (js ''owner'')),
     (''commandId'', JStr (sample_uuid 900)), (''requestHash'', JStr sample_hash), (''fenceRevision'', JInt 1), (''targetSeats'', JInt 3)]"

lemma sample_granted: "authorize_tx sample_question reserved_state = Inr (authorized_answer sample_question sample_fence, reserved_state)"
  by (simp add: authorize_tx_def sample_question_def reserved_state_def access_run_defs operation_matches_def capacity_fence_def
      sample_capacity_def sample_fence_def) (simp add: obj_def sample_hash_def)

text \<open>A member that was disabled waits to be admitted again, into three seats.\<close>

definition returning_member :: member_row where
  "returning_member = \<lparr>mr_id = sample_uuid 1, mr_workspaceId = sample_uuid 901, mr_subject = js ''ann'',
     mr_membershipId = sample_uuid 2, mr_role = js ''MANAGER'', mr_disabledAt = Some 5, mr_version = 2, mr_createdAt = 1,
     mr_updatedAt = 5\<rparr>"

definition returning_admission :: admission_row where
  "returning_admission = \<lparr>ad_id = sample_uuid 3, ad_workspaceId = sample_uuid 901, ad_intentId = None, ad_sourceAcceptanceId = None,
     ad_memberId = Some (sample_uuid 1), ad_expectedMemberVersion = Some 2, ad_subject = js ''ann'',
     ad_membershipId = sample_uuid 2, ad_requestedBySubject = js ''owner'', ad_position = 1, ad_status = W_WAITING,
     ad_activatedAt = None, ad_cancellationCode = None, ad_createdAt = 6\<rparr>"

definition returning_state :: access where
  "returning_state = reserved_state\<lparr>
     t_members := [returning_member], t_admissions := [returning_admission],
     t_workspaces := [\<lparr>wa_workspaceId = sample_uuid 901, wa_lifecycle = L_ACTIVE, wa_activatedBySubject = js ''owner'',
       wa_billingEntitlementId = sample_uuid 4, wa_onboardingCompletedAt = Some 1\<rparr>],
     t_capacities := [sample_capacity\<lparr>ca_admissionCeiling := None\<rparr>]\<rparr>"

definition returning_facts :: admission_facts where
  "returning_facts = \<lparr>af_candidate = returning_admission, af_intent = None,
     af_actor = \<lparr>au_workspaceId = sample_uuid 901, au_subject = js ''owner'', au_role = OWNER, au_state = ''ACTIVE'',
       au_dataScope = ''ALL'', au_teamIds = [], au_permissions = permissions_of OWNER ''ACTIVE''\<rparr>,
     af_entitlement = \<lparr>ed_id = sample_uuid 4, ed_seatLimit = JInt 5, ed_policyVersion = JInt 1, ed_graceUntil = None,
       ed_effectiveUntil = 1800000000000\<rparr>, af_seatLimit = 5\<rparr>"

lemma returning_simps [simp]:
  "mr_id returning_member = sample_uuid 1" "mr_workspaceId returning_member = sample_uuid 901"
  "mr_subject returning_member = js ''ann''" "mr_membershipId returning_member = sample_uuid 2"
  "mr_disabledAt returning_member = Some 5" "mr_version returning_member = 2" "mr_role returning_member = js ''MANAGER''"
  "ad_id returning_admission = sample_uuid 3" "ad_workspaceId returning_admission = sample_uuid 901"
  "ad_memberId returning_admission = Some (sample_uuid 1)" "ad_expectedMemberVersion returning_admission = Some 2"
  "ad_subject returning_admission = js ''ann''" "ad_membershipId returning_admission = sample_uuid 2"
  "ad_status returning_admission = W_WAITING"
  by (simp_all add: returning_member_def returning_admission_def)

lemma returning_tables [simp]:
  "t_members returning_state = [returning_member]" "t_admissions returning_state = [returning_admission]"
  "t_capacities returning_state = [sample_capacity\<lparr>ca_admissionCeiling := None\<rparr>]" "t_memberTeams returning_state = []"
  "t_teams returning_state = []" "t_events returning_state = []" "t_receipts returning_state = t_receipts reserved_state"
  "t_audits returning_state = t_audits reserved_state" "a_tick returning_state = 1" "a_fresh returning_state = 1"
  by (simp_all add: returning_state_def reserved_state_def empty_access_def)

lemma returning_fact_simps [simp]:
  "af_candidate returning_facts = returning_admission" "af_intent returning_facts = None" "af_seatLimit returning_facts = 5"
  "au_role (af_actor returning_facts) = OWNER" "ed_id (af_entitlement returning_facts) = sample_uuid 4"
  "ed_graceUntil (af_entitlement returning_facts) = None" "ed_effectiveUntil (af_entitlement returning_facts) = 1800000000000"
  by (simp_all add: returning_facts_def)

lemma returning_workspace: "find_workspace (sample_uuid 901) returning_state
  = Some \<lparr>wa_workspaceId = sample_uuid 901, wa_lifecycle = L_ACTIVE, wa_activatedBySubject = js ''owner'',
      wa_billingEntitlementId = sample_uuid 4, wa_onboardingCompletedAt = Some 1\<rparr>"
  by (simp add: find_workspace_def returning_state_def)

lemma returning_admitted:
  "\<exists>s'. admit_tx sample_env returning_facts returning_state = Inr ((), s')
    \<and> enabled_members (sample_uuid 901) returning_state = 0 \<and> enabled_members (sample_uuid 901) s' = 1"
  apply (simp add: admit_tx_def Let_def tx_simps first_waiting_def returning_workspace access_date_def find_member_of_def
    all_team_ids_def)
  apply (simp add: admission_obstacle_def manager_current_def member_unchanged_def manages_role_def teams_ok_def)
  apply (simp add: admit_member_def Let_def effectiveAdmissionCeiling_def activate_member_def access_run_defs sample_capacity_def
      update_member_def update_admission_def admission_audit_def emitTeamEvent_def create_event_def)
  apply (simp add: reserved_state_def)
  done

text \<open>The same command, given up before it was prepared.\<close>

definition sample_given_up :: billing_op where
  "sample_given_up = tombstone (sample_uuid 901) (sample_uuid 900) (js ''owner'') 1700000000000"

lemma sample_given_up_simps [simp]:
  "bo_commandId sample_given_up = sample_uuid 900" "bo_state sample_given_up = S_NOT_STARTED"
  by (simp_all add: sample_given_up_def tombstone_def)

lemma given_up_run:
  "\<exists>s. recover_tx sample_env (sample_uuid 901) (sample_uuid 900) (js ''owner'') empty_access = Inr (sample_given_up, s)
    \<and> t_operations s = [sample_given_up]"
  by (simp add: recover_tx_def empty_access_def access_run_defs sample_given_up_def [symmetric])

lemma given_up_reachable: "\<exists>s. access_reachable sample_env p s \<and> t_operations s = [sample_given_up]"
proof -
  obtain s where s: "recover_tx sample_env (sample_uuid 901) (sample_uuid 900) (js ''owner'') empty_access = Inr (sample_given_up, s)"
    "t_operations s = [sample_given_up]"
    using given_up_run by blast
  have "access_step sample_env p empty_access s"
    by (rule access_step.recovered, rule sample_serializable, rule s(1))
  then show ?thesis
    using access_reachable.step [OF access_reachable.initial] s(2) by blast
qed

text \<open>The owner of the workspace, as Identity reports it.\<close>

definition sample_peers :: peers where
  "sample_peers = \<lparr>pe_billingEnabled = True, pe_authContext = (\<lambda>n a. Inl A_NotFound), pe_sourceContext = (\<lambda>n w u. Inl A_NotFound),
     pe_widgetSourceContext = (\<lambda>n w u. Inr \<lparr>sc_subject = u, sc_ownerSubject = Some (js ''owner''),
       sc_membership = Some \<lparr>mb_workspaceId = w, mb_membershipId = sample_uuid 5, mb_role = js ''OWNER''\<rparr>\<rparr>),
     pe_entitlement = (\<lambda>n w. Inr \<lparr>ea_status = ''ACTIVE'', ea_entitlement = Some (af_entitlement returning_facts)\<rparr>), pe_commerce = (\<lambda>n path v. None), pe_createInvitation = (\<lambda>n i. Inl A_NotFound),
     pe_revokeInvitation = (\<lambda>n i. None), pe_acceptance = (\<lambda>n i w. Rejected), pe_localeLess = (\<lambda>a b. False),
     pe_sameName = (=), pe_lower = (\<lambda>s. s), pe_nfc = (\<lambda>s. s), pe_nameText = (\<lambda>s. True)\<rparr>"

lemma sample_question_fields [simp]:
  "jsfield sample_question ''schemaVersion'' = JInt 1" "jsfield sample_question ''workspaceId'' = JStr (sample_uuid 901)"
  "jsfield sample_question ''commandId'' = JStr (sample_uuid 900)" "jsfield sample_question ''actorSubject'' = JStr (js ''owner'')"
  "jsfield sample_question ''requestHash'' = JStr sample_hash" "jsfield sample_question ''fenceRevision'' = JInt 1"
  "jsfield sample_question ''targetSeats'' = JInt 3"
  by (simp_all add: sample_question_def)

lemma sample_question_ok: "authorize_request_ok sample_question"
proof -
  have "isUuidV4 (JStr (sample_uuid 900))" "isUuidV4 (JStr (sample_uuid 901))"
    using sample_valid_uuids by (simp_all add: validUuid_def)
  moreover have "validHash (JStr sample_hash)"
    by (simp add: validHash_def sample_hash_def match_replicate list_all_iff is_lower_hex_def is_digit_def)
  moreover have "isRecord sample_question" "hasExactKeys sample_question [''schemaVersion'', ''workspaceId'', ''actorSubject'',
      ''commandId'', ''requestHash'', ''fenceRevision'', ''targetSeats'']"
    by (simp_all add: sample_question_def isRecord_def obj_def hasExactKeys_def)
  moreover have "validInt 1 2147483646 (JInt 1)" "validSeats (JInt 3)"
    by (simp_all add: validInt_def validSeats_def is_safe_integer_def MAX_SAFE_INTEGER_def)
  ultimately show ?thesis
    using sample_body_checks(4) by (simp only: authorize_request_ok_def sample_question_fields simp_thms)
qed

lemma sample_endpoint:
  "\<exists>s'. authorize_endpoint sample_env sample_peers sample_question reserved_state
    = (Inr (authorized_answer sample_question sample_fence), s')"
proof -
  let ?s = "reserved_state\<lparr>a_calls := 1\<rparr>"
  have "authorize_tx sample_question ?s = Inr (authorized_answer sample_question sample_fence, ?s)"
    by (simp add: authorize_tx_def reserved_state_def access_run_defs operation_matches_def capacity_fence_def
        sample_capacity_def sample_fence_def) (simp add: obj_def sample_hash_def)
  then have "run_tx (serializable sample_env (authorize_tx sample_question)) ?s = (Inr (authorized_answer sample_question sample_fence), ?s)"
    using sample_serializable [where action = "authorize_tx sample_question"] by (simp add: run_tx_def)
  moreover have "requireBilling sample_peers reserved_state = (Inr (), reserved_state)"
    by (simp add: requireBilling_def wcheck_def sample_peers_def)
  moreover have "canonicalOwner sample_peers (sample_uuid 901) (js ''owner'') reserved_state = (Inr (), ?s)"
    by (simp add: canonicalOwner_def wcheck_def sample_peers_def wbind_run ask_def reserved_state_def empty_access_def)
  ultimately show ?thesis
    using sample_question_ok by (simp add: authorize_endpoint_def authorizeOperation_def wcheck_def wthen_def wbind_run)
qed

definition sample_owner :: membership where
  "sample_owner = \<lparr>mb_workspaceId = sample_uuid 901, mb_membershipId = sample_uuid 5, mb_role = OWNER\<rparr>"

lemma sample_resolved:
  "\<exists>a s'. resolve sample_peers (sample_uuid 901) (js ''owner'') (Some sample_owner) None returning_state = (Inr a, s')
    \<and> ''access:manage-team'' \<in> set (au_permissions a)"
proof -
  have workspace: "find_workspace (sample_uuid 901) (returning_state\<lparr>a_calls := i\<rparr>)
      = Some \<lparr>wa_workspaceId = sample_uuid 901, wa_lifecycle = L_ACTIVE, wa_activatedBySubject = js ''owner'',
          wa_billingEntitlementId = sample_uuid 4, wa_onboardingCompletedAt = Some 1\<rparr>" for i
    using returning_workspace by (simp add: find_workspace_def)
  have "workspace_team_ids (sample_uuid 901) (returning_state\<lparr>a_calls := i\<rparr>) = []" for i
    by (simp add: workspace_team_ids_def)
  then show ?thesis
    by (simp add: resolve_def wbind_run ask_def wlift_def sample_peers_def sample_owner_def resolve_rows_def workspace
        workspace_available_def member_active_def is_manager_def authority_of_def caller_permissions_def permissions_of_def
        ADMIN_PERMISSIONS_def Let_def)
qed

end
