(* ===== verification/Access_Properties.thy ===== *)
theory Access_Properties
  imports Access_Scenario Worker_Properties
begin

text \<open>
  The properties of CRM Access: what an authorization promises to Billing, that the two services agree on the
  commands they exchange, that seats never exceed what is reserved or committed, and that a command that was
  given up never starts.
\<close>

section \<open>The authorization of a charge\<close>

lemma authorize_txE:
  assumes "authorize_tx body s = Inr (answer, s')"
  obtains x c where "find_billing_op (cmd_of body) s = Some x" "find_capacity (ws_of body) s = Some c"
    "operation_matches body x"
    "ca_pendingOperationId c = Some (cmd_of body)
      \<or> ca_latestCommittedOperationId c = Some (cmd_of body) \<and> \<not> truthy (ca_pendingOperationId c)"
    "ca_latestCommittedOperationId c = Some (cmd_of body) \<longrightarrow> bo_state x = S_COMMITTED"
    "\<exists>f. capacity_fence x = Inr f \<and> answer = authorized_answer body f" "s' = s"
  using assms unfolding authorize_tx_def Let_def by (auto split: option.splits)

lemma authorized_row:
  assumes "access_reachable e p s" "authorize_tx body s = Inr (answer, s')"
  obtains x c where "x \<in> set (t_operations s)" "c \<in> set (t_capacities s)" "bo_commandId x = cmd_of body"
    "ca_workspaceId c = ws_of body" "capacity_bound (t_operations s) (used_seats s) c" "operation_matches body x"
    "ca_pendingOperationId c = Some (cmd_of body)
      \<or> ca_latestCommittedOperationId c = Some (cmd_of body) \<and> ca_pendingOperationId c = None"
    "\<exists>f. capacity_fence x = Inr f \<and> answer = authorized_answer body f" "s' = s"
proof -
  obtain x c where run: "find_billing_op (cmd_of body) s = Some x" "find_capacity (ws_of body) s = Some c"
    "operation_matches body x"
    "ca_pendingOperationId c = Some (cmd_of body)
      \<or> ca_latestCommittedOperationId c = Some (cmd_of body) \<and> \<not> truthy (ca_pendingOperationId c)"
    "\<exists>f. capacity_fence x = Inr f \<and> answer = authorized_answer body f" "s' = s"
    by (rule authorize_txE [OF assms(2)])
  have rows: "x \<in> set (t_operations s)" "bo_commandId x = cmd_of body" "c \<in> set (t_capacities s)" "ca_workspaceId c = ws_of body"
    using run(1,2) by (auto simp: find_billing_op_def find_capacity_def dest!: find_row)
  have bound: "capacity_bound (t_operations s) (used_seats s) c"
    by (rule seats_invD(3) [OF reachable_seats [OF assms(1)] rows(3)])
  then have "ca_pendingOperationId c = None" if "\<not> truthy (ca_pendingOperationId c)"
    using that by (auto simp: capacity_bound_def truthy_def)
  then show ?thesis
    using that rows bound run by blast
qed

text \<open>
  C8. In every reachable state, Access authorizes a charge only for an operation whose seats hold the active
  members of the workspace and its owner; the answer repeats these seats.
\<close>

theorem authorized_seats_cover_roster:
  assumes "access_reachable e p s" "authorize_tx body s = Inr (answer, s')"
  shows "\<exists>n. jsfield (jsfield answer ''capacityFence'') ''targetSeats'' = JInt n \<and> jsfield body ''targetSeats'' = JInt n
    \<and> 1 + enabled_members (ws_of body) s \<le> n \<and> 2 \<le> n \<and> n \<le> 10000"
proof -
  obtain x c where row: "x \<in> set (t_operations s)" "c \<in> set (t_capacities s)" "bo_commandId x = cmd_of body"
    "ca_workspaceId c = ws_of body" "capacity_bound (t_operations s) (used_seats s) c" "operation_matches body x"
    "ca_pendingOperationId c = Some (cmd_of body)
      \<or> ca_latestCommittedOperationId c = Some (cmd_of body) \<and> ca_pendingOperationId c = None"
    "\<exists>f. capacity_fence x = Inr f \<and> answer = authorized_answer body f" "s' = s"
    by (rule authorized_row [OF assms])
  note seats = reachable_seats [OF assms(1)]
  have only: "y = x" if "y \<in> set (t_operations s)" "bo_commandId y = cmd_of body" for y
    using key_unique [where key = bo_commandId, OF seats_invD(2) [OF seats] that(1) row(1)] that(2) row(3) by simp
  from row(8) obtain n where n: "bo_targetSeats x = Some n" "jsfield (jsfield answer ''capacityFence'') ''targetSeats'' = JInt n"
    by (auto simp: capacity_fence_def authorized_answer_def split: option.splits if_splits)
  have "1 + used_seats s (ws_of body) \<le> n"
    using row(7)
  proof
    assume "ca_pendingOperationId c = Some (cmd_of body)"
    then have "pending_binding c (used_seats s) x"
      using row(5) only unfolding capacity_bound_def by blast
    then show ?thesis
      using n row(4) by (simp add: pending_binding_def)
  next
    assume latest: "ca_latestCommittedOperationId c = Some (cmd_of body) \<and> ca_pendingOperationId c = None"
    then have "latest_binding c (used_seats s) x"
      using row(5) only unfolding capacity_bound_def by blast
    then show ?thesis
      using n row(4) latest by (simp add: latest_binding_def split: if_splits)
  qed
  moreover have "2 \<le> n \<and> n \<le> 10000"
    using seats_invD(4) [OF seats row(1)] n(1) by (simp add: operation_bound_def operation_checked_def)
  moreover have "jsfield body ''targetSeats'' = JInt n"
    using row(6) n(1) by (simp add: operation_matches_def opt_js_def)
  ultimately show ?thesis
    using n(2) by (simp add: used_seats_def)
qed

theorem authorized_seats_cover_roster_witness:
  "1 + enabled_members (sample_uuid 901) reserved_state \<le> 3"
  using authorized_seats_cover_roster [OF reserved_reachable sample_granted]
  by (simp add: sample_question_def)

text \<open>C10. In every reachable state, at most one command of a workspace is authorized.\<close>

theorem one_authorized_command:
  assumes "access_reachable e p s" "authorize_tx b1 s = Inr (a1, s1)" "authorize_tx b2 s = Inr (a2, s2)" "ws_of b1 = ws_of b2"
  shows "cmd_of b1 = cmd_of b2"
proof -
  obtain x1 c1 where row1: "c1 \<in> set (t_capacities s)" "ca_workspaceId c1 = ws_of b1"
    "ca_pendingOperationId c1 = Some (cmd_of b1)
      \<or> ca_latestCommittedOperationId c1 = Some (cmd_of b1) \<and> ca_pendingOperationId c1 = None"
    using authorized_row [OF assms(1,2)] by blast
  obtain x2 c2 where row2: "c2 \<in> set (t_capacities s)" "ca_workspaceId c2 = ws_of b2"
    "ca_pendingOperationId c2 = Some (cmd_of b2)
      \<or> ca_latestCommittedOperationId c2 = Some (cmd_of b2) \<and> ca_pendingOperationId c2 = None"
    using authorized_row [OF assms(1,3)] by blast
  have "c1 = c2"
    using key_unique [where key = ca_workspaceId, OF seats_invD(1) [OF reachable_seats [OF assms(1)]] row1(1) row2(1)]
      row1(2) row2(2) assms(4) by simp
  then show ?thesis
    using row1(3) row2(3) by auto
qed

theorem one_authorized_command_witness: "cmd_of sample_question = sample_uuid 900"
  using one_authorized_command [OF reserved_reachable sample_granted sample_granted refl] by (simp add: sample_question_def)

text \<open>
  C11. The question that the worker of Billing asks about a prepared operation and the answer that Access gives
  when it authorizes the operation fit: the worker accepts the answer, whatever the operation.
\<close>

theorem granted_answer_accepted:
  assumes "authorize_endpoint e p (authorization_body input) s = (Inr answer, s')"
    "jsfield (pr_capacityFence input) ''operationId'' = JStr (pr_commandId input)"
  shows "authorization_answer input (Response 200 (Some answer)) = Inr ()"
proof -
  let ?body = "authorization_body input" and ?fence = "pr_capacityFence input"
  have fields: "jsfield ?body ''workspaceId'' = JStr (pr_workspaceId input)" "jsfield ?body ''commandId'' = JStr (pr_commandId input)"
    "jsfield ?body ''actorSubject'' = JStr (pr_ownerSubject input)" "jsfield ?body ''requestHash'' = jsfield ?fence ''requestHash''"
    "jsfield ?body ''fenceRevision'' = jsfield ?fence ''fenceRevision''" "jsfield ?body ''targetSeats'' = jsfield ?fence ''targetSeats''"
    by (simp_all add: authorization_body_def)
  obtain t t' where run: "authorize_tx ?body t = Inr (answer, t')"
    using assms(1) unfolding authorize_endpoint_def authorizeOperation_def run_tx_def
    by (auto simp: wthen_def wbind_run split: sum.splits prod.splits)
  then obtain x where x: "find_billing_op (cmd_of ?body) t = Some x" "operation_matches ?body x"
    "\<exists>f. capacity_fence x = Inr f \<and> answer = authorized_answer ?body f"
    by (rule authorize_txE) blast
  then have "bo_commandId x = pr_commandId input"
    using fields(2) by (auto simp: find_billing_op_def dest!: find_row)
  moreover obtain h r n where "bo_requestHash x = Some h" "bo_fenceRevision x = Some r" "bo_targetSeats x = Some n"
    "answer = authorized_answer ?body (obj [(''operationId'', JStr (bo_commandId x)), (''requestHash'', JStr h),
      (''fenceRevision'', JInt r), (''targetSeats'', JInt n)])"
    using x(3) by (auto simp: capacity_fence_def split: option.splits if_splits)
  moreover from this have "JStr h = jsfield ?fence ''requestHash''" "JInt r = jsfield ?fence ''fenceRevision''"
    "JInt n = jsfield ?fence ''targetSeats''"
    using x(2) fields by (auto simp: operation_matches_def opt_js_def)
  ultimately have "authorization_bound input answer"
    unfolding authorization_bound_def Let_def using fields assms(2)
    by (simp add: authorized_answer_def exactRecord_def commerceRecord_obj) (simp add: obj_def)
  then show ?thesis
    by (simp add: authorization_answer_def http_ok_def)
qed

theorem granted_answer_accepted_witness:
  "authorization_answer (sample_prep None) (Response 200 (Some (authorized_answer sample_question sample_fence))) = Inr ()"
proof -
  have "authorization_body (sample_prep None) = sample_question"
    unfolding authorization_body_def sample_question_def obj_def by (simp add: sample_prep_def sample_fence_def)
  moreover have "jsfield (pr_capacityFence (sample_prep None)) ''operationId'' = JStr (pr_commandId (sample_prep None))"
    by (simp add: sample_prep_def sample_fence_def)
  moreover obtain s' where "authorize_endpoint sample_env sample_peers sample_question reserved_state
      = (Inr (authorized_answer sample_question sample_fence), s')"
    using sample_endpoint by blast
  ultimately show ?thesis
    using granted_answer_accepted [of sample_env sample_peers "sample_prep None" reserved_state] by simp
qed

text \<open>
  C9. Whatever a handler does for a request, an event or a tick of the reconciliation, a reachable state is
  followed by a reachable state: the handlers change the tables only by the steps of the machine.
\<close>

theorem handlers_reachable:
  assumes "access_reachable e p s" "type \<in> set commerce_types"
  shows "access_reachable e p (snd (billing_command e p type a value key s))
    \<and> access_reachable e p (snd (billing_operation e p a ws i recovery s))
    \<and> access_reachable e p (snd (billing_context e p a ws s)) \<and> access_reachable e p (snd (billing_quote e p a value s))
    \<and> access_reachable e p (snd (billing_order e p a ws i s)) \<and> access_reachable e p (snd (billing_history e p a ws page n s))
    \<and> access_reachable e p (snd (authorize_endpoint e p body s)) \<and> access_reachable e p (snd (reconcile_tick e p stopping s))
    \<and> access_reachable e p (snd (createTeam e p a dto s)) \<and> access_reachable e p (snd (updateTeam e p a i dto s))
    \<and> access_reachable e p (snd (archiveTeam e p a i dto s)) \<and> access_reachable e p (snd (invite e p a dto s))
    \<and> access_reachable e p (snd (revokeInvitation e p a i dto s)) \<and> access_reachable e p (snd (changeRole e p a i dto s))
    \<and> access_reachable e p (snd (setTeams e p a i dto s)) \<and> access_reachable e p (snd (disable_member e p a i dto s))
    \<and> access_reachable e p (snd (enable_member e p a i dto s)) \<and> access_reachable e p (snd (provision e p ws i s))
    \<and> access_reachable e p (snd (accept e p event s)) \<and> access_reachable e p (snd (admitNext e p ws s))"
  by (intro conjI moves_reachable assms(1) moves_command [OF assms(2)] moves_reads moves_authorize moves_tick moves_team
      moves_members moves_provision moves_accept moves_admit_next)

theorem handlers_reachable_witness:
  "access_reachable sample_env sample_peers (snd (reconcile_tick sample_env sample_peers (\<lambda>n. False) reserved_state))
    \<and> access_reachable sample_env sample_peers (snd (admitNext sample_env sample_peers (sample_uuid 901) reserved_state))"
  using handlers_reachable [OF reserved_reachable, of "''WINCRM_CHECKOUT''"] by (simp add: commerce_types_def)

section \<open>Seats\<close>

text \<open>
  C13. The transaction of an admission enables at most one member, and only while the members and the owner fit
  into the seats that Billing reports, into the seats of the last committed purchase and into the seats of a
  purchase that is under way.
\<close>

theorem admission_within_seats:
  assumes "distinct (map mr_id (t_members s))" "admit_tx e f s = Inr (u, s')" "enabled_members ws s < enabled_members ws s'"
  shows "ws = ad_workspaceId (af_candidate f) \<and> enabled_members ws s' = enabled_members ws s + 1
    \<and> 1 + enabled_members ws s' \<le> af_seatLimit f
    \<and> (case find_capacity ws s of
         None \<Rightarrow> True
       | Some c \<Rightarrow> (case ca_admissionCeiling c of None \<Rightarrow> True | Some n \<Rightarrow> 1 + enabled_members ws s' \<le> n)
           \<and> (case ca_pendingTargetSeats c of None \<Rightarrow> True | Some n \<Rightarrow> 1 + enabled_members ws s' \<le> n))"
proof -
  let ?s = "s\<lparr>a_tick := a_tick s + 1\<rparr>" and ?ws = "ad_workspaceId (af_candidate f)"
  have ids: "distinct (map mr_id (t_members ?s))"
    using assms(1) by simp
  from assms(2) show ?thesis
  proof (cases rule: admit_txE)
    case skipped
    then show ?thesis
      using assms(3) by auto
  next
    case cancelled
    then have "seats_kept ?s s'"
      by (rule stepsD [OF cancelInTransaction_kept])
    then have "enabled_members ws s' \<le> enabled_members ws s"
      by (simp add: seats_kept_def)
    then show ?thesis
      using assms(3) by simp
  next
    case (admitted currentIntent role teamIds)
    from admitted show ?thesis
    proof (cases rule: admit_member_seats)
      case full
      then show ?thesis
        using assms(3) by simp
    next
      case (admitted activated s1)
      have "enabled_members ws s' \<le> enabled_members ws s1"
        using admitted(3) by (simp add: seats_kept_def)
      also have "\<dots> \<le> (if ws = ?ws then enabled_members ws s + 1 else enabled_members ws s)"
        using activate_member_effect(1) [OF admitted(2) refl ids, of ws] by (simp add: used_seats_def split: if_splits)
      finally have effect: "ws = ?ws" "enabled_members ws s' = enabled_members ws s + 1"
        using assms(3) by (auto split: if_splits)
      have "find_capacity ?ws ?s = find_capacity ?ws s"
        by (simp add: find_capacity_def)
      then show ?thesis
        using admitted(1) effect by (auto simp: effectiveAdmissionCeiling_def split: option.splits)
    qed
  qed
qed

theorem admission_within_seats_witness:
  "\<exists>s'. admit_tx sample_env returning_facts returning_state = Inr ((), s') \<and> 1 + enabled_members (sample_uuid 901) s' \<le> 3"
proof -
  obtain s' where s': "admit_tx sample_env returning_facts returning_state = Inr ((), s')"
    "enabled_members (sample_uuid 901) returning_state = 0" "enabled_members (sample_uuid 901) s' = 1"
    using returning_admitted by blast
  have "find_capacity (sample_uuid 901) returning_state = Some (sample_capacity\<lparr>ca_admissionCeiling := None\<rparr>)"
    by (simp add: find_capacity_def sample_capacity_def)
  then show ?thesis
    using admission_within_seats [OF _ s'(1), of "sample_uuid 901"] s' by (simp add: sample_capacity_def)
qed

section \<open>Commands\<close>

text \<open>
  C12. The body that Access sends for an operation it has started passes every check of the command in Billing,
  and the hash that Billing computes from this body, without the fence, is the hash that Access stored. This
  holds if the command names the current consent text and its expected renewal version is not 0, the two
  conditions Access leaves to Billing.
\<close>

theorem started_command_accepted:
  assumes "access_reachable e p s" "x \<in> set (t_operations s)" "bo_state x \<noteq> S_NOT_STARTED" "\<And>t. sha256 e t \<noteq> []"
  shows "\<exists>dto hash. command_body x = Inr dto \<and> bo_requestHash x = Some hash
    \<and> (current_command dto \<longrightarrow> billing_accepts e (bo_commandType x) dto hash)"
proof -
  obtain type parsed where x: "from_command e type parsed x"
    using reachable_origin [OF assms(1,2)] assms(3) by (auto simp: operation_origin_def)
  have "operation_checked x"
    using seats_invD(4) [OF reachable_seats [OF assms(1)] assms(2)] by (simp add: operation_bound_def)
  then have fence: "\<exists>r. bo_fenceRevision x = Some r \<and> 1 \<le> r \<and> r \<le> 2147483646" if "bo_targetSeats x \<noteq> None"
    using that by (auto simp: operation_checked_def)
  have "commerceHash e type parsed \<noteq> []"
    using assms(4) by (simp add: commerceHash_def)
  from command_body_accepted [OF x fence this] show ?thesis
    using x by (auto simp: from_command_def)
qed

theorem started_command_accepted_witness:
  "\<exists>dto. command_body sample_pending = Inr dto \<and> billing_accepts sample_env ''WINCRM_CHECKOUT'' dto sample_hash"
proof -
  have "sample_pending \<in> set (t_operations reserved_state)"
    by (simp add: reserved_state_def)
  from started_command_accepted [OF reserved_reachable this] obtain dto
    where dto: "command_body sample_pending = Inr dto"
      "current_command dto \<longrightarrow> billing_accepts sample_env ''WINCRM_CHECKOUT'' dto sample_hash"
    by (auto simp: sample_env_def)
  have "bo_request sample_pending = Some sample_crm_request"
    by (simp add: sample_pending_def new_billing_op_def sample_crm_request_def obj_def)
  then have "current_command dto"
    using dto(1) by (auto simp: command_body_def capacity_fence_def sample_crm_request_def obj_def current_command_def sample_hash_def)
  then show ?thesis
    using dto by blast
qed

text \<open>
  C14. A command that was given up with the mark NOT_STARTED is never started: in all later states its mark is
  still there and no request with its identifier is prepared.
\<close>

theorem given_up_command_never_starts:
  assumes "access_reachable e p s" "x \<in> set (t_operations s)" "bo_state x = S_NOT_STARTED"
    "(access_step e p)\<^sup>*\<^sup>* s s'" "cmd_of dto = bo_commandId x"
  shows "x \<in> set (t_operations s') \<and> (\<forall>r. prepare e type dto limit s' \<noteq> Inr r)"
proof -
  have x: "bo_releaseFence x" "bo_requestHash x = None"
    using seats_invD(4) [OF reachable_seats [OF assms(1)] assms(2)] assms(3) by (auto simp: operation_bound_def operation_checked_def)
  have later: "progress s s'" "access_reachable e p s'"
    using steps_progress [OF assms(4,1)] by simp_all
  then have kept: "x \<in> set (t_operations s')"
    using assms(2) x(1) by (auto simp: progress_def op_progress_def)
  have "distinct (map bo_commandId (t_operations s'))"
    by (rule seats_invD(2) [OF reachable_seats [OF later(2)]])
  then have found: "find_billing_op (cmd_of dto) s' = Some x"
    using find_key [where key = bo_commandId, OF _ kept] assms(5) by (simp add: find_billing_op_def)
  have "prepare e type dto limit s' \<noteq> Inr r" for r
  proof
    assume "prepare e type dto limit s' = Inr r"
    then obtain i j where "prepare_tx e type dto limit (s'\<lparr>a_tick := i, a_fresh := j\<rparr>) = Inr r"
      unfolding prepare_def by (cases r) auto
    then show False
      using found x(2) by (auto simp: prepare_tx_def tx_simps split: if_splits)
  qed
  then show ?thesis
    using kept by blast
qed

theorem given_up_command_never_starts_witness:
  "\<exists>s. access_reachable sample_env sample_peers s \<and> (\<forall>r. prepare sample_env ''WINCRM_CHECKOUT'' sample_crm_request None s \<noteq> Inr r)"
proof -
  obtain s where s: "access_reachable sample_env sample_peers s" "t_operations s = [sample_given_up]"
    using given_up_reachable by blast
  then show ?thesis
    using given_up_command_never_starts [OF s(1), of sample_given_up s sample_crm_request] by auto
qed

text \<open>
  C15. The course of an operation: its command, owner, type, hash, fence and seats never change, its state
  changes at most once and only from PENDING, the version of its proof never decreases, and once it is released
  nothing about it changes.
\<close>

theorem operation_course:
  assumes "access_reachable e p s" "x \<in> set (t_operations s)" "(access_step e p)\<^sup>*\<^sup>* s s'"
  shows "\<exists>y\<in>set (t_operations s').
    bo_commandId y = bo_commandId x \<and> bo_workspaceId y = bo_workspaceId x \<and> bo_actorSubject y = bo_actorSubject x
    \<and> bo_commandType y = bo_commandType x \<and> bo_requestHash y = bo_requestHash x \<and> bo_request y = bo_request x
    \<and> bo_fenceRevision y = bo_fenceRevision x \<and> bo_targetSeats y = bo_targetSeats x
    \<and> (bo_state x \<noteq> S_PENDING \<longrightarrow> bo_state y = bo_state x) \<and> (bo_releaseFence x \<longrightarrow> y = x)
    \<and> (\<forall>v. bo_billingVersion x = Some v \<longrightarrow> (\<exists>w. bo_billingVersion y = Some w \<and> undec v \<le> undec w))"
proof -
  have "progress s s'"
    using steps_progress [OF assms(3,1)] by simp
  then obtain y where "y \<in> set (t_operations s')" "op_progress x y"
    using assms(2) unfolding progress_def by blast
  then show ?thesis
    unfolding op_progress_def by (intro bexI [of _ y]) auto
qed

theorem operation_course_witness:
  "\<exists>y\<in>set (t_operations (snd (reconcile_tick sample_env sample_peers (\<lambda>n. False) reserved_state))). bo_targetSeats y = Some 3"
proof -
  have "sample_pending \<in> set (t_operations reserved_state)"
    by (simp add: reserved_state_def)
  moreover have "(access_step sample_env sample_peers)\<^sup>*\<^sup>* reserved_state (snd (reconcile_tick sample_env sample_peers (\<lambda>n. False) reserved_state))"
    using moves_tick [of sample_env sample_peers "\<lambda>n. False"] by (simp add: wsteps_def moves_def)
  ultimately show ?thesis
    using operation_course [OF reserved_reachable, of sample_pending sample_peers] by fastforce
qed

section \<open>Permissions\<close>





section \<open>A command that only Access accepts\<close>

text \<open>
  \<open>parseCommand\<close> admits the expected renewal version 0, which Billing refuses: the operation that CRM Access
  records for such a command can never be executed.
\<close>

definition zero_version_body :: jsval where
  "zero_version_body = obj [(''schemaVersion'', JInt 1), (''workspaceId'', JStr (sample_uuid 901)),
     (''commandId'', JStr (sample_uuid 900)), (''expectedBillingVersion'', JStr (js ''0'')), (''expectedRenewalVersion'', JInt 0)]"

lemma zero_version_parsed:
  "\<exists>dto. parseCommand ''WINCRM_DISABLE_RENEWAL'' zero_version_body (Some (sample_uuid 900)) (js ''owner'') = Inr dto
    \<and> jsfield dto ''expectedRenewalVersion'' = JInt 0"
proof -
  have fields: "jsfield zero_version_body ''schemaVersion'' = JInt 1" "jsfield zero_version_body ''commandId'' = JStr (sample_uuid 900)"
    "jsfield zero_version_body ''workspaceId'' = JStr (sample_uuid 901)"
    "jsfield zero_version_body ''expectedBillingVersion'' = JStr (js ''0'')"
    "jsfield zero_version_body ''expectedRenewalVersion'' = JInt 0"
    by (simp_all add: zero_version_body_def)
  have "isRecord zero_version_body" "hasExactKeys zero_version_body (command_keys ''WINCRM_DISABLE_RENEWAL'')"
    by (simp_all add: zero_version_body_def isRecord_def obj_def hasExactKeys_def command_keys_def)
  moreover have "command_fields_ok ''WINCRM_DISABLE_RENEWAL'' zero_version_body"
    by (simp add: command_fields_ok_def fields validInt_def is_safe_integer_def MAX_SAFE_INTEGER_def)
  ultimately show ?thesis
    using fields sample_body_checks(3,4) unfolding parseCommand_def
    by (simp add: sample_valid_uuids workspace_def) (simp add: zero_version_body_def obj_def)
qed

theorem renewal_version_zero:
  "\<exists>dto. parseCommand ''WINCRM_DISABLE_RENEWAL'' zero_version_body (Some (sample_uuid 900)) (js ''owner'') = Inr dto
    \<and> (\<forall>w. disableRenewal sample_env dto w = Inl Invalid)"
proof -
  have refused: "disableRenewal sample_env dto w = Inl Invalid" if "jsfield dto ''expectedRenewalVersion'' = JInt 0" for dto w
    using that unfolding disableRenewal_def renewalCommand_def Let_def command_check_def context_check_def
    by (simp add: commerceInt_def tx_simps check_def)
  then show ?thesis
    using zero_version_parsed by blast
qed

end
