(* ===== verification/Spec2Isabelle.thy ===== *)
theory Spec2Isabelle
  imports Worker_Outcomes Payments Command_Properties Admin_Properties Access_Properties
begin

text \<open>
  Verification of the WinCRM commerce of the repository: its core in the Billing service
  (\<open>src/apps/billing/src/domain\<close> and \<open>provider\<close>) and the seats, teams and authorizations of the CRM Access
  service (\<open>src/apps/crm-access/src/billing\<close>, \<open>authorization\<close> and \<open>team\<close>).

  \<^bold>\<open>The program.\<close> WinCRM is sold by subscription. The owner of a workspace sends commands to CRM Access: check
  out, change the number of seats, confirm or disable the renewal, verify an order. CRM Access reserves the
  seats that a purchase asks for, records the command as an operation and sends it to Billing. There each
  command is one serializable transaction. Orders are paid through YooKassa: a command or the scheduler queues
  a \<open>provider operation\<close>, a worker claims it with a lease, prepares the request, asks CRM Access whether the
  seats are still reserved, announces the dispatch, calls the provider and settles the response or records the
  failure. A settled payment opens a paid period, updates the entitlement of the workspace and wakes up CRM
  Access by an event in the outbox. CRM Access reads the outcome of its operations as proofs, commits or
  releases the reserved seats, and admits the next waiting members. The scheduler of Billing announces periods
  that have started and charges renewals that are due. Administrators change the price list, read
  subscriptions, and grant free days.

  \<^bold>\<open>The theories of Billing.\<close>
  \<^item> \<open>Prelude\<close>: JavaScript values and strings (16-bit code units), integers in decimal, transactions
    as functions from a state to an error or a result and a new state, the calculus \<open>steps\<close> for
    relations across a transaction, tables as lists of rows with unique keys.
  \<^item> \<open>Calendar\<close>: the \<open>Date\<close> object: civil dates, \<open>setUTC...\<close>, \<open>toISOString\<close> and its parser.
  \<^item> \<open>Seat_Duration\<close>: \<open>wincrm-seat-duration.ts\<close>, on untyped input.
  \<^item> \<open>Command_Idempotency\<close>: \<open>billing-command-idempotency.ts\<close>, canonical JSON, hash, receipts.
  \<^item> \<open>Commerce_Data\<close>: the rows of the Prisma schema as records, the database as a record of tables
    with the number of clock readings and of random identifiers used so far, the environment (clock,
    identifiers, SHA-256, cipher, configuration, URL parser, serialization failures), the retry loop
    \<open>transaction\<close>, the Prisma calls.
  \<^item> \<open>Commerce_Helpers\<close>: \<open>wincrm-commerce.helpers.ts\<close> and \<open>wincrm-commerce.contract.ts\<close>.
  \<^item> \<open>Admin_Audit\<close>, \<open>Commercial_Policy\<close>, \<open>Entitlement\<close>: \<open>billing-admin-audit.ts\<close>,
    \<open>crm-commercial-policy.service.ts\<close>, \<open>crm-entitlement.service.ts\<close> and \<open>crm-entitlement-outbox.ts\<close>.
  \<^item> \<open>Commerce_Core\<close>, \<open>Commerce_Commands\<close>, \<open>Provider_Ops\<close>, \<open>Renewal_Scheduler\<close>:
    \<open>wincrm-commerce.service.ts\<close>, its shared private methods, the operations for CRM Access, the life
    of a provider operation, and \<open>advanceRenewals\<close>.
  \<^item> \<open>Admin_Subscription\<close>: \<open>crm-admin-subscription.service.ts\<close>.
  \<^item> \<open>Service\<close>: the step relation \<open>service_step\<close>, one rule for every committed transaction of these
    services, and \<open>reachable\<close>, the states they reach from a database without orders. The locale
    \<open>core_relation\<close> is the interface by which a relation on states is carried across all of them.
  \<^item> \<open>Request_Terms\<close>, \<open>Lease_Steps\<close>: the locales \<open>entry_relation\<close> and \<open>row_relation\<close>, the same for relations on
    orders, operations and receipts; their instances: the terms of orders and requests stay, versions of
    operations never fall, receipts are kept, only the provider's calls for an operation touch its lease.
  \<^item> \<open>Ledger\<close>, \<open>Ledger_Refinement\<close>, \<open>Ledger_Service\<close>: the abstract ledger of orders and paid
    periods, and the proof that the services refine it.
  \<^item> \<open>Row_Invariant\<close>: invariants of single rows, in a small Hoare calculus.
  \<^item> \<open>Computation\<close>: computations that keep what they have done when they fail (a handler of several
    transactions and calls), with the calculus \<open>wsteps\<close> in the locale \<open>comp_relation\<close>.
  \<^item> \<open>Yookassa\<close>, \<open>Provider_Worker\<close>: \<open>yookassa.service.ts\<close>, \<open>wincrm-access-authorization.client.ts\<close> and
    \<open>wincrm-provider-worker.service.ts\<close>. The other services and the broker answer by functions of the
    number of the call and the request.
  \<^item> \<open>Worker_Properties\<close>, \<open>Worker_Outcomes\<close>: what the worker sends, once per claim and
    the same on every retry, and what becomes of an order it has sent.
  \<^item> \<open>Scenario\<close>: a run of checkout, claim and settlement evaluated in the logic.
  \<^item> \<open>Payments\<close>, \<open>Provider_Properties\<close>, \<open>Command_Properties\<close>, \<open>Renewal_Properties\<close>,
    \<open>Admin_Properties\<close>: what the operations guarantee.

  \<^bold>\<open>The theories of CRM Access.\<close>
  \<^item> \<open>Access_Validation\<close>, \<open>Access_Response\<close>: \<open>billing.validation.ts\<close> and \<open>billing-response.parser.ts\<close>: the
    checks of requests and of the answers of Billing, and the request hash; \<open>same_text\<close> relates its canonical
    JSON to that of Billing.
  \<^item> \<open>Access_Data\<close>: the rows of CRM Access, its state \<open>access\<close>, the other services (\<open>peers\<close>), the retry
    \<open>serializable\<close>, the Prisma calls, and \<open>team.util.ts\<close> (receipts, audit, events).
  \<^item> \<open>Access_Capacity\<close>: \<open>billing-commerce.client.ts\<close>, \<open>billing-capacity.service.ts\<close> and
    \<open>billing-operation.controller.ts\<close>: the reservation of seats, execution, synchronization and recovery of
    operations, proofs, and the authorization of a charge.
  \<^item> \<open>Access_Billing\<close>: \<open>billing.service.ts\<close> and \<open>billing-reconciliation.service.ts\<close>.
  \<^item> \<open>Access_Authority\<close>: \<open>crm-authorization.service.ts\<close>.
  \<^item> \<open>Access_Team\<close>, \<open>Access_Admission\<close>: \<open>team.service.ts\<close> (the commands) and \<open>team-admission.service.ts\<close>.
  \<^item> \<open>Access_Contract\<close>: a command that CRM Access has parsed and stored passes the checks of Billing.
  \<^item> \<open>Access_Steps\<close>: the locale \<open>access_relation\<close>, by which a relation that ignores the other tables is
    carried across all team transactions; \<open>seats_kept\<close> is its first instance.
  \<^item> \<open>Seat_Invariant\<close>: the invariant of capacities, operations and members (\<open>seats_inv\<close>), with the conditions
    that the migration \<open>20260906120000_crm_billing_capacity\<close> checks in the database, and one lemma per kind of
    change of the tables.
  \<^item> \<open>Access_Machine\<close>, \<open>Access_Reachable\<close>: the atomic steps \<open>access_step\<close> of CRM Access, in any order, with
    writes of the parts that are not modelled as the step \<open>outside\<close>; \<open>access_reachable\<close>, and the invariant.
  \<^item> \<open>Access_Progress\<close>: the course of an operation, as the second instance of \<open>access_relation\<close>.
  \<^item> \<open>Access_Handlers\<close>: every handler is a sequence of steps.
  \<^item> \<open>Access_Scenario\<close>, \<open>Access_Properties\<close>: a reservation evaluated in the logic, and the properties.
  \<^item> This theory: the properties of reachable states that span the components of Billing.

  \<^bold>\<open>How the code is modelled.\<close> A method that runs a transaction is a function of the environment and the
  request; an exception is a value \<open>Inl\<close> (of the type \<open>err\<close> or \<open>access_error\<close>) and leaves the state as it was.
  A request is a JavaScript value where the code checks it as \<open>unknown\<close>, and a record where the framework has
  checked it. \<open>Date.now()\<close>, \<open>new Date()\<close> and \<open>randomUUID()\<close> read the next value of a sequence of the
  environment, so nothing is assumed about the order of clock readings. \<open>bigint\<close> and the integer
  columns are integers; the code's own bounds are kept. The retry loops have their three attempts as fuel,
  and the reading of receipts its ten pages, which are the bounds in the code; the batches of the
  reconciliation end because the list of operations gets shorter; no other loop needs fuel. Advisory locks and
  transaction time limits decide which transactions run, not what they do, and are left out.

  \<^bold>\<open>What is shown.\<close> Over all reachable states of Billing: the services refine the ledger; paid periods of a
  workspace do not overlap; an order is paid exactly when it has its one period; a paid order stays
  paid; amounts are the prices of the stored price list; repeated charges follow the schedule;
  confirmation pages belong to the provider. Over all reachable states of CRM Access: a charge is only
  authorized for seats that hold the members of the workspace, and for one command at a time; admissions stay
  within reported, committed and reserved seats; an operation keeps its command, leaves PENDING once and is
  final when released; a command that was given up is never prepared; the handlers stay within the reachable
  states. Between the services: what CRM Access stores is accepted by Billing under the same hash if it names
  the current consent and no renewal version 0, and the authorization that CRM Access gives is the one the
  worker of Billing accepts. For single operations: nothing but a matching, succeeded payment, settled under
  a claim that holds its operation, opens a period; the worker sends at most one creation of a payment
  per claim, the same on every retry, and cancels an order it has sent only if the provider reports it;
  commands are idempotent and serialized by the billing version; closing a command never takes back a
  dispatched order; a lease ends only by its holder or after its time, and a claim that has been replaced is
  refused in all later states; failures release the operation with
  a bounded delay; a stored request is read back as the payment of its order; the scheduler charges what
  was agreed, ends, and announces every started period by an event in the outbox; a page shows what the detail
  views show; grants of days move the end exactly, and a cancelled grant is applied in no later state; permissions to write need an active
  member of an active workspace. For the helpers: conversion of seats conserves the paid value, period ends
  follow the calendar, prices and decimal texts are exact, request hashes do not depend on the order of
  properties, trials are unique, events are versioned.

  \<^bold>\<open>Not modelled.\<close> The HTTP controllers and guards, configuration, authentication and runtime of the services,
  the connection to RabbitMQ and the bytes of HTTP (I/O; what the code reads of them is in the environment, in
  the answers of other services or in a request); of CRM Access the onboarding, branding, employee profiles,
  the lists for reading, the assignees and reminder recipients and the worker that delivers team events (what
  they write to the tables is the step \<open>outside\<close>); the WinWidget product line of Billing
  (\<open>payment-domain.service.ts\<close>, \<open>subscription-domain.service.ts\<close>), its affiliate programme, settings and
  projections; the other services of the repository.
\<close>

section \<open>The ledger of reachable states\<close>

text \<open>
  C1. Refinement of the abstract ledger: from every reachable state, every committed call of the
  services, seen through \<open>ledger_of\<close>, is a sequence of ledger steps: opening an order, moving an
  unpaid order, paying an order for a period after all earlier ones, moving the end of the last period.
\<close>

theorem service_refines_ledger:
  assumes "reachable e w" "service_step e w w'"
  shows "ledger_step\<^sup>*\<^sup>* (ledger_of w) (ledger_of w')"
  using service_refines [OF assms(2)] reachable_ledger_ok [OF assms(1)] by (simp add: refines_def)

theorem service_refines_ledger_witness:
  "ledger_step\<^sup>*\<^sup>* (ledger_of shop_db) (ledger_of ordered_db) \<and> l_orders (ledger_of ordered_db) \<noteq> []"
proof -
  obtain p where "checkout sample_env sample_checkout shop_db = Inr (p, ordered_db)"
    using checkout_run by blast
  from service_refines_ledger [OF shop_reachable step_checkout [OF this]] show ?thesis
    by simp
qed

text \<open>
  C2. In every reachable state a paid period ends after it starts, and two paid periods of a
  workspace never overlap.
\<close>

theorem paid_periods_apart:
  assumes "reachable e w" "p \<in> set (periods w)"
  shows "p_startsAt p < p_expiresAt p
    \<and> (\<forall>q\<in>set (periods w). p_workspaceId q = p_workspaceId p \<and> p_id q \<noteq> p_id p
        \<longrightarrow> p_expiresAt p \<le> p_startsAt q \<or> p_expiresAt q \<le> p_startsAt p)"
proof -
  have ok: "periods_ok (map per_of (periods w))"
    using reachable_ledger_ok [OF assms(1)] by (simp add: ledger_ok_def)
  have ne: "p_id q \<noteq> p_id p \<Longrightarrow> per_of p \<noteq> per_of q" for q
    by (auto simp: per_of_def)
  show ?thesis
    using ok assms(2) ne by (fastforce simp: periods_ok_def apart_def)
qed

theorem paid_periods_apart_witness:
  "\<exists>w p. reachable sample_env w \<and> p \<in> set (periods w) \<and> p_startsAt p < p_expiresAt p"
proof -
  obtain w where w: "reachable sample_env w" "length (periods w) = 1"
    by (rule paid_reachable)
  then obtain p where "p \<in> set (periods w)"
    by (cases "periods w") auto
  then show ?thesis
    using paid_periods_apart [OF w(1)] w(1) by blast
qed

text \<open>
  C3. In every reachable state an order is paid exactly when exactly one paid period belongs to it:
  no payment without its period, no period without its payment, and no period twice.
\<close>

theorem paid_order_has_period:
  assumes "reachable e w" "x \<in> set (orders w)"
  shows "o_status x = O_SUCCEEDED \<longleftrightarrow> (\<exists>!p. p \<in> set (periods w) \<and> p_orderId p = o_id x)"
proof -
  note ok = reachable_ledger_ok [OF assms(1), unfolded ledger_ok_def ledger_of_simps]
  have one: "p = q" if "p \<in> set (periods w)" "q \<in> set (periods w)" "p_orderId p = p_orderId q" for p q
    using ok that by (auto simp: distinct_map comp_def inj_on_def)
  have "o_status x = O_SUCCEEDED \<longleftrightarrow> (\<exists>p. p \<in> set (periods w) \<and> p_orderId p = o_id x)"
  proof
    assume "o_status x = O_SUCCEEDED"
    then have "(o_id x, o_workspaceId x, O_SUCCEEDED) \<in> set (map ord_of (orders w))"
      using assms(2) by (auto simp: ord_of_def image_iff)
    then show "\<exists>p. p \<in> set (periods w) \<and> p_orderId p = o_id x"
      using ok by (fastforce simp: image_iff)
  next
    assume "\<exists>p. p \<in> set (periods w) \<and> p_orderId p = o_id x"
    then obtain ws where "(o_id x, ws, O_SUCCEEDED) \<in> set (map ord_of (orders w))"
      using ok by (fastforce simp: image_iff)
    moreover have "(o_id x, o_workspaceId x, o_status x) \<in> set (map ord_of (orders w))"
      using assms(2) by (auto simp: ord_of_def image_iff)
    ultimately show "o_status x = O_SUCCEEDED"
      using order_unique [OF conjunct1 [OF ok], of "o_id x" "(ws, O_SUCCEEDED)" "(o_workspaceId x, o_status x)"]
      by simp
  qed
  moreover have "\<exists>p. p \<in> set (periods w) \<and> p_orderId p = o_id x
      \<Longrightarrow> \<exists>!p. p \<in> set (periods w) \<and> p_orderId p = o_id x"
    by (rule ex_ex1I, assumption) (rule one; simp)
  ultimately show ?thesis
    by blast
qed

theorem paid_order_has_period_witness:
  "\<exists>w x. reachable sample_env w \<and> x \<in> set (orders w) \<and> (\<exists>!p. p \<in> set (periods w) \<and> p_orderId p = o_id x)"
proof -
  obtain w where w: "reachable sample_env w" "orders w = [succeeded_order (js ''pay-1'') 1700000006000 sample_order]"
    by (rule paid_reachable)
  then have "\<exists>!p. p \<in> set (periods w) \<and> p_orderId p = o_id (hd (orders w))"
    by (intro iffD1 [OF paid_order_has_period]) auto
  then show ?thesis
    using w by (auto intro!: exI [of _ w])
qed

text \<open>
  C4. Whatever calls follow, a paid order stays paid, and a paid period keeps its workspace, its
  order and its start.
\<close>

theorem paid_stays_paid:
  assumes "reachable e w" "(service_step e)\<^sup>*\<^sup>* w w'"
  shows "(\<forall>x\<in>set (orders w). o_status x = O_SUCCEEDED
      \<longrightarrow> (\<exists>y\<in>set (orders w'). o_id y = o_id x \<and> o_workspaceId y = o_workspaceId x \<and> o_status y = O_SUCCEEDED))
    \<and> (\<forall>p\<in>set (periods w). \<exists>q\<in>set (periods w'). p_id q = p_id p \<and> p_workspaceId q = p_workspaceId p
        \<and> p_orderId q = p_orderId p \<and> p_startsAt q = p_startsAt p)"
proof -
  note ok = reachable_ledger_ok [OF assms(1)]
  have keep: "ledger_keeps (ledger_of w) (ledger_of w')"
    using steps_ledger [OF assms(2) ok] ok by (rule ledger_steps_keep)
  have "\<exists>y\<in>set (orders w'). o_id y = o_id x \<and> o_workspaceId y = o_workspaceId x \<and> o_status y = O_SUCCEEDED"
    if "x \<in> set (orders w)" "o_status x = O_SUCCEEDED" for x
  proof -
    have "(o_id x, o_workspaceId x, O_SUCCEEDED) \<in> set (l_orders (ledger_of w))"
      using that by (auto simp: ord_of_def image_iff)
    then have "(o_id x, o_workspaceId x, O_SUCCEEDED) \<in> set (l_orders (ledger_of w'))"
      using keep by (auto simp: ledger_keeps_def)
    then show ?thesis
      by (auto simp: ord_of_def)
  qed
  moreover have "\<exists>q\<in>set (periods w'). p_id q = p_id p \<and> p_workspaceId q = p_workspaceId p
        \<and> p_orderId q = p_orderId p \<and> p_startsAt q = p_startsAt p" if "p \<in> set (periods w)" for p
    using keep that by (auto simp: ledger_keeps_def)
  ultimately show ?thesis
    by blast
qed

theorem paid_stays_paid_witness:
  "\<exists>w. reachable sample_env w \<and> (\<exists>x\<in>set (orders w). o_status x = O_SUCCEEDED)
    \<and> (\<forall>cs. \<exists>y\<in>set (orders (w\<lparr>contacts := cs\<rparr>)). o_status y = O_SUCCEEDED)"
proof -
  obtain w where w: "reachable sample_env w" "orders w = [succeeded_order (js ''pay-1'') 1700000006000 sample_order]"
    by (rule paid_reachable)
  have "(service_step sample_env)\<^sup>*\<^sup>* w (w\<lparr>contacts := cs\<rparr>)" for cs
    by (rule r_into_rtranclp) (rule identity_event)
  then have "\<exists>y\<in>set (orders (w\<lparr>contacts := cs\<rparr>)). o_status y = O_SUCCEEDED" for cs
    using paid_stays_paid [OF w(1), of "w\<lparr>contacts := cs\<rparr>"] w(2) by fastforce
  then show ?thesis
    using w by (intro exI [of _ w]) auto
qed

section \<open>Rows of reachable states\<close>

text \<open>
  C5. In every reachable state the amount of every order and of every renewal is the price that its
  own stored price list gives for its cycle and its seats; the amount charged is between one kopeck
  and the maximum amount.
\<close>

theorem amounts_match_prices:
  assumes "reachable e w"
  shows "(\<forall>x\<in>set (orders w). \<exists>s. readWincrmPriceSnapshot (o_priceSnapshot x) = Inr s
        \<and> wincrmPrice s (o_cycle x) (o_totalSeats x) = Inr (o_amountMinor x)
        \<and> 1 \<le> o_amountMinor x \<and> o_amountMinor x \<le> WINCRM_MAX_AMOUNT)
    \<and> (\<forall>r\<in>set (renewals w). \<exists>s. readWincrmPriceSnapshot (r_priceSnapshot r) = Inr s
        \<and> wincrmPrice s (r_cycle r) (r_totalSeats r) = Inr (r_amountMinor r))"
proof -
  have "\<exists>s. readWincrmPriceSnapshot v = Inr s \<and> wincrmPrice s c n = Inr a \<and> 1 \<le> a \<and> a \<le> WINCRM_MAX_AMOUNT"
    if "priced v c n a" for v c n a
    using that wincrmPrice_eq(4,5) by (auto simp: priced_def split: sum.splits)
  then show ?thesis
    using prices.reachable_rows [OF assms] unfolding rows_ok_def priced_order_def priced_renewal_def by blast
qed

theorem amounts_match_prices_witness:
  "\<exists>w x r. reachable sample_env w \<and> x \<in> set (orders w) \<and> r \<in> set (renewals w) \<and> 1 \<le> o_amountMinor x
     \<and> (\<exists>s. wincrmPrice s (r_cycle r) (r_totalSeats r) = Inr (r_amountMinor r))"
proof -
  obtain w where w: "reachable sample_env w" "length (renewals w) = 1"
      "orders w = [succeeded_order (js ''pay-1'') 1700000006000 sample_order]"
    by (rule paid_reachable)
  then obtain r where "r \<in> set (renewals w)"
    by (cases "renewals w") auto
  moreover have "succeeded_order (js ''pay-1'') 1700000006000 sample_order \<in> set (orders w)"
    using w by simp
  ultimately show ?thesis
    using amounts_match_prices [OF w(1)] w(1) by blast
qed



text \<open>
  C7. In every reachable state the confirmation page of an order, if it has one, is a page of the
  provider: HTTPS on yoomoney.ru without port, user, password or fragment, one of the two known paths,
  and the one parameter \<open>orderId\<close>.
\<close>

theorem confirmation_pages:
  assumes "reachable e w" "x \<in> set (orders w)" "o_confirmationUrl x = Some s"
  shows "\<exists>url. parse_url e s = Some url \<and> u_protocol url = ''https:'' \<and> u_hostname url = ''yoomoney.ru''
    \<and> u_port url = [] \<and> u_username url = [] \<and> u_password url = [] \<and> u_hash url = []
    \<and> u_pathname url \<in> {''/checkout/payments/v2/contract'', ''/api-pages/v2/payment-confirm/epl''}
    \<and> map fst (u_searchParams url) = [js ''orderId'']"
proof -
  have "page_order e x"
    using pages.reachable_rows [OF assms(1)] assms(2) by (simp add: rows_ok_def)
  then show ?thesis
    using assms(3) by (auto simp: page_order_def provider_page_def split: option.splits)
qed

theorem confirmation_pages_witness:
  "\<exists>w x. reachable sample_env w \<and> x \<in> set (orders w) \<and> o_confirmationUrl x = Some sample_page
     \<and> (\<exists>url. parse_url sample_env sample_page = Some url \<and> u_hostname url = ''yoomoney.ru'')"
proof -
  obtain w where run: "settleProviderOperation sample_env sample_claim sample_waiting claimed_db = Inr ((), w)"
      and rows: "orders w = [pending_again (js ''pay-1'') (js ''pending'') (Some sample_page) sample_order]"
    by (rule waiting_run)
  have w: "reachable sample_env w"
    using reachable_step [OF claimed_reachable step_settle [OF run]] .
  define x where "x = pending_again (js ''pay-1'') (js ''pending'') (Some sample_page) sample_order"
  have x: "x \<in> set (orders w)" "o_confirmationUrl x = Some sample_page"
    by (simp_all add: x_def rows pending_again_def)
  then show ?thesis
    using confirmation_pages [OF w x] w by blast
qed

end
